(* ===== verification/Prelude.thy ===== *)
theory Prelude
  imports Main "HOL-Library.Word" "HOL-Library.AList" "HOL-Library.List_Lexorder"
    "HOL-Library.Char_ord" "HOL-Library.Signed_Division"
begin

text \<open>
  Shared vocabulary of the development: the Go integers, times, byte strings and maps the
  SDK's code is written over, and the lemmas about them every component uses.

  \<^item> A Go \<open>string\<close> or \<open>[]byte\<close> is a \<open>string\<close>, a list of 8-bit characters, so
    lengths and indices count bytes and \<open><\<close> is the bytewise order (\<open>List_Lexorder\<close>).
  \<^item> An \<open>int64\<close> (also \<open>int\<close>, on the 64-bit platforms the SDK runs on) is an
    \<open>int\<close> and every operation that can overflow is written with \<open>wrap64\<close>.
  \<^item> A \<open>time.Time\<close> is its number of nanoseconds since 1 January of year 1 UTC, so the
    zero time is 0; a \<open>time.Duration\<close> is its number of nanoseconds. Monotonic clock
    readings are not modelled.
  \<^item> A Go map with string keys is an association list read with \<open>map_of\<close>; nothing here
    depends on its order, which Go does not define either.
\<close>

named_theorems codec_simps \<open>round-trip facts of the encoders and decoders\<close>
named_theorems go_defs \<open>definitions of the small accessors of the Go types\<close>

type_synonym bytes = string
type_synonym gotime = int
type_synonym duration = int
type_synonym smap = "(string \<times> string) list"

section \<open>Integers\<close>

definition wrap64 :: "int \<Rightarrow> int" where
  "wrap64 x = (x + 2 ^ 63) mod 2 ^ 64 - 2 ^ 63"

definition in64 :: "int \<Rightarrow> bool" where
  "in64 x \<longleftrightarrow> - (2 ^ 63) \<le> x \<and> x < 2 ^ 63"

lemma wrap64_id [simp]: "in64 x \<Longrightarrow> wrap64 x = x"
  by (simp add: wrap64_def in64_def)

lemma in64_wrap64 [simp]: "in64 (wrap64 x)"
proof -
  have "0 \<le> (x + 2 ^ 63) mod 2 ^ 64" "(x + 2 ^ 63) mod 2 ^ 64 < (2 ^ 64 :: int)"
    by simp_all
  then show ?thesis by (simp add: wrap64_def in64_def)
qed

lemma wrap64_add_wrap64: "wrap64 (wrap64 x + y) = wrap64 (x + y)"
proof -
  have "(wrap64 x + y + 2 ^ 63) mod 2 ^ 64 = ((x + 2 ^ 63) mod 2 ^ 64 + y) mod (2 ^ 64 :: int)"
    by (simp add: wrap64_def)
  also have "\<dots> = (x + y + 2 ^ 63) mod 2 ^ 64"
    by (simp only: mod_add_left_eq) (simp add: algebra_simps)
  finally show ?thesis by (simp add: wrap64_def)
qed

section \<open>Times and durations\<close>

abbreviation (input) second :: duration where "second \<equiv> 1000000000"

definition unixToInternal :: int where "unixToInternal = 62135596800"

text \<open>\<open>time.Unix(s, 0)\<close>, \<open>t.Unix()\<close>, \<open>t.IsZero()\<close>.\<close>

definition time_Unix :: "int \<Rightarrow> gotime" where
  "time_Unix s = wrap64 (s + unixToInternal) * second"

definition Time_Unix :: "gotime \<Rightarrow> int" where
  "Time_Unix t = wrap64 (t div second - unixToInternal)"

definition Time_IsZero :: "gotime \<Rightarrow> bool" where
  "Time_IsZero t \<longleftrightarrow> t = 0"

lemma Time_Unix_time_Unix [simp]: "in64 s \<Longrightarrow> Time_Unix (time_Unix s) = s"
  using wrap64_add_wrap64 [of "s + unixToInternal" "- unixToInternal"]
  by (simp add: Time_Unix_def time_Unix_def)

lemma time_Unix_inj: "in64 s \<Longrightarrow> in64 t \<Longrightarrow> time_Unix s = time_Unix t \<longleftrightarrow> s = t"
  by (metis Time_Unix_time_Unix)

text \<open>A duration multiplied out of seconds wraps, as \<open>time.Duration(n) * time.Second\<close> does.\<close>

definition Seconds :: "int \<Rightarrow> duration" where
  "Seconds n = wrap64 (n * second)"

lemma Seconds_small: "0 \<le> n \<Longrightarrow> n \<le> 9223372036 \<Longrightarrow> Seconds n = n * second"
  by (simp add: Seconds_def in64_def)

section \<open>Byte strings\<close>

text \<open>The functions of package \<open>strings\<close> the SDK calls.\<close>

definition HasPrefix :: "string \<Rightarrow> string \<Rightarrow> bool" where
  "HasPrefix s p \<longleftrightarrow> take (length p) s = p"

definition HasSuffix :: "string \<Rightarrow> string \<Rightarrow> bool" where
  "HasSuffix s p \<longleftrightarrow> HasPrefix (rev s) (rev p)"

fun Contains :: "string \<Rightarrow> string \<Rightarrow> bool" where
  "Contains [] p = (p = [])"
| "Contains (c # s) p = (HasPrefix (c # s) p \<or> Contains s p)"

text \<open>\<open>break_at b s\<close> is \<open>Some (s[:i], s[i+1:])\<close> for \<open>i = strings.IndexByte(s, b)\<close>.\<close>

fun break_at :: "char \<Rightarrow> string \<Rightarrow> (string \<times> string) option" where
  "break_at b [] = None"
| "break_at b (c # s) =
     (if c = b then Some ([], s)
      else map_option (\<lambda>(u, v). (c # u, v)) (break_at b s))"

text \<open>\<open>strings.Split\<close> on a one-byte separator: always at least one segment.\<close>

fun Split :: "char \<Rightarrow> string \<Rightarrow> string list" where
  "Split b [] = [[]]"
| "Split b (c # s) =
     (if c = b then [] # Split b s
      else case Split b s of [] \<Rightarrow> [[c]] | u # us \<Rightarrow> (c # u) # us)"

fun Join :: "string \<Rightarrow> string list \<Rightarrow> string" where
  "Join sep [] = []"
| "Join sep [x] = x"
| "Join sep (x # y # xs) = x @ sep @ Join sep (y # xs)"

definition toLower_byte :: "char \<Rightarrow> char" where
  "toLower_byte c = (if CHR ''A'' \<le> c \<and> c \<le> CHR ''Z'' then char_of (of_char c + (32::nat)) else c)"

definition EqualFold :: "string \<Rightarrow> string \<Rightarrow> bool" where
  "EqualFold s t \<longleftrightarrow> map toLower_byte s = map toLower_byte t"

definition TrimRight1 :: "char \<Rightarrow> string \<Rightarrow> string" where
  "TrimRight1 c s = rev (dropWhile (\<lambda>x. x = c) (rev s))"

definition Trim1 :: "char \<Rightarrow> string \<Rightarrow> string" where
  "Trim1 c s = TrimRight1 c (dropWhile (\<lambda>x. x = c) s)"

text \<open>
  \<open>strings.TrimSpace\<close>: \<open>unicode_spaces\<close> lists the UTF-8 encodings of the characters
  \<open>unicode.IsSpace\<close> accepts.
\<close>

definition unicode_spaces :: "string list" where
  "unicode_spaces =
     map (\<lambda>c. [c]) [CHR 0x09, CHR 0x0A, CHR 0x0B, CHR 0x0C, CHR 0x0D, CHR 0x20] @
     [[CHR 0xC2, CHR 0x85], [CHR 0xC2, CHR 0xA0], [CHR 0xE1, CHR 0x9A, CHR 0x80]] @
     map (\<lambda>c. [CHR 0xE2, CHR 0x80, c])
       [CHR 0x80, CHR 0x81, CHR 0x82, CHR 0x83, CHR 0x84, CHR 0x85, CHR 0x86, CHR 0x87, CHR 0x88,
        CHR 0x89, CHR 0x8A, CHR 0xA8, CHR 0xA9, CHR 0xAF] @
     [[CHR 0xE2, CHR 0x81, CHR 0x9F], [CHR 0xE3, CHR 0x80, CHR 0x80]]"

fun trim_left :: "string list \<Rightarrow> nat \<Rightarrow> string \<Rightarrow> string" where
  "trim_left ps 0 s = s"
| "trim_left ps (Suc n) s =
     (case find (HasPrefix s) ps of None \<Rightarrow> s | Some p \<Rightarrow> trim_left ps n (drop (length p) s))"

definition TrimSpace :: "string \<Rightarrow> string" where
  "TrimSpace s =
     (let l = trim_left unicode_spaces (length s) s
      in rev (trim_left (map rev unicode_spaces) (length l) (rev l)))"

definition firstNonEmpty :: "string list \<Rightarrow> string" where
  "firstNonEmpty vs = (case filter (\<lambda>v. v \<noteq> []) vs of [] \<Rightarrow> [] | v # _ \<Rightarrow> v)"

lemma HasPrefix_append [simp]: "HasPrefix (p @ s) p"
  by (simp add: HasPrefix_def)

lemma HasPrefix_iff: "HasPrefix s p \<longleftrightarrow> (\<exists>t. s = p @ t)"
  unfolding HasPrefix_def by (metis append_eq_conv_conj append_take_drop_id)

lemma break_at_None: "break_at b s = None \<longleftrightarrow> b \<notin> set s"
  by (induction b s rule: break_at.induct) auto

lemma break_at_Some: "break_at b s = Some (u, v) \<longleftrightarrow> s = u @ b # v \<and> b \<notin> set u"
  by (induction b s arbitrary: u v rule: break_at.induct) (auto simp: Cons_eq_append_conv)

lemma break_at_append [simp]: "b \<notin> set u \<Longrightarrow> break_at b (u @ b # v) = Some (u, v)"
  by (simp add: break_at_Some)

lemma break_at_none [simp]: "b \<notin> set u \<Longrightarrow> break_at b u = None"
  by (simp add: break_at_None)

lemma Split_not_Nil [simp]: "Split b s \<noteq> []"
  by (induction b s rule: Split.induct) (auto split: list.splits)

lemma Split_no_sep: "b \<notin> set s \<Longrightarrow> Split b s = [s]"
  by (induction b s rule: Split.induct) auto

lemma Split_append_sep: "b \<notin> set u \<Longrightarrow> Split b (u @ b # v) = u # Split b v"
  by (induction u) auto

lemma set_Split: "x \<in> set (Split b s) \<Longrightarrow> b \<notin> set x"
proof (induction b s arbitrary: x rule: Split.induct)
  case (2 b c s)
  then show ?case by (cases "Split b s") (auto split: if_splits)
qed simp

lemma Join_Split: "Join [b] (Split b s) = s"
proof (induction b s rule: Split.induct)
  case (2 b c s)
  show ?case
  proof (cases "Split b s")
    case (Cons u us)
    with 2 show ?thesis by (cases us) auto
  qed simp
qed simp

lemma Split_Join:
  "xs \<noteq> [] \<Longrightarrow> (\<And>x. x \<in> set xs \<Longrightarrow> b \<notin> set x) \<Longrightarrow> Split b (Join [b] xs) = xs"
  by (induction "[b]" xs rule: Join.induct) (auto simp: Split_no_sep Split_append_sep)

section \<open>Decimal numerals\<close>

text \<open>\<open>strconv.FormatInt(n, 10)\<close> and \<open>strconv.ParseInt(s, 10, 64)\<close>.\<close>

definition digit :: "nat \<Rightarrow> char" where "digit d = char_of (48 + d)"

fun nat_dec :: "nat \<Rightarrow> string" where
  "nat_dec n = (if n < 10 then [digit n] else nat_dec (n div 10) @ [digit (n mod 10)])"

declare nat_dec.simps [simp del]

definition FormatInt :: "int \<Rightarrow> string" where
  "FormatInt n = (if n < 0 then CHR ''-'' # nat_dec (nat (- n)) else nat_dec (nat n))"

definition isDigit :: "char \<Rightarrow> bool" where
  "isDigit c \<longleftrightarrow> CHR ''0'' \<le> c \<and> c \<le> CHR ''9''"

definition digits_val :: "string \<Rightarrow> nat" where
  "digits_val s = foldl (\<lambda>a c. a * 10 + (of_char c - 48)) 0 s"

definition ParseInt :: "string \<Rightarrow> int option" where
  "ParseInt s =
     (let neg = (case s of c # _ \<Rightarrow> c = CHR ''-'' | [] \<Rightarrow> False);
          body = (case s of c # r \<Rightarrow> if c = CHR ''-'' \<or> c = CHR ''+'' then r else s | [] \<Rightarrow> [])
      in if body = [] \<or> \<not> list_all isDigit body then None
         else let n = (if neg then - int (digits_val body) else int (digits_val body))
              in if in64 n then Some n else None)"

lemma of_char_digit: "d < 10 \<Longrightarrow> of_char (digit d) = 48 + d"
  by (simp add: digit_def)

lemma isDigit_digit [simp]: "d < 10 \<Longrightarrow> isDigit (digit d)"
  by (simp add: isDigit_def digit_def less_eq_char_def)

lemma digit_not_sign [simp]: "d < 10 \<Longrightarrow> digit d \<noteq> CHR ''-''" "d < 10 \<Longrightarrow> digit d \<noteq> CHR ''+''"
  using of_char_digit [of d] by (auto dest: arg_cong [where f = "of_char :: char \<Rightarrow> nat"])

lemma nat_dec_facts:
  "nat_dec n \<noteq> [] \<and> list_all isDigit (nat_dec n) \<and> digits_val (nat_dec n) = n \<and>
   hd (nat_dec n) \<noteq> CHR ''-'' \<and> hd (nat_dec n) \<noteq> CHR ''+''"
proof (induction n rule: nat_dec.induct)
  case (1 n)
  show ?case
  proof (cases "n < 10")
    case True
    then show ?thesis by (simp add: nat_dec.simps [of n] digits_val_def of_char_digit)
  next
    case False
    with 1 have ih: "nat_dec (n div 10) \<noteq> []" "list_all isDigit (nat_dec (n div 10))"
      "digits_val (nat_dec (n div 10)) = n div 10" "hd (nat_dec (n div 10)) \<noteq> CHR ''-''"
      "hd (nat_dec (n div 10)) \<noteq> CHR ''+''" by simp_all
    from False have eq: "nat_dec n = nat_dec (n div 10) @ [digit (n mod 10)]"
      by (simp add: nat_dec.simps [of n])
    show ?thesis using ih
      by (simp add: eq digits_val_def of_char_digit)
  qed
qed

lemma nat_dec_not_Nil [simp]: "nat_dec n \<noteq> []"
  using nat_dec_facts by blast

lemma FormatInt_not_Nil [simp]: "FormatInt n \<noteq> []"
  by (simp add: FormatInt_def)

lemma ParseInt_FormatInt [simp, codec_simps]:
  assumes "in64 n"
  shows "ParseInt (FormatInt n) = Some n"
proof -
  obtain c r where cr: "nat_dec (nat \<bar>n\<bar>) = c # r" by (cases "nat_dec (nat \<bar>n\<bar>)") auto
  from nat_dec_facts [of "nat \<bar>n\<bar>"] cr
  have "list_all isDigit (c # r)" "digits_val (c # r) = nat \<bar>n\<bar>" "c \<noteq> CHR ''-''" "c \<noteq> CHR ''+''"
    by auto
  with assms cr show ?thesis by (cases "n < 0") (auto simp: FormatInt_def ParseInt_def)
qed

section \<open>Options, lists, maps\<close>

fun find_first :: "('a \<Rightarrow> 'b option) \<Rightarrow> 'a list \<Rightarrow> 'b option" where
  "find_first f [] = None"
| "find_first f (x # xs) = (case f x of None \<Rightarrow> find_first f xs | Some y \<Rightarrow> Some y)"

lemma find_first_Some: "find_first f xs = Some y \<Longrightarrow> \<exists>x \<in> set xs. f x = Some y"
  by (induction xs) (auto split: option.splits)

lemma find_first_None [simp]: "find_first f xs = None \<longleftrightarrow> (\<forall>x \<in> set xs. f x = None)"
  by (induction xs) (auto split: option.splits)

text \<open>Two association lists are the same Go map when they look up alike.\<close>

definition same_map :: "('k \<times> 'v) list \<Rightarrow> ('k \<times> 'v) list \<Rightarrow> bool" where
  "same_map m n \<longleftrightarrow> map_of m = map_of n"

definition wf_map :: "('k \<times> 'v) list \<Rightarrow> bool" where
  "wf_map m \<longleftrightarrow> distinct (map fst m)"

lemma length_update_le: "length (AList.update k v m) \<le> Suc (length m)"
  by (induction m) auto

lemma set_update_subset: "set (AList.update k v m) \<subseteq> insert (k, v) (set m)"
  by (induction m) auto

lemma wf_map_update [simp]: "wf_map m \<Longrightarrow> wf_map (AList.update k v m)"
  by (simp add: wf_map_def distinct_update)

lemma wf_map_Nil [simp]: "wf_map []"
  by (simp add: wf_map_def)

lemma same_map_keys: "same_map m n \<Longrightarrow> fst ` set m = fst ` set n"
  unfolding same_map_def by (metis dom_map_of_conv_image_fst)

lemma sort_cong_set: "distinct xs \<Longrightarrow> distinct ys \<Longrightarrow> set xs = set ys \<Longrightarrow> sort xs = sort (ys :: 'a :: linorder list)"
  by (metis sorted_list_of_set_sort_remdups distinct_remdups_id)

end
