(* ===== verification/Json.thy ===== *)
theory Json
  imports Prelude
begin

text \<open>
  Package \<open>encoding/json\<close> as the SDK uses it. A \<open>json\<close> value keeps the raw text of its
  string and number literals (between the quotes, escapes not yet resolved), because
  custom \<open>UnmarshalJSON\<close> methods see that text; \<open>unquote\<close> resolves it.

  \<^item> \<open>parse_value\<close> reads one value and returns the rest, as \<open>Decoder.Decode\<close> does;
    \<open>parse_json\<close> accepts nothing but white space after it, as \<open>Unmarshal\<close> does. The
    parser recurses on fuel; \<open>parse_fuel\<close> shows that the fuel \<open>parse_value\<close> passes is
    enough, so \<open>None\<close> means a syntax error. Go's nesting limit of 10000 is not modelled.
  \<^item> \<open>decode_struct\<close> stores an object into a Go struct: each member goes to the field of
    that name, or else of that name up to case; unknown members are skipped, later
    duplicates win, \<open>null\<close> leaves a plain field alone, and a member of the wrong type is
    an error. The SDK never reads a value whose decoding reported an error, so the model
    drops it.
\<close>

section \<open>Syntax\<close>

datatype json =
    JNull
  | JBool bool
  | JNum string
  | JStr string
  | JArr "json list"
  | JObj "(string \<times> json) list"

definition is_ws :: "char \<Rightarrow> bool" where
  "is_ws c \<longleftrightarrow> c = CHR '' '' \<or> c = CHR 0x09 \<or> c = CHR 0x0A \<or> c = CHR 0x0D"

abbreviation skip_ws :: "string \<Rightarrow> string" where
  "skip_ws \<equiv> dropWhile is_ws"

definition hex_val :: "char \<Rightarrow> nat option" where
  "hex_val c =
     (let k = of_char c in
      if 48 \<le> k \<and> k \<le> 57 then Some (k - 48)
      else if 97 \<le> k \<and> k \<le> 102 then Some (k - 87)
      else if 65 \<le> k \<and> k \<le> 70 then Some (k - 55) else None)"

definition hex4 :: "string \<Rightarrow> nat option" where
  "hex4 s =
     (case map hex_val (take 4 s) of
        [Some a, Some b, Some c, Some d] \<Rightarrow> Some (((a * 16 + b) * 16 + c) * 16 + d)
      | _ \<Rightarrow> None)"

text \<open>The raw text of a string literal: up to the closing quote, escapes checked.\<close>

function (sequential) raw_string :: "string \<Rightarrow> (string \<times> string) option" where
  "raw_string [] = None"
| "raw_string (c # r) =
     (if c = CHR 0x22 then Some ([], r)
      else if c < CHR 0x20 then None
      else if c = CHR 0x5C then
        (case r of
           [] \<Rightarrow> None
         | e # r' \<Rightarrow>
             if e \<in> {CHR 0x22, CHR 0x5C, CHR ''/'', CHR ''b'', CHR ''f'', CHR ''n'', CHR ''r'', CHR ''t''}
             then map_option (\<lambda>(u, v). (c # e # u, v)) (raw_string r')
             else if e = CHR ''u'' \<and> hex4 r' \<noteq> None
             then map_option (\<lambda>(u, v). (c # e # take 4 r' @ u, v)) (raw_string (drop 4 r'))
             else None)
      else map_option (\<lambda>(u, v). (c # u, v)) (raw_string r))"
  by pat_completeness auto
termination by (relation "measure length") auto

text \<open>Number literals: sign, integer part, fraction, exponent, each with what follows it.\<close>

definition sign_part :: "string \<Rightarrow> string \<times> string" where
  "sign_part s = (if HasPrefix s ''-'' then (''-'', drop 1 s) else ([], s))"

definition frac_part :: "string \<Rightarrow> string \<times> string" where
  "frac_part s =
     (if HasPrefix s ''.'' then (''.'' @ takeWhile isDigit (drop 1 s), dropWhile isDigit (drop 1 s))
      else ([], s))"

definition exp_part :: "string \<Rightarrow> string \<times> string" where
  "exp_part s =
     (if HasPrefix s ''e'' \<or> HasPrefix s ''E'' then
        (let t = drop 1 s;
             sg = (if HasPrefix t ''+'' \<or> HasPrefix t ''-'' then take 1 t else []);
             t' = drop (length sg) t
         in (take 1 s @ sg @ takeWhile isDigit t', dropWhile isDigit t'))
      else ([], s))"

definition number_lit :: "string \<Rightarrow> (string \<times> string) option" where
  "number_lit s =
     (let (sign, s1) = sign_part s in
      case s1 of
        [] \<Rightarrow> None
      | d # t \<Rightarrow>
          if \<not> isDigit d then None
          else let (ip, s2) = (if d = CHR ''0'' then ([d], t)
                               else (d # takeWhile isDigit t, dropWhile isDigit t));
                   (fp, s3) = frac_part s2;
                   (ex, s4) = exp_part s3
               in if fp = ''.'' \<or> (ex \<noteq> [] \<and> \<not> isDigit (last ex)) then None
                  else Some (sign @ ip @ fp @ ex, s4))"

definition lit :: "string \<Rightarrow> json \<Rightarrow> string \<Rightarrow> (json \<times> string) option" where
  "lit w v s = (if HasPrefix s w then Some (v, drop (length w) s) else None)"

fun jval :: "nat \<Rightarrow> string \<Rightarrow> (json \<times> string) option"
and jelems :: "nat \<Rightarrow> string \<Rightarrow> (json list \<times> string) option"
and jmembers :: "nat \<Rightarrow> string \<Rightarrow> ((string \<times> json) list \<times> string) option"
where
  "jval 0 s = None"
| "jval (Suc n) s =
     (case skip_ws s of
        [] \<Rightarrow> None
      | c # r \<Rightarrow>
          if c = CHR 0x22 then map_option (\<lambda>(raw, r'). (JStr raw, r')) (raw_string r)
          else if c = CHR ''['' then
            (if HasPrefix (skip_ws r) '']'' then Some (JArr [], drop 1 (skip_ws r))
             else map_option (\<lambda>(vs, r'). (JArr vs, r')) (jelems n r))
          else if c = CHR ''{'' then
            (if HasPrefix (skip_ws r) ''}'' then Some (JObj [], drop 1 (skip_ws r))
             else map_option (\<lambda>(ms, r'). (JObj ms, r')) (jmembers n r))
          else if c = CHR ''t'' then lit ''true'' (JBool True) (c # r)
          else if c = CHR ''f'' then lit ''false'' (JBool False) (c # r)
          else if c = CHR ''n'' then lit ''null'' JNull (c # r)
          else map_option (\<lambda>(l, r'). (JNum l, r')) (number_lit (c # r)))"
| "jelems 0 s = None"
| "jelems (Suc n) s =
     (case jval n s of
        None \<Rightarrow> None
      | Some (v, r) \<Rightarrow>
          (case skip_ws r of
             [] \<Rightarrow> None
           | c # r' \<Rightarrow>
               if c = CHR '']'' then Some ([v], r')
               else if c = CHR '','' then map_option (\<lambda>(vs, q). (v # vs, q)) (jelems n r')
               else None))"
| "jmembers 0 s = None"
| "jmembers (Suc n) s =
     (case skip_ws s of
        [] \<Rightarrow> None
      | q # s1 \<Rightarrow>
          if q \<noteq> CHR 0x22 then None
          else (case raw_string s1 of
             None \<Rightarrow> None
           | Some (k, s2) \<Rightarrow>
               (case skip_ws s2 of
                  [] \<Rightarrow> None
                | c # s3 \<Rightarrow>
                    if c \<noteq> CHR '':'' then None
                    else (case jval n s3 of
                       None \<Rightarrow> None
                     | Some (v, r) \<Rightarrow>
                         (case skip_ws r of
                            [] \<Rightarrow> None
                          | d # r' \<Rightarrow>
                              if d = CHR ''}'' then Some ([(k, v)], r')
                              else if d = CHR '','' then
                                map_option (\<lambda>(ms, q). ((k, v) # ms, q)) (jmembers n r')
                              else None)))))"

definition parse_value :: "string \<Rightarrow> (json \<times> string) option" where
  "parse_value s = jval (2 * length s + 2) s"

definition parse_json :: "string \<Rightarrow> json option" where
  "parse_json s =
     (case parse_value s of
        None \<Rightarrow> None
      | Some (v, r) \<Rightarrow> if skip_ws r = [] then Some v else None)"

section \<open>The fuel is enough\<close>

lemma raw_string_cases:
  assumes "raw_string (c # s) = Some (u, r)"
  obtains "r = s"
  | t u' where "length t \<le> length s" "raw_string t = Some (u', r)"
proof (cases "c = CHR 0x22")
  case True
  with assms that show ?thesis by simp
next
  case nq: False
  show ?thesis
  proof (cases "c = CHR 0x5C")
    case True
    with assms obtain e s' where s: "s = e # s'" by (cases s) auto
    with assms True consider u' where "raw_string s' = Some (u', r)"
      | u' where "raw_string (drop 4 s') = Some (u', r)"
      by (auto split: if_splits)
    then show ?thesis
    proof cases
      case 1
      then show ?thesis using that(2) [of s'] s by simp
    next
      case 2
      then show ?thesis using that(2) [of "drop 4 s'"] s by simp
    qed
  next
    case False
    with nq assms that(2) [of s] show ?thesis by (auto split: if_splits)
  qed
qed

lemma raw_string_shorter: "raw_string s = Some (u, r) \<Longrightarrow> length r < length s"
proof (induction s arbitrary: u r rule: length_induct)
  case (1 s)
  then show ?case
  proof (cases s)
    case (Cons c s')
    with "1.prems" have "raw_string (c # s') = Some (u, r)" by simp
    then show ?thesis
    proof (cases rule: raw_string_cases)
      case 1
      with Cons show ?thesis by simp
    next
      case (2 t u')
      with Cons have t: "length t < length s" by simp
      with "1.IH" 2 have "length r < length t" by blast
      with t show ?thesis by simp
    qed
  qed simp
qed

lemma dropWhile_le: "length (dropWhile P (drop n s)) \<le> length s"
  using length_dropWhile_le [of P "drop n s"] by simp

lemma parts_shorter:
  "length (snd (sign_part s)) \<le> length s"
  "length (snd (frac_part s)) \<le> length s"
  "length (snd (exp_part s)) \<le> length s"
  using dropWhile_le [of isDigit _ s]
  by (simp_all add: sign_part_def frac_part_def exp_part_def Let_def drop_drop del: One_nat_def)

lemma number_lit_shorter:
  assumes "number_lit s = Some (u, r)"
  shows "length r < length s"
proof -
  obtain sign s1 where s1: "sign_part s = (sign, s1)" by fastforce
  from assms s1 obtain d t where dt: "s1 = d # t" by (auto simp: number_lit_def split: list.splits)
  obtain ip s2 where s2: "(if d = CHR ''0'' then ([d], t)
      else (d # takeWhile isDigit t, dropWhile isDigit t)) = (ip, s2)" by fastforce
  obtain fp s3 where s3: "frac_part s2 = (fp, s3)" by fastforce
  obtain ex s4 where s4: "exp_part s3 = (ex, s4)" by fastforce
  from assms s1 dt s2 s3 s4 have "r = s4"
    by (simp add: number_lit_def split: if_splits)
  moreover have "length s2 \<le> length t" using s2 length_dropWhile_le [of isDigit t] by (auto split: if_splits)
  moreover have "length (d # t) \<le> length s" using parts_shorter(1) [of s] s1 dt by simp
  moreover have "length s3 \<le> length s2" "length s4 \<le> length s3"
    using parts_shorter(2) [of s2] parts_shorter(3) [of s3] s3 s4 by simp_all
  ultimately show ?thesis by simp
qed

lemma skip_ws_le: "length (skip_ws s) \<le> length s"
  by (rule length_dropWhile_le)

lemma lit_shorter: "lit w v s = Some (x, r) \<Longrightarrow> w \<noteq> [] \<Longrightarrow> length r < length s"
  by (cases s) (auto simp: lit_def HasPrefix_def split: if_splits)

lemma skip_ws_Cons: "skip_ws s = c # r \<Longrightarrow> length r < length s"
  using skip_ws_le [of s] by simp

lemma j_shorter:
  "jval n s = Some (v, r) \<Longrightarrow> length r < length s"
  "jelems n s = Some (vs, r) \<Longrightarrow> length r < length s"
  "jmembers n s = Some (ms, r) \<Longrightarrow> length r < length s"
proof (induction n s and n s and n s arbitrary: v r and vs r and ms r
    rule: jval_jelems_jmembers.induct)
  case (2 n s)
  then obtain c t where ct: "skip_ws s = c # t" by (auto split: list.splits)
  have t: "length (c # t) \<le> length s" using skip_ws_le [of s] ct by simp
  have u: "length (drop 1 (skip_ws t)) \<le> length t" using skip_ws_le [of t] by simp
  show ?case
    using 2 ct t u
    by (fastforce split: if_splits dest: raw_string_shorter number_lit_shorter lit_shorter)
next
  case (4 n s)
  then obtain v' r' where v': "jval n s = Some (v', r')" by (auto split: option.splits)
  with "4.IH"(1) have "length r' < length s" by blast
  with "4.prems" v' "4.IH"(2) [OF v'] show ?case
    by (fastforce split: list.splits if_splits dest: skip_ws_Cons)
next
  case (6 n s)
  then show ?case
    by (fastforce split: list.splits if_splits option.splits prod.splits
        dest!: skip_ws_Cons raw_string_shorter)
qed auto

lemma j_fuel_step:
  "(2 * length s < n \<longrightarrow> jval (Suc n) s = jval n s) \<and>
   (2 * length s + 1 < n \<longrightarrow> jelems (Suc n) s = jelems n s) \<and>
   (2 * length s + 1 < n \<longrightarrow> jmembers (Suc n) s = jmembers n s)"
proof (induction n arbitrary: s)
  case (Suc n)
  have v: "jval (Suc n) t = jval n t" if "2 * length t < n" for t using Suc.IH that by blast
  have e: "jelems (Suc n) t = jelems n t" if "2 * length t + 1 < n" for t using Suc.IH that by blast
  have m: "jmembers (Suc n) t = jmembers n t" if "2 * length t + 1 < n" for t using Suc.IH that by blast
  have "jval (Suc (Suc n)) s = jval (Suc n) s" if "2 * length s < Suc n"
  proof (cases "skip_ws s")
    case (Cons c r)
    with skip_ws_Cons have "length r < length s" by blast
    with that have "2 * length r + 1 < n" by simp
    from e [OF this] m [OF this] Cons show ?thesis by (simp add: jval.simps(2) del: jelems.simps jmembers.simps)
  next
    case Nil
    then show ?thesis by (simp only: jval.simps list.case)
  qed
  moreover have "jelems (Suc (Suc n)) s = jelems (Suc n) s" if n: "2 * length s + 1 < Suc n"
  proof -
    have v': "jval (Suc n) s = jval n s" using n by (intro v) simp
    show ?thesis
    proof (cases "jval n s")
      case (Some p)
      obtain x r where p: "p = (x, r)" by fastforce
      show ?thesis
      proof (cases "skip_ws r")
        case (Cons c r')
        with skip_ws_Cons j_shorter(1) Some p have "length r' < length r" "length r < length s" by blast+
        with n have "2 * length r' + 1 < n" by simp
        from e [OF this] v' Some p Cons show ?thesis by (simp del: jval.simps dropWhile_eq_Nil_conv)
      qed (use v' Some p in \<open>simp del: jval.simps dropWhile_eq_Nil_conv\<close>)
    qed (use v' in \<open>simp del: jval.simps dropWhile_eq_Nil_conv\<close>)
  qed
  moreover have "jmembers (Suc (Suc n)) s = jmembers (Suc n) s" if n: "2 * length s + 1 < Suc n"
  proof (cases "skip_ws s")
    case sk: (Cons q s1)
    show ?thesis
    proof (cases "raw_string s1")
      case (Some p)
      obtain k s2 where p: "p = (k, s2)" by fastforce
      show ?thesis
      proof (cases "skip_ws s2")
        case sk2: (Cons c s3)
        have s3: "length s3 + 2 \<le> length s"
          using skip_ws_Cons [OF sk] skip_ws_Cons [OF sk2] raw_string_shorter Some p by fastforce
        then have v': "jval (Suc n) s3 = jval n s3" using n by (intro v) simp
        show ?thesis
        proof (cases "jval n s3")
          case vS: (Some p')
          obtain x r where p': "p' = (x, r)" by fastforce
          show ?thesis
          proof (cases "skip_ws r")
            case sk4: (Cons d r')
            with skip_ws_Cons j_shorter(1) vS p' have "length r' < length r" "length r < length s3" by blast+
            with n s3 have "2 * length r' + 1 < n" by simp
            from m [OF this] v' vS p' sk sk2 sk4 Some p show ?thesis by (simp del: jval.simps dropWhile_eq_Nil_conv)
          qed (use v' vS p' sk sk2 Some p in \<open>simp del: jval.simps dropWhile_eq_Nil_conv\<close>)
        qed (use v' sk sk2 Some p in \<open>simp del: jval.simps dropWhile_eq_Nil_conv\<close>)
      qed (use sk Some p in \<open>simp del: dropWhile_eq_Nil_conv\<close>)
    qed (use sk in \<open>simp del: dropWhile_eq_Nil_conv\<close>)
  qed (simp del: dropWhile_eq_Nil_conv)
  ultimately show ?case by blast
qed simp

lemma parse_fuel: "2 * length s < n \<Longrightarrow> jval (n + k) s = jval n s"
proof (induction k)
  case (Suc k)
  then have "jval (Suc (n + k)) s = jval (n + k) s" using j_fuel_step [of s "n + k"] by simp
  with Suc show ?case by (simp del: jval.simps)
qed simp

lemma parse_value_fuel: "2 * length s + 2 \<le> n \<Longrightarrow> jval n s = parse_value s"
proof -
  assume "2 * length s + 2 \<le> n"
  then obtain k where n: "n = 2 * length s + 2 + k" using le_Suc_ex by blast
  show ?thesis unfolding n parse_value_def by (rule parse_fuel) simp
qed

section \<open>Resolving string literals\<close>

definition is_cont :: "char \<Rightarrow> bool" where
  "is_cont c \<longleftrightarrow> CHR 0x80 \<le> c \<and> c \<le> CHR 0xBF"

text \<open>The length of the well-formed UTF-8 sequence at the head, 0 if there is none.\<close>

definition utf8_len :: "string \<Rightarrow> nat" where
  "utf8_len s =
     (let lead = (\<lambda>lo hi. s \<noteq> [] \<and> lo \<le> hd s \<and> hd s \<le> hi);
          c = (\<lambda>i. i < length s \<and> is_cont (s ! i));
          r = (\<lambda>lo hi. 1 < length s \<and> lo \<le> s ! 1 \<and> s ! 1 \<le> hi)
      in if lead (CHR 0x00) (CHR 0x7F) then 1
         else if lead (CHR 0xC2) (CHR 0xDF) \<and> c 1 then 2
         else if lead (CHR 0xE0) (CHR 0xE0) \<and> r (CHR 0xA0) (CHR 0xBF) \<and> c 2 then 3
         else if (lead (CHR 0xE1) (CHR 0xEC) \<or> lead (CHR 0xEE) (CHR 0xEF)) \<and> c 1 \<and> c 2 then 3
         else if lead (CHR 0xED) (CHR 0xED) \<and> r (CHR 0x80) (CHR 0x9F) \<and> c 2 then 3
         else if lead (CHR 0xF0) (CHR 0xF0) \<and> r (CHR 0x90) (CHR 0xBF) \<and> c 2 \<and> c 3 then 4
         else if lead (CHR 0xF1) (CHR 0xF3) \<and> c 1 \<and> c 2 \<and> c 3 then 4
         else if lead (CHR 0xF4) (CHR 0xF4) \<and> r (CHR 0x80) (CHR 0x8F) \<and> c 2 \<and> c 3 then 4
         else 0)"

definition rune_error :: string where
  "rune_error = [CHR 0xEF, CHR 0xBF, CHR 0xBD]"

definition utf8_rune :: "nat \<Rightarrow> string" where
  "utf8_rune k =
     (if k < 0x80 then [char_of k]
      else if k < 0x800 then [char_of (0xC0 + k div 64), char_of (0x80 + k mod 64)]
      else if k < 0x10000 then
        [char_of (0xE0 + k div 4096), char_of (0x80 + k div 64 mod 64), char_of (0x80 + k mod 64)]
      else [char_of (0xF0 + k div 262144), char_of (0x80 + k div 4096 mod 64),
            char_of (0x80 + k div 64 mod 64), char_of (0x80 + k mod 64)])"

definition is_surrogate :: "nat \<Rightarrow> bool" where
  "is_surrogate k \<longleftrightarrow> 0xD800 \<le> k \<and> k < 0xE000"

definition simple_escape :: "char \<Rightarrow> char" where
  "simple_escape e =
     (if e = CHR ''b'' then CHR 0x08 else if e = CHR ''f'' then CHR 0x0C
      else if e = CHR ''n'' then CHR 0x0A else if e = CHR ''r'' then CHR 0x0D
      else if e = CHR ''t'' then CHR 0x09 else e)"

function (sequential) unquote :: "string \<Rightarrow> string" where
  "unquote [] = []"
| "unquote (c # r) =
     (if c = CHR 0x5C then
        (case r of
           [] \<Rightarrow> []
         | e # r' \<Rightarrow>
             if e \<noteq> CHR ''u'' then simple_escape e # unquote r'
             else case hex4 r' of
               None \<Rightarrow> []
             | Some k \<Rightarrow>
                 if \<not> is_surrogate k then utf8_rune k @ unquote (drop 4 r')
                 else (case (if take 2 (drop 4 r') = [CHR 0x5C, CHR ''u''] then hex4 (drop 6 r') else None) of
                   Some l \<Rightarrow>
                     if k < 0xDC00 \<and> 0xDC00 \<le> l \<and> l < 0xE000
                     then utf8_rune ((k - 0xD800) * 1024 + (l - 0xDC00) + 0x10000) @ unquote (drop 10 r')
                     else rune_error @ unquote (drop 4 r')
                 | None \<Rightarrow> rune_error @ unquote (drop 4 r')))
      else if c < CHR 0x80 then c # unquote r
      else if utf8_len (c # r) = 0 then rune_error @ unquote r
      else c # take (utf8_len (c # r) - 1) r @ unquote (drop (utf8_len (c # r) - 1) r))"
  by pat_completeness auto
termination by (relation "measure length") auto

definition plain_char :: "char \<Rightarrow> bool" where
  "plain_char c \<longleftrightarrow> CHR 0x20 \<le> c \<and> c < CHR 0x80 \<and> c \<noteq> CHR 0x22 \<and> c \<noteq> CHR 0x5C"

lemma unquote_plain [simp]: "list_all plain_char s \<Longrightarrow> unquote s = s"
  by (induction s) (auto simp: plain_char_def)

section \<open>Decoding into structs\<close>

type_synonym 'r setter = "json \<Rightarrow> 'r \<Rightarrow> 'r option"

text \<open>Names compare up to simple case folding; two non-ASCII letters fold to k and s.\<close>

fun fold_name :: "string \<Rightarrow> string" where
  "fold_name (a # b # c # s) =
     (if a = CHR 0xE2 \<and> b = CHR 0x84 \<and> c = CHR 0xAA then CHR ''k'' # fold_name s
      else if a = CHR 0xC5 \<and> b = CHR 0xBF then CHR ''s'' # fold_name (c # s)
      else toLower_byte a # fold_name (b # c # s))"
| "fold_name [a, b] =
     (if a = CHR 0xC5 \<and> b = CHR 0xBF then ''s'' else [toLower_byte a, toLower_byte b])"
| "fold_name s = map toLower_byte s"

definition field_for :: "(string \<times> 'r setter) list \<Rightarrow> string \<Rightarrow> 'r setter option" where
  "field_for fs key =
     (case map_of fs key of
        Some f \<Rightarrow> Some f
      | None \<Rightarrow> find_first (\<lambda>(n, f). if fold_name n = fold_name key
                                     then Some f else None) fs)"

fun decode_members :: "(string \<times> 'r setter) list \<Rightarrow> (string \<times> json) list \<Rightarrow> 'r \<Rightarrow> 'r option" where
  "decode_members fs [] r = Some r"
| "decode_members fs ((raw, v) # ms) r =
     (case field_for fs (unquote raw) of
        None \<Rightarrow> decode_members fs ms r
      | Some f \<Rightarrow> (case f v r of None \<Rightarrow> None | Some r' \<Rightarrow> decode_members fs ms r'))"

fun decode_struct :: "(string \<times> 'r setter) list \<Rightarrow> json \<Rightarrow> 'r \<Rightarrow> 'r option" where
  "decode_struct fs (JObj ms) r = decode_members fs ms r"
| "decode_struct fs JNull r = Some r"
| "decode_struct fs _ r = None"

fun to_string :: "json \<Rightarrow> string option" where
  "to_string (JStr raw) = Some (unquote raw)"
| "to_string JNull = Some []"
| "to_string _ = None"

fun set_string :: "(string \<Rightarrow> 'r \<Rightarrow> 'r) \<Rightarrow> 'r setter" where
  "set_string upd (JStr raw) r = Some (upd (unquote raw) r)"
| "set_string upd JNull r = Some r"
| "set_string upd _ r = None"

fun set_bool :: "(bool \<Rightarrow> 'r \<Rightarrow> 'r) \<Rightarrow> 'r setter" where
  "set_bool upd (JBool b) r = Some (upd b r)"
| "set_bool upd JNull r = Some r"
| "set_bool upd _ r = None"

fun set_int :: "(int \<Rightarrow> 'r \<Rightarrow> 'r) \<Rightarrow> 'r setter" where
  "set_int upd (JNum l) r = map_option (\<lambda>n. upd n r) (ParseInt l)"
| "set_int upd JNull r = Some r"
| "set_int upd _ r = None"

fun set_strings :: "(string list \<Rightarrow> 'r \<Rightarrow> 'r) \<Rightarrow> 'r setter" where
  "set_strings upd (JArr vs) r = map_option (\<lambda>xs. upd xs r) (those (map to_string vs))"
| "set_strings upd JNull r = Some (upd [] r)"
| "set_strings upd _ r = None"

text \<open>
  A \<open>map[string]string\<close>: a repeated member adds to the map it already filled. Both
  functions take the current map.
\<close>

fun to_smap :: "json \<Rightarrow> smap \<Rightarrow> smap option" where
  "to_smap (JObj []) m = Some m"
| "to_smap (JObj ((raw, v) # ms)) m =
     (case to_string v of
        None \<Rightarrow> None
      | Some s \<Rightarrow> to_smap (JObj ms) (AList.update (unquote raw) s m))"
| "to_smap JNull m = Some []"
| "to_smap _ m = None"

definition set_smap :: "('r \<Rightarrow> smap) \<Rightarrow> (smap \<Rightarrow> 'r \<Rightarrow> 'r) \<Rightarrow> 'r setter" where
  "set_smap get upd v r = map_option (\<lambda>m. upd m r) (to_smap v (get r))"

text \<open>A pointer to a struct: \<open>null\<close> makes it nil, an object fills a fresh or present one.\<close>

definition set_ptr :: "('r \<Rightarrow> 'a option) \<Rightarrow> ('a option \<Rightarrow> 'r \<Rightarrow> 'r) \<Rightarrow> 'a \<Rightarrow> (json \<Rightarrow> 'a \<Rightarrow> 'a option) \<Rightarrow> 'r setter" where
  "set_ptr get upd zero dec v r =
     (case v of
        JNull \<Rightarrow> Some (upd None r)
      | _ \<Rightarrow> map_option (\<lambda>a. upd (Some a) r)
               (dec v (case get r of Some a \<Rightarrow> a | None \<Rightarrow> zero)))"

fun set_list :: "('a list \<Rightarrow> 'r \<Rightarrow> 'r) \<Rightarrow> 'a \<Rightarrow> (json \<Rightarrow> 'a \<Rightarrow> 'a option) \<Rightarrow> 'r setter" where
  "set_list upd zero dec (JArr vs) r = map_option (\<lambda>xs. upd xs r) (those (map (\<lambda>v. dec v zero) vs))"
| "set_list upd zero dec JNull r = Some (upd [] r)"
| "set_list upd zero dec _ r = None"

text \<open>A \<open>json.RawMessage\<close> keeps the value, \<open>null\<close> included.\<close>

definition set_raw :: "(json option \<Rightarrow> 'r \<Rightarrow> 'r) \<Rightarrow> 'r setter" where
  "set_raw upd v r = Some (upd (Some v) r)"

definition unmarshal :: "(json \<Rightarrow> 'r \<Rightarrow> 'r option) \<Rightarrow> 'r \<Rightarrow> bytes \<Rightarrow> 'r option" where
  "unmarshal dec zero raw = Option.bind (parse_json raw) (\<lambda>v. dec v zero)"

definition decode_first :: "(json \<Rightarrow> 'r \<Rightarrow> 'r option) \<Rightarrow> 'r \<Rightarrow> bytes \<Rightarrow> 'r option" where
  "decode_first dec zero raw = Option.bind (parse_value raw) (\<lambda>(v, rest). dec v zero)"

text \<open>\<open>Unmarshal\<close> is the stricter of the two: it also refuses what follows the value.\<close>

lemma unmarshal_decode_first: "unmarshal dec zero raw = Some x \<Longrightarrow> decode_first dec zero raw = Some x"
  by (auto simp: unmarshal_def decode_first_def parse_json_def bind_eq_Some_conv split: option.splits if_splits)

section \<open>Marshalling\<close>

text \<open>
  The Go values the SDK hands to \<open>json.Marshal\<close>. Maps are written with their keys sorted,
  structs in field order; strings are escaped as Go does by default, HTML characters,
  U+2028, U+2029 and invalid UTF-8 included.
\<close>

datatype goval =
    GNull
  | GBool bool
  | GInt int
  | GStr string
  | GList "goval list"
  | GMap "(string \<times> goval) list"
  | GStruct "(string \<times> goval) list"

definition hex_char :: "nat \<Rightarrow> char" where
  "hex_char n = (if n < 10 then char_of (48 + n) else char_of (87 + n))"

definition u_escape :: "nat \<Rightarrow> string" where
  "u_escape k = [CHR 0x5C, CHR ''u'', hex_char (k div 4096), hex_char (k div 256 mod 16),
     hex_char (k div 16 mod 16), hex_char (k mod 16)]"

function (sequential) escape :: "string \<Rightarrow> string" where
  "escape [] = []"
| "escape (c # r) =
     (if c = CHR 0x22 \<or> c = CHR 0x5C then CHR 0x5C # c # escape r
      else if c = CHR 0x08 then CHR 0x5C # CHR ''b'' # escape r
      else if c = CHR 0x0C then CHR 0x5C # CHR ''f'' # escape r
      else if c = CHR 0x0A then CHR 0x5C # CHR ''n'' # escape r
      else if c = CHR 0x0D then CHR 0x5C # CHR ''r'' # escape r
      else if c = CHR 0x09 then CHR 0x5C # CHR ''t'' # escape r
      else if c < CHR 0x20 \<or> c \<in> {CHR ''<'', CHR ''>'', CHR ''&''} then u_escape (of_char c) @ escape r
      else if c < CHR 0x80 then c # escape r
      else if utf8_len (c # r) = 0 then u_escape 0xFFFD @ escape r
      else if take 3 (c # r) = [CHR 0xE2, CHR 0x80, CHR 0xA8] then u_escape 0x2028 @ escape (drop 2 r)
      else if take 3 (c # r) = [CHR 0xE2, CHR 0x80, CHR 0xA9] then u_escape 0x2029 @ escape (drop 2 r)
      else c # take (utf8_len (c # r) - 1) r @ escape (drop (utf8_len (c # r) - 1) r))"
  by pat_completeness auto
termination by (relation "measure length") auto

definition quote :: "string \<Rightarrow> string" where
  "quote s = [CHR 0x22] @ escape s @ [CHR 0x22]"

fun marshal :: "goval \<Rightarrow> string" where
  "marshal GNull = ''null''"
| "marshal (GBool b) = (if b then ''true'' else ''false'')"
| "marshal (GInt n) = FormatInt n"
| "marshal (GStr s) = quote s"
| "marshal (GList vs) = ''['' @ Join '','' (map marshal vs) @ '']''"
| "marshal (GMap ms) = ''{'' @ Join '','' (map snd (sort_key fst
     (map (\<lambda>(k, v). (k, quote k @ '':'' @ marshal v)) ms))) @ ''}''"
| "marshal (GStruct ms) = ''{'' @ Join '','' (map (\<lambda>(k, v). quote k @ '':'' @ marshal v) ms) @ ''}''"

definition gstrs :: "string list \<Rightarrow> goval" where "gstrs xs = GList (map GStr xs)"
definition gsmap :: "smap \<Rightarrow> goval" where "gsmap m = GMap (map (\<lambda>(k, v). (k, GStr v)) m)"

text \<open>Text the escaper leaves alone: printable ASCII but the five it rewrites.\<close>

definition safe_char :: "char \<Rightarrow> bool" where
  "safe_char c \<longleftrightarrow> plain_char c \<and> c \<noteq> CHR ''<'' \<and> c \<noteq> CHR ''>'' \<and> c \<noteq> CHR ''&''"

lemma escape_safe [simp]: "list_all safe_char s \<Longrightarrow> escape s = s"
proof (induction s)
  case (Cons c s)
  then have "plain_char c" "c \<noteq> CHR ''<''" "c \<noteq> CHR ''>''" "c \<noteq> CHR ''&''" by (simp_all add: safe_char_def)
  moreover from this(1) have "\<not> c < CHR 0x20" "c < CHR 0x80" "c \<noteq> CHR 0x22" "c \<noteq> CHR 0x5C"
    by (simp_all add: plain_char_def not_less)
  moreover from \<open>plain_char c\<close> have "c \<noteq> CHR 0x08" "c \<noteq> CHR 0x0C" "c \<noteq> CHR 0x0A" "c \<noteq> CHR 0x0D" "c \<noteq> CHR 0x09"
    by (auto simp: plain_char_def less_eq_char_def)
  ultimately show ?case using Cons by simp
qed simp

lemma raw_string_plain:
  "list_all plain_char s \<Longrightarrow> raw_string (s @ CHR 0x22 # r) = Some (s, r)"
  by (induction s) (auto simp: plain_char_def)

text \<open>A safe string survives \<open>Marshal\<close> and parsing.\<close>

lemma parse_quote_safe:
  assumes "list_all safe_char s"
  shows "parse_json (quote s) = Some (JStr s) \<and> unquote s = s"
proof -
  have p: "list_all plain_char s" using assms by (simp add: list_all_iff safe_char_def)
  with raw_string_plain [OF p, of "[]"] assms show ?thesis
    by (simp add: quote_def parse_json_def parse_value_def is_ws_def)
qed

end
