(* ===== verification/Errors.thy ===== *)
theory Errors
  imports Prelude
begin

text \<open>
  The error values of the SDK (\<open>errors.go\<close> and the sentinels of packages \<open>paseto\<close> and
  \<open>keys\<close>). Go's \<open>error\<close> is an open interface; the closed datatype \<open>goerr\<close> has one
  constructor per error type or sentinel the SDK creates, one for the plain text errors
  (\<open>ErrText\<close>), one for \<open>fmt.Errorf\<close> with \<open>%w\<close> (\<open>ErrWrap\<close>), one for \<open>errors.Join\<close>,
  and one for the errors of the outside world (\<open>ErrOther\<close>: a transport, a callback, a
  context). Modelled here: the unwrapping order of \<open>errors.As\<close> and \<open>errors.Is\<close>, the
  text \<open>Error\<close> gives of each, and \<open>classify\<close> with \<open>retryAfter\<close>.
\<close>

section \<open>The error types\<close>

record APIError =
  ae_Code :: string
  ae_Message :: string
  ae_RequestID :: string
  ae_Status :: int
  ae_Details :: smap
  ae_class :: string

record DeniedError =
  de_Reason :: string
  de_FailingAxis :: string
  de_Message :: string
  de_Permission :: string
  de_Subject :: string

record StepUpRequiredError =
  su_RequiredAMR :: "string list"
  su_CurrentAMR :: "string list"
  su_MaxAuthAge :: string
  su_AuthAge :: string
  su_Permission :: string
  su_Subject :: string

record EnrolmentRequiredError =
  er_Factors :: "string list"
  er_Deadline :: gotime
  er_GrantToken :: string
  er_ExpiresIn :: int

datatype goerr =
    ErrMalformed | ErrWrongHeader | ErrBadSig | ErrKeySize
  | ErrUnknownKid
  | ErrExpired | ErrNotYetValid | ErrIssuer | ErrAudience | ErrNoAudience | ErrTokenVersion
  | ErrNoPrincipal | ErrNoCredential
  | ErrTokenContextMissing | ErrPrincipalContextMissing
  | ErrNotPlatformOperator | ErrAuthPageBinding
  | ErrEmptyManifest | ErrRouteTableWipe | ErrCatalogWipe
  | ErrAPI APIError
  | ErrDenied DeniedError
  | ErrStepUp StepUpRequiredError
  | ErrRefreshReuse APIError
  | ErrAuth APIError
  | ErrRateLimited duration APIError
  | ErrStateMismatch string
  | ErrEnrolment EnrolmentRequiredError
  | ErrUnavailable goerr
  | ErrText string
  | ErrWrap string goerr
  | ErrJoin "goerr list"
  | ErrOther string

type_synonym 'a res = "goerr + 'a"

section \<open>errors.As and errors.Is\<close>

text \<open>
  Both walk the chain depth first: the error itself, then what \<open>Unwrap\<close> returns. The
  types with an \<open>Unwrap\<close> method are \<open>RefreshReuseError\<close>, \<open>AuthError\<close>,
  \<open>RateLimitedError\<close> and \<open>UnavailableError\<close>.
\<close>

fun err_chain :: "goerr \<Rightarrow> goerr list" where
  "err_chain (ErrRefreshReuse a) = [ErrRefreshReuse a, ErrAPI a]"
| "err_chain (ErrAuth a) = [ErrAuth a, ErrAPI a]"
| "err_chain (ErrRateLimited d a) = [ErrRateLimited d a, ErrAPI a]"
| "err_chain (ErrUnavailable e) = ErrUnavailable e # err_chain e"
| "err_chain (ErrWrap s e) = ErrWrap s e # err_chain e"
| "err_chain (ErrJoin es) = ErrJoin es # concat (map err_chain es)"
| "err_chain e = [e]"

definition errors_As :: "(goerr \<Rightarrow> 'a option) \<Rightarrow> goerr \<Rightarrow> 'a option" where
  "errors_As f e = find_first f (err_chain e)"

definition errors_Is :: "goerr \<Rightarrow> goerr \<Rightarrow> bool" where
  "errors_Is e target \<longleftrightarrow> target \<in> set (err_chain e)"

fun as_API :: "goerr \<Rightarrow> APIError option" where
  "as_API (ErrAPI a) = Some a" | "as_API _ = None"
fun as_Denied :: "goerr \<Rightarrow> DeniedError option" where
  "as_Denied (ErrDenied d) = Some d" | "as_Denied _ = None"
fun as_StepUp :: "goerr \<Rightarrow> StepUpRequiredError option" where
  "as_StepUp (ErrStepUp d) = Some d" | "as_StepUp _ = None"
fun as_Auth :: "goerr \<Rightarrow> APIError option" where
  "as_Auth (ErrAuth a) = Some a" | "as_Auth _ = None"
fun as_RateLimited :: "goerr \<Rightarrow> duration option" where
  "as_RateLimited (ErrRateLimited d a) = Some d" | "as_RateLimited _ = None"
fun as_Unavailable :: "goerr \<Rightarrow> goerr option" where
  "as_Unavailable (ErrUnavailable e) = Some e" | "as_Unavailable _ = None"
fun as_RefreshReuse :: "goerr \<Rightarrow> APIError option" where
  "as_RefreshReuse (ErrRefreshReuse a) = Some a" | "as_RefreshReuse _ = None"

lemma err_chain_self [simp]: "e \<in> set (err_chain e)"
  by (cases e) auto

lemma errors_Is_self [simp]: "errors_Is e e"
  by (simp add: errors_Is_def)

section \<open>Rendering\<close>

text \<open>The dash of the messages, in UTF-8.\<close>

abbreviation (input) dash :: string where "dash \<equiv> [CHR 0xE2, CHR 0x80, CHR 0x94]"

definition APIError_Error :: "APIError \<Rightarrow> string" where
  "APIError_Error e =
     ''anubis: '' @
     (if ae_Code e \<noteq> [] then ae_Code e else ''http '' @ FormatInt (ae_Status e)) @
     (if ae_Message e \<noteq> [] then '': '' @ ae_Message e else []) @
     (if ae_RequestID e \<noteq> [] then '' (request '' @ ae_RequestID e @ '')'' else [])"

text \<open>
  What \<open>fmt\<close> and \<open>time\<close> print is taken as given: \<open>%q\<close>, a duration, a time in RFC 3339. A
  list under \<open>%v\<close> is bracketed, its members apart.
\<close>

record printer =
  pr_quote :: "string \<Rightarrow> string"
  pr_duration :: "duration \<Rightarrow> string"
  pr_rfc3339 :: "gotime \<Rightarrow> string"

definition bracketed :: "string list \<Rightarrow> string" where
  "bracketed xs = ''['' @ Join '' '' xs @ '']''"

definition DeniedError_Error :: "printer \<Rightarrow> DeniedError \<Rightarrow> string" where
  "DeniedError_Error pr d =
     (let msg = (if de_Message d = [] then de_Reason d else de_Message d)
      in if de_FailingAxis d \<noteq> []
         then ''anubis: denied '' @ pr_quote pr (de_Permission d) @ '': '' @ msg @ '' (failing axis '' @ pr_quote pr (de_FailingAxis d) @ '')''
         else ''anubis: denied '' @ pr_quote pr (de_Permission d) @ '': '' @ msg)"

definition StepUpRequiredError_Error :: "printer \<Rightarrow> StepUpRequiredError \<Rightarrow> string" where
  "StepUpRequiredError_Error pr su =
     ''anubis: step-up required for '' @ pr_quote pr (su_Permission su) @ '': have amr '' @ bracketed (su_CurrentAMR su) @
     '', need '' @ bracketed (su_RequiredAMR su) @ '' (max auth age '' @ su_MaxAuthAge su @ '')''"

definition RefreshReuseError_Error :: "APIError \<Rightarrow> string" where
  "RefreshReuseError_Error a =
     ''anubis: refresh token reuse detected '' @ dash @ '' family and session revoked, this is theft: '' @ APIError_Error a"

definition AuthError_Error :: "APIError \<Rightarrow> string" where
  "AuthError_Error a = ''anubis: the credential was not accepted: '' @ APIError_Error a"

definition RateLimitedError_Error :: "printer \<Rightarrow> duration \<Rightarrow> APIError \<Rightarrow> string" where
  "RateLimitedError_Error pr d a = ''anubis: rate limited, retry after '' @ pr_duration pr d @ '': '' @ APIError_Error a"

definition StateMismatchError_Error :: "string \<Rightarrow> string" where
  "StateMismatchError_Error reason =
     ''anubis: login state did not match ('' @ reason @ '') '' @ dash @ '' refusing to exchange the code''"

definition EnrolmentRequiredError_Error :: "printer \<Rightarrow> EnrolmentRequiredError \<Rightarrow> string" where
  "EnrolmentRequiredError_Error pr e =
     ''anubis: enrolment required for '' @ bracketed (er_Factors e) @ '' (deadline '' @ pr_rfc3339 pr (er_Deadline e) @ '') '' @
     dash @ '' use the grant token to enrol''"

definition UnavailableError_Error :: "string \<Rightarrow> string" where
  "UnavailableError_Error inner = ''anubis: unavailable: '' @ inner"

text \<open>
  \<open>Error\<close> of any error value. An \<open>ErrWrap\<close> prints its text and then the error it wraps, but
  for the refusal of the administration plane, which comes first; a joined error prints one
  line for each.
\<close>

fun goerr_Error :: "printer \<Rightarrow> goerr \<Rightarrow> string" where
  "goerr_Error pr ErrMalformed = ''paseto: malformed token''"
| "goerr_Error pr ErrWrongHeader = ''paseto: not a v4.public token''"
| "goerr_Error pr ErrBadSig = ''paseto: signature verification failed''"
| "goerr_Error pr ErrKeySize = ''paseto: wrong key size''"
| "goerr_Error pr ErrUnknownKid = ''anubis: unknown kid''"
| "goerr_Error pr ErrExpired = ''anubis: token expired''"
| "goerr_Error pr ErrNotYetValid = ''anubis: token not yet valid (check NTP)''"
| "goerr_Error pr ErrIssuer = ''anubis: issuer mismatch''"
| "goerr_Error pr ErrAudience = ''anubis: audience mismatch''"
| "goerr_Error pr ErrNoAudience = ''anubis: verifier requires an audience '' @ dash @ '' refusing to skip the aud check''"
| "goerr_Error pr ErrTokenVersion = ''anubis: unsupported token version''"
| "goerr_Error pr ErrNoPrincipal = ''anubis: no verified principal in context (is the middleware mounted?)''"
| "goerr_Error pr ErrNoCredential =
     ''anubis: no credential '' @ dash @ '' use WithAPIKey, or call from a request the middleware has verified''"
| "goerr_Error pr ErrTokenContextMissing =
     ''anubiskit: no bearer token in the context '' @ dash @ '' is HTTPToContext wired as a ServerBefore?''"
| "goerr_Error pr ErrPrincipalContextMissing =
     ''anubiskit: no verified principal '' @ dash @ '' Authorize must be wrapped by Authenticate''"
| "goerr_Error pr ErrNotPlatformOperator = ''anubis/admin: the admin plane refuses non-platform callers '' @ dash @
     '' this needs a platform operator'' @ [CHR 0x27] @ ''s credential, not a tenant api key''"
| "goerr_Error pr ErrAuthPageBinding = ''anubis/admin: an auth page binds to an application OR a realm, never both''"
| "goerr_Error pr ErrEmptyManifest =
     ''anubis/admin: manifest declares no permissions, roles or routes '' @ dash @ '' there is nothing to apply''"
| "goerr_Error pr ErrRouteTableWipe = ''anubis/admin: a routes section with no routes deletes the whole route table; '' @
     ''use ClearRoutes if that is intended, or omit the section to leave routes alone''"
| "goerr_Error pr ErrCatalogWipe = ''anubis/admin: a permissions or roles section that names nothing would retire the whole '' @
     ''catalog; the server refuses it '' @ dash @ '' omit the section to leave it alone''"
| "goerr_Error pr (ErrAPI a) = APIError_Error a"
| "goerr_Error pr (ErrDenied d) = DeniedError_Error pr d"
| "goerr_Error pr (ErrStepUp su) = StepUpRequiredError_Error pr su"
| "goerr_Error pr (ErrRefreshReuse a) = RefreshReuseError_Error a"
| "goerr_Error pr (ErrAuth a) = AuthError_Error a"
| "goerr_Error pr (ErrRateLimited d a) = RateLimitedError_Error pr d a"
| "goerr_Error pr (ErrStateMismatch reason) = StateMismatchError_Error reason"
| "goerr_Error pr (ErrEnrolment e) = EnrolmentRequiredError_Error pr e"
| "goerr_Error pr (ErrUnavailable e) = UnavailableError_Error (goerr_Error pr e)"
| "goerr_Error pr (ErrText s) = s"
| "goerr_Error pr (ErrWrap s e) =
     (if e = ErrNotPlatformOperator then goerr_Error pr e @ '': '' @ s else s @ goerr_Error pr e)"
| "goerr_Error pr (ErrJoin es) = Join [CHR 0x0A] (map (goerr_Error pr) es)"
| "goerr_Error pr (ErrOther s) = s"

text \<open>Whatever an error wraps, its text is in the text of the error: no request id is lost on the way up.\<close>

definition shows_text :: "string \<Rightarrow> string \<Rightarrow> bool" where
  "shows_text outer inner \<longleftrightarrow> (\<exists>u v. outer = u @ inner @ v)"

lemma shows_text_intros:
  "shows_text s s" "shows_text t s \<Longrightarrow> shows_text (u @ t) s" "shows_text t s \<Longrightarrow> shows_text (t @ u) s"
proof -
  show "shows_text s s" unfolding shows_text_def by (intro exI [of _ "[]"]) simp
  assume "shows_text t s"
  then obtain a b where t: "t = a @ s @ b" by (auto simp: shows_text_def)
  show "shows_text (u @ t) s" unfolding shows_text_def t by (rule exI [of _ "u @ a"], rule exI [of _ b]) simp
  show "shows_text (t @ u) s" unfolding shows_text_def t by (rule exI [of _ a], rule exI [of _ "b @ u"]) simp
qed

lemma shows_text_Join: "x \<in> set xs \<Longrightarrow> shows_text x s \<Longrightarrow> shows_text (Join sep xs) s"
  by (induction sep xs rule: Join.induct) (auto intro: shows_text_intros)

lemma wrapped_text:
  "shows_text (RefreshReuseError_Error a) (APIError_Error a)" "shows_text (AuthError_Error a) (APIError_Error a)"
  "shows_text (RateLimitedError_Error pr d a) (APIError_Error a)"
  unfolding RefreshReuseError_Error_def AuthError_Error_def RateLimitedError_Error_def by (intro shows_text_intros)+

lemma Error_shows_chain: "x \<in> set (err_chain e) \<Longrightarrow> shows_text (goerr_Error pr e) (goerr_Error pr x)"
proof (induction e rule: err_chain.induct)
  case (5 s e)
  then show ?case
  proof (cases "x = ErrWrap s e")
    case False
    with 5 have "shows_text (goerr_Error pr e) (goerr_Error pr x)" by simp
    then have "shows_text (goerr_Error pr e @ u) (goerr_Error pr x)" "shows_text (s @ goerr_Error pr e) (goerr_Error pr x)" for u
      by (auto intro: shows_text_intros)
    then show ?thesis by (subst goerr_Error.simps) auto
  qed (simp add: shows_text_intros)
next
  case (6 es)
  then show ?case
  proof (cases "x = ErrJoin es")
    case False
    with "6.prems" obtain e where e: "e \<in> set es" "x \<in> set (err_chain e)" by auto
    have "shows_text (Join [CHR 0x0A] (map (goerr_Error pr) es)) (goerr_Error pr x)"
      by (rule shows_text_Join [OF _ "6.IH" [OF e]]) (use e(1) in simp)
    then show ?thesis by simp
  qed (simp add: shows_text_intros)
qed (auto simp: UnavailableError_Error_def wrapped_text shows_text_intros simp del: append.simps)

lemma find_first_in: "find_first f xs = Some y \<Longrightarrow> \<exists>x \<in> set xs. f x = Some y"
  by (induction xs) (auto split: option.splits)

lemma as_API_Some: "as_API e = Some a \<Longrightarrow> e = ErrAPI a"
  by (cases e) auto

lemma shows_text_trans: "shows_text t s \<Longrightarrow> shows_text s r \<Longrightarrow> shows_text t r"
proof -
  assume "shows_text t s" "shows_text s r"
  then obtain u v u' v' where "t = (u @ u') @ r @ (v' @ v)" by (auto simp: shows_text_def)
  then show ?thesis unfolding shows_text_def by blast
qed

lemma Error_names_request:
  assumes "errors_As as_API e = Some a" "ae_RequestID a \<noteq> []"
  shows "shows_text (goerr_Error pr e) ('' (request '' @ ae_RequestID a @ '')'')"
proof -
  from assms(1) find_first_in as_API_Some have "ErrAPI a \<in> set (err_chain e)" by (fastforce simp: errors_As_def)
  from Error_shows_chain [OF this, of pr] have "shows_text (goerr_Error pr e) (APIError_Error a)" by simp
  moreover have "shows_text (APIError_Error a) ('' (request '' @ ae_RequestID a @ '')'')"
    using assms(2) unfolding APIError_Error_def
    by (simp only: if_True simp_thms) (intro shows_text_intros)
  ultimately show ?thesis by (rule shows_text_trans)
qed

section \<open>classify\<close>

abbreviation codeRefreshReuse :: string where "codeRefreshReuse \<equiv> ''refresh_token_reuse_detected''"
abbreviation codeStepUpRequired :: string where "codeStepUpRequired \<equiv> ''step_up_required''"
abbreviation codeScopeMismatch :: string where "codeScopeMismatch \<equiv> ''scope_mismatch''"
abbreviation codeScopeExcluded :: string where "codeScopeExcluded \<equiv> ''scope_excluded''"
abbreviation codeRateLimited :: string where "codeRateLimited \<equiv> ''rate_limited''"
abbreviation codeUnauthct :: string where "codeUnauthct \<equiv> ''unauthenticated''"
abbreviation codeInvalidToken :: string where "codeInvalidToken \<equiv> ''invalid_token''"
abbreviation codeInvalidCreds :: string where "codeInvalidCreds \<equiv> ''invalid_credentials''"
abbreviation codePermDenied :: string where "codePermDenied \<equiv> ''permission_denied''"
abbreviation codeSessionRevoked :: string where "codeSessionRevoked \<equiv> ''session_revoked''"
abbreviation codeInvalidRefresh :: string where "codeInvalidRefresh \<equiv> ''invalid_refresh_token''"
abbreviation codeUnavailable :: string where "codeUnavailable \<equiv> ''unavailable''"

text \<open>
  \<open>retryAfter\<close> reads the \<open>Retry-After\<close> header. \<open>until_http_date\<close> stands for
  \<open>http.ParseTime\<close> followed by \<open>time.Until\<close>: the delay to the date the value spells,
  if it spells one. \<open>strconv.Atoi\<close> is \<open>ParseInt\<close> on a 64-bit platform, and the
  multiplication into nanoseconds wraps.
\<close>

definition retryAfter :: "(string \<Rightarrow> duration option) \<Rightarrow> string \<Rightarrow> duration" where
  "retryAfter until_http_date v =
     (if v = [] then 0
      else case ParseInt v of
        Some secs \<Rightarrow>
          if secs \<ge> 0 then Seconds secs
          else (case until_http_date v of Some d \<Rightarrow> if d > 0 then d else 0 | None \<Rightarrow> 0)
      | None \<Rightarrow> (case until_http_date v of Some d \<Rightarrow> if d > 0 then d else 0 | None \<Rightarrow> 0))"

definition status_code :: "int \<Rightarrow> string" where
  "status_code st =
     (if st = 429 then codeRateLimited
      else if st = 401 then codeUnauthct
      else if st = 403 then codePermDenied
      else if st = 503 then codeUnavailable else [])"

definition classify :: "(string \<Rightarrow> duration option) \<Rightarrow> APIError \<Rightarrow> string \<Rightarrow> goerr" where
  "classify until_http_date e retry_header =
     (let code = (if ae_Code e = [] then status_code (ae_Status e) else ae_Code e) in
      if code = codeRefreshReuse then ErrRefreshReuse e
      else if code = codeRateLimited then ErrRateLimited (retryAfter until_http_date retry_header) e
      else if code \<in> {codeUnauthct, codeInvalidToken, codeInvalidCreds, codePermDenied,
                      codeSessionRevoked, codeInvalidRefresh} then ErrAuth e
      else if code = codeUnavailable then ErrUnavailable (ErrAPI e)
      else if ae_class e = codeUnavailable then ErrUnavailable (ErrAPI e)
      else ErrAPI e)"

section \<open>Lemmas\<close>

text \<open>Whatever the refusal becomes, the wire error stays reachable through the chain.\<close>

lemma classify_keeps_api: "errors_As as_API (classify u e h) = Some e"
  by (auto simp: classify_def errors_As_def Let_def)

lemma classify_reuse_iff: "(\<exists>a. classify u e h = ErrRefreshReuse a) \<longleftrightarrow> ae_Code e = codeRefreshReuse"
  by (auto simp: classify_def Let_def status_code_def)

lemma classify_unavailable_class:
  "ae_class e = codeUnavailable \<Longrightarrow>
   ae_Code e \<notin> {[], codeRefreshReuse, codeRateLimited, codeUnauthct, codeInvalidToken, codeInvalidCreds,
     codePermDenied, codeSessionRevoked, codeInvalidRefresh} \<Longrightarrow>
   classify u e h = ErrUnavailable (ErrAPI e)"
  by (auto simp: classify_def Let_def)

end
