(* ===== verification/Http.thy ===== *)
theory Http
  imports Json Errors
begin

text \<open>
  The HTTP vocabulary of the SDK (package \<open>net/http\<close>): requests, responses and header
  lookup. The far end is not under src/: a call is a function of the state of the outside
  world (\<open>'w\<close>) that returns the new state and either a transport error or a response.
\<close>

record http_request =
  rq_method :: string
  rq_url :: string
  rq_header :: smap
  rq_body :: bytes

record http_response =
  rs_status :: int
  rs_header :: smap
  rs_body :: bytes
  rs_read_err :: "goerr option"

type_synonym 'w net = "'w \<Rightarrow> http_request \<Rightarrow> 'w \<times> (goerr + http_response)"

text \<open>
  Header names are compared up to case. \<open>Header.Set\<close> replaces, \<open>Header.Get\<close> answers the
  empty string for an absent header.
\<close>

definition header_Get :: "smap \<Rightarrow> string \<Rightarrow> string" where
  "header_Get h name =
     (case find_first (\<lambda>(k, v). if EqualFold k name then Some v else None) h of
        Some v \<Rightarrow> v | None \<Rightarrow> [])"

definition header_Set :: "smap \<Rightarrow> string \<Rightarrow> string \<Rightarrow> smap" where
  "header_Set h name v = (name, v) # filter (\<lambda>(k, _). \<not> EqualFold k name) h"

lemma EqualFold_refl [simp]: "EqualFold s s"
  by (simp add: EqualFold_def)

lemma EqualFold_trans: "EqualFold a b \<Longrightarrow> EqualFold c b = EqualFold c a"
  by (simp add: EqualFold_def)

lemma header_Get_Set_same: "EqualFold name n \<Longrightarrow> header_Get (header_Set h name v) n = v"
  by (simp add: header_Get_def header_Set_def)

lemma find_first_filter:
  "(\<And>x. \<not> P x \<Longrightarrow> f x = None) \<Longrightarrow> find_first f (filter P xs) = find_first f xs"
  by (induction xs) (auto split: option.splits)

lemma header_Get_Set_other:
  assumes "\<not> EqualFold name n"
  shows "header_Get (header_Set h name v) n = header_Get h n"
proof -
  have "find_first (\<lambda>(k, v). if EqualFold k n then Some v else None) (filter (\<lambda>(k, _). \<not> EqualFold k name) h) =
        find_first (\<lambda>(k, v). if EqualFold k n then Some v else None) h"
    by (rule find_first_filter) (use assms in \<open>auto simp: EqualFold_def\<close>)
  with assms show ?thesis by (simp add: header_Get_def header_Set_def)
qed

text \<open>\<open>io.ReadAll(io.LimitReader(body, n))\<close>: at most \<open>n\<close> bytes, or the read error.\<close>

definition read_limited :: "nat \<Rightarrow> http_response \<Rightarrow> bytes res" where
  "read_limited n r =
     (case rs_read_err r of Some e \<Rightarrow> Inl e | None \<Rightarrow> Inr (take n (rs_body r)))"

end
