(* ===== verification/Base64.thy ===== *)
theory Base64
  imports Prelude
begin

text \<open>
  Package \<open>encoding/base64\<close> as the SDK uses it: \<open>RawURLEncoding\<close> (unpadded, alphabet
  with \<open>-\<close> and \<open>_\<close>), its \<open>Strict()\<close> variant that package \<open>paseto\<close> pins, and
  \<open>StdEncoding\<close> (padded, \<open>+\<close> and \<open>/\<close>), which the error decoder reads. Go's decoders
  skip carriage returns and line feeds anywhere in the input, and so do these.

  The lemmas: decoding inverts encoding, and a strict decode accepts one spelling per
  byte string, up to the skipped line breaks.
\<close>

section \<open>Alphabets\<close>

definition sextet_char :: "char \<Rightarrow> char \<Rightarrow> nat \<Rightarrow> char" where
  "sextet_char c62 c63 n =
     (if n < 26 then char_of (65 + n)
      else if n < 52 then char_of (97 + (n - 26))
      else if n < 62 then char_of (48 + (n - 52))
      else if n = 62 then c62 else c63)"

definition char_sextet :: "char \<Rightarrow> char \<Rightarrow> char \<Rightarrow> nat option" where
  "char_sextet c62 c63 c =
     (let k = of_char c in
      if 65 \<le> k \<and> k \<le> (90::nat) then Some (k - 65)
      else if 97 \<le> k \<and> k \<le> 122 then Some (k - 97 + 26)
      else if 48 \<le> k \<and> k \<le> 57 then Some (k - 48 + 52)
      else if c = c62 then Some 62
      else if c = c63 then Some 63 else None)"

abbreviation (input) "url62 \<equiv> CHR ''-''"
abbreviation (input) "url63 \<equiv> CHR ''_''"

lemma char_sextet_inverse: "n < 64 \<Longrightarrow> char_sextet url62 url63 (sextet_char url62 url63 n) = Some n"
  by (auto simp: sextet_char_def char_sextet_def Let_def)

lemma sextet_char_inverse:
  "char_sextet url62 url63 c = Some n \<Longrightarrow> sextet_char url62 url63 n = c \<and> n < 64"
  by (auto simp: sextet_char_def char_sextet_def Let_def split: if_splits)

lemma sextet_char_plain:
  "n < 64 \<Longrightarrow> sextet_char url62 url63 n \<noteq> CHR 0x0A \<and> sextet_char url62 url63 n \<noteq> CHR 0x0D
     \<and> sextet_char url62 url63 n \<noteq> CHR ''.''"
  using char_sextet_inverse [of n] by (auto simp: char_sextet_def Let_def)

section \<open>Quanta\<close>

fun enc_sextets :: "nat list \<Rightarrow> nat list" where
  "enc_sextets [] = []"
| "enc_sextets [x] = [x div 4, (x mod 4) * 16]"
| "enc_sextets [x, y] = [x div 4, (x mod 4) * 16 + y div 16, (y mod 16) * 4]"
| "enc_sextets (x # y # z # r) =
     (x div 4) # ((x mod 4) * 16 + y div 16) # ((y mod 16) * 4 + z div 64) # (z mod 64) # enc_sextets r"

fun dec_sextets :: "bool \<Rightarrow> nat list \<Rightarrow> nat list option" where
  "dec_sextets strict [] = Some []"
| "dec_sextets strict [a] = None"
| "dec_sextets strict [a, b] =
     (if strict \<and> b mod 16 \<noteq> 0 then None else Some [a * 4 + b div 16])"
| "dec_sextets strict [a, b, c] =
     (if strict \<and> c mod 4 \<noteq> 0 then None
      else Some [a * 4 + b div 16, (b mod 16) * 16 + c div 4])"
| "dec_sextets strict (a # b # c # d # r) =
     map_option (\<lambda>bs. (a * 4 + b div 16) # ((b mod 16) * 16 + c div 4) # ((c mod 4) * 64 + d) # bs)
       (dec_sextets strict r)"

lemma enc_sextets_bound: "\<forall>x \<in> set xs. x < 256 \<Longrightarrow> \<forall>n \<in> set (enc_sextets xs). n < 64"
  by (induction xs rule: enc_sextets.induct) auto

lemma dec_enc_sextets: "\<forall>x \<in> set xs. x < 256 \<Longrightarrow> dec_sextets strict (enc_sextets xs) = Some xs"
  by (induction xs rule: enc_sextets.induct) auto

lemma enc_dec_sextets:
  "\<forall>n \<in> set ns. n < 64 \<Longrightarrow> dec_sextets True ns = Some bs \<Longrightarrow> enc_sextets bs = ns"
proof (induction True ns arbitrary: bs rule: dec_sextets.induct)
  case (5 a b c d r)
  from "5.prems"(2) obtain bs' where bs': "dec_sextets True r = Some bs'"
    "bs = (a * 4 + b div 16) # ((b mod 16) * 16 + c div 4) # ((c mod 4) * 64 + d) # bs'" by auto
  have "a < 64" "b < 64" "c < 64" "d < 64" using "5.prems"(1) by auto
  with 5 bs' show ?case by (simp add: div_add1_eq)
qed (auto split: if_splits)

lemma dec_sextets_bound:
  "\<forall>n \<in> set ns. n < 64 \<Longrightarrow> dec_sextets strict ns = Some bs \<Longrightarrow> \<forall>x \<in> set bs. x < 256"
  by (induction strict ns arbitrary: bs rule: dec_sextets.induct) (auto split: if_splits)

section \<open>The encodings\<close>

definition strip_crlf :: "string \<Rightarrow> string" where
  "strip_crlf s = filter (\<lambda>c. c \<noteq> CHR 0x0A \<and> c \<noteq> CHR 0x0D) s"

definition raw_url_encode :: "bytes \<Rightarrow> string" where
  "raw_url_encode bs = map (sextet_char url62 url63) (enc_sextets (map of_char bs))"

definition raw_url_decode :: "bool \<Rightarrow> string \<Rightarrow> bytes option" where
  "raw_url_decode strict s =
     Option.bind (those (map (char_sextet url62 url63) (strip_crlf s)))
       (\<lambda>ns. map_option (map char_of) (dec_sextets strict ns))"

lemma those_map_inverse: "\<forall>n \<in> set ns. f (g n) = Some n \<Longrightarrow> those (map f (map g ns)) = Some ns"
  by (induction ns) auto

lemma those_map_Some: "those (map f xs) = Some ns \<Longrightarrow> \<forall>x n. f x = Some n \<longrightarrow> g n = x \<and> P n
    \<Longrightarrow> map g ns = xs \<and> (\<forall>n \<in> set ns. P n)"
  by (induction xs arbitrary: ns) (auto split: option.splits)

lemma strip_crlf_id: "\<forall>c \<in> set s. c \<noteq> CHR 0x0A \<and> c \<noteq> CHR 0x0D \<Longrightarrow> strip_crlf s = s"
  by (simp add: strip_crlf_def filter_id_conv)

lemma of_char_bound: "\<forall>x \<in> set (map of_char bs). x < (256::nat)"
  by simp

lemma raw_url_encode_chars:
  "c \<in> set (raw_url_encode bs) \<Longrightarrow> c \<noteq> CHR 0x0A \<and> c \<noteq> CHR 0x0D \<and> c \<noteq> CHR ''.''"
  using enc_sextets_bound [OF of_char_bound [of bs]] sextet_char_plain
  by (fastforce simp: raw_url_encode_def)

lemma raw_url_decode_encode [simp, codec_simps]: "raw_url_decode strict (raw_url_encode bs) = Some bs"
proof -
  let ?ns = "enc_sextets (map of_char bs) :: nat list"
  have b: "\<forall>n \<in> set ?ns. n < 64" by (rule enc_sextets_bound [OF of_char_bound])
  have strip: "strip_crlf (raw_url_encode bs) = raw_url_encode bs"
    by (rule strip_crlf_id) (use raw_url_encode_chars in blast)
  have "those (map (char_sextet url62 url63) (map (sextet_char url62 url63) ?ns)) = Some ?ns"
    by (rule those_map_inverse) (use b char_sextet_inverse in blast)
  then show ?thesis
    unfolding raw_url_decode_def strip
    by (simp add: raw_url_encode_def dec_enc_sextets [OF of_char_bound] del: map_map)
      (simp add: comp_def)
qed

text \<open>A strict decode has one accepted spelling per value.\<close>

lemma raw_url_decode_strict_canonical:
  assumes "raw_url_decode True s = Some bs"
  shows "strip_crlf s = raw_url_encode bs"
proof -
  from assms obtain ns where ns: "those (map (char_sextet url62 url63) (strip_crlf s)) = Some ns"
    "map_option (map char_of) (dec_sextets True ns) = Some bs"
    by (auto simp: raw_url_decode_def bind_eq_Some_conv)
  then obtain xs where xs: "dec_sextets True ns = Some xs" "bs = map char_of xs" by auto
  have m: "map (sextet_char url62 url63) ns = strip_crlf s" "\<forall>n \<in> set ns. n < 64"
    using those_map_Some [OF ns(1), of "sextet_char url62 url63" "\<lambda>n. n < 64"] sextet_char_inverse by auto
  have "\<forall>x \<in> set xs. x < 256" by (rule dec_sextets_bound [OF m(2) xs(1)])
  then have "map of_char bs = xs" by (simp add: xs(2) map_idI of_char_of)
  with m enc_dec_sextets [OF m(2) xs(1)] show ?thesis by (simp add: raw_url_encode_def)
qed

lemma raw_url_encode_inj: "raw_url_encode a = raw_url_encode b \<Longrightarrow> a = b"
  by (metis raw_url_decode_encode option.inject)

lemma raw_url_encode_not_Nil: "bs \<noteq> [] \<Longrightarrow> raw_url_encode bs \<noteq> []"
  using raw_url_encode_inj [of bs "[]"] by (auto simp: raw_url_encode_def)

text \<open>
  Standard base64: four-character quanta, the last one padded. \<open>std_quanta\<close> returns the
  sextets, padding stripped, and refuses anything after the padding.
\<close>

fun std_quanta :: "string \<Rightarrow> nat list option" where
  "std_quanta [] = Some []"
| "std_quanta [a, b, c, d] =
     (let f = char_sextet (CHR ''+'') (CHR ''/'') in
      if d = CHR ''='' then
        (if c = CHR ''='' then those [f a, f b] else those [f a, f b, f c])
      else those [f a, f b, f c, f d])"
| "std_quanta (a # b # c # d # r) =
     (let f = char_sextet (CHR ''+'') (CHR ''/'') in
      Option.bind (those [f a, f b, f c, f d]) (\<lambda>q. map_option ((@) q) (std_quanta r)))"
| "std_quanta _ = None"

definition std_decode :: "string \<Rightarrow> bytes option" where
  "std_decode s =
     Option.bind (std_quanta (strip_crlf s)) (\<lambda>ns. map_option (map char_of) (dec_sextets False ns))"

definition std_encode :: "bytes \<Rightarrow> string" where
  "std_encode bs =
     map (sextet_char (CHR ''+'') (CHR ''/'')) (enc_sextets (map of_char bs)) @
     (case length bs mod 3 of 0 \<Rightarrow> [] | Suc 0 \<Rightarrow> ''=='' | _ \<Rightarrow> ''='')"

lemma std_char_inverse:
  "n < 64 \<Longrightarrow> char_sextet (CHR ''+'') (CHR ''/'') (sextet_char (CHR ''+'') (CHR ''/'') n) = Some n"
  by (auto simp: sextet_char_def char_sextet_def Let_def)

lemma std_char_plain:
  "n < 64 \<Longrightarrow> sextet_char (CHR ''+'') (CHR ''/'') n \<notin> {CHR 0x0A, CHR 0x0D, CHR ''=''}"
  using std_char_inverse [of n] by (auto simp: char_sextet_def Let_def)

definition std_pad :: "nat \<Rightarrow> string" where
  "std_pad n = (case n mod 3 of 0 \<Rightarrow> [] | Suc 0 \<Rightarrow> ''=='' | _ \<Rightarrow> ''='')"

lemma std_pad_3 [simp]: "std_pad (Suc (Suc (Suc n))) = std_pad n"
  by (simp add: std_pad_def)

lemma std_pad_small: "std_pad 0 = []" "std_pad (Suc 0) = ''==''" "std_pad (Suc (Suc 0)) = ''=''"
  by (simp_all add: std_pad_def)

lemma std_quanta_Cons4:
  assumes "d \<noteq> CHR ''=''"
  shows "std_quanta (a # b # c # d # r) =
    Option.bind (those (map (char_sextet (CHR ''+'') (CHR ''/'')) [a, b, c, d])) (\<lambda>q. map_option ((@) q) (std_quanta r))"
  using assms by (cases r) (auto simp: Let_def split: option.splits)

lemma std_quanta_encode:
  "\<forall>x \<in> set xs. x < 256 \<Longrightarrow>
   std_quanta (map (sextet_char (CHR ''+'') (CHR ''/'')) (enc_sextets xs) @ std_pad (length xs)) = Some (enc_sextets xs)"
proof (induction xs rule: enc_sextets.induct)
  case (2 x)
  then show ?case by (simp add: std_pad_small std_char_inverse)
next
  case (3 x y)
  have "sextet_char (CHR ''+'') (CHR ''/'') ((y mod 16) * 4) \<noteq> CHR ''=''"
    using std_char_plain [of "(y mod 16) * 4"] by simp
  moreover have "x div 4 < 64" "x mod 4 * 16 + y div 16 < 64" "y mod 16 * 4 < 64" using 3 by auto
  ultimately show ?case by (simp add: std_pad_small std_char_inverse Let_def)
next
  case (4 x y z r)
  have "sextet_char (CHR ''+'') (CHR ''/'') (z mod 64) \<noteq> CHR ''=''"
    using std_char_plain [of "z mod 64"] by simp
  moreover have "x div 4 < 64" "x mod 4 * 16 + y div 16 < 64" "y mod 16 * 4 + z div 64 < 64" using 4 by auto
  ultimately show ?case using 4 by (simp add: std_quanta_Cons4 std_char_inverse del: std_quanta.simps)
qed (simp add: std_pad_small)

lemma std_pad_chars: "set (std_pad n) \<subseteq> {CHR ''=''}"
proof -
  have "n mod 3 = 0 \<or> n mod 3 = 1 \<or> n mod 3 = 2" by arith
  then show ?thesis by (auto simp: std_pad_def numeral_2_eq_2)
qed

lemma std_encode_pad:
  "std_encode bs = map (sextet_char (CHR ''+'') (CHR ''/'')) (enc_sextets (map of_char bs)) @ std_pad (length bs)"
  by (simp add: std_encode_def std_pad_def)

lemma std_encode_chars:
  assumes "c \<in> set (std_encode bs)"
  shows "c = CHR ''='' \<or> (\<exists>n. char_sextet (CHR ''+'') (CHR ''/'') c = Some n)"
  using assms std_pad_chars enc_sextets_bound [OF of_char_bound [of bs]] std_char_inverse
  unfolding std_encode_pad by auto

lemma std_encode_plain: "c \<in> set (std_encode bs) \<Longrightarrow> c \<notin> {CHR 0x0A, CHR 0x0D, CHR 0x22, CHR 0x5C}"
  by (drule std_encode_chars) (auto simp: char_sextet_def Let_def)

lemma std_decode_encode [simp, codec_simps]: "std_decode (std_encode bs) = Some bs"
proof -
  let ?xs = "map of_char bs :: nat list"
  have b: "\<forall>x \<in> set ?xs. x < 256" by (rule of_char_bound)
  have "strip_crlf (std_encode bs) = std_encode bs"
    by (rule strip_crlf_id) (use std_encode_plain in blast)
  moreover have "std_quanta (std_encode bs) = Some (enc_sextets ?xs)"
    using std_quanta_encode [OF b] by (simp only: std_encode_pad length_map)
  ultimately show ?thesis using dec_enc_sextets [OF b, of False] by (simp add: std_decode_def comp_def)
qed

end
