(* ===== verification/Keys.thy ===== *)
theory Keys
  imports Http Base64
begin

text \<open>
  Package \<open>keys\<close>: the published keys document, the immutable kid map parsed from it
  (\<open>keys/key_set.go\<close>) and the cache that fetches it (\<open>keys/key_cache.go\<close>).

  The cache's operations are written over one record of its fields; \<open>Cache_GetAt\<close> is a
  whole call of one goroutine, \<open>refetch_enter\<close>, \<open>refetch_commit\<close> and
  \<open>refetch_release\<close> are its critical sections, which the interleaving model of theory
  \<open>Cache_Flight\<close> runs in any order. The locale \<open>key_source\<close> is what a verifier relies on:
  a key is handed out only from a held entry and inside its validity window.
\<close>

section \<open>The document\<close>

record Entry =
  en_Kid :: string
  en_Alg :: string
  en_PublicKey :: string
  en_NotBefore :: int
  en_NotAfter :: int

record Document =
  do_Issuer :: string
  do_Keys :: "Entry list"

definition zero_Entry :: Entry where
  "zero_Entry = \<lparr>en_Kid = [], en_Alg = [], en_PublicKey = [], en_NotBefore = 0, en_NotAfter = 0\<rparr>"

definition zero_Document :: Document where
  "zero_Document = \<lparr>do_Issuer = [], do_Keys = []\<rparr>"

definition dec_Entry :: "json \<Rightarrow> Entry \<Rightarrow> Entry option" where
  "dec_Entry = decode_struct
     [(''kid'', set_string (\<lambda>v r. r\<lparr>en_Kid := v\<rparr>)),
      (''alg'', set_string (\<lambda>v r. r\<lparr>en_Alg := v\<rparr>)),
      (''public_key'', set_string (\<lambda>v r. r\<lparr>en_PublicKey := v\<rparr>)),
      (''not_before'', set_int (\<lambda>v r. r\<lparr>en_NotBefore := v\<rparr>)),
      (''not_after'', set_int (\<lambda>v r. r\<lparr>en_NotAfter := v\<rparr>))]"

definition dec_Document :: "json \<Rightarrow> Document \<Rightarrow> Document option" where
  "dec_Document = decode_struct
     [(''issuer'', set_string (\<lambda>v r. r\<lparr>do_Issuer := v\<rparr>)),
      (''keys'', set_list (\<lambda>v r. r\<lparr>do_Keys := v\<rparr>) zero_Entry dec_Entry)]"

section \<open>The key set\<close>

definition maxKeys :: nat where "maxKeys = 64"

record key_entry =
  ke_pk :: bytes
  ke_notBefore :: int
  ke_notAfter :: int

type_synonym key_set = "(string \<times> key_entry) list"

fun load_keys :: "Entry list \<Rightarrow> key_set \<Rightarrow> key_set res" where
  "load_keys [] ks = Inr ks"
| "load_keys (k # rest) ks =
     (if en_Alg k \<noteq> ''Ed25519'' then load_keys rest ks
      else case raw_url_decode False (en_PublicKey k) of
        None \<Rightarrow> Inl (ErrText ''anubis: bad public key'')
      | Some raw \<Rightarrow>
          if length raw \<noteq> 32 then Inl (ErrText ''anubis: bad public key'')
          else load_keys rest (AList.update (en_Kid k)
                 \<lparr>ke_pk = raw, ke_notBefore = en_NotBefore k, ke_notAfter = en_NotAfter k\<rparr> ks))"

definition ParseDocument :: "bytes \<Rightarrow> string \<Rightarrow> key_set res" where
  "ParseDocument raw issuer =
     (case unmarshal dec_Document zero_Document raw of
        None \<Rightarrow> Inl (ErrText ''anubis: keys document'')
      | Some doc \<Rightarrow>
          if issuer \<noteq> [] \<and> do_Issuer doc \<noteq> [] \<and> do_Issuer doc \<noteq> issuer
          then Inl (ErrText ''anubis: keys document is issued by another issuer'')
          else if length (do_Keys doc) > maxKeys then Inl (ErrText ''anubis: keys document has too many keys'')
          else load_keys (do_Keys doc) [])"

definition in_window :: "key_entry \<Rightarrow> gotime \<Rightarrow> bool" where
  "in_window e now \<longleftrightarrow>
     (ke_notBefore e = 0 \<or> ke_notBefore e \<le> Time_Unix now) \<and>
     (ke_notAfter e = 0 \<or> Time_Unix now < ke_notAfter e)"

definition Set_GetAt :: "key_set \<Rightarrow> string \<Rightarrow> gotime \<Rightarrow> bytes option" where
  "Set_GetAt ks kid now =
     (case map_of ks kid of
        None \<Rightarrow> None
      | Some e \<Rightarrow>
          let n = Time_Unix now in
          if ke_notBefore e \<noteq> 0 \<and> n < ke_notBefore e then None
          else if ke_notAfter e \<noteq> 0 \<and> n \<ge> ke_notAfter e then None
          else Some (ke_pk e))"

definition wf_key_set :: "key_set \<Rightarrow> bool" where
  "wf_key_set ks \<longleftrightarrow> wf_map ks \<and> length ks \<le> maxKeys \<and> (\<forall>(k, e) \<in> set ks. length (ke_pk e) = 32)"

lemma Set_GetAt_iff:
  "Set_GetAt ks kid now = Some pk \<longleftrightarrow> (\<exists>e. map_of ks kid = Some e \<and> in_window e now \<and> ke_pk e = pk)"
  by (auto simp: Set_GetAt_def in_window_def Let_def split: option.splits)

lemma load_keys_inv:
  assumes "load_keys es ks = Inr ks'" "wf_map ks" "\<forall>(k, e) \<in> set ks. length (ke_pk e) = 32"
  shows "wf_map ks' \<and> (\<forall>(k, e) \<in> set ks'. length (ke_pk e) = 32) \<and> length ks' \<le> length ks + length es"
  using assms
proof (induction es ks rule: load_keys.induct)
  case (2 k rest ks)
  show ?case
  proof (cases "en_Alg k = ''Ed25519''")
    case False
    with 2 show ?thesis by force
  next
    case True
    with "2.prems" obtain raw where raw: "raw_url_decode False (en_PublicKey k) = Some raw" "length raw = 32"
      and next': "load_keys rest (AList.update (en_Kid k)
        \<lparr>ke_pk = raw, ke_notBefore = en_NotBefore k, ke_notAfter = en_NotAfter k\<rparr> ks) = Inr ks'"
      by (auto split: option.splits if_splits)
    let ?e = "\<lparr>ke_pk = raw, ke_notBefore = en_NotBefore k, ke_notAfter = en_NotAfter k\<rparr>"
    have "\<forall>(k, e) \<in> set (AList.update (en_Kid k) ?e ks). length (ke_pk e) = 32"
      using set_update_subset [of "en_Kid k" ?e ks] "2.prems"(3) raw(2) by fastforce
    with "2.IH"(2) [OF _ raw(1)] True raw(2) next' "2.prems"(2) length_update_le [of "en_Kid k" ?e ks]
    show ?thesis by fastforce
  qed
qed auto

lemma ParseDocument_wf: "ParseDocument raw issuer = Inr ks \<Longrightarrow> wf_key_set ks"
  by (auto simp: ParseDocument_def wf_key_set_def split: option.splits if_splits dest!: load_keys_inv)

lemma ParseDocument_issuer:
  assumes "ParseDocument raw issuer = Inr ks" "issuer \<noteq> []"
  obtains doc where "unmarshal dec_Document zero_Document raw = Some doc" "do_Issuer doc = [] \<or> do_Issuer doc = issuer"
  using assms by (auto simp: ParseDocument_def split: option.splits if_splits)

section \<open>The cache\<close>

record Cache =
  kc_URL :: string
  kc_Issuer :: string
  kc_TTL :: duration
  kc_MinRefetch :: duration
  kc_MinRetry :: duration
  kc_set :: "key_set option"
  kc_lastFetch :: gotime
  kc_nextFetch :: gotime
  kc_lastErr :: "goerr option"
  kc_inflight :: bool

abbreviation DefaultTTL :: duration where "DefaultTTL \<equiv> 5 * 60 * second"
abbreviation DefaultMinRefetch :: duration where "DefaultMinRefetch \<equiv> 30 * second"
abbreviation DefaultMinRetry :: duration where "DefaultMinRetry \<equiv> second"

definition NewCache :: "string \<Rightarrow> Cache" where
  "NewCache url =
     \<lparr>kc_URL = url, kc_Issuer = [], kc_TTL = DefaultTTL, kc_MinRefetch = DefaultMinRefetch,
      kc_MinRetry = DefaultMinRetry, kc_set = None, kc_lastFetch = 0, kc_nextFetch = 0,
      kc_lastErr = None, kc_inflight = False\<rparr>"

definition ttl :: "Cache \<Rightarrow> duration" where
  "ttl kc = (if kc_TTL kc \<le> 0 then DefaultTTL else kc_TTL kc)"

definition minRefetch :: "Cache \<Rightarrow> duration" where
  "minRefetch kc = (if kc_MinRefetch kc \<le> 0 then DefaultMinRefetch else kc_MinRefetch kc)"

definition minRetry :: "Cache \<Rightarrow> duration" where
  "minRetry kc = (if kc_MinRetry kc \<le> 0 then DefaultMinRetry else kc_MinRetry kc)"

definition snapshot :: "Cache \<Rightarrow> key_set option \<times> gotime" where
  "snapshot kc = (kc_set kc, kc_lastFetch kc)"

text \<open>\<open>time.Time.Sub\<close> saturates at the ends of the duration range.\<close>

definition Time_Sub :: "gotime \<Rightarrow> gotime \<Rightarrow> duration" where
  "Time_Sub t u = max (- (2 ^ 63)) (min (2 ^ 63 - 1) (t - u))"

definition hot_lookup :: "Cache \<Rightarrow> string \<Rightarrow> gotime \<Rightarrow> bytes option" where
  "hot_lookup kc kid now =
     (let (set, fetched) = snapshot kc in
      case set of
        None \<Rightarrow> None
      | Some ks \<Rightarrow> if Time_Sub now fetched < ttl kc then Set_GetAt ks kid now else None)"

text \<open>
  The request is one \<open>net\<close> takes: a URL that does not parse, for which \<open>http.NewRequest\<close> returns an error
  before anything is sent, is left out. \<open>NewVerifier\<close> has parsed the URL of the caches it makes.
\<close>

definition fetch :: "'w net \<Rightarrow> 'w \<Rightarrow> Cache \<Rightarrow> 'w \<times> key_set res" where
  "fetch net w kc =
     (let (w', r) = net w \<lparr>rq_method = ''GET'', rq_url = kc_URL kc, rq_header = [], rq_body = []\<rparr> in
      (w', case r of
             Inl e \<Rightarrow> Inl (ErrWrap ''anubis: keys fetch: '' e)
           | Inr resp \<Rightarrow>
               if rs_status resp \<noteq> 200 then Inl (ErrText (''anubis: keys fetch: status '' @ FormatInt (rs_status resp)))
               else case read_limited (2 ^ 20) resp of
                 Inl e \<Rightarrow> Inl e
               | Inr raw \<Rightarrow> ParseDocument raw (kc_Issuer kc)))"

text \<open>
  The critical sections of \<open>refetch\<close>: entering (wait for the fetch in flight, be refused by
  the budget, or take the flight), storing a fetch's outcome, and releasing the flight.
\<close>

datatype entry_outcome = Wait | Throttled "goerr option" | Fly

definition refetch_enter :: "Cache \<Rightarrow> gotime \<Rightarrow> Cache \<times> entry_outcome" where
  "refetch_enter kc now =
     (if kc_inflight kc then (kc, Wait)
      else if now < kc_nextFetch kc then (kc, Throttled (kc_lastErr kc))
      else (kc\<lparr>kc_inflight := True\<rparr>, Fly))"

definition refetch_commit :: "Cache \<Rightarrow> gotime \<Rightarrow> key_set res \<Rightarrow> Cache" where
  "refetch_commit kc now r =
     (case r of
        Inr ks \<Rightarrow> kc\<lparr>kc_lastErr := None, kc_set := Some ks, kc_lastFetch := now,
                    kc_nextFetch := now + minRefetch kc\<rparr>
      | Inl e \<Rightarrow> kc\<lparr>kc_lastErr := Some e, kc_nextFetch := now + minRetry kc\<rparr>)"

definition refetch_release :: "Cache \<Rightarrow> Cache" where
  "refetch_release kc = kc\<lparr>kc_inflight := False\<rparr>"

text \<open>
  \<open>GetAt\<close> once \<open>refetch\<close> has returned: \<open>had_set\<close> says whether the first snapshot held a
  set, \<open>err\<close> is what \<open>refetch\<close> returned, \<open>kc\<close> is the cache now.
\<close>

definition GetAt_finish :: "bool \<Rightarrow> goerr option \<Rightarrow> Cache \<Rightarrow> string \<Rightarrow> gotime \<Rightarrow> bytes res" where
  "GetAt_finish had_set err kc kid now =
     (case (err, had_set) of
        (Some e, False) \<Rightarrow> Inl e
      | _ \<Rightarrow>
          (case fst (snapshot kc) of
             None \<Rightarrow> Inl ErrUnknownKid
           | Some ks \<Rightarrow>
               (case Set_GetAt ks kid now of Some pk \<Rightarrow> Inr pk | None \<Rightarrow> Inl ErrUnknownKid)))"

definition refetch :: "'w net \<Rightarrow> 'w \<Rightarrow> Cache \<Rightarrow> gotime \<Rightarrow> 'w \<times> Cache \<times> goerr option" where
  "refetch net w kc now =
     (case refetch_enter kc now of
        (kc1, Fly) \<Rightarrow>
          (case fetch net w kc1 of
             (w', r) \<Rightarrow> (w', refetch_release (refetch_commit kc1 now r),
                         case r of Inl e \<Rightarrow> Some e | Inr ks \<Rightarrow> None))
      | (kc1, Throttled e) \<Rightarrow> (w, kc1, e)
      | (kc1, Wait) \<Rightarrow> (w, kc1, kc_lastErr kc1))"

definition Cache_GetAt :: "'w net \<Rightarrow> 'w \<Rightarrow> Cache \<Rightarrow> string \<Rightarrow> gotime \<Rightarrow> 'w \<times> Cache \<times> bytes res" where
  "Cache_GetAt net w kc kid now =
     (case hot_lookup kc kid now of
        Some pk \<Rightarrow> (w, kc, Inr pk)
      | None \<Rightarrow>
          (case refetch net w kc now of
             (w', kc', err) \<Rightarrow> (w', kc', GetAt_finish (kc_set kc \<noteq> None) err kc' kid now)))"

lemma minRefetch_pos [simp]: "0 < minRefetch kc" and minRetry_pos [simp]: "0 < minRetry kc"
  and ttl_pos [simp]: "0 < ttl kc"
  by (simp_all add: minRefetch_def minRetry_def ttl_def)

lemma hot_lookup_Some:
  "hot_lookup kc kid now = Some pk \<longleftrightarrow>
   (\<exists>ks. kc_set kc = Some ks \<and> Time_Sub now (kc_lastFetch kc) < ttl kc \<and> Set_GetAt ks kid now = Some pk)"
  by (auto simp: hot_lookup_def snapshot_def split: option.splits)

lemma GetAt_finish_Inr:
  "GetAt_finish had err kc kid now = Inr pk \<longleftrightarrow>
   (err = None \<or> had) \<and> (\<exists>ks. kc_set kc = Some ks \<and> Set_GetAt ks kid now = Some pk)"
  by (auto simp: GetAt_finish_def snapshot_def split: option.splits bool.splits)

text \<open>The key handed out is in the set the cache holds after the call, inside its window.\<close>

lemma Cache_GetAt_held:
  assumes "Cache_GetAt net w kc kid now = (w', kc', Inr pk)"
  shows "\<exists>ks. kc_set kc' = Some ks \<and> Set_GetAt ks kid now = Some pk"
  using assms unfolding Cache_GetAt_def
  by (auto simp: hot_lookup_Some GetAt_finish_Inr split: option.splits prod.splits)

text \<open>A call that does not fetch leaves the outside world and the cache alone.\<close>

lemma Cache_GetAt_throttled:
  assumes "kc_inflight kc \<or> now < kc_nextFetch kc"
  shows "fst (Cache_GetAt net w kc kid now) = w \<and> fst (snd (Cache_GetAt net w kc kid now)) = kc"
  using assms by (auto simp: Cache_GetAt_def refetch_def refetch_enter_def split: option.splits)

definition wf_cache :: "Cache \<Rightarrow> bool" where
  "wf_cache kc \<longleftrightarrow> (\<forall>ks. kc_set kc = Some ks \<longrightarrow> wf_key_set ks)"

lemma fetch_wf: "fetch net w kc = (w', Inr ks) \<Longrightarrow> wf_key_set ks"
  by (auto simp: fetch_def Let_def ParseDocument_wf split: prod.splits sum.splits if_splits)

lemma refetch_commit_wf:
  "wf_cache kc \<Longrightarrow> (\<And>ks. r = Inr ks \<Longrightarrow> wf_key_set ks) \<Longrightarrow> wf_cache (refetch_commit kc now r)"
  by (auto simp: wf_cache_def refetch_commit_def split: sum.splits)

lemma wf_cache_inflight [simp]: "wf_cache (kc\<lparr>kc_inflight := b\<rparr>) = wf_cache kc"
  by (simp add: wf_cache_def)

lemma refetch_wf:
  assumes "wf_cache kc" "refetch net w kc now = (w', kc', e)"
  shows "wf_cache kc'"
  using assms unfolding refetch_def
  by (auto simp: refetch_enter_def refetch_release_def fetch_wf intro!: refetch_commit_wf
      split: if_splits prod.splits sum.splits)

lemma Cache_GetAt_wf:
  "wf_cache kc \<Longrightarrow> Cache_GetAt net w kc kid now = (w', kc', r) \<Longrightarrow> wf_cache kc'"
  by (auto simp: Cache_GetAt_def split: option.splits prod.splits dest: refetch_wf)

section \<open>What a verifier relies on\<close>

text \<open>
  A key source answers a kid at an instant with a public key, or refuses, and moves to a
  new state; \<open>trusts s kid e\<close> says that in state \<open>s\<close> it may answer from entry \<open>e\<close>.
\<close>

locale key_source =
  fixes key_at :: "'s \<Rightarrow> string \<Rightarrow> gotime \<Rightarrow> 's \<times> bytes res"
    and trusts :: "'s \<Rightarrow> string \<Rightarrow> key_entry \<Rightarrow> bool"
    and inv :: "'s \<Rightarrow> bool"
  assumes key_at_trusted: "key_at s kid now = (s', Inr pk) \<Longrightarrow>
      \<exists>e. trusts s' kid e \<and> in_window e now \<and> ke_pk e = pk"
    and key_at_inv: "inv s \<Longrightarrow> key_at s kid now = (s', r) \<Longrightarrow> inv s'"
    and inv_length: "inv s \<Longrightarrow> trusts s kid e \<Longrightarrow> length (ke_pk e) = 32"
begin

lemma key_length: "inv s \<Longrightarrow> key_at s kid now = (s', Inr pk) \<Longrightarrow> length pk = 32"
  using key_at_trusted key_at_inv inv_length by blast

lemma untrusted_kid_refused:
  "key_at s kid now = (s', r) \<Longrightarrow> (\<And>e. trusts s' kid e \<Longrightarrow> \<not> in_window e now) \<Longrightarrow> \<exists>e. r = Inl e"
  using key_at_trusted [of s kid now s'] by (cases r) blast+

end

definition static_key_at :: "key_set \<Rightarrow> string \<Rightarrow> gotime \<Rightarrow> key_set \<times> bytes res" where
  "static_key_at ks kid now =
     (ks, case Set_GetAt ks kid now of Some pk \<Rightarrow> Inr pk | None \<Rightarrow> Inl ErrUnknownKid)"

definition set_trusts :: "key_set \<Rightarrow> string \<Rightarrow> key_entry \<Rightarrow> bool" where
  "set_trusts ks kid e \<longleftrightarrow> map_of ks kid = Some e"

definition cache_key_at :: "'w net \<Rightarrow> 'w \<times> Cache \<Rightarrow> string \<Rightarrow> gotime \<Rightarrow> ('w \<times> Cache) \<times> bytes res" where
  "cache_key_at net s kid now =
     (case s of (w, kc) \<Rightarrow> (case Cache_GetAt net w kc kid now of (w', kc', r) \<Rightarrow> ((w', kc'), r)))"

definition cache_trusts :: "Cache \<Rightarrow> string \<Rightarrow> key_entry \<Rightarrow> bool" where
  "cache_trusts kc kid e \<longleftrightarrow> (\<exists>ks. kc_set kc = Some ks \<and> set_trusts ks kid e)"

lemma set_trusts_length: "wf_key_set ks \<Longrightarrow> set_trusts ks kid e \<Longrightarrow> length (ke_pk e) = 32"
  by (auto simp: wf_key_set_def set_trusts_def dest!: map_of_SomeD)

lemma cache_trusts_length: "wf_cache kc \<Longrightarrow> cache_trusts kc kid e \<Longrightarrow> length (ke_pk e) = 32"
  by (auto simp: wf_cache_def cache_trusts_def set_trusts_length)

lemma Set_GetAt_trusted: "Set_GetAt ks kid now = Some pk \<Longrightarrow> \<exists>e. set_trusts ks kid e \<and> in_window e now \<and> ke_pk e = pk"
  by (simp add: Set_GetAt_iff set_trusts_def)

lemma Cache_GetAt_trusted:
  "Cache_GetAt net w kc kid now = (w', kc', Inr pk) \<Longrightarrow>
   \<exists>e. cache_trusts kc' kid e \<and> in_window e now \<and> ke_pk e = pk"
  unfolding cache_trusts_def by (drule Cache_GetAt_held) (auto dest: Set_GetAt_trusted)

interpretation static_keys: key_source static_key_at set_trusts wf_key_set
  by unfold_locales
    (auto simp: static_key_at_def set_trusts_length dest: Set_GetAt_trusted split: option.splits)

interpretation cached_keys: key_source "cache_key_at net" "\<lambda>s. cache_trusts (snd s)" "\<lambda>s. wf_cache (snd s)"
  for net :: "'w net"
  by unfold_locales
    (auto simp: cache_key_at_def cache_trusts_length split: prod.splits
      dest: Cache_GetAt_trusted Cache_GetAt_wf)

end
