(* ===== verification/Paseto.thy ===== *)
theory Paseto
  imports Base64 Errors
begin

text \<open>
  Package \<open>paseto\<close> (\<open>paseto/paseto.go\<close>): PASETO v4.public. The Ed25519 primitives are
  not under src/ and are parameters: \<open>ed_sign sk m\<close> and \<open>ed_verify pk m sig\<close>.
  \<open>pae\<close>, \<open>Sign\<close>, \<open>Parse\<close> and \<open>Verify\<close> are the code's functions on byte strings; a
  Go nil slice and an empty one are both \<open>[]\<close>.

  The lemmas: the Pre-Authentication Encoding is injective on pieces shorter than
  \<open>2 ^ 63\<close> bytes, \<open>Parse\<close> inverts \<open>Sign\<close>, and a token that verifies carries exactly
  the pieces that were signed.
\<close>

definition headerV4Public :: string where "headerV4Public = ''v4.public.''"

abbreviation (input) SignatureSize :: nat where "SignatureSize \<equiv> 64"
abbreviation (input) PrivateKeySize :: nat where "PrivateKeySize \<equiv> 64"
abbreviation (input) PublicKeySize :: nat where "PublicKeySize \<equiv> 32"

section \<open>Pre-Authentication Encoding\<close>

unbundle bit_operations_syntax

definition le64_mask :: "64 word \<Rightarrow> nat" where
  "le64_mask n = unat (n AND 0x7FFFFFFFFFFFFFFF)"

definition le64 :: "bytes \<Rightarrow> 64 word \<Rightarrow> bytes" where
  "le64 dst n = dst @ map (\<lambda>i. char_of (le64_mask n div 256 ^ i)) [0..<8]"

fun pae_pieces :: "bytes \<Rightarrow> bytes list \<Rightarrow> bytes" where
  "pae_pieces out [] = out"
| "pae_pieces out (p # ps) = pae_pieces (le64 out (of_nat (length p)) @ p) ps"

definition pae :: "bytes list \<Rightarrow> bytes" where
  "pae pieces = pae_pieces (le64 [] (of_nat (length pieces))) pieces"


text \<open>The eight bytes read back as the number.\<close>

fun le_value :: "bytes \<Rightarrow> nat" where
  "le_value [] = 0"
| "le_value (c # cs) = of_char c + 256 * le_value cs"

lemma le_value_bytes: "le_value (map (\<lambda>i. char_of (m div 256 ^ i)) [0..<k]) = m mod 256 ^ k"
proof (induction k arbitrary: m)
  case (Suc k)
  have "map (\<lambda>i. char_of (m div 256 ^ i)) [0..<Suc k] =
        (char_of m :: char) # map (\<lambda>i. char_of (m div 256 div 256 ^ i)) [0..<k]"
    by (simp add: upt_rec [of 0 "Suc k"] map_Suc_upt [symmetric] div_mult2_eq [symmetric]
        del: upt_Suc)
  with Suc [of "m div 256"] show ?case
    by (simp add: mod_mult2_eq del: upt_Suc)
qed simp

lemma le64_mask_small:
  assumes "n < 2 ^ 63"
  shows "le64_mask (of_nat n) = n"
proof -
  have m: "(0x7FFFFFFFFFFFFFFF :: 64 word) = mask 63" by (simp add: mask_eq_exp_minus_1)
  have "le64_mask (of_nat n) = unat (take_bit 63 (of_nat n :: 64 word))"
    by (simp only: le64_mask_def m take_bit_eq_mask)
  also have "\<dots> = take_bit 63 (unat (of_nat n :: 64 word))" by (simp only: unsigned_take_bit_eq)
  also have "\<dots> = n" using assms by (simp add: unat_of_nat take_bit_eq_mod)
  finally show ?thesis .
qed

lemma le64_append: "le64 dst n = dst @ le64 [] n"
  by (simp add: le64_def)

lemma length_le64: "length (le64 [] n) = 8"
  by (simp add: le64_def)

lemma le64_inj:
  assumes "m < 2 ^ 63" "n < 2 ^ 63" "le64 [] (of_nat m) = le64 [] (of_nat n)"
  shows "m = n"
proof -
  have "le_value (le64 [] (of_nat k)) = k" if "k < 2 ^ 63" for k
    using that by (simp add: le64_def le_value_bytes le64_mask_small del: upt_Suc)
  with assms show ?thesis by metis
qed

definition piece_bytes :: "bytes list \<Rightarrow> bytes" where
  "piece_bytes ps = concat (map (\<lambda>p. le64 [] (of_nat (length p)) @ p) ps)"

lemma pae_pieces_eq: "pae_pieces out ps = out @ piece_bytes ps"
proof (induction ps arbitrary: out)
  case (Cons p ps)
  then show ?case by (simp add: piece_bytes_def le64_append [of out])
qed (simp add: piece_bytes_def)

lemma pae_eq: "pae ps = le64 [] (of_nat (length ps)) @ piece_bytes ps"
  by (simp add: pae_def pae_pieces_eq)

definition pae_ok :: "bytes list \<Rightarrow> bool" where
  "pae_ok ps \<longleftrightarrow> length ps < 2 ^ 63 \<and> (\<forall>p \<in> set ps. length p < 2 ^ 63)"

lemma piece_bytes_inj:
  assumes "length ps = length qs" "\<forall>p \<in> set ps. length p < 2 ^ 63" "\<forall>q \<in> set qs. length q < 2 ^ 63"
    "piece_bytes ps = piece_bytes qs"
  shows "ps = qs"
  using assms
proof (induction ps qs rule: list_induct2)
  case (Cons p ps q qs)
  from Cons.prems(3) have "le64 [] (of_nat (length p)) @ p @ piece_bytes ps =
      le64 [] (of_nat (length q)) @ q @ piece_bytes qs"
    by (simp add: piece_bytes_def)
  then have len: "le64 [] (of_nat (length p)) = le64 [] (of_nat (length q))"
    and rest: "p @ piece_bytes ps = q @ piece_bytes qs"
    by (simp_all add: append_eq_append_conv length_le64)
  from len Cons.prems have "length p = length q" by (intro le64_inj) auto
  with rest Cons show ?case by auto
qed simp

lemma pae_inj:
  assumes "pae_ok ps" "pae_ok qs" "pae ps = pae qs"
  shows "ps = qs"
proof -
  from assms(3) have "le64 [] (of_nat (length ps)) = le64 [] (of_nat (length qs))"
    "piece_bytes ps = piece_bytes qs"
    by (simp_all add: pae_eq append_eq_append_conv length_le64)
  with assms le64_inj piece_bytes_inj show ?thesis unfolding pae_ok_def by blast
qed

section \<open>Sign, Parse, Verify\<close>

definition Sign :: "(bytes \<Rightarrow> bytes \<Rightarrow> bytes) \<Rightarrow> bytes \<Rightarrow> bytes \<Rightarrow> bytes \<Rightarrow> bytes \<Rightarrow> string res" where
  "Sign ed_sign sk message footer implicit =
     (if length sk \<noteq> PrivateKeySize then Inl ErrKeySize
      else let m2 = pae [headerV4Public, message, footer, implicit];
               sig = ed_sign sk m2
           in Inr (headerV4Public @ raw_url_encode (message @ sig) @
                   (if length footer > 0 then ''.'' @ raw_url_encode footer else [])))"

definition Parse :: "string \<Rightarrow> (bytes \<times> bytes \<times> bytes) res" where
  "Parse token =
     (if \<not> HasPrefix token headerV4Public then Inl ErrWrongHeader
      else let rest = drop (length headerV4Public) token;
               cut = break_at (CHR ''.'') rest;
               bodyPart = (case cut of Some (u, v) \<Rightarrow> u | None \<Rightarrow> rest);
               footPart = (case cut of Some (u, v) \<Rightarrow> v | None \<Rightarrow> [])
           in if cut \<noteq> None \<and> (footPart = [] \<or> CHR ''.'' \<in> set footPart) then Inl ErrMalformed
              else case raw_url_decode True bodyPart of
                None \<Rightarrow> Inl ErrMalformed
              | Some body \<Rightarrow>
                  if length body < SignatureSize then Inl ErrMalformed
                  else let n = length body - SignatureSize in
                    (if footPart \<noteq> [] then
                       (case raw_url_decode True footPart of
                          None \<Rightarrow> Inl ErrMalformed
                        | Some footer \<Rightarrow> Inr (take n body, drop n body, footer))
                     else Inr (take n body, drop n body, [])))"

definition Verify :: "(bytes \<Rightarrow> bytes \<Rightarrow> bytes \<Rightarrow> bool) \<Rightarrow> bytes \<Rightarrow> string \<Rightarrow> bytes \<Rightarrow> (bytes \<times> bytes) res" where
  "Verify ed_verify pk token implicit =
     (if length pk \<noteq> PublicKeySize then Inl ErrKeySize
      else case Parse token of
        Inl e \<Rightarrow> Inl e
      | Inr (m, sig, f) \<Rightarrow>
          if \<not> ed_verify pk (pae [headerV4Public, m, f, implicit]) sig then Inl ErrBadSig
          else Inr (m, f))"

lemma encode_no_dot: "CHR ''.'' \<notin> set (raw_url_encode bs)"
  using raw_url_encode_chars by blast

lemma Parse_Sign:
  assumes "Sign ed_sign sk m f i = Inr t"
    and "length (ed_sign sk (pae [headerV4Public, m, f, i])) = SignatureSize"
  shows "Parse t = Inr (m, ed_sign sk (pae [headerV4Public, m, f, i]), f)"
proof -
  let ?sig = "ed_sign sk (pae [headerV4Public, m, f, i])"
  let ?foot = "if length f > 0 then ''.'' @ raw_url_encode f else []"
  from assms(1) have t: "t = headerV4Public @ raw_url_encode (m @ ?sig) @ ?foot"
    by (auto simp: Sign_def Let_def split: if_splits)
  show ?thesis
  proof (cases "f = []")
    case True
    with t assms(2) show ?thesis
      by (simp add: Parse_def Let_def encode_no_dot)
  next
    case False
    with t have "drop (length headerV4Public) t = raw_url_encode (m @ ?sig) @ CHR ''.'' # raw_url_encode f"
      by simp
    with t False assms(2) raw_url_encode_not_Nil [OF False] show ?thesis
      by (simp add: Parse_def Let_def encode_no_dot)
  qed
qed

lemma Parse_sig_length: "Parse t = Inr (m, sig, f) \<Longrightarrow> length sig = SignatureSize"
  by (auto simp: Parse_def Let_def split: if_splits option.splits)

lemma Parse_header: "Parse t = Inr x \<Longrightarrow> HasPrefix t headerV4Public"
  by (auto simp: Parse_def split: if_splits)

lemma Verify_Inr:
  "Verify ed_verify pk t i = Inr (m, f) \<longleftrightarrow>
   length pk = PublicKeySize \<and>
   (\<exists>sig. Parse t = Inr (m, sig, f) \<and> ed_verify pk (pae [headerV4Public, m, f, i]) sig)"
  by (auto simp: Verify_def split: sum.splits if_splits)

text \<open>Two tokens that parse alike are the same text, but for the line breaks base64 skips.\<close>

definition token_text :: "bytes \<Rightarrow> bytes \<Rightarrow> bytes \<Rightarrow> string" where
  "token_text m sig f = headerV4Public @ raw_url_encode (m @ sig) @
     (if f \<noteq> [] then ''.'' @ raw_url_encode f else [])"

lemma strip_crlf_append [simp]: "strip_crlf (a @ b) = strip_crlf a @ strip_crlf b"
  by (simp add: strip_crlf_def)

lemma strip_crlf_header [simp]: "strip_crlf headerV4Public = headerV4Public"
  by (simp add: strip_crlf_def headerV4Public_def)

lemma strip_crlf_dot [simp]: "strip_crlf (CHR ''.'' # s) = CHR ''.'' # strip_crlf s"
  by (simp add: strip_crlf_def)

lemma Parse_canonical:
  assumes p: "Parse t = Inr (m, sig, f)"
  shows "strip_crlf t = token_text m sig f \<or> (f = [] \<and> strip_crlf t = token_text m sig f @ ''.'')"
proof -
  from Parse_header [OF p] obtain rest where t: "t = headerV4Public @ rest" by (auto simp: HasPrefix_iff)
  show ?thesis
  proof (cases "break_at (CHR ''.'') rest")
    case None
    with p t have "raw_url_decode True rest = Some (m @ sig)" "f = []"
      by (auto simp: Parse_def Let_def split: if_splits option.splits)
    with t show ?thesis by (simp add: token_text_def raw_url_decode_strict_canonical)
  next
    case (Some uv)
    obtain u v where uv: "uv = (u, v)" by (cases uv)
    with Some have rest: "rest = u @ CHR ''.'' # v" by (simp add: break_at_Some)
    from p t Some uv have "raw_url_decode True u = Some (m @ sig)" "raw_url_decode True v = Some f"
      by (auto simp: Parse_def Let_def split: if_splits option.splits)
    then have "strip_crlf u = raw_url_encode (m @ sig)" "strip_crlf v = raw_url_encode f"
      by (simp_all add: raw_url_decode_strict_canonical)
    with t rest show ?thesis
      by (cases "f = []") (simp_all add: token_text_def raw_url_encode_def)
  qed
qed

end
