(* ===== verification/Identity.thy ===== *)
theory Identity
  imports Prelude
begin

text \<open>
  The SDK's vocabulary (\<open>identity.go\<close>): permission keys, role names, scope sets,
  authentication methods, and the identity view that carries them. The string-backed Go
  types are \<open>string\<close>s here, their methods are functions named \<open>Type_Method\<close>; a scope set
  is a Go map, an association list with distinct keys (\<open>wf_map\<close>).
\<close>

type_synonym SubjectID = string
type_synonym SessionID = string
type_synonym TenantID = string
type_synonym Permission = string
type_synonym Permissions = "Permission list"
type_synonym Role = string
type_synonym Roles = "Role list"
type_synonym Axis = string
type_synonym Scopes = smap
type_synonym AuthMethod = string
type_synonym AuthMethods = "AuthMethod list"

section \<open>Subjects\<close>

definition SubjectID_IsApplication :: "SubjectID \<Rightarrow> bool" where
  "SubjectID_IsApplication s \<longleftrightarrow> HasPrefix s ''app_''"

section \<open>Permissions\<close>

definition Permission_parts :: "Permission \<Rightarrow> (string \<times> string \<times> string) option" where
  "Permission_parts p =
     (case Split (CHR '':'') p of
        [a, b, c] \<Rightarrow> if a = [] \<or> b = [] \<or> c = [] then None else Some (a, b, c)
      | _ \<Rightarrow> None)"

definition Permission_part :: "Permission \<Rightarrow> nat \<Rightarrow> string" where
  "Permission_part p i =
     (case Permission_parts p of None \<Rightarrow> [] | Some (a, b, c) \<Rightarrow> [a, b, c] ! i)"

definition Permission_App :: "Permission \<Rightarrow> string" where "Permission_App p = Permission_part p 0"
definition Permission_Resource :: "Permission \<Rightarrow> string" where "Permission_Resource p = Permission_part p 1"
definition Permission_Action :: "Permission \<Rightarrow> string" where "Permission_Action p = Permission_part p 2"

definition Permission_IsValid :: "Permission \<Rightarrow> bool" where
  "Permission_IsValid p \<longleftrightarrow> Permission_parts p \<noteq> None"

definition Permission_Manifest :: "Permission \<Rightarrow> string" where
  "Permission_Manifest p =
     (if \<not> Permission_IsValid p then p else Permission_Resource p @ '':'' @ Permission_Action p)"

definition NewPermission :: "string \<Rightarrow> string \<Rightarrow> string \<Rightarrow> Permission" where
  "NewPermission app resource action = app @ '':'' @ resource @ '':'' @ action"

fun Permissions_Has :: "Permissions \<Rightarrow> Permission \<Rightarrow> bool" where
  "Permissions_Has [] want = False"
| "Permissions_Has (p # ps) want = (if p = want then True else Permissions_Has ps want)"

fun Permissions_HasAny :: "Permissions \<Rightarrow> Permissions \<Rightarrow> bool" where
  "Permissions_HasAny ps [] = False"
| "Permissions_HasAny ps (w # ws) = (if Permissions_Has ps w then True else Permissions_HasAny ps ws)"

fun Permissions_OfApp :: "Permissions \<Rightarrow> string \<Rightarrow> Permissions" where
  "Permissions_OfApp [] app = []"
| "Permissions_OfApp (p # ps) app =
     (if Permission_App p = app then p # Permissions_OfApp ps app else Permissions_OfApp ps app)"

text \<open>A part holds no separator and is not empty.\<close>

definition key_part :: "string \<Rightarrow> bool" where
  "key_part s \<longleftrightarrow> s \<noteq> [] \<and> CHR '':'' \<notin> set s"

lemma Split_three: "Split b p = [x, y, z] \<longleftrightarrow>
    p = x @ b # y @ b # z \<and> b \<notin> set x \<and> b \<notin> set y \<and> b \<notin> set z"
proof
  assume s: "Split b p = [x, y, z]"
  have "p = Join [b] [x, y, z]" using Join_Split [of b p] s by simp
  moreover have "b \<notin> set x" "b \<notin> set y" "b \<notin> set z" using set_Split [of _ b p] s by auto
  ultimately show "p = x @ b # y @ b # z \<and> b \<notin> set x \<and> b \<notin> set y \<and> b \<notin> set z" by simp
qed (simp add: Split_append_sep Split_no_sep)

lemma Permission_parts_Some:
  "Permission_parts p = Some (a, b, c) \<longleftrightarrow>
   p = NewPermission a b c \<and> key_part a \<and> key_part b \<and> key_part c"
proof
  assume "Permission_parts p = Some (a, b, c)"
  then have "Split (CHR '':'') p = [a, b, c]" "a \<noteq> []" "b \<noteq> []" "c \<noteq> []"
    by (auto simp: Permission_parts_def split: list.splits if_splits)
  then show "p = NewPermission a b c \<and> key_part a \<and> key_part b \<and> key_part c"
    by (simp add: Split_three NewPermission_def key_part_def)
next
  assume p: "p = NewPermission a b c \<and> key_part a \<and> key_part b \<and> key_part c"
  then have "Split (CHR '':'') p = [a, b, c]"
    by (simp add: Split_three NewPermission_def key_part_def)
  with p show "Permission_parts p = Some (a, b, c)"
    by (simp add: Permission_parts_def key_part_def)
qed

lemma Permission_parts_New:
  "key_part a \<Longrightarrow> key_part b \<Longrightarrow> key_part c \<Longrightarrow> Permission_parts (NewPermission a b c) = Some (a, b, c)"
  by (simp add: Permission_parts_Some)

lemma Permission_valid_cases:
  assumes "Permission_IsValid p"
  obtains a b c where "p = NewPermission a b c" "key_part a" "key_part b" "key_part c"
    "Permission_App p = a" "Permission_Resource p = b" "Permission_Action p = c"
    "Permission_Manifest p = b @ '':'' @ c"
proof -
  from assms obtain a b c where abc: "Permission_parts p = Some (a, b, c)"
    by (auto simp: Permission_IsValid_def)
  with assms that [of a b c] show ?thesis
    by (auto simp: Permission_parts_Some [symmetric] Permission_App_def Permission_Resource_def
        Permission_Action_def Permission_Manifest_def Permission_part_def Permission_parts_Some [THEN iffD1])
qed

lemma Permission_invalid_parts:
  "\<not> Permission_IsValid p \<Longrightarrow> Permission_App p = [] \<and> Permission_Resource p = [] \<and> Permission_Action p = []"
  by (cases "Permission_parts p") (auto simp: Permission_IsValid_def Permission_App_def
      Permission_Resource_def Permission_Action_def Permission_part_def)

section \<open>Roles\<close>

definition Role_App :: "Role \<Rightarrow> string" where
  "Role_App r = (case break_at (CHR ''.'') r of Some (u, v) \<Rightarrow> u | None \<Rightarrow> [])"

definition Role_Name :: "Role \<Rightarrow> string" where
  "Role_Name r = (case break_at (CHR ''.'') r of Some (u, v) \<Rightarrow> v | None \<Rightarrow> r)"

definition NewRole :: "string \<Rightarrow> string \<Rightarrow> Role" where
  "NewRole app name = app @ ''.'' @ name"

fun Roles_Has :: "Roles \<Rightarrow> Role \<Rightarrow> bool" where
  "Roles_Has [] want = False"
| "Roles_Has (r # rs) want = (if r = want then True else Roles_Has rs want)"

fun Roles_HasAny :: "Roles \<Rightarrow> Roles \<Rightarrow> bool" where
  "Roles_HasAny rs [] = False"
| "Roles_HasAny rs (w # ws) = (if Roles_Has rs w then True else Roles_HasAny rs ws)"

fun Roles_OfApp :: "Roles \<Rightarrow> string \<Rightarrow> Roles" where
  "Roles_OfApp [] app = []"
| "Roles_OfApp (r # rs) app =
     (if Role_App r = app then r # Roles_OfApp rs app else Roles_OfApp rs app)"

lemma Role_New [simp]:
  "CHR ''.'' \<notin> set app \<Longrightarrow> Role_App (NewRole app name) = app"
  "CHR ''.'' \<notin> set app \<Longrightarrow> Role_Name (NewRole app name) = name"
  by (simp_all add: Role_App_def Role_Name_def NewRole_def)

lemma Role_split: "CHR ''.'' \<in> set r \<Longrightarrow> NewRole (Role_App r) (Role_Name r) = r"
  using break_at_None [of "CHR ''.''" r]
  by (auto simp: Role_App_def Role_Name_def NewRole_def break_at_Some split: option.splits)

section \<open>Scope sets\<close>

abbreviation AxisOwner :: Axis where "AxisOwner \<equiv> ''_owner''"

definition Owner :: "SubjectID \<Rightarrow> Scopes" where "Owner subject = [(AxisOwner, subject)]"

definition Scopes_With :: "Scopes \<Rightarrow> Axis \<Rightarrow> string \<Rightarrow> Scopes" where
  "Scopes_With s axis node = AList.update axis node s"

fun Scopes_Merge :: "Scopes \<Rightarrow> Scopes \<Rightarrow> Scopes" where
  "Scopes_Merge s [] = s"
| "Scopes_Merge s ((k, v) # other) = Scopes_Merge (AList.update k v s) other"

definition Scopes_Node :: "Scopes \<Rightarrow> Axis \<Rightarrow> string option" where
  "Scopes_Node s axis = map_of s axis"

definition Scopes_Axes :: "Scopes \<Rightarrow> Axis list" where
  "Scopes_Axes s = sort (map fst s)"

definition Scopes_IsEmpty :: "Scopes \<Rightarrow> bool" where
  "Scopes_IsEmpty s \<longleftrightarrow> length s = 0"

definition Scopes_at :: "Scopes \<Rightarrow> Axis \<Rightarrow> string" where
  "Scopes_at s axis = (case map_of s axis of Some v \<Rightarrow> v | None \<Rightarrow> [])"

definition Scopes_String :: "Scopes \<Rightarrow> string" where
  "Scopes_String s = Join '' '' (map (\<lambda>axis. axis @ ''='' @ Scopes_at s axis) (Scopes_Axes s))"

text \<open>The map a scope set is sent as: the entries of \<open>s\<close>, stored one after the other.\<close>

definition Scopes_wire :: "Scopes \<Rightarrow> smap" where
  "Scopes_wire s = fold (\<lambda>(axis, node) out. AList.update axis node out) s []"

lemma Scopes_wire_id: "wf_map s \<Longrightarrow> Scopes_wire s = s"
proof -
  have "wf_map (acc @ s) \<Longrightarrow> fold (\<lambda>(axis, node) out. AList.update axis node out) s acc = acc @ s" for acc
  proof (induction s arbitrary: acc)
    case (Cons e s)
    obtain a n where e: "e = (a, n)" by fastforce
    from Cons.prems have "a \<notin> set (map fst acc)" by (auto simp: wf_map_def e)
    then have "AList.update a n acc = acc @ [(a, n)]" by (induction acc) auto
    with Cons.IH [of "acc @ [(a, n)]"] Cons.prems show ?case by (simp add: e)
  qed simp
  from this [of "[]"] show "wf_map s \<Longrightarrow> Scopes_wire s = s" by (simp add: Scopes_wire_def)
qed

lemma Scopes_Merge_lookup:
  "wf_map other \<Longrightarrow> map_of (Scopes_Merge s other) = map_of s ++ map_of other"
proof (induction s other rule: Scopes_Merge.induct)
  case (2 s k v other)
  then have "wf_map other" "map_of other k = None"
    by (auto simp: wf_map_def map_of_eq_None_iff)
  with 2 show ?case by (auto simp: update_conv' map_add_def split: option.splits)
qed simp

lemma Scopes_Merge_wf: "wf_map s \<Longrightarrow> wf_map (Scopes_Merge s other)"
  by (induction s other rule: Scopes_Merge.induct) auto

lemma Scopes_Axes_same: "wf_map s \<Longrightarrow> wf_map t \<Longrightarrow> same_map s t \<Longrightarrow> Scopes_Axes s = Scopes_Axes t"
  unfolding Scopes_Axes_def wf_map_def
  by (rule sort_cong_set) (use same_map_keys [of s t] in simp_all)

lemma Scopes_at_same: "same_map s t \<Longrightarrow> Scopes_at s = Scopes_at t"
  by (auto simp: same_map_def Scopes_at_def)

lemma Scopes_Axes_facts:
  "wf_map s \<Longrightarrow> sorted (Scopes_Axes s) \<and> distinct (Scopes_Axes s) \<and> set (Scopes_Axes s) = dom (map_of s)"
  by (simp add: Scopes_Axes_def wf_map_def dom_map_of_conv_image_fst)

lemma Scopes_recover:
  assumes "wf_map s" "wf_map t" "Scopes_Axes s = Scopes_Axes t" "\<forall>a \<in> set (Scopes_Axes s). Scopes_at s a = Scopes_at t a"
  shows "same_map s t"
proof -
  have d: "dom (map_of s) = dom (map_of t)" using Scopes_Axes_facts assms by metis
  have "map_of s a = map_of t a" for a
  proof (cases "a \<in> dom (map_of s)")
    case True
    with assms(1,4) Scopes_Axes_facts have "Scopes_at s a = Scopes_at t a" by blast
    moreover obtain v where v: "map_of s a = Some v" using True by blast
    moreover obtain w where w: "map_of t a = Some w" using True d by blast
    ultimately show ?thesis by (simp add: Scopes_at_def)
  next
    case False
    with d have "a \<notin> dom (map_of t)" by simp
    with False show ?thesis by (simp add: domIff)
  qed
  then show ?thesis by (auto simp: same_map_def)
qed

section \<open>Authentication methods\<close>

abbreviation MethodPassword :: AuthMethod where "MethodPassword \<equiv> ''pwd''"
abbreviation MethodOTP :: AuthMethod where "MethodOTP \<equiv> ''otp''"
abbreviation MethodDeviceKey :: AuthMethod where "MethodDeviceKey \<equiv> ''device_key''"

fun AuthMethods_Has :: "AuthMethods \<Rightarrow> AuthMethod \<Rightarrow> bool" where
  "AuthMethods_Has [] want = False"
| "AuthMethods_Has (m # ms) want = (if m = want then True else AuthMethods_Has ms want)"

fun AuthMethods_HasAll :: "AuthMethods \<Rightarrow> AuthMethods \<Rightarrow> bool" where
  "AuthMethods_HasAll ms [] = True"
| "AuthMethods_HasAll ms (w # ws) = (if \<not> AuthMethods_Has ms w then False else AuthMethods_HasAll ms ws)"

section \<open>One contract for the three membership tests\<close>

locale membership =
  fixes has :: "'a list \<Rightarrow> 'a \<Rightarrow> bool"
  assumes has_Nil: "\<not> has [] x"
    and has_Cons: "has (y # ys) x \<longleftrightarrow> y = x \<or> has ys x"
begin

lemma has_iff: "has xs x \<longleftrightarrow> x \<in> set xs"
  by (induction xs) (auto simp: has_Nil has_Cons)

lemma has_append: "has (xs @ ys) x \<longleftrightarrow> has xs x \<or> has ys x"
  by (auto simp: has_iff)

lemma has_mono: "set xs \<subseteq> set ys \<Longrightarrow> has xs x \<Longrightarrow> has ys x"
  by (auto simp: has_iff)

end

interpretation perms: membership Permissions_Has by unfold_locales auto
interpretation roles: membership Roles_Has by unfold_locales auto
interpretation amethods: membership AuthMethods_Has by unfold_locales auto

lemma Permissions_HasAny_iff: "Permissions_HasAny ps ws \<longleftrightarrow> set ps \<inter> set ws \<noteq> {}"
  by (induction ps ws rule: Permissions_HasAny.induct) (auto simp: perms.has_iff)

lemma Roles_HasAny_iff: "Roles_HasAny rs ws \<longleftrightarrow> set rs \<inter> set ws \<noteq> {}"
  by (induction rs ws rule: Roles_HasAny.induct) (auto simp: roles.has_iff)

lemma AuthMethods_HasAll_iff: "AuthMethods_HasAll ms ws \<longleftrightarrow> set ws \<subseteq> set ms"
  by (induction ms ws rule: AuthMethods_HasAll.induct) (auto simp: amethods.has_iff)

lemma Permissions_OfApp_filter: "Permissions_OfApp ps app = filter (\<lambda>p. Permission_App p = app) ps"
  by (induction ps) auto

lemma Roles_OfApp_filter: "Roles_OfApp rs app = filter (\<lambda>r. Role_App r = app) rs"
  by (induction rs) auto

section \<open>Identity\<close>

record Identity =
  id_Subject :: SubjectID
  id_Session :: SessionID
  id_Tenant :: TenantID
  id_Realm :: string
  id_Roles :: Roles
  id_Scopes :: Scopes
  id_Methods :: AuthMethods
  id_Assurance :: int
  id_authenticatedAt :: gotime
  id_expiresAt :: gotime

definition zero_Identity :: Identity where
  "zero_Identity = \<lparr>id_Subject = [], id_Session = [], id_Tenant = [], id_Realm = [], id_Roles = [],
     id_Scopes = [], id_Methods = [], id_Assurance = 0, id_authenticatedAt = 0, id_expiresAt = 0\<rparr>"

abbreviation Identity_AuthenticatedAt :: "Identity \<Rightarrow> gotime" where "Identity_AuthenticatedAt i \<equiv> id_authenticatedAt i"
abbreviation Identity_ExpiresAt :: "Identity \<Rightarrow> gotime" where "Identity_ExpiresAt i \<equiv> id_expiresAt i"

definition Identity_AuthAge :: "gotime \<Rightarrow> Identity \<Rightarrow> duration" where
  "Identity_AuthAge now i = (if Time_IsZero (id_authenticatedAt i) then 0
     else max (- (2 ^ 63)) (min (2 ^ 63 - 1) (now - id_authenticatedAt i)))"

definition Identity_HasRole :: "Identity \<Rightarrow> Role \<Rightarrow> bool" where
  "Identity_HasRole i r = Roles_Has (id_Roles i) r"

definition Identity_ActiveScope :: "Identity \<Rightarrow> Axis \<Rightarrow> string option" where
  "Identity_ActiveScope i axis = Scopes_Node (id_Scopes i) axis"

definition Identity_IsApplication :: "Identity \<Rightarrow> bool" where
  "Identity_IsApplication i = SubjectID_IsApplication (id_Subject i)"

definition Identity_String :: "Identity \<Rightarrow> string" where
  "Identity_String i =
     (if Scopes_IsEmpty (id_Scopes i) then id_Subject i
      else id_Subject i @ '' ['' @ Scopes_String (id_Scopes i) @ '']'')"

end
