(* ===== verification/Verifier.thy ===== *)
theory Verifier
  imports Keys Paseto Identity
begin

text \<open>
  The offline half of the SDK: the claim set (\<open>claims.go\<close>), the verifier (\<open>config.go\<close>,
  \<open>verifier.go\<close>, \<open>token_footer.go\<close>), the principal a request carries (\<open>principal.go\<close>) and
  the HTTP middleware (\<open>middleware.go\<close>).

  \<open>verify_token\<close> is \<open>Verifier.Verify\<close> over any key source; \<open>Verifier_Verify\<close> runs it on
  the verifier's own one (pinned keys first, then the cache). The context
  \<open>key_source\<close> proves once what an accepted token guarantees; the interpretation
  \<open>verifier_keys\<close> gives it for the verifier.
\<close>

section \<open>Claims\<close>

record Claims =
  cl_Issuer :: string
  cl_Subject :: string
  cl_Audience :: "string list"
  cl_Expires :: int
  cl_IssuedAt :: int
  cl_NotBefore :: int
  cl_TokenID :: string
  cl_Session :: string
  cl_Tenant :: string
  cl_Roles :: "string list"
  cl_Scope :: string
  cl_Scopes :: smap
  cl_Realm :: string
  cl_IAL :: int
  cl_AMR :: "string list"
  cl_AuthTime :: int
  cl_Epoch :: int
  cl_Version :: int

definition zero_Claims :: Claims where
  "zero_Claims = \<lparr>cl_Issuer = [], cl_Subject = [], cl_Audience = [], cl_Expires = 0, cl_IssuedAt = 0,
     cl_NotBefore = 0, cl_TokenID = [], cl_Session = [], cl_Tenant = [], cl_Roles = [], cl_Scope = [],
     cl_Scopes = [], cl_Realm = [], cl_IAL = 0, cl_AMR = [], cl_AuthTime = 0, cl_Epoch = 0, cl_Version = 0\<rparr>"

definition dec_Claims :: "json \<Rightarrow> Claims \<Rightarrow> Claims option" where
  "dec_Claims = decode_struct
     [(''iss'', set_string (\<lambda>v c. c\<lparr>cl_Issuer := v\<rparr>)),
      (''sub'', set_string (\<lambda>v c. c\<lparr>cl_Subject := v\<rparr>)),
      (''aud'', set_strings (\<lambda>v c. c\<lparr>cl_Audience := v\<rparr>)),
      (''exp'', set_int (\<lambda>v c. c\<lparr>cl_Expires := v\<rparr>)),
      (''iat'', set_int (\<lambda>v c. c\<lparr>cl_IssuedAt := v\<rparr>)),
      (''nbf'', set_int (\<lambda>v c. c\<lparr>cl_NotBefore := v\<rparr>)),
      (''jti'', set_string (\<lambda>v c. c\<lparr>cl_TokenID := v\<rparr>)),
      (''sid'', set_string (\<lambda>v c. c\<lparr>cl_Session := v\<rparr>)),
      (''tid'', set_string (\<lambda>v c. c\<lparr>cl_Tenant := v\<rparr>)),
      (''roles'', set_strings (\<lambda>v c. c\<lparr>cl_Roles := v\<rparr>)),
      (''scp'', set_string (\<lambda>v c. c\<lparr>cl_Scope := v\<rparr>)),
      (''scopes'', set_smap cl_Scopes (\<lambda>v c. c\<lparr>cl_Scopes := v\<rparr>)),
      (''realm'', set_string (\<lambda>v c. c\<lparr>cl_Realm := v\<rparr>)),
      (''ial'', set_int (\<lambda>v c. c\<lparr>cl_IAL := v\<rparr>)),
      (''amr'', set_strings (\<lambda>v c. c\<lparr>cl_AMR := v\<rparr>)),
      (''auth_time'', set_int (\<lambda>v c. c\<lparr>cl_AuthTime := v\<rparr>)),
      (''epoch'', set_int (\<lambda>v c. c\<lparr>cl_Epoch := v\<rparr>)),
      (''ver'', set_int (\<lambda>v c. c\<lparr>cl_Version := v\<rparr>))]"

text \<open>The helper \<open>unix\<close>: zero seconds are the zero time.\<close>

definition unix_time :: "int \<Rightarrow> gotime" where
  "unix_time seconds = (if seconds = 0 then 0 else time_Unix seconds)"

definition Claims_ExpiresAt :: "Claims \<Rightarrow> gotime" where "Claims_ExpiresAt c = unix_time (cl_Expires c)"
definition Claims_IssuedAtTime :: "Claims \<Rightarrow> gotime" where "Claims_IssuedAtTime c = unix_time (cl_IssuedAt c)"
definition Claims_NotBeforeTime :: "Claims \<Rightarrow> gotime" where "Claims_NotBeforeTime c = unix_time (cl_NotBefore c)"

definition Claims_AuthenticatedAt :: "Claims \<Rightarrow> gotime" where
  "Claims_AuthenticatedAt c = (if cl_AuthTime c = 0 then 0 else unix_time (cl_AuthTime c))"

definition Claims_HasRole :: "Claims \<Rightarrow> string \<Rightarrow> bool" where
  "Claims_HasRole c r = Roles_Has (cl_Roles c) r"

definition Claims_HasAuthMethod :: "Claims \<Rightarrow> string \<Rightarrow> bool" where
  "Claims_HasAuthMethod c m = AuthMethods_Has (cl_AMR c) m"

definition Claims_ActiveScope :: "Claims \<Rightarrow> string \<Rightarrow> string option" where
  "Claims_ActiveScope c axis = Scopes_Node (cl_Scopes c) axis"

definition Claims_Identity :: "Claims \<Rightarrow> Identity" where
  "Claims_Identity c =
     \<lparr>id_Subject = cl_Subject c, id_Session = cl_Session c, id_Tenant = cl_Tenant c,
      id_Realm = cl_Realm c, id_Roles = cl_Roles c, id_Scopes = cl_Scopes c, id_Methods = cl_AMR c,
      id_Assurance = cl_IAL c, id_authenticatedAt = Claims_AuthenticatedAt c,
      id_expiresAt = Claims_ExpiresAt c\<rparr>"

text \<open>\<open>Validate\<close>: \<open>None\<close> is a nil error. The two sums are int64 additions.\<close>

definition Claims_Validate :: "Claims \<Rightarrow> gotime \<Rightarrow> string \<Rightarrow> string \<Rightarrow> duration \<Rightarrow> goerr option" where
  "Claims_Validate c now issuer audience leeway =
     (let n = Time_Unix now; l = leeway sdiv second in
      if cl_Expires c \<noteq> 0 \<and> n > wrap64 (cl_Expires c + l) then Some ErrExpired
      else if cl_NotBefore c \<noteq> 0 \<and> n < wrap64 (cl_NotBefore c - l) then Some ErrNotYetValid
      else if issuer \<noteq> [] \<and> cl_Issuer c \<noteq> issuer then Some ErrIssuer
      else if audience = [] then Some ErrNoAudience
      else if audience \<in> set (cl_Audience c) then None
      else Some ErrAudience)"

definition parseClaims :: "bytes \<Rightarrow> Claims res" where
  "parseClaims message =
     (case decode_first dec_Claims zero_Claims message of
        None \<Rightarrow> Inl (ErrText ''anubis: claims decode'') | Some c \<Rightarrow> Inr c)"

text \<open>What acceptance means, with no wrap-around left in it.\<close>

definition claims_valid :: "Claims \<Rightarrow> int \<Rightarrow> string \<Rightarrow> string \<Rightarrow> int \<Rightarrow> bool" where
  "claims_valid c n issuer audience l \<longleftrightarrow>
     (cl_Expires c \<noteq> 0 \<longrightarrow> n \<le> cl_Expires c + l) \<and>
     (cl_NotBefore c \<noteq> 0 \<longrightarrow> cl_NotBefore c - l \<le> n) \<and>
     (issuer \<noteq> [] \<longrightarrow> cl_Issuer c = issuer) \<and>
     audience \<noteq> [] \<and> audience \<in> set (cl_Audience c)"

definition wf_Claims :: "Claims \<Rightarrow> bool" where
  "wf_Claims c \<longleftrightarrow> in64 (cl_Expires c) \<and> in64 (cl_NotBefore c)"

lemma in64_Time_Unix [simp]: "in64 (Time_Unix t)"
  by (simp add: Time_Unix_def)

text \<open>
  Overflow fails closed: the sums saturate in effect, because the clock reading is itself
  an int64.
\<close>

lemma wrap64_add_le:
  assumes "in64 n" "in64 x" "0 \<le> l" "l < 2 ^ 63" "n \<le> wrap64 (x + l)"
  shows "n \<le> x + l"
proof (cases "in64 (x + l)")
  case False
  with assms have "2 ^ 63 \<le> x + l" by (auto simp: in64_def)
  with assms(1) show ?thesis by (simp add: in64_def)
qed (use assms in simp)

lemma wrap64_sub_le:
  assumes "in64 n" "in64 x" "0 \<le> l" "l < 2 ^ 63" "wrap64 (x - l) \<le> n"
  shows "x - l \<le> n"
proof (cases "in64 (x - l)")
  case False
  with assms have "x - l < - (2 ^ 63)" by (auto simp: in64_def)
  with assms(1) show ?thesis by (simp add: in64_def)
qed (use assms in simp)

definition leeway_ok :: "duration \<Rightarrow> bool" where
  "leeway_ok leeway \<longleftrightarrow> 0 \<le> leeway \<and> in64 leeway"

lemma leeway_seconds: "leeway_ok leeway \<Longrightarrow> 0 \<le> leeway sdiv second \<and> leeway sdiv second < 2 ^ 63"
  by (auto simp: leeway_ok_def in64_def signed_divide_int_def sgn_if)

lemma Validate_sound:
  assumes "Claims_Validate c now issuer audience leeway = None" "wf_Claims c" "leeway_ok leeway"
  shows "claims_valid c (Time_Unix now) issuer audience (leeway sdiv second)"
  using assms leeway_seconds [OF assms(3)] wrap64_add_le [OF in64_Time_Unix] wrap64_sub_le [OF in64_Time_Unix]
  by (auto simp: Claims_Validate_def claims_valid_def wf_Claims_def Let_def not_less split: if_splits)

lemma Validate_complete:
  assumes "claims_valid c (Time_Unix now) issuer audience (leeway sdiv second)"
    "in64 (cl_Expires c + leeway sdiv second)" "in64 (cl_NotBefore c - leeway sdiv second)"
  shows "Claims_Validate c now issuer audience leeway = None"
  using assms by (auto simp: Claims_Validate_def claims_valid_def Let_def)

section \<open>Decoded integers are int64\<close>

lemma ParseInt_in64: "ParseInt s = Some n \<Longrightarrow> in64 n"
  by (auto simp: ParseInt_def Let_def split: if_splits)

lemma field_for_in: "field_for fs k = Some f \<Longrightarrow> \<exists>n. (n, f) \<in> set fs"
  by (auto simp: field_for_def split: option.splits if_splits dest!: map_of_SomeD find_first_Some)

lemma decode_members_inv:
  assumes inv: "\<And>n f v r r'. (n, f) \<in> set fs \<Longrightarrow> f v r = Some r' \<Longrightarrow> P r \<Longrightarrow> P r'"
  shows "decode_members fs ms r = Some r' \<Longrightarrow> P r \<Longrightarrow> P r'"
  using inv
proof (induction fs ms r rule: decode_members.induct)
  case (2 fs raw v ms r)
  show ?case
  proof (cases "field_for fs (unquote raw)")
    case None
    with 2 show ?thesis by auto
  next
    case (Some f)
    with "2.prems"(1) obtain r'' where r: "f v r = Some r''" "decode_members fs ms r'' = Some r'"
      by (auto split: option.splits)
    from field_for_in [OF Some] obtain n where "(n, f) \<in> set fs" by blast
    from "2.prems"(3) [OF this r(1) "2.prems"(2)] have "P r''" .
    then show ?thesis
      by (rule "2.IH"(2) [OF Some r(1) r(2)]) (erule (2) "2.prems"(3))
  qed
qed auto

lemma decode_struct_inv:
  assumes inv: "\<And>n f v r r'. (n, f) \<in> set fs \<Longrightarrow> f v r = Some r' \<Longrightarrow> P r \<Longrightarrow> P r'"
    and "decode_struct fs j r = Some r'" "P r"
  shows "P r'"
proof (cases j)
  case (JObj ms)
  with assms(2) have "decode_members fs ms r = Some r'" by simp
  show ?thesis
    by (rule decode_members_inv [where P = P, OF _ \<open>decode_members fs ms r = Some r'\<close> assms(3)]) (erule (2) inv)
qed (use assms in auto)

lemma set_int_Some: "set_int upd v r = Some r' \<Longrightarrow> r' = r \<or> (\<exists>n. in64 n \<and> r' = upd n r)"
  by (cases v) (auto dest: ParseInt_in64)

lemma set_string_Some: "set_string upd v r = Some r' \<Longrightarrow> r' = r \<or> (\<exists>n. r' = upd n r)"
  by (cases v) auto

lemma set_strings_Some: "set_strings upd v r = Some r' \<Longrightarrow> \<exists>n. r' = upd n r"
  by (cases v) auto

lemma dec_Claims_wf: "dec_Claims j zero_Claims = Some c \<Longrightarrow> wf_Claims c"
  unfolding dec_Claims_def
proof (erule decode_struct_inv [rotated])
  show "wf_Claims zero_Claims" by (simp add: wf_Claims_def zero_Claims_def in64_def)
qed (auto simp: wf_Claims_def set_smap_def dest!: set_int_Some set_string_Some set_strings_Some)

lemma parseClaims_wf: "parseClaims m = Inr c \<Longrightarrow> wf_Claims c"
  by (auto simp: parseClaims_def decode_first_def bind_eq_Some_conv split: option.splits
      dest!: dec_Claims_wf)

section \<open>Verification over a key source\<close>

definition dec_footer :: "json \<Rightarrow> string \<Rightarrow> string option" where
  "dec_footer = decode_struct [(''kid'', set_string (\<lambda>v _. v))]"

text \<open>The kid read from the footer before anything is verified; no footer, no kid.\<close>

definition footer_kid :: "bytes \<Rightarrow> string res" where
  "footer_kid footer =
     (if length footer > 0 then
        (case unmarshal dec_footer [] footer of
           None \<Rightarrow> Inl (ErrText ''anubis: token footer'') | Some kid \<Rightarrow> Inr kid)
      else Inr [])"

definition verify_token ::
  "('s \<Rightarrow> string \<Rightarrow> gotime \<Rightarrow> 's \<times> bytes res) \<Rightarrow> (bytes \<Rightarrow> bytes \<Rightarrow> bytes \<Rightarrow> bool) \<Rightarrow>
   string \<Rightarrow> string \<Rightarrow> duration \<Rightarrow> 's \<Rightarrow> gotime \<Rightarrow> string \<Rightarrow> 's \<times> Claims res" where
  "verify_token key_at ed_verify issuer audience leeway s now token =
     (case Parse token of
        Inl e \<Rightarrow> (s, Inl e)
      | Inr (m0, sig0, footer) \<Rightarrow>
          (case footer_kid footer of
             Inl e \<Rightarrow> (s, Inl e)
           | Inr kid \<Rightarrow>
               (case key_at s kid now of
                  (s', Inl e) \<Rightarrow> (s', Inl e)
                | (s', Inr pk) \<Rightarrow>
                    (s', case Verify ed_verify pk token [] of
                           Inl e \<Rightarrow> Inl e
                         | Inr (msg, f) \<Rightarrow>
                             (case parseClaims msg of
                                Inl e \<Rightarrow> Inl e
                              | Inr claims \<Rightarrow>
                                  if cl_Version claims \<noteq> 0 \<and> cl_Version claims \<noteq> 1 then Inl ErrTokenVersion
                                  else (case Claims_Validate claims now issuer audience leeway of
                                          Some e \<Rightarrow> Inl e | None \<Rightarrow> Inr claims))))))"

text \<open>
  The guarantee of an accepted token: it parses, the kid of its footer names a trusted entry
  inside its window, that entry's key verifies the signature over exactly the parsed
  message and footer, and the claims decoded from the message are valid now.
\<close>

definition accepted ::
  "(string \<Rightarrow> key_entry \<Rightarrow> bool) \<Rightarrow> (bytes \<Rightarrow> bytes \<Rightarrow> bytes \<Rightarrow> bool) \<Rightarrow> string \<Rightarrow> string \<Rightarrow> duration \<Rightarrow>
   gotime \<Rightarrow> string \<Rightarrow> Claims \<Rightarrow> bool" where
  "accepted trusts ed_verify issuer audience leeway now token c \<longleftrightarrow>
     (\<exists>m sig f kid e. Parse token = Inr (m, sig, f) \<and> footer_kid f = Inr kid \<and>
        trusts kid e \<and> in_window e now \<and>
        ed_verify (ke_pk e) (pae [headerV4Public, m, f, []]) sig \<and>
        parseClaims m = Inr c \<and> cl_Version c \<in> {0, 1} \<and>
        claims_valid c (Time_Unix now) issuer audience (leeway sdiv second))"

context key_source
begin

lemma verify_token_accepted:
  assumes "verify_token key_at ed_verify issuer audience leeway s now token = (s', Inr c)"
    and "leeway_ok leeway"
  shows "accepted (trusts s') ed_verify issuer audience leeway now token c"
proof -
  from assms(1) obtain m sig f kid pk where p: "Parse token = Inr (m, sig, f)" "footer_kid f = Inr kid"
    and k: "key_at s kid now = (s', Inr pk)"
    and v: "Verify ed_verify pk token [] = Inr (m, f)" "parseClaims m = Inr c"
    and c: "cl_Version c \<in> {0, 1}" "Claims_Validate c now issuer audience leeway = None"
    by (auto simp: verify_token_def Verify_Inr split: sum.splits prod.splits if_splits option.splits)
  from key_at_trusted [OF k] obtain e where "trusts s' kid e" "in_window e now" "ke_pk e = pk" by blast
  moreover have "ed_verify pk (pae [headerV4Public, m, f, []]) sig"
    using v(1) p(1) by (auto simp: Verify_Inr)
  moreover have "claims_valid c (Time_Unix now) issuer audience (leeway sdiv second)"
    by (rule Validate_sound [OF c(2) parseClaims_wf [OF v(2)] assms(2)])
  ultimately show ?thesis using p v(2) c(1) unfolding accepted_def by blast
qed

lemma verify_token_inv:
  "inv s \<Longrightarrow> verify_token key_at ed_verify issuer audience leeway s now token = (s', r) \<Longrightarrow> inv s'"
  by (auto simp: verify_token_def split: sum.splits prod.splits if_splits option.splits dest: key_at_inv)

text \<open>A malformed token or footer is refused before the key source is asked.\<close>

lemma malformed_no_lookup:
  assumes "Parse token = Inl e \<or> (\<exists>m sig f e. Parse token = Inr (m, sig, f) \<and> footer_kid f = Inl e)"
  shows "\<exists>e. verify_token key_at ed_verify issuer audience leeway s now token = (s, Inl e)"
  using assms by (auto simp: verify_token_def)

end

section \<open>The verifier\<close>

record Config =
  cfg_Issuer :: string
  cfg_Audience :: string
  cfg_KeysURL :: string
  cfg_StaticKeys :: "key_set option"
  cfg_Leeway :: duration

record Verifier =
  v_cfg :: Config
  v_cache :: "Cache option"

record gourl =
  u_Scheme :: string
  u_Host :: string
  u_Hostname :: string

text \<open>
  \<open>url.Parse\<close> and the loopback test of \<open>net.ParseIP\<close> are arguments: what a string means as
  a URL or an address is not the SDK's to decide.
\<close>

definition isLoopback :: "(string \<Rightarrow> bool) \<Rightarrow> string \<Rightarrow> bool" where
  "isLoopback ip_loopback host = (if host = ''localhost'' then True else ip_loopback host)"

definition checkKeysURL :: "(string \<Rightarrow> gourl option) \<Rightarrow> (string \<Rightarrow> bool) \<Rightarrow> string \<Rightarrow> goerr option" where
  "checkKeysURL url_parse ip_loopback raw =
     (case url_parse raw of
        None \<Rightarrow> Some (ErrText ''anubis: KeysURL'')
      | Some u \<Rightarrow>
          if u_Scheme u = ''https'' then None
          else if u_Scheme u = ''http'' then
            (if isLoopback ip_loopback (u_Hostname u) then None
             else Some (ErrText ''anubis: KeysURL is plaintext http''))
          else Some (ErrText ''anubis: KeysURL: scheme must be https''))"

definition NewVerifier :: "(string \<Rightarrow> gourl option) \<Rightarrow> (string \<Rightarrow> bool) \<Rightarrow> Config \<Rightarrow> Verifier res" where
  "NewVerifier url_parse ip_loopback cfg =
     (if cfg_Audience cfg = [] then Inl ErrNoAudience
      else if cfg_KeysURL cfg = [] \<and> cfg_StaticKeys cfg = None
        then Inl (ErrText ''anubis: either KeysURL or StaticKeys is required'')
      else let cfg = (if cfg_Leeway cfg = 0 then cfg\<lparr>cfg_Leeway := 60 * second\<rparr> else cfg) in
        if cfg_KeysURL cfg \<noteq> [] then
          (case checkKeysURL url_parse ip_loopback (cfg_KeysURL cfg) of
             Some e \<Rightarrow> Inl e
           | None \<Rightarrow> Inr \<lparr>v_cfg = cfg, v_cache = Some ((NewCache (cfg_KeysURL cfg))\<lparr>kc_Issuer := cfg_Issuer cfg\<rparr>)\<rparr>)
        else Inr \<lparr>v_cfg = cfg, v_cache = None\<rparr>)"

text \<open>Without keys of either kind, which \<open>NewVerifier\<close> rules out, the call is a nil dereference.\<close>

definition Verifier_key :: "'w net \<Rightarrow> 'w \<times> Verifier \<Rightarrow> string \<Rightarrow> gotime \<Rightarrow> ('w \<times> Verifier) \<times> bytes res" where
  "Verifier_key net s kid now =
     (let (w, v) = s;
          ask_cache = (case v_cache v of
             None \<Rightarrow> ((w, v), Inl (ErrOther ''nil cache''))
           | Some kc \<Rightarrow> (case Cache_GetAt net w kc kid now of
               (w', kc', r) \<Rightarrow> ((w', v\<lparr>v_cache := Some kc'\<rparr>), r)))
      in case cfg_StaticKeys (v_cfg v) of
           None \<Rightarrow> ask_cache
         | Some ks \<Rightarrow>
             (case Set_GetAt ks kid now of
                Some pk \<Rightarrow> ((w, v), Inr pk)
              | None \<Rightarrow> if v_cache v = None then ((w, v), Inl ErrUnknownKid) else ask_cache))"

definition Verifier_Verify ::
  "'w net \<Rightarrow> (bytes \<Rightarrow> bytes \<Rightarrow> bytes \<Rightarrow> bool) \<Rightarrow> 'w \<times> Verifier \<Rightarrow> gotime \<Rightarrow> string \<Rightarrow> ('w \<times> Verifier) \<times> Claims res" where
  "Verifier_Verify net ed_verify s now token =
     (let cfg = v_cfg (snd s) in
      verify_token (Verifier_key net) ed_verify (cfg_Issuer cfg) (cfg_Audience cfg) (cfg_Leeway cfg) s now token)"

definition verifier_trusts :: "'w \<times> Verifier \<Rightarrow> string \<Rightarrow> key_entry \<Rightarrow> bool" where
  "verifier_trusts s kid e \<longleftrightarrow>
     (\<exists>ks. cfg_StaticKeys (v_cfg (snd s)) = Some ks \<and> set_trusts ks kid e) \<or>
     (\<exists>kc. v_cache (snd s) = Some kc \<and> cache_trusts kc kid e)"

definition wf_verifier :: "'w \<times> Verifier \<Rightarrow> bool" where
  "wf_verifier s \<longleftrightarrow>
     (\<forall>ks. cfg_StaticKeys (v_cfg (snd s)) = Some ks \<longrightarrow> wf_key_set ks) \<and>
     (\<forall>kc. v_cache (snd s) = Some kc \<longrightarrow> wf_cache kc)"

lemma Verifier_key_trusted:
  assumes "Verifier_key net s kid now = (s', Inr pk)"
  shows "\<exists>e. verifier_trusts s' kid e \<and> in_window e now \<and> ke_pk e = pk"
  using assms unfolding Verifier_key_def Let_def verifier_trusts_def
  by (auto split: prod.splits option.splits if_splits dest!: Set_GetAt_trusted Cache_GetAt_trusted)

lemma Verifier_key_wf:
  assumes "wf_verifier s" "Verifier_key net s kid now = (s', r)"
  shows "wf_verifier s'"
  using assms unfolding Verifier_key_def Let_def wf_verifier_def
  by (auto split: prod.splits option.splits if_splits dest: Cache_GetAt_wf)

interpretation verifier_keys: key_source "Verifier_key net" verifier_trusts wf_verifier
  for net :: "'w net"
proof unfold_locales
  fix s :: "'w \<times> Verifier" and kid e
  assume "wf_verifier s" "verifier_trusts s kid e"
  then show "length (ke_pk e) = 32"
    by (auto simp: wf_verifier_def verifier_trusts_def set_trusts_length cache_trusts_length)
qed (auto dest: Verifier_key_trusted Verifier_key_wf)

lemma NewVerifier_wf:
  assumes "NewVerifier url_parse ip_loopback cfg = Inr v" "\<And>ks. cfg_StaticKeys cfg = Some ks \<Longrightarrow> wf_key_set ks"
  shows "wf_verifier (w, v)"
  using assms
  by (auto simp: NewVerifier_def wf_verifier_def wf_cache_def NewCache_def Let_def split: if_splits option.splits)

section \<open>Principals and contexts\<close>

record Principal =
  p_Claims :: "Claims option"
  p_Token :: string

text \<open>The context values the SDK and its go-kit adapter use: the principal, the raw bearer token.\<close>

record Ctx =
  ctx_principal :: "Principal option"
  ctx_bearer :: "string option"

definition FromContext :: "Ctx \<Rightarrow> Principal option" where "FromContext ctx = ctx_principal ctx"

definition WithPrincipal :: "Ctx \<Rightarrow> Principal \<Rightarrow> Ctx" where
  "WithPrincipal ctx p = ctx\<lparr>ctx_principal := Some p\<rparr>"

definition Principal_Identity :: "Principal \<Rightarrow> Identity" where
  "Principal_Identity p = (case p_Claims p of None \<Rightarrow> zero_Identity | Some c \<Rightarrow> Claims_Identity c)"

definition IdentityFromContext :: "Ctx \<Rightarrow> Identity option" where
  "IdentityFromContext ctx = map_option Principal_Identity (FromContext ctx)"

abbreviation Principal_Subject :: "Principal \<Rightarrow> SubjectID" where "Principal_Subject p \<equiv> id_Subject (Principal_Identity p)"
abbreviation Principal_Session :: "Principal \<Rightarrow> SessionID" where "Principal_Session p \<equiv> id_Session (Principal_Identity p)"
abbreviation Principal_Tenant :: "Principal \<Rightarrow> TenantID" where "Principal_Tenant p \<equiv> id_Tenant (Principal_Identity p)"
abbreviation Principal_Roles :: "Principal \<Rightarrow> Roles" where "Principal_Roles p \<equiv> id_Roles (Principal_Identity p)"
abbreviation Principal_Scopes :: "Principal \<Rightarrow> Scopes" where "Principal_Scopes p \<equiv> id_Scopes (Principal_Identity p)"
abbreviation Principal_AuthenticatedAt :: "Principal \<Rightarrow> gotime" where
  "Principal_AuthenticatedAt p \<equiv> Identity_AuthenticatedAt (Principal_Identity p)"
abbreviation Principal_ExpiresAt :: "Principal \<Rightarrow> gotime" where "Principal_ExpiresAt p \<equiv> Identity_ExpiresAt (Principal_Identity p)"

definition Principal_AuthMethods :: "Principal \<Rightarrow> AuthMethods" where
  "Principal_AuthMethods p = id_Methods (Principal_Identity p)"

definition Principal_HasRole :: "Principal \<Rightarrow> Role \<Rightarrow> bool" where
  "Principal_HasRole p r = Identity_HasRole (Principal_Identity p) r"

section \<open>HTTP middleware\<close>

definition BearerToken :: "string \<Rightarrow> string option" where
  "BearerToken h =
     (if length h \<le> 7 \<or> \<not> EqualFold (take 7 h) ''Bearer '' then None else Some (drop 7 h))"

text \<open>A handler answers by itself or hands the request on with a context.\<close>

datatype handled = Answer int smap string | Next Ctx

definition unauthorized :: "string \<Rightarrow> handled" where
  "unauthorized msg = Answer 401 [(''WWW-Authenticate'', ''Bearer error=\"invalid_token\"'')] msg"

definition Middleware ::
  "'w net \<Rightarrow> (bytes \<Rightarrow> bytes \<Rightarrow> bytes \<Rightarrow> bool) \<Rightarrow> 'w \<times> Verifier \<Rightarrow> gotime \<Rightarrow> Ctx \<Rightarrow> smap \<Rightarrow>
   ('w \<times> Verifier) \<times> handled" where
  "Middleware net ed_verify s now ctx header =
     (case BearerToken (header_Get header ''Authorization'') of
        None \<Rightarrow> (s, unauthorized ''missing bearer token'')
      | Some token \<Rightarrow>
          (case Verifier_Verify net ed_verify s now token of
             (s', Inl e) \<Rightarrow> (s', unauthorized ''invalid token'')
           | (s', Inr claims) \<Rightarrow> (s', Next (WithPrincipal ctx \<lparr>p_Claims = Some claims, p_Token = token\<rparr>))))"

definition RequireAMR :: "string list \<Rightarrow> Ctx \<Rightarrow> handled" where
  "RequireAMR methods ctx =
     (case FromContext ctx of
        None \<Rightarrow> unauthorized ''missing bearer token''
      | Some p \<Rightarrow>
          if \<not> AuthMethods_HasAll (Principal_AuthMethods p) methods
          then Answer 401 [(''WWW-Authenticate'', ''Bearer error=\"insufficient_user_authentication\"'')]
                 ''step-up authentication required''
          else Next ctx)"

lemma BearerToken_exact: "t \<noteq> [] \<Longrightarrow> BearerToken (''Bearer '' @ t) = Some t"
  by (cases t) (simp_all add: BearerToken_def)

end
