(* ===== verification/Types.thy ===== *)
theory Types
  imports Verifier Http
begin

text \<open>
  The values the client exchanges with an installation (\<open>types.go\<close>, the types of
  \<open>granted.go\<close>, \<open>share.go\<close> and \<open>authz.go\<close>, and \<open>pbInt64\<close> of \<open>client.go\<close>), their JSON
  decoders and their accessors.

  The lemmas: what counts as an int64 on the wire, how an expiry is computed and when it
  is not known, and the three ways a set of granted nodes can be empty.
\<close>

section \<open>int64 on the wire\<close>

text \<open>
  \<open>pbInt64.UnmarshalJSON\<close>: null and the empty string are 0; otherwise the text of the
  value with its quotes trimmed has to be a decimal int64. The string is not unescaped.
\<close>

fun pb_int :: "json \<Rightarrow> int option" where
  "pb_int JNull = Some 0"
| "pb_int (JStr raw) = (if raw = [] then Some 0 else ParseInt (Trim1 (CHR 0x22) raw))"
| "pb_int (JNum l) = ParseInt l"
| "pb_int _ = None"

definition set_pb :: "(int \<Rightarrow> 'r \<Rightarrow> 'r) \<Rightarrow> 'r setter" where
  "set_pb upd v r = map_option (\<lambda>n. upd n r) (pb_int v)"

lemma dropWhile_absent: "c \<notin> set s \<Longrightarrow> dropWhile (\<lambda>x. x = c) s = s"
  by (cases s) auto

lemma Trim1_id: "c \<notin> set s \<Longrightarrow> Trim1 c s = s"
  by (simp add: Trim1_def TrimRight1_def dropWhile_absent)

lemma FormatInt_chars: "c \<in> set (FormatInt n) \<Longrightarrow> isDigit c \<or> c = CHR ''-''"
  using nat_dec_facts [of "nat n"] nat_dec_facts [of "nat (- n)"]
  by (auto simp: FormatInt_def list_all_iff split: if_splits)

text \<open>Both spellings of a number read back, quoted or bare.\<close>

lemma pb_int_roundtrip:
  assumes "in64 n"
  shows "pb_int (JStr (FormatInt n)) = Some n \<and> pb_int (JNum (FormatInt n)) = Some n"
proof -
  have "CHR 0x22 \<notin> set (FormatInt n)" using FormatInt_chars [of "CHR 0x22" n] by (auto simp: isDigit_def less_eq_char_def)
  with assms show ?thesis by (simp add: Trim1_id)
qed

lemma pb_int_in64: "pb_int v = Some n \<Longrightarrow> in64 n"
  by (cases v) (auto simp: in64_def [of 0] dest: ParseInt_in64 split: if_splits)

section \<open>Tokens\<close>

record Tokens =
  tk_AccessToken :: string
  tk_RefreshToken :: string
  tk_TokenType :: string
  tk_ExpiresIn :: int
  tk_SessionID :: string
  tk_IssuedAt :: gotime

definition zero_Tokens :: Tokens where
  "zero_Tokens = \<lparr>tk_AccessToken = [], tk_RefreshToken = [], tk_TokenType = [], tk_ExpiresIn = 0,
     tk_SessionID = [], tk_IssuedAt = 0\<rparr>"

definition dec_Tokens :: "json \<Rightarrow> Tokens \<Rightarrow> Tokens option" where
  "dec_Tokens = decode_struct
     [(''accessToken'', set_string (\<lambda>v r. r\<lparr>tk_AccessToken := v\<rparr>)),
      (''refreshToken'', set_string (\<lambda>v r. r\<lparr>tk_RefreshToken := v\<rparr>)),
      (''tokenType'', set_string (\<lambda>v r. r\<lparr>tk_TokenType := v\<rparr>)),
      (''expiresIn'', set_int (\<lambda>v r. r\<lparr>tk_ExpiresIn := v\<rparr>)),
      (''sessionId'', set_string (\<lambda>v r. r\<lparr>tk_SessionID := v\<rparr>))]"

definition Tokens_Lifetime :: "Tokens \<Rightarrow> duration" where
  "Tokens_Lifetime t = Seconds (tk_ExpiresIn t)"

definition Tokens_Expiry :: "Tokens \<Rightarrow> gotime" where
  "Tokens_Expiry t =
     (if Time_IsZero (tk_IssuedAt t) \<or> tk_ExpiresIn t = 0 then 0
      else tk_IssuedAt t + Tokens_Lifetime t)"

definition Tokens_HasRefresh :: "Tokens \<Rightarrow> bool" where
  "Tokens_HasRefresh t \<longleftrightarrow> tk_RefreshToken t \<noteq> []"

record httpTokens =
  ht_AccessToken :: string
  ht_RefreshToken :: string
  ht_TokenType :: string
  ht_ExpiresIn :: int
  ht_SessionID :: string

definition zero_httpTokens :: httpTokens where
  "zero_httpTokens = \<lparr>ht_AccessToken = [], ht_RefreshToken = [], ht_TokenType = [], ht_ExpiresIn = 0,
     ht_SessionID = []\<rparr>"

definition dec_httpTokens :: "json \<Rightarrow> httpTokens \<Rightarrow> httpTokens option" where
  "dec_httpTokens = decode_struct
     [(''access_token'', set_string (\<lambda>v r. r\<lparr>ht_AccessToken := v\<rparr>)),
      (''refresh_token'', set_string (\<lambda>v r. r\<lparr>ht_RefreshToken := v\<rparr>)),
      (''token_type'', set_string (\<lambda>v r. r\<lparr>ht_TokenType := v\<rparr>)),
      (''expires_in'', set_int (\<lambda>v r. r\<lparr>ht_ExpiresIn := v\<rparr>)),
      (''session_id'', set_string (\<lambda>v r. r\<lparr>ht_SessionID := v\<rparr>))]"

definition httpTokens_tokens :: "httpTokens \<Rightarrow> gotime \<Rightarrow> Tokens" where
  "httpTokens_tokens h now =
     \<lparr>tk_AccessToken = ht_AccessToken h, tk_RefreshToken = ht_RefreshToken h,
      tk_TokenType = ht_TokenType h, tk_ExpiresIn = ht_ExpiresIn h,
      tk_SessionID = ht_SessionID h, tk_IssuedAt = now\<rparr>"

lemma Lifetime_small: "0 \<le> tk_ExpiresIn t \<Longrightarrow> tk_ExpiresIn t \<le> 9223372036 \<Longrightarrow>
    Tokens_Lifetime t = tk_ExpiresIn t * second"
  by (simp add: Tokens_Lifetime_def Seconds_small)

section \<open>Signing in\<close>

record MFAChallenge =
  mf_Token :: string
  mf_Methods :: "string list"
  mf_ExpiresIn :: int

definition zero_MFAChallenge :: MFAChallenge where
  "zero_MFAChallenge = \<lparr>mf_Token = [], mf_Methods = [], mf_ExpiresIn = 0\<rparr>"

definition dec_MFAChallenge :: "json \<Rightarrow> MFAChallenge \<Rightarrow> MFAChallenge option" where
  "dec_MFAChallenge = decode_struct
     [(''mfaToken'', set_string (\<lambda>v r. r\<lparr>mf_Token := v\<rparr>)),
      (''methods'', set_strings (\<lambda>v r. r\<lparr>mf_Methods := v\<rparr>)),
      (''expiresIn'', set_int (\<lambda>v r. r\<lparr>mf_ExpiresIn := v\<rparr>))]"

definition MFAChallenge_Expires :: "MFAChallenge \<Rightarrow> duration" where
  "MFAChallenge_Expires m = Seconds (mf_ExpiresIn m)"

record Enrolment =
  eo_Factors :: "string list"
  eo_Deadline :: int
  eo_GrantToken :: string

definition zero_Enrolment :: Enrolment where
  "zero_Enrolment = \<lparr>eo_Factors = [], eo_Deadline = 0, eo_GrantToken = []\<rparr>"

definition dec_Enrolment :: "json \<Rightarrow> Enrolment \<Rightarrow> Enrolment option" where
  "dec_Enrolment = decode_struct
     [(''factors'', set_strings (\<lambda>v r. r\<lparr>eo_Factors := v\<rparr>)),
      (''deadline'', set_pb (\<lambda>v r. r\<lparr>eo_Deadline := v\<rparr>)),
      (''grantToken'', set_string (\<lambda>v r. r\<lparr>eo_GrantToken := v\<rparr>))]"

definition Enrolment_DeadlineTime :: "Enrolment \<Rightarrow> gotime" where
  "Enrolment_DeadlineTime e = unix_time (eo_Deadline e)"

definition Enrolment_IsOverdue :: "Enrolment \<Rightarrow> bool" where
  "Enrolment_IsOverdue e \<longleftrightarrow> eo_GrantToken e \<noteq> []"

record LoginResult =
  lr_Tokens :: "Tokens option"
  lr_MFA :: "MFAChallenge option"
  lr_EnrolmentRequired :: "Enrolment option"
  lr_EnrolmentDue :: "Enrolment option"

definition zero_LoginResult :: LoginResult where
  "zero_LoginResult = \<lparr>lr_Tokens = None, lr_MFA = None, lr_EnrolmentRequired = None, lr_EnrolmentDue = None\<rparr>"

definition dec_LoginResult :: "json \<Rightarrow> LoginResult \<Rightarrow> LoginResult option" where
  "dec_LoginResult = decode_struct
     [(''tokens'', set_ptr lr_Tokens (\<lambda>v r. r\<lparr>lr_Tokens := v\<rparr>) zero_Tokens dec_Tokens),
      (''mfa'', set_ptr lr_MFA (\<lambda>v r. r\<lparr>lr_MFA := v\<rparr>) zero_MFAChallenge dec_MFAChallenge),
      (''enrolmentRequired'', set_ptr lr_EnrolmentRequired (\<lambda>v r. r\<lparr>lr_EnrolmentRequired := v\<rparr>) zero_Enrolment dec_Enrolment),
      (''enrolmentDue'', set_ptr lr_EnrolmentDue (\<lambda>v r. r\<lparr>lr_EnrolmentDue := v\<rparr>) zero_Enrolment dec_Enrolment)]"

text \<open>The receivers may be nil, and then both answer no.\<close>

definition LoginResult_NeedsMFA :: "LoginResult option \<Rightarrow> bool" where
  "LoginResult_NeedsMFA r \<longleftrightarrow> (case r of None \<Rightarrow> False | Some r \<Rightarrow> lr_MFA r \<noteq> None)"

definition LoginResult_Succeeded :: "LoginResult option \<Rightarrow> bool" where
  "LoginResult_Succeeded r \<longleftrightarrow> (case r of None \<Rightarrow> False | Some r \<Rightarrow> lr_Tokens r \<noteq> None)"

record Credentials =
  cr_Tenant :: string
  cr_Realm :: string
  cr_Username :: string
  cr_Password :: string
  cr_ClientID :: string
  cr_DeviceFP :: string

section \<open>Introspection, the caller's own view, sessions\<close>

record Introspection =
  in_Active :: bool
  in_Subject :: string
  in_Session :: string
  in_Tenant :: string
  in_Realm :: string
  in_Roles :: "string list"
  in_Scopes :: smap
  in_AMR :: "string list"
  in_Audience :: "string list"
  in_Expires :: int
  in_AuthTime :: int
  in_IAL :: int
  in_Epoch :: int

definition zero_Introspection :: Introspection where
  "zero_Introspection = \<lparr>in_Active = False, in_Subject = [], in_Session = [], in_Tenant = [], in_Realm = [],
     in_Roles = [], in_Scopes = [], in_AMR = [], in_Audience = [], in_Expires = 0, in_AuthTime = 0,
     in_IAL = 0, in_Epoch = 0\<rparr>"

definition dec_Introspection :: "json \<Rightarrow> Introspection \<Rightarrow> Introspection option" where
  "dec_Introspection = decode_struct
     [(''active'', set_bool (\<lambda>v r. r\<lparr>in_Active := v\<rparr>)),
      (''sub'', set_string (\<lambda>v r. r\<lparr>in_Subject := v\<rparr>)),
      (''sid'', set_string (\<lambda>v r. r\<lparr>in_Session := v\<rparr>)),
      (''tid'', set_string (\<lambda>v r. r\<lparr>in_Tenant := v\<rparr>)),
      (''realm'', set_string (\<lambda>v r. r\<lparr>in_Realm := v\<rparr>)),
      (''roles'', set_strings (\<lambda>v r. r\<lparr>in_Roles := v\<rparr>)),
      (''scopes'', set_smap in_Scopes (\<lambda>v r. r\<lparr>in_Scopes := v\<rparr>)),
      (''amr'', set_strings (\<lambda>v r. r\<lparr>in_AMR := v\<rparr>)),
      (''aud'', set_strings (\<lambda>v r. r\<lparr>in_Audience := v\<rparr>)),
      (''exp'', set_pb (\<lambda>v r. r\<lparr>in_Expires := v\<rparr>)),
      (''authTime'', set_pb (\<lambda>v r. r\<lparr>in_AuthTime := v\<rparr>)),
      (''ial'', set_int (\<lambda>v r. r\<lparr>in_IAL := v\<rparr>)),
      (''epoch'', set_int (\<lambda>v r. r\<lparr>in_Epoch := v\<rparr>))]"

definition Introspection_ExpiresAt :: "Introspection \<Rightarrow> gotime" where
  "Introspection_ExpiresAt i = unix_time (in_Expires i)"

definition Introspection_AuthenticatedAt :: "Introspection \<Rightarrow> gotime" where
  "Introspection_AuthenticatedAt i = unix_time (in_AuthTime i)"

definition Introspection_Identity :: "Introspection \<Rightarrow> Identity" where
  "Introspection_Identity i =
     \<lparr>id_Subject = in_Subject i, id_Session = in_Session i, id_Tenant = in_Tenant i,
      id_Realm = in_Realm i, id_Roles = in_Roles i, id_Scopes = in_Scopes i, id_Methods = in_AMR i,
      id_Assurance = in_IAL i, id_authenticatedAt = Introspection_AuthenticatedAt i,
      id_expiresAt = Introspection_ExpiresAt i\<rparr>"

record Me =
  me_IdentityID :: string
  me_Tenant :: string
  me_Realm :: string
  me_Username :: string
  me_Email :: string
  me_Roles :: "string list"
  me_Permissions :: "string list"
  me_ActiveScopes :: smap
  me_AMR :: "string list"
  me_IAL :: int
  me_SessionID :: string

definition zero_Me :: Me where
  "zero_Me = \<lparr>me_IdentityID = [], me_Tenant = [], me_Realm = [], me_Username = [], me_Email = [],
     me_Roles = [], me_Permissions = [], me_ActiveScopes = [], me_AMR = [], me_IAL = 0, me_SessionID = []\<rparr>"

definition dec_Me :: "json \<Rightarrow> Me \<Rightarrow> Me option" where
  "dec_Me = decode_struct
     [(''identityId'', set_string (\<lambda>v r. r\<lparr>me_IdentityID := v\<rparr>)),
      (''tenant'', set_string (\<lambda>v r. r\<lparr>me_Tenant := v\<rparr>)),
      (''realm'', set_string (\<lambda>v r. r\<lparr>me_Realm := v\<rparr>)),
      (''username'', set_string (\<lambda>v r. r\<lparr>me_Username := v\<rparr>)),
      (''email'', set_string (\<lambda>v r. r\<lparr>me_Email := v\<rparr>)),
      (''roles'', set_strings (\<lambda>v r. r\<lparr>me_Roles := v\<rparr>)),
      (''permissions'', set_strings (\<lambda>v r. r\<lparr>me_Permissions := v\<rparr>)),
      (''activeScopes'', set_smap me_ActiveScopes (\<lambda>v r. r\<lparr>me_ActiveScopes := v\<rparr>)),
      (''amr'', set_strings (\<lambda>v r. r\<lparr>me_AMR := v\<rparr>)),
      (''ial'', set_int (\<lambda>v r. r\<lparr>me_IAL := v\<rparr>)),
      (''sessionId'', set_string (\<lambda>v r. r\<lparr>me_SessionID := v\<rparr>))]"

definition Me_Can :: "Me \<Rightarrow> string \<Rightarrow> bool" where "Me_Can m p = Permissions_Has (me_Permissions m) p"
definition Me_HasRole :: "Me \<Rightarrow> string \<Rightarrow> bool" where "Me_HasRole m r = Roles_Has (me_Roles m) r"

text \<open>The tenant is a slug here and an id in an identity, so it is left out.\<close>

definition Me_Identity :: "Me \<Rightarrow> Identity" where
  "Me_Identity m = zero_Identity
     \<lparr>id_Subject := me_IdentityID m, id_Session := me_SessionID m, id_Realm := me_Realm m,
      id_Roles := me_Roles m, id_Scopes := me_ActiveScopes m, id_Methods := me_AMR m,
      id_Assurance := me_IAL m\<rparr>"

record Session =
  se_ID :: string
  se_CreatedAt :: int
  se_LastSeenAt :: int
  se_ExpiresAt :: int
  se_IP :: string
  se_UserAgent :: string
  se_AMR :: "string list"
  se_Current :: bool

definition zero_Session :: Session where
  "zero_Session = \<lparr>se_ID = [], se_CreatedAt = 0, se_LastSeenAt = 0, se_ExpiresAt = 0, se_IP = [],
     se_UserAgent = [], se_AMR = [], se_Current = False\<rparr>"

definition dec_Session :: "json \<Rightarrow> Session \<Rightarrow> Session option" where
  "dec_Session = decode_struct
     [(''id'', set_string (\<lambda>v r. r\<lparr>se_ID := v\<rparr>)),
      (''createdAt'', set_pb (\<lambda>v r. r\<lparr>se_CreatedAt := v\<rparr>)),
      (''lastSeenAt'', set_pb (\<lambda>v r. r\<lparr>se_LastSeenAt := v\<rparr>)),
      (''expiresAt'', set_pb (\<lambda>v r. r\<lparr>se_ExpiresAt := v\<rparr>)),
      (''ip'', set_string (\<lambda>v r. r\<lparr>se_IP := v\<rparr>)),
      (''userAgent'', set_string (\<lambda>v r. r\<lparr>se_UserAgent := v\<rparr>)),
      (''amr'', set_strings (\<lambda>v r. r\<lparr>se_AMR := v\<rparr>)),
      (''current'', set_bool (\<lambda>v r. r\<lparr>se_Current := v\<rparr>))]"

definition Session_CreatedTime :: "Session \<Rightarrow> gotime" where "Session_CreatedTime s = unix_time (se_CreatedAt s)"
definition Session_LastSeenTime :: "Session \<Rightarrow> gotime" where "Session_LastSeenTime s = unix_time (se_LastSeenAt s)"
definition Session_ExpiryTime :: "Session \<Rightarrow> gotime" where "Session_ExpiryTime s = unix_time (se_ExpiresAt s)"

section \<open>Granted nodes and shares\<close>

datatype GrantedNode = GrantedNode (gn_NodeID: string) (gn_Inherit: bool) (gn_Except: "GrantedNode list")

abbreviation "zero_GrantedNode \<equiv> GrantedNode [] False []"

text \<open>The exceptions nest, so the decoder recurses over the JSON value itself.\<close>

fun dec_GrantedNode :: "json \<Rightarrow> GrantedNode \<Rightarrow> GrantedNode option"
  and dec_node_members :: "(string \<times> json) list \<Rightarrow> GrantedNode \<Rightarrow> GrantedNode option"
  and dec_node_list :: "json list \<Rightarrow> GrantedNode list option" where
  "dec_GrantedNode (JObj ms) g = dec_node_members ms g"
| "dec_GrantedNode JNull g = Some g"
| "dec_GrantedNode _ g = None"
| "dec_node_members [] g = Some g"
| "dec_node_members ((raw, v) # ms) g =
     (let k = fold_name (unquote raw);
          r = (if k = ''nodeid'' then set_string (\<lambda>s g. GrantedNode s (gn_Inherit g) (gn_Except g)) v g
               else if k = ''inherit'' then set_bool (\<lambda>b g. GrantedNode (gn_NodeID g) b (gn_Except g)) v g
               else if k = ''except'' then
                 (case v of
                    JArr vs \<Rightarrow> map_option (GrantedNode (gn_NodeID g) (gn_Inherit g)) (dec_node_list vs)
                  | JNull \<Rightarrow> Some (GrantedNode (gn_NodeID g) (gn_Inherit g) [])
                  | _ \<Rightarrow> None)
               else Some g)
      in case r of None \<Rightarrow> None | Some g' \<Rightarrow> dec_node_members ms g')"
| "dec_node_list [] = Some []"
| "dec_node_list (v # vs) =
     (case dec_GrantedNode v zero_GrantedNode of
        None \<Rightarrow> None | Some g \<Rightarrow> map_option ((#) g) (dec_node_list vs))"

record GrantedNodes =
  gr_Everywhere :: bool
  gr_OwnRecords :: bool
  gr_Nodes :: "GrantedNode list"
  gr_AsOfUnix :: int

definition zero_GrantedNodes :: GrantedNodes where
  "zero_GrantedNodes = \<lparr>gr_Everywhere = False, gr_OwnRecords = False, gr_Nodes = [], gr_AsOfUnix = 0\<rparr>"

text \<open>\<open>UnmarshalJSON\<close> starts from a fresh value, so nothing of the old one survives.\<close>

definition dec_GrantedNodes :: "json \<Rightarrow> GrantedNodes \<Rightarrow> GrantedNodes option" where
  "dec_GrantedNodes j _ = decode_struct
     [(''everywhere'', set_bool (\<lambda>v r. r\<lparr>gr_Everywhere := v\<rparr>)),
      (''ownRecords'', set_bool (\<lambda>v r. r\<lparr>gr_OwnRecords := v\<rparr>)),
      (''nodes'', set_list (\<lambda>v r. r\<lparr>gr_Nodes := v\<rparr>) zero_GrantedNode dec_GrantedNode),
      (''asOf'', set_pb (\<lambda>v r. r\<lparr>gr_AsOfUnix := v\<rparr>))] j zero_GrantedNodes"

definition GrantedNodes_Nowhere :: "GrantedNodes \<Rightarrow> bool" where
  "GrantedNodes_Nowhere g \<longleftrightarrow> \<not> gr_Everywhere g \<and> \<not> gr_OwnRecords g \<and> length (gr_Nodes g) = 0"

definition GrantedNodes_AsOf :: "GrantedNodes \<Rightarrow> gotime" where
  "GrantedNodes_AsOf g = time_Unix (gr_AsOfUnix g)"

record RecordShare =
  rh_ID :: string
  rh_RecordKind :: string
  rh_RecordRef :: string
  rh_FromIdentityID :: string
  rh_ToIdentityID :: string
  rh_Permissions :: "string list"
  rh_Note :: string
  rh_CreatedAtUnix :: int
  rh_ValidUntilUnix :: int
  rh_RecordScopes :: smap

definition zero_RecordShare :: RecordShare where
  "zero_RecordShare = \<lparr>rh_ID = [], rh_RecordKind = [], rh_RecordRef = [], rh_FromIdentityID = [],
     rh_ToIdentityID = [], rh_Permissions = [], rh_Note = [], rh_CreatedAtUnix = 0, rh_ValidUntilUnix = 0,
     rh_RecordScopes = []\<rparr>"

definition dec_RecordShare :: "json \<Rightarrow> RecordShare \<Rightarrow> RecordShare option" where
  "dec_RecordShare j _ = decode_struct
     [(''id'', set_string (\<lambda>v r. r\<lparr>rh_ID := v\<rparr>)),
      (''recordKind'', set_string (\<lambda>v r. r\<lparr>rh_RecordKind := v\<rparr>)),
      (''recordRef'', set_string (\<lambda>v r. r\<lparr>rh_RecordRef := v\<rparr>)),
      (''fromIdentityId'', set_string (\<lambda>v r. r\<lparr>rh_FromIdentityID := v\<rparr>)),
      (''toIdentityId'', set_string (\<lambda>v r. r\<lparr>rh_ToIdentityID := v\<rparr>)),
      (''permissions'', set_strings (\<lambda>v r. r\<lparr>rh_Permissions := v\<rparr>)),
      (''note'', set_string (\<lambda>v r. r\<lparr>rh_Note := v\<rparr>)),
      (''createdAt'', set_pb (\<lambda>v r. r\<lparr>rh_CreatedAtUnix := v\<rparr>)),
      (''validUntil'', set_pb (\<lambda>v r. r\<lparr>rh_ValidUntilUnix := v\<rparr>)),
      (''recordScopes'', set_smap rh_RecordScopes (\<lambda>v r. r\<lparr>rh_RecordScopes := v\<rparr>))] j zero_RecordShare"

definition RecordShare_ValidUntil :: "RecordShare \<Rightarrow> gotime" where
  "RecordShare_ValidUntil s = time_Unix (rh_ValidUntilUnix s)"

definition RecordTarget :: "string \<Rightarrow> string \<Rightarrow> string \<times> string" where
  "RecordTarget kind ref = (''_record'', kind @ ''/'' @ ref)"

section \<open>Decisions\<close>

record Decision =
  dn_Allow :: bool
  dn_Reason :: string
  dn_FailingAxis :: string
  dn_Message :: string
  dn_RequiredAMR :: "string list"
  dn_MaxAuthAge :: string
  dn_CurrentAMR :: "string list"
  dn_AuthAge :: string
  dn_permission :: string
  dn_subject :: string

definition zero_Decision :: Decision where
  "zero_Decision = \<lparr>dn_Allow = False, dn_Reason = [], dn_FailingAxis = [], dn_Message = [],
     dn_RequiredAMR = [], dn_MaxAuthAge = [], dn_CurrentAMR = [], dn_AuthAge = [], dn_permission = [],
     dn_subject = []\<rparr>"

definition dec_Decision :: "json \<Rightarrow> Decision \<Rightarrow> Decision option" where
  "dec_Decision = decode_struct
     [(''allow'', set_bool (\<lambda>v r. r\<lparr>dn_Allow := v\<rparr>)),
      (''reason'', set_string (\<lambda>v r. r\<lparr>dn_Reason := v\<rparr>)),
      (''failingAxis'', set_string (\<lambda>v r. r\<lparr>dn_FailingAxis := v\<rparr>)),
      (''message'', set_string (\<lambda>v r. r\<lparr>dn_Message := v\<rparr>)),
      (''requiredAmr'', set_strings (\<lambda>v r. r\<lparr>dn_RequiredAMR := v\<rparr>)),
      (''maxAuthAge'', set_string (\<lambda>v r. r\<lparr>dn_MaxAuthAge := v\<rparr>)),
      (''currentAmr'', set_strings (\<lambda>v r. r\<lparr>dn_CurrentAMR := v\<rparr>)),
      (''authAge'', set_string (\<lambda>v r. r\<lparr>dn_AuthAge := v\<rparr>))]"

definition Decision_NeedsStepUp :: "Decision \<Rightarrow> bool" where
  "Decision_NeedsStepUp d \<longleftrightarrow> dn_Reason d = codeStepUpRequired"

definition Decision_ScopeMismatch :: "Decision \<Rightarrow> bool" where
  "Decision_ScopeMismatch d \<longleftrightarrow> dn_Reason d = codeScopeMismatch"

definition Decision_ScopeExcluded :: "Decision \<Rightarrow> bool" where
  "Decision_ScopeExcluded d \<longleftrightarrow> dn_Reason d = codeScopeExcluded"

definition Decision_Err :: "Decision \<Rightarrow> goerr option" where
  "Decision_Err d =
     (if dn_Allow d then None
      else if Decision_NeedsStepUp d then
        Some (ErrStepUp \<lparr>su_RequiredAMR = dn_RequiredAMR d, su_CurrentAMR = dn_CurrentAMR d,
          su_MaxAuthAge = dn_MaxAuthAge d, su_AuthAge = dn_AuthAge d,
          su_Permission = dn_permission d, su_Subject = dn_subject d\<rparr>)
      else Some (ErrDenied \<lparr>de_Reason = dn_Reason d, de_FailingAxis = dn_FailingAxis d,
          de_Message = dn_Message d, de_Permission = dn_permission d, de_Subject = dn_subject d\<rparr>))"

record Explanation =
  ex_Allow :: bool
  ex_Reason :: string
  ex_FailingAxis :: string
  ex_Detail :: string

definition zero_Explanation :: Explanation where
  "zero_Explanation = \<lparr>ex_Allow = False, ex_Reason = [], ex_FailingAxis = [], ex_Detail = []\<rparr>"

definition dec_Explanation :: "json \<Rightarrow> Explanation \<Rightarrow> Explanation option" where
  "dec_Explanation = decode_struct
     [(''allow'', set_bool (\<lambda>v r. r\<lparr>ex_Allow := v\<rparr>)),
      (''reason'', set_string (\<lambda>v r. r\<lparr>ex_Reason := v\<rparr>)),
      (''failingAxis'', set_string (\<lambda>v r. r\<lparr>ex_FailingAxis := v\<rparr>)),
      (''detailJson'', set_string (\<lambda>v r. r\<lparr>ex_Detail := v\<rparr>))]"

text \<open>\<open>time.ParseDuration\<close>, with its floating-point fractions, is an argument.\<close>

definition parseAge :: "(string \<Rightarrow> duration option) \<Rightarrow> string \<Rightarrow> duration option" where
  "parseAge parse_duration s =
     (if s = [] then None
      else case parse_duration s of None \<Rightarrow> None | Some d \<Rightarrow> if d \<le> 0 then None else Some d)"

abbreviation Decision_MaxAuthAgeDuration :: "(string \<Rightarrow> duration option) \<Rightarrow> Decision \<Rightarrow> duration option" where
  "Decision_MaxAuthAgeDuration parse_duration d \<equiv> parseAge parse_duration (dn_MaxAuthAge d)"
abbreviation StepUpRequiredError_MaxAuthAgeDuration :: "(string \<Rightarrow> duration option) \<Rightarrow> StepUpRequiredError \<Rightarrow> duration option" where
  "StepUpRequiredError_MaxAuthAgeDuration parse_duration e \<equiv> parseAge parse_duration (su_MaxAuthAge e)"
abbreviation StepUpRequiredError_AuthAgeDuration :: "(string \<Rightarrow> duration option) \<Rightarrow> StepUpRequiredError \<Rightarrow> duration option" where
  "StepUpRequiredError_AuthAgeDuration parse_duration e \<equiv> parseAge parse_duration (su_AuthAge e)"

lemma Decision_Err_None [simp]: "Decision_Err d = None \<longleftrightarrow> dn_Allow d"
  by (simp add: Decision_Err_def)

lemma parseAge_pos: "parseAge pd s = Some d \<Longrightarrow> 0 < d"
  by (auto simp: parseAge_def split: if_splits option.splits)

end
