(* ===== verification/Decision_Cache.thy ===== *)
theory Decision_Cache
  imports Types Base64 "HOL-Library.Multiset"
begin

text \<open>
  The decision cache (\<open>cache.go\<close>, \<open>CacheConfig\<close> of \<open>options.go\<close>): a generational map of
  answers with an expiry, and the key that names a question. SHA-256 is an argument.

  The locale \<open>decision_store\<close> is what \<open>authorize\<close> relies on; \<open>store\<close> interprets it on
  the generational cache. The remaining lemmas bound the size and say when two questions
  share a key.
\<close>

section \<open>The generational cache\<close>

record CacheConfig =
  cc_TTL :: duration
  cc_MaxSize :: int

record cacheEntry =
  ce_decision :: Decision
  ce_expires :: gotime

record decisionCache =
  dc_ttl :: duration
  dc_maxSize :: int
  dc_live :: "(string \<times> cacheEntry) list"
  dc_old :: "(string \<times> cacheEntry) list"

definition newDecisionCache :: "CacheConfig \<Rightarrow> decisionCache" where
  "newDecisionCache cfg = \<lparr>dc_ttl = cc_TTL cfg, dc_maxSize = cc_MaxSize cfg, dc_live = [], dc_old = []\<rparr>"

definition cache_get :: "decisionCache \<Rightarrow> string \<Rightarrow> gotime \<Rightarrow> Decision option" where
  "cache_get c key now =
     (case (case map_of (dc_live c) key of Some e \<Rightarrow> Some e | None \<Rightarrow> map_of (dc_old c) key) of
        None \<Rightarrow> None
      | Some e \<Rightarrow> if now > ce_expires e then None else Some (ce_decision e))"

definition cache_put :: "decisionCache \<Rightarrow> string \<Rightarrow> Decision \<Rightarrow> gotime \<Rightarrow> decisionCache" where
  "cache_put c key d now =
     (if dn_Reason d = codeStepUpRequired then c
      else let c = (if int (length (dc_live c)) \<ge> dc_maxSize c
                    then c\<lparr>dc_old := dc_live c, dc_live := []\<rparr> else c)
           in c\<lparr>dc_live := AList.update key \<lparr>ce_decision = d, ce_expires = now + dc_ttl c\<rparr> (dc_live c)\<rparr>)"

definition wf_dcache :: "decisionCache \<Rightarrow> bool" where
  "wf_dcache c \<longleftrightarrow> 0 < dc_maxSize c \<and> wf_map (dc_live c) \<and> wf_map (dc_old c) \<and>
     int (length (dc_live c)) \<le> dc_maxSize c \<and> int (length (dc_old c)) \<le> dc_maxSize c"

lemma new_wf: "0 < cc_MaxSize cfg \<Longrightarrow> wf_dcache (newDecisionCache cfg)"
  by (simp add: wf_dcache_def newDecisionCache_def)

lemma put_wf: "wf_dcache c \<Longrightarrow> wf_dcache (cache_put c key d now)"
  using length_update_le [of key _ "dc_live c"]
  by (auto simp: wf_dcache_def cache_put_def Let_def) (smt (verit) of_nat_Suc of_nat_le_iff)

lemma put_max [simp]: "dc_maxSize (cache_put c key d now) = dc_maxSize c"
  by (simp add: cache_put_def Let_def)

lemma put_ttl [simp]: "dc_ttl (cache_put c key d now) = dc_ttl c"
  by (simp add: cache_put_def Let_def)

section \<open>What authorize relies on\<close>

text \<open>
  A store may forget, but what it answers was put under the very key asked, was cacheable,
  and is not older than the lifetime.
\<close>

locale decision_store =
  fixes get :: "'c \<Rightarrow> string \<Rightarrow> gotime \<Rightarrow> 'd option"
    and put :: "'c \<Rightarrow> string \<Rightarrow> 'd \<Rightarrow> gotime \<Rightarrow> 'c"
    and empty :: "'c \<Rightarrow> bool"
    and cacheable :: "'d \<Rightarrow> bool"
    and ttl :: "'c \<Rightarrow> duration"
  assumes get_empty: "empty c \<Longrightarrow> get c k now = None"
    and get_put_same: "cacheable d \<Longrightarrow> get (put c k d t) k now = (if now \<le> t + ttl c then Some d else None)"
    and get_put_other: "k' \<noteq> k \<Longrightarrow> get (put c k d t) k' now = Some e \<Longrightarrow> get c k' now = Some e"
    and put_uncacheable: "\<not> cacheable d \<Longrightarrow> put c k d t = c"
    and ttl_put: "ttl (put c k d t) = ttl c"
begin

fun run :: "'c \<Rightarrow> (string \<times> 'd \<times> gotime) list \<Rightarrow> 'c" where
  "run c [] = c"
| "run c ((k, d, t) # ps) = put (run c ps) k d t"

lemma ttl_run [simp]: "ttl (run c ps) = ttl c"
  by (induction c ps rule: run.induct) (simp_all add: ttl_put)

lemma answer_was_put:
  assumes "empty c" "get (run c ps) k now = Some d"
  shows "\<exists>t. (k, d, t) \<in> set ps \<and> cacheable d \<and> now \<le> t + ttl c"
  using assms
proof (induction c ps rule: run.induct)
  case (1 c)
  then show ?case by (simp add: get_empty)
next
  case (2 c k' d' t ps)
  show ?case
  proof (cases "cacheable d'")
    case False
    with 2 show ?thesis by (auto simp: put_uncacheable)
  next
    case True
    show ?thesis
    proof (cases "k' = k")
      case True
      with 2 \<open>cacheable d'\<close> show ?thesis by (auto simp: get_put_same split: if_splits)
    next
      case False
      with 2 show ?thesis using get_put_other [of k k' "run c ps" d' t now d] by auto
    qed
  qed
qed

end

definition dcache_empty :: "decisionCache \<Rightarrow> bool" where
  "dcache_empty c \<longleftrightarrow> dc_live c = [] \<and> dc_old c = []"

interpretation store: decision_store cache_get cache_put dcache_empty "\<lambda>d. dn_Reason d \<noteq> codeStepUpRequired" dc_ttl
proof unfold_locales
  fix c k k' and d :: Decision and t now e
  show "k' \<noteq> k \<Longrightarrow> cache_get (cache_put c k d t) k' now = Some e \<Longrightarrow> cache_get c k' now = Some e"
    by (cases "map_of (dc_live c) k'")
      (auto simp: cache_get_def cache_put_def Let_def update_conv' split: if_splits option.splits)
qed (auto simp: cache_get_def cache_put_def dcache_empty_def Let_def update_conv')

section \<open>The key of a question\<close>

definition cache_key_segments :: "string \<Rightarrow> string \<Rightarrow> smap \<Rightarrow> string list \<Rightarrow> int \<Rightarrow> string list" where
  "cache_key_segments subject permission scopes amr authTime =
     subject # permission # map (\<lambda>axis. axis @ CHR ''='' # Scopes_at scopes axis) (Scopes_Axes scopes) @
     sort amr @ [FormatInt authTime]"

definition cache_key_text :: "string \<Rightarrow> string \<Rightarrow> smap \<Rightarrow> string list \<Rightarrow> int \<Rightarrow> string" where
  "cache_key_text subject permission scopes amr authTime =
     subject @ [CHR 0x00] @ permission @ [CHR 0x00] @
     concat (map (\<lambda>axis. axis @ ''='' @ Scopes_at scopes axis @ [CHR 0x00]) (Scopes_Axes scopes)) @
     concat (map (\<lambda>m. m @ [CHR 0x00]) (sort amr)) @ FormatInt authTime"

definition cacheKey :: "(bytes \<Rightarrow> bytes) \<Rightarrow> string \<Rightarrow> string \<Rightarrow> smap \<Rightarrow> string list \<Rightarrow> int \<Rightarrow> string" where
  "cacheKey sha256 subject permission scopes amr authTime =
     raw_url_encode (sha256 (cache_key_text subject permission scopes amr authTime))"

lemma Join_snoc: "Join sep (xs @ [y]) = concat (map (\<lambda>x. x @ sep) xs) @ y"
proof (induction xs)
  case (Cons x xs)
  then show ?case by (cases xs) auto
qed simp

lemma cache_key_text_Join:
  "cache_key_text s p sc amr at = Join [CHR 0x00] (cache_key_segments s p sc amr at)"
proof -
  have "cache_key_segments s p sc amr at =
        (s # p # map (\<lambda>axis. axis @ CHR ''='' # Scopes_at sc axis) (Scopes_Axes sc) @ sort amr) @ [FormatInt at]"
    by (simp add: cache_key_segments_def)
  then show ?thesis by (simp only: Join_snoc) (simp add: cache_key_text_def comp_def)
qed

text \<open>The key does not depend on the order of a map or of the methods.\<close>

lemma cacheKey_same_question:
  assumes "wf_map sc" "wf_map sc'" "same_map sc sc'" "mset amr = mset amr'"
  shows "cacheKey h s p sc amr at = cacheKey h s p sc' amr' at"
proof -
  have "sort amr = sort amr'" using assms(4) by (metis sorted_list_of_multiset_mset)
  with Scopes_Axes_same [OF assms(1-3)] Scopes_at_same [OF assms(3)]
  show ?thesis by (simp add: cacheKey_def cache_key_text_def)
qed

text \<open>Questions whose names avoid the two separators are told apart.\<close>

definition plain_question :: "string \<Rightarrow> string \<Rightarrow> smap \<Rightarrow> string list \<Rightarrow> int \<Rightarrow> bool" where
  "plain_question s p sc amr at \<longleftrightarrow>
     CHR 0x00 \<notin> set s \<and> CHR 0x00 \<notin> set p \<and>
     (\<forall>(a, v) \<in> set sc. CHR 0x00 \<notin> set a \<and> CHR ''='' \<notin> set a \<and> CHR 0x00 \<notin> set v) \<and>
     (\<forall>m \<in> set amr. CHR 0x00 \<notin> set m \<and> CHR ''='' \<notin> set m) \<and> wf_map sc \<and> in64 at"

definition same_question ::
  "string \<times> string \<times> smap \<times> string list \<times> int \<Rightarrow> string \<times> string \<times> smap \<times> string list \<times> int \<Rightarrow> bool" where
  "same_question q q' \<longleftrightarrow>
     (case q of (s, p, sc, amr, at) \<Rightarrow> case q' of (s', p', sc', amr', at') \<Rightarrow>
        s = s' \<and> p = p' \<and> same_map sc sc' \<and> mset amr = mset amr' \<and> at = at')"

lemma Scopes_at_in: "wf_map sc \<Longrightarrow> a \<in> set (Scopes_Axes sc) \<Longrightarrow> (a, Scopes_at sc a) \<in> set sc"
  by (auto simp: Scopes_Axes_def Scopes_at_def wf_map_def)

lemma plain_segments:
  assumes "plain_question s p sc amr at" "x \<in> set (cache_key_segments s p sc amr at)"
  shows "CHR 0x00 \<notin> set x"
proof -
  have "CHR 0x00 \<notin> set (FormatInt at)"
    using FormatInt_chars [of "CHR 0x00" at] by (auto simp: isDigit_def less_eq_char_def)
  moreover have "CHR 0x00 \<notin> set a \<and> CHR 0x00 \<notin> set (Scopes_at sc a)" if "a \<in> set (Scopes_Axes sc)" for a
    using Scopes_at_in [OF _ that] assms(1) by (fastforce simp: plain_question_def)
  ultimately show ?thesis using assms by (auto simp: plain_question_def cache_key_segments_def)
qed

lemma append_split_pred:
  assumes "xs @ ys = xs' @ ys'" "\<forall>x \<in> set xs. P x" "\<forall>x \<in> set xs'. P x" "\<forall>x \<in> set ys. \<not> P x" "\<forall>x \<in> set ys'. \<not> P x"
  shows "xs = xs' \<and> ys = ys'"
proof -
  have f: "filter P (zs @ ws) = zs" if "\<forall>x \<in> set zs. P x" "\<forall>x \<in> set ws. \<not> P x" for zs ws
    using that by simp
  from f [OF assms(2,4)] f [OF assms(3,5)] assms(1) have "xs = xs'" by simp
  with assms(1) show ?thesis by simp
qed

lemma axis_text_inj: "CHR ''='' \<notin> set a \<Longrightarrow> CHR ''='' \<notin> set b \<Longrightarrow>
    a @ CHR ''='' # u = b @ CHR ''='' # v \<longleftrightarrow> a = b \<and> u = v"
  by (metis break_at_append option.inject prod.inject)

lemma axes_text_inj:
  assumes "map (\<lambda>a. a @ CHR ''='' # f a) as = map (\<lambda>a. a @ CHR ''='' # g a) bs"
    "\<forall>a \<in> set as. CHR ''='' \<notin> set a" "\<forall>a \<in> set bs. CHR ''='' \<notin> set a"
  shows "as = bs \<and> (\<forall>a \<in> set as. f a = g a)"
  using assms
proof (induction as arbitrary: bs)
  case (Cons a as)
  then show ?case by (cases bs) (auto simp: axis_text_inj)
qed simp

lemma cache_key_text_inj:
  assumes pq: "plain_question s p sc amr at" "plain_question s' p' sc' amr' at'"
    and eq: "cache_key_text s p sc amr at = cache_key_text s' p' sc' amr' at'"
  shows "same_question (s, p, sc, amr, at) (s', p', sc', amr', at')"
proof -
  let ?ax = "\<lambda>sc. map (\<lambda>a. a @ CHR ''='' # Scopes_at sc a) (Scopes_Axes sc)"
  have split: "Split (CHR 0x00) (cache_key_text s p sc amr at) = cache_key_segments s p sc amr at"
    if "plain_question s p sc amr at" for s p sc amr at
    unfolding cache_key_text_Join
    by (rule Split_Join) (simp_all add: cache_key_segments_def plain_segments [OF that, unfolded cache_key_segments_def])
  have "cache_key_segments s p sc amr at = cache_key_segments s' p' sc' amr' at'"
    using split [OF pq(1)] split [OF pq(2)] eq by simp
  then have seg: "s = s'" "p = p'"
    and "(?ax sc @ sort amr) @ [FormatInt at] = (?ax sc' @ sort amr') @ [FormatInt at']"
    by (simp_all add: cache_key_segments_def)
  then have seg': "?ax sc @ sort amr = ?ax sc' @ sort amr'" "FormatInt at = FormatInt at'"
    unfolding append1_eq_conv by blast+
  have eqs: "\<forall>x \<in> set (?ax sc). CHR ''='' \<in> set x" "\<forall>x \<in> set (?ax sc'). CHR ''='' \<in> set x" by auto
  have "?ax sc = ?ax sc' \<and> sort amr = sort amr'"
    by (rule append_split_pred [OF seg'(1) eqs]) (use pq in \<open>auto simp: plain_question_def\<close>)
  then have ax: "?ax sc = ?ax sc'" and m: "sort amr = sort amr'" by auto
  have "Scopes_Axes sc = Scopes_Axes sc' \<and> (\<forall>a \<in> set (Scopes_Axes sc). Scopes_at sc a = Scopes_at sc' a)"
    by (rule axes_text_inj [OF ax]) (use pq in \<open>auto simp: plain_question_def Scopes_Axes_def\<close>)
  then have "same_map sc sc'" using Scopes_recover pq by (auto simp: plain_question_def)
  moreover have "mset amr = mset amr'" using m by (metis mset_sort)
  moreover have "at = at'" using seg'(2) ParseInt_FormatInt pq by (metis option.inject plain_question_def)
  ultimately show ?thesis using seg by (simp add: same_question_def)
qed

end
