(* ===== verification/Json_Roundtrip.thy ===== *)
theory Json_Roundtrip
  imports Json
begin

text \<open>
  What \<open>json.Marshal\<close> writes, \<open>json.Unmarshal\<close> reads back: for every value the SDK can
  hand to the encoder, parsing the text gives the value's JSON image \<open>to_json\<close>, whatever
  the strings hold; and ASCII strings come out of the image as they went in.

  \<open>parses s v r\<close> says that the parser, with enough fuel, takes \<open>v\<close> off \<open>s\<close> and leaves
  \<open>r\<close>; its rules follow the grammar, so each value is one short derivation.
\<close>

section \<open>Derivations\<close>

definition parses :: "string \<Rightarrow> json \<Rightarrow> string \<Rightarrow> bool" where
  "parses s v r \<longleftrightarrow> (\<exists>N. \<forall>n\<ge>N. jval n s = Some (v, r))"

definition parses_elems :: "string \<Rightarrow> json list \<Rightarrow> string \<Rightarrow> bool" where
  "parses_elems s vs r \<longleftrightarrow> (\<exists>N. \<forall>n\<ge>N. jelems n s = Some (vs, r))"

definition parses_members :: "string \<Rightarrow> (string \<times> json) list \<Rightarrow> string \<Rightarrow> bool" where
  "parses_members s ms r \<longleftrightarrow> (\<exists>N. \<forall>n\<ge>N. jmembers n s = Some (ms, r))"

lemma parses_value: "parses s v r \<Longrightarrow> parse_value s = Some (v, r)"
  by (metis parses_def parse_value_fuel max.cobounded1 max.cobounded2)

lemma all_Suc: "(\<forall>n\<ge>N. P (Suc n)) \<Longrightarrow> \<exists>N. \<forall>n\<ge>N. P n"
  by (metis Suc_le_D Suc_le_mono)

lemma parses_I: "(\<And>n. n \<ge> N \<Longrightarrow> jval (Suc n) s = Some (v, r)) \<Longrightarrow> parses s v r"
  unfolding parses_def by (rule all_Suc) blast

lemma parses_string: "raw_string s = Some (u, r) \<Longrightarrow> parses (CHR 0x22 # s) (JStr u) r"
  by (rule parses_I) (simp add: is_ws_def)

lemma parses_empty: "parses (CHR ''['' # CHR '']'' # r) (JArr []) r" "parses (CHR ''{'' # CHR ''}'' # r) (JObj []) r"
  by (rule parses_I, simp add: is_ws_def HasPrefix_def)+

lemma parses_lit: "parses (''true'' @ r) (JBool True) r" "parses (''false'' @ r) (JBool False) r" "parses (''null'' @ r) JNull r"
  by (rule parses_I, simp add: is_ws_def lit_def HasPrefix_def)+

lemma parses_not_close: "parses s v r \<Longrightarrow> \<not> HasPrefix (skip_ws s) '']''"
proof
  assume p: "parses s v r" and h: "HasPrefix (skip_ws s) '']''"
  then obtain t where t: "skip_ws s = CHR '']'' # t" by (auto simp: HasPrefix_iff)
  have "jval (Suc n) s = None" for n
    by (simp add: t number_lit_def sign_part_def HasPrefix_def isDigit_def less_eq_char_def)
  with p show False unfolding parses_def by (metis le_SucI order_refl option.distinct(1))
qed

lemma parses_elems_not_close: "parses_elems s vs r \<Longrightarrow> \<not> HasPrefix (skip_ws s) '']''"
proof
  assume p: "parses_elems s vs r" and h: "HasPrefix (skip_ws s) '']''"
  then obtain t where t: "skip_ws s = CHR '']'' # t" by (auto simp: HasPrefix_iff)
  have j: "jval n s = None" for n
    by (cases n) (simp_all add: t number_lit_def sign_part_def HasPrefix_def isDigit_def less_eq_char_def)
  have "jelems n s = None" for n by (cases n) (simp_all only: jelems.simps j option.case)
  with p show False unfolding parses_elems_def by (metis order_refl option.distinct(1))
qed

lemma parses_arr:
  assumes "parses_elems s vs r"
  shows "parses (CHR ''['' # s) (JArr vs) r"
proof -
  from assms obtain N where N: "\<forall>n\<ge>N. jelems n s = Some (vs, r)" by (auto simp: parses_elems_def)
  show ?thesis
    by (rule parses_I [of N]) (use N parses_elems_not_close [OF assms] in \<open>simp add: is_ws_def del: jelems.simps\<close>)
qed

lemma parses_obj:
  assumes "parses_members s ms r" "HasPrefix s [CHR 0x22]"
  shows "parses (CHR ''{'' # s) (JObj ms) r"
proof -
  from assms obtain N where N: "\<forall>n\<ge>N. jmembers n s = Some (ms, r)" by (auto simp: parses_members_def)
  have "\<not> HasPrefix (skip_ws s) ''}''" using assms(2) by (auto simp: HasPrefix_iff is_ws_def)
  with N show ?thesis by (intro parses_I [of N]) (simp add: is_ws_def del: jmembers.simps)
qed

lemma elems_I: "(\<And>n. n \<ge> N \<Longrightarrow> jelems (Suc n) s = Some (v, r)) \<Longrightarrow> parses_elems s v r"
  unfolding parses_elems_def by (rule all_Suc) blast

lemma members_I: "(\<And>n. n \<ge> N \<Longrightarrow> jmembers (Suc n) s = Some (v, r)) \<Longrightarrow> parses_members s v r"
  unfolding parses_members_def by (rule all_Suc) blast

lemma elems_one: "parses s v (CHR '']'' # r) \<Longrightarrow> parses_elems s [v] r"
proof -
  assume "parses s v (CHR '']'' # r)"
  then obtain N where "\<forall>n\<ge>N. jval n s = Some (v, CHR '']'' # r)" by (auto simp: parses_def)
  then show ?thesis by (intro elems_I [of N]) (simp add: is_ws_def del: jval.simps)
qed

lemma elems_more:
  assumes "parses s v (CHR '','' # s')" "parses_elems s' vs r"
  shows "parses_elems s (v # vs) r"
proof -
  from assms obtain N M where "\<forall>n\<ge>N. jval n s = Some (v, CHR '','' # s')" "\<forall>n\<ge>M. jelems n s' = Some (vs, r)"
    by (auto simp: parses_def parses_elems_def)
  then show ?thesis
    by (intro elems_I [of "max N M"]) (auto simp: is_ws_def jelems.simps(2) simp del: jval.simps)
qed

lemma members_one:
  assumes "raw_string t = Some (k, CHR '':'' # s)" "parses s v (CHR ''}'' # r)"
  shows "parses_members (CHR 0x22 # t) [(k, v)] r"
proof -
  from assms(2) obtain N where "\<forall>n\<ge>N. jval n s = Some (v, CHR ''}'' # r)" by (auto simp: parses_def)
  with assms(1) show ?thesis by (intro members_I [of N]) (simp add: is_ws_def del: jval.simps)
qed

lemma members_more:
  assumes "raw_string t = Some (k, CHR '':'' # s)" "parses s v (CHR '','' # s')" "parses_members s' ms r"
  shows "parses_members (CHR 0x22 # t) ((k, v) # ms) r"
proof -
  from assms obtain N M where "\<forall>n\<ge>N. jval n s = Some (v, CHR '','' # s')" "\<forall>n\<ge>M. jmembers n s' = Some (ms, r)"
    by (auto simp: parses_def parses_members_def)
  with assms(1) show ?thesis
    by (intro members_I [of "max N M"]) (auto simp: is_ws_def jmembers.simps(2) simp del: jval.simps)
qed

section \<open>Strings\<close>

lemma hex_val_char: "n < 16 \<Longrightarrow> hex_val (hex_char n) = Some n"
  by (auto simp: hex_val_def hex_char_def Let_def)

lemma hex_digits_value: "((k div 4096 * 16 + k div 256 mod 16) * 16 + k div 16 mod 16) * 16 + k mod 16 = (k::nat)"
proof -
  have "k div 4096 = k div 256 div 16" "k div 256 = k div 16 div 16" by (simp_all add: div_mult2_eq [symmetric])
  then show ?thesis by (metis div_mult_mod_eq)
qed

lemma hex4_escape: "k < 65536 \<Longrightarrow> hex4 (drop 2 (u_escape k) @ r) = Some k"
  using hex_digits_value [of k]
  by (simp add: u_escape_def hex4_def hex_val_char less_mult_imp_div_less)

lemma raw_u_escape:
  assumes "k < 65536" "raw_string r = Some (u, q)"
  shows "raw_string (u_escape k @ r) = Some (u_escape k @ u, q)"
  using assms hex4_escape [OF assms(1), of r] by (simp add: u_escape_def)

lemma unquote_u_escape: "k < 128 \<Longrightarrow> unquote (u_escape k @ r) = char_of k # unquote r"
  using hex4_escape [of k r] by (simp add: u_escape_def is_surrogate_def utf8_rune_def)

definition ascii :: "string \<Rightarrow> bool" where
  "ascii s \<longleftrightarrow> (\<forall>c \<in> set s. c < CHR 0x80)"

lemma ascii_simps [simp]: "ascii []" "ascii (c # s) \<longleftrightarrow> c < CHR 0x80 \<and> ascii s" "ascii (s @ t) \<longleftrightarrow> ascii s \<and> ascii t"
  by (auto simp: ascii_def)

text \<open>What one character becomes.\<close>

definition escape_char :: "char \<Rightarrow> string" where
  "escape_char c =
     (if c = CHR 0x22 \<or> c = CHR 0x5C then [CHR 0x5C, c]
      else if c = CHR 0x08 then [CHR 0x5C, CHR ''b'']
      else if c = CHR 0x0C then [CHR 0x5C, CHR ''f'']
      else if c = CHR 0x0A then [CHR 0x5C, CHR ''n'']
      else if c = CHR 0x0D then [CHR 0x5C, CHR ''r'']
      else if c = CHR 0x09 then [CHR 0x5C, CHR ''t'']
      else if c < CHR 0x20 \<or> c \<in> {CHR ''<'', CHR ''>'', CHR ''&''} then u_escape (of_char c)
      else [c])"

lemma escape_Cons_ascii: "c < CHR 0x80 \<Longrightarrow> escape (c # s) = escape_char c @ escape s"
  by (simp add: escape_char_def)

lemma raw_escape_char:
  assumes "c < CHR 0x80" "raw_string r = Some (u, q)"
  shows "raw_string (escape_char c @ r) = Some (escape_char c @ u, q)"
proof (cases "c < CHR 0x20 \<or> c \<in> {CHR ''<'', CHR ''>'', CHR ''&''}")
  case True
  with assms raw_u_escape [OF _ assms(2), of "of_char c"] show ?thesis
    by (simp add: escape_char_def less_char_def)
next
  case False
  with assms(2) show ?thesis by (simp add: escape_char_def)
qed

lemma unquote_escape_char:
  assumes c: "c < CHR 0x80"
  shows "unquote (escape_char c @ r) = c # unquote r"
proof (cases "c < CHR 0x20 \<or> c \<in> {CHR ''<'', CHR ''>'', CHR ''&''}")
  case True
  then have "(of_char c :: nat) < 128" by (auto simp: less_char_def)
  from unquote_u_escape [OF this, of r] c show ?thesis by (simp add: escape_char_def simple_escape_def)
next
  case False
  with c show ?thesis by (simp add: escape_char_def simple_escape_def)
qed

lemma raw_escape: "ascii s \<Longrightarrow> raw_string (escape s @ CHR 0x22 # r) = Some (escape s, r)"
  by (induction s) (simp_all add: escape_Cons_ascii raw_escape_char del: escape.simps(2))

lemma unquote_escape [simp]: "ascii s \<Longrightarrow> unquote (escape s) = s"
  by (induction s) (simp_all add: escape_Cons_ascii unquote_escape_char del: escape.simps(2) unquote.simps(2))

section \<open>Numbers\<close>

definition value_end :: "string \<Rightarrow> bool" where
  "value_end r \<longleftrightarrow> r = [] \<or> hd r \<in> {CHR '','', CHR '']'', CHR ''}'', CHR 0x0A}"

lemma value_end_not: "value_end r \<Longrightarrow> r = [] \<or> (\<not> isDigit (hd r) \<and> hd r \<notin> {CHR ''.'', CHR ''e'', CHR ''E''})"
  by (auto simp: value_end_def isDigit_def less_eq_char_def)

lemma digits_then_end:
  assumes "list_all isDigit ds" "value_end r"
  shows "takeWhile isDigit (ds @ r) = ds \<and> dropWhile isDigit (ds @ r) = r"
  using assms value_end_not [OF assms(2)]
  by (cases r) (simp_all add: list_all_iff takeWhile_append2 dropWhile_append2)

lemma nat_dec_zero: "hd (nat_dec n) = CHR ''0'' \<Longrightarrow> nat_dec n = ''0''"
proof (induction n rule: nat_dec.induct)
  case (1 n)
  show ?case
  proof (cases "n < 10")
    case True
    then have "nat_dec n = [digit n]" by (simp add: nat_dec.simps [of n])
    with "1.prems" show ?thesis by simp
  next
    case False
    then have e: "nat_dec n = nat_dec (n div 10) @ [digit (n mod 10)]" by (simp add: nat_dec.simps [of n])
    with "1.prems" have "hd (nat_dec (n div 10)) = CHR ''0''" by simp
    from "1.IH" [OF False this] have "digits_val (nat_dec (n div 10)) = digits_val ''0''" by simp
    with nat_dec_facts [of "n div 10"] have "n div 10 = 0" by (simp add: digits_val_def)
    with False show ?thesis by simp
  qed
qed

lemma number_end: "value_end r \<Longrightarrow> frac_part r = ([], r) \<and> exp_part r = ([], r)"
  using value_end_not [of r] by (cases r) (auto simp: frac_part_def exp_part_def HasPrefix_def)

lemma number_nat_dec:
  assumes "value_end r"
  shows "nat_dec n = d # ds \<Longrightarrow> isDigit d \<and>
    (if d = CHR ''0'' then ([d], ds @ r) else (d # takeWhile isDigit (ds @ r), dropWhile isDigit (ds @ r))) = (d # ds, r)"
  using nat_dec_facts [of n] nat_dec_zero [of n] digits_then_end [OF _ assms, of ds] by auto

lemma number_lit_FormatInt:
  assumes "value_end r"
  shows "number_lit (FormatInt n @ r) = Some (FormatInt n, r)"
proof -
  obtain d ds where d: "nat_dec (nat \<bar>n\<bar>) = d # ds" by (cases "nat_dec (nat \<bar>n\<bar>)") auto
  from number_nat_dec [OF assms d] have nd: "isDigit d"
    "(if d = CHR ''0'' then ([d], ds @ r) else (d # takeWhile isDigit (ds @ r), dropWhile isDigit (ds @ r))) = (d # ds, r)"
    by auto
  from nd(1) have "d \<noteq> CHR ''-''" by (auto simp: isDigit_def less_eq_char_def)
  with nd number_end [OF assms] d show ?thesis
    by (cases "n < 0") (simp_all add: FormatInt_def number_lit_def sign_part_def HasPrefix_def)
qed

lemma FormatInt_hd: "\<exists>c t. FormatInt n = c # t \<and> (isDigit c \<or> c = CHR ''-'')"
  using FormatInt_not_Nil [of n] nat_dec_facts [of "nat n"]
  by (cases "FormatInt n") (auto simp: FormatInt_def list_all_iff split: if_splits dest: arg_cong [where f = set])

lemma parses_int:
  assumes "value_end r"
  shows "parses (FormatInt n @ r) (JNum (FormatInt n)) r"
proof -
  obtain c t where c: "FormatInt n = c # t" "isDigit c \<or> c = CHR ''-''" using FormatInt_hd by blast
  then have "c \<notin> {CHR 0x22, CHR ''['', CHR ''{'', CHR ''t'', CHR ''f'', CHR ''n''}" "\<not> is_ws c"
    by (auto simp: isDigit_def less_eq_char_def is_ws_def)
  with number_lit_FormatInt [OF assms, of n] c(1) show ?thesis by (intro parses_I) simp
qed

section \<open>Values\<close>

text \<open>The JSON value a Go value is written as.\<close>

fun to_json :: "goval \<Rightarrow> json" where
  "to_json GNull = JNull"
| "to_json (GBool b) = JBool b"
| "to_json (GInt n) = JNum (FormatInt n)"
| "to_json (GStr s) = JStr (escape s)"
| "to_json (GList vs) = JArr (map to_json vs)"
| "to_json (GMap ms) = JObj (map snd (sort_key fst (map (\<lambda>(k, v). (k, escape k, to_json v)) ms)))"
| "to_json (GStruct ms) = JObj (map (\<lambda>(k, v). (escape k, to_json v)) ms)"

text \<open>All strings ASCII.\<close>

fun ascii_val :: "goval \<Rightarrow> bool" where
  "ascii_val (GStr s) = ascii s"
| "ascii_val (GList vs) = list_all ascii_val vs"
| "ascii_val (GMap ms) = list_all (\<lambda>(k, v). ascii k \<and> ascii_val v) ms"
| "ascii_val (GStruct ms) = list_all (\<lambda>(k, v). ascii k \<and> ascii_val v) ms"
| "ascii_val _ = True"

lemma insort_key_map:
  "(\<And>x. fst (g x) = fst x) \<Longrightarrow> insort_key fst (g x) (map g xs) = map g (insort_key fst x xs)"
  by (induction xs) auto

lemma sort_key_map:
  "(\<And>x. fst (g x) = fst x) \<Longrightarrow> sort_key fst (map g xs) = map g (sort_key fst xs)"
  by (induction xs) (simp_all add: insort_key_map sort_key_def)

lemma raw_key: "ascii k \<Longrightarrow> raw_string (escape k @ CHR 0x22 # r) = Some (escape k, r)"
  by (rule raw_escape)

lemma parses_quote: "ascii s \<Longrightarrow> parses (quote s @ r) (JStr (escape s)) r"
  using parses_string [OF raw_escape, of s r] by (simp add: quote_def)

lemma value_end_simps [simp]: "value_end (CHR '','' # r)" "value_end (CHR '']'' # r)" "value_end (CHR ''}'' # r)" "value_end (CHR 0x0A # r)" "value_end []"
  by (simp_all add: value_end_def)

lemma parses_Join_elems:
  assumes "\<And>v r. v \<in> set vs \<Longrightarrow> value_end r \<Longrightarrow> parses (f v @ r) (g v) r" "vs \<noteq> []"
  shows "parses_elems (Join '','' (map f vs) @ '']'' @ r) (map g vs) r"
  using assms
proof (induction vs)
  case (Cons v vs)
  show ?case
  proof (cases vs)
    case Nil
    have "parses (f v @ CHR '']'' # r) (g v) (CHR '']'' # r)" using Cons.prems(1) by simp
    with Nil show ?thesis by (simp add: elems_one)
  next
    case (Cons w ws)
    let ?s' = "Join '','' (map f vs) @ '']'' @ r"
    have "parses (f v @ CHR '','' # ?s') (g v) (CHR '','' # ?s')" using Cons.prems(1) by simp
    moreover have "parses_elems ?s' (map g vs) r" using Cons.IH Cons.prems(1) Cons by simp
    ultimately show ?thesis using elems_more Cons by fastforce
  qed
qed simp

lemma parses_Join_members:
  assumes "\<And>k v r. (k, v) \<in> set ms \<Longrightarrow> ascii k \<and> (value_end r \<longrightarrow> parses (f v @ r) (g v) r)" "ms \<noteq> []"
  shows "parses_members (Join '','' (map (\<lambda>(k, v). quote k @ '':'' @ f v) ms) @ ''}'' @ r)
           (map (\<lambda>(k, v). (escape k, g v)) ms) r"
  using assms
proof (induction ms)
  case (Cons m ms)
  obtain k v where m: "m = (k, v)" by fastforce
  then have k: "ascii k" and v: "\<And>r. value_end r \<Longrightarrow> parses (f v @ r) (g v) r" using Cons.prems(1) by auto
  show ?case
  proof (cases ms)
    case Nil
    have "parses_members (CHR 0x22 # escape k @ CHR 0x22 # CHR '':'' # f v @ CHR ''}'' # r) [(escape k, g v)] r"
      using members_one [OF raw_key [OF k] v [of "CHR ''}'' # r"]] by simp
    with Nil m show ?thesis by (simp add: quote_def)
  next
    case (Cons w ws)
    let ?s' = "Join '','' (map (\<lambda>(k, v). quote k @ '':'' @ f v) ms) @ ''}'' @ r"
    have "parses_members ?s' (map (\<lambda>(k, v). (escape k, g v)) ms) r"
      by (rule Cons.IH) (use Cons.prems(1) Cons in auto)
    with members_more [OF raw_key [OF k] v [of "CHR '','' # ?s'"]]
    have "parses_members (CHR 0x22 # escape k @ CHR 0x22 # CHR '':'' # f v @ CHR '','' # ?s')
            ((escape k, g v) # map (\<lambda>(k, v). (escape k, g v)) ms) r" by simp
    with Cons m show ?thesis by (simp add: quote_def)
  qed
qed simp

lemma members_quote: "ms \<noteq> [] \<Longrightarrow> HasPrefix (Join '','' (map (\<lambda>(k, v). quote k @ '':'' @ f v) ms) @ r) [CHR 0x22]"
  by (cases ms; cases "tl ms") (auto simp: quote_def HasPrefix_def split: prod.split)

text \<open>Decoding undoes encoding.\<close>

theorem parses_marshal: "ascii_val v \<Longrightarrow> value_end r \<Longrightarrow> parses (marshal v @ r) (to_json v) r"
proof (induction v arbitrary: r rule: marshal.induct)
  case (5 vs)
  show ?case
  proof (cases "vs = []")
    case True
    then show ?thesis by (simp add: parses_empty)
  next
    case False
    have "parses_elems (Join '','' (map marshal vs) @ '']'' @ r) (map to_json vs) r"
      by (rule parses_Join_elems [OF _ False]) (use 5 in \<open>auto simp: list_all_iff\<close>)
    then show ?thesis using parses_arr by fastforce
  qed
next
  case (6 ms)
  let ?srt = "sort_key fst ms"
  have ne: "?srt \<noteq> [] \<longleftrightarrow> ms \<noteq> []" by (metis set_sort set_empty)
  have m: "map snd (sort_key fst (map (\<lambda>(k, v). (k, h k v)) ms)) = map (\<lambda>(k, v). h k v) ?srt" for h :: "string \<Rightarrow> goval \<Rightarrow> 'x"
    by (subst sort_key_map) auto
  show ?case
  proof (cases "ms = []")
    case True
    then show ?thesis by (simp add: parses_empty)
  next
    case False
    have "parses_members (Join '','' (map (\<lambda>(k, v). quote k @ '':'' @ marshal v) ?srt) @ ''}'' @ r)
           (map (\<lambda>(k, v). (escape k, to_json v)) ?srt) r"
      by (rule parses_Join_members) (use 6 False ne in \<open>auto simp: list_all_iff\<close>)
    from parses_obj [OF this] members_quote [of ?srt marshal "''}'' @ r"] False ne
    show ?thesis by (simp add: m)
  qed
next
  case (7 ms)
  show ?case
  proof (cases "ms = []")
    case True
    then show ?thesis by (simp add: parses_empty)
  next
    case False
    have "parses_members (Join '','' (map (\<lambda>(k, v). quote k @ '':'' @ marshal v) ms) @ ''}'' @ r)
           (map (\<lambda>(k, v). (escape k, to_json v)) ms) r"
      by (rule parses_Join_members [OF _ False]) (use 7 in \<open>auto simp: list_all_iff\<close>)
    from parses_obj [OF this] members_quote [OF False, of marshal "''}'' @ r"]
    show ?thesis by simp
  qed
qed (use parses_lit parses_int parses_quote in auto)

lemma parse_marshal: "ascii_val v \<Longrightarrow> parse_json (marshal v) = Some (to_json v)"
  using parses_value [OF parses_marshal [of v "[]"]] by (simp add: parse_json_def)

end
