(* ===== verification/Wire_Error.thy ===== *)
theory Wire_Error
  imports Http Base64 Types Json_Roundtrip
begin

text \<open>
  How a refusal is read off the wire (\<open>client.go\<close>: \<open>parseWireError\<close>, \<open>decodeErrorInfo\<close>,
  \<open>nextProtoField\<close>, \<open>decodeMapEntry\<close>) and how the test server writes one
  (\<open>anubistest/server.go\<close>: \<open>encodeErrorInfo\<close>, \<open>appendField\<close>, \<open>appendVarint\<close>). Varints are
  64-bit words, as in \<open>encoding/binary\<close>.

  The lemmas: varints and \<open>ErrorInfo\<close> messages round trip, decoding terminates on every
  input, and the stable code of a Connect error is the one of its \<open>ErrorInfo\<close> detail.
\<close>

unbundle bit_operations_syntax

section \<open>Varints\<close>

text \<open>
  \<open>binary.Uvarint\<close>: the value and the number of bytes read, 0 when the buffer is too short
  and negative when the value does not fit.
\<close>

fun uvarint_go :: "nat \<Rightarrow> 64 word \<Rightarrow> nat \<Rightarrow> bytes \<Rightarrow> 64 word \<times> int" where
  "uvarint_go i x s [] = (0, 0)"
| "uvarint_go i x s (c # r) =
     (let b = of_nat (of_char c) :: 64 word in
      if i = 10 then (0, - int (i + 1))
      else if b < 0x80 then
        (if i = 9 \<and> b > 1 then (0, - int (i + 1)) else (x OR push_bit s b, int i + 1))
      else uvarint_go (i + 1) (x OR push_bit s (b AND 0x7F)) (s + 7) r)"

definition Uvarint :: "bytes \<Rightarrow> 64 word \<times> int" where
  "Uvarint b = uvarint_go 0 0 0 b"

definition byte_of :: "64 word \<Rightarrow> char" where
  "byte_of n = char_of (unat n)"

text \<open>\<open>appendVarint\<close> shifts until the value fits in seven bits.\<close>

function appendVarint :: "64 word \<Rightarrow> bytes" where
  "appendVarint n =
     (if n \<ge> 0x80 then byte_of (n AND 0xFF OR 0x80) # appendVarint (drop_bit 7 n) else [byte_of n])"
  by pat_completeness auto
termination
proof (relation "measure unat")
  fix n :: "64 word"
  assume "0x80 \<le> n"
  then have "0 < unat n" by (simp add: unat_gt_0) (use word_le_0_iff in fastforce)
  then show "(drop_bit 7 n, n) \<in> measure unat"
    by (simp only: in_measure unat_drop_bit_eq) (simp add: drop_bit_eq_div)
qed simp

declare appendVarint.simps [simp del]

lemma of_char_byte_of: "of_nat (of_char (byte_of n)) = n AND 0xFF"
proof -
  have "(of_char (byte_of n) :: nat) = unat n mod 256" by (simp add: byte_of_def)
  also have "\<dots> = take_bit 8 (unat n)" by (simp add: take_bit_eq_mod)
  also have "\<dots> = unat (take_bit 8 n)" by (simp only: unsigned_take_bit_eq)
  finally show ?thesis by (simp add: take_bit_eq_mask mask_eq_exp_minus_1)
qed

lemma byte_of_low: "n AND 0xFF = n \<Longrightarrow> of_nat (of_char (byte_of n)) = n"
  by (simp add: of_char_byte_of)

text \<open>Seven bits at a time, the pieces reassemble.\<close>

lemma push_pieces:
  "(x OR push_bit s (n AND 0x7F)) OR push_bit (s + 7) (drop_bit 7 n) = x OR push_bit s (n :: 64 word)"
proof -
  have "push_bit s (n AND 0x7F) OR push_bit (s + 7) (drop_bit 7 n) = push_bit s n"
  proof -
    have "(0x7F :: 64 word) = mask 7" by (simp add: mask_eq_exp_minus_1)
    then have "n AND 0x7F = take_bit 7 n" by (simp only: take_bit_eq_mask)
    moreover have "take_bit 7 n OR push_bit 7 (drop_bit 7 n) = n"
    proof (rule bit_eqI)
      fix m show "bit (take_bit 7 n OR push_bit 7 (drop_bit 7 n)) m \<longleftrightarrow> bit n m" if "possible_bit TYPE(64 word) m"
        using that by (cases "m < 7") (simp_all add: bit_simps)
    qed
    ultimately show ?thesis by (metis push_bit_or push_bit_push_bit)
  qed
  then show ?thesis by (simp add: or.assoc)
qed

lemma bit_128:
  "bit (128 :: nat) m \<longleftrightarrow> m = 7" "bit (128 :: int) m \<longleftrightarrow> m = 7" "bit (128 :: 64 word) m \<longleftrightarrow> m = 7"
proof -
  have "bit ((2 :: nat) ^ 7) m \<longleftrightarrow> m = 7" "bit ((2 :: int) ^ 7) m \<longleftrightarrow> m = 7"
    "bit ((2 :: 64 word) ^ 7) m \<longleftrightarrow> m = 7" unfolding bit_exp_iff by auto
  then show "bit (128 :: nat) m \<longleftrightarrow> m = 7" "bit (128 :: int) m \<longleftrightarrow> m = 7"
    "bit (128 :: 64 word) m \<longleftrightarrow> m = 7" by simp_all
qed

lemma byte_masks: "(0xFF :: 64 word) = mask 8" "(0x7F :: 64 word) = mask 7"
  by (simp_all add: mask_eq_exp_minus_1)

lemma continuation_byte:
  fixes n :: "64 word"
  shows "\<not> (n AND 0xFF OR 0x80) < 0x80" "(n AND 0xFF OR 0x80) AND 0x7F = n AND 0x7F"
    "(n AND 0xFF OR 0x80) AND 0xFF = n AND 0xFF OR 0x80"
proof -
  have "0x80 \<le> (n AND 0xFF OR 0x80)" by (metis le_word_or1 or.commute)
  then show "\<not> (n AND 0xFF OR 0x80) < 0x80" by simp
  show "(n AND 0xFF OR 0x80) AND 0x7F = n AND 0x7F" unfolding byte_masks
    by (rule bit_eqI) (auto simp: bit_and_iff bit_or_iff bit_mask_iff bit_128)
  show "(n AND 0xFF OR 0x80) AND 0xFF = n AND 0xFF OR 0x80" unfolding byte_masks
    by (rule bit_eqI) (auto simp: bit_and_iff bit_or_iff bit_mask_iff bit_128)
qed

lemma uvarint_continue:
  assumes "i \<noteq> 10"
  shows "uvarint_go i x s (byte_of (n AND 0xFF OR 0x80) # r) =
    uvarint_go (i + 1) (x OR push_bit s (n AND 0x7F)) (s + 7) r"
proof -
  have "of_nat (of_char (byte_of (n AND 0xFF OR 0x80))) = n AND 0xFF OR 0x80"
    by (simp only: of_char_byte_of continuation_byte)
  with assms continuation_byte [of n] show ?thesis by (simp only: uvarint_go.simps Let_def if_False)
qed

lemma take_bit_eq_self_word: "n < 2 ^ 8 \<Longrightarrow> take_bit 8 n = (n :: 64 word)"
proof -
  assume "n < 2 ^ 8"
  then have "take_bit 8 (unat n) = unat n" by (simp add: take_bit_eq_mod word_less_nat_alt)
  then have "unat (take_bit 8 n) = unat n" by (simp only: unsigned_take_bit_eq)
  then show ?thesis by (simp only: word_unat_eq_iff)
qed

lemma uvarint_last:
  assumes "i < 10" "n < 0x80" "i = 9 \<Longrightarrow> n \<le> 1"
  shows "uvarint_go i x s (byte_of n # r) = (x OR push_bit s n, int i + 1)"
proof -
  have "n < 2 ^ 8" using assms(2) by (simp add: word_less_nat_alt)
  then have "n AND 0xFF = n" unfolding byte_masks 
    by (simp only: take_bit_eq_mask [symmetric] take_bit_eq_self_word)
  then have "of_nat (of_char (byte_of n)) = n" by (simp only: of_char_byte_of)
  moreover have "\<not> (i = 9 \<and> n > 1)" "i \<noteq> 10" using assms(1,3) by auto
  ultimately show ?thesis using assms(2) by (simp only: uvarint_go.simps Let_def if_True if_False)
qed

lemma uvarint_append:
  assumes "i \<le> 9" "unat n < 2 ^ (64 - 7 * i)"
  shows "uvarint_go i x s (appendVarint n @ r) = (x OR push_bit s n, int i + int (length (appendVarint n)))"
  using assms
proof (induction n arbitrary: i x s rule: appendVarint.induct)
  case (1 n)
  show ?case
  proof (cases "0x80 \<le> n")
    case True
    then have "128 \<le> unat n" by (simp add: word_le_nat_alt)
    with "1.prems" have "(2::nat) ^ 7 < 2 ^ (64 - 7 * i)" by simp
    then have "7 < 64 - 7 * i" by (rule power_less_imp_less_exp [rotated]) simp
    then have "i \<le> 8" by linarith
    then have i: "i + 1 \<le> 9" "i \<noteq> 10" "64 - 7 * i = 7 + (64 - 7 * (i + 1))" by simp_all
    have b: "unat (drop_bit 7 n) < 2 ^ (64 - 7 * (i + 1))"
    proof -
      have "unat n < 2 ^ (64 - 7 * (i + 1)) * 2 ^ 7"
        using "1.prems"(2) i(3) by (metis power_add mult.commute)
      then have "drop_bit 7 (unat n) < 2 ^ (64 - 7 * (i + 1))"
        by (simp only: drop_bit_eq_div less_mult_imp_div_less)
      then show ?thesis by (simp only: unat_drop_bit_eq)
    qed
    from True have a: "appendVarint n = byte_of (n AND 0xFF OR 0x80) # appendVarint (drop_bit 7 n)"
      by (subst appendVarint.simps) (simp only: if_True)
    show ?thesis
      unfolding a append_Cons uvarint_continue [OF i(2)] "1.IH" [OF True i(1) b] push_pieces by simp
  next
    case False
    then have n: "n < 0x80" by simp
    have "n \<le> 1" if "i = 9" using "1.prems"(2) that by (simp add: word_le_nat_alt)
    from uvarint_last [where x = x and s = s and r = r, OF _ n this] False "1.prems"(1) show ?thesis
      by (simp add: appendVarint.simps [of n])
  qed
qed

lemma Uvarint_append: "Uvarint (appendVarint n @ r) = (n, int (length (appendVarint n)))"
proof -
  have "unat n < 2 ^ LENGTH(64)" by (rule unsigned_less)
  then show ?thesis unfolding Uvarint_def by (subst uvarint_append) simp_all
qed

lemma appendVarint_not_Nil [simp]: "appendVarint n \<noteq> []"
  by (subst appendVarint.simps) simp

lemma appendVarint_small: "n < 0x80 \<Longrightarrow> appendVarint n = [byte_of n]"
  by (subst appendVarint.simps) simp

section \<open>ErrorInfo on the protobuf wire\<close>

definition nextProtoField :: "bytes \<Rightarrow> (nat \<times> bytes \<times> bytes) res" where
  "nextProtoField b =
     (case Uvarint b of (tag, n) \<Rightarrow>
        if n \<le> 0 then Inl (ErrText ''anubis: truncated ErrorInfo tag'')
        else if tag AND 7 \<noteq> 2 then Inl (ErrText ''anubis: unexpected ErrorInfo wire type'')
        else (let b = drop (nat n) b in
          case Uvarint b of (sz, n) \<Rightarrow>
            if n \<le> 0 \<or> unat sz > length (drop (nat n) b)
            then Inl (ErrText ''anubis: truncated ErrorInfo field'')
            else (let b = drop (nat n) b in
                  Inr (unat (drop_bit 3 tag), take (unat sz) b, drop (unat sz) b))))"

lemma nextProtoField_shorter: "nextProtoField b = Inr (f, p, rest) \<Longrightarrow> length rest < length b"
  by (cases b) (auto simp: nextProtoField_def Let_def Uvarint_def split: prod.splits if_splits)

function decodeMapEntry_go :: "bytes \<Rightarrow> string \<times> string \<Rightarrow> string \<times> string" where
  "decodeMapEntry_go b kv =
     (if b = [] then kv
      else case nextProtoField b of
        Inl e \<Rightarrow> kv
      | Inr (field, payload, rest) \<Rightarrow>
          decodeMapEntry_go rest
            (if field = 1 then (payload, snd kv) else if field = 2 then (fst kv, payload) else kv))"
  by pat_completeness auto
termination by (relation "measure (length \<circ> fst)") (auto dest: nextProtoField_shorter)

definition decodeMapEntry :: "bytes \<Rightarrow> string \<times> string" where
  "decodeMapEntry b = decodeMapEntry_go b ([], [])"

record errorInfo =
  ei_code :: string
  ei_requestID :: string
  ei_details :: smap

definition zero_errorInfo :: errorInfo where
  "zero_errorInfo = \<lparr>ei_code = [], ei_requestID = [], ei_details = []\<rparr>"

definition errorInfo_field :: "nat \<Rightarrow> bytes \<Rightarrow> errorInfo \<Rightarrow> errorInfo" where
  "errorInfo_field field payload info =
     (if field = 1 then info\<lparr>ei_code := payload\<rparr>
      else if field = 2 then info\<lparr>ei_requestID := payload\<rparr>
      else if field = 3 then
        (case decodeMapEntry payload of (k, v) \<Rightarrow>
           if k \<noteq> [] then info\<lparr>ei_details := AList.update k v (ei_details info)\<rparr> else info)
      else info)"

function decode_fields :: "bytes \<Rightarrow> errorInfo \<Rightarrow> errorInfo res" where
  "decode_fields raw info =
     (if raw = [] then Inr info
      else case nextProtoField raw of
        Inl e \<Rightarrow> Inl e
      | Inr (field, payload, rest) \<Rightarrow> decode_fields rest (errorInfo_field field payload info))"
  by pat_completeness auto
termination by (relation "measure (length \<circ> fst)") (auto dest: nextProtoField_shorter)

declare decodeMapEntry_go.simps [simp del] decode_fields.simps [simp del]

text \<open>The standard alphabet first, the url alphabet as a fallback.\<close>

definition decodeErrorInfo :: "string \<Rightarrow> errorInfo res" where
  "decodeErrorInfo b64 =
     (case (case std_decode b64 of Some raw \<Rightarrow> Some raw | None \<Rightarrow> raw_url_decode False b64) of
        None \<Rightarrow> Inl (ErrOther ''base64'')
      | Some raw \<Rightarrow> decode_fields raw zero_errorInfo)"

text \<open>
  The encoder of the test server, which writes a code and a request id. It writes no details, nor
  does any other code of the SDK: \<open>map_entry\<close> and \<open>encode_details\<close> put them as the message
  definition (\<open>common.proto\<close>) has them, a map field with number 3, and as \<open>errorInfoWire\<close> in
  \<open>client_test.go\<close> does.
\<close>

definition appendField :: "bytes \<Rightarrow> nat \<Rightarrow> string \<Rightarrow> bytes" where
  "appendField dst field value =
     (if value = [] then dst
      else dst @ char_of (push_bit 3 field OR 2) # appendVarint (of_nat (length value)) @ value)"

definition encodeErrorInfo :: "string \<Rightarrow> string \<Rightarrow> bytes" where
  "encodeErrorInfo code requestID = appendField (appendField [] 1 code) 2 requestID"

definition map_entry :: "string \<Rightarrow> string \<Rightarrow> bytes" where
  "map_entry k v = appendField (appendField [] 1 k) 2 v"

definition encode_details :: "smap \<Rightarrow> bytes" where
  "encode_details m = concat (map (\<lambda>(k, v). appendField [] 3 (map_entry k v)) m)"

section \<open>Round trips\<close>

lemma Uvarint_one_byte: "k < 128 \<Longrightarrow> Uvarint (char_of k # r) = (of_nat k, 1)"
  for k :: nat
proof -
  assume k: "k < 128"
  then have "unat (of_nat k :: 64 word) = k" by (simp add: unat_of_nat)
  then have "appendVarint (of_nat k) = [char_of k]"
    using k by (subst appendVarint_small) (simp_all add: byte_of_def word_less_nat_alt)
  with Uvarint_append [of "of_nat k" r] show ?thesis by simp
qed

lemma nextProtoField_append:
  assumes "field \<in> {1, 2, 3}" "length value < 2 ^ 64"
  shows "nextProtoField (char_of (push_bit 3 field OR 2) # appendVarint (of_nat (length value)) @ value @ r)
    = Inr (field, value, r)"
proof -
  let ?k = "push_bit 3 field OR 2 :: nat"
  let ?t = "of_nat ?k :: 64 word"
  have k: "?k < 128 \<and> ?t AND 7 = 2 \<and> unat (drop_bit 3 ?t) = field"
    using assms(1) by (auto simp: drop_bit_eq_div)
  have l: "unat (of_nat (length value) :: 64 word) = length value" using assms by (simp add: unat_of_nat)
  from k show ?thesis
    using Uvarint_append [of "of_nat (length value)" "value @ r"]
    by (simp add: nextProtoField_def Uvarint_one_byte Let_def l)
qed

lemma appendField_dst: "appendField dst f v = dst @ appendField [] f v"
  by (simp add: appendField_def)

lemma encodeErrorInfo_parts: "encodeErrorInfo c r = appendField [] 1 c @ appendField [] 2 r"
  and map_entry_parts: "map_entry k v = appendField [] 1 k @ appendField [] 2 v"
  unfolding encodeErrorInfo_def map_entry_def by (rule appendField_dst)+

lemma appendField_Nil [simp]: "appendField dst f [] = dst"
  by (simp add: appendField_def)

lemma decode_fields_step:
  assumes "f \<in> {1, 2, 3}" "length v < 2 ^ 64" "v \<noteq> []"
  shows "decode_fields (appendField [] f v @ r) info = decode_fields r (errorInfo_field f v info)"
  using nextProtoField_append [OF assms(1,2), of r] assms(3)
  by (subst decode_fields.simps) (simp add: appendField_def)

lemma decode_fields_empty [simp]: "decode_fields [] info = Inr info"
  by (subst decode_fields.simps) simp

lemma map_entry_step:
  assumes "f \<in> {1, 2, 3}" "length v < 2 ^ 64" "v \<noteq> []"
  shows "decodeMapEntry_go (appendField [] f v @ r) kv =
    decodeMapEntry_go r (if f = 1 then (v, snd kv) else if f = 2 then (fst kv, v) else kv)"
  using nextProtoField_append [OF assms(1,2), of r] assms(3)
  by (subst decodeMapEntry_go.simps) (simp add: appendField_def)

lemma map_entry_done [simp]: "decodeMapEntry_go [] kv = kv"
  by (subst decodeMapEntry_go.simps) simp

lemma decodeMapEntry_entry:
  assumes "length k < 2 ^ 64" "length v < 2 ^ 64"
  shows "decodeMapEntry (map_entry k v) = (k, v)"
proof -
  have v: "decodeMapEntry_go (appendField [] 2 v) (k, []) = (k, v)"
    using map_entry_step [of 2 v "[]" "(k, [])"] assms by (cases "v = []") simp_all
  show ?thesis
    using map_entry_step [of 1 k "appendField [] 2 v" "([], [])"] assms v
    by (cases "k = []") (simp_all add: decodeMapEntry_def map_entry_parts)
qed

definition details_ok :: "smap \<Rightarrow> bool" where
  "details_ok m \<longleftrightarrow> wf_map m \<and>
     (\<forall>(k, v) \<in> set m. k \<noteq> [] \<and> length k < 2 ^ 64 \<and> length v < 2 ^ 64 \<and> length (map_entry k v) < 2 ^ 64)"

lemma map_entry_not_Nil: "k \<noteq> [] \<Longrightarrow> map_entry k v \<noteq> []"
  by (simp add: map_entry_def appendField_def)

lemma update_fresh: "k \<notin> fst ` set m \<Longrightarrow> AList.update k v m = m @ [(k, v)]"
  by (induction m) auto

lemma decode_details:
  assumes "details_ok m" "fst ` set m \<inter> fst ` set (ei_details info) = {}"
  shows "decode_fields (encode_details m) info = Inr (info\<lparr>ei_details := ei_details info @ m\<rparr>)"
  using assms
proof (induction m arbitrary: info)
  case Nil
  then show ?case by (simp add: encode_details_def)
next
  case (Cons p m)
  obtain k v where p: "p = (k, v)" by fastforce
  with Cons.prems have kv: "k \<noteq> []" "length k < 2 ^ 64" "length v < 2 ^ 64" "length (map_entry k v) < 2 ^ 64"
    "k \<notin> fst ` set (ei_details info)" and m: "details_ok m" "k \<notin> fst ` set m"
    by (auto simp: details_ok_def wf_map_def)
  let ?i = "info\<lparr>ei_details := ei_details info @ [(k, v)]\<rparr>"
  have f: "errorInfo_field 3 (map_entry k v) info = ?i"
    using kv by (simp add: errorInfo_field_def decodeMapEntry_entry update_fresh)
  have "decode_fields (encode_details (p # m)) info = decode_fields (encode_details m) ?i"
    using decode_fields_step [of 3 "map_entry k v" "encode_details m" info] kv map_entry_not_Nil f p
    by (simp add: encode_details_def)
  also have "\<dots> = Inr (?i\<lparr>ei_details := ei_details ?i @ m\<rparr>)"
    by (rule Cons.IH [OF m(1)]) (use Cons.prems(2) p m in auto)
  finally show ?case using p by simp
qed

text \<open>What an installation writes into the detail is what the client reads.\<close>

lemma decodeErrorInfo_encode:
  assumes "length code < 2 ^ 64" "length rid < 2 ^ 64" "details_ok m"
  shows "decodeErrorInfo (std_encode (encodeErrorInfo code rid @ encode_details m)) =
    Inr \<lparr>ei_code = code, ei_requestID = rid, ei_details = m\<rparr>"
proof -
  let ?i = "\<lparr>ei_code = code, ei_requestID = rid, ei_details = []\<rparr>"
  have "decode_fields (encodeErrorInfo code rid @ r) zero_errorInfo = decode_fields r ?i" for r
  proof -
    have "decode_fields (appendField [] 2 rid @ r) (zero_errorInfo\<lparr>ei_code := code\<rparr>) = decode_fields r ?i"
      using decode_fields_step [of 2 rid r] assms(2)
      by (cases "rid = []") (simp_all add: errorInfo_field_def zero_errorInfo_def)
    moreover have "decode_fields (appendField [] 1 code @ q) zero_errorInfo = decode_fields q (zero_errorInfo\<lparr>ei_code := code\<rparr>)" for q
      using decode_fields_step [of 1 code q] assms(1)
      by (cases "code = []") (simp_all add: errorInfo_field_def zero_errorInfo_def)
    ultimately show ?thesis by (simp add: encodeErrorInfo_parts)
  qed
  with decode_details [OF assms(3), of ?i] show ?thesis by (simp add: decodeErrorInfo_def)
qed

section \<open>The error body\<close>

record wireError =
  we_Code :: string
  we_Error :: string
  we_Message :: string
  we_RequestID :: string
  we_Details :: "json option"

definition zero_wireError :: wireError where
  "zero_wireError = \<lparr>we_Code = [], we_Error = [], we_Message = [], we_RequestID = [], we_Details = None\<rparr>"

definition dec_wireError :: "json \<Rightarrow> wireError \<Rightarrow> wireError option" where
  "dec_wireError = decode_struct
     [(''code'', set_string (\<lambda>v r. r\<lparr>we_Code := v\<rparr>)),
      (''error'', set_string (\<lambda>v r. r\<lparr>we_Error := v\<rparr>)),
      (''message'', set_string (\<lambda>v r. r\<lparr>we_Message := v\<rparr>)),
      (''request_id'', set_string (\<lambda>v r. r\<lparr>we_RequestID := v\<rparr>)),
      (''details'', set_raw (\<lambda>v r. r\<lparr>we_Details := v\<rparr>))]"

record connectDetail =
  cd_Type :: string
  cd_Value :: string

definition dec_connectDetail :: "json \<Rightarrow> connectDetail \<Rightarrow> connectDetail option" where
  "dec_connectDetail = decode_struct
     [(''type'', set_string (\<lambda>v r. r\<lparr>cd_Type := v\<rparr>)),
      (''value'', set_string (\<lambda>v r. r\<lparr>cd_Value := v\<rparr>))]"

definition dec_details :: "json \<Rightarrow> connectDetail list option" where
  "dec_details v = set_list (\<lambda>xs _. xs) \<lparr>cd_Type = [], cd_Value = []\<rparr> dec_connectDetail v []"

fun apply_details :: "connectDetail list \<Rightarrow> APIError \<Rightarrow> APIError" where
  "apply_details [] out = out"
| "apply_details (d # ds) out =
     (if \<not> HasSuffix (cd_Type d) ''ErrorInfo'' then apply_details ds out
      else case decodeErrorInfo (cd_Value d) of
        Inl e \<Rightarrow> apply_details ds out
      | Inr info \<Rightarrow> apply_details ds (out\<lparr>ae_Code := firstNonEmpty [ei_code info, ae_Code out],
          ae_RequestID := firstNonEmpty [ei_requestID info, ae_RequestID out],
          ae_Details := ei_details info\<rparr>))"

definition parseWireError :: "bytes \<Rightarrow> int \<Rightarrow> APIError" where
  "parseWireError raw status =
     (let out = \<lparr>ae_Code = [], ae_Message = [], ae_RequestID = [], ae_Status = status, ae_Details = [], ae_class = []\<rparr>
      in case unmarshal dec_wireError zero_wireError raw of
        None \<Rightarrow> out\<lparr>ae_Message := take 512 (TrimSpace raw)\<rparr>
      | Some w \<Rightarrow>
          let out = out\<lparr>ae_Message := we_Message w, ae_RequestID := we_RequestID w,
                ae_Code := firstNonEmpty [we_Error w, we_Code w], ae_class := we_Code w\<rparr>
          in case we_Details w of
            None \<Rightarrow> out
          | Some v \<Rightarrow>
              (case to_smap v [] of
                 Some m \<Rightarrow> out\<lparr>ae_Details := m\<rparr>
               | None \<Rightarrow> (case dec_details v of None \<Rightarrow> out | Some ds \<Rightarrow> apply_details ds out)))"

text \<open>The body the test server (and Connect) writes for a refusal.\<close>

definition connect_error :: "string \<Rightarrow> string \<Rightarrow> bytes \<Rightarrow> goval" where
  "connect_error cls message detail =
     GMap [(''code'', GStr cls), (''message'', GStr message),
       (''details'', GList [GMap [(''type'', GStr ''anubis.v1.ErrorInfo''), (''value'', GStr (std_encode detail))]])]"

lemma ascii_std_encode [simp]: "ascii (std_encode bs)"
  unfolding ascii_def
  by (auto dest!: std_encode_chars simp: char_sextet_def Let_def less_char_def split: if_splits)

text \<open>
  The two codes of a Connect error stay apart: the stable one is the detail's, the
  transport class the envelope's.
\<close>

lemma parseWireError_connect:
  assumes "ascii cls" "ascii message" "length code < 2 ^ 64" "length rid < 2 ^ 64" "details_ok m"
  shows "parseWireError (marshal (connect_error cls message (encodeErrorInfo code rid @ encode_details m))) status =
    \<lparr>ae_Code = firstNonEmpty [code, cls], ae_Message = message, ae_RequestID = rid, ae_Status = status,
     ae_Details = m, ae_class = cls\<rparr>"
proof -
  let ?d = "encodeErrorInfo code rid @ encode_details m"
  let ?ds = "to_json (GList [GMap [(''type'', GStr ''anubis.v1.ErrorInfo''), (''value'', GStr (std_encode ?d))]])"
  have "ascii_val (connect_error cls message ?d)" using assms(1,2) by (simp add: connect_error_def)
  from parse_marshal [OF this]
  have u: "unmarshal dec_wireError zero_wireError (marshal (connect_error cls message ?d)) =
    dec_wireError (to_json (connect_error cls message ?d)) zero_wireError"
    by (simp only: unmarshal_def Option.bind.simps)
  have w: "dec_wireError (to_json (connect_error cls message ?d)) zero_wireError =
    Some \<lparr>we_Code = cls, we_Error = [], we_Message = message, we_RequestID = [], we_Details = Some ?ds\<rparr>"
    using assms(1,2) by (simp add: connect_error_def dec_wireError_def zero_wireError_def field_for_def set_raw_def)
  have "dec_details ?ds = Some [\<lparr>cd_Type = ''anubis.v1.ErrorInfo'', cd_Value = std_encode ?d\<rparr>]"
    by (simp add: dec_details_def dec_connectDetail_def field_for_def)
  then show ?thesis
    using decodeErrorInfo_encode [OF assms(3-5)]
    by (simp add: parseWireError_def u w Let_def firstNonEmpty_def HasSuffix_def HasPrefix_def)
qed

end
