(* ===== verification/Url.thy ===== *)
theory Url
  imports Http "HOL-Library.Multiset"
begin

text \<open>
  \<open>url.Values\<close> as the SDK uses it: a map from names to lists of values, written with
  \<open>Encode\<close> (names sorted, both halves percent-encoded, a space as a plus) and read with
  \<open>ParseQuery\<close>. A value written and read back is unchanged, whatever bytes it holds.
\<close>

type_synonym url_values = "(string \<times> string list) list"

definition values_Set :: "url_values \<Rightarrow> string \<Rightarrow> string \<Rightarrow> url_values" where
  "values_Set q k v = AList.update k [v] q"

definition values_Get :: "url_values \<Rightarrow> string \<Rightarrow> string" where
  "values_Get q k = (case map_of q k of Some (v # _) \<Rightarrow> v | _ \<Rightarrow> [])"

definition values_Add :: "url_values \<Rightarrow> string \<Rightarrow> string \<Rightarrow> url_values" where
  "values_Add q k v = AList.update k ((case map_of q k of Some vs \<Rightarrow> vs | None \<Rightarrow> []) @ [v]) q"

definition unreserved :: "char \<Rightarrow> bool" where
  "unreserved c \<longleftrightarrow> (CHR ''a'' \<le> c \<and> c \<le> CHR ''z'') \<or> (CHR ''A'' \<le> c \<and> c \<le> CHR ''Z'') \<or> isDigit c \<or>
     c \<in> {CHR ''-'', CHR ''_'', CHR ''.'', CHR ''~''}"

definition upper_hex :: "nat \<Rightarrow> char" where
  "upper_hex n = (if n < 10 then char_of (48 + n) else char_of (55 + n))"

definition escape_byte :: "char \<Rightarrow> string" where
  "escape_byte c =
     (if unreserved c then [c]
      else if c = CHR '' '' then ''+''
      else [CHR ''%'', upper_hex (of_char c div 16), upper_hex (of_char c mod 16)])"

definition QueryEscape :: "string \<Rightarrow> string" where
  "QueryEscape s = concat (map escape_byte s)"

fun QueryUnescape :: "string \<Rightarrow> string option" where
  "QueryUnescape [] = Some []"
| "QueryUnescape (c # r) =
     (if c = CHR ''%'' then
        (case r of
           a # b # r' \<Rightarrow>
             (case (hex_val a, hex_val b) of
                (Some h, Some l) \<Rightarrow> map_option ((#) (char_of (h * 16 + l))) (QueryUnescape r')
              | _ \<Rightarrow> None)
         | _ \<Rightarrow> None)
      else map_option ((#) (if c = CHR ''+'' then CHR '' '' else c)) (QueryUnescape r))"

text \<open>\<open>Encode\<close>: one \<open>name=value\<close> per value, joined by ampersands.\<close>

definition encode_pairs :: "(string \<times> string) list \<Rightarrow> string" where
  "encode_pairs ps = Join ''&'' (map (\<lambda>(k, v). QueryEscape k @ ''='' @ QueryEscape v) ps)"

definition values_Encode :: "url_values \<Rightarrow> string" where
  "values_Encode q = encode_pairs (concat (map (\<lambda>(k, vs). map (Pair k) vs) (sort_key fst q)))"

text \<open>
  \<open>ParseQuery\<close>, as \<open>URL.Query\<close> uses it: a pair that does not decode, or holds a semicolon,
  is dropped and the rest is kept; empty pairs are skipped.
\<close>

definition query_pair :: "string \<Rightarrow> (string \<times> string) option" where
  "query_pair s =
     (if CHR '';'' \<in> set s \<or> s = [] then None
      else let (k, v) = (case break_at (CHR ''='') s of Some kv \<Rightarrow> kv | None \<Rightarrow> (s, [])) in
        case QueryUnescape k of
          None \<Rightarrow> None
        | Some k' \<Rightarrow> map_option (Pair k') (QueryUnescape v))"

definition query_pairs :: "string \<Rightarrow> (string \<times> string) list" where
  "query_pairs s = List.map_filter query_pair (Split (CHR ''&'') s)"

definition ParseQuery :: "string \<Rightarrow> url_values" where
  "ParseQuery s = fold (\<lambda>(k, v) q. values_Add q k v) (query_pairs s) []"

section \<open>Round trip\<close>

lemma hex_val_upper: "n < 16 \<Longrightarrow> hex_val (upper_hex n) = Some n"
  by (auto simp: hex_val_def upper_hex_def Let_def)

lemma unreserved_plain: "unreserved c \<Longrightarrow> c \<noteq> CHR ''%'' \<and> c \<noteq> CHR ''+'' \<and> c \<noteq> CHR ''&'' \<and> c \<noteq> CHR ''='' \<and> c \<noteq> CHR '';''"
  by (auto simp: unreserved_def isDigit_def less_eq_char_def)

lemma high_nibble: "(of_char c :: nat) div 16 < 16"
proof -
  have "(of_char c :: nat) < 16 * 16" using nat_of_char_less_256 [of c] by simp
  then show ?thesis by (simp only: less_mult_imp_div_less)
qed

lemma unescape_byte: "QueryUnescape (escape_byte c @ r) = map_option ((#) c) (QueryUnescape r)"
proof -
  from high_nibble [of c] show ?thesis
    using unreserved_plain [of c]
    by (auto simp: escape_byte_def hex_val_upper)
qed

lemma QueryUnescape_escape [simp, codec_simps]: "QueryUnescape (QueryEscape s) = Some s"
  by (induction s) (simp_all add: QueryEscape_def unescape_byte)

lemma upper_hex_plain: "n < 16 \<Longrightarrow> upper_hex n \<notin> {CHR ''&'', CHR ''='', CHR '';'', CHR ''%''}"
  using hex_val_upper [of n] by (auto simp: hex_val_def Let_def)

lemma QueryEscape_chars: "c \<in> set (QueryEscape s) \<Longrightarrow> c \<notin> {CHR ''&'', CHR ''='', CHR '';''}"
proof -
  assume "c \<in> set (QueryEscape s)"
  then obtain d where d: "c \<in> set (escape_byte d)" by (auto simp: QueryEscape_def)
  with high_nibble [of d] upper_hex_plain [of "of_char d div 16"] upper_hex_plain [of "of_char d mod 16"] unreserved_plain [of c]
  show ?thesis by (auto simp: escape_byte_def split: if_splits)
qed

lemma query_pair_encode: "query_pair (QueryEscape k @ ''='' @ QueryEscape v) = Some (k, v)"
proof -
  have "CHR '';'' \<notin> set (QueryEscape k)" "CHR '';'' \<notin> set (QueryEscape v)" "CHR ''='' \<notin> set (QueryEscape k)"
    using QueryEscape_chars by blast+
  then show ?thesis by (simp add: query_pair_def)
qed

lemma query_pairs_encode: "query_pairs (encode_pairs ps) = ps"
proof (cases "ps = []")
  case False
  let ?f = "\<lambda>(k, v). QueryEscape k @ ''='' @ QueryEscape v"
  have "Split (CHR ''&'') (Join ''&'' (map ?f ps)) = map ?f ps"
    by (rule Split_Join) (use False QueryEscape_chars in fastforce)+
  moreover have "List.map_filter query_pair (map ?f ps) = ps" for ps
    by (induction ps) (auto simp: query_pair_encode [simplified] List.map_filter_simps)
  ultimately show ?thesis by (simp add: query_pairs_def encode_pairs_def)
qed (simp add: query_pairs_def encode_pairs_def query_pair_def List.map_filter_simps)

text \<open>A map with one value per name is recovered.\<close>

lemma fold_Add: "distinct (map fst ps) \<Longrightarrow> k \<notin> fst ` set ps \<Longrightarrow>
    map_of (fold (\<lambda>(k, v) q. values_Add q k v) ps q) k = map_of q k"
  by (induction ps arbitrary: q) (auto simp: values_Add_def update_conv')

lemma fold_Add_in:
  assumes "distinct (map fst ps)" "(k, v) \<in> set ps" "map_of q k = None"
  shows "map_of (fold (\<lambda>(k, v) q. values_Add q k v) ps q) k = Some [v]"
  using assms
proof (induction ps arbitrary: q)
  case (Cons p ps)
  obtain k' v' where p: "p = (k', v')" by fastforce
  show ?case
  proof (cases "k' = k")
    case True
    with Cons.prems p have "v' = v" "k \<notin> fst ` set ps" by (auto simp: image_iff)
    with True p Cons.prems show ?thesis using fold_Add [of ps k] by (simp add: values_Add_def update_conv')
  next
    case False
    with Cons p show ?thesis by (simp add: values_Add_def update_conv')
  qed
qed simp

definition single :: "url_values \<Rightarrow> bool" where
  "single q \<longleftrightarrow> wf_map q \<and> (\<forall>(k, vs) \<in> set q. \<exists>v. vs = [v])"

lemma concat_singles: "(\<forall>(k, vs) \<in> set q. \<exists>v. vs = [v]) \<Longrightarrow>
    concat (map (\<lambda>(k, vs). map (Pair k) vs) q) = map (\<lambda>(k, vs). (k, hd vs)) q"
  by (induction q) auto

lemma values_roundtrip:
  assumes "single q"
  shows "same_map (ParseQuery (values_Encode q)) q"
proof -
  let ?s = "sort_key fst q"
  let ?ps = "map (\<lambda>(k, vs). (k, hd vs)) ?s"
  have d: "distinct (map fst ?ps)"
  proof -
    have "mset (map fst ?s) = mset (map fst q)" by simp
    then have "distinct (map fst ?s)" using assms by (metis single_def wf_map_def mset_eq_imp_distinct_iff)
    then show ?thesis by (simp add: comp_def case_prod_unfold)
  qed
  have P: "ParseQuery (values_Encode q) = fold (\<lambda>(k, v) q. values_Add q k v) ?ps []"
    using concat_singles [of ?s] assms by (simp add: ParseQuery_def values_Encode_def query_pairs_encode single_def)
  have "map_of (ParseQuery (values_Encode q)) k = map_of q k" for k
  proof (cases "map_of q k")
    case None
    then have "k \<notin> fst ` set ?ps" by (auto simp: map_of_eq_None_iff image_iff)
    from fold_Add [OF d this, of "[]"] None P show ?thesis by simp
  next
    case (Some vs)
    then have "(k, vs) \<in> set q" by (rule map_of_SomeD)
    with assms obtain v where v: "vs = [v]" "(k, [v]) \<in> set q" by (auto simp: single_def)
    then have "(k, v) \<in> set ?ps" by (auto simp: image_iff intro!: bexI [of _ "(k, [v])"])
    from fold_Add_in [OF d this, of "[]"] Some v P show ?thesis by simp
  qed
  then show ?thesis by (auto simp: same_map_def)
qed

lemma single_update [simp]: "single q \<Longrightarrow> single (AList.update k [v] q)"
proof -
  have u: "set (AList.update k [v] q) \<subseteq> insert (k, [v]) (set q)" by (induction q) auto
  assume "single q"
  then have q: "wf_map q" "\<forall>(k, vs) \<in> set q. \<exists>v. vs = [v]" by (auto simp: single_def)
  have "\<forall>(k, vs) \<in> insert (k, [v]) (set q). \<exists>v. vs = [v]" using q(2) by auto
  with u have "\<forall>(k, vs) \<in> set (AList.update k [v] q). \<exists>v. vs = [v]" by (meson subset_iff)
  with q(1) show ?thesis by (simp only: single_def wf_map_update)
qed

end
