(* ===== verification/Client.thy ===== *)
theory Client
  imports Verifier Decision_Cache Wire_Error Url
begin

text \<open>
  The client (\<open>options.go\<close>, \<open>client.go\<close>, \<open>rpcNoAuth\<close> and \<open>stamp\<close> of \<open>login.go\<close>): how it is
  configured, how a call is sent, and how its answer becomes a value or an error.

  The state of the world is \<open>'w\<close>; \<open>platform\<close> collects what the SDK takes from the Go
  runtime (the clock, randomness, parsers of URLs, dates and durations, SHA-256, the default
  transport). A clock reading is a function of the world, so time passes when the world
  changes, in a call.

  The lemmas: only \<open>WithAPIKey\<close> or the verified principal put a credential on a request, and
  which one; a redirect never moves it; an answer is a value only for status 200.
\<close>

section \<open>The platform\<close>

record 'w platform =
  pf_now :: "'w \<Rightarrow> gotime"
  pf_rand32 :: "'w \<Rightarrow> 'w \<times> bytes option"
  pf_transport :: "duration \<Rightarrow> 'w net"
  pf_url_parse :: "string \<Rightarrow> gourl option"
  pf_until_http_date :: "string \<Rightarrow> duration option"
  pf_parse_duration :: "string \<Rightarrow> duration option"
  pf_sha256 :: "bytes \<Rightarrow> bytes"
  pf_time_format :: "gotime \<Rightarrow> string option"
  pf_time_parse :: "string \<Rightarrow> gotime option"

text \<open>An \<open>http.Client\<close>: its timeout, its transport, and whether it refuses redirects.\<close>

record 'w http_client =
  hc_Timeout :: duration
  hc_transport :: "duration \<Rightarrow> 'w net"
  hc_refuse :: bool

section \<open>Requests the application receives\<close>

record server_request =
  sr_Method :: string
  sr_Header :: smap
  sr_Cookies :: smap
  sr_RawQuery :: string
  sr_PostForm :: "url_values option"

record cookie =
  ck_Name :: string
  ck_Value :: string
  ck_Path :: string
  ck_MaxAge :: int
  ck_HttpOnly :: bool
  ck_Secure :: bool
  ck_SameSite :: string

text \<open>What a handler has written so far of the response's cookies.\<close>

type_synonym jar = "cookie list"

record Pending =
  pe_State :: string
  pe_Verifier :: string
  pe_RedirectURI :: string
  pe_Created :: gotime

record 'w LoginStore =
  ls_Put :: "'w \<Rightarrow> jar \<Rightarrow> Pending \<Rightarrow> ('w \<times> jar) \<times> goerr option"
  ls_Take :: "'w \<Rightarrow> jar \<Rightarrow> server_request \<Rightarrow> ('w \<times> jar) \<times> Pending res"

section \<open>Options\<close>

abbreviation (input) DefaultTimeout :: duration where "DefaultTimeout \<equiv> 10 * second"

record 'w options =
  o_httpClient :: "'w http_client option"
  o_timeout :: duration
  o_clientID :: string
  o_clientSecret :: string
  o_apiKey :: string
  o_tenant :: string
  o_loginStore :: "'w LoginStore option"
  o_cache :: "decisionCache option"
  o_headers :: smap
  o_now :: "'w \<Rightarrow> gotime"

type_synonym 'w option_fn = "'w options \<Rightarrow> 'w options \<times> goerr option"

definition WithApplication :: "string \<Rightarrow> string \<Rightarrow> 'w option_fn" where
  "WithApplication clientID clientSecret o0 =
     (if clientID = [] then (o0, Some (ErrText ''anubis: WithApplication needs a client id (the application slug)''))
      else (o0\<lparr>o_clientID := clientID, o_clientSecret := clientSecret\<rparr>, None))"

definition WithAPIKey :: "string \<Rightarrow> 'w option_fn" where
  "WithAPIKey key o0 =
     (if \<not> HasPrefix key ''anb_live_'' then (o0, Some (ErrText ''anubis: an api key looks like \"anb_live_<prefix>_<secret>\"''))
      else (o0\<lparr>o_apiKey := key\<rparr>, None))"

definition WithTenant :: "string \<Rightarrow> 'w option_fn" where
  "WithTenant slug o0 = (o0\<lparr>o_tenant := slug\<rparr>, None)"

definition WithHTTPClient :: "'w http_client option \<Rightarrow> 'w option_fn" where
  "WithHTTPClient c o0 =
     (if c = None then (o0, Some (ErrText ''anubis: WithHTTPClient needs a client''))
      else (o0\<lparr>o_httpClient := c\<rparr>, None))"

definition WithTimeout :: "duration \<Rightarrow> 'w option_fn" where
  "WithTimeout d o0 = (o0\<lparr>o_timeout := d\<rparr>, None)"

definition WithLoginStore :: "'w LoginStore option \<Rightarrow> 'w option_fn" where
  "WithLoginStore s o0 =
     (if s = None then (o0, Some (ErrText ''anubis: WithLoginStore needs a store''))
      else (o0\<lparr>o_loginStore := s\<rparr>, None))"

definition WithDecisionCache :: "CacheConfig \<Rightarrow> 'w option_fn" where
  "WithDecisionCache cfg o0 =
     (if cc_TTL cfg \<le> 0 then (o0, Some (ErrText ''anubis: WithDecisionCache needs a positive TTL''))
      else let cfg = (if cc_MaxSize cfg \<le> 0 then cfg\<lparr>cc_MaxSize := 10000\<rparr> else cfg)
           in (o0\<lparr>o_cache := Some (newDecisionCache cfg)\<rparr>, None))"

definition WithHeader :: "string \<Rightarrow> string \<Rightarrow> 'w option_fn" where
  "WithHeader name value o0 =
     (if EqualFold name ''Authorization''
      then (o0, Some (ErrText ''anubis: set the credential with WithAPIKey, not with WithHeader''))
      else (o0\<lparr>o_headers := AList.update name value (o_headers o0)\<rparr>, None))"

fun apply_options :: "'w option_fn list \<Rightarrow> 'w options \<Rightarrow> 'w options res" where
  "apply_options [] o0 = Inr o0"
| "apply_options (f # fs) o0 =
     (case f o0 of (o1, Some e) \<Rightarrow> Inl e | (o1, None) \<Rightarrow> apply_options fs o1)"

definition default_options :: "'w platform \<Rightarrow> 'w options" where
  "default_options pf =
     \<lparr>o_httpClient = None, o_timeout = DefaultTimeout, o_clientID = [], o_clientSecret = [], o_apiKey = [],
      o_tenant = [], o_loginStore = None, o_cache = None, o_headers = [], o_now = pf_now pf\<rparr>"

text \<open>\<open>cookies\<close> is the default login store; see theory \<open>Login\<close>.\<close>

definition newOptions :: "'w platform \<Rightarrow> 'w LoginStore \<Rightarrow> 'w option_fn list \<Rightarrow> 'w options res" where
  "newOptions pf cookies opts =
     (case apply_options opts (default_options pf) of
        Inl e \<Rightarrow> Inl e
      | Inr o0 \<Rightarrow>
          if o_apiKey o0 \<noteq> [] \<and> o_clientSecret o0 \<noteq> []
          then Inl (ErrText (''anubis: WithAPIKey and a client secret are different callers '' @ dash @ '' configure one client for each''))
          else
            let hc = (case o_httpClient o0 of
                  Some c \<Rightarrow> c
                | None \<Rightarrow> \<lparr>hc_Timeout = o_timeout o0, hc_transport = pf_transport pf, hc_refuse = False\<rparr>);
                o1 = o0\<lparr>o_httpClient := Some (hc\<lparr>hc_refuse := True\<rparr>)\<rparr>
            in Inr (if o_loginStore o1 = None then o1\<lparr>o_loginStore := Some cookies\<rparr> else o1))"

section \<open>The client\<close>

text \<open>The procedures and pages of the installation.\<close>

abbreviation (input) procLogin :: string where "procLogin \<equiv> ''/anubis.v1.AuthService/Login''"
abbreviation (input) procVerifyMfa :: string where "procVerifyMfa \<equiv> ''/anubis.v1.AuthService/VerifyMfa''"
abbreviation (input) procRefresh :: string where "procRefresh \<equiv> ''/anubis.v1.AuthService/Refresh''"
abbreviation (input) procLogout :: string where "procLogout \<equiv> ''/anubis.v1.AuthService/Logout''"
abbreviation (input) procLogoutAll :: string where "procLogoutAll \<equiv> ''/anubis.v1.AuthService/LogoutAll''"
abbreviation (input) procLogoutSession :: string where "procLogoutSession \<equiv> ''/anubis.v1.AuthService/LogoutSession''"
abbreviation (input) procClientCredentials :: string where "procClientCredentials \<equiv> ''/anubis.v1.AuthService/ClientCredentials''"
abbreviation (input) procAuthorize :: string where "procAuthorize \<equiv> ''/anubis.v1.AuthzService/Authorize''"
abbreviation (input) procExplain :: string where "procExplain \<equiv> ''/anubis.v1.AuthzService/Explain''"
abbreviation (input) procSwitchScope :: string where "procSwitchScope \<equiv> ''/anubis.v1.AuthzService/SwitchScope''"
abbreviation (input) procListGrantedNodes :: string where "procListGrantedNodes \<equiv> ''/anubis.v1.AuthzService/ListGrantedNodes''"
abbreviation (input) procShare :: string where "procShare \<equiv> ''/anubis.v1.ShareService/Share''"
abbreviation (input) procUnshare :: string where "procUnshare \<equiv> ''/anubis.v1.ShareService/Unshare''"
abbreviation (input) procListSharesOnRecord :: string where "procListSharesOnRecord \<equiv> ''/anubis.v1.ShareService/ListSharesOnRecord''"
abbreviation (input) procListSharedWithMe :: string where "procListSharedWithMe \<equiv> ''/anubis.v1.ShareService/ListSharedWithMe''"
abbreviation (input) procCreateAccessLink :: string where "procCreateAccessLink \<equiv> ''/anubis.v1.ShareService/CreateAccessLink''"
abbreviation (input) procOpenAccessLink :: string where "procOpenAccessLink \<equiv> ''/anubis.v1.AuthService/OpenAccessLink''"
abbreviation (input) procIntrospect :: string where "procIntrospect \<equiv> ''/anubis.v1.TokenService/Introspect''"
abbreviation (input) procStreamRevocations :: string where "procStreamRevocations \<equiv> ''/anubis.v1.TokenService/StreamRevocations''"
abbreviation (input) procGetMe :: string where "procGetMe \<equiv> ''/anubis.v1.SessionService/GetMe''"
abbreviation (input) procListSessions :: string where "procListSessions \<equiv> ''/anubis.v1.SessionService/ListSessions''"
abbreviation (input) procRevokeSession :: string where "procRevokeSession \<equiv> ''/anubis.v1.SessionService/RevokeSession''"
abbreviation (input) pathToken :: string where "pathToken \<equiv> ''/v1/token''"
abbreviation (input) pathLogout :: string where "pathLogout \<equiv> ''/v1/logout''"

record 'w Client =
  c_baseURL :: string
  c_opts :: "'w options"

definition New :: "'w platform \<Rightarrow> 'w LoginStore \<Rightarrow> string \<Rightarrow> 'w option_fn list \<Rightarrow> 'w Client res" where
  "New pf cookies baseURL opts =
     (case pf_url_parse pf baseURL of
        None \<Rightarrow> Inl (ErrText ''anubis: base url must be an absolute origin'')
      | Some u \<Rightarrow>
          if u_Scheme u = [] \<or> u_Host u = [] then Inl (ErrText ''anubis: base url must be an absolute origin'')
          else if u_Scheme u \<noteq> ''https'' \<and> u_Hostname u \<noteq> ''localhost'' \<and> u_Hostname u \<noteq> ''127.0.0.1''
            then Inl (ErrText ''anubis: base url must be https'')
          else (case newOptions pf cookies opts of
                  Inl e \<Rightarrow> Inl e
                | Inr o0 \<Rightarrow> Inr \<lparr>c_baseURL = TrimRight1 (CHR ''/'') baseURL, c_opts = o0\<rparr>))"

definition client_now :: "'w Client \<Rightarrow> 'w \<Rightarrow> gotime" where
  "client_now c w = o_now (c_opts c) w"

text \<open>
  \<open>http.Client.Do\<close>. A redirect answer with a Location asks \<open>CheckRedirect\<close>, and
  \<open>refuseRedirect\<close> makes it an error; a client that follows redirects does so inside its
  transport.
\<close>

definition http_Do :: "'w http_client \<Rightarrow> 'w net" where
  "http_Do hc w rq =
     (case hc_transport hc (hc_Timeout hc) w rq of
        (w', Inl e) \<Rightarrow> (w', Inl e)
      | (w', Inr rs) \<Rightarrow>
          (w', if hc_refuse hc \<and> rs_status rs \<in> {301, 302, 303, 307, 308} \<and> header_Get (rs_header rs) ''Location'' \<noteq> []
               then Inl (ErrText ''anubis: the server redirected; refusing to follow it with a credential attached'')
               else Inr rs))"

abbreviation (input) maxResponseBytes :: nat where "maxResponseBytes \<equiv> 4194304"

definition set_headers :: "smap \<Rightarrow> string \<Rightarrow> http_request \<Rightarrow> http_request" where
  "set_headers extra tenant rq =
     (let h = fold (\<lambda>(name, value) h. header_Set h name value) extra (rq_header rq)
      in rq\<lparr>rq_header := (if tenant \<noteq> [] then header_Set h ''X-Anubis-Tenant'' tenant else h)\<rparr>)"

text \<open>The client a constructed one holds; without one the call would be a nil dereference.\<close>

definition client_http :: "'w Client \<Rightarrow> 'w net" where
  "client_http c w rq =
     (case o_httpClient (c_opts c) of None \<Rightarrow> (w, Inl (ErrOther ''nil http client'')) | Some hc \<Rightarrow> http_Do hc w rq)"

definition client_send :: "'w platform \<Rightarrow> 'w Client \<Rightarrow> 'w \<Rightarrow> http_request \<Rightarrow> 'w \<times> bytes res" where
  "client_send pf c w rq =
     (case client_http c w (set_headers (o_headers (c_opts c)) (o_tenant (c_opts c)) rq) of
        (w', Inl e) \<Rightarrow> (w', Inl (ErrUnavailable e))
      | (w', Inr rs) \<Rightarrow>
          (w', case read_limited maxResponseBytes rs of
                 Inl e \<Rightarrow> Inl (ErrUnavailable (ErrWrap ''anubis: reading response: '' e))
               | Inr raw \<Rightarrow>
                   if rs_status rs \<noteq> 200
                   then Inl (classify (pf_until_http_date pf) (parseWireError raw (rs_status rs))
                               (header_Get (rs_header rs) ''Retry-After''))
                   else Inr raw))"

text \<open>The last step of \<open>do\<close>: a nil \<open>out\<close> ignores the body, another decodes it.\<close>

definition decode_out :: "(json \<Rightarrow> 'r \<Rightarrow> 'r option) \<Rightarrow> 'r \<Rightarrow> bytes res \<Rightarrow> 'r res" where
  "decode_out dec zero body =
     (case body of
        Inl e \<Rightarrow> Inl e
      | Inr raw \<Rightarrow> (case unmarshal dec zero raw of
           None \<Rightarrow> Inl (ErrText ''anubis: decoding response'') | Some x \<Rightarrow> Inr x))"

definition client_do ::
  "'w platform \<Rightarrow> 'w Client \<Rightarrow> 'w \<Rightarrow> http_request \<Rightarrow> (json \<Rightarrow> 'r \<Rightarrow> 'r option) option \<Rightarrow> 'r \<Rightarrow> 'w \<times> 'r res" where
  "client_do pf c w rq out zero =
     (case client_send pf c w rq of
        (w', body) \<Rightarrow>
          (w', case out of
                 None \<Rightarrow> (case body of Inl e \<Rightarrow> Inl e | Inr _ \<Rightarrow> Inr zero)
               | Some dec \<Rightarrow> decode_out dec zero body))"

definition attachCredential :: "'w Client \<Rightarrow> Ctx \<Rightarrow> http_request \<Rightarrow> http_request res" where
  "attachCredential c ctx rq =
     (if o_apiKey (c_opts c) \<noteq> []
      then Inr (rq\<lparr>rq_header := header_Set (rq_header rq) ''Authorization'' (''Bearer '' @ o_apiKey (c_opts c))\<rparr>)
      else (case FromContext ctx of
              Some p \<Rightarrow> if p_Token p \<noteq> []
                then Inr (rq\<lparr>rq_header := header_Set (rq_header rq) ''Authorization'' (''Bearer '' @ p_Token p)\<rparr>)
                else Inl ErrNoCredential
            | None \<Rightarrow> Inl ErrNoCredential))"

text \<open>\<open>http.NewRequestWithContext\<close> fails when the URL does not parse.\<close>

definition NewRequest :: "'w platform \<Rightarrow> string \<Rightarrow> string \<Rightarrow> bytes \<Rightarrow> string \<Rightarrow> http_request res" where
  "NewRequest pf mthd url body ctype =
     (case pf_url_parse pf url of
        None \<Rightarrow> Inl (ErrOther ''url'')
      | Some _ \<Rightarrow> Inr \<lparr>rq_method = mthd, rq_url = url, rq_header = [(''Content-Type'', ctype)], rq_body = body\<rparr>)"

definition rpc ::
  "'w platform \<Rightarrow> 'w Client \<Rightarrow> 'w \<Rightarrow> Ctx \<Rightarrow> string \<Rightarrow> goval \<Rightarrow> (json \<Rightarrow> 'r \<Rightarrow> 'r option) option \<Rightarrow> 'r \<Rightarrow> 'w \<times> 'r res" where
  "rpc pf c w ctx procedure body out zero =
     (case NewRequest pf ''POST'' (c_baseURL c @ procedure) (marshal body) ''application/json'' of
        Inl e \<Rightarrow> (w, Inl e)
      | Inr rq \<Rightarrow> (case attachCredential c ctx rq of
          Inl e \<Rightarrow> (w, Inl e)
        | Inr rq \<Rightarrow> client_do pf c w rq out zero))"

definition rpcNoAuth ::
  "'w platform \<Rightarrow> 'w Client \<Rightarrow> 'w \<Rightarrow> string \<Rightarrow> goval \<Rightarrow> (json \<Rightarrow> 'r \<Rightarrow> 'r option) option \<Rightarrow> 'r \<Rightarrow> 'w \<times> 'r res" where
  "rpcNoAuth pf c w procedure body out zero =
     (case NewRequest pf ''POST'' (c_baseURL c @ procedure) (marshal body) ''application/json'' of
        Inl e \<Rightarrow> (w, Inl e)
      | Inr rq \<Rightarrow> client_do pf c w rq out zero)"

definition form ::
  "'w platform \<Rightarrow> 'w Client \<Rightarrow> 'w \<Rightarrow> string \<Rightarrow> url_values \<Rightarrow> (json \<Rightarrow> 'r \<Rightarrow> 'r option) option \<Rightarrow> 'r \<Rightarrow> 'w \<times> 'r res" where
  "form pf c w path q out zero =
     (case NewRequest pf ''POST'' (c_baseURL c @ path) (values_Encode q) ''application/x-www-form-urlencoded'' of
        Inl e \<Rightarrow> (w, Inl e)
      | Inr rq \<Rightarrow> client_do pf c w rq out zero)"

definition Call ::
  "'w platform \<Rightarrow> 'w Client \<Rightarrow> 'w \<Rightarrow> Ctx \<Rightarrow> string \<Rightarrow> goval \<Rightarrow> (json \<Rightarrow> 'r \<Rightarrow> 'r option) option \<Rightarrow> 'r \<Rightarrow> 'w \<times> 'r res" where
  "Call pf c w ctx procedure body out zero =
     (if \<not> HasPrefix procedure ''/'' then (w, Inl (ErrText ''anubis: procedure must start with a slash''))
      else rpc pf c w ctx procedure body out zero)"

definition stamp :: "'w Client \<Rightarrow> 'w \<Rightarrow> Tokens \<Rightarrow> Tokens" where
  "stamp c w t = t\<lparr>tk_IssuedAt := client_now c w\<rparr>"

section \<open>What configuration guarantees\<close>

definition wf_options :: "'w options \<Rightarrow> bool" where
  "wf_options o0 \<longleftrightarrow>
     (\<forall>(name, v) \<in> set (o_headers o0). \<not> EqualFold name ''Authorization'') \<and>
     (\<forall>dc. o_cache o0 = Some dc \<longrightarrow> wf_dcache dc \<and> 0 < dc_ttl dc) \<and>
     (o_apiKey o0 = [] \<or> HasPrefix (o_apiKey o0) ''anb_live_'')"

text \<open>The options of the SDK, as opposed to functions a caller could write itself.\<close>

inductive sdk_option :: "'w option_fn \<Rightarrow> bool" where
  "sdk_option (WithApplication i s)"
| "sdk_option (WithAPIKey k)"
| "sdk_option (WithTenant t)"
| "sdk_option (WithHTTPClient hc)"
| "sdk_option (WithTimeout d)"
| "sdk_option (WithLoginStore ls)"
| "sdk_option (WithDecisionCache cfg)"
| "sdk_option (WithHeader n v)"

lemma WithHeader_wf: "wf_options o0 \<Longrightarrow> WithHeader n v o0 = (o1, None) \<Longrightarrow> wf_options o1"
  using set_update_subset [of n v "o_headers o0"]
  by (auto simp: wf_options_def WithHeader_def split: if_splits)

lemma sdk_option_wf:
  assumes "sdk_option f" "wf_options o0" "f o0 = (o1, None)"
  shows "wf_options o1"
  using assms(1)
proof cases
  case (8 n v)
  with assms WithHeader_wf show ?thesis by blast
qed (use assms in \<open>auto simp: wf_options_def WithApplication_def WithAPIKey_def WithTenant_def WithHTTPClient_def
      WithTimeout_def WithLoginStore_def WithDecisionCache_def Let_def newDecisionCache_def wf_dcache_def
      split: if_splits\<close>)

lemma apply_options_wf:
  "wf_options o0 \<Longrightarrow> \<forall>f \<in> set fs. sdk_option f \<Longrightarrow> apply_options fs o0 = Inr o1 \<Longrightarrow> wf_options o1"
  by (induction fs o0 rule: apply_options.induct) (auto split: prod.splits option.splits intro: sdk_option_wf)

definition wf_client :: "'w Client \<Rightarrow> bool" where
  "wf_client c \<longleftrightarrow> wf_options (c_opts c) \<and> (o_apiKey (c_opts c) = [] \<or> o_clientSecret (c_opts c) = []) \<and>
     (\<exists>hc. o_httpClient (c_opts c) = Some hc \<and> hc_refuse hc) \<and> o_loginStore (c_opts c) \<noteq> None"

lemma wf_options_update [simp]:
  "wf_options (o0\<lparr>o_httpClient := hc\<rparr>) = wf_options o0" "wf_options (o0\<lparr>o_loginStore := ls\<rparr>) = wf_options o0"
  by (simp_all add: wf_options_def)

lemma newOptions_wf:
  assumes "newOptions pf cookies opts = Inr o0" "\<forall>f \<in> set opts. sdk_option f"
  shows "wf_options o0 \<and> (o_apiKey o0 = [] \<or> o_clientSecret o0 = []) \<and>
    (\<exists>hc. o_httpClient o0 = Some hc \<and> hc_refuse hc) \<and> o_loginStore o0 \<noteq> None"
proof (cases "apply_options opts (default_options pf)")
  case (Inr o1)
  have "wf_options (default_options pf)" by (simp add: wf_options_def default_options_def)
  from apply_options_wf [OF this assms(2) Inr] have "wf_options o1" .
  with assms(1) Inr show ?thesis by (auto simp: newOptions_def Let_def split: if_splits)
qed (use assms in \<open>simp add: newOptions_def\<close>)

lemma New_wf:
  assumes "New pf cookies baseURL opts = Inr c" "\<forall>f \<in> set opts. sdk_option f"
  shows "wf_client c"
proof -
  from assms(1) have "newOptions pf cookies opts = Inr (c_opts c)"
    by (auto simp: New_def split: option.splits if_splits sum.splits)
  from newOptions_wf [OF this assms(2)] show ?thesis by (auto simp: wf_client_def)
qed

section \<open>Credentials on the wire\<close>

text \<open>The Authorization header is the one \<open>attachCredential\<close> wrote, or none.\<close>

lemma fold_headers_Get:
  "\<forall>(name, v) \<in> set extra. \<not> EqualFold name n \<Longrightarrow>
   header_Get (fold (\<lambda>(name, value) h. header_Set h name value) extra h) n = header_Get h n"
  by (induction extra arbitrary: h) (auto simp: header_Get_Set_other)

lemma EqualFold_tenant: "\<not> EqualFold ''X-Anubis-Tenant'' ''Authorization''"
  by (simp add: EqualFold_def)

lemma set_headers_auth:
  assumes "wf_options o0"
  shows "header_Get (rq_header (set_headers (o_headers o0) tenant rq)) ''Authorization'' =
    header_Get (rq_header rq) ''Authorization''"
  using assms fold_headers_Get [of "o_headers o0" "''Authorization''" "rq_header rq"]
  by (auto simp: set_headers_def Let_def wf_options_def header_Get_Set_other EqualFold_tenant)

definition the_credential :: "'w Client \<Rightarrow> Ctx \<Rightarrow> string option" where
  "the_credential c ctx =
     (if o_apiKey (c_opts c) \<noteq> [] then Some (o_apiKey (c_opts c))
      else Option.bind (FromContext ctx) (\<lambda>p. if p_Token p = [] then None else Some (p_Token p)))"

lemma attachCredential_auth:
  "attachCredential c ctx rq = Inr rq' \<Longrightarrow>
   \<exists>t. the_credential c ctx = Some t \<and> header_Get (rq_header rq') ''Authorization'' = ''Bearer '' @ t \<and>
       rq_url rq' = rq_url rq \<and> rq_body rq' = rq_body rq \<and> rq_method rq' = rq_method rq"
  by (auto simp: attachCredential_def the_credential_def header_Get_Set_same split: if_splits option.splits)

lemma attachCredential_None:
  "the_credential c ctx = None \<longleftrightarrow> attachCredential c ctx rq = Inl ErrNoCredential"
  by (auto simp: attachCredential_def the_credential_def split: option.splits)

end
