(* ===== verification/Authz.thy ===== *)
theory Authz
  imports Client
begin

text \<open>
  The authorization calls (\<open>authz.go\<close>, \<open>granted.go\<close>, \<open>share.go\<close>): a question to the
  installation, through the decision cache when there is one, and the guards that refuse to
  ask. State: the world and the client, whose cache a call may change.

  The lemmas: a question that cannot be meant is refused without a call; the answer names
  the question; a guard lets a request through only on an allow; an answer from the cache
  was given by the installation, to the same question, within the lifetime.
\<close>

section \<open>Asking\<close>

definition decision_request :: "string \<Rightarrow> string \<Rightarrow> smap \<Rightarrow> string list \<Rightarrow> int \<Rightarrow> goval" where
  "decision_request subject permission scopes methods authTime =
     GMap [(''subject'', GStr subject), (''permission'', GStr permission), (''scopes'', gsmap scopes),
           (''amr'', gstrs methods), (''auth_time'', GInt authTime)]"

definition ask ::
  "'w platform \<Rightarrow> 'w Client \<Rightarrow> 'w \<Rightarrow> Ctx \<Rightarrow> string \<Rightarrow> string \<Rightarrow> smap \<Rightarrow> string list \<Rightarrow> int \<Rightarrow> 'w \<times> Decision res" where
  "ask pf c w ctx subject permission scopes methods authTime =
     rpc pf c w ctx procAuthorize
       (decision_request subject permission scopes methods authTime) (Some dec_Decision) zero_Decision"

definition authorize ::
  "'w platform \<Rightarrow> 'w \<times> 'w Client \<Rightarrow> Ctx \<Rightarrow> string \<Rightarrow> string \<Rightarrow> smap \<Rightarrow> string list \<Rightarrow> int \<Rightarrow>
   ('w \<times> 'w Client) \<times> Decision res" where
  "authorize pf s ctx subject permission scopes methods authTime =
     (case s of (w, c) \<Rightarrow>
        if subject = [] then (s, Inl (ErrText ''anubis: authorize needs a subject''))
        else if permission = [] then (s, Inl (ErrText ''anubis: authorize needs a permission, like \"billing:invoice:approve\"''))
        else if \<not> Permission_IsValid permission then (s, Inl (ErrText ''anubis: not a permission key''))
        else
          let key = cacheKey (pf_sha256 pf) subject permission scopes methods authTime;
              hit = (case o_cache (c_opts c) of None \<Rightarrow> None | Some dc \<Rightarrow> cache_get dc key (client_now c w))
          in case hit of
               Some d \<Rightarrow> (s, Inr (d\<lparr>dn_permission := permission, dn_subject := subject\<rparr>))
             | None \<Rightarrow>
                 (case ask pf c w ctx subject permission scopes methods authTime of
                    (w', Inl e) \<Rightarrow> ((w', c), Inl e)
                  | (w', Inr d0) \<Rightarrow>
                      let d = d0\<lparr>dn_permission := permission, dn_subject := subject\<rparr>;
                          c' = (case o_cache (c_opts c) of
                                  None \<Rightarrow> c
                                | Some dc \<Rightarrow> c\<lparr>c_opts := (c_opts c)\<lparr>o_cache := Some (cache_put dc key d (client_now c w'))\<rparr>\<rparr>)
                      in ((w', c'), Inr d)))"

definition Authorize ::
  "'w platform \<Rightarrow> 'w \<times> 'w Client \<Rightarrow> Ctx \<Rightarrow> string \<Rightarrow> smap \<Rightarrow> ('w \<times> 'w Client) \<times> Decision res" where
  "Authorize pf s ctx permission scopes =
     (case IdentityFromContext ctx of
        None \<Rightarrow> (s, Inl ErrNoPrincipal)
      | Some i \<Rightarrow> authorize pf s ctx (id_Subject i) permission scopes (id_Methods i) (Time_Unix (id_authenticatedAt i)))"

definition AuthorizeSubject ::
  "'w platform \<Rightarrow> 'w \<times> 'w Client \<Rightarrow> Ctx \<Rightarrow> string \<Rightarrow> string \<Rightarrow> smap \<Rightarrow> string list \<Rightarrow> gotime \<Rightarrow>
   ('w \<times> 'w Client) \<times> Decision res" where
  "AuthorizeSubject pf s ctx subject permission scopes methods authTime =
     authorize pf s ctx subject permission scopes methods (if Time_IsZero authTime then 0 else Time_Unix authTime)"

text \<open>\<open>Require\<close> answers with a nil error only on an allow.\<close>

definition Require ::
  "'w platform \<Rightarrow> 'w \<times> 'w Client \<Rightarrow> Ctx \<Rightarrow> string \<Rightarrow> smap \<Rightarrow> ('w \<times> 'w Client) \<times> goerr option" where
  "Require pf s ctx permission scopes =
     (case Authorize pf s ctx permission scopes of
        (s', Inl e) \<Rightarrow> (s', Some e) | (s', Inr d) \<Rightarrow> (s', Decision_Err d))"

definition Requires ::
  "'w platform \<Rightarrow> string \<Rightarrow> (server_request \<Rightarrow> smap) option \<Rightarrow> 'w \<times> 'w Client \<Rightarrow> Ctx \<Rightarrow> server_request \<Rightarrow>
   ('w \<times> 'w Client) \<times> handled" where
  "Requires pf permission scopes s ctx r =
     (case Require pf s ctx permission (case scopes of None \<Rightarrow> [] | Some f \<Rightarrow> f r) of
        (s', None) \<Rightarrow> (s', Next ctx)
      | (s', Some e) \<Rightarrow>
          (s', if errors_As as_StepUp e \<noteq> None
               then Answer 401 [(''WWW-Authenticate'', ''Bearer error=\"insufficient_user_authentication\"'')]
                      ''step-up authentication required''
               else case errors_As as_Denied e of
                 Some d \<Rightarrow> Answer 403 [] (de_Message d)
               | None \<Rightarrow> Answer 503 [] ''authorization unavailable''))"

definition Explain ::
  "'w platform \<Rightarrow> 'w Client \<Rightarrow> 'w \<Rightarrow> Ctx \<Rightarrow> string \<Rightarrow> smap \<Rightarrow> 'w \<times> Explanation res" where
  "Explain pf c w ctx permission scopes =
     (case IdentityFromContext ctx of
        None \<Rightarrow> (w, Inl ErrNoPrincipal)
      | Some i \<Rightarrow> rpc pf c w ctx procExplain
          (GMap [(''subject'', GStr (id_Subject i)), (''permission'', GStr permission), (''scopes'', gsmap scopes)])
          (Some dec_Explanation) zero_Explanation)"

section \<open>Other calls on the caller's behalf\<close>

text \<open>Responses whose one interesting member is a pointer or a list.\<close>

definition dec_tokens_field :: "json \<Rightarrow> Tokens option \<Rightarrow> Tokens option option" where
  "dec_tokens_field = decode_struct [(''tokens'', set_ptr (\<lambda>r. r) (\<lambda>v _. v) zero_Tokens dec_Tokens)]"

definition stamped :: "'w Client \<Rightarrow> string \<Rightarrow> 'w \<times> Tokens option res \<Rightarrow> 'w \<times> Tokens res" where
  "stamped c missing r =
     (case r of (w', Inl e) \<Rightarrow> (w', Inl e)
      | (w', Inr None) \<Rightarrow> (w', Inl (ErrText missing))
      | (w', Inr (Some t)) \<Rightarrow> (w', Inr (stamp c w' t)))"

definition SwitchScope :: "'w platform \<Rightarrow> 'w Client \<Rightarrow> 'w \<Rightarrow> Ctx \<Rightarrow> smap \<Rightarrow> 'w \<times> Tokens res" where
  "SwitchScope pf c w ctx scopes =
     stamped c ''anubis: scope switch returned no tokens''
       (rpc pf c w ctx procSwitchScope (GMap [(''scopes'', gsmap scopes)])
          (Some dec_tokens_field) None)"

definition Introspect :: "'w platform \<Rightarrow> 'w Client \<Rightarrow> 'w \<Rightarrow> Ctx \<Rightarrow> string \<Rightarrow> 'w \<times> Introspection res" where
  "Introspect pf c w ctx token =
     rpc pf c w ctx procIntrospect (GMap [(''token'', GStr token)])
       (Some dec_Introspection) zero_Introspection"

definition Client_Me :: "'w platform \<Rightarrow> 'w Client \<Rightarrow> 'w \<Rightarrow> Ctx \<Rightarrow> 'w \<times> Me res" where
  "Client_Me pf c w ctx =
     rpc pf c w ctx procGetMe (GStruct []) (Some dec_Me) zero_Me"

definition Sessions :: "'w platform \<Rightarrow> 'w Client \<Rightarrow> 'w \<Rightarrow> Ctx \<Rightarrow> 'w \<times> Session list res" where
  "Sessions pf c w ctx =
     rpc pf c w ctx procListSessions (GStruct [])
       (Some (decode_struct [(''sessions'', set_list (\<lambda>v _. v) zero_Session dec_Session)])) []"

section \<open>Granted nodes\<close>

definition grantedNodes ::
  "'w platform \<Rightarrow> 'w Client \<Rightarrow> 'w \<Rightarrow> Ctx \<Rightarrow> string \<Rightarrow> string \<Rightarrow> string \<Rightarrow> smap \<Rightarrow> 'w \<times> GrantedNodes res" where
  "grantedNodes pf c w ctx subject permission axis fixed =
     (if subject = [] then (w, Inl (ErrText ''anubis: granted nodes needs a subject''))
      else if \<not> Permission_IsValid permission then (w, Inl (ErrText ''anubis: not a permission key''))
      else if axis = [] \<or> axis = AxisOwner
        then (w, Inl (ErrText ''anubis: granted nodes needs a structure axis to leave open''))
      else rpc pf c w ctx procListGrantedNodes
        (GMap [(''subject'', GStr subject), (''permission'', GStr permission), (''axis'', GStr axis),
               (''scopes'', gsmap fixed)])
        (Some dec_GrantedNodes) zero_GrantedNodes)"

definition Client_GrantedNodes ::
  "'w platform \<Rightarrow> 'w Client \<Rightarrow> 'w \<Rightarrow> Ctx \<Rightarrow> string \<Rightarrow> string \<Rightarrow> smap \<Rightarrow> 'w \<times> GrantedNodes res" where
  "Client_GrantedNodes pf c w ctx permission axis fixed =
     (case IdentityFromContext ctx of
        None \<Rightarrow> (w, Inl ErrNoPrincipal)
      | Some i \<Rightarrow> grantedNodes pf c w ctx (id_Subject i) permission axis fixed)"

definition GrantedNodesOf ::
  "'w platform \<Rightarrow> 'w Client \<Rightarrow> 'w \<Rightarrow> Ctx \<Rightarrow> string \<Rightarrow> string \<Rightarrow> string \<Rightarrow> smap \<Rightarrow> 'w \<times> GrantedNodes res" where
  "GrantedNodesOf pf c w ctx subject permission axis fixed =
     grantedNodes pf c w ctx subject permission axis fixed"

section \<open>Record shares\<close>

record ShareRequest =
  sq_RecordKind :: string
  sq_RecordRef :: string
  sq_RecordScopes :: smap
  sq_To :: string
  sq_Permissions :: "string list"
  sq_ValidUntil :: gotime
  sq_Note :: string

definition share_refusal :: "ShareRequest \<Rightarrow> goerr option" where
  "share_refusal i =
     (if sq_RecordKind i = [] \<or> sq_RecordRef i = [] then Some (ErrText ''anubis: share needs a record kind and ref'')
      else if sq_To i = [] then Some (ErrText ''anubis: share needs somebody to share with'')
      else if length (sq_Permissions i) = 0 then Some (ErrText ''anubis: share needs at least one permission'')
      else if Time_IsZero (sq_ValidUntil i) then Some (ErrText ''anubis: share needs an end; a share always ends'')
      else if \<not> list_all Permission_IsValid (sq_Permissions i) then Some (ErrText ''anubis: not a permission key'')
      else None)"

definition Share :: "'w platform \<Rightarrow> 'w Client \<Rightarrow> 'w \<Rightarrow> Ctx \<Rightarrow> ShareRequest \<Rightarrow> 'w \<times> RecordShare res" where
  "Share pf c w ctx i =
     (case share_refusal i of
        Some e \<Rightarrow> (w, Inl e)
      | None \<Rightarrow>
          (case rpc pf c w ctx procShare
             (GMap [(''record_kind'', GStr (sq_RecordKind i)), (''record_ref'', GStr (sq_RecordRef i)),
                    (''record_scopes'', gsmap (sq_RecordScopes i)), (''to_identity_id'', GStr (sq_To i)),
                    (''permissions'', gstrs (sq_Permissions i)), (''valid_until'', GInt (Time_Unix (sq_ValidUntil i))),
                    (''note'', GStr (sq_Note i))])
             (Some (decode_struct [(''share'', set_ptr (\<lambda>r. r) (\<lambda>v _. v) zero_RecordShare dec_RecordShare)])) None of
             (w', Inl e) \<Rightarrow> (w', Inl e)
           | (w', Inr None) \<Rightarrow> (w', Inl (ErrText ''anubis: share returned nothing''))
           | (w', Inr (Some s)) \<Rightarrow> (w', Inr s)))"

definition Unshare :: "'w platform \<Rightarrow> 'w Client \<Rightarrow> 'w \<Rightarrow> Ctx \<Rightarrow> string \<Rightarrow> string \<Rightarrow> 'w \<times> unit res" where
  "Unshare pf c w ctx shareID reason =
     rpc pf c w ctx procUnshare
       (GMap [(''share_id'', GStr shareID), (''reason'', GStr reason)]) (Some (decode_struct [])) ()"

definition dec_shares :: "json \<Rightarrow> RecordShare list \<Rightarrow> RecordShare list option" where
  "dec_shares = decode_struct [(''shares'', set_list (\<lambda>v _. v) zero_RecordShare dec_RecordShare)]"

definition SharesOnRecord ::
  "'w platform \<Rightarrow> 'w Client \<Rightarrow> 'w \<Rightarrow> Ctx \<Rightarrow> string \<Rightarrow> string \<Rightarrow> smap \<Rightarrow> 'w \<times> RecordShare list res" where
  "SharesOnRecord pf c w ctx kind ref scopes =
     rpc pf c w ctx procListSharesOnRecord
       (GMap [(''record_kind'', GStr kind), (''record_ref'', GStr ref), (''record_scopes'', gsmap scopes)])
       (Some dec_shares) []"

definition SharedWithMe :: "'w platform \<Rightarrow> 'w Client \<Rightarrow> 'w \<Rightarrow> Ctx \<Rightarrow> 'w \<times> RecordShare list res" where
  "SharedWithMe pf c w ctx =
     rpc pf c w ctx procListSharedWithMe (GMap []) (Some dec_shares) []"

definition CreateAccessLink :: "'w platform \<Rightarrow> 'w Client \<Rightarrow> 'w \<Rightarrow> Ctx \<Rightarrow> string \<Rightarrow> 'w \<times> string res" where
  "CreateAccessLink pf c w ctx shareID =
     (case rpc pf c w ctx procCreateAccessLink (GMap [(''share_id'', GStr shareID)])
        (Some (decode_struct [(''linkToken'', set_string (\<lambda>v _. v))])) [] of
        (w', Inl e) \<Rightarrow> (w', Inl e)
      | (w', Inr t) \<Rightarrow> (w', if t = [] then Inl (ErrText ''anubis: no link token returned'') else Inr t))"

definition OpenAccessLink :: "'w platform \<Rightarrow> 'w Client \<Rightarrow> 'w \<Rightarrow> string \<Rightarrow> 'w \<times> Tokens res" where
  "OpenAccessLink pf c w linkToken =
     (if linkToken = [] then (w, Inl (ErrText ''anubis: open needs a link token''))
      else stamped c ''anubis: open returned no token''
        (rpcNoAuth pf c w procOpenAccessLink
           (GMap [(''tenant'', GStr (o_tenant (c_opts c))), (''client_id'', GStr (o_clientID (c_opts c))),
                  (''link_token'', GStr linkToken)])
           (Some dec_tokens_field) None))"

section \<open>Guards\<close>

definition askable :: "string \<Rightarrow> string \<Rightarrow> bool" where
  "askable subject permission \<longleftrightarrow> subject \<noteq> [] \<and> Permission_IsValid permission"

lemma empty_invalid: "\<not> Permission_IsValid []"
  by (simp add: Permission_IsValid_def Permission_parts_def)

lemma authorize_refuses: "\<not> askable subject permission \<Longrightarrow>
    \<exists>e. authorize pf s ctx subject permission scopes methods at = (s, Inl e)"
  by (auto simp: askable_def authorize_def split: prod.splits)

lemma authorize_names_question:
  "authorize pf s ctx subject permission scopes methods at = (s', Inr d) \<Longrightarrow>
   askable subject permission \<and> dn_permission d = permission \<and> dn_subject d = subject"
  by (auto simp: askable_def authorize_def Let_def empty_invalid split: prod.splits option.splits sum.splits if_splits)

text \<open>\<open>Authorize\<close> and \<open>Require\<close> ask about the verified principal and nobody else.\<close>

lemma Authorize_principal:
  "Authorize pf s ctx permission scopes = (s', Inr d) \<Longrightarrow>
   \<exists>p. FromContext ctx = Some p \<and> dn_subject d = id_Subject (Principal_Identity p) \<and> dn_permission d = permission"
  by (auto simp: Authorize_def IdentityFromContext_def dest!: authorize_names_question split: option.splits)

lemma Require_None_iff:
  "snd (Require pf s ctx permission scopes) = None \<longleftrightarrow>
   (\<exists>d. snd (Authorize pf s ctx permission scopes) = Inr d \<and> dn_Allow d)"
  by (auto simp: Require_def split: prod.splits sum.splits)

lemma Requires_Next:
  "Requires pf permission scopes s ctx r = (s', Next ctx') \<Longrightarrow>
   ctx' = ctx \<and> (\<exists>d. Authorize pf s ctx permission (case scopes of None \<Rightarrow> [] | Some f \<Rightarrow> f r) = (s', Inr d) \<and> dn_Allow d)"
  by (auto simp: Requires_def Require_def split: prod.splits sum.splits option.splits if_splits)

section \<open>The cache between calls\<close>

text \<open>
  Calls of \<open>authorize\<close> on one client, with the world moving freely between them. The log
  holds, newest first, every question the installation answered, its answer and when.
\<close>

type_synonym question = "string \<times> string \<times> smap \<times> string list \<times> int"

definition question_key :: "(bytes \<Rightarrow> bytes) \<Rightarrow> question \<Rightarrow> string" where
  "question_key h q = (case q of (s, p, sc, amr, at) \<Rightarrow> cacheKey h s p sc amr at)"

inductive authz_run ::
  "'w platform \<Rightarrow> 'w Client \<Rightarrow> 'w \<times> 'w Client \<Rightarrow> (question \<times> Decision \<times> gotime) list \<Rightarrow> bool" for pf c0 where
  start: "authz_run pf c0 (w, c0) []"
| world: "authz_run pf c0 (w, c) log \<Longrightarrow> authz_run pf c0 (w', c) log"
| refused: "authz_run pf c0 s log \<Longrightarrow> authorize pf s ctx sub p sc amr at = (s', Inl e) \<Longrightarrow> authz_run pf c0 s' log"
| cached: "authz_run pf c0 (w, c) log \<Longrightarrow> o_cache (c_opts c) = Some dc \<Longrightarrow>
    cache_get dc (question_key (pf_sha256 pf) (sub, p, sc, amr, at)) (client_now c w) = Some d0 \<Longrightarrow>
    authorize pf (w, c) ctx sub p sc amr at = (s', Inr d) \<Longrightarrow> authz_run pf c0 s' log"
| answered: "authz_run pf c0 (w, c) log \<Longrightarrow>
    (\<forall>dc. o_cache (c_opts c) = Some dc \<longrightarrow>
       cache_get dc (question_key (pf_sha256 pf) (sub, p, sc, amr, at)) (client_now c w) = None) \<Longrightarrow>
    authorize pf (w, c) ctx sub p sc amr at = ((w', c'), Inr d) \<Longrightarrow>
    authz_run pf c0 (w', c') (((sub, p, sc, amr, at), d, client_now c w') # log)"

definition log_puts :: "(bytes \<Rightarrow> bytes) \<Rightarrow> (question \<times> Decision \<times> gotime) list \<Rightarrow> (string \<times> Decision \<times> gotime) list" where
  "log_puts h log = map (\<lambda>(q, d, t). (question_key h q, d, t)) log"

lemma authorize_refused_client: "authorize pf (w, c) ctx sub p sc amr at = (s', Inl e) \<Longrightarrow> snd s' = c"
  by (auto simp: authorize_def Let_def split: if_splits option.splits prod.splits sum.splits)

lemma authorize_cached_client:
  "o_cache (c_opts c) = Some dc \<Longrightarrow> cache_get dc (cacheKey (pf_sha256 pf) sub p sc amr at) (client_now c w) = Some d0 \<Longrightarrow>
   authorize pf (w, c) ctx sub p sc amr at = (s', Inr d) \<Longrightarrow>
   s' = (w, c) \<and> d = d0\<lparr>dn_permission := p, dn_subject := sub\<rparr>"
  by (auto simp: authorize_def Let_def split: if_splits)

lemma authorize_answered_client:
  "o_cache (c_opts c) = Some dc \<Longrightarrow> cache_get dc (cacheKey (pf_sha256 pf) sub p sc amr at) (client_now c w) = None \<Longrightarrow>
   authorize pf (w, c) ctx sub p sc amr at = ((w', c'), Inr d) \<Longrightarrow>
   c' = c\<lparr>c_opts := (c_opts c)\<lparr>o_cache := Some (cache_put dc (cacheKey (pf_sha256 pf) sub p sc amr at) d (client_now c w'))\<rparr>\<rparr>"
  by (auto simp: authorize_def Let_def split: if_splits prod.splits sum.splits)

text \<open>The cache is what the puts of the log make of the first one.\<close>

lemma authz_run_cache:
  assumes "authz_run pf c0 s log" "o_cache (c_opts c0) = Some dc0"
  shows "o_cache (c_opts (snd s)) = Some (store.run dc0 (log_puts (pf_sha256 pf) log))"
  using assms(1)
proof induction
  case (refused s log ctx sub p sc amr at s' e)
  obtain w c where s: "s = (w, c)" by fastforce
  with refused(2) have "snd s' = c" by (simp add: authorize_refused_client)
  with refused s show ?case by simp
next
  case (cached w c log dc sub p sc amr at d0 ctx s' d)
  from authorize_cached_client [OF cached(2) _ cached(4)] cached(3) have "s' = (w, c)"
    by (simp add: question_key_def)
  with cached show ?case by simp
next
  case (answered w c log sub p sc amr at ctx w' c' d)
  let ?dc = "store.run dc0 (log_puts (pf_sha256 pf) log)"
  from answered(4) have dc: "o_cache (c_opts c) = Some ?dc" by simp
  with answered(2) have "cache_get ?dc (cacheKey (pf_sha256 pf) sub p sc amr at) (client_now c w) = None"
    by (simp add: question_key_def)
  from authorize_answered_client [OF dc this answered(3)] show ?case
    by (simp add: log_puts_def question_key_def)
qed (use assms(2) in \<open>simp_all add: log_puts_def\<close>)

lemma cache_hit_logged:
  assumes "authz_run pf c0 (w, c) log" "o_cache (c_opts c0) = Some dc0" "dcache_empty dc0"
    and "o_cache (c_opts c) = Some dc" "cache_get dc (question_key (pf_sha256 pf) q) now = Some d"
  shows "\<exists>q' t. (q', d, t) \<in> set log \<and> question_key (pf_sha256 pf) q' = question_key (pf_sha256 pf) q \<and>
    \<not> Decision_NeedsStepUp d \<and> now \<le> t + dc_ttl dc0"
proof -
  have "dc = store.run dc0 (log_puts (pf_sha256 pf) log)"
    using authz_run_cache [OF assms(1,2)] assms(4) by simp
  from store.answer_was_put [OF assms(3), of "log_puts (pf_sha256 pf) log"] assms(5) this
  obtain t where t: "(question_key (pf_sha256 pf) q, d, t) \<in> set (log_puts (pf_sha256 pf) log)"
    "dn_Reason d \<noteq> codeStepUpRequired" "now \<le> t + dc_ttl dc0" by blast
  from t(1) obtain q' where "(q', d, t) \<in> set log" "question_key (pf_sha256 pf) q' = question_key (pf_sha256 pf) q"
    unfolding log_puts_def by auto
  with t(2,3) show ?thesis unfolding Decision_NeedsStepUp_def by blast
qed

definition question_text :: "question \<Rightarrow> bytes" where
  "question_text q = (case q of (s, p, sc, amr, at) \<Rightarrow> cache_key_text s p sc amr at)"

definition plain :: "question \<Rightarrow> bool" where
  "plain q \<longleftrightarrow> (case q of (s, p, sc, amr, at) \<Rightarrow> plain_question s p sc amr at)"

lemma question_key_inj:
  assumes "inj_on h Q" "question_text q \<in> Q" "question_text q' \<in> Q"
    and "question_key h q = question_key h q'" "plain q" "plain q'"
  shows "same_question q q'"
proof -
  obtain s p sc amr at s' p' sc' amr' at' where q: "q = (s, p, sc, amr, at)" "q' = (s', p', sc', amr', at')"
    by (metis prod_cases5)
  with assms(4) have "h (question_text q) = h (question_text q')"
    by (auto simp: question_key_def question_text_def cacheKey_def dest: raw_url_encode_inj)
  with assms(1-3) have "question_text q = question_text q'" by (auto dest: inj_onD)
  with cache_key_text_inj [of s p sc amr at s' p' sc' amr' at'] assms(5,6) q show ?thesis
    by (simp add: question_text_def plain_def)
qed

end
