(* ===== verification/Login.thy ===== *)
theory Login
  imports Authz Json_Roundtrip
begin

text \<open>
  Signing in (\<open>login.go\<close>, \<open>BeginStepUp\<close> of \<open>authz.go\<close>): the authorization-code flow with
  PKCE, the cookie that holds a started sign-in, the direct sign-in and the second factor.

  The locale \<open>login_store\<close> states what the flow needs of a store; \<open>cookies\<close> interprets it
  on the default one. The lemmas: the code is exchanged only after the state check, with
  the verifier of the sign-in this browser started, once.
\<close>

section \<open>The cookie store\<close>

abbreviation (input) loginCookie :: string where "loginCookie \<equiv> ''anubis_login''"
abbreviation (input) loginTTL :: duration where "loginTTL \<equiv> 10 * 60 * second"

fun set_time :: "(string \<Rightarrow> gotime option) \<Rightarrow> (gotime \<Rightarrow> 'r \<Rightarrow> 'r) \<Rightarrow> 'r setter" where
  "set_time parse upd (JStr raw) r = map_option (\<lambda>t. upd t r) (parse raw)"
| "set_time parse upd JNull r = Some r"
| "set_time parse upd _ r = None"

definition zero_Pending :: Pending where
  "zero_Pending = \<lparr>pe_State = [], pe_Verifier = [], pe_RedirectURI = [], pe_Created = 0\<rparr>"

definition dec_Pending :: "'w platform \<Rightarrow> json \<Rightarrow> Pending \<Rightarrow> Pending option" where
  "dec_Pending pf = decode_struct
     [(''s'', set_string (\<lambda>v r. r\<lparr>pe_State := v\<rparr>)),
      (''v'', set_string (\<lambda>v r. r\<lparr>pe_Verifier := v\<rparr>)),
      (''r'', set_string (\<lambda>v r. r\<lparr>pe_RedirectURI := v\<rparr>)),
      (''c'', set_time (pf_time_parse pf) (\<lambda>v r. r\<lparr>pe_Created := v\<rparr>))]"

definition Pending_json :: "Pending \<Rightarrow> string \<Rightarrow> goval" where
  "Pending_json p created =
     GStruct [(''s'', GStr (pe_State p)), (''v'', GStr (pe_Verifier p)), (''r'', GStr (pe_RedirectURI p)),
              (''c'', GStr created)]"

definition login_cookie :: "string \<Rightarrow> int \<Rightarrow> cookie" where
  "login_cookie v age = \<lparr>ck_Name = loginCookie, ck_Value = v, ck_Path = ''/'', ck_MaxAge = age,
     ck_HttpOnly = True, ck_Secure = True, ck_SameSite = ''Lax''\<rparr>"

text \<open>A time outside the years RFC 3339 can write fails to marshal.\<close>

definition cookieStore_Put :: "'w platform \<Rightarrow> 'w \<Rightarrow> jar \<Rightarrow> Pending \<Rightarrow> ('w \<times> jar) \<times> goerr option" where
  "cookieStore_Put pf w j p =
     (case pf_time_format pf (pe_Created p) of
        None \<Rightarrow> ((w, j), Some (ErrOther ''marshal''))
      | Some created \<Rightarrow>
          ((w, j @ [login_cookie (raw_url_encode (marshal (Pending_json p created))) (loginTTL div second)]), None))"

definition cookieStore_Take :: "'w platform \<Rightarrow> 'w \<Rightarrow> jar \<Rightarrow> server_request \<Rightarrow> ('w \<times> jar) \<times> Pending res" where
  "cookieStore_Take pf w j r =
     (case map_of (sr_Cookies r) loginCookie of
        None \<Rightarrow> ((w, j), Inl (ErrStateMismatch ''no login in progress for this browser''))
      | Some v \<Rightarrow>
          ((w, j @ [login_cookie [] (- 1)]),
           case raw_url_decode False v of
             None \<Rightarrow> Inl (ErrStateMismatch ''login cookie is unreadable'')
           | Some raw \<Rightarrow> (case unmarshal (dec_Pending pf) zero_Pending raw of
               None \<Rightarrow> Inl (ErrStateMismatch ''login cookie is unreadable'')
             | Some p \<Rightarrow> Inr p)))"

definition cookieStore :: "'w platform \<Rightarrow> 'w LoginStore" where
  "cookieStore pf = \<lparr>ls_Put = cookieStore_Put pf, ls_Take = cookieStore_Take pf\<rparr>"

section \<open>Beginning\<close>

record LoginParams =
  lp_RedirectURI :: string
  lp_Scope :: "string list"
  lp_Realm :: string
  lp_Page :: string
  lp_Tenant :: string
  lp_Nonce :: string
  lp_Prompt :: string
  lp_ACRValues :: "string list"
  lp_MaxAge :: int

record Redirect =
  rd_URL :: string
  rd_State :: string

definition randomToken :: "'w platform \<Rightarrow> 'w \<Rightarrow> 'w \<times> string res" where
  "randomToken pf w =
     (case pf_rand32 pf w of
        (w', None) \<Rightarrow> (w', Inl (ErrText ''anubis: generating a random token''))
      | (w', Some b) \<Rightarrow> (w', Inr (raw_url_encode b)))"

definition setIf :: "url_values \<Rightarrow> string \<Rightarrow> string \<Rightarrow> url_values" where
  "setIf q key v = (if v \<noteq> [] then values_Set q key v else q)"

fun join_from :: "string \<Rightarrow> string \<Rightarrow> string list \<Rightarrow> string" where
  "join_from sep out [] = out"
| "join_from sep out (v # vs) = join_from sep (out @ sep @ v) vs"

definition joinOrDefault :: "string list \<Rightarrow> string \<Rightarrow> string \<Rightarrow> string" where
  "joinOrDefault vs sep d = (case vs of [] \<Rightarrow> d | v # vs' \<Rightarrow> join_from sep v vs')"

definition login_query :: "'w platform \<Rightarrow> 'w Client \<Rightarrow> LoginParams \<Rightarrow> string \<Rightarrow> string \<Rightarrow> url_values" where
  "login_query pf c p state verifier =
     (let q = [(''response_type'', [''code'']), (''client_id'', [o_clientID (c_opts c)]),
               (''redirect_uri'', [lp_RedirectURI p]), (''state'', [state]),
               (''code_challenge'', [raw_url_encode (pf_sha256 pf verifier)]), (''code_challenge_method'', [''S256''])];
          q = values_Set q ''scope'' (joinOrDefault (lp_Scope p) '' '' ''openid'');
          q = setIf q ''tenant'' (firstNonEmpty [lp_Tenant p, o_tenant (c_opts c)]);
          q = setIf q ''realm'' (lp_Realm p);
          q = setIf q ''page'' (lp_Page p);
          q = setIf q ''nonce'' (lp_Nonce p);
          q = setIf q ''prompt'' (lp_Prompt p);
          q = setIf q ''acr_values'' (joinOrDefault (lp_ACRValues p) '' '' [])
      in if lp_MaxAge p > 0 then values_Set q ''max_age'' (FormatInt (lp_MaxAge p)) else q)"

definition store_Put :: "'w Client \<Rightarrow> 'w \<Rightarrow> jar \<Rightarrow> Pending \<Rightarrow> ('w \<times> jar) \<times> goerr option" where
  "store_Put c w j p =
     (case o_loginStore (c_opts c) of None \<Rightarrow> ((w, j), Some (ErrOther ''nil login store'')) | Some ls \<Rightarrow> ls_Put ls w j p)"

definition store_Take :: "'w Client \<Rightarrow> 'w \<Rightarrow> jar \<Rightarrow> server_request \<Rightarrow> ('w \<times> jar) \<times> Pending res" where
  "store_Take c w j r =
     (case o_loginStore (c_opts c) of None \<Rightarrow> ((w, j), Inl (ErrOther ''nil login store'')) | Some ls \<Rightarrow> ls_Take ls w j r)"

definition BeginLogin ::
  "'w platform \<Rightarrow> 'w Client \<Rightarrow> 'w \<times> jar \<Rightarrow> LoginParams \<Rightarrow> ('w \<times> jar) \<times> Redirect res" where
  "BeginLogin pf c s p =
     (case s of (w, j) \<Rightarrow>
       if o_clientID (c_opts c) = [] then (s, Inl (ErrText (''anubis: BeginLogin needs the application slug '' @ dash @ '' configure WithApplication'')))
       else if lp_RedirectURI p = [] then (s, Inl (ErrText ''anubis: BeginLogin needs a RedirectURI, and it must be one registered on the application''))
       else (case randomToken pf w of
           (w1, Inl e) \<Rightarrow> ((w1, j), Inl e)
         | (w1, Inr state) \<Rightarrow>
             (case randomToken pf w1 of
                (w2, Inl e) \<Rightarrow> ((w2, j), Inl e)
              | (w2, Inr verifier) \<Rightarrow>
                  (case store_Put c w2 j \<lparr>pe_State = state, pe_Verifier = verifier,
                          pe_RedirectURI = lp_RedirectURI p, pe_Created = client_now c w2\<rparr> of
                     (s', Some e) \<Rightarrow> (s', Inl (ErrWrap ''anubis: storing the pending login: '' e))
                   | (s', None) \<Rightarrow>
                       (s', Inr \<lparr>rd_URL = c_baseURL c @ ''/v1/authorize?'' @ values_Encode (login_query pf c p state verifier),
                                 rd_State = state\<rparr>)))))"

definition BeginStepUp ::
  "'w platform \<Rightarrow> 'w Client \<Rightarrow> 'w \<times> jar \<Rightarrow> goerr \<Rightarrow> LoginParams \<Rightarrow> ('w \<times> jar) \<times> Redirect res" where
  "BeginStepUp pf c s err p =
     (case errors_As as_StepUp err of
        None \<Rightarrow> (s, Inl (ErrWrap ''anubis: BeginStepUp needs a step-up refusal, got '' err))
      | Some su \<Rightarrow>
          let p = p\<lparr>lp_Prompt := ''login''\<rparr>;
              p = (if length (lp_ACRValues p) = 0 then p\<lparr>lp_ACRValues := su_RequiredAMR su\<rparr> else p);
              p = (if lp_MaxAge p = 0
                   then (case StepUpRequiredError_MaxAuthAgeDuration (pf_parse_duration pf) su of
                           Some d \<Rightarrow> p\<lparr>lp_MaxAge := d sdiv second\<rparr> | None \<Rightarrow> p)
                   else p)
          in BeginLogin pf c s p)"

section \<open>Completing\<close>

definition exchange_form :: "'w Client \<Rightarrow> Pending \<Rightarrow> string \<Rightarrow> url_values" where
  "exchange_form c p code =
     setIf [(''grant_type'', [''authorization_code'']), (''code'', [code]), (''code_verifier'', [pe_Verifier p]),
            (''redirect_uri'', [pe_RedirectURI p]), (''client_id'', [o_clientID (c_opts c)])]
       ''client_secret'' (o_clientSecret (c_opts c))"

text \<open>The exchange: the one call of the flow.\<close>

definition exchange :: "'w platform \<Rightarrow> 'w Client \<Rightarrow> 'w \<Rightarrow> Pending \<Rightarrow> string \<Rightarrow> 'w \<times> Tokens res" where
  "exchange pf c w p code =
     (case form pf c w pathToken (exchange_form c p code) (Some dec_httpTokens) zero_httpTokens of
        (w', Inl e) \<Rightarrow> (w', Inl e)
      | (w', Inr out) \<Rightarrow> (w', Inr (httpTokens_tokens out (client_now c w'))))"

definition CompleteLogin ::
  "'w platform \<Rightarrow> 'w Client \<Rightarrow> 'w \<times> jar \<Rightarrow> server_request \<Rightarrow> ('w \<times> jar) \<times> Tokens res" where
  "CompleteLogin pf c s r =
     (let q = ParseQuery (sr_RawQuery r) in
      if values_Get q ''error'' \<noteq> []
      then (s, Inl (ErrAPI \<lparr>ae_Code = values_Get q ''error'', ae_Message = values_Get q ''error_description'',
                            ae_RequestID = [], ae_Status = 400, ae_Details = [], ae_class = []\<rparr>))
      else (case store_Take c (fst s) (snd s) r of
          (s1, Inl e) \<Rightarrow> (s1, Inl e)
        | ((w1, j1), Inr pending) \<Rightarrow>
            if Time_Sub (client_now c w1) (pe_Created pending) > loginTTL
            then ((w1, j1), Inl (ErrStateMismatch ''the sign-in took longer than 10m0s''))
            else if values_Get q ''state'' \<noteq> pe_State pending
            then ((w1, j1), Inl (ErrStateMismatch ''callback state is not the one this browser was sent with''))
            else if values_Get q ''code'' = [] then ((w1, j1), Inl (ErrStateMismatch ''callback carried no code''))
            else (case exchange pf c w1 pending (values_Get q ''code'') of (w2, res) \<Rightarrow> ((w2, j1), res))))"

section \<open>Signing in directly\<close>

definition Login_call :: "'w platform \<Rightarrow> 'w Client \<Rightarrow> 'w \<Rightarrow> Credentials \<Rightarrow> 'w \<times> LoginResult option \<times> goerr option" where
  "Login_call pf c w cred =
     (case rpcNoAuth pf c w procLogin
        (GMap [(''tenant'', GStr (firstNonEmpty [cr_Tenant cred, o_tenant (c_opts c)])), (''realm'', GStr (cr_Realm cred)),
               (''username'', GStr (cr_Username cred)), (''password'', GStr (cr_Password cred)),
               (''client_id'', GStr (firstNonEmpty [cr_ClientID cred, o_clientID (c_opts c)])),
               (''device_fp'', GStr (cr_DeviceFP cred))])
        (Some dec_LoginResult) zero_LoginResult of
        (w', Inl e) \<Rightarrow> (w', None, Some e)
      | (w', Inr out) \<Rightarrow>
          let out = out\<lparr>lr_Tokens := map_option (stamp c w') (lr_Tokens out)\<rparr>
          in (w', Some out,
              case lr_EnrolmentRequired out of
                None \<Rightarrow> None
              | Some e \<Rightarrow> Some (ErrEnrolment \<lparr>er_Factors = eo_Factors e, er_Deadline = Enrolment_DeadlineTime e,
                            er_GrantToken = eo_GrantToken e, er_ExpiresIn = 0\<rparr>)))"

definition VerifyMFA :: "'w platform \<Rightarrow> 'w Client \<Rightarrow> 'w \<Rightarrow> string \<Rightarrow> string \<Rightarrow> 'w \<times> Tokens res" where
  "VerifyMFA pf c w mfaToken code =
     stamped c ''anubis: mfa verification returned no tokens''
       (rpcNoAuth pf c w procVerifyMfa
          (GMap [(''mfa_token'', GStr mfaToken), (''code'', GStr code)]) (Some dec_tokens_field) None)"

section \<open>The state check comes before the exchange\<close>

lemma CompleteLogin_Inr:
  assumes "CompleteLogin pf c s r = ((w', j'), Inr t)"
  shows "\<exists>w1 p code. store_Take c (fst s) (snd s) r = ((w1, j'), Inr p) \<and>
    values_Get (ParseQuery (sr_RawQuery r)) ''state'' = pe_State p \<and>
    values_Get (ParseQuery (sr_RawQuery r)) ''code'' = code \<and> code \<noteq> [] \<and>
    Time_Sub (client_now c w1) (pe_Created p) \<le> loginTTL \<and> exchange pf c w1 p code = (w', Inr t)"
  using assms by (auto simp: CompleteLogin_def Let_def not_less split: if_splits prod.splits sum.splits)

text \<open>A refused callback leaves the world as \<open>Take\<close> left it: nothing was exchanged.\<close>

lemma CompleteLogin_mismatch:
  assumes "store_Take c w j r = ((w1, j1), Inr p)"
    and "values_Get (ParseQuery (sr_RawQuery r)) ''state'' \<noteq> pe_State p"
    and "values_Get (ParseQuery (sr_RawQuery r)) ''error'' = []"
  shows "\<exists>reason. CompleteLogin pf c (w, j) r = ((w1, j1), Inl (ErrStateMismatch reason))"
  using assms by (auto simp: CompleteLogin_def Let_def)

section \<open>What the flow needs of a store\<close>

text \<open>
  A store keeps one sign-in per browser: what it was given comes back to the browser that
  started it, once.
\<close>

locale login_store =
  fixes keep :: "'s \<Rightarrow> Pending \<Rightarrow> 's option"
    and take_back :: "'s \<Rightarrow> 's \<times> Pending res"
    and storable :: "Pending \<Rightarrow> bool"
  assumes take_keep: "storable p \<Longrightarrow> keep s p = Some s' \<Longrightarrow> snd (take_back s') = Inr p"
    and take_consumes: "take_back s = (s', r) \<Longrightarrow> \<exists>e. snd (take_back s') = Inl e"
begin

lemma single_use:
  assumes "storable p" "keep s p = Some s'" "take_back s' = (s'', r)"
  shows "r = Inr p \<and> (\<exists>e. snd (take_back s'') = Inl e)"
  using take_keep [OF assms(1,2)] take_consumes [OF assms(3)] assms(3) by simp

end

text \<open>A browser: the cookies it sends, and what the cookies of a response make of them.\<close>

fun browser :: "jar \<Rightarrow> smap \<Rightarrow> smap" where
  "browser [] br = br"
| "browser (ck # j) br =
     browser j (if ck_MaxAge ck < 0 then AList.delete (ck_Name ck) br else AList.update (ck_Name ck) (ck_Value ck) br)"

definition request_with :: "smap \<Rightarrow> server_request" where
  "request_with br = \<lparr>sr_Method = ''GET'', sr_Header = [], sr_Cookies = br, sr_RawQuery = [], sr_PostForm = None\<rparr>"

definition cookie_keep :: "'w platform \<Rightarrow> 'w \<Rightarrow> smap \<Rightarrow> Pending \<Rightarrow> smap option" where
  "cookie_keep pf w br p =
     (case cookieStore_Put pf w [] p of ((_, j), None) \<Rightarrow> Some (browser j br) | (_, Some _) \<Rightarrow> None)"

definition cookie_take :: "'w platform \<Rightarrow> 'w \<Rightarrow> smap \<Rightarrow> smap \<times> Pending res" where
  "cookie_take pf w br =
     (case cookieStore_Take pf w [] (request_with br) of ((_, j), r) \<Rightarrow> (browser j br, r))"

text \<open>Times have to survive RFC 3339, and the other members have to be ASCII.\<close>

definition cookie_storable :: "'w platform \<Rightarrow> Pending \<Rightarrow> bool" where
  "cookie_storable pf p \<longleftrightarrow> ascii (pe_State p) \<and> ascii (pe_Verifier p) \<and> ascii (pe_RedirectURI p) \<and>
     (\<forall>tm. pf_time_format pf (pe_Created p) = Some tm \<longrightarrow>
        list_all safe_char tm \<and> pf_time_parse pf tm = Some (pe_Created p))"

lemma safe_ascii: "list_all safe_char s \<Longrightarrow> ascii s"
  by (auto simp: list_all_iff ascii_def safe_char_def plain_char_def)

lemma Pending_roundtrip:
  assumes "ascii (pe_State p)" "ascii (pe_Verifier p)" "ascii (pe_RedirectURI p)" "list_all safe_char tm"
    "pf_time_parse pf tm = Some (pe_Created p)"
  shows "unmarshal (dec_Pending pf) zero_Pending (marshal (Pending_json p tm)) = Some p"
proof -
  have a: "ascii_val (Pending_json p tm)" using assms safe_ascii by (simp add: Pending_json_def)
  have u: "unmarshal (dec_Pending pf) zero_Pending (marshal (Pending_json p tm)) =
    dec_Pending pf (to_json (Pending_json p tm)) zero_Pending"
    by (simp only: unmarshal_def parse_marshal [OF a] Option.bind.simps)
  show ?thesis unfolding u using assms
    by (simp add: Pending_json_def dec_Pending_def field_for_def zero_Pending_def)
qed

lemma cookie_take_keep:
  assumes "cookie_storable pf p" "cookie_keep pf w br p = Some br'"
  shows "snd (cookie_take pf w' br') = Inr p"
proof -
  from assms(2) obtain tm where tm: "pf_time_format pf (pe_Created p) = Some tm"
    and br: "br' = AList.update loginCookie (raw_url_encode (marshal (Pending_json p tm))) br"
    by (auto simp: cookie_keep_def cookieStore_Put_def login_cookie_def split: option.splits)
  from assms(1) tm have "unmarshal (dec_Pending pf) zero_Pending (marshal (Pending_json p tm)) = Some p"
    by (intro Pending_roundtrip) (auto simp: cookie_storable_def)
  with br show ?thesis
    by (simp add: cookie_take_def cookieStore_Take_def request_with_def update_conv' del: marshal.simps)
qed

lemma cookie_take_consumes: "cookie_take pf w br = (br', r) \<Longrightarrow> \<exists>e. snd (cookie_take pf w' br') = Inl e"
  by (auto simp: cookie_take_def cookieStore_Take_def request_with_def login_cookie_def delete_conv'
      split: option.splits)

interpretation cookies: login_store "cookie_keep pf w" "cookie_take pf w" "cookie_storable pf"
  for pf :: "'w platform" and w :: 'w
  by unfold_locales (auto intro: cookie_take_keep cookie_take_consumes)

section \<open>PKCE across the flow\<close>

lemma single_Set [simp]: "single q \<Longrightarrow> single (values_Set q k v)"
  by (simp add: values_Set_def)

lemma single_setIf [simp]: "single q \<Longrightarrow> single (setIf q k v)"
  by (simp add: setIf_def)

lemma Get_Set: "values_Get (values_Set q k v) k' = (if k' = k then v else values_Get q k')"
  by (simp add: values_Get_def values_Set_def update_conv')

lemma Get_setIf: "k' \<noteq> k \<Longrightarrow> values_Get (setIf q k v) k' = values_Get q k'"
  by (simp add: setIf_def Get_Set)

lemma Get_same_map: "same_map q q' \<Longrightarrow> values_Get q k = values_Get q' k"
  by (simp add: same_map_def values_Get_def)

lemma login_query_single: "single (login_query pf c p st vf)"
  unfolding login_query_def Let_def by (auto simp: single_def [of "[_, _, _, _, _, _]"] wf_map_def)

lemma login_query_Get:
  "values_Get (login_query pf c p st vf) ''code_challenge'' = raw_url_encode (pf_sha256 pf vf)"
  "values_Get (login_query pf c p st vf) ''state'' = st"
  "values_Get (login_query pf c p st vf) ''redirect_uri'' = lp_RedirectURI p"
  unfolding login_query_def Let_def
  by (simp_all add: Get_Set Get_setIf) (simp_all add: values_Get_def)

text \<open>\<open>pkceMatches\<close> of the test server, the check the token endpoint applies.\<close>

definition pkceMatches :: "(bytes \<Rightarrow> bytes) \<Rightarrow> string \<Rightarrow> string \<Rightarrow> bool" where
  "pkceMatches sha256 verifier challenge =
     (if verifier = [] \<or> challenge = [] then False else raw_url_encode (sha256 verifier) = challenge)"

lemma BeginLogin_Inr:
  assumes "BeginLogin pf c (w, j) p = (s', Inr rd)"
  shows "\<exists>w1 w2 vf. rd_URL rd = c_baseURL c @ ''/v1/authorize?'' @ values_Encode (login_query pf c p (rd_State rd) vf) \<and>
    store_Put c w2 j \<lparr>pe_State = rd_State rd, pe_Verifier = vf, pe_RedirectURI = lp_RedirectURI p,
      pe_Created = client_now c w2\<rparr> = (s', None) \<and>
    randomToken pf w = (w1, Inr (rd_State rd)) \<and> randomToken pf w1 = (w2, Inr vf)"
  using assms by (auto simp: BeginLogin_def split: if_splits prod.splits sum.splits option.splits)

lemma ascii_raw_url_encode [simp]: "ascii (raw_url_encode bs)"
proof -
  have "sextet_char url62 url63 n < CHR 0x80" if "n < 64" for n
    using that by (auto simp: sextet_char_def less_char_def)
  then show ?thesis using enc_sextets_bound [OF of_char_bound [of bs]]
    by (auto simp: ascii_def raw_url_encode_def)
qed

lemma randomToken_ascii: "randomToken pf w = (w', Inr t) \<Longrightarrow> ascii t"
  by (auto simp: randomToken_def split: prod.splits option.splits)

section \<open>A callback of the browser that began\<close>

lemma cookieStore_Take_cookies: "cookieStore_Take pf w j (request_with (sr_Cookies r)) = cookieStore_Take pf w j r"
  by (simp add: cookieStore_Take_def request_with_def)

lemma cookieStore_Put_world: "cookieStore_Put pf w j p = ((w', j'), None) \<Longrightarrow> w' = w"
  by (auto simp: cookieStore_Put_def split: option.splits)

lemma cookieStore_Take_world: "cookieStore_Take pf w j r = ((w', j'), res) \<Longrightarrow> w' = w"
  by (auto simp: cookieStore_Take_def split: option.splits)

lemma kept_login_taken:
  assumes "store_Put c w0 [] p = ((w1, j1), None)" "o_loginStore (c_opts c) = Some (cookieStore pf)"
    "cookie_storable pf p" "sr_Cookies r = browser j1 br"
  shows "\<exists>j2. cookieStore_Take pf w2 [] r = ((w2, j2), Inr p)"
proof -
  have keep: "cookie_keep pf w0 br p = Some (sr_Cookies r)"
    using assms(1,2,4) by (simp add: cookie_keep_def store_Put_def cookieStore_def)
  from cookie_take_keep [OF assms(3) keep, of w2] cookieStore_Take_world show ?thesis
    by (fastforce simp: cookie_take_def cookieStore_Take_cookies split: prod.splits)
qed

lemma callback_exchanges:
  assumes "cookieStore_Take pf w [] r = ((w, j), Inr p)" "o_loginStore (c_opts c) = Some (cookieStore pf)"
    "values_Get (ParseQuery (sr_RawQuery r)) ''error'' = []" "values_Get (ParseQuery (sr_RawQuery r)) ''state'' = pe_State p"
    "values_Get (ParseQuery (sr_RawQuery r)) ''code'' = code" "code \<noteq> []" "Time_Sub (client_now c w) (pe_Created p) \<le> loginTTL"
  shows "CompleteLogin pf c (w, []) r = (case exchange pf c w p code of (w', res) \<Rightarrow> ((w', j), res))"
  using assms by (simp add: CompleteLogin_def store_Take_def cookieStore_def Let_def)

lemma randomToken_not_Nil:
  assumes "\<forall>w w' b. pf_rand32 pf w = (w', Some b) \<longrightarrow> length b = 32" "randomToken pf w = (w', Inr t)"
  shows "t \<noteq> []"
proof -
  from assms(2) obtain b where "pf_rand32 pf w = (w', Some b)" "t = raw_url_encode b"
    by (auto simp: randomToken_def split: prod.splits option.splits)
  moreover from this(1) assms(1) have "b \<noteq> []" by fastforce
  ultimately show ?thesis by (simp add: raw_url_encode_not_Nil)
qed

end
