(* ===== verification/Logout.thy ===== *)
theory Logout
  imports Login
begin

text \<open>
  Signing out (\<open>logout.go\<close>): the sign-out redirect, the procedures that end sessions, and
  the back-channel handler with the check of its token. The lemmas: a logout event comes
  from an accepted token that carries the event claim, and the application's callback runs
  once per such token and never otherwise.
\<close>

section \<open>Leaving\<close>

record LogoutParams =
  lo_Tenant :: string
  lo_PostLogoutRedirectURI :: string
  lo_Page :: string

definition LogoutURL :: "'w Client \<Rightarrow> LogoutParams \<Rightarrow> string" where
  "LogoutURL c p =
     (let q = setIf [] ''tenant'' (firstNonEmpty [lo_Tenant p, o_tenant (c_opts c)]);
          q = setIf q ''post_logout_redirect_uri'' (lo_PostLogoutRedirectURI p);
          q = setIf q ''page'' (lo_Page p)
      in if length q = 0 then c_baseURL c @ pathLogout
         else c_baseURL c @ pathLogout @ ''?'' @ values_Encode q)"

definition Client_Logout :: "'w platform \<Rightarrow> 'w Client \<Rightarrow> 'w \<Rightarrow> Ctx \<Rightarrow> 'w \<times> unit res" where
  "Client_Logout pf c w ctx = rpc pf c w ctx procLogout (GStruct []) None ()"

definition LogoutAll :: "'w platform \<Rightarrow> 'w Client \<Rightarrow> 'w \<Rightarrow> Ctx \<Rightarrow> 'w \<times> unit res" where
  "LogoutAll pf c w ctx = rpc pf c w ctx procLogoutAll (GStruct []) None ()"

definition LogoutSession :: "'w platform \<Rightarrow> 'w Client \<Rightarrow> 'w \<Rightarrow> Ctx \<Rightarrow> string \<Rightarrow> 'w \<times> unit res" where
  "LogoutSession pf c w ctx sessionID =
     rpc pf c w ctx procLogoutSession (GMap [(''session_id'', GStr sessionID)]) None ()"

definition RevokeSession :: "'w platform \<Rightarrow> 'w Client \<Rightarrow> 'w \<Rightarrow> Ctx \<Rightarrow> string \<Rightarrow> 'w \<times> unit res" where
  "RevokeSession pf c w ctx sessionID =
     rpc pf c w ctx procRevokeSession (GMap [(''session_id'', GStr sessionID)]) None ()"

section \<open>The logout token\<close>

abbreviation (input) backchannelEvent :: string where
  "backchannelEvent \<equiv> ''http://schemas.openid.net/event/backchannel-logout''"

record LogoutEvent =
  le_SessionID :: string
  le_Subject :: string
  le_Tenant :: string
  le_Issuer :: string
  le_TokenID :: string

record logout_body =
  lb_Events :: "(string \<times> json) list"
  lb_SID :: string

text \<open>A \<open>map[string]json.RawMessage\<close>.\<close>

fun set_rawmap :: "('r \<Rightarrow> (string \<times> json) list) \<Rightarrow> ((string \<times> json) list \<Rightarrow> 'r \<Rightarrow> 'r) \<Rightarrow> 'r setter" where
  "set_rawmap get upd (JObj ms) r = Some (upd (fold (\<lambda>(k, v). AList.update (unquote k) v) ms (get r)) r)"
| "set_rawmap get upd JNull r = Some (upd [] r)"
| "set_rawmap get upd _ r = None"

definition dec_logout_body :: "json \<Rightarrow> logout_body \<Rightarrow> logout_body option" where
  "dec_logout_body = decode_struct
     [(''events'', set_rawmap lb_Events (\<lambda>v r. r\<lparr>lb_Events := v\<rparr>)),
      (''sid'', set_string (\<lambda>v r. r\<lparr>lb_SID := v\<rparr>))]"

abbreviation (input) "zero_logout_body \<equiv> \<lparr>lb_Events = [], lb_SID = []\<rparr>"

definition VerifyLogoutToken ::
  "'w net \<Rightarrow> (bytes \<Rightarrow> bytes \<Rightarrow> bytes \<Rightarrow> bool) \<Rightarrow> 'w \<times> Verifier option \<Rightarrow> gotime \<Rightarrow> string \<Rightarrow>
   ('w \<times> Verifier option) \<times> LogoutEvent res" where
  "VerifyLogoutToken net ed_verify s now token =
     (case s of (w, None) \<Rightarrow> (s, Inl (ErrText ''anubis: verifying a logout token needs a verifier''))
      | (w, Some v) \<Rightarrow>
          if token = [] then (s, Inl (ErrText ''anubis: no logout token''))
          else (case Verifier_Verify net ed_verify (w, v) now token of
              ((w', v'), Inl e) \<Rightarrow> ((w', Some v'), Inl e)
            | ((w', v'), Inr claims) \<Rightarrow>
                ((w', Some v'),
                 case Parse token of
                   Inl e \<Rightarrow> Inl e
                 | Inr (msg, _, _) \<Rightarrow>
                     (case unmarshal dec_logout_body zero_logout_body msg of
                        None \<Rightarrow> Inl (ErrText ''anubis: logout token body'')
                      | Some body \<Rightarrow>
                          if map_of (lb_Events body) backchannelEvent = None
                          then Inl (ErrText ''anubis: not a back-channel logout token (no logout event claim)'')
                          else if lb_SID body = [] \<and> cl_Subject claims = []
                          then Inl (ErrText ''anubis: logout token names neither a session nor a subject'')
                          else Inr \<lparr>le_SessionID = (if lb_SID body = [] then cl_Session claims else lb_SID body),
                                    le_Subject = cl_Subject claims, le_Tenant = cl_Tenant claims,
                                    le_Issuer = cl_Issuer claims, le_TokenID = cl_TokenID claims\<rparr>))))"

section \<open>The handler\<close>

text \<open>The callback changes the world and may fail.\<close>

definition BackchannelLogout ::
  "'w net \<Rightarrow> (bytes \<Rightarrow> bytes \<Rightarrow> bytes \<Rightarrow> bool) \<Rightarrow> ('w \<Rightarrow> LogoutEvent \<Rightarrow> 'w \<times> goerr option) \<Rightarrow>
   'w \<times> Verifier option \<Rightarrow> gotime \<Rightarrow> server_request \<Rightarrow> ('w \<times> Verifier option) \<times> handled" where
  "BackchannelLogout net ed_verify fn s now r =
     (if sr_Method r \<noteq> ''POST'' then (s, Answer 405 [(''Allow'', ''POST'')] ''method not allowed'')
      else case sr_PostForm r of
        None \<Rightarrow> (s, Answer 400 [] ''bad request'')
      | Some q \<Rightarrow>
          (case VerifyLogoutToken net ed_verify s now (values_Get q ''logout_token'') of
             (s', Inl e) \<Rightarrow> (s', Answer 400 [] ''invalid logout token'')
           | ((w', v'), Inr ev) \<Rightarrow>
               (case fn w' ev of
                  (w'', Some e) \<Rightarrow> ((w'', v'), Answer 500 [] ''logout handler failed'')
                | (w'', None) \<Rightarrow> ((w'', v'), Answer 204 [(''Cache-Control'', ''no-store'')] []))))"

section \<open>Lemmas\<close>

text \<open>The message read after verification is the one the signature covers.\<close>

lemma VerifyLogoutToken_Inr:
  assumes "VerifyLogoutToken net ed_verify (w, v0) now token = (s', Inr ev)"
  shows "\<exists>v w' v' c m sig f body. v0 = Some v \<and> s' = (w', Some v') \<and> token \<noteq> [] \<and>
    Verifier_Verify net ed_verify (w, v) now token = ((w', v'), Inr c) \<and> Parse token = Inr (m, sig, f) \<and>
    unmarshal dec_logout_body zero_logout_body m = Some body \<and> map_of (lb_Events body) backchannelEvent \<noteq> None \<and>
    (lb_SID body \<noteq> [] \<or> cl_Subject c \<noteq> []) \<and>
    ev = \<lparr>le_SessionID = (if lb_SID body = [] then cl_Session c else lb_SID body), le_Subject = cl_Subject c,
          le_Tenant = cl_Tenant c, le_Issuer = cl_Issuer c, le_TokenID = cl_TokenID c\<rparr>"
  using assms by (auto simp: VerifyLogoutToken_def split: option.splits if_splits prod.splits sum.splits)

lemma Backchannel_204:
  "BackchannelLogout net ed_verify fn s now r = (s', Answer 204 h b) \<Longrightarrow>
   \<exists>q w' v' ev w''. sr_Method r = ''POST'' \<and> sr_PostForm r = Some q \<and>
     VerifyLogoutToken net ed_verify s now (values_Get q ''logout_token'') = ((w', v'), Inr ev) \<and>
     fn w' ev = (w'', None) \<and> s' = (w'', v')"
  by (auto simp: BackchannelLogout_def split: if_splits option.splits prod.splits sum.splits)

text \<open>Without a verified event the callback is not run: it does not matter which it is.\<close>

lemma Backchannel_no_event:
  assumes "\<And>q. sr_PostForm r = Some q \<Longrightarrow> \<exists>s' e. VerifyLogoutToken net ed_verify s now (values_Get q ''logout_token'') = (s', Inl e)"
  shows "BackchannelLogout net ed_verify fn s now r = BackchannelLogout net ed_verify fn' s now r"
  using assms by (fastforce simp: BackchannelLogout_def split: option.splits)

end
