(* ===== verification/Mint.thy ===== *)
theory Mint
  imports Logout
begin

text \<open>
  The issuing side the SDK ships for tests (\<open>anubistest/server.go\<close>): \<open>MintToken\<close>,
  \<open>MintLogoutToken\<close> and the published keys document. They write what the offline half reads,
  so the lemmas are round trips: the claims written are the claims decoded, the document
  parses to the one key, and a minted token passes \<open>verify_token\<close> as long as it lives.

  The Ed25519 primitives stay parameters; \<open>ed_pair\<close> states what their documentation says of
  a key pair: a signature has 64 bytes and verifies under the public half.
\<close>

definition ed_pair :: "(bytes \<Rightarrow> bytes \<Rightarrow> bytes) \<Rightarrow> (bytes \<Rightarrow> bytes \<Rightarrow> bytes \<Rightarrow> bool) \<Rightarrow> bytes \<Rightarrow> bytes \<Rightarrow> bool" where
  "ed_pair ed_sign ed_verify sk pk \<longleftrightarrow>
     length sk = PrivateKeySize \<and> length pk = PublicKeySize \<and>
     (\<forall>m. length (ed_sign sk m) = SignatureSize \<and> ed_verify pk m (ed_sign sk m))"

section \<open>Writing\<close>

definition Kid :: string where "Kid = ''test-key-1''"

text \<open>An \<open>omitempty\<close> member, and a slice, which is \<open>null\<close> when nil.\<close>

definition omitempty :: "bool \<Rightarrow> string \<Rightarrow> goval \<Rightarrow> (string \<times> goval) list" where
  "omitempty zero k v = (if zero then [] else [(k, v)])"

definition gslice :: "string list \<Rightarrow> goval" where
  "gslice xs = (if xs = [] then GNull else gstrs xs)"

definition Claims_json :: "Claims \<Rightarrow> goval" where
  "Claims_json c = GStruct
     ([(''iss'', GStr (cl_Issuer c)), (''sub'', GStr (cl_Subject c)), (''aud'', gslice (cl_Audience c)),
       (''exp'', GInt (cl_Expires c)), (''iat'', GInt (cl_IssuedAt c)), (''nbf'', GInt (cl_NotBefore c)),
       (''jti'', GStr (cl_TokenID c)), (''sid'', GStr (cl_Session c)), (''tid'', GStr (cl_Tenant c))] @
      omitempty (cl_Roles c = []) ''roles'' (gstrs (cl_Roles c)) @
      omitempty (cl_Scope c = []) ''scp'' (GStr (cl_Scope c)) @
      omitempty (cl_Scopes c = []) ''scopes'' (gsmap (cl_Scopes c)) @
      omitempty (cl_Realm c = []) ''realm'' (GStr (cl_Realm c)) @
      omitempty (cl_IAL c = 0) ''ial'' (GInt (cl_IAL c)) @
      omitempty (cl_AMR c = []) ''amr'' (gstrs (cl_AMR c)) @
      omitempty (cl_AuthTime c = 0) ''auth_time'' (GInt (cl_AuthTime c)) @
      [(''epoch'', GInt (cl_Epoch c)), (''ver'', GInt (cl_Version c))])"

text \<open>The claims signed: unset issuer and times are filled in.\<close>

definition minted :: "string \<Rightarrow> gotime \<Rightarrow> Claims \<Rightarrow> Claims" where
  "minted issuer now c = c
     \<lparr>cl_Issuer := (if cl_Issuer c = [] then issuer else cl_Issuer c),
      cl_Expires := (if cl_Expires c = 0 then Time_Unix (now + 600 * second) else cl_Expires c),
      cl_IssuedAt := (if cl_IssuedAt c = 0 then Time_Unix now else cl_IssuedAt c),
      cl_AuthTime := (if cl_AuthTime c = 0 then Time_Unix now else cl_AuthTime c)\<rparr>"

definition kid_footer :: bytes where
  "kid_footer = marshal (gsmap [(''kid'', Kid)])"

definition MintToken :: "(bytes \<Rightarrow> bytes \<Rightarrow> bytes) \<Rightarrow> bytes \<Rightarrow> string \<Rightarrow> gotime \<Rightarrow> Claims \<Rightarrow> string res" where
  "MintToken ed_sign sk issuer now c =
     Sign ed_sign sk (marshal (Claims_json (minted issuer now c))) kid_footer []"

definition logout_json :: "string \<Rightarrow> gotime \<Rightarrow> string \<Rightarrow> string \<Rightarrow> string \<Rightarrow> goval" where
  "logout_json issuer now audience subject sessionID = GMap
     [(''iss'', GStr issuer), (''aud'', gstrs [audience]), (''iat'', GInt (Time_Unix now)),
      (''exp'', GInt (Time_Unix (now + 120 * second))), (''jti'', GStr ''jti_test''),
      (''sub'', GStr subject), (''sid'', GStr sessionID),
      (''events'', GMap [(backchannelEvent, GMap [])])]"

definition MintLogoutToken ::
  "(bytes \<Rightarrow> bytes \<Rightarrow> bytes) \<Rightarrow> bytes \<Rightarrow> string \<Rightarrow> gotime \<Rightarrow> string \<Rightarrow> string \<Rightarrow> string \<Rightarrow> string res" where
  "MintLogoutToken ed_sign sk issuer now audience subject sessionID =
     Sign ed_sign sk (marshal (logout_json issuer now audience subject sessionID)) kid_footer []"

definition keys_json :: "string \<Rightarrow> bytes \<Rightarrow> goval" where
  "keys_json issuer pk = GMap
     [(''issuer'', GStr issuer),
      (''keys'', GList [GMap [(''kid'', GStr Kid), (''alg'', GStr ''Ed25519''),
         (''public_key'', GStr (raw_url_encode pk))]])]"

definition test_key :: "bytes \<Rightarrow> key_entry" where
  "test_key pk = \<lparr>ke_pk = pk, ke_notBefore = 0, ke_notAfter = 0\<rparr>"

section \<open>Reading back\<close>

text \<open>Strings are ASCII, map keys distinct, numbers int64: what the round trips ask of claims.\<close>

definition plain_Claims :: "Claims \<Rightarrow> bool" where
  "plain_Claims c \<longleftrightarrow>
     list_all ascii [cl_Issuer c, cl_Subject c, cl_TokenID c, cl_Session c, cl_Tenant c, cl_Scope c, cl_Realm c] \<and>
     list_all (list_all ascii) [cl_Audience c, cl_Roles c, cl_AMR c] \<and>
     wf_map (cl_Scopes c) \<and> (\<forall>(k, v) \<in> set (cl_Scopes c). ascii k \<and> ascii v) \<and>
     list_all in64 [cl_Expires c, cl_IssuedAt c, cl_NotBefore c, cl_IAL c, cl_AuthTime c, cl_Epoch c, cl_Version c]"

lemma unmarshal_marshal: "ascii_val v \<Longrightarrow> unmarshal dec zero (marshal v) = dec (to_json v) zero"
  by (simp add: unmarshal_def parse_marshal)

lemma decode_first_marshal: "ascii_val v \<Longrightarrow> decode_first dec zero (marshal v) = dec (to_json v) zero"
  using parses_value [OF parses_marshal [of v "[]"]] by (simp add: decode_first_def)

lemma decode_append: "decode_members fs (xs @ ys) r = Option.bind (decode_members fs xs r) (decode_members fs ys)"
  by (induction fs xs r rule: decode_members.induct) (auto split: option.splits)

lemma those_strings: "list_all ascii xs \<Longrightarrow> those (map (to_string \<circ> (to_json \<circ> GStr)) xs) = Some xs"
  by (induction xs) simp_all

lemma set_strings_gslice:
  "list_all ascii xs \<Longrightarrow> set_strings upd (to_json (gslice xs)) r = Some (upd xs r)"
  "list_all ascii xs \<Longrightarrow> set_strings upd (to_json (gstrs xs)) r = Some (upd xs r)"
  by (simp_all add: gslice_def gstrs_def those_strings)

lemma to_smap_members:
  "\<forall>(k, v) \<in> set xs. ascii k \<and> ascii v \<Longrightarrow> distinct (map fst xs) \<Longrightarrow> fst ` set xs \<inter> fst ` set m = {} \<Longrightarrow>
   to_smap (JObj (map (\<lambda>(k, v). (escape k, JStr (escape v))) xs)) m = Some (m @ xs)"
proof (induction xs arbitrary: m)
  case (Cons x xs)
  obtain k v where x: "x = (k, v)" by (cases x)
  with Cons.prems have "AList.update k v m = m @ [(k, v)]" by (auto intro: update_fresh)
  with Cons.IH [of "m @ [(k, v)]"] Cons.prems x show ?case by force
qed simp

lemma to_json_gsmap: "to_json (gsmap m) = JObj (map (\<lambda>(k, v). (escape k, JStr (escape v))) (sort_key fst m))"
proof -
  let ?g = "\<lambda>x. (fst x, escape (fst x), JStr (escape (snd x)))"
  have "sort_key fst (map ?g m) = map ?g (sort_key fst m)" by (rule sort_key_map) auto
  then show ?thesis by (simp add: gsmap_def comp_def case_prod_beta)
qed

lemma set_smap_gsmap:
  assumes "wf_map m" "\<forall>(k, v) \<in> set m. ascii k \<and> ascii v" "get r = []"
  shows "set_smap get upd (to_json (gsmap m)) r = Some (upd (sort_key fst m) r)"
proof -
  have "distinct (map fst (sort_key fst m))"
    using assms(1) by (simp add: wf_map_def distinct_map distinct_sort inj_on_def)
  with to_smap_members [of "sort_key fst m" "[]"] assms show ?thesis
    by (simp add: set_smap_def to_json_gsmap)
qed

section \<open>The round trips\<close>

lemma keys_document_parses:
  assumes "ascii issuer" "length pk = 32"
  shows "ParseDocument (marshal (keys_json issuer pk)) issuer = Inr [(Kid, test_key pk)]"
proof -
  have a: "ascii_val (keys_json issuer pk)" using assms by (simp add: keys_json_def Kid_def)
  have d: "dec_Document (to_json (keys_json issuer pk)) zero_Document =
    Some \<lparr>do_Issuer = issuer, do_Keys = [\<lparr>en_Kid = Kid, en_Alg = ''Ed25519'', en_PublicKey = raw_url_encode pk,
      en_NotBefore = 0, en_NotAfter = 0\<rparr>]\<rparr>"
    using assms by (simp add: keys_json_def Kid_def dec_Document_def dec_Entry_def field_for_def zero_Document_def zero_Entry_def)
  show ?thesis using assms
    by (simp add: ParseDocument_def unmarshal_marshal [OF a] d maxKeys_def test_key_def)
qed

lemma kid_footer_reads [simp]: "footer_kid kid_footer = Inr Kid"
proof -
  have a: "ascii_val (gsmap [(''kid'', Kid)])" by (simp add: gsmap_def Kid_def)
  have "unmarshal dec_footer [] kid_footer = Some Kid"
    unfolding kid_footer_def unmarshal_marshal [OF a] to_json_gsmap
    by (simp add: dec_footer_def field_for_def Kid_def)
  then show ?thesis by (simp add: footer_kid_def kid_footer_def gsmap_def)
qed

text \<open>An omitted member leaves the zero value, which is what it would have set.\<close>

lemma decode_omitempty:
  assumes "field_for fs k = Some f" "f (to_json v) r = Some r'" "zero \<Longrightarrow> r' = r" "ascii k"
  shows "decode_members fs (map (\<lambda>(k, v). (escape k, to_json v)) (omitempty zero k v)) r = Some r'"
  using assms by (cases zero) (simp_all add: omitempty_def)

lemma claims_decode:
  assumes p: "plain_Claims c"
  shows "dec_Claims (to_json (Claims_json c)) zero_Claims = Some (c\<lparr>cl_Scopes := sort_key fst (cl_Scopes c)\<rparr>)"
proof -
  note [simp] = set_strings_gslice set_smap_gsmap
  have a: "list_all ascii (cl_Audience c)" "list_all ascii (cl_Roles c)" "list_all ascii (cl_AMR c)"
    "wf_map (cl_Scopes c)" "\<forall>(k, v) \<in> set (cl_Scopes c). ascii k \<and> ascii v"
    using p by (simp_all add: plain_Claims_def)
  note s = p [unfolded plain_Claims_def, simplified]
  show ?thesis
    unfolding dec_Claims_def Claims_json_def to_json.simps decode_struct.simps map_append decode_append
    using s by (simp add: field_for_def decode_omitempty zero_Claims_def a)
qed

lemma ascii_gstrs [simp]: "ascii_val (gstrs xs) \<longleftrightarrow> list_all ascii xs" "list_all ascii xs \<Longrightarrow> ascii_val (gslice xs)"
  by (simp_all add: gstrs_def gslice_def list.pred_map comp_def)

lemma claims_json_ascii: "plain_Claims c \<Longrightarrow> ascii_val (Claims_json c)"
  by (auto simp: plain_Claims_def Claims_json_def omitempty_def gsmap_def list_all_iff)

lemma minted_plain: "plain_Claims c \<Longrightarrow> ascii issuer \<Longrightarrow> plain_Claims (minted issuer now c)"
  by (simp add: plain_Claims_def minted_def)

lemma Sign_not_Nil: "Sign ed_sign sk m f i = Inr tok \<Longrightarrow> tok \<noteq> []"
  by (auto simp: Sign_def Let_def headerV4Public_def split: if_splits)

lemma signed_parses:
  assumes "ed_pair ed_sign ed_verify sk pk" "Sign ed_sign sk m kid_footer [] = Inr tok"
  shows "Parse tok = Inr (m, ed_sign sk (pae [headerV4Public, m, kid_footer, []]), kid_footer)"
  using assms by (simp add: ed_pair_def Parse_Sign)

text \<open>A signed token whose key the source hands out: only the claims decide.\<close>

lemma signed_token_verdict:
  assumes k: "ed_pair ed_sign ed_verify sk pk" "Sign ed_sign sk m kid_footer [] = Inr tok"
    and "key_at s Kid now = (s', Inr pk)" "parseClaims m = Inr c" "cl_Version c \<in> {0, 1}"
  shows "verify_token key_at ed_verify issuer audience leeway s now tok =
    (s', case Claims_Validate c now issuer audience leeway of Some e \<Rightarrow> Inl e | None \<Rightarrow> Inr c)"
proof -
  have "Verify ed_verify pk tok [] = Inr (m, kid_footer)"
    using k(1) signed_parses [OF k] by (simp add: Verify_Inr ed_pair_def)
  with assms show ?thesis by (auto simp: verify_token_def signed_parses [OF k])
qed

lemma minted_message:
  "plain_Claims c \<Longrightarrow> ascii issuer \<Longrightarrow> parseClaims (marshal (Claims_json (minted issuer now c))) =
     Inr ((minted issuer now c)\<lparr>cl_Scopes := sort_key fst (cl_Scopes c)\<rparr>)"
  using claims_decode [OF minted_plain] claims_json_ascii [OF minted_plain]
  by (simp add: parseClaims_def decode_first_marshal minted_def)

definition logout_claims :: "string \<Rightarrow> gotime \<Rightarrow> string \<Rightarrow> string \<Rightarrow> string \<Rightarrow> Claims" where
  "logout_claims issuer now audience subject sessionID = zero_Claims
     \<lparr>cl_Issuer := issuer, cl_Audience := [audience], cl_IssuedAt := Time_Unix now,
      cl_Expires := Time_Unix (now + 120 * second), cl_TokenID := ''jti_test'', cl_Subject := subject,
      cl_Session := sessionID\<rparr>"

lemma lower_letters: "CHR ''a'' \<le> c \<Longrightarrow> toLower_byte c = c"
  by (auto simp: toLower_byte_def less_eq_char_def)

lemma escape_event: "escape backchannelEvent = backchannelEvent"
  by simp

lemma unquote_event: "unquote backchannelEvent = backchannelEvent"
  by (rule unquote_escape [of backchannelEvent, unfolded escape_event]) simp

lemma logout_decode:
  assumes "ascii issuer" "ascii audience" "ascii subject" "ascii sessionID"
  shows "parseClaims (marshal (logout_json issuer now audience subject sessionID)) =
      Inr (logout_claims issuer now audience subject sessionID)"
    and "unmarshal dec_logout_body zero_logout_body (marshal (logout_json issuer now audience subject sessionID)) =
      Some \<lparr>lb_Events = [(backchannelEvent, JObj [])], lb_SID = sessionID\<rparr>"
proof -
  let ?v = "logout_json issuer now audience subject sessionID"
  have a: "ascii_val ?v" using assms by (simp add: logout_json_def)
  have j: "to_json ?v = JObj
     [(''aud'', to_json (gstrs [audience])), (''events'', JObj [(escape backchannelEvent, JObj [])]),
      (''exp'', to_json (GInt (Time_Unix (now + 120 * second)))), (''iat'', to_json (GInt (Time_Unix now))),
      (''iss'', to_json (GStr issuer)), (''jti'', to_json (GStr ''jti_test'')), (''sid'', to_json (GStr sessionID)),
      (''sub'', to_json (GStr subject))]"
    by (simp add: logout_json_def)
  show "parseClaims (marshal ?v) = Inr (logout_claims issuer now audience subject sessionID)" using assms
    by (simp add: parseClaims_def decode_first_marshal [OF a] j dec_Claims_def field_for_def zero_Claims_def
        logout_claims_def set_strings_gslice lower_letters)
  show "unmarshal dec_logout_body zero_logout_body (marshal ?v) =
      Some \<lparr>lb_Events = [(backchannelEvent, JObj [])], lb_SID = sessionID\<rparr>" using assms
    by (simp add: unmarshal_marshal [OF a] j dec_logout_body_def field_for_def lower_letters unquote_event)
qed

text \<open>An access token carries no logout event.\<close>

lemma decode_unknown:
  assumes "field_for fs k = None" "ascii k"
  shows "decode_members fs (map (\<lambda>(k, v). (escape k, to_json v)) (omitempty zero k v)) r = Some r"
  using assms by (simp add: omitempty_def)

lemma claims_no_event:
  assumes "plain_Claims c"
  shows "unmarshal dec_logout_body zero_logout_body (marshal (Claims_json c)) = Some \<lparr>lb_Events = [], lb_SID = cl_Session c\<rparr>"
proof -
  have "ascii (cl_Session c)" using assms by (simp add: plain_Claims_def)
  then have "dec_logout_body (to_json (Claims_json c)) zero_logout_body = Some \<lparr>lb_Events = [], lb_SID = cl_Session c\<rparr>"
    unfolding dec_logout_body_def Claims_json_def to_json.simps decode_struct.simps map_append decode_append
    by (simp add: field_for_def lower_letters decode_unknown)
  then show ?thesis by (simp only: unmarshal_marshal [OF claims_json_ascii [OF assms]])
qed

section \<open>Lifetimes\<close>

text \<open>A clock reading between year 1 and a date no clock reaches: nothing wraps around.\<close>

definition clock_ok :: "gotime \<Rightarrow> bool" where
  "clock_ok now \<longleftrightarrow> 0 \<le> now \<and> now < 2 ^ 62 * second"

lemma clock_div: "clock_ok now \<Longrightarrow> 0 \<le> now div second \<and> now div second < 2 ^ 62"
proof -
  assume a: "clock_ok now"
  have "q < 2 ^ 62" if "q * second + r = now" "0 \<le> r" for q r
    using a that unfolding clock_ok_def by linarith
  from this [OF div_mult_mod_eq] a show ?thesis by (simp add: clock_ok_def pos_imp_zdiv_nonneg_iff)
qed

lemma clock_Unix:
  assumes "clock_ok now"
  shows "Time_Unix now = now div second - unixToInternal"
proof -
  from clock_div [OF assms] show ?thesis by (simp add: Time_Unix_def unixToInternal_def in64_def)
qed

lemma clock_later:
  assumes "clock_ok now" "0 \<le> k" "k < 2 ^ 32"
  shows "Time_Unix (now + k * second) = Time_Unix now + k"
proof -
  from clock_div [OF assms(1)] show ?thesis using assms(2,3) by (simp add: Time_Unix_def unixToInternal_def in64_def)
qed

lemma leeway_bound: "leeway_ok leeway \<Longrightarrow> 0 \<le> leeway sdiv second \<and> leeway sdiv second < 2 ^ 34"
  by (auto simp: leeway_ok_def in64_def signed_divide_int_def sgn_if)

text \<open>What \<open>Validate\<close> says of claims that expire \<open>k\<close> seconds after they were minted.\<close>

lemma Validate_lifetime:
  assumes "cl_Expires c = Time_Unix (now + k * second)" "cl_Expires c \<noteq> 0" "cl_NotBefore c = 0"
    "cl_Issuer c = issuer" "audience \<in> set (cl_Audience c)" "audience \<noteq> []"
    and t: "clock_ok now" "clock_ok now'" "0 \<le> k" "k < 2 ^ 32" "leeway_ok leeway"
  shows "Claims_Validate c now' issuer audience leeway =
    (if Time_Unix now' \<le> Time_Unix now + k + leeway sdiv second then None else Some ErrExpired)"
proof -
  from clock_div [OF t(1)] t leeway_bound [OF t(5)] clock_Unix [OF t(1)]
  have "in64 (Time_Unix now + k + leeway sdiv second)" by (simp add: in64_def unixToInternal_def)
  with assms clock_later [OF t(1,3,4)] show ?thesis
    by (simp add: Claims_Validate_def Let_def)
qed

text \<open>A verifier pinned to the keys document the issuer publishes.\<close>

lemma pinned_verifier:
  assumes "ascii issuer" "length pk = 32" "ParseDocument (marshal (keys_json issuer pk)) issuer = Inr ks"
    and "cfg_KeysURL cfg = []" "cfg_StaticKeys cfg = Some ks" "NewVerifier url_parse ip_loopback cfg = Inr v"
  shows "cfg_Issuer (v_cfg v) = cfg_Issuer cfg" "cfg_Audience (v_cfg v) = cfg_Audience cfg" "cfg_Audience cfg \<noteq> []"
    "Verifier_key net (w, v) Kid now = ((w, v), Inr pk)"
proof -
  have ks: "ks = [(Kid, test_key pk)]" using assms(3) keys_document_parses [OF assms(1,2)] by simp
  show v: "cfg_Issuer (v_cfg v) = cfg_Issuer cfg" "cfg_Audience (v_cfg v) = cfg_Audience cfg" "cfg_Audience cfg \<noteq> []"
    using assms by (auto simp: NewVerifier_def Let_def split: if_splits)
  have "cfg_StaticKeys (v_cfg v) = Some ks"
    using assms by (auto simp: NewVerifier_def Let_def split: if_splits)
  then show "Verifier_key net (w, v) Kid now = ((w, v), Inr pk)"
    by (simp add: Verifier_key_def ks test_key_def Set_GetAt_def)
qed

end
