(* ===== verification/Demo.thy ===== *)
theory Demo
  imports Mint
begin

text \<open>
  Concrete values the witnesses share: a key pair under a toy signature (the first 64 bytes of
  the padded message), a key set, a verifier built from it and tokens minted with it. Nothing
  here models code.
\<close>

definition demo_sign :: "bytes \<Rightarrow> bytes \<Rightarrow> bytes" where
  "demo_sign sk m = take 64 (m @ replicate 64 (CHR ''.''))"

definition demo_verify :: "bytes \<Rightarrow> bytes \<Rightarrow> bytes \<Rightarrow> bool" where
  "demo_verify pk m sig \<longleftrightarrow> sig = take 64 (m @ replicate 64 (CHR ''.''))"

definition demo_sk :: bytes where "demo_sk = replicate 64 (CHR ''s'')"
definition demo_pk :: bytes where "demo_pk = replicate 32 (CHR ''p'')"

lemma demo_pair [simp]: "ed_pair demo_sign demo_verify demo_sk demo_pk"
  by (simp add: ed_pair_def demo_sign_def demo_verify_def demo_sk_def demo_pk_def min_def)

definition demo_keys :: key_set where "demo_keys = [(Kid, test_key demo_pk)]"

lemma demo_keys_parse [simp]: "ParseDocument (marshal (keys_json ''anubis'' demo_pk)) ''anubis'' = Inr demo_keys"
  by (simp add: keys_document_parses demo_pk_def demo_keys_def)

definition demo_cfg :: Config where
  "demo_cfg = \<lparr>cfg_Issuer = ''anubis'', cfg_Audience = ''billing'', cfg_KeysURL = [],
     cfg_StaticKeys = Some demo_keys, cfg_Leeway = 60 * second\<rparr>"

definition demo_verifier :: Verifier where
  "demo_verifier = \<lparr>v_cfg = demo_cfg, v_cache = None\<rparr>"

lemma demo_NewVerifier [simp]: "NewVerifier up ip demo_cfg = Inr demo_verifier"
  by (simp add: NewVerifier_def demo_cfg_def demo_verifier_def)

definition demo_claims :: Claims where
  "demo_claims = zero_Claims\<lparr>cl_Subject := ''usr_1'', cl_Audience := [''billing''], cl_Session := ''ses_1''\<rparr>"

lemma demo_plain [simp]: "plain_Claims demo_claims"
  by (simp add: plain_Claims_def demo_claims_def zero_Claims_def wf_map_def in64_def)

lemma demo_fields [simp]:
  "cl_Issuer demo_claims = []" "cl_Expires demo_claims = 0" "cl_NotBefore demo_claims = 0" "cl_Version demo_claims = 0"
  "cl_Audience demo_claims = [''billing'']" "cl_Scopes demo_claims = []" "cl_Session demo_claims = ''ses_1''"
  "cl_Subject demo_claims = ''usr_1''" "cl_AuthTime demo_claims = 0"
  "cfg_Issuer demo_cfg = ''anubis''" "cfg_KeysURL demo_cfg = []" "cfg_StaticKeys demo_cfg = Some demo_keys"
  "cfg_Audience demo_cfg = ''billing''" "v_cfg demo_verifier = demo_cfg" "v_cache demo_verifier = None"
  "cfg_Leeway demo_cfg = 60000000000"
  by (simp_all add: demo_claims_def zero_Claims_def demo_cfg_def demo_verifier_def)

text \<open>A clock reading: 2 billion seconds after the epoch.\<close>

definition demo_now :: gotime where "demo_now = time_Unix 2000000000"

lemma demo_clock [simp]: "clock_ok demo_now" "Time_Unix demo_now = 2000000000"
  by (simp_all add: demo_now_def clock_ok_def time_Unix_def Time_Unix_def unixToInternal_def in64_def)

lemma demo_since: "unixToInternal * second \<le> demo_now"
  by (simp add: demo_now_def time_Unix_def unixToInternal_def in64_def)

lemma demo_leeway [simp]: "leeway_ok 60000000000"
  by (simp add: leeway_ok_def in64_def)

definition demo_token :: string where
  "demo_token = (case MintToken demo_sign demo_sk ''anubis'' demo_now demo_claims of Inr t \<Rightarrow> t | Inl _ \<Rightarrow> [])"

definition demo_logout_token :: string where
  "demo_logout_token = (case MintLogoutToken demo_sign demo_sk ''anubis'' demo_now ''billing'' ''usr_1'' ''ses_1'' of
     Inr t \<Rightarrow> t | Inl _ \<Rightarrow> [])"

lemma demo_sk_length [simp]: "length demo_sk = 64"
  by (simp add: demo_sk_def)

lemma demo_minted [simp]:
  "MintToken demo_sign demo_sk ''anubis'' demo_now demo_claims = Inr demo_token"
  "MintLogoutToken demo_sign demo_sk ''anubis'' demo_now ''billing'' ''usr_1'' ''ses_1'' = Inr demo_logout_token"
  unfolding demo_token_def demo_logout_token_def MintToken_def MintLogoutToken_def
  by (simp_all only: Sign_def demo_sk_length simp_thms if_False Let_def sum.case)

lemma demo_verifies:
  "Verifier_Verify net demo_verify (w, demo_verifier) demo_now demo_token =
    ((w, demo_verifier), Inr ((minted ''anubis'' demo_now demo_claims)\<lparr>cl_Scopes := []\<rparr>))"
proof -
  let ?c = "(minted ''anubis'' demo_now demo_claims)\<lparr>cl_Scopes := []\<rparr>"
  have v: "Claims_Validate ?c demo_now ''anubis'' ''billing'' 60000000000 = None"
    using Validate_lifetime [of ?c demo_now 600 "''anubis''" "''billing''" demo_now 60000000000]
      clock_later [OF demo_clock(1), of 600]
    by (simp add: minted_def)
  have k: "Verifier_key net (w, demo_verifier) Kid demo_now = ((w, demo_verifier), Inr demo_pk)"
    by (simp add: Verifier_key_def demo_keys_def test_key_def Set_GetAt_def)
  have p: "parseClaims (marshal (Claims_json (minted ''anubis'' demo_now demo_claims))) = Inr ?c"
    using minted_message [of demo_claims "''anubis''" demo_now] by simp
  show ?thesis
    using signed_token_verdict [where key_at = "Verifier_key net",
        OF demo_pair demo_minted(1) [unfolded MintToken_def] k p, of "''anubis''" "''billing''" 60000000000] v
    by (simp add: Verifier_Verify_def minted_def)
qed

end
