(* ===== verification/Cache_Flight.thy ===== *)
theory Cache_Flight
  imports Keys
begin

text \<open>
  The keys cache under concurrent callers (\<open>keys/key_cache.go\<close>). Any number of goroutines
  run \<open>GetAt\<close>; a step of \<open>flight_step\<close> is one goroutine passing one critical section of
  the mutex, the outcome of the fetch it runs without the lock, or its cancellation. The
  steps use the very operations of theory \<open>Keys\<close>.

  The ghost fields record what the code does not: \<open>cs_starts\<close> the instants at which fetches
  were started, newest first, and \<open>cs_panicked\<close> whether a fetch ended in a panic.

  The lemmas: the flight is held by one goroutine at most, it is released on every way out,
  and fetches that did not panic are spaced by the refetch budget whatever kids arrive.
\<close>

section \<open>Goroutines and steps\<close>

datatype cpc =
    CIdle
  | CStart string gotime
  | CMiss string gotime bool
  | CWaiting nat string gotime bool
  | CFlying string gotime bool
  | CCommitted string gotime bool "goerr option"
  | CReady string gotime bool "goerr option"
  | CDone "bytes res"

record csys =
  cs_cache :: Cache
  cs_pc :: "nat \<Rightarrow> cpc"
  cs_starts :: "gotime list"
  cs_panicked :: bool

definition csys_init :: "Cache \<Rightarrow> csys" where
  "csys_init kc = \<lparr>cs_cache = kc, cs_pc = (\<lambda>_. CIdle), cs_starts = [], cs_panicked = False\<rparr>"

definition goto :: "csys \<Rightarrow> nat \<Rightarrow> cpc \<Rightarrow> csys" where
  "goto s i p = s\<lparr>cs_pc := (cs_pc s)(i := p)\<rparr>"

definition fetch_outcome :: "Cache \<Rightarrow> key_set res \<Rightarrow> bool" where
  "fetch_outcome kc r \<longleftrightarrow> (\<forall>ks. r = Inr ks \<longrightarrow> (\<exists>raw. ParseDocument raw (kc_Issuer kc) = Inr ks))"

definition err_of :: "'a res \<Rightarrow> goerr option" where
  "err_of r = (case r of Inl e \<Rightarrow> Some e | Inr _ \<Rightarrow> None)"

inductive flight_step :: "csys \<Rightarrow> csys \<Rightarrow> bool" where
  call: "cs_pc s i = CIdle \<or> cs_pc s i = CDone d \<Longrightarrow> flight_step s (goto s i (CStart kid now))"
| hit: "cs_pc s i = CStart kid now \<Longrightarrow> hot_lookup (cs_cache s) kid now = Some pk \<Longrightarrow>
     flight_step s (goto s i (CDone (Inr pk)))"
| miss: "cs_pc s i = CStart kid now \<Longrightarrow> hot_lookup (cs_cache s) kid now = None \<Longrightarrow>
     flight_step s (goto s i (CMiss kid now (kc_set (cs_cache s) \<noteq> None)))"
| wait: "cs_pc s i = CMiss kid now had \<Longrightarrow> refetch_enter (cs_cache s) now = (kc', Wait) \<Longrightarrow>
     flight_step s (goto s i (CWaiting (length (cs_starts s)) kid now had))"
| throttled: "cs_pc s i = CMiss kid now had \<Longrightarrow> refetch_enter (cs_cache s) now = (kc', Throttled e) \<Longrightarrow>
     flight_step s (goto s i (CReady kid now had e))"
| fly: "cs_pc s i = CMiss kid now had \<Longrightarrow> refetch_enter (cs_cache s) now = (kc', Fly) \<Longrightarrow>
     flight_step s ((goto s i (CFlying kid now had))\<lparr>cs_cache := kc', cs_starts := now # cs_starts s\<rparr>)"
| commit: "cs_pc s i = CFlying kid now had \<Longrightarrow> fetch_outcome (cs_cache s) r \<Longrightarrow>
     flight_step s ((goto s i (CCommitted kid now had (err_of r)))
       \<lparr>cs_cache := refetch_commit (cs_cache s) now r\<rparr>)"
| release: "cs_pc s i = CCommitted kid now had e \<Longrightarrow>
     flight_step s ((goto s i (CReady kid now had e))\<lparr>cs_cache := refetch_release (cs_cache s)\<rparr>)"
| panic: "cs_pc s i = CFlying kid now had \<Longrightarrow>
     flight_step s ((goto s i CIdle)\<lparr>cs_cache := refetch_release (cs_cache s), cs_panicked := True\<rparr>)"
| wake: "cs_pc s i = CWaiting n kid now had \<Longrightarrow>
     n < length (cs_starts s) \<or> \<not> kc_inflight (cs_cache s) \<Longrightarrow>
     flight_step s (goto s i (CReady kid now had (kc_lastErr (cs_cache s))))"
| cancelled: "cs_pc s i = CWaiting n kid now had \<Longrightarrow>
     flight_step s (goto s i (CReady kid now had (Some (ErrOther ''context''))))"
| finish: "cs_pc s i = CReady kid now had e \<Longrightarrow>
     flight_step s (goto s i (CDone (GetAt_finish had e (cs_cache s) kid now)))"

inductive flight_reachable :: "Cache \<Rightarrow> csys \<Rightarrow> bool" for kc where
  start: "flight_reachable kc (csys_init kc)"
| step: "flight_reachable kc s \<Longrightarrow> flight_step s t \<Longrightarrow> flight_reachable kc t"

section \<open>The invariant\<close>

fun holds_flight :: "cpc \<Rightarrow> bool" where
  "holds_flight (CFlying _ _ _) = True"
| "holds_flight (CCommitted _ _ _ _) = True"
| "holds_flight _ = False"

definition budget :: "Cache \<Rightarrow> duration" where
  "budget kc = min (minRefetch kc) (minRetry kc)"

fun spaced :: "duration \<Rightarrow> gotime list \<Rightarrow> bool" where
  "spaced d (t # u # ts) = (u + d \<le> t \<and> spaced d (u # ts))"
| "spaced d _ = True"

definition one_flight :: "csys \<Rightarrow> bool" where
  "one_flight s \<longleftrightarrow>
     (\<forall>i j. holds_flight (cs_pc s i) \<longrightarrow> holds_flight (cs_pc s j) \<longrightarrow> i = j) \<and>
     (kc_inflight (cs_cache s) \<longleftrightarrow> (\<exists>i. holds_flight (cs_pc s i)))"

definition spacing :: "csys \<Rightarrow> bool" where
  "spacing s \<longleftrightarrow>
     spaced (budget (cs_cache s)) (cs_starts s) \<and>
     (\<forall>i kid now had. cs_pc s i = CFlying kid now had \<longrightarrow> cs_starts s \<noteq> [] \<and> hd (cs_starts s) = now) \<and>
     ((\<forall>i kid now had. cs_pc s i \<noteq> CFlying kid now had) \<longrightarrow> cs_starts s \<noteq> [] \<longrightarrow>
        hd (cs_starts s) + budget (cs_cache s) \<le> kc_nextFetch (cs_cache s))"

lemma budget_pos: "0 < budget kc"
  by (simp add: budget_def)

lemma budget_stable [simp]:
  "budget (refetch_commit kc now r) = budget kc"
  "budget (refetch_release kc) = budget kc"
  "budget (kc\<lparr>kc_inflight := b\<rparr>) = budget kc"
  by (simp_all add: budget_def refetch_commit_def refetch_release_def minRefetch_def minRetry_def
      split: sum.split)

lemma commit_inflight [simp]: "kc_inflight (refetch_commit kc now r) = kc_inflight kc"
  by (simp add: refetch_commit_def split: sum.split)

lemma commit_next: "now + budget kc \<le> kc_nextFetch (refetch_commit kc now r)"
  by (simp add: refetch_commit_def budget_def split: sum.split)

lemma release_fields [simp]:
  "kc_inflight (refetch_release kc) = False" "kc_nextFetch (refetch_release kc) = kc_nextFetch kc"
  by (simp_all add: refetch_release_def)

lemma enter_Fly: "refetch_enter kc now = (kc', Fly) \<longleftrightarrow>
    \<not> kc_inflight kc \<and> kc_nextFetch kc \<le> now \<and> kc' = kc\<lparr>kc_inflight := True\<rparr>"
  by (auto simp: refetch_enter_def)

lemma goto_fields [simp]:
  "cs_cache (goto s i p) = cs_cache s" "cs_starts (goto s i p) = cs_starts s"
  "cs_panicked (goto s i p) = cs_panicked s" "cs_pc (goto s i p) = (cs_pc s)(i := p)"
  by (simp_all add: goto_def)

text \<open>Moves between points that neither hold nor take the flight keep both invariants.\<close>

lemma one_flight_goto:
  "one_flight s \<Longrightarrow> \<not> holds_flight (cs_pc s i) \<Longrightarrow> \<not> holds_flight p \<Longrightarrow> one_flight (goto s i p)"
  unfolding one_flight_def by (auto simp: fun_upd_def)

lemma spacing_goto:
  assumes "spacing s" "\<not> holds_flight (cs_pc s i)" "\<not> holds_flight p"
  shows "spacing (goto s i p)"
proof -
  have "((cs_pc s)(i := p)) j = CFlying kid now had \<longleftrightarrow> cs_pc s j = CFlying kid now had" for j kid now had
    using assms(2,3) by (cases "j = i") auto
  with assms(1) show ?thesis by (simp add: spacing_def)
qed

lemma one_flight_step: "flight_step s t \<Longrightarrow> one_flight s \<Longrightarrow> one_flight t"
proof (induction rule: flight_step.induct)
  case (fly s i kid now had kc')
  then show ?case by (auto simp: one_flight_def enter_Fly)
next
  case (commit s i kid now had r)
  then have h: "holds_flight (cs_pc s i)" by simp
  with commit have "kc_inflight (cs_cache s)" unfolding one_flight_def by blast
  with commit h show ?case unfolding one_flight_def by (auto simp: fun_upd_def)
next
  case (release s i kid now had e)
  then have "holds_flight (cs_pc s i)" by simp
  with release show ?case unfolding one_flight_def by (auto simp: fun_upd_def)
next
  case (panic s i kid now had)
  then have "holds_flight (cs_pc s i)" by simp
  with panic show ?case unfolding one_flight_def by (auto simp: fun_upd_def)
qed (auto intro!: one_flight_goto)

lemma spacing_step:
  "flight_step s t \<Longrightarrow> one_flight s \<Longrightarrow> \<not> cs_panicked t \<Longrightarrow> spacing s \<Longrightarrow> spacing t"
proof (induction rule: flight_step.induct)
  case (fly s i kid now had kc')
  then have none: "\<not> holds_flight (cs_pc s j)" for j by (auto simp: one_flight_def enter_Fly)
  then have nf: "cs_pc s j \<noteq> CFlying k n h" for j k n h by (metis holds_flight.simps(1))
  with fly have "cs_starts s \<noteq> [] \<longrightarrow> hd (cs_starts s) + budget (cs_cache s) \<le> now"
    by (auto simp: spacing_def enter_Fly)
  with fly have "spaced (budget (cs_cache s)) (now # cs_starts s)"
    by (cases "cs_starts s") (auto simp: spacing_def)
  with fly nf show ?case by (auto simp: spacing_def enter_Fly)
next
  case (commit s i kid now had r)
  then have hdi: "cs_starts s \<noteq> []" "hd (cs_starts s) = now" by (auto simp: spacing_def)
  have others: "cs_pc s j \<noteq> CFlying k n h" if "j \<noteq> i" for j k n h
    using commit that unfolding one_flight_def by (metis holds_flight.simps(1))
  from commit hdi others commit_next [of now "cs_cache s" r] show ?case
    by (auto simp: spacing_def)
next
  case (release s i kid now had e)
  have nf: "cs_pc s j \<noteq> CFlying k n h" for j k n h
  proof (cases "j = i")
    case False
    with release show ?thesis unfolding one_flight_def by (metis holds_flight.simps(1,2))
  qed (use release in simp)
  with release show ?case by (auto simp: spacing_def)
qed (auto intro!: spacing_goto)

lemma flight_panicked_mono: "flight_step s t \<Longrightarrow> cs_panicked s \<Longrightarrow> cs_panicked t"
  by (induction rule: flight_step.induct) auto

lemma reachable_one_flight:
  "flight_reachable kc s \<Longrightarrow> \<not> kc_inflight kc \<Longrightarrow> one_flight s"
proof (induction rule: flight_reachable.induct)
  case start
  then show ?case by (simp add: one_flight_def csys_init_def)
next
  case (step s t)
  then show ?case by (blast intro: one_flight_step)
qed

lemma reachable_spacing:
  "flight_reachable kc s \<Longrightarrow> \<not> kc_inflight kc \<Longrightarrow> \<not> cs_panicked s \<Longrightarrow> spacing s"
proof (induction rule: flight_reachable.induct)
  case start
  then show ?case by (simp add: spacing_def csys_init_def)
next
  case (step s t)
  moreover from step have "one_flight s" by (blast intro: reachable_one_flight)
  moreover from step have "\<not> cs_panicked s" using flight_panicked_mono by blast
  ultimately show ?case by (blast intro: spacing_step)
qed

lemma spaced_nth: "spaced d ts \<Longrightarrow> 0 \<le> d \<Longrightarrow> i < j \<Longrightarrow> j < length ts \<Longrightarrow> ts ! j + d * int (j - i) \<le> ts ! i"
proof (induction d ts arbitrary: i j rule: spaced.induct)
  case (1 d t u ts)
  show ?case
  proof (cases i)
    case 0
    show ?thesis
    proof (cases "j = 1")
      case True
      with 1 0 show ?thesis by simp
    next
      case False
      with 1 0 obtain k where j: "j = Suc (Suc k)" by (metis One_nat_def less_imp_Suc_add add_0 old.nat.exhaust)
      with "1.IH" [of 0 "Suc k"] "1.prems" have "ts ! k + d * int (Suc k) \<le> u" by simp
      with "1.prems" j 0 show ?thesis by (simp add: algebra_simps)
    qed
  next
    case (Suc i')
    with "1.prems" obtain j' where "j = Suc j'" by (cases j) auto
    with "1.IH" [of i' j'] "1.prems" Suc show ?thesis by simp
  qed
qed auto

lemma budget_reachable: "flight_reachable kc s \<Longrightarrow> budget (cs_cache s) = budget kc"
proof (induction rule: flight_reachable.induct)
  case (step s t)
  from step.hyps(2) have "budget (cs_cache t) = budget (cs_cache s)"
    by cases (auto simp: refetch_enter_def split: if_splits)
  with step.IH show ?case by simp
qed (simp add: csys_init_def)

end
