(* ===== verification/Offline_Properties.thy ===== *)
theory Offline_Properties
  imports Demo Cache_Flight
begin

text \<open>
  What a caller of the offline half may rely on: tokens, keys, the verifier and the HTTP
  middleware. Each property is stated over the model's own operations and proved from the
  lemmas of the component theories; a witness applies it to the concrete values of \<open>Demo\<close>.
\<close>

section \<open>Verification\<close>

text \<open>C1: A token the verifier accepts parses; the kid of its footer names an entry the verifier
  holds, inside its validity window at the one instant used throughout; that entry's key
  verifies the signature over exactly the header, message and footer parsed; and the claims
  decoded from the message have version 0 or 1, are neither expired nor premature beyond the
  leeway, come from the configured issuer and name the configured audience.\<close>

theorem verifier_sound:
  assumes "Verifier_Verify net ed_verify (w, v) now token = ((w', v'), Inr c)"
    and "leeway_ok (cfg_Leeway (v_cfg v))"
  shows "accepted (verifier_trusts (w', v')) ed_verify (cfg_Issuer (v_cfg v)) (cfg_Audience (v_cfg v))
    (cfg_Leeway (v_cfg v)) now token c"
  using assms verifier_keys.verify_token_accepted by (simp add: Verifier_Verify_def Let_def)

theorem verifier_sound_witness:
  "\<exists>c. accepted (verifier_trusts ((), demo_verifier)) demo_verify ''anubis'' ''billing'' (60 * second) demo_now demo_token c"
  using verifier_sound [OF demo_verifies [where net = undefined and w = "()"]]
  by auto

text \<open>C2: End to end, from the issuing side to the verifier: an access token minted by \<open>MintToken\<close>
  for the verifier's audience, with the issuer, expiry and start left to be filled in, is
  accepted by a verifier built on the keys document the issuer publishes, and gives back
  the claims that were signed, until ten minutes and the leeway have passed; from then on
  it is refused as expired, never for another reason.\<close>

theorem minted_token_lifetime:
  assumes keys: "ed_pair ed_sign ed_verify sk pk" "ascii issuer"
    "ParseDocument (marshal (keys_json issuer pk)) issuer = Inr ks"
    and claims: "plain_Claims c" "cl_Issuer c = []" "cl_Expires c = 0" "cl_NotBefore c = 0" "cl_Version c \<in> {0, 1}"
      "cfg_Audience cfg \<in> set (cl_Audience c)"
    and cfg: "cfg_Issuer cfg = issuer" "cfg_KeysURL cfg = []" "cfg_StaticKeys cfg = Some ks"
      "NewVerifier url_parse ip_loopback cfg = Inr v" "leeway_ok (cfg_Leeway (v_cfg v))"
    and time: "clock_ok now" "unixToInternal * second \<le> now" "clock_ok now'"
    and token: "MintToken ed_sign sk issuer now c = Inr tok"
  shows "Verifier_Verify net ed_verify (w, v) now' tok =
    ((w, v), if Time_Unix now' \<le> Time_Unix now + 600 + cfg_Leeway (v_cfg v) sdiv second
             then Inr ((minted issuer now c)\<lparr>cl_Scopes := sort_key fst (cl_Scopes c)\<rparr>) else Inl ErrExpired)"
proof -
  let ?c = "(minted issuer now c)\<lparr>cl_Scopes := sort_key fst (cl_Scopes c)\<rparr>"
  have pk: "length pk = 32" using keys(1) by (simp add: ed_pair_def)
  note v = pinned_verifier [OF keys(2) pk keys(3) cfg(2-4)]
  note sign = keys(1) token [unfolded MintToken_def]
  have "cl_Expires ?c = Time_Unix (now + 600 * second)" "0 \<le> Time_Unix now"
    using claims(3) time clock_Unix [OF time(1)] by (simp_all add: minted_def unixToInternal_def)
  then have val: "Claims_Validate ?c now' issuer (cfg_Audience cfg) (cfg_Leeway (v_cfg v)) =
      (if Time_Unix now' \<le> Time_Unix now + 600 + cfg_Leeway (v_cfg v) sdiv second then None else Some ErrExpired)"
    using claims v(3) clock_later [OF time(1), of 600]
    by (intro Validate_lifetime [where now = now and k = 600]) (simp_all add: time cfg minted_def)
  have "cl_Version ?c \<in> {0, 1}" using claims by (simp add: minted_def)
  from signed_token_verdict [where key_at = "Verifier_key net", OF sign v(4) minted_message [OF claims(1) keys(2)] this] val
  show ?thesis by (simp add: Verifier_Verify_def v(1,2) cfg(1))
qed

theorem minted_token_lifetime_witness:
  "Verifier_Verify (\<lambda>w rq. (w, Inl ErrNoCredential)) demo_verify ((), demo_verifier) demo_now demo_token =
    (((), demo_verifier), Inr ((minted ''anubis'' demo_now demo_claims)\<lparr>cl_Scopes := []\<rparr>)) \<and>
   Verifier_Verify (\<lambda>w rq. (w, Inl ErrNoCredential)) demo_verify ((), demo_verifier) (demo_now + 1000 * second) demo_token =
    (((), demo_verifier), Inl ErrExpired)"
proof -
  note t = minted_token_lifetime [OF demo_pair _ demo_keys_parse demo_plain _ _ _ _ _ _ _ _ demo_NewVerifier _ demo_clock(1) _ _ demo_minted(1),
      where net = "\<lambda>w rq. (w, Inl ErrNoCredential)" and w = "()"]
  have c: "clock_ok (demo_now + 1000000000000)"
    by (simp add: demo_now_def clock_ok_def time_Unix_def unixToInternal_def in64_def)
  show ?thesis
    using t [of demo_now] t [of "demo_now + 1000 * second"] clock_later [OF demo_clock(1), of 1000]
    by (simp add: c demo_since)
qed

lemma logout_token_verdict:
  assumes keys: "ed_pair ed_sign ed_verify sk pk" "ascii issuer"
    "ParseDocument (marshal (keys_json issuer pk)) issuer = Inr ks"
    and cfg: "cfg_Issuer cfg = issuer" "cfg_KeysURL cfg = []" "cfg_StaticKeys cfg = Some ks"
      "NewVerifier url_parse ip_loopback cfg = Inr v" "leeway_ok (cfg_Leeway (v_cfg v))"
    and time: "clock_ok now" "unixToInternal * second \<le> now" "clock_ok now'"
    and names: "ascii (cfg_Audience cfg)" "ascii subject" "ascii sid" "subject \<noteq> [] \<or> sid \<noteq> []"
    and token: "MintLogoutToken ed_sign sk issuer now (cfg_Audience cfg) subject sid = Inr tok"
  shows "VerifyLogoutToken net ed_verify (w, Some v) now' tok =
    ((w, Some v), if Time_Unix now' \<le> Time_Unix now + 120 + cfg_Leeway (v_cfg v) sdiv second
       then Inr \<lparr>le_SessionID = sid, le_Subject = subject, le_Tenant = [], le_Issuer = issuer, le_TokenID = ''jti_test''\<rparr>
       else Inl ErrExpired)"
proof -
  let ?c = "logout_claims issuer now (cfg_Audience cfg) subject sid"
  have pk: "length pk = 32" using keys(1) by (simp add: ed_pair_def)
  note v = pinned_verifier [OF keys(2) pk keys(3) cfg(2-4)]
  note sign = keys(1) token [unfolded MintLogoutToken_def]
  note dec = logout_decode [OF keys(2) names(1-3), of now]
  have "cl_Expires ?c = Time_Unix (now + 120 * second)" "0 \<le> Time_Unix now"
    using time clock_Unix [OF time(1)] by (simp_all add: logout_claims_def unixToInternal_def)
  then have val: "Claims_Validate ?c now' issuer (cfg_Audience cfg) (cfg_Leeway (v_cfg v)) =
      (if Time_Unix now' \<le> Time_Unix now + 120 + cfg_Leeway (v_cfg v) sdiv second then None else Some ErrExpired)"
    using v(3) clock_later [OF time(1), of 120]
    by (intro Validate_lifetime [where now = now and k = 120])
      (simp_all add: time cfg logout_claims_def zero_Claims_def)
  have "cl_Version ?c \<in> {0, 1}" by (simp add: logout_claims_def zero_Claims_def)
  from signed_token_verdict [where key_at = "Verifier_key net", OF sign v(4) dec(1) this] val
  have "Verifier_Verify net ed_verify (w, v) now' tok =
    ((w, v), if Time_Unix now' \<le> Time_Unix now + 120 + cfg_Leeway (v_cfg v) sdiv second then Inr ?c else Inl ErrExpired)"
    by (simp add: Verifier_Verify_def v(1,2) cfg(1))
  then show ?thesis using Sign_not_Nil [OF sign(2)] names(4)
    by (auto simp: VerifyLogoutToken_def signed_parses [OF sign] dec(2)) (auto simp: logout_claims_def zero_Claims_def)
qed

text \<open>C26: A logout token minted for the verifier's audience comes back, for two minutes and the
  leeway, as the event it announces: the session and subject it was minted for, and the
  issuer. Afterwards it is refused as expired.\<close>

theorem logout_token_roundtrip:
  assumes keys: "ed_pair ed_sign ed_verify sk pk" "ascii issuer"
    "ParseDocument (marshal (keys_json issuer pk)) issuer = Inr ks"
    and cfg: "cfg_Issuer cfg = issuer" "cfg_KeysURL cfg = []" "cfg_StaticKeys cfg = Some ks"
      "NewVerifier url_parse ip_loopback cfg = Inr v" "leeway_ok (cfg_Leeway (v_cfg v))"
    and time: "clock_ok now" "unixToInternal * second \<le> now" "clock_ok now'"
    and names: "ascii (cfg_Audience cfg)" "ascii subject" "ascii sid" "subject \<noteq> [] \<or> sid \<noteq> []"
    and token: "MintLogoutToken ed_sign sk issuer now (cfg_Audience cfg) subject sid = Inr tok"
  shows "VerifyLogoutToken net ed_verify (w, Some v) now' tok =
    ((w, Some v), if Time_Unix now' \<le> Time_Unix now + 120 + cfg_Leeway (v_cfg v) sdiv second
       then Inr \<lparr>le_SessionID = sid, le_Subject = subject, le_Tenant = [], le_Issuer = issuer, le_TokenID = ''jti_test''\<rparr>
       else Inl ErrExpired)"
  by (rule logout_token_verdict [OF assms])

theorem logout_token_roundtrip_witness:
  "VerifyLogoutToken (\<lambda>w rq. (w, Inl ErrNoCredential)) demo_verify ((), Some demo_verifier) demo_now demo_logout_token =
    (((), Some demo_verifier), Inr \<lparr>le_SessionID = ''ses_1'', le_Subject = ''usr_1'', le_Tenant = [],
       le_Issuer = ''anubis'', le_TokenID = ''jti_test''\<rparr>)"
  using logout_token_roundtrip [OF demo_pair _ demo_keys_parse _ _ _ demo_NewVerifier _ demo_clock(1) _ demo_clock(1),
      where net = "\<lambda>w rq. (w, Inl ErrNoCredential)" and w = "()" and subject = "''usr_1''" and sid = "''ses_1''"
        and tok = demo_logout_token]
  by (simp add: demo_since)

text \<open>C9: The two kinds of token are not interchangeable in the direction that matters for sessions:
  no access token \<open>MintToken\<close> signs, whatever its claims, is taken for a logout token, by
  any verifier, at any time.\<close>

theorem access_token_is_no_logout_token:
  assumes "ed_pair ed_sign ed_verify sk pk" "ascii issuer" "plain_Claims c"
    and "MintToken ed_sign sk issuer now c = Inr tok"
  shows "\<exists>e. snd (VerifyLogoutToken net ed_verify s now' tok) = Inl e"
proof -
  note p = signed_parses [OF assms(1) assms(4) [unfolded MintToken_def]]
  note no_event = claims_no_event [OF minted_plain [OF assms(3,2)], of now]
  show ?thesis
  proof (cases "snd (VerifyLogoutToken net ed_verify s now' tok)")
    case (Inr ev)
    obtain w v0 where s: "s = (w, v0)" by (cases s)
    from Inr s obtain s' where "VerifyLogoutToken net ed_verify (w, v0) now' tok = (s', Inr ev)"
      by (cases "VerifyLogoutToken net ed_verify (w, v0) now' tok") simp
    from VerifyLogoutToken_Inr [OF this] p no_event show ?thesis by auto
  qed simp
qed

theorem access_token_is_no_logout_token_witness:
  "\<exists>e. snd (VerifyLogoutToken (\<lambda>w rq. (w, Inl ErrNoCredential)) demo_verify ((), Some demo_verifier) demo_now demo_token) = Inl e"
  by (rule access_token_is_no_logout_token [OF demo_pair _ demo_plain demo_minted(1)]) simp

text \<open>C39: A token that is malformed, or whose footer does not decode, is refused without the key
  source being asked: no request leaves the process and no cache changes on the word of
  somebody who has not even produced a token.\<close>

theorem malformed_costs_nothing:
  assumes "(\<exists>e. Parse token = Inl e) \<or> (\<exists>m sig f e. Parse token = Inr (m, sig, f) \<and> footer_kid f = Inl e)"
  shows "\<exists>e. Verifier_Verify net ed_verify s now token = (s, Inl e)"
  using assms verifier_keys.malformed_no_lookup by (simp add: Verifier_Verify_def Let_def) blast

theorem malformed_costs_nothing_witness:
  "\<exists>e. Verifier_Verify (\<lambda>w rq. (Suc w, Inl ErrNoCredential)) demo_verify (0, demo_verifier) demo_now ''v3.public.x'' =
     ((0, demo_verifier), Inl e)"
  by (rule malformed_costs_nothing) (simp add: Parse_def headerV4Public_def HasPrefix_def)

text \<open>C35: \<open>Validate\<close> accepts no claims that are expired, premature, from another issuer or for
  another audience, whatever its int64 sums do: where a sum overflows it refuses or the
  comparison still comes out right. Where the sums do not overflow it accepts exactly the
  valid claims.\<close>

theorem Validate_decides:
  assumes "wf_Claims c" "leeway_ok leeway"
  shows "(Claims_Validate c now issuer audience leeway = None \<longrightarrow>
      claims_valid c (Time_Unix now) issuer audience (leeway sdiv second)) \<and>
    (in64 (cl_Expires c + leeway sdiv second) \<and> in64 (cl_NotBefore c - leeway sdiv second) \<longrightarrow>
      (Claims_Validate c now issuer audience leeway = None \<longleftrightarrow>
       claims_valid c (Time_Unix now) issuer audience (leeway sdiv second)))"
  using Validate_sound [OF _ assms] Validate_complete by blast

theorem Validate_decides_witness:
  "Claims_Validate (demo_claims\<lparr>cl_Expires := 2 ^ 63 - 1\<rparr>) demo_now ''anubis'' ''billing'' 60000000000 = Some ErrExpired \<and>
   Claims_Validate (demo_claims\<lparr>cl_Expires := 1999999950, cl_Issuer := ''anubis''\<rparr>) demo_now ''anubis'' ''billing'' 60000000000 = None"
proof -
  have "wf_Claims (demo_claims\<lparr>cl_Expires := 1999999950, cl_Issuer := ''anubis''\<rparr>)" by (simp add: wf_Claims_def in64_def)
  note v = Validate_decides [OF this demo_leeway, of demo_now "''anubis''" "''billing''"]
  have "claims_valid (demo_claims\<lparr>cl_Expires := 1999999950, cl_Issuer := ''anubis''\<rparr>) 2000000000 ''anubis'' ''billing'' 60"
    by (simp add: claims_valid_def)
  with v show ?thesis by (simp add: in64_def signed_divide_int_def Claims_Validate_def wrap64_def)
qed

section \<open>Tokens\<close>

text \<open>C36: The Pre-Authentication Encoding is injective: two lists of pieces shorter than 2^63 bytes
  have the same encoding only when they are the same list, so a signature over one
  sequence of header, message, footer and implicit assertion is none over another.\<close>

theorem pae_injective:
  assumes "pae_ok ps" "pae_ok qs"
  shows "pae ps = pae qs \<longleftrightarrow> ps = qs"
  using pae_inj assms by blast

theorem pae_injective_witness: "pae [''ab'', ''c''] \<noteq> pae [''a'', ''bc'']"
  using pae_injective [of "[''ab'', ''c'']" "[''a'', ''bc'']"] by (simp add: pae_ok_def)

text \<open>Cx: What \<open>Sign\<close> writes, \<open>Verify\<close> reads back under the matching public key, message and
  footer unchanged.\<close>

theorem Sign_Verify:
  assumes "ed_pair ed_sign ed_verify sk pk" "Sign ed_sign sk m f i = Inr tok"
  shows "Verify ed_verify pk tok i = Inr (m, f)"
  using assms Parse_Sign [OF assms(2)] by (simp add: Verify_Inr ed_pair_def)

theorem Sign_Verify_witness:
  "\<exists>tok. Sign demo_sign demo_sk ''hello'' ''foot'' ''ctx'' = Inr tok \<and> Verify demo_verify demo_pk tok ''ctx'' = Inr (''hello'', ''foot'')"
  using Sign_Verify [OF demo_pair, of "''hello''" "''foot''" "''ctx''"] by (simp add: Sign_def)

text \<open>A token that verifies is the signed content and nothing else: its text is, up to the line
  breaks the base64 decoder skips and a separator before an empty footer, the one encoding
  of the message, the 64-byte signature and the footer, and the signature is over exactly
  these pieces and the caller's implicit assertion.\<close>

lemma verified_text:
  assumes "Verify ed_verify pk token i = Inr (m, f)"
  shows "\<exists>sig. length sig = SignatureSize \<and> length pk = PublicKeySize \<and>
    ed_verify pk (pae [headerV4Public, m, f, i]) sig \<and>
    (strip_crlf token = token_text m sig f \<or> f = [] \<and> strip_crlf token = token_text m sig f @ ''.'')"
proof -
  from assms obtain sig where p: "length pk = PublicKeySize" "Parse token = Inr (m, sig, f)"
    "ed_verify pk (pae [headerV4Public, m, f, i]) sig"
    by (auto simp: Verify_Inr)
  with Parse_sig_length [OF p(2)] Parse_canonical [OF p(2)] show ?thesis by blast
qed

lemma verified_text_witness:
  "\<exists>tok sig. Sign demo_sign demo_sk ''hello'' [] [] = Inr tok \<and>
     (strip_crlf tok = token_text ''hello'' sig [] \<or> strip_crlf tok = token_text ''hello'' sig [] @ ''.'')"
proof -
  obtain tok where tok: "Sign demo_sign demo_sk ''hello'' [] [] = Inr tok" by (simp add: Sign_def)
  have "Verify demo_verify demo_pk tok [] = Inr (''hello'', [])"
    using Parse_Sign [OF tok] demo_pair by (simp add: Verify_Inr ed_pair_def)
  from verified_text [OF this] tok show ?thesis by blast
qed

section \<open>Keys\<close>

text \<open>Every key set parsed from a document has distinct kids, at most 64 of them, and 32-byte
  keys only, whatever the bytes fetched; and a document naming another issuer than the one
  asked for is refused.\<close>

lemma parsed_keys_wf:
  assumes "ParseDocument raw issuer = Inr ks"
  shows "wf_key_set ks \<and> (issuer \<noteq> [] \<longrightarrow>
    (\<exists>doc. unmarshal dec_Document zero_Document raw = Some doc \<and> (do_Issuer doc = [] \<or> do_Issuer doc = issuer)))"
  using ParseDocument_wf [OF assms] ParseDocument_issuer [OF assms] by blast

lemma parsed_keys_wf_witness: "wf_key_set demo_keys"
  using parsed_keys_wf [OF demo_keys_parse] by simp

text \<open>C33: However many goroutines ask for keys at once, in whatever order their critical sections
  run, at most one holds the fetch; and as long as no fetch panicked, the \<open>k\<close>-th next
  fetch starts at least \<open>k\<close> times the refetch budget later: a burst of unknown kids is not
  a burst of requests.\<close>

theorem key_fetches_bounded:
  assumes "flight_reachable kc s" "\<not> kc_inflight kc"
  shows "one_flight s \<and> (\<not> cs_panicked s \<and> i < j \<and> j < length (cs_starts s) \<longrightarrow>
      cs_starts s ! j + budget kc * int (j - i) \<le> cs_starts s ! i)"
proof (intro conjI impI)
  show "one_flight s" by (rule reachable_one_flight [OF assms])
  assume a: "\<not> cs_panicked s \<and> i < j \<and> j < length (cs_starts s)"
  with reachable_spacing [OF assms] have "spaced (budget kc) (cs_starts s)"
    by (simp add: spacing_def budget_reachable [OF assms(1)])
  with a budget_pos [of kc] show "cs_starts s ! j + budget kc * int (j - i) \<le> cs_starts s ! i"
    by (intro spaced_nth) simp_all
qed

definition demo_cache :: Cache where "demo_cache = NewCache ''https://keys''"

definition demo_flight :: csys where
  "demo_flight = (goto (goto (goto (csys_init demo_cache) 0 (CStart ''k'' 7)) 0 (CMiss ''k'' 7 False)) 0 (CFlying ''k'' 7 False))
     \<lparr>cs_cache := demo_cache\<lparr>kc_inflight := True\<rparr>, cs_starts := [7]\<rparr>"

lemma demo_flight_reachable: "flight_reachable demo_cache demo_flight"
proof -
  let ?s1 = "goto (csys_init demo_cache) 0 (CStart ''k'' 7)"
  let ?s2 = "goto ?s1 0 (CMiss ''k'' 7 False)"
  have "flight_reachable demo_cache ?s1"
    by (rule step [OF start call]) (simp add: csys_init_def)
  moreover have "flight_step ?s1 ?s2"
    using miss [of ?s1 0 "''k''" 7] by (simp add: csys_init_def hot_lookup_def snapshot_def demo_cache_def NewCache_def)
  moreover have "flight_step ?s2 demo_flight"
    using fly [of ?s2 0 "''k''" 7 False "demo_cache\<lparr>kc_inflight := True\<rparr>"]
    by (simp add: demo_flight_def csys_init_def refetch_enter_def demo_cache_def NewCache_def)
  ultimately show ?thesis by (blast intro: step)
qed

theorem key_fetches_bounded_witness:
  "one_flight demo_flight \<and> kc_inflight (cs_cache demo_flight) \<and> cs_starts demo_flight = [7]"
  using key_fetches_bounded [OF demo_flight_reachable] by (simp add: demo_flight_def demo_cache_def NewCache_def)

text \<open>One lookup in the cache: the key it hands out is the one the set it then holds gives for
  that kid at that instant, so an expired or unknown kid is never answered; and while a fetch
  is running or the budget is not due, a lookup changes nothing and sends nothing.\<close>

lemma cached_lookup:
  "(\<forall>w' kc' pk. Cache_GetAt net w kc kid now = (w', kc', Inr pk) \<longrightarrow>
      (\<exists>ks e. kc_set kc' = Some ks \<and> map_of ks kid = Some e \<and> in_window e now \<and> ke_pk e = pk)) \<and>
   (kc_inflight kc \<or> now < kc_nextFetch kc \<longrightarrow> (\<exists>r. Cache_GetAt net w kc kid now = (w, kc, r)))"
proof (intro conjI allI impI)
  fix w' kc' pk
  assume "Cache_GetAt net w kc kid now = (w', kc', Inr pk)"
  from Cache_GetAt_held [OF this]
  show "\<exists>ks e. kc_set kc' = Some ks \<and> map_of ks kid = Some e \<and> in_window e now \<and> ke_pk e = pk"
    by (auto simp: Set_GetAt_iff)
next
  assume "kc_inflight kc \<or> now < kc_nextFetch kc"
  from Cache_GetAt_throttled [OF this, of net w kid] show "\<exists>r. Cache_GetAt net w kc kid now = (w, kc, r)"
    by (metis prod.collapse)
qed

lemma cached_lookup_witness:
  "(\<exists>ks e. Some demo_keys = Some ks \<and> map_of ks Kid = Some e \<and> in_window e demo_now \<and> ke_pk e = demo_pk) \<and>
   (\<exists>r. Cache_GetAt (\<lambda>w rq. (Suc w, Inl ErrNoCredential)) 0 (demo_cache\<lparr>kc_inflight := True\<rparr>) Kid demo_now =
     (0, demo_cache\<lparr>kc_inflight := True\<rparr>, r))"
proof -
  let ?net = "\<lambda>w rq. (Suc w, Inl ErrNoCredential)"
  let ?kc = "demo_cache\<lparr>kc_set := Some demo_keys, kc_lastFetch := demo_now\<rparr>"
  have "Cache_GetAt ?net 0 ?kc Kid demo_now = (0, ?kc, Inr demo_pk)"
    by (simp add: Cache_GetAt_def hot_lookup_def snapshot_def Time_Sub_def ttl_def demo_cache_def NewCache_def
        demo_keys_def test_key_def Set_GetAt_def)
  with cached_lookup [of ?net 0 ?kc Kid demo_now] cached_lookup [of ?net 0 "demo_cache\<lparr>kc_inflight := True\<rparr>" Kid demo_now]
  show ?thesis by simp
qed

section \<open>Configuration and middleware\<close>

text \<open>A verifier that \<open>NewVerifier\<close> returns has an audience to check, fetches its keys only over
  https or from the loopback interface, has keys of some kind, and never lets its leeway
  default to none; with well-formed static keys its state satisfies the invariant every
  verification preserves.\<close>

lemma NewVerifier_safe:
  assumes "NewVerifier url_parse ip_loopback cfg = Inr v"
  shows "cfg_Audience (v_cfg v) \<noteq> [] \<and> cfg_Leeway (v_cfg v) \<noteq> 0 \<and>
    (v_cache v = None \<longrightarrow> cfg_StaticKeys (v_cfg v) \<noteq> None) \<and>
    (\<forall>kc. v_cache v = Some kc \<longrightarrow> kc_set kc = None \<and> kc_Issuer kc = cfg_Issuer (v_cfg v) \<and>
       (\<exists>u. url_parse (kc_URL kc) = Some u \<and>
         (u_Scheme u = ''https'' \<or> u_Scheme u = ''http'' \<and> (u_Hostname u = ''localhost'' \<or> ip_loopback (u_Hostname u))))) \<and>
    ((\<forall>ks. cfg_StaticKeys cfg = Some ks \<longrightarrow> wf_key_set ks) \<longrightarrow> wf_verifier (w, v))"
  using assms NewVerifier_wf [OF assms]
  by (auto simp: NewVerifier_def NewCache_def checkKeysURL_def isLoopback_def Let_def split: if_splits option.splits)

lemma NewVerifier_safe_witness: "wf_verifier ((), demo_verifier) \<and> cfg_Audience demo_cfg \<noteq> []"
  using NewVerifier_safe [OF demo_NewVerifier [of undefined undefined], of "()"] ParseDocument_wf [OF demo_keys_parse] by simp

text \<open>\<open>Middleware\<close> hands a request on exactly when its Authorization header carries a bearer
  token the verifier accepts, and then with the principal of that very token in the context;
  every other request it answers with 401 itself.\<close>

lemma Middleware_admits:
  "Middleware net ed_verify s now ctx header =
    (case BearerToken (header_Get header ''Authorization'') of
       None \<Rightarrow> (s, unauthorized ''missing bearer token'')
     | Some t \<Rightarrow> apsnd (\<lambda>r. case r of Inl e \<Rightarrow> unauthorized ''invalid token''
         | Inr c \<Rightarrow> Next (ctx\<lparr>ctx_principal := Some \<lparr>p_Claims = Some c, p_Token = t\<rparr>\<rparr>)) (Verifier_Verify net ed_verify s now t)) \<and>
   (\<forall>s' ctx'. Middleware net ed_verify s now ctx header = (s', Next ctx') \<longrightarrow>
      (\<exists>t c. BearerToken (header_Get header ''Authorization'') = Some t \<and>
        Verifier_Verify net ed_verify s now t = (s', Inr c) \<and>
        FromContext ctx' = Some \<lparr>p_Claims = Some c, p_Token = t\<rparr>))"
  by (auto simp: Middleware_def WithPrincipal_def FromContext_def unauthorized_def split: option.splits prod.splits sum.splits)

lemma Middleware_admits_witness:
  "\<exists>c. snd (Middleware (\<lambda>w rq. (w, Inl ErrNoCredential)) demo_verify ((), demo_verifier) demo_now \<lparr>ctx_principal = None, ctx_bearer = None\<rparr>
     [(''Authorization'', ''Bearer '' @ demo_token)]) =
     Next \<lparr>ctx_principal = Some \<lparr>p_Claims = Some c, p_Token = demo_token\<rparr>, ctx_bearer = None\<rparr>"
  using Middleware_admits [of "\<lambda>w rq. (w, Inl ErrNoCredential)" demo_verify "((), demo_verifier)" demo_now
      "\<lparr>ctx_principal = None, ctx_bearer = None\<rparr>" "[(''Authorization'', ''Bearer '' @ demo_token)]"]
    BearerToken_exact [OF Sign_not_Nil [OF demo_minted(1) [unfolded MintToken_def]]]
  by (simp add: header_Get_def demo_verifies)

section \<open>Permission keys\<close>

text \<open>A permission key is valid exactly when it was put together by \<open>NewPermission\<close> from three
  non-empty parts free of colons, and then its accessors give these parts back; the
  accessors of an invalid key give nothing.\<close>

lemma permission_roundtrip:
  "(\<forall>a b c. key_part a \<and> key_part b \<and> key_part c \<longrightarrow>
      Permission_IsValid (NewPermission a b c) \<and> Permission_App (NewPermission a b c) = a \<and>
      Permission_Resource (NewPermission a b c) = b \<and> Permission_Action (NewPermission a b c) = c) \<and>
   (Permission_IsValid p \<longrightarrow> p = NewPermission (Permission_App p) (Permission_Resource p) (Permission_Action p)) \<and>
   (\<not> Permission_IsValid p \<longrightarrow> Permission_App p = [] \<and> Permission_Resource p = [] \<and> Permission_Action p = [])"
proof -
  have "Permission_IsValid (NewPermission a b c) \<and> Permission_App (NewPermission a b c) = a \<and>
      Permission_Resource (NewPermission a b c) = b \<and> Permission_Action (NewPermission a b c) = c"
    if "key_part a \<and> key_part b \<and> key_part c" for a b c
    using Permission_parts_New [of a b c] that
    by (simp add: Permission_IsValid_def Permission_App_def Permission_Resource_def Permission_Action_def Permission_part_def)
  then show ?thesis using Permission_invalid_parts [of p] by (auto elim: Permission_valid_cases)
qed

lemma permission_roundtrip_witness:
  "Permission_Action ''billing:invoice:approve'' = ''approve'' \<and> \<not> Permission_IsValid ''billing:invoice''"
  using permission_roundtrip [of "''billing:invoice:approve''"]
  by (simp add: Permission_IsValid_def Permission_parts_def Permission_Action_def Permission_part_def)

end
