(* ===== verification/Demo_Client.thy ===== *)
theory Demo_Client
  imports Login Demo
begin

text \<open>
  Concrete values the witnesses of the online half share: a world that is the list of requests
  sent, newest first, an installation that gives one fixed answer, and clients of it. Nothing
  here models code.
\<close>

definition answering :: "bytes \<Rightarrow> http_request list net" where
  "answering b w rq = (rq # w, Inr \<lparr>rs_status = 200, rs_header = [], rs_body = b, rs_read_err = None\<rparr>)"

definition demo_pf :: "bytes \<Rightarrow> http_request list platform" where
  "demo_pf b =
     \<lparr>pf_now = (\<lambda>w. demo_now), pf_rand32 = (\<lambda>w. (w, Some (replicate 32 (CHR ''r'')))),
      pf_transport = (\<lambda>t. answering b),
      pf_url_parse = (\<lambda>u. Some \<lparr>u_Scheme = ''https'', u_Host = ''id.example'', u_Hostname = ''id.example''\<rparr>),
      pf_until_http_date = (\<lambda>d. None), pf_parse_duration = (\<lambda>d. None), pf_sha256 = (\<lambda>x. x),
      pf_time_format = (\<lambda>t. Some ''now''), pf_time_parse = (\<lambda>t. Some demo_now)\<rparr>"

lemma demo_pf_fields [simp]:
  "pf_now (demo_pf b) = (\<lambda>w. demo_now)" "pf_rand32 (demo_pf b) = (\<lambda>w. (w, Some (replicate 32 (CHR ''r''))))"
  "pf_transport (demo_pf b) = (\<lambda>t. answering b)"
  "pf_url_parse (demo_pf b) u = Some \<lparr>u_Scheme = ''https'', u_Host = ''id.example'', u_Hostname = ''id.example''\<rparr>"
  "pf_sha256 (demo_pf b) = (\<lambda>x. x)" "pf_time_format (demo_pf b) t = Some ''now''" "pf_time_parse (demo_pf b) s = Some demo_now"
  "pf_until_http_date (demo_pf b) = (\<lambda>d. None)" "pf_parse_duration (demo_pf b) = (\<lambda>d. None)"
  by (simp_all add: demo_pf_def)

definition demo_options :: "http_request list option_fn list" where
  "demo_options = [WithAPIKey ''anb_live_k'', WithDecisionCache \<lparr>cc_TTL = 60 * second, cc_MaxSize = 100\<rparr>]"

definition demo_client :: "bytes \<Rightarrow> http_request list Client" where
  "demo_client b = \<lparr>c_baseURL = ''https://id.example'', c_opts =
     \<lparr>o_httpClient = Some \<lparr>hc_Timeout = 10 * second, hc_transport = (\<lambda>t. answering b), hc_refuse = True\<rparr>,
      o_timeout = 10 * second, o_clientID = [], o_clientSecret = [], o_apiKey = ''anb_live_k'', o_tenant = [],
      o_loginStore = Some (cookieStore (demo_pf b)), o_cache = Some (newDecisionCache \<lparr>cc_TTL = 60 * second, cc_MaxSize = 100\<rparr>),
      o_headers = [], o_now = (\<lambda>w. demo_now)\<rparr>\<rparr>"

lemma demo_New: "New (demo_pf b) (cookieStore (demo_pf b)) ''https://id.example'' demo_options = Inr (demo_client b)"
  by (simp add: New_def newOptions_def demo_options_def default_options_def WithAPIKey_def WithDecisionCache_def
      demo_client_def TrimRight1_def HasPrefix_def Let_def)

lemma demo_options_sdk: "\<forall>f \<in> set demo_options. sdk_option f"
  by (auto simp: demo_options_def intro: sdk_option.intros)

lemma demo_client_fields [simp]:
  "c_baseURL (demo_client b) = ''https://id.example''" "o_apiKey (c_opts (demo_client b)) = ''anb_live_k''"
  "o_tenant (c_opts (demo_client b)) = []" "o_headers (c_opts (demo_client b)) = []"
  "o_cache (c_opts (demo_client b)) = Some (newDecisionCache \<lparr>cc_TTL = 60 * second, cc_MaxSize = 100\<rparr>)"
  "client_now (demo_client b) w = demo_now" "client_http (demo_client b) = answering b"
  by (simp_all add: demo_client_def client_now_def client_http_def http_Do_def answering_def fun_eq_iff)

text \<open>The request a call on the demo client sends.\<close>

definition demo_request :: "string \<Rightarrow> goval \<Rightarrow> http_request" where
  "demo_request procedure body =
     \<lparr>rq_method = ''POST'', rq_url = ''https://id.example'' @ procedure,
      rq_header = [(''Authorization'', ''Bearer anb_live_k''), (''Content-Type'', ''application/json'')], rq_body = marshal body\<rparr>"

lemma demo_do:
  assumes "client_http c = answering (marshal v)" "ascii_val v" "length (marshal v) \<le> maxResponseBytes"
  shows "client_do pf c w rq (Some dec) zero =
    (set_headers (o_headers (c_opts c)) (o_tenant (c_opts c)) rq # w,
     case dec (to_json v) zero of None \<Rightarrow> Inl (ErrText ''anubis: decoding response'') | Some x \<Rightarrow> Inr x)"
  using assms by (simp add: client_do_def client_send_def answering_def read_limited_def decode_out_def unmarshal_marshal)

lemma demo_rpc:
  assumes "ascii_val v" "length (marshal v) \<le> maxResponseBytes" "c_baseURL c = ''https://id.example''"
    "client_http c = answering (marshal v)" "o_apiKey (c_opts c) = ''anb_live_k''"
    "o_headers (c_opts c) = []" "o_tenant (c_opts c) = []"
  shows "rpc (demo_pf b) c w ctx procedure body (Some dec) zero =
    (demo_request procedure body # w,
     case dec (to_json v) zero of None \<Rightarrow> Inl (ErrText ''anubis: decoding response'') | Some x \<Rightarrow> Inr x)"
  using assms
  by (simp add: rpc_def NewRequest_def attachCredential_def demo_do set_headers_def demo_request_def header_Set_def
      EqualFold_def toLower_byte_def)

definition demo_allow :: goval where "demo_allow = GMap [(''allow'', GBool True)]"

abbreviation "demo_allow_body \<equiv> marshal demo_allow"

lemma demo_allow_ok [simp]: "ascii_val demo_allow" "length (marshal demo_allow) \<le> 4194304"
  "dec_Decision (to_json demo_allow) zero_Decision = Some (zero_Decision\<lparr>dn_Allow := True\<rparr>)"
  by (simp_all add: demo_allow_def dec_Decision_def field_for_def quote_def)

lemma cache_update [simp]:
  "client_http (c\<lparr>c_opts := (c_opts c)\<lparr>o_cache := x\<rparr>\<rparr>) = client_http c"
  "client_now (c\<lparr>c_opts := (c_opts c)\<lparr>o_cache := x\<rparr>\<rparr>) = client_now c"
  by (simp_all add: client_http_def client_now_def fun_eq_iff)

text \<open>The demo client with any contents of its cache.\<close>

definition demo_with :: "decisionCache \<Rightarrow> http_request list Client" where
  "demo_with dc = (demo_client demo_allow_body)\<lparr>c_opts := (c_opts (demo_client demo_allow_body))\<lparr>o_cache := Some dc\<rparr>\<rparr>"

lemma demo_with_fields [simp]:
  "o_cache (c_opts (demo_with dc)) = Some dc" "client_now (demo_with dc) w = demo_now"
  "(demo_with dc)\<lparr>c_opts := (c_opts (demo_with dc))\<lparr>o_cache := Some dc'\<rparr>\<rparr> = demo_with dc'"
  by (simp_all add: demo_with_def)

definition demo_dc :: decisionCache where
  "demo_dc = newDecisionCache \<lparr>cc_TTL = 60 * second, cc_MaxSize = 100\<rparr>"

lemma demo_with_client: "demo_client demo_allow_body = demo_with demo_dc"
  by (simp add: demo_with_def demo_client_def demo_dc_def)

lemma demo_rpc_allow:
  "rpc (demo_pf b) (demo_with dc) w ctx procedure body (Some dec) zero =
    (demo_request procedure body # w,
     case dec (to_json demo_allow) zero of None \<Rightarrow> Inl (ErrText ''anubis: decoding response'') | Some x \<Rightarrow> Inr x)"
  by (rule demo_rpc) (simp_all add: demo_with_def)

definition demo_yes :: "string \<Rightarrow> Decision" where
  "demo_yes permission = zero_Decision\<lparr>dn_Allow := True, dn_permission := permission, dn_subject := ''usr_1''\<rparr>"

lemma demo_authorize:
  assumes "askable ''usr_1'' permission" "cache_get dc (cacheKey (\<lambda>x. x) ''usr_1'' permission sc amr at) demo_now = None"
  shows "authorize (demo_pf demo_allow_body) (w, demo_with dc) ctx ''usr_1'' permission sc amr at =
    ((demo_request ''/anubis.v1.AuthzService/Authorize'' (decision_request ''usr_1'' permission sc amr at) # w,
      demo_with (cache_put dc (cacheKey (\<lambda>x. x) ''usr_1'' permission sc amr at) (demo_yes permission) demo_now)),
     Inr (demo_yes permission))"
  using assms empty_invalid
  by (auto simp: authorize_def askable_def ask_def demo_rpc_allow Let_def demo_yes_def)

lemma demo_askable: "askable ''usr_1'' ''b:i:read''" "\<not> askable ''usr_1'' ''b:i''"
  by (simp_all add: askable_def Permission_IsValid_def Permission_parts_def)

end
