(* ===== verification/Authz_Many.thy ===== *)
theory Authz_Many
  imports Authz
begin

text \<open>
  \<open>AuthorizeMany\<close> (\<open>authz.go\<close>): one goroutine per question, at most eight of them inside
  \<open>authorize\<close>, all on one client. A step is one goroutine putting its token into the channel
  that serves as semaphore, looking in the cache, getting its answer from the installation,
  or taking its token out again; the goroutines interleave freely, and the world moves
  between any two steps. Each step is labelled with what it saw; a run keeps its labels,
  newest first.

  The lemmas: the channel counts the goroutines inside, every answer is the installation's to
  the very question at its index, or what the cache then held for it, no interleaving gets
  stuck, and each ends after four steps per question.
\<close>

section \<open>One question in two critical sections\<close>

text \<open>The part of \<open>authorize\<close> up to the call, and the call with the put that follows it.\<close>

definition authorize_enter ::
  "'w platform \<Rightarrow> 'w \<times> 'w Client \<Rightarrow> string \<Rightarrow> string \<Rightarrow> smap \<Rightarrow> string list \<Rightarrow> int \<Rightarrow> Decision res option" where
  "authorize_enter pf s subject permission scopes methods authTime =
     (if subject = [] then Some (Inl (ErrText ''anubis: authorize needs a subject''))
      else if permission = [] then Some (Inl (ErrText ''anubis: authorize needs a permission, like \"billing:invoice:approve\"''))
      else if \<not> Permission_IsValid permission then Some (Inl (ErrText ''anubis: not a permission key''))
      else map_option (\<lambda>d. Inr (d\<lparr>dn_permission := permission, dn_subject := subject\<rparr>))
        (case o_cache (c_opts (snd s)) of None \<Rightarrow> None
         | Some dc \<Rightarrow> cache_get dc (cacheKey (pf_sha256 pf) subject permission scopes methods authTime)
             (client_now (snd s) (fst s))))"

definition authorize_call ::
  "'w platform \<Rightarrow> 'w \<times> 'w Client \<Rightarrow> Ctx \<Rightarrow> string \<Rightarrow> string \<Rightarrow> smap \<Rightarrow> string list \<Rightarrow> int \<Rightarrow>
   ('w \<times> 'w Client) \<times> Decision res" where
  "authorize_call pf s ctx subject permission scopes methods authTime =
     (case s of (w, c) \<Rightarrow>
       (case ask pf c w ctx subject permission scopes methods authTime of
          (w', Inl e) \<Rightarrow> ((w', c), Inl e)
        | (w', Inr d0) \<Rightarrow>
            let d = d0\<lparr>dn_permission := permission, dn_subject := subject\<rparr>;
                key = cacheKey (pf_sha256 pf) subject permission scopes methods authTime;
                c' = (case o_cache (c_opts c) of
                        None \<Rightarrow> c
                      | Some dc \<Rightarrow> c\<lparr>c_opts := (c_opts c)\<lparr>o_cache := Some (cache_put dc key d (client_now c w'))\<rparr>\<rparr>)
            in ((w', c'), Inr d)))"

lemma authorize_split:
  "authorize pf s ctx sub p sc amr at =
     (case authorize_enter pf s sub p sc amr at of
        Some r \<Rightarrow> (s, r) | None \<Rightarrow> authorize_call pf s ctx sub p sc amr at)"
  by (cases s) (simp add: authorize_def authorize_enter_def authorize_call_def Let_def split: option.splits)

lemma authorize_enter_names: "authorize_enter pf s sub p sc amr at = Some (Inr d) \<Longrightarrow>
    dn_permission d = p \<and> dn_subject d = sub"
  by (auto simp: authorize_enter_def split: if_splits option.splits)

lemma authorize_call_names: "authorize_call pf s ctx sub p sc amr at = (s', Inr d) \<Longrightarrow>
    dn_permission d = p \<and> dn_subject d = sub"
  by (auto simp: authorize_call_def Let_def split: prod.splits sum.splits)

section \<open>The goroutines\<close>

record Ask =
  as_Permission :: string
  as_Scopes :: smap

datatype many_pc = MWaiting | MEntered | MCalling | MAnswered "Decision res" | MDone "Decision res"

abbreviation maxInFlight :: nat where "maxInFlight \<equiv> 8"

text \<open>\<open>my_sem\<close> is the number of tokens in the channel.\<close>

record 'w many =
  my_client :: "'w Client"
  my_sem :: nat
  my_pcs :: "many_pc list"

definition many_start :: "Ctx \<Rightarrow> 'w Client \<Rightarrow> Ask list \<Rightarrow> (Identity \<times> 'w many) res" where
  "many_start ctx c asks =
     (case IdentityFromContext ctx of
        None \<Rightarrow> Inl ErrNoPrincipal
      | Some i \<Rightarrow> Inr (i, \<lparr>my_client = c, my_sem = 0, my_pcs = replicate (length asks) MWaiting\<rparr>))"

text \<open>What a step saw: a lookup the world of its moment and its outcome, a call the worlds before and after and its outcome.\<close>

datatype 'w many_event =
    Took nat
  | Looked nat 'w "Decision res option"
  | Called nat 'w 'w "Decision res"
  | Freed nat

inductive many_step ::
  "'w platform \<Rightarrow> Ctx \<Rightarrow> Identity \<Rightarrow> Ask list \<Rightarrow> 'w many \<Rightarrow> 'w many_event \<Rightarrow> 'w many \<Rightarrow> bool" for pf ctx i asks where
  acquire: "n < length asks \<Longrightarrow> my_pcs m ! n = MWaiting \<Longrightarrow> my_sem m < maxInFlight \<Longrightarrow>
    many_step pf ctx i asks m (Took n) (m\<lparr>my_sem := Suc (my_sem m), my_pcs := (my_pcs m)[n := MEntered]\<rparr>)"
| look: "n < length asks \<Longrightarrow> my_pcs m ! n = MEntered \<Longrightarrow>
    authorize_enter pf (w, my_client m) (id_Subject i) (as_Permission (asks ! n)) (as_Scopes (asks ! n)) (id_Methods i)
      (Time_Unix (id_authenticatedAt i)) = hit \<Longrightarrow>
    many_step pf ctx i asks m (Looked n w hit)
      (m\<lparr>my_pcs := (my_pcs m)[n := (case hit of None \<Rightarrow> MCalling | Some r \<Rightarrow> MAnswered r)]\<rparr>)"
| call: "n < length asks \<Longrightarrow> my_pcs m ! n = MCalling \<Longrightarrow>
    authorize_call pf (w, my_client m) ctx (id_Subject i) (as_Permission (asks ! n)) (as_Scopes (asks ! n)) (id_Methods i)
      (Time_Unix (id_authenticatedAt i)) = ((w', c'), r) \<Longrightarrow>
    many_step pf ctx i asks m (Called n w w' r) (m\<lparr>my_client := c', my_pcs := (my_pcs m)[n := MAnswered r]\<rparr>)"
| free: "n < length asks \<Longrightarrow> my_pcs m ! n = MAnswered r \<Longrightarrow>
    many_step pf ctx i asks m (Freed n) (m\<lparr>my_sem := my_sem m - 1, my_pcs := (my_pcs m)[n := MDone r]\<rparr>)"

inductive many_run ::
  "'w platform \<Rightarrow> Ctx \<Rightarrow> Identity \<Rightarrow> Ask list \<Rightarrow> 'w Client \<Rightarrow> 'w many_event list \<Rightarrow> 'w many \<Rightarrow> bool" for pf ctx i asks c where
  start: "many_start ctx c asks = Inr (i, m) \<Longrightarrow> many_run pf ctx i asks c [] m"
| step: "many_run pf ctx i asks c tr m \<Longrightarrow> many_step pf ctx i asks m e m' \<Longrightarrow> many_run pf ctx i asks c (e # tr) m'"

fun pc_done :: "many_pc \<Rightarrow> bool" where
  "pc_done (MDone _) = True" | "pc_done _ = False"

text \<open>What the function returns once all goroutines are done.\<close>

fun pc_decision :: "many_pc \<Rightarrow> Decision" where
  "pc_decision (MDone (Inr d)) = d" | "pc_decision _ = zero_Decision"

fun pc_error :: "many_pc \<Rightarrow> goerr option" where
  "pc_error (MDone (Inl e)) = Some e" | "pc_error _ = None"

definition errors_Join :: "goerr option list \<Rightarrow> goerr option" where
  "errors_Join es = (case List.map_filter (\<lambda>e. e) es of [] \<Rightarrow> None | xs \<Rightarrow> Some (ErrJoin xs))"

definition many_result :: "'w many \<Rightarrow> Decision list \<times> goerr option" where
  "many_result m = (map pc_decision (my_pcs m), errors_Join (map pc_error (my_pcs m)))"

section \<open>What an answer has to be\<close>

text \<open>
  Written over \<open>ask\<close>, the request that is sent, and over the cache as a function of the answers
  so far, not over the goroutines.
\<close>

definition ask_question :: "'w platform \<Rightarrow> 'w Client \<Rightarrow> Ctx \<Rightarrow> Identity \<Rightarrow> Ask \<Rightarrow> 'w \<Rightarrow> 'w \<times> Decision res" where
  "ask_question pf c ctx i a w =
     ask pf c w ctx (id_Subject i) (as_Permission a) (as_Scopes a) (id_Methods i) (Time_Unix (id_authenticatedAt i))"

definition ask_key :: "'w platform \<Rightarrow> Identity \<Rightarrow> Ask \<Rightarrow> string" where
  "ask_key pf i a =
     cacheKey (pf_sha256 pf) (id_Subject i) (as_Permission a) (as_Scopes a) (id_Methods i) (Time_Unix (id_authenticatedAt i))"

definition named :: "Identity \<Rightarrow> Ask \<Rightarrow> Decision \<Rightarrow> Decision" where
  "named i a d = d\<lparr>dn_permission := as_Permission a, dn_subject := id_Subject i\<rparr>"

fun cache_after :: "'w platform \<Rightarrow> 'w Client \<Rightarrow> Identity \<Rightarrow> Ask list \<Rightarrow> 'w many_event list \<Rightarrow> decisionCache option" where
  "cache_after pf c i asks [] = o_cache (c_opts c)"
| "cache_after pf c i asks (Called n w w' (Inr d) # tr) =
     map_option (\<lambda>dc. cache_put dc (ask_key pf i (asks ! n)) d (client_now c w')) (cache_after pf c i asks tr)"
| "cache_after pf c i asks (_ # tr) = cache_after pf c i asks tr"

fun calls :: "nat \<Rightarrow> 'w many_event list \<Rightarrow> nat" where
  "calls n [] = 0"
| "calls n (Called k w w' r # tr) = (if k = n then Suc (calls n tr) else calls n tr)"
| "calls n (_ # tr) = calls n tr"

text \<open>The question was looked up, and the cache did not hold it then.\<close>

definition missed :: "'w platform \<Rightarrow> 'w Client \<Rightarrow> Identity \<Rightarrow> Ask list \<Rightarrow> 'w many_event list \<Rightarrow> nat \<Rightarrow> bool" where
  "missed pf c i asks tr n \<longleftrightarrow> (\<exists>tr2 w tr1. tr = tr2 @ Looked n w None # tr1 \<and>
     (\<forall>dc. cache_after pf c i asks tr1 = Some dc \<longrightarrow> cache_get dc (ask_key pf i (asks ! n)) (client_now c w) = None))"

text \<open>The cache missed, and one call, answered with \<open>r\<close>; or no call, and either the cache answers or the question cannot be asked.\<close>

definition from_installation ::
  "'w platform \<Rightarrow> 'w Client \<Rightarrow> Ctx \<Rightarrow> Identity \<Rightarrow> Ask list \<Rightarrow> 'w many_event list \<Rightarrow> nat \<Rightarrow> Decision res \<Rightarrow> bool" where
  "from_installation pf c ctx i asks tr n r \<longleftrightarrow> calls n tr = 1 \<and> askable (id_Subject i) (as_Permission (asks ! n)) \<and> missed pf c i asks tr n \<and>
     (\<exists>w w' r0. Called n w w' r \<in> set tr \<and> ask_question pf c ctx i (asks ! n) w = (w', r0) \<and> r = map_sum id (named i (asks ! n)) r0)"

definition from_cache ::
  "'w platform \<Rightarrow> 'w Client \<Rightarrow> Identity \<Rightarrow> Ask list \<Rightarrow> 'w many_event list \<Rightarrow> nat \<Rightarrow> Decision res \<Rightarrow> bool" where
  "from_cache pf c i asks tr n r \<longleftrightarrow> calls n tr = 0 \<and> askable (id_Subject i) (as_Permission (asks ! n)) \<and>
     (\<exists>tr2 w tr1 dc d0. tr = tr2 @ Looked n w (Some r) # tr1 \<and> cache_after pf c i asks tr1 = Some dc \<and>
        cache_get dc (ask_key pf i (asks ! n)) (client_now c w) = Some d0 \<and> r = Inr (named i (asks ! n) d0))"

definition refused_unasked :: "Identity \<Rightarrow> Ask list \<Rightarrow> 'w many_event list \<Rightarrow> nat \<Rightarrow> Decision res \<Rightarrow> bool" where
  "refused_unasked i asks tr n r \<longleftrightarrow> calls n tr = 0 \<and> \<not> askable (id_Subject i) (as_Permission (asks ! n)) \<and> (\<exists>e. r = Inl e)"

definition rightly_answered ::
  "'w platform \<Rightarrow> 'w Client \<Rightarrow> Ctx \<Rightarrow> Identity \<Rightarrow> Ask list \<Rightarrow> 'w many_event list \<Rightarrow> nat \<Rightarrow> Decision res \<Rightarrow> bool" where
  "rightly_answered pf c ctx i asks tr n r \<longleftrightarrow>
     from_installation pf c ctx i asks tr n r \<or> from_cache pf c i asks tr n r \<or> refused_unasked i asks tr n r"

lemmas answer_defs = rightly_answered_def from_installation_def from_cache_def refused_unasked_def

text \<open>Later steps of others take nothing away from an answer.\<close>

lemma calls_Cons: "(\<And>w w' r. e \<noteq> Called n w w' r) \<Longrightarrow> calls n (e # tr) = calls n tr"
  by (cases e) auto

lemma missed_Cons: "missed pf c i asks tr n \<Longrightarrow> missed pf c i asks (e # tr) n"
  unfolding missed_def by (metis append_Cons)

lemma rightly_answered_Cons:
  assumes "rightly_answered pf c ctx i asks tr n r" "\<And>w w' r. e \<noteq> Called n w w' r"
  shows "rightly_answered pf c ctx i asks (e # tr) n r"
proof -
  have "tr = tr2 @ x # tr1 \<Longrightarrow> e # tr = (e # tr2) @ x # tr1" for tr2 tr1 and x :: "'a many_event" by simp
  then show ?thesis using assms(1) unfolding answer_defs calls_Cons [OF assms(2)]
    by (metis list.set_intros(2) missed_Cons)
qed


section \<open>Asking does not depend on the cache\<close>

definition with_cache :: "'w Client \<Rightarrow> decisionCache option \<Rightarrow> 'w Client" where
  "with_cache c x = c\<lparr>c_opts := (c_opts c)\<lparr>o_cache := x\<rparr>\<rparr>"

lemma with_cache_fields [simp]:
  "o_cache (c_opts (with_cache c x)) = x" "client_now (with_cache c x) = client_now c"
  "with_cache (with_cache c x) y = with_cache c y" "with_cache c (o_cache (c_opts c)) = c"
  by (simp_all add: with_cache_def client_now_def fun_eq_iff)

lemma ask_with_cache [simp]:
  "ask pf (with_cache c x) w ctx sub p sc amr at = ask pf c w ctx sub p sc amr at"
proof -
  have "client_http (with_cache c x) = client_http c" by (simp add: with_cache_def client_http_def fun_eq_iff)
  then have send: "client_send pf (with_cache c x) w rq = client_send pf c w rq" for w rq
    unfolding client_send_def by (simp add: with_cache_def)
  have attach: "attachCredential (with_cache c x) ctx rq = attachCredential c ctx rq" for rq
    by (cases "o_apiKey (c_opts c) = []") (simp_all add: with_cache_def attachCredential_def)
  have base: "c_baseURL (with_cache c x) = c_baseURL c" by (simp add: with_cache_def)
  show ?thesis unfolding ask_def rpc_def client_do_def send attach base by (rule refl)
qed

lemma enter_None:
  "authorize_enter pf (w, with_cache c x) sub p sc amr at = None \<Longrightarrow> askable sub p \<and>
    (\<forall>dc. x = Some dc \<longrightarrow> cache_get dc (cacheKey (pf_sha256 pf) sub p sc amr at) (client_now c w) = None)"
  using empty_invalid by (auto simp: authorize_enter_def askable_def split: if_splits)

lemma enter_Some:
  assumes "authorize_enter pf (w, with_cache c x) sub p sc amr at = Some r"
  shows "\<not> askable sub p \<and> (\<exists>e. r = Inl e) \<or>
    askable sub p \<and> (\<exists>dc d. x = Some dc \<and> cache_get dc (cacheKey (pf_sha256 pf) sub p sc amr at) (client_now c w) = Some d \<and>
      r = Inr (d\<lparr>dn_permission := p, dn_subject := sub\<rparr>))"
  using assms empty_invalid by (auto simp: authorize_enter_def askable_def split: if_splits option.splits)

lemma call_asks:
  assumes "authorize_call pf (w, with_cache c x) ctx sub p sc amr at = ((w', c'), r)"
  shows "\<exists>r0. ask pf c w ctx sub p sc amr at = (w', r0) \<and> r = map_sum id (\<lambda>d. d\<lparr>dn_permission := p, dn_subject := sub\<rparr>) r0 \<and>
    c' = with_cache c (case r of Inl _ \<Rightarrow> x
      | Inr d \<Rightarrow> map_option (\<lambda>dc. cache_put dc (cacheKey (pf_sha256 pf) sub p sc amr at) d (client_now c w')) x)"
proof -
  obtain v r0 where ask: "ask pf c w ctx sub p sc amr at = (v, r0)" by force
  then show ?thesis using assms
    by (cases r0; cases x) (simp_all add: authorize_call_def with_cache_def [symmetric] Let_def, auto simp: with_cache_def)
qed

section \<open>What every interleaving keeps\<close>

fun holds_slot :: "many_pc \<Rightarrow> bool" where
  "holds_slot MWaiting = False" | "holds_slot (MDone _) = False" | "holds_slot _ = True"

fun steps_left :: "many_pc \<Rightarrow> nat" where
  "steps_left MWaiting = 4" | "steps_left MEntered = 3" | "steps_left MCalling = 2"
| "steps_left (MAnswered _) = 1" | "steps_left (MDone _) = 0"

definition slots :: "many_pc list \<Rightarrow> nat" where
  "slots pcs = length (filter holds_slot pcs)"

definition pc_inv ::
  "'w platform \<Rightarrow> 'w Client \<Rightarrow> Ctx \<Rightarrow> Identity \<Rightarrow> Ask list \<Rightarrow> 'w many_event list \<Rightarrow> nat \<Rightarrow> many_pc \<Rightarrow> bool" where
  "pc_inv pf c ctx i asks tr n pc = (case pc of
     MWaiting \<Rightarrow> calls n tr = 0 | MEntered \<Rightarrow> calls n tr = 0
   | MCalling \<Rightarrow> calls n tr = 0 \<and> askable (id_Subject i) (as_Permission (asks ! n)) \<and> missed pf c i asks tr n
   | MAnswered r \<Rightarrow> rightly_answered pf c ctx i asks tr n r | MDone r \<Rightarrow> rightly_answered pf c ctx i asks tr n r)"

definition many_inv ::
  "'w platform \<Rightarrow> Ctx \<Rightarrow> Identity \<Rightarrow> Ask list \<Rightarrow> 'w Client \<Rightarrow> 'w many_event list \<Rightarrow> 'w many \<Rightarrow> bool" where
  "many_inv pf ctx i asks c tr m \<longleftrightarrow> IdentityFromContext ctx = Some i \<and> length (my_pcs m) = length asks \<and>
     my_sem m = slots (my_pcs m) \<and> my_sem m \<le> maxInFlight \<and>
     my_client m = with_cache c (cache_after pf c i asks tr) \<and>
     length tr + sum_list (map steps_left (my_pcs m)) \<le> 4 * length asks \<and>
     (\<forall>n < length asks. pc_inv pf c ctx i asks tr n (my_pcs m ! n))"

lemma slots_Cons: "slots (p # pcs) = of_bool (holds_slot p) + slots pcs"
  by (simp add: slots_def)

lemma slots_update:
  "n < length pcs \<Longrightarrow> slots (pcs[n := pc]) + of_bool (holds_slot (pcs ! n)) = slots pcs + of_bool (holds_slot pc)"
proof (induction pcs arbitrary: n)
  case (Cons p pcs)
  then show ?case by (cases n) (simp_all add: slots_Cons)
qed simp

lemma steps_update:
  "n < length pcs \<Longrightarrow> sum_list (map steps_left (pcs[n := pc])) + steps_left (pcs ! n) = sum_list (map steps_left pcs) + steps_left pc"
  by (induction pcs arbitrary: n) (auto split: nat.splits)

lemma pc_inv_other:
  assumes "pc_inv pf c ctx i asks tr n pc" "\<And>w w' r. e \<noteq> Called n w w' r"
  shows "pc_inv pf c ctx i asks (e # tr) n pc"
  using assms(1) calls_Cons [OF assms(2)] rightly_answered_Cons [OF _ assms(2)] missed_Cons
  by (auto simp: pc_inv_def split: many_pc.splits)

text \<open>One goroutine moves: what is left to show is about it alone.\<close>

lemma many_inv_move:
  assumes inv: "many_inv pf ctx i asks c tr m" and n: "n < length asks"
    and other: "\<And>k w w' r. e = Called k w w' r \<Longrightarrow> k = n"
    and sem: "sem + of_bool (holds_slot (my_pcs m ! n)) = my_sem m + of_bool (holds_slot pc)" "sem \<le> maxInFlight"
    and left: "Suc (steps_left pc) \<le> steps_left (my_pcs m ! n)"
    and cl: "cl = with_cache c (cache_after pf c i asks (e # tr))"
    and pc: "pc_inv pf c ctx i asks (e # tr) n pc"
  shows "many_inv pf ctx i asks c (e # tr) \<lparr>my_client = cl, my_sem = sem, my_pcs = (my_pcs m)[n := pc]\<rparr>"
proof -
  have len: "length (my_pcs m) = length asks" using inv by (simp add: many_inv_def)
  have "pc_inv pf c ctx i asks (e # tr) k ((my_pcs m)[n := pc] ! k)" if k: "k < length asks" for k
  proof (cases "k = n")
    case True
    then show ?thesis using pc n len by simp
  next
    case False
    with other have "e \<noteq> Called k w w' r" for w w' r by blast
    with inv k pc_inv_other have "pc_inv pf c ctx i asks (e # tr) k (my_pcs m ! k)" unfolding many_inv_def by blast
    with False show ?thesis by simp
  qed
  moreover have "sem = slots ((my_pcs m)[n := pc])"
    using slots_update [of n "my_pcs m" pc] sem(1) inv n len by (simp add: many_inv_def)
  moreover have "Suc (length tr) + sum_list (map steps_left ((my_pcs m)[n := pc])) \<le> 4 * length asks"
    using steps_update [of n "my_pcs m" pc] left inv n len by (simp add: many_inv_def)
  ultimately show ?thesis using inv sem(2) cl by (simp add: many_inv_def)
qed

lemma look_inv:
  assumes inv: "many_inv pf ctx i asks c tr m" and n: "n < length asks" and pc: "my_pcs m ! n = MEntered"
    and enter: "authorize_enter pf (w, my_client m) (id_Subject i) (as_Permission (asks ! n)) (as_Scopes (asks ! n)) (id_Methods i)
      (Time_Unix (id_authenticatedAt i)) = hit"
  shows "pc_inv pf c ctx i asks (Looked n w hit # tr) n (case hit of None \<Rightarrow> MCalling | Some r \<Rightarrow> MAnswered r)"
proof -
  have calls: "calls n tr = 0" and cl: "my_client m = with_cache c (cache_after pf c i asks tr)"
    using inv n pc by (auto simp: many_inv_def pc_inv_def)
  show ?thesis
  proof (cases hit)
    case None
    with enter cl have "authorize_enter pf (w, with_cache c (cache_after pf c i asks tr)) (id_Subject i) (as_Permission (asks ! n))
      (as_Scopes (asks ! n)) (id_Methods i) (Time_Unix (id_authenticatedAt i)) = None" by simp
    from enter_None [OF this] have "askable (id_Subject i) (as_Permission (asks ! n)) \<and> missed pf c i asks (Looked n w hit # tr) n"
      using None unfolding missed_def ask_key_def by (auto intro!: exI [of _ "[]"])
    with None calls show ?thesis by (simp add: pc_inv_def)
  next
    case (Some r)
    with enter cl have "authorize_enter pf (w, with_cache c (cache_after pf c i asks tr)) (id_Subject i) (as_Permission (asks ! n))
      (as_Scopes (asks ! n)) (id_Methods i) (Time_Unix (id_authenticatedAt i)) = Some r" by simp
    from enter_Some [OF this] have "refused_unasked i asks (Looked n w hit # tr) n r \<or> from_cache pf c i asks (Looked n w hit # tr) n r"
      using calls Some unfolding answer_defs ask_key_def named_def by (auto intro!: exI [of _ "[]"])
    with Some show ?thesis by (auto simp: pc_inv_def rightly_answered_def)
  qed
qed

lemma named_eq: "(\<lambda>d. d\<lparr>dn_permission := as_Permission a, dn_subject := id_Subject i\<rparr>) = named i a"
  by (simp add: named_def fun_eq_iff)

lemma call_inv:
  assumes inv: "many_inv pf ctx i asks c tr m" and n: "n < length asks" and pc: "my_pcs m ! n = MCalling"
    and call: "authorize_call pf (w, my_client m) ctx (id_Subject i) (as_Permission (asks ! n)) (as_Scopes (asks ! n)) (id_Methods i)
      (Time_Unix (id_authenticatedAt i)) = ((w', c'), r)"
  shows "pc_inv pf c ctx i asks (Called n w w' r # tr) n (MAnswered r) \<and>
    c' = with_cache c (cache_after pf c i asks (Called n w w' r # tr))"
proof -
  have calls: "calls n tr = 0" "askable (id_Subject i) (as_Permission (asks ! n))" "missed pf c i asks tr n"
    and cl: "my_client m = with_cache c (cache_after pf c i asks tr)"
    using inv n pc by (auto simp: many_inv_def pc_inv_def)
  from call_asks [OF call [unfolded cl]] obtain r0 where
    r0: "ask_question pf c ctx i (asks ! n) w = (w', r0)" "r = map_sum id (named i (asks ! n)) r0"
    and c': "c' = with_cache c (case r of Inl _ \<Rightarrow> cache_after pf c i asks tr
      | Inr d \<Rightarrow> map_option (\<lambda>dc. cache_put dc (ask_key pf i (asks ! n)) d (client_now c w')) (cache_after pf c i asks tr))"
    unfolding named_eq ask_key_def [symmetric] ask_question_def [symmetric] by blast
  from r0 calls have "from_installation pf c ctx i asks (Called n w w' r # tr) n r"
    unfolding from_installation_def by (auto intro: missed_Cons)
  with c' show ?thesis by (cases r) (simp_all add: pc_inv_def rightly_answered_def)
qed

lemma many_step_inv:
  assumes step: "many_step pf ctx i asks m e m'" and inv: "many_inv pf ctx i asks c tr m"
  shows "many_inv pf ctx i asks c (e # tr) m'"
proof -
  note keep = inv [unfolded many_inv_def]
  obtain cl sem pcs where m: "m = \<lparr>my_client = cl, my_sem = sem, my_pcs = pcs\<rparr>" by (cases m)
  note move = many_inv_move [OF inv]
  show ?thesis using step
  proof cases
    case (acquire n)
    with keep move [of n e "Suc sem" MEntered cl] show ?thesis by (auto simp: m pc_inv_def)
  next
    case (look n w hit)
    have "pc_inv pf c ctx i asks (e # tr) n (case hit of None \<Rightarrow> MCalling | Some r \<Rightarrow> MAnswered r)"
      using look_inv [OF inv] look by simp
    with look keep move [of n e sem "case hit of None \<Rightarrow> MCalling | Some r \<Rightarrow> MAnswered r" cl]
    show ?thesis by (cases hit) (auto simp: m)
  next
    case (call n w w' c' r)
    have "pc_inv pf c ctx i asks (e # tr) n (MAnswered r)" "c' = with_cache c (cache_after pf c i asks (e # tr))"
      using call_inv [OF inv call(3-5)] unfolding call(1) by blast+
    moreover have "sem \<le> maxInFlight" "my_pcs m ! n = MCalling" using keep call(4) by (simp_all add: m)
    ultimately have "many_inv pf ctx i asks c (e # tr) \<lparr>my_client = c', my_sem = sem, my_pcs = (my_pcs m)[n := MAnswered r]\<rparr>"
      using call(1) by (intro move [OF call(3)]) (simp_all add: m)
    then show ?thesis unfolding call(2) by (simp add: m)
  next
    case (free n r)
    then have "slots pcs \<noteq> 0" using keep slots_update [of n pcs "MDone r"] by (simp add: m)
    with free keep move [of n e "sem - 1" "MDone r" cl] show ?thesis
      using pc_inv_other [of pf c ctx i asks tr n "MAnswered r" e] by (auto simp: m pc_inv_def)
  qed
qed

lemma many_run_inv: "many_run pf ctx i asks c tr m \<Longrightarrow> many_inv pf ctx i asks c tr m"
proof (induction rule: many_run.induct)
  case (start m)
  then show ?case
    by (auto simp: many_start_def many_inv_def slots_def pc_inv_def sum_list_replicate with_cache_def split: option.splits)
next
  case (step tr m e m')
  then show ?case by (blast intro: many_step_inv)
qed

section \<open>No interleaving gets stuck\<close>

lemma many_progress:
  assumes inv: "many_inv pf ctx i asks c tr m" and n: "n < length asks" "\<not> pc_done (my_pcs m ! n)"
  shows "\<exists>e m'. many_step pf ctx i asks m e m'"
proof (cases "\<exists>k < length asks. holds_slot (my_pcs m ! k)")
  case True
  then obtain k where k: "k < length asks" "holds_slot (my_pcs m ! k)" by blast
  show ?thesis
  proof (cases "my_pcs m ! k")
    case MEntered
    show ?thesis by (intro exI) (rule many_step.look [OF k(1) MEntered refl, where w = undefined])
  next
    case MCalling
    obtain w' c' r where "authorize_call pf (undefined, my_client m) ctx (id_Subject i) (as_Permission (asks ! k))
        (as_Scopes (asks ! k)) (id_Methods i) (Time_Unix (id_authenticatedAt i)) = ((w', c'), r)"
      by (metis surj_pair)
    from many_step.call [OF k(1) MCalling this] show ?thesis by blast
  next
    case (MAnswered r)
    with k(1) many_step.free show ?thesis by blast
  qed (use k(2) in simp_all)
next
  case False
  then have "my_sem m = 0" using inv by (auto simp: many_inv_def slots_def filter_empty_conv in_set_conv_nth)
  moreover have "my_pcs m ! n = MWaiting" using False n by (cases "my_pcs m ! n") auto
  ultimately show ?thesis using n(1) many_step.acquire [of n asks m] by fastforce
qed

lemma may_enter:
  assumes inv: "many_inv pf ctx i asks c tr m" and n: "n < length asks" "my_pcs m ! n = MWaiting"
  shows "(\<exists>m'. many_step pf ctx i asks m (Took n) m') \<longleftrightarrow> length (filter holds_slot (my_pcs m)) < maxInFlight"
proof -
  have "my_sem m = length (filter holds_slot (my_pcs m))" using inv by (simp add: many_inv_def slots_def)
  then show ?thesis using many_step.acquire [of n asks m pf ctx i] n by (auto elim: many_step.cases)
qed

lemma many_inv_done:
  assumes inv: "many_inv pf ctx i asks c tr m" and dn: "\<forall>n < length asks. pc_done (my_pcs m ! n)"
  shows "my_sem m = 0 \<and> (\<exists>rs. my_pcs m = map MDone rs \<and> length rs = length asks \<and>
    (\<forall>n < length asks. rightly_answered pf c ctx i asks tr n (rs ! n)))"
proof -
  have len: "length (my_pcs m) = length asks" using inv by (simp add: many_inv_def)
  have "\<exists>r. pc = MDone r" if "pc \<in> set (my_pcs m)" for pc
    using dn len that by (metis in_set_conv_nth pc_done.elims(2))
  then obtain f where f: "\<And>pc. pc \<in> set (my_pcs m) \<Longrightarrow> pc = MDone (f pc)" by metis
  have pcs: "my_pcs m = map MDone (map f (my_pcs m))"
    by (rule nth_equalityI) (use f nth_mem in force)+
  have "\<not> holds_slot pc" if "pc \<in> set (my_pcs m)" for pc using f [OF that] holds_slot.simps(2) by metis
  then have "my_sem m = 0" using inv by (simp add: many_inv_def slots_def filter_empty_conv)
  moreover have "rightly_answered pf c ctx i asks tr n (map f (my_pcs m) ! n)" if n: "n < length asks" for n
  proof -
    have "pc_inv pf c ctx i asks tr n (my_pcs m ! n)" using inv n by (simp add: many_inv_def)
    moreover have "my_pcs m ! n = MDone (map f (my_pcs m) ! n)" using pcs len n by (metis length_map nth_map)
    ultimately show ?thesis by (simp add: pc_inv_def)
  qed
  ultimately show ?thesis using pcs len by (metis length_map)
qed

lemma many_result_done: "my_pcs m = map MDone rs \<Longrightarrow>
    many_result m = (map (case_sum (\<lambda>_. zero_Decision) id) rs, errors_Join (map (case_sum Some (\<lambda>_. None)) rs))"
proof -
  have "pc_decision (MDone r) = case_sum (\<lambda>_. zero_Decision) id r" "pc_error (MDone r) = case_sum Some (\<lambda>_. None) r" for r
    by (cases r; simp)+
  then show "my_pcs m = map MDone rs \<Longrightarrow> ?thesis" by (simp add: many_result_def comp_def)
qed

end
