(* ===== verification/Authz_Properties.thy ===== *)
theory Authz_Properties
  imports Demo_Client Authz_Many
begin

text \<open>
  What a caller of the client may rely on: credentials and answers on the wire, error
  decoding, decisions and the decision cache. Stated over the model's operations; the
  witnesses run them on the world of \<open>Demo_Client\<close>.
\<close>

section \<open>On the wire\<close>

text \<open>C17: A client put together by \<open>New\<close> from the SDK's options sends, for a call, either nothing, or
  exactly one request to the procedure's URL under its base URL, whose Authorization header
  is the client's API key if it has one and the verified principal's own token otherwise,
  whatever extra headers, tenant or HTTP client were configured; and the call gives a value
  only when that request was answered with status 200.\<close>

theorem call_on_the_wire:
  assumes "New pf cookies baseURL opts = Inr c" "\<forall>f \<in> set opts. sdk_option f"
  shows "(\<exists>e. rpc pf c w ctx procedure body out zero = (w, Inl e)) \<or>
    (\<exists>t rq. the_credential c ctx = Some t \<and> rq_url rq = c_baseURL c @ procedure \<and> rq_body rq = marshal body \<and>
       header_Get (rq_header rq) ''Authorization'' = ''Bearer '' @ t \<and>
       fst (rpc pf c w ctx procedure body out zero) = fst (client_http c w rq) \<and>
       (\<forall>x. snd (rpc pf c w ctx procedure body out zero) = Inr x \<longrightarrow>
          (\<exists>rs. snd (client_http c w rq) = Inr rs \<and> rs_status rs = 200)))"
proof (cases "\<exists>e. rpc pf c w ctx procedure body out zero = (w, Inl e)")
  case False
  from New_wf [OF assms] have wf: "wf_options (c_opts c)" by (simp add: wf_client_def)
  from False obtain rq0 rq1 where n: "NewRequest pf ''POST'' (c_baseURL c @ procedure) (marshal body) ''application/json'' = Inr rq0"
    and a: "attachCredential c ctx rq0 = Inr rq1"
    by (auto simp: rpc_def split: sum.splits)
  let ?rq = "set_headers (o_headers (c_opts c)) (o_tenant (c_opts c)) rq1"
  have r: "rpc pf c w ctx procedure body out zero = client_do pf c w rq1 out zero"
    by (simp add: rpc_def n a)
  from attachCredential_auth [OF a] obtain t where t: "the_credential c ctx = Some t"
    "header_Get (rq_header rq1) ''Authorization'' = ''Bearer '' @ t" "rq_url rq1 = rq_url rq0" "rq_body rq1 = rq_body rq0"
    by blast
  have "rq_url ?rq = c_baseURL c @ procedure" "rq_body ?rq = marshal body"
    "header_Get (rq_header ?rq) ''Authorization'' = ''Bearer '' @ t"
    using t n by (auto simp: set_headers_auth [OF wf]) (auto simp: set_headers_def NewRequest_def Let_def split: option.splits)
  moreover have "fst (client_do pf c w rq1 out zero) = fst (client_http c w ?rq)"
    by (auto simp: client_do_def client_send_def split: prod.splits sum.splits)
  moreover have "\<exists>rs. snd (client_http c w ?rq) = Inr rs \<and> rs_status rs = 200"
    if "snd (client_do pf c w rq1 out zero) = Inr x" for x
    using that by (auto simp: client_do_def client_send_def decode_out_def split: prod.splits sum.splits option.splits if_splits)
  ultimately show ?thesis using t(1) r by auto
qed simp

theorem call_on_the_wire_witness:
  "\<exists>rq. fst (rpc (demo_pf []) (demo_client []) [] \<lparr>ctx_principal = None, ctx_bearer = None\<rparr> ''/p'' GNull None ()) = [rq] \<and>
     header_Get (rq_header rq) ''Authorization'' = ''Bearer anb_live_k'' \<and> rq_url rq = ''https://id.example/p''"
proof -
  let ?ctx = "\<lparr>ctx_principal = None, ctx_bearer = None\<rparr>"
  let ?r = "rpc (demo_pf []) (demo_client []) [] ?ctx ''/p'' GNull None ()"
  have "fst ?r \<noteq> []"
    by (simp add: rpc_def NewRequest_def attachCredential_def client_do_def client_send_def answering_def
        read_limited_def)
  moreover have "the_credential (demo_client []) ?ctx = Some ''anb_live_k''" by (simp add: the_credential_def)
  ultimately obtain rq where "rq_url rq = ''https://id.example/p''" "header_Get (rq_header rq) ''Authorization'' = ''Bearer anb_live_k''"
    "fst ?r = fst (answering [] [] rq)"
    using call_on_the_wire [OF demo_New [of "[]"] demo_options_sdk, where w = "[]" and ctx = ?ctx and procedure = "''/p''"
        and body = GNull and out = None and zero = "()"]
    by fastforce
  then show ?thesis by (auto simp: answering_def)
qed

text \<open>C40: A redirect never carries the credential on: for a client built by \<open>New\<close>,
  whatever HTTP client it was given, an answer that redirects ends the call as an
  unavailable installation, in the world the one request left.\<close>

theorem redirects_refused:
  assumes "New pf cookies baseURL opts = Inr c" "\<forall>f \<in> set opts. sdk_option f"
    and "o_httpClient (c_opts c) = Some hc"
    and "hc_transport hc (hc_Timeout hc) w (set_headers (o_headers (c_opts c)) (o_tenant (c_opts c)) rq) = (w', Inr rs)"
    and "rs_status rs \<in> {301, 302, 303, 307, 308}" "header_Get (rs_header rs) ''Location'' \<noteq> []"
  shows "\<exists>e. client_do pf c w rq out zero = (w', Inl (ErrUnavailable e))"
proof -
  from New_wf [OF assms(1,2)] assms(3) have "hc_refuse hc" by (simp add: wf_client_def)
  with assms(3-6) show ?thesis
    by (auto simp: client_do_def client_send_def client_http_def http_Do_def decode_out_def split: option.splits)
qed

definition redirecting :: "http_request list net" where
  "redirecting w rq = (rq # w, Inr \<lparr>rs_status = 302, rs_header = [(''Location'', ''https://elsewhere'')], rs_body = [], rs_read_err = None\<rparr>)"

theorem redirects_refused_witness:
  "\<exists>c e rq. snd (client_do (demo_pf []) c [] rq (None :: (json \<Rightarrow> unit \<Rightarrow> unit option) option) ()) = Inl (ErrUnavailable e)"
proof -
  let ?hc = "\<lparr>hc_Timeout = 0, hc_transport = (\<lambda>t. redirecting), hc_refuse = False\<rparr>"
  let ?rq = "\<lparr>rq_method = [], rq_url = [], rq_header = [], rq_body = []\<rparr>"
  let ?rs = "\<lparr>rs_status = 302, rs_header = [(''Location'', ''https://elsewhere'')], rs_body = [], rs_read_err = None\<rparr>"
  have e: "redirecting [] (set_headers [] [] ?rq) = ([?rq], Inr ?rs)" "header_Get (rs_header ?rs) ''Location'' \<noteq> []"
    by (simp_all add: redirecting_def set_headers_def header_Get_def)
  let ?opts = "[WithHTTPClient (Some ?hc)]"
  obtain c where c: "New (demo_pf []) (cookieStore (demo_pf [])) ''https://id.example'' ?opts = Inr c"
    "o_httpClient (c_opts c) = Some (?hc\<lparr>hc_refuse := True\<rparr>)" "o_headers (c_opts c) = []" "o_tenant (c_opts c) = []"
    by (simp add: New_def newOptions_def default_options_def WithHTTPClient_def Let_def)
  have s: "\<forall>f \<in> set ?opts. sdk_option f" by (auto intro: sdk_option.intros)
  show ?thesis
    using redirects_refused [OF c(1) s c(2), where w = "[]" and rq = ?rq and w' = "[?rq]" and rs = ?rs and
        out = "None :: (json \<Rightarrow> unit \<Rightarrow> unit option) option" and zero = "()"] e
    by (auto simp: c(3,4)) (metis snd_conv)
qed

section \<open>Errors\<close>

text \<open>C37: The stable code survives the trip: the error body the installation writes (Connect's
  transport class, and the domain code, request id and details in a base64 protobuf
  \<open>ErrorInfo\<close>) is read back by the client with every one of these values, the domain code
  taking the place of the class when there is one.\<close>

theorem error_roundtrip:
  assumes "ascii cls" "ascii message" "length code < 2 ^ 64" "length rid < 2 ^ 64" "details_ok m"
  shows "parseWireError (marshal (connect_error cls message (encodeErrorInfo code rid @ encode_details m))) status =
    \<lparr>ae_Code = firstNonEmpty [code, cls], ae_Message = message, ae_RequestID = rid, ae_Status = status,
     ae_Details = m, ae_class = cls\<rparr>"
  using parseWireError_connect [OF assms] .

theorem error_roundtrip_witness:
  "ae_Code (parseWireError (marshal (connect_error ''unavailable'' ''no'' (encodeErrorInfo ''stream_unavailable'' ''req_1'' @
     encode_details [(''hint'', ''retry'')]))) 503) = ''stream_unavailable''"
  by (subst error_roundtrip) (simp_all add: details_ok_def firstNonEmpty_def map_entry_parts appendField_def
      appendVarint_small wf_map_def)

text \<open>Cx: Every 64-bit value the test server writes as a protobuf varint is read back by
  \<open>binary.Uvarint\<close>, with the number of bytes written, whatever follows it.\<close>

theorem varint_roundtrip:
  "Uvarint (appendVarint n @ r) = (n, int (length (appendVarint n)))"
  by (rule Uvarint_append)

section \<open>Decisions\<close>

text \<open>\<open>authorize\<close> refuses an empty subject and anything that is not a permission key without
  asking anybody, and every answer it gives, from the installation or from the cache, names
  the permission and the subject that were asked about.\<close>

lemma authorize_answers_the_question:
  "(\<not> askable subject permission \<longrightarrow> (\<exists>e. authorize pf s ctx subject permission scopes methods at = (s, Inl e))) \<and>
   (\<forall>s' d. authorize pf s ctx subject permission scopes methods at = (s', Inr d) \<longrightarrow>
      askable subject permission \<and> dn_permission d = permission \<and> dn_subject d = subject)"
  using authorize_refuses authorize_names_question by blast

lemma authorize_answers_the_question_witness:
  "dn_permission (demo_yes ''b:i:read'') = ''b:i:read'' \<and>
   (\<exists>e. authorize (demo_pf []) ([], demo_client []) \<lparr>ctx_principal = None, ctx_bearer = None\<rparr> ''usr_1'' ''b:i'' [] [] 0 =
     (([], demo_client []), Inl e))"
proof -
  let ?ctx = "\<lparr>ctx_principal = None, ctx_bearer = None\<rparr>"
  have "cache_get demo_dc k demo_now = None" for k by (simp add: demo_dc_def newDecisionCache_def cache_get_def)
  from demo_authorize [OF demo_askable(1) this, of "[]" ?ctx "[]" "[]" 0]
    authorize_answers_the_question [of "''usr_1''" "''b:i:read''" "demo_pf demo_allow_body" "([], demo_with demo_dc)" ?ctx "[]" "[]" 0]
    authorize_answers_the_question [of "''usr_1''" "''b:i''" "demo_pf []" "([], demo_client [])" ?ctx "[]" "[]" 0]
  show ?thesis using demo_askable(2) by auto
qed

text \<open>C15: The guards fail closed. \<open>Require\<close> returns no error exactly when the installation was asked
  about the verified principal and allowed; the middleware \<open>Requires\<close> hands a request on only
  then, unchanged, and answers 401, 403 or 503 itself otherwise.\<close>

theorem guards_fail_closed:
  "(snd (Require pf s ctx permission scopes) = None \<longleftrightarrow>
      (\<exists>d p. snd (Authorize pf s ctx permission scopes) = Inr d \<and> dn_Allow d \<and> dn_permission d = permission \<and>
         FromContext ctx = Some p \<and> dn_subject d = id_Subject (Principal_Identity p))) \<and>
   (case Requires pf permission axes s ctx r of
      (s', Next ctx') \<Rightarrow> ctx' = ctx \<and> snd (Require pf s ctx permission (case axes of None \<Rightarrow> [] | Some f \<Rightarrow> f r)) = None
    | (s', Answer st h b) \<Rightarrow> st \<in> {401, 403, 503})"
proof -
  have "snd (Require pf s ctx permission scopes) = None \<longleftrightarrow>
      (\<exists>d p. snd (Authorize pf s ctx permission scopes) = Inr d \<and> dn_Allow d \<and> dn_permission d = permission \<and>
         FromContext ctx = Some p \<and> dn_subject d = id_Subject (Principal_Identity p))"
    unfolding Require_None_iff
    by (metis Authorize_principal prod.collapse)
  moreover have "case Requires pf permission axes s ctx r of
      (s', Next ctx') \<Rightarrow> ctx' = ctx \<and> snd (Require pf s ctx permission (case axes of None \<Rightarrow> [] | Some f \<Rightarrow> f r)) = None
    | (s', Answer st h b) \<Rightarrow> st \<in> {401, 403, 503}"
    by (auto simp: Requires_def split: prod.split option.split)
  ultimately show ?thesis ..
qed

section \<open>The decision cache\<close>

text \<open>C3: Whatever sequence of calls a client has served, with the world moving in between: an answer
  \<open>authorize\<close> takes from the cache sends nothing and is one the installation gave to the
  very same question (subject, permission, scopes, methods, authentication time), not a
  step-up refusal, and no older than the configured lifetime. Assumed of SHA-256: that it
  does not collide on the questions asked; of the questions: that no name holds a NUL, no
  axis or method an equals sign.\<close>

theorem cached_answers_faithful:
  assumes run: "authz_run pf c0 (w, c) log" "o_cache (c_opts c0) = Some dc0" "dcache_empty dc0"
    and hit: "o_cache (c_opts c) = Some dc"
      "cache_get dc (question_key (pf_sha256 pf) (sub, p, sc, amr, at)) (client_now c w) = Some d0"
    and ans: "authorize pf (w, c) ctx sub p sc amr at = (s', Inr d)"
    and sha: "inj_on (pf_sha256 pf) (insert (question_text (sub, p, sc, amr, at)) (question_text ` fst ` set log))"
    and plain: "plain (sub, p, sc, amr, at)" "\<forall>e \<in> set log. plain (fst e)"
  shows "s' = (w, c) \<and> (\<exists>q t. (q, d0, t) \<in> set log \<and> same_question (sub, p, sc, amr, at) q \<and>
    \<not> Decision_NeedsStepUp d0 \<and> client_now c w \<le> t + dc_ttl dc0 \<and> d = d0\<lparr>dn_permission := p, dn_subject := sub\<rparr>)"
proof -
  from cache_hit_logged [OF run hit] obtain q t where q: "(q, d0, t) \<in> set log"
    "question_key (pf_sha256 pf) q = question_key (pf_sha256 pf) (sub, p, sc, amr, at)"
    "\<not> Decision_NeedsStepUp d0" "client_now c w \<le> t + dc_ttl dc0" by blast
  from q(1) plain(2) have "plain q" by force
  moreover from q(1) have "question_text q \<in> question_text ` fst ` set log" by force
  ultimately have "same_question (sub, p, sc, amr, at) q"
    using question_key_inj [OF sha _ _ q(2) [symmetric]] plain(1) by blast
  moreover from authorize_cached_client [OF hit(1) _ ans, of d0] hit(2)
  have "s' = (w, c) \<and> d = d0\<lparr>dn_permission := p, dn_subject := sub\<rparr>" by (simp add: question_key_def)
  ultimately show ?thesis using q by blast
qed

theorem cached_answers_faithful_witness:
  "\<exists>s w dc. authorize (demo_pf demo_allow_body) (w, demo_with dc) \<lparr>ctx_principal = None, ctx_bearer = None\<rparr> ''usr_1'' ''b:i:read'' [] [] 0 =
     (s, Inr (demo_yes ''b:i:read'')) \<and> s = (w, demo_with dc) \<and> length w = 1"
proof -
  let ?pf = "demo_pf demo_allow_body" and ?ctx = "\<lparr>ctx_principal = None, ctx_bearer = None\<rparr>"
  let ?q = "(''usr_1'', ''b:i:read'', [], [], 0)" and ?k = "cacheKey (\<lambda>x. x) ''usr_1'' ''b:i:read'' [] [] 0"
  let ?dc = "cache_put demo_dc ?k (demo_yes ''b:i:read'') demo_now"
  let ?rq = "demo_request ''/anubis.v1.AuthzService/Authorize'' (decision_request ''usr_1'' ''b:i:read'' [] [] 0)"
  have none: "cache_get demo_dc ?k demo_now = None" by (simp add: demo_dc_def newDecisionCache_def cache_get_def)
  have a: "authorize ?pf ([], demo_with demo_dc) ?ctx ''usr_1'' ''b:i:read'' [] [] 0 = (([?rq], demo_with ?dc), Inr (demo_yes ''b:i:read''))"
    by (rule demo_authorize [OF demo_askable(1) none])
  have run: "authz_run ?pf (demo_with demo_dc) ([?rq], demo_with ?dc) [(?q, demo_yes ''b:i:read'', demo_now)]"
    using authz_run.answered [OF authz_run.start _ a] none by (simp add: question_key_def)
  have h: "cache_get ?dc ?k demo_now = Some (demo_yes ''b:i:read'')"
    by (subst store.get_put_same) (simp_all add: demo_dc_def newDecisionCache_def demo_yes_def zero_Decision_def)
  have b: "authorize ?pf ([?rq], demo_with ?dc) ?ctx ''usr_1'' ''b:i:read'' [] [] 0 =
      (([?rq], demo_with ?dc), Inr ((demo_yes ''b:i:read'')\<lparr>dn_permission := ''b:i:read'', dn_subject := ''usr_1''\<rparr>))"
    using demo_askable(1) h empty_invalid by (auto simp: authorize_def askable_def)
  have p: "plain ?q" by (simp add: plain_def plain_question_def wf_map_def in64_def)
  have "dcache_empty demo_dc" by (simp add: demo_dc_def newDecisionCache_def dcache_empty_def)
  from cached_answers_faithful [OF run _ this _ _ b, of ?dc "demo_yes ''b:i:read''"] h p b
  show ?thesis by (auto simp: question_key_def demo_yes_def)
qed

text \<open>C34: Two questions share a cache key exactly when they are the same question: the key does not
  depend on the order in which a map or the methods are listed, and it depends on
  everything else. Assumed as above.\<close>

theorem cache_key_exact:
  assumes "inj_on h {question_text q, question_text q'}" "plain q" "plain q'"
  shows "question_key h q = question_key h q' \<longleftrightarrow> same_question q q'"
proof
  show "same_question q q'" if "question_key h q = question_key h q'"
    by (rule question_key_inj [OF assms(1) _ _ that assms(2,3)]) auto
  show "question_key h q = question_key h q'" if "same_question q q'"
    using that assms(2,3) cacheKey_same_question
    by (auto simp: same_question_def question_key_def plain_def plain_question_def split: prod.splits)
qed

theorem cache_key_exact_witness:
  "question_key (\<lambda>x. x) (''u'', ''b:i:r'', [(''x'', ''1''), (''y'', ''2'')], [''otp'', ''pwd''], 5) =
     question_key (\<lambda>x. x) (''u'', ''b:i:r'', [(''y'', ''2''), (''x'', ''1'')], [''pwd'', ''otp''], 5) \<and>
   question_key (\<lambda>x. x) (''u'', ''b:i:r'', [(''x'', ''1'')], [], 5) \<noteq> question_key (\<lambda>x. x) (''u'', ''b:i:r'', [], [], 5)"
proof -
  let ?q = "(''u'', ''b:i:r'', [(''x'', ''1''), (''y'', ''2'')], [''otp'', ''pwd''], 5)"
  let ?q' = "(''u'', ''b:i:r'', [(''y'', ''2''), (''x'', ''1'')], [''pwd'', ''otp''], 5)"
  let ?r = "(''u'', ''b:i:r'', [(''x'', ''1'')], [], 5)" and ?r' = "(''u'', ''b:i:r'', [], [], 5)"
  have p: "plain ?q" "plain ?q'" "plain ?r" "plain ?r'" by (simp_all add: plain_def plain_question_def wf_map_def in64_def)
  have s: "same_question ?q ?q'" "\<not> same_question ?r ?r'" by (auto simp: same_question_def same_map_def fun_eq_iff)
  show ?thesis
    using cache_key_exact [OF _ p(1,2), of "\<lambda>x. x"] cache_key_exact [OF _ p(3,4), of "\<lambda>x. x"] s by simp
qed

text \<open>Without the condition on equals signs the key is ambiguous: a place on an axis and an
  authentication method of the same spelling give one key, so an installation that admitted
  such names could be asked about one question and answer another from the cache.\<close>

lemma cache_key_ambiguous:
  "cacheKey h s p [(a, v)] [] at = cacheKey h s p [] [a @ ''='' @ v] at"
  by (simp add: cacheKey_def cache_key_text_def Scopes_Axes_def Scopes_at_def)

text \<open>The cache is bounded and forgets only in whole generations: after any sequence of puts it
  holds at most twice the configured size, and the entries of the live generation are
  unique per key; it answers nothing after the lifetime, and never a step-up refusal.\<close>

lemma cache_bounded:
  assumes "0 < cc_MaxSize cfg"
  shows "int (length (dc_live (store.run (newDecisionCache cfg) ps)) + length (dc_old (store.run (newDecisionCache cfg) ps))) \<le> 2 * cc_MaxSize cfg \<and>
    wf_map (dc_live (store.run (newDecisionCache cfg) ps)) \<and>
    (\<forall>k now d. cache_get (store.run (newDecisionCache cfg) ps) k now = Some d \<longrightarrow>
      (\<exists>t. (k, d, t) \<in> set ps \<and> \<not> Decision_NeedsStepUp d \<and> now \<le> t + cc_TTL cfg))"
proof -
  let ?run = "store.run (newDecisionCache cfg)"
  have wf: "wf_dcache (?run ps) \<and> dc_maxSize (?run ps) = cc_MaxSize cfg" for ps
  proof (induction ps)
    case Nil
    then show ?case using new_wf [OF assms] by (simp add: newDecisionCache_def)
  next
    case (Cons e ps)
    then show ?case by (cases e) (simp add: put_wf)
  qed
  have "dcache_empty (newDecisionCache cfg)" "dc_ttl (newDecisionCache cfg) = cc_TTL cfg"
    by (simp_all add: dcache_empty_def newDecisionCache_def)
  with store.answer_was_put [of "newDecisionCache cfg" ps] wf [of ps]
  show ?thesis by (auto simp: wf_dcache_def Decision_NeedsStepUp_def)
qed

lemma cache_bounded_witness:
  "length (dc_live (store.run (newDecisionCache \<lparr>cc_TTL = 5, cc_MaxSize = 1\<rparr>) [(''b'', zero_Decision, 0), (''a'', zero_Decision, 0)])) = 1 \<and>
   length (dc_old (store.run (newDecisionCache \<lparr>cc_TTL = 5, cc_MaxSize = 1\<rparr>) [(''b'', zero_Decision, 0), (''a'', zero_Decision, 0)])) = 1 \<and>
   cache_get (store.run (newDecisionCache \<lparr>cc_TTL = 5, cc_MaxSize = 1\<rparr>) [(''b'', zero_Decision, 0), (''a'', zero_Decision, 0)]) ''a'' 6 = None"
  using cache_bounded [of "\<lparr>cc_TTL = 5, cc_MaxSize = 1\<rparr>" "[(''b'', zero_Decision, 0), (''a'', zero_Decision, 0)]"]
  by (simp add: newDecisionCache_def store.run.simps) (simp add: cache_put_def zero_Decision_def cache_get_def)

section \<open>Many questions at once\<close>

text \<open>C16: \<open>AuthorizeMany\<close>, in every interleaving of its goroutines: it asks for the verified
  principal only; never more than eight goroutines are inside \<open>authorize\<close>, and one that waits
  can enter exactly when fewer are; a run has at most four steps per question and, until every
  question is answered, always another step. When all are, the semaphore is empty, and each
  answer was given rightly to the very question at its index, with that permission, those
  scopes and the principal's methods and sign-in time: either by the one call it made after
  the cache had missed, as the installation answered that request; or with no call, as the
  cache held it for exactly that question at that moment, the cache being filled by the other
  answers of the run; or with no call, as a question that cannot be asked. The result holds at
  each index the decision, or a zero one with its error among those joined in order.\<close>

theorem authorize_many:
  assumes "many_run pf ctx i asks c tr m"
  shows "IdentityFromContext ctx = Some i \<and> length (filter holds_slot (my_pcs m)) \<le> 8 \<and> length tr \<le> 4 * length asks \<and>
    (\<forall>n < length asks. my_pcs m ! n = MWaiting \<longrightarrow>
       ((\<exists>m'. many_step pf ctx i asks m (Took n) m') \<longleftrightarrow> length (filter holds_slot (my_pcs m)) < 8)) \<and>
    ((\<exists>n < length asks. \<not> pc_done (my_pcs m ! n)) \<longrightarrow> (\<exists>e m'. many_step pf ctx i asks m e m')) \<and>
    ((\<forall>n < length asks. pc_done (my_pcs m ! n)) \<longrightarrow> my_sem m = 0 \<and>
       (\<exists>rs. length rs = length asks \<and> (\<forall>n < length asks. rightly_answered pf c ctx i asks tr n (rs ! n)) \<and>
          many_result m = (map (case_sum (\<lambda>_. zero_Decision) id) rs, errors_Join (map (case_sum Some (\<lambda>_. None)) rs))))"
proof -
  from many_run_inv [OF assms] have inv: "many_inv pf ctx i asks c tr m" .
  then have "IdentityFromContext ctx = Some i" "length (filter holds_slot (my_pcs m)) \<le> 8" "length tr \<le> 4 * length asks"
    by (simp_all add: many_inv_def slots_def)
  moreover have "\<forall>n < length asks. my_pcs m ! n = MWaiting \<longrightarrow>
       ((\<exists>m'. many_step pf ctx i asks m (Took n) m') \<longleftrightarrow> length (filter holds_slot (my_pcs m)) < 8)"
    using may_enter [OF inv] by simp
  moreover have "\<exists>n < length asks. \<not> pc_done (my_pcs m ! n) \<Longrightarrow> \<exists>e m'. many_step pf ctx i asks m e m'"
    using many_progress [OF inv] by blast
  moreover have "\<forall>n < length asks. pc_done (my_pcs m ! n) \<Longrightarrow> my_sem m = 0 \<and>
       (\<exists>rs. length rs = length asks \<and> (\<forall>n < length asks. rightly_answered pf c ctx i asks tr n (rs ! n)) \<and>
          many_result m = (map (case_sum (\<lambda>_. zero_Decision) id) rs, errors_Join (map (case_sum Some (\<lambda>_. None)) rs)))"
    using many_inv_done [OF inv] many_result_done by metis
  ultimately show ?thesis by blast
qed

theorem authorize_many_witness:
  "\<exists>tr m r. many_run (demo_pf demo_allow_body) \<lparr>ctx_principal = Some \<lparr>p_Claims = Some demo_claims, p_Token = ''t''\<rparr>, ctx_bearer = None\<rparr>
       (Claims_Identity demo_claims) [\<lparr>as_Permission = ''b:i:read'', as_Scopes = [(''unit'', ''u1'')]\<rparr>] (demo_with demo_dc) tr m \<and>
     length tr = 4 \<and> my_sem m = 0 \<and> many_result m = ([demo_yes ''b:i:read''], None) \<and>
     rightly_answered (demo_pf demo_allow_body) (demo_with demo_dc) \<lparr>ctx_principal = Some \<lparr>p_Claims = Some demo_claims, p_Token = ''t''\<rparr>, ctx_bearer = None\<rparr>
       (Claims_Identity demo_claims) [\<lparr>as_Permission = ''b:i:read'', as_Scopes = [(''unit'', ''u1'')]\<rparr>] tr 0 r \<and>
     case_sum (\<lambda>_. zero_Decision) id r = demo_yes ''b:i:read''"
proof -
  let ?pf = "demo_pf demo_allow_body" and ?i = "Claims_Identity demo_claims" and ?c = "demo_with demo_dc"
  let ?ctx = "\<lparr>ctx_principal = Some \<lparr>p_Claims = Some demo_claims, p_Token = ''t''\<rparr>, ctx_bearer = None\<rparr>"
  let ?asks = "[\<lparr>as_Permission = ''b:i:read'', as_Scopes = [(''unit'', ''u1'')]\<rparr>]" and ?r = "Inr (demo_yes ''b:i:read'') :: Decision res"
  let ?at = "Time_Unix (id_authenticatedAt ?i)"
  have i: "id_Subject ?i = ''usr_1''" by (simp add: Claims_Identity_def demo_claims_def)
  have none: "cache_get demo_dc k demo_now = None" for k by (simp add: demo_dc_def newDecisionCache_def cache_get_def)
  have enter: "authorize_enter ?pf ([], ?c) ''usr_1'' ''b:i:read'' [(''unit'', ''u1'')] (id_Methods ?i) ?at = None"
    using demo_askable(1) empty_invalid none by (auto simp: authorize_enter_def askable_def)
  then obtain w' c' where call: "authorize_call ?pf ([], ?c) ?ctx ''usr_1'' ''b:i:read'' [(''unit'', ''u1'')] (id_Methods ?i) ?at = ((w', c'), ?r)"
    using demo_authorize [OF demo_askable(1) none, of "[]" ?ctx "[(''unit'', ''u1'')]" "id_Methods ?i" ?at] by (simp add: authorize_split)
  let ?m = "\<lambda>cl sem pc. \<lparr>my_client = cl, my_sem = sem, my_pcs = [pc]\<rparr>"
  have "many_start ?ctx ?c ?asks = Inr (?i, ?m ?c 0 MWaiting)"
    by (simp add: many_start_def IdentityFromContext_def FromContext_def Principal_Identity_def)
  note run = many_run.start [of ?ctx ?c ?asks ?i, OF this, of ?pf]
  have "many_step ?pf ?ctx ?i ?asks (?m ?c 0 MWaiting) (Took 0) (?m ?c 1 MEntered)"
    using many_step.acquire [of 0 ?asks "?m ?c 0 MWaiting" ?pf ?ctx ?i] by simp
  note run = many_run.step [OF run this]
  have "many_step ?pf ?ctx ?i ?asks (?m ?c 1 MEntered) (Looked 0 [] None) (?m ?c 1 MCalling)"
    using many_step.look [of 0 ?asks "?m ?c 1 MEntered" ?pf "[]" ?i None ?ctx] enter i by simp
  note run = many_run.step [OF run this]
  have "many_step ?pf ?ctx ?i ?asks (?m ?c 1 MCalling) (Called 0 [] w' ?r) (?m c' 1 (MAnswered ?r))"
    using many_step.call [of 0 ?asks "?m ?c 1 MCalling" ?pf "[]" ?ctx ?i w' c' ?r] call i by simp
  note run = many_run.step [OF run this]
  have "many_step ?pf ?ctx ?i ?asks (?m c' 1 (MAnswered ?r)) (Freed 0) (?m c' 0 (MDone ?r))"
    using many_step.free [of 0 ?asks "?m c' 1 (MAnswered ?r)" ?r ?pf ?ctx ?i] by simp
  note run = many_run.step [OF run this]
  have result: "many_result (?m c' 0 (MDone ?r)) = ([demo_yes ''b:i:read''], None)"
    by (simp add: many_result_def errors_Join_def List.map_filter_def)
  have "\<forall>n < length ?asks. pc_done (my_pcs (?m c' 0 (MDone ?r)) ! n)" by simp
  with authorize_many [OF run] obtain rs where rs: "length rs = length ?asks"
    "\<forall>n < length ?asks. rightly_answered ?pf ?c ?ctx ?i ?asks [Freed 0, Called 0 [] w' ?r, Looked 0 [] None, Took 0] n (rs ! n)"
    "many_result (?m c' 0 (MDone ?r)) = (map (case_sum (\<lambda>_. zero_Decision) id) rs, errors_Join (map (case_sum Some (\<lambda>_. None)) rs))"
    by blast
  from rs(3) result have "map (case_sum (\<lambda>_. zero_Decision) id) rs = [demo_yes ''b:i:read'']" by simp
  then have "case_sum (\<lambda>_. zero_Decision) id (rs ! 0) = demo_yes ''b:i:read''" by auto
  with run result rs(2) show ?thesis by (intro exI conjI) (assumption | simp)+
qed

end
