(* ===== verification/Token_Source.thy ===== *)
theory Token_Source
  imports Authz
begin

text \<open>
  The token source (\<open>tokensource.go\<close>): the expiry test, the two critical sections of
  \<open>Token\<close> and \<open>rotate\<close>, the sequential run one caller sees, \<open>Refresh\<close> and
  \<open>ClientCredentials\<close>. Theory \<open>Token_Flight\<close> runs the critical sections concurrently.

  A source holds its refresh function and its callback; both may change the world.
\<close>

abbreviation (input) refreshMargin :: duration where "refreshMargin \<equiv> 30 * second"

record 'w source =
  so_refresh :: "'w \<Rightarrow> Tokens \<Rightarrow> 'w \<times> Tokens option res"
  so_now :: "'w \<Rightarrow> gotime"
  so_needsRefreshToken :: bool
  so_tokens :: Tokens
  so_onRotate :: "('w \<Rightarrow> Tokens \<Rightarrow> 'w \<times> goerr option) option"
  so_inflight :: "nat option"

definition source_valid :: "Tokens \<Rightarrow> gotime \<Rightarrow> bool" where
  "source_valid t now =
     (if tk_AccessToken t = [] then False
      else let e = Tokens_Expiry t in
        if Time_IsZero e then True else now + refreshMargin < e)"

definition OnRotate :: "'w source \<Rightarrow> ('w \<Rightarrow> Tokens \<Rightarrow> 'w \<times> goerr option) option \<Rightarrow> 'w source" where
  "OnRotate s f = s\<lparr>so_onRotate := f\<rparr>"

definition Current :: "'w source \<Rightarrow> Tokens" where "Current s = so_tokens s"

section \<open>The critical sections\<close>

text \<open>
  What \<open>Token\<close> decides under the lock: the held pair is good, a flight is under way, there
  is nothing to refresh with, or this caller flies; \<open>n\<close> names the new flight.
\<close>

datatype token_entry = Held Tokens | Await nat | Exhausted | Depart Tokens

definition Token_enter :: "'w source \<Rightarrow> nat \<Rightarrow> gotime \<Rightarrow> 'w source \<times> token_entry" where
  "Token_enter s n now =
     (if source_valid (so_tokens s) now then (s, Held (so_tokens s))
      else case so_inflight s of
        Some k \<Rightarrow> (s, Await k)
      | None \<Rightarrow>
          if so_needsRefreshToken s \<and> tk_RefreshToken (so_tokens s) = [] then (s, Exhausted)
          else (s\<lparr>so_inflight := Some n\<rparr>, Depart (so_tokens s)))"

abbreviation (input) err_exhausted :: goerr where
  "err_exhausted \<equiv> ErrText (''anubis: the access token has expired and there is no refresh token '' @ dash @ '' sign in again'')"

text \<open>The section after the refresh: adopt the new pair, end the flight.\<close>

definition adopt :: "gotime \<Rightarrow> Tokens \<Rightarrow> Tokens \<Rightarrow> Tokens" where
  "adopt now current next =
     (let t = (if Time_IsZero (tk_IssuedAt next) then next\<lparr>tk_IssuedAt := now\<rparr> else next)
      in if tk_RefreshToken t = [] then t\<lparr>tk_RefreshToken := tk_RefreshToken current\<rparr> else t)"

definition rotate_commit :: "'w source \<Rightarrow> gotime \<Rightarrow> Tokens \<Rightarrow> Tokens option res \<Rightarrow> 'w source" where
  "rotate_commit s now current r =
     (let s = (case r of Inr (Some next) \<Rightarrow> s\<lparr>so_tokens := adopt now current next\<rparr> | _ \<Rightarrow> s)
      in s\<lparr>so_inflight := None\<rparr>)"

text \<open>The result of the flight, from the refresh's error and the callback's.\<close>

definition flight_result :: "Tokens \<Rightarrow> goerr option \<Rightarrow> Tokens res" where
  "flight_result rotated e = (case e of None \<Rightarrow> Inr rotated | Some e \<Rightarrow> Inl e)"

definition refresh_err :: "Tokens option res \<Rightarrow> goerr option" where
  "refresh_err r = (case r of Inl e \<Rightarrow> Some e | Inr _ \<Rightarrow> None)"

section \<open>One caller alone\<close>

definition rotate :: "'w source \<Rightarrow> 'w \<Rightarrow> Tokens \<Rightarrow> ('w \<times> 'w source) \<times> Tokens res" where
  "rotate s w current =
     (case so_refresh s w current of
        (w1, r) \<Rightarrow>
          let s1 = rotate_commit s (so_now s w1) current r;
              rotated = so_tokens s1
          in case (refresh_err r, so_onRotate s1) of
               (None, Some f) \<Rightarrow> (case f w1 rotated of (w2, perr) \<Rightarrow> ((w2, s1), flight_result rotated perr))
             | (e, _) \<Rightarrow> ((w1, s1), flight_result rotated e))"

definition Token :: "'w \<times> 'w source \<Rightarrow> ('w \<times> 'w source) \<times> Tokens res" where
  "Token p =
     (case p of (w, s) \<Rightarrow>
       (case Token_enter s 0 (so_now s w) of
          (s1, Held t) \<Rightarrow> ((w, s1), Inr t)
        | (s1, Await k) \<Rightarrow> ((w, s1), Inl (ErrOther ''context''))
        | (s1, Exhausted) \<Rightarrow> ((w, s1), Inl err_exhausted)
        | (s1, Depart current) \<Rightarrow> rotate s1 w current))"

definition Refresh :: "'w platform \<Rightarrow> 'w Client \<Rightarrow> 'w \<Rightarrow> string \<Rightarrow> 'w \<times> Tokens res" where
  "Refresh pf c w refreshToken =
     (if refreshToken = [] then (w, Inl (ErrText ''anubis: refresh needs a refresh token''))
      else stamped c ''anubis: refresh returned no tokens''
        (rpcNoAuth pf c w procRefresh (GMap [(''refresh_token'', GStr refreshToken)])
           (Some dec_tokens_field) None))"

definition some_ok :: "'w \<times> Tokens res \<Rightarrow> 'w \<times> Tokens option res" where
  "some_ok p = (case p of (w, Inl e) \<Rightarrow> (w, Inl e) | (w, Inr t) \<Rightarrow> (w, Inr (Some t)))"

definition Client_TokenSource :: "'w platform \<Rightarrow> 'w Client \<Rightarrow> 'w \<Rightarrow> Tokens \<Rightarrow> 'w source" where
  "Client_TokenSource pf c w t =
     \<lparr>so_refresh = (\<lambda>w current. some_ok (Refresh pf c w (tk_RefreshToken current))), so_now = client_now c,
      so_needsRefreshToken = True,
      so_tokens = (if Time_IsZero (tk_IssuedAt t) then t\<lparr>tk_IssuedAt := client_now c w\<rparr> else t),
      so_onRotate = None, so_inflight = None\<rparr>"

definition dec_minted :: "json \<Rightarrow> Tokens \<Rightarrow> Tokens option" where
  "dec_minted = decode_struct
     [(''accessToken'', set_string (\<lambda>v r. r\<lparr>tk_AccessToken := v\<rparr>)),
      (''tokenType'', set_string (\<lambda>v r. r\<lparr>tk_TokenType := v\<rparr>)),
      (''expiresIn'', set_int (\<lambda>v r. r\<lparr>tk_ExpiresIn := v\<rparr>))]"

definition mint :: "'w platform \<Rightarrow> 'w Client \<Rightarrow> string \<Rightarrow> 'w \<Rightarrow> Tokens \<Rightarrow> 'w \<times> Tokens option res" where
  "mint pf c audience w _ =
     (case rpcNoAuth pf c w procClientCredentials
        (GMap [(''tenant'', GStr (o_tenant (c_opts c))), (''client_id'', GStr (o_clientID (c_opts c))),
               (''client_secret'', GStr (o_clientSecret (c_opts c))), (''audience'', GStr audience)])
        (Some dec_minted) zero_Tokens of
        (w', Inl e) \<Rightarrow> (w', Inl e)
      | (w', Inr t) \<Rightarrow> (w', Inr (Some (t\<lparr>tk_IssuedAt := client_now c w'\<rparr>))))"

definition ClientCredentials :: "'w platform \<Rightarrow> 'w Client \<Rightarrow> 'w \<Rightarrow> string \<Rightarrow> 'w \<times> 'w source res" where
  "ClientCredentials pf c w audience =
     (if o_clientID (c_opts c) = [] \<or> o_clientSecret (c_opts c) = []
      then (w, Inl (ErrText ''anubis: client credentials need WithApplication(clientID, clientSecret)''))
      else (case Token (w, \<lparr>so_refresh = mint pf c audience, so_now = client_now c, so_needsRefreshToken = False,
                           so_tokens = zero_Tokens, so_onRotate = None, so_inflight = None\<rparr>) of
              ((w', s), Inl e) \<Rightarrow> (w', Inl e)
            | ((w', s), Inr t) \<Rightarrow> (w', Inr s)))"

section \<open>Lemmas\<close>

text \<open>A pair handed out is good for longer than the margin, or never expires.\<close>

lemma source_valid_margin:
  "source_valid t now \<Longrightarrow> tk_AccessToken t \<noteq> [] \<and> (Tokens_Expiry t = 0 \<or> now + refreshMargin < Tokens_Expiry t)"
  by (auto simp: source_valid_def Time_IsZero_def Let_def split: if_splits)

lemma Token_held:
  "Token_enter s n now = (s', Held t) \<longleftrightarrow> s' = s \<and> t = so_tokens s \<and> source_valid t now"
  by (auto simp: Token_enter_def split: if_splits option.splits)

lemma Token_depart:
  "Token_enter s n now = (s', Depart t) \<longleftrightarrow>
   \<not> source_valid (so_tokens s) now \<and> so_inflight s = None \<and> \<not> (so_needsRefreshToken s \<and> tk_RefreshToken (so_tokens s) = []) \<and>
   s' = s\<lparr>so_inflight := Some n\<rparr> \<and> t = so_tokens s"
  by (auto simp: Token_enter_def split: if_splits option.splits)

text \<open>While the held pair is good there is no call and no change.\<close>

lemma Token_valid_pure: "source_valid (so_tokens s) (so_now s w) \<Longrightarrow> Token (w, s) = ((w, s), Inr (so_tokens s))"
  by (simp add: Token_def Token_enter_def)

lemma rotate_commit_inflight [simp]: "so_inflight (rotate_commit s now cur r) = None"
  by (simp add: rotate_commit_def Let_def)

lemma rotate_commit_fields [simp]:
  "so_onRotate (rotate_commit s now cur r) = so_onRotate s" "so_refresh (rotate_commit s now cur r) = so_refresh s"
  "so_needsRefreshToken (rotate_commit s now cur r) = so_needsRefreshToken s" "so_now (rotate_commit s now cur r) = so_now s"
  by (simp_all add: rotate_commit_def Let_def split: sum.splits option.splits)

lemma rotate_commit_err: "r = Inl e \<Longrightarrow> so_tokens (rotate_commit s now cur r) = so_tokens s"
  by (simp add: rotate_commit_def Let_def)

text \<open>A new pair is adopted even when persisting it fails; the failure is not silent.\<close>

lemma rotate_adopts:
  assumes "so_refresh s w cur = (w1, Inr (Some next))"
  shows "so_tokens (snd (fst (rotate s w cur))) = adopt (so_now s w1) cur next"
  using assms by (simp add: rotate_def refresh_err_def rotate_commit_def Let_def split: option.splits prod.splits)

lemma rotate_persist_error:
  assumes "so_refresh s w cur = (w1, Inr (Some next))" "so_onRotate s = Some f"
    "f w1 (adopt (so_now s w1) cur next) = (w2, Some e)"
  shows "snd (rotate s w cur) = Inl e"
  using assms by (simp add: rotate_def refresh_err_def rotate_commit_def flight_result_def Let_def)

lemma adopt_refresh: "tk_RefreshToken (adopt now cur next) =
    (if tk_RefreshToken next = [] then tk_RefreshToken cur else tk_RefreshToken next)"
  by (simp add: adopt_def Let_def)

end
