(* ===== verification/Token_Flight.thy ===== *)
theory Token_Flight
  imports Token_Source
begin

text \<open>
  The token source under concurrent callers, against the rotating refresh endpoint of the
  test server (\<open>anubistest/server.go\<close>, \<open>refresh\<close>). A step is one goroutine passing one
  critical section of the source (\<open>Token_enter\<close>, \<open>rotate_commit\<close> of theory
  \<open>Token_Source\<close>), one critical section of the endpoint, the callback, or a wake-up.

  The ghost fields record the pairs persisted, and whether the endpoint saw reuse or its
  answer was lost on the way back.

  The lemmas: one flight at a time; while no answer is lost, the endpoint never sees a
  refresh token twice, so the family is never revoked; a flight ends only after the callback.
\<close>

section \<open>The endpoint\<close>

record refresh_server =
  rv_live :: smap
  rv_issued :: smap
  rv_consumed :: "string list"

text \<open>The first section: is the token the live one of its session, and unused? It is now used.\<close>

definition refresh_present :: "refresh_server \<Rightarrow> string \<Rightarrow> refresh_server \<times> string option" where
  "refresh_present v tok =
     (let sid = map_of (rv_issued v) tok;
          live = (case sid of None \<Rightarrow> False | Some s \<Rightarrow> map_of (rv_live v) s = Some tok);
          used = (tok \<in> set (rv_consumed v));
          v1 = (if live then v\<lparr>rv_consumed := tok # rv_consumed v\<rparr> else v)
      in if sid = None \<or> used \<or> \<not> live
         then (case sid of None \<Rightarrow> (v1, None) | Some s \<Rightarrow> (v1\<lparr>rv_live := AList.delete s (rv_live v1)\<rparr>, None))
         else (v1, sid))"

text \<open>The second: a new token becomes the live one.\<close>

definition refresh_mint :: "refresh_server \<Rightarrow> string \<Rightarrow> string \<Rightarrow> refresh_server" where
  "refresh_mint v sid next =
     v\<lparr>rv_live := AList.update sid next (rv_live v), rv_issued := AList.update next sid (rv_issued v)\<rparr>"

section \<open>Goroutines and steps\<close>

datatype tpc =
    TIdle
  | TWaiting nat
  | TFlying nat Tokens
  | TAccepted nat Tokens string
  | TReturned nat Tokens "Tokens option res"
  | TCommitted nat Tokens "goerr option"
  | TDone "Tokens res"

record 'w tsys =
  ty_source :: "'w source"
  ty_server :: refresh_server
  ty_pc :: "nat \<Rightarrow> tpc"
  ty_flights :: nat
  ty_results :: "nat \<Rightarrow> Tokens res option"
  ty_saved :: "Tokens list"
  ty_reuse :: bool
  ty_lost :: bool

definition tgo :: "'w tsys \<Rightarrow> nat \<Rightarrow> tpc \<Rightarrow> 'w tsys" where
  "tgo y i p = y\<lparr>ty_pc := (ty_pc y)(i := p)\<rparr>"

definition idle :: "tpc \<Rightarrow> bool" where
  "idle p \<longleftrightarrow> p = TIdle \<or> (\<exists>r. p = TDone r)"

inductive token_step :: "'w tsys \<Rightarrow> 'w tsys \<Rightarrow> bool" where
  held: "idle (ty_pc y i) \<Longrightarrow> Token_enter (ty_source y) n now = (s', Held t) \<Longrightarrow>
    token_step y (tgo y i (TDone (Inr t)))"
| await: "idle (ty_pc y i) \<Longrightarrow> Token_enter (ty_source y) n now = (s', Await k) \<Longrightarrow>
    token_step y (tgo y i (TWaiting k))"
| exhausted: "idle (ty_pc y i) \<Longrightarrow> Token_enter (ty_source y) n now = (s', Exhausted) \<Longrightarrow>
    token_step y (tgo y i (TDone (Inl err_exhausted)))"
| depart: "idle (ty_pc y i) \<Longrightarrow> Token_enter (ty_source y) (ty_flights y) now = (s', Depart cur) \<Longrightarrow>
    token_step y ((tgo y i (TFlying (ty_flights y) cur))\<lparr>ty_source := s', ty_flights := Suc (ty_flights y)\<rparr>)"
| unsent: "ty_pc y i = TFlying n cur \<Longrightarrow> token_step y (tgo y i (TReturned n cur (Inl e)))"
| accepted: "ty_pc y i = TFlying n cur \<Longrightarrow> refresh_present (ty_server y) (tk_RefreshToken cur) = (v', Some sid) \<Longrightarrow>
    token_step y ((tgo y i (TAccepted n cur sid))\<lparr>ty_server := v'\<rparr>)"
| reuse: "ty_pc y i = TFlying n cur \<Longrightarrow> refresh_present (ty_server y) (tk_RefreshToken cur) = (v', None) \<Longrightarrow>
    token_step y ((tgo y i (TReturned n cur (Inl e)))\<lparr>ty_server := v', ty_reuse := True\<rparr>)"
| minted: "ty_pc y i = TAccepted n cur sid \<Longrightarrow>
    tk_RefreshToken next \<noteq> [] \<Longrightarrow> tk_RefreshToken next \<notin> fst ` set (rv_issued (ty_server y)) \<Longrightarrow>
    tk_RefreshToken next \<notin> set (rv_consumed (ty_server y)) \<Longrightarrow>
    token_step y ((tgo y i (TReturned n cur (Inr (Some next))))
      \<lparr>ty_server := refresh_mint (ty_server y) sid (tk_RefreshToken next)\<rparr>)"
| lost: "ty_pc y i = TAccepted n cur sid \<Longrightarrow>
    token_step y ((tgo y i (TReturned n cur (Inl e)))\<lparr>ty_lost := True\<rparr>)"
| commit: "ty_pc y i = TReturned n cur r \<Longrightarrow> s' = rotate_commit (ty_source y) now cur r \<Longrightarrow>
    token_step y ((tgo y i (TCommitted n (so_tokens s') (refresh_err r)))\<lparr>ty_source := s'\<rparr>)"
| persist: "ty_pc y i = TCommitted n rotated None \<Longrightarrow> so_onRotate (ty_source y) \<noteq> None \<Longrightarrow>
    token_step y ((tgo y i (TDone (flight_result rotated perr)))
      \<lparr>ty_saved := rotated # ty_saved y, ty_results := (ty_results y)(n := Some (flight_result rotated perr))\<rparr>)"
| close: "ty_pc y i = TCommitted n rotated e \<Longrightarrow> e \<noteq> None \<or> so_onRotate (ty_source y) = None \<Longrightarrow>
    token_step y ((tgo y i (TDone (flight_result rotated e)))
      \<lparr>ty_results := (ty_results y)(n := Some (flight_result rotated e))\<rparr>)"
| wake: "ty_pc y i = TWaiting n \<Longrightarrow> ty_results y n = Some r \<Longrightarrow> token_step y (tgo y i (TDone r))"
| cancelled: "ty_pc y i = TWaiting n \<Longrightarrow> token_step y (tgo y i (TDone (Inl (ErrOther ''context''))))"

definition tsys_init :: "'w source \<Rightarrow> refresh_server \<Rightarrow> 'w tsys" where
  "tsys_init s v = \<lparr>ty_source = s, ty_server = v, ty_pc = (\<lambda>_. TIdle), ty_flights = 0, ty_results = (\<lambda>_. None),
     ty_saved = [], ty_reuse = False, ty_lost = False\<rparr>"

inductive token_reach :: "'w source \<Rightarrow> refresh_server \<Rightarrow> 'w tsys \<Rightarrow> bool" for s v where
  init: "token_reach s v (tsys_init s v)"
| step: "token_reach s v y \<Longrightarrow> token_step y y' \<Longrightarrow> token_reach s v y'"

text \<open>A session the endpoint knows: its live token is the one the source holds.\<close>

definition session_open :: "refresh_server \<Rightarrow> string \<Rightarrow> string \<Rightarrow> bool" where
  "session_open v sid tok \<longleftrightarrow> tok \<noteq> [] \<and> map_of (rv_issued v) tok = Some sid \<and> map_of (rv_live v) sid = Some tok \<and>
     tok \<notin> set (rv_consumed v)"

section \<open>One flight\<close>

fun flying :: "tpc \<Rightarrow> nat option" where
  "flying (TFlying n _) = Some n"
| "flying (TAccepted n _ _) = Some n"
| "flying (TReturned n _ _) = Some n"
| "flying _ = None"

definition solo :: "'w tsys \<Rightarrow> bool" where
  "solo y \<longleftrightarrow> (\<forall>i n. flying (ty_pc y i) = Some n \<longrightarrow> so_inflight (ty_source y) = Some n) \<and>
     (\<forall>i j m n. flying (ty_pc y i) = Some m \<longrightarrow> flying (ty_pc y j) = Some n \<longrightarrow> i = j)"

lemma tgo_fields [simp]:
  "ty_source (tgo y i p) = ty_source y" "ty_server (tgo y i p) = ty_server y" "ty_pc (tgo y i p) = (ty_pc y)(i := p)"
  "ty_flights (tgo y i p) = ty_flights y" "ty_results (tgo y i p) = ty_results y" "ty_saved (tgo y i p) = ty_saved y"
  "ty_reuse (tgo y i p) = ty_reuse y" "ty_lost (tgo y i p) = ty_lost y"
  by (simp_all add: tgo_def)

lemma idle_not_flying: "idle p \<Longrightarrow> flying p = None"
  by (auto simp: idle_def)

lemma solo_other:
  assumes "solo y" "flying (ty_pc y i) = Some n" "j \<noteq> i"
  shows "flying (ty_pc y j) = None"
  using assms by (cases "flying (ty_pc y j)") (auto simp: solo_def)

lemma solo_shrink:
  assumes "solo y" "\<And>j n. flying (ty_pc y' j) = Some n \<Longrightarrow> flying (ty_pc y j) = Some n"
    "so_inflight (ty_source y') = so_inflight (ty_source y)"
  shows "solo y'"
  using assms(1,2) unfolding solo_def assms(3) by blast

lemma solo_step:
  assumes "token_step y y'" "solo y"
  shows "solo y'"
  using assms(1)
proof cases
  case (depart i now s' cur)
  then have none: "so_inflight (ty_source y) = None" "s' = (ty_source y)\<lparr>so_inflight := Some (ty_flights y)\<rparr>"
    by (auto simp: Token_depart)
  then have "flying (ty_pc y j) = None" for j using assms(2) by (cases "flying (ty_pc y j)") (auto simp: solo_def)
  with depart(1) none show ?thesis by (auto simp: solo_def split: if_splits)
next
  case (commit i n cur r s' now)
  then have "flying (ty_pc y j) = None" if "j \<noteq> i" for j using solo_other [OF assms(2) _ that] by simp
  with commit show ?thesis by (auto simp: solo_def split: if_splits)
qed (auto intro!: solo_shrink [OF assms(2)] dest: idle_not_flying split: if_splits)

lemma reach_solo: "token_reach s v y \<Longrightarrow> so_inflight s = None \<Longrightarrow> solo y"
  by (induction rule: token_reach.induct) (auto simp: solo_def tsys_init_def dest: solo_step)

section \<open>No reuse\<close>

text \<open>
  Where the session's live token is, by the phase of the one flight: with the source, in
  hand, or on its way back.
\<close>

definition phase_ok :: "string \<Rightarrow> 'w tsys \<Rightarrow> tpc \<Rightarrow> bool" where
  "phase_ok sid y p \<longleftrightarrow>
     (case p of
        TFlying n cur \<Rightarrow> cur = so_tokens (ty_source y) \<and> session_open (ty_server y) sid (tk_RefreshToken cur)
      | TAccepted n cur sid' \<Rightarrow> sid' = sid \<and> cur = so_tokens (ty_source y)
      | TReturned n cur r \<Rightarrow>
          (case r of
             Inr (Some next) \<Rightarrow> session_open (ty_server y) sid (tk_RefreshToken next)
           | _ \<Rightarrow> session_open (ty_server y) sid (tk_RefreshToken (so_tokens (ty_source y))))
      | _ \<Rightarrow> True)"

definition unspent :: "string \<Rightarrow> 'w tsys \<Rightarrow> bool" where
  "unspent sid y \<longleftrightarrow> solo y \<and> so_needsRefreshToken (ty_source y) \<and>
     (\<forall>i. phase_ok sid y (ty_pc y i)) \<and>
     ((\<forall>i. flying (ty_pc y i) = None) \<longrightarrow> session_open (ty_server y) sid (tk_RefreshToken (so_tokens (ty_source y))))"

lemma present_open:
  "session_open v sid tok \<Longrightarrow> refresh_present v tok = (v\<lparr>rv_consumed := tok # rv_consumed v\<rparr>, Some sid)"
  by (simp add: session_open_def refresh_present_def)

lemma mint_open:
  "next \<noteq> [] \<Longrightarrow> next \<notin> set (rv_consumed v) \<Longrightarrow> session_open (refresh_mint v sid next) sid next"
  by (simp add: session_open_def refresh_mint_def update_conv')

lemma phase_ok_cong:
  "ty_source y' = ty_source y \<Longrightarrow> ty_server y' = ty_server y \<Longrightarrow> phase_ok sid y' = phase_ok sid y"
  by (rule ext) (simp add: phase_ok_def split: tpc.splits)

lemma phase_ok_not_flying: "flying p = None \<Longrightarrow> phase_ok sid y p"
  by (cases p) (simp_all add: phase_ok_def)

text \<open>A step of the flight only has to account for its own phase: the others are grounded.\<close>

lemma unspent_flight:
  assumes "unspent sid y" "flying (ty_pc y i) = Some n" "ty_pc y' = (ty_pc y)(i := p)" "solo y'"
    "so_needsRefreshToken (ty_source y')" "phase_ok sid y' p"
    "flying p = None \<Longrightarrow> session_open (ty_server y') sid (tk_RefreshToken (so_tokens (ty_source y')))"
  shows "unspent sid y'"
proof -
  have g: "flying (ty_pc y j) = None" if "j \<noteq> i" for j
    using solo_other [OF _ assms(2) that] assms(1) by (simp add: unspent_def)
  have "phase_ok sid y' (ty_pc y' j)" for j
    using assms(3,6) phase_ok_not_flying [OF g] by (cases "j = i") auto
  moreover have "session_open (ty_server y') sid (tk_RefreshToken (so_tokens (ty_source y')))"
    if "\<forall>j. flying (ty_pc y' j) = None"
    using that assms(3,7) by (metis fun_upd_same)
  ultimately show ?thesis using assms(4,5) by (simp add: unspent_def)
qed

text \<open>A goroutine on the ground moves without touching the source or the endpoint.\<close>

lemma unspent_ground:
  assumes "unspent sid y" "\<And>j. flying (ty_pc y' j) = flying (ty_pc y j)"
    "\<And>j. flying (ty_pc y' j) \<noteq> None \<Longrightarrow> ty_pc y' j = ty_pc y j"
    "ty_source y' = ty_source y" "ty_server y' = ty_server y"
  shows "unspent sid y'"
proof -
  have "solo y'"
    by (rule solo_shrink [of y]) (use assms in \<open>auto simp: unspent_def\<close>)
  moreover have "phase_ok sid y' (ty_pc y' j)" for j
  proof (cases "flying (ty_pc y' j) = None")
    case False
    have "phase_ok sid y (ty_pc y j)" using assms(1) by (simp add: unspent_def)
    with assms(3) [OF False] show ?thesis by (simp add: phase_ok_cong [OF assms(4,5)])
  qed (rule phase_ok_not_flying)
  ultimately show ?thesis using assms(1,2,4,5) by (simp add: unspent_def)
qed

lemma phase_flying: "phase_ok sid y (TFlying n cur) \<Longrightarrow>
    cur = so_tokens (ty_source y) \<and> session_open (ty_server y) sid (tk_RefreshToken (so_tokens (ty_source y)))"
  unfolding phase_ok_def tpc.case by blast

lemma unspent_step:
  assumes "token_step y y'" "unspent sid y" "\<not> ty_lost y'"
  shows "unspent sid y' \<and> ty_reuse y' = ty_reuse y"
proof -
  have so: "solo y'" using solo_step assms by (auto simp: unspent_def)
  have phase: "phase_ok sid y (ty_pc y i)" for i using assms(2) by (simp add: unspent_def)
  have nr: "so_needsRefreshToken (ty_source y)" using assms(2) by (simp add: unspent_def)
  from assms(1) show ?thesis
  proof cases
    case (depart i now s' cur)
    then have d: "so_inflight (ty_source y) = None" "s' = (ty_source y)\<lparr>so_inflight := Some (ty_flights y)\<rparr>"
      "cur = so_tokens (ty_source y)" by (auto simp: Token_depart)
    have g: "flying (ty_pc y j) = None" for j
      using assms(2) d(1) by (cases "flying (ty_pc y j)") (auto simp: unspent_def solo_def)
    with assms(2) have "session_open (ty_server y) sid (tk_RefreshToken cur)" by (simp add: unspent_def d(3))
    then have "phase_ok sid y' (ty_pc y' j)" for j
      using depart(1) d phase_ok_not_flying [OF g] by (cases "j = i") (auto simp: phase_ok_def [of _ _ "TFlying _ _"])
    moreover have "flying (ty_pc y' i) \<noteq> None" using depart(1) by simp
    ultimately show ?thesis using so nr depart(1) d by (auto simp: unspent_def)
  next
    case (unsent i n cur e)
    have "session_open (ty_server y) sid (tk_RefreshToken (so_tokens (ty_source y)))"
      using phase_flying [of sid y n cur] phase [of i] unsent(2) by simp
    then have "phase_ok sid y (TReturned n cur (Inl e))" by (simp only: phase_ok_def tpc.case sum.case)
    then have "phase_ok sid y' (TReturned n cur (Inl e))" using unsent(1) phase_ok_cong [of y' y] by simp
    then show ?thesis using unspent_flight [OF assms(2) _ _ so, of i n "TReturned n cur (Inl e)"] unsent nr by simp
  next
    case (accepted i n cur v' sid')
    have p: "cur = so_tokens (ty_source y)" "session_open (ty_server y) sid (tk_RefreshToken (so_tokens (ty_source y)))"
      using phase_flying phase [of i] accepted(2) by auto
    with accepted(3) present_open [OF p(2)] have "sid' = sid" by simp
    with p(1) have "phase_ok sid y' (TAccepted n cur sid')" using accepted(1) by (simp add: phase_ok_def)
    then show ?thesis using unspent_flight [OF assms(2) _ _ so, of i n "TAccepted n cur sid'"] accepted nr by simp
  next
    case (reuse i n cur v' e)
    have p: "cur = so_tokens (ty_source y)" "session_open (ty_server y) sid (tk_RefreshToken (so_tokens (ty_source y)))"
      using phase_flying phase [of i] reuse(2) by auto
    with reuse(3) present_open [OF p(2)] show ?thesis by simp
  next
    case (minted i n cur sid' nxt)
    have "sid' = sid" using phase [of i] minted(2) by (simp add: phase_ok_def)
    with minted mint_open have "phase_ok sid y' (TReturned n cur (Inr (Some nxt)))" by (simp add: phase_ok_def)
    then show ?thesis using unspent_flight [OF assms(2) _ _ so, of i n "TReturned n cur (Inr (Some nxt))"] minted nr by simp
  next
    case (commit i n cur r s' now)
    have "session_open (ty_server y') sid (tk_RefreshToken (so_tokens (ty_source y')))"
      using phase [of i] commit
      by (auto simp: phase_ok_def rotate_commit_def Let_def adopt_refresh session_open_def split: sum.splits option.splits)
    then show ?thesis
      using unspent_flight [OF assms(2) _ _ so, of i n "TCommitted n (so_tokens s') (refresh_err r)"] commit nr
      by (simp add: phase_ok_def)
  qed (use assms in \<open>auto intro!: unspent_ground [OF assms(2)] dest: idle_not_flying split: if_splits\<close>)
qed

inductive_cases token_stepE: "token_step y y'"

lemma lost_mono: "token_step y y' \<Longrightarrow> ty_lost y \<Longrightarrow> ty_lost y'"
  by (erule token_stepE) auto

lemma reach_unspent:
  assumes "token_reach s v y" "so_inflight s = None" "so_needsRefreshToken s" "session_open v sid (tk_RefreshToken (so_tokens s))"
  shows "\<not> ty_lost y \<Longrightarrow> unspent sid y \<and> \<not> ty_reuse y"
  using assms
proof induction
  case init
  then show ?case by (simp add: tsys_init_def unspent_def solo_def phase_ok_def)
next
  case (step y y')
  with lost_mono have "\<not> ty_lost y" by blast
  with step unspent_step [OF step(2) _ step(4)] show ?case by blast
qed

section \<open>Persisted before the flight ends\<close>

definition saved_first :: "'w tsys \<Rightarrow> bool" where
  "saved_first y \<longleftrightarrow> so_onRotate (ty_source y) \<noteq> None \<and> (\<forall>n t. ty_results y n = Some (Inr t) \<longrightarrow> t \<in> set (ty_saved y))"

lemma Token_enter_onRotate: "Token_enter s n now = (s', e) \<Longrightarrow> so_onRotate s' = so_onRotate s"
  by (auto simp: Token_enter_def split: if_splits option.splits)

lemma saved_first_step: "token_step y y' \<Longrightarrow> saved_first y \<Longrightarrow> saved_first y'"
  by (erule token_stepE)
    (auto simp: saved_first_def flight_result_def dest: Token_enter_onRotate split: option.splits if_splits)

lemma reach_saved_first: "token_reach s v y \<Longrightarrow> so_onRotate s \<noteq> None \<Longrightarrow> saved_first y"
  by (induction rule: token_reach.induct) (auto simp: tsys_init_def saved_first_def dest: saved_first_step)

section \<open>Nobody waits for a flight that is not there\<close>

fun carrying :: "tpc \<Rightarrow> nat option" where
  "carrying (TCommitted n _ _) = Some n"
| "carrying p = flying p"

definition attended :: "'w tsys \<Rightarrow> bool" where
  "attended y \<longleftrightarrow> (\<forall>n. so_inflight (ty_source y) = Some n \<longrightarrow> (\<exists>i. flying (ty_pc y i) = Some n)) \<and>
     (\<forall>i n. ty_pc y i = TWaiting n \<longrightarrow> ty_results y n \<noteq> None \<or> (\<exists>j. carrying (ty_pc y j) = Some n))"

lemma flying_carrying: "flying p = Some n \<Longrightarrow> carrying p = Some n"
  by (cases p) auto

lemma Token_await: "Token_enter s n now = (s', Await k) \<Longrightarrow> s' = s \<and> so_inflight s = Some k"
  by (auto simp: Token_enter_def split: if_splits option.splits)

text \<open>
  A step moves one goroutine: enough that it keeps the flight it carries or leaves a result,
  and waits only for the flight under way.
\<close>

lemma attended_move:
  assumes "attended y" "ty_pc y' = (ty_pc y)(i := p)"
    "\<And>n. so_inflight (ty_source y') = Some n \<Longrightarrow> flying p = Some n \<or> so_inflight (ty_source y) = Some n \<and> flying (ty_pc y i) \<noteq> Some n"
    "\<And>n. ty_results y n \<noteq> None \<Longrightarrow> ty_results y' n \<noteq> None"
    "\<And>n. carrying (ty_pc y i) = Some n \<Longrightarrow> carrying p = Some n \<or> ty_results y' n \<noteq> None"
    "\<And>n. p = TWaiting n \<Longrightarrow> so_inflight (ty_source y) = Some n \<and> carrying (ty_pc y i) = None"
  shows "attended y'"
proof -
  have "\<exists>j. flying (ty_pc y' j) = Some n" if "so_inflight (ty_source y') = Some n" for n
    using assms(3) [OF that]
  proof
    assume "flying p = Some n"
    then have "flying (ty_pc y' i) = Some n" by (simp add: assms(2))
    then show ?thesis ..
  next
    assume n: "so_inflight (ty_source y) = Some n \<and> flying (ty_pc y i) \<noteq> Some n"
    with assms(1) obtain j where "flying (ty_pc y j) = Some n" by (auto simp: attended_def)
    with n have "flying (ty_pc y' j) = Some n" by (auto simp: assms(2))
    then show ?thesis ..
  qed
  moreover have "ty_results y' n \<noteq> None \<or> (\<exists>j. carrying (ty_pc y' j) = Some n)" if k: "ty_pc y' k = TWaiting n" for k n
  proof -
    from k have "ty_results y n \<noteq> None \<or> (\<exists>j. carrying (ty_pc y j) = Some n)"
      using assms(1,6) flying_carrying by (cases "k = i") (auto simp: assms(2) attended_def, meson+)
    moreover have "ty_results y' n \<noteq> None \<or> (\<exists>j. carrying (ty_pc y' j) = Some n)" if j: "carrying (ty_pc y j) = Some n" for j
    proof (cases "j = i")
      case True
      with assms(5) j have "carrying (ty_pc y' i) = Some n \<or> ty_results y' n \<noteq> None" by (simp add: assms(2))
      then show ?thesis by blast
    next
      case False
      with j have "carrying (ty_pc y' j) = Some n" by (simp add: assms(2))
      then show ?thesis by blast
    qed
    ultimately show ?thesis using assms(4) by blast
  qed
  ultimately show ?thesis by (simp add: attended_def)
qed

lemma idle_carrying [simp]: "idle p \<Longrightarrow> carrying p = None" "idle p \<Longrightarrow> flying p = None"
  by (auto simp: idle_def)

lemma attended_step:
  assumes "token_step y y'" "attended y"
  shows "attended y'"
  using assms(1)
proof cases
  case (await i n now s' k)
  with Token_await [OF await(3)] show ?thesis by (intro attended_move [OF assms(2), of _ i "TWaiting k"]) auto
next
  case (depart i now s' cur)
  then show ?thesis
    by (intro attended_move [OF assms(2), of _ i "TFlying (ty_flights y) cur"]) (auto simp: Token_depart)
next
  case (commit i n cur r s' now)
  then show ?thesis
    by (intro attended_move [OF assms(2), of _ i "TCommitted n (so_tokens s') (refresh_err r)"]) auto
qed (auto intro!: attended_move [OF assms(2)] split: if_splits)

lemma init_attended: "so_inflight s = None \<Longrightarrow> attended (tsys_init s v)"
  by (simp add: tsys_init_def attended_def)

lemma reach_attended: "token_reach s v y \<Longrightarrow> so_inflight s = None \<Longrightarrow> attended y"
  by (induction rule: token_reach.induct) (auto intro: init_attended attended_step)

text \<open>Three steps of its goroutine land a flight.\<close>

lemma committed_lands:
  assumes "ty_pc y j = TCommitted n t e"
  shows "\<exists>y'. token_step y y' \<and> ty_results y' n \<noteq> None \<and> (\<forall>i. i \<noteq> j \<longrightarrow> ty_pc y' i = ty_pc y i)"
proof (cases "e = None \<and> so_onRotate (ty_source y) \<noteq> None")
  case True
  with persist [of y j n t None] assms show ?thesis by (intro exI conjI) (assumption | auto)+
next
  case False
  with close [OF assms] show ?thesis by (intro exI conjI) (assumption | auto)+
qed

lemma returned_lands:
  assumes "ty_pc y j = TReturned n cur r"
  shows "\<exists>y'. (token_step ^^ 2) y y' \<and> ty_results y' n \<noteq> None \<and> (\<forall>i. i \<noteq> j \<longrightarrow> ty_pc y' i = ty_pc y i)"
proof -
  let ?s = "rotate_commit (ty_source y) 0 cur r"
  let ?y = "(tgo y j (TCommitted n (so_tokens ?s) (refresh_err r)))\<lparr>ty_source := ?s\<rparr>"
  have "token_step y ?y" by (rule commit [OF assms refl])
  moreover obtain y' where y': "token_step ?y y'" "ty_results y' n \<noteq> None" "\<forall>i. i \<noteq> j \<longrightarrow> ty_pc y' i = ty_pc ?y i"
    using committed_lands [of ?y j] by auto
  ultimately have "(token_step ^^ 2) y y'" by (auto simp: numeral_2_eq_2)
  with y'(2,3) show ?thesis by auto
qed

lemma carrying_lands:
  assumes "carrying (ty_pc y j) = Some n"
  shows "\<exists>k \<le> 3. \<exists>y'. (token_step ^^ k) y y' \<and> ty_results y' n \<noteq> None \<and> (\<forall>i. i \<noteq> j \<longrightarrow> ty_pc y' i = ty_pc y i)"
proof -
  have three: ?thesis if "token_step y y1" "ty_pc y1 j = TReturned n cur r" "\<forall>i. i \<noteq> j \<longrightarrow> ty_pc y1 i = ty_pc y i" for y1 cur r
  proof -
    from returned_lands [OF that(2)] obtain y' where y': "(token_step ^^ 2) y1 y'" "ty_results y' n \<noteq> None"
      "\<forall>i. i \<noteq> j \<longrightarrow> ty_pc y' i = ty_pc y1 i" by blast
    from relpowp_Suc_I2 [of token_step, OF that(1) y'(1)] have "(token_step ^^ 3) y y'" by (simp add: eval_nat_numeral)
    with y' that(3) show ?thesis by auto
  qed
  show ?thesis
  proof (cases "ty_pc y j")
    case (TFlying m cur)
    with assms three [OF unsent [OF TFlying]] show ?thesis by auto
  next
    case (TAccepted m cur sid)
    with assms three [OF lost [OF TAccepted]] show ?thesis by auto
  next
    case (TReturned m cur r)
    with assms returned_lands [OF TReturned] show ?thesis by (intro exI [of _ 2]) auto
  next
    case (TCommitted m t e)
    with assms committed_lands [OF TCommitted] show ?thesis by (intro exI [of _ 1]) auto
  qed (use assms in auto)
qed

end
