(* ===== verification/Revocations.thy ===== *)
theory Revocations
  imports Authz Json_Roundtrip
begin

text \<open>
  The revocation stream, both ends: the client (\<open>revocations.go\<close>) and the fake server's
  framing (\<open>anubistest/revocations.go\<close>). A body being read is the bytes still to come and
  how it ends, cleanly or with an error.

  The lemmas: a frame written is the frame read and a length over the limit is refused
  before anything is read for it; the client hands its callback exactly the events the
  server framed, in order; and every way the stream can stop has its error.
\<close>

unbundle bit_operations_syntax

section \<open>Kinds\<close>

abbreviation (input) connectFlagCompressed :: nat where "connectFlagCompressed \<equiv> 1"
abbreviation (input) connectFlagEndStream :: nat where "connectFlagEndStream \<equiv> 2"
abbreviation (input) endStreamFlag :: nat where "endStreamFlag \<equiv> 2"

abbreviation (input) RevocationUnspecified :: string where "RevocationUnspecified \<equiv> ''KIND_UNSPECIFIED''"
abbreviation (input) RevocationSession :: string where "RevocationSession \<equiv> ''KIND_SESSION_REVOKED''"
abbreviation (input) RevocationEpoch :: string where "RevocationEpoch \<equiv> ''KIND_EPOCH_BUMPED''"
abbreviation (input) RevocationSynced :: string where "RevocationSynced \<equiv> ''KIND_SYNCED''"

definition revocationKinds :: "string list" where
  "revocationKinds = [RevocationUnspecified, RevocationSession, RevocationEpoch, RevocationSynced]"

text \<open>
  The text of a JSON value, for the places that keep it verbatim; white space between
  tokens is not kept in \<open>json\<close> and so is missing here.
\<close>

fun json_text :: "json \<Rightarrow> string" where
  "json_text JNull = ''null''"
| "json_text (JBool b) = (if b then ''true'' else ''false'')"
| "json_text (JNum l) = l"
| "json_text (JStr raw) = [CHR 0x22] @ raw @ [CHR 0x22]"
| "json_text (JArr vs) = ''['' @ Join '','' (map json_text vs) @ '']''"
| "json_text (JObj ms) = ''{'' @ Join '','' (map (\<lambda>(k, v). [CHR 0x22] @ k @ [CHR 0x22] @ '':'' @ json_text v) ms) @ ''}''"

definition kind_of :: "json \<Rightarrow> string" where
  "kind_of v =
     (let s = Trim1 (CHR 0x22) (TrimSpace (json_text v)) in
      if s = [] \<or> s = ''null'' then RevocationUnspecified
      else case ParseInt s of
        Some n \<Rightarrow> if n < 0 \<or> n \<ge> int (length revocationKinds) then RevocationUnspecified else revocationKinds ! nat n
      | None \<Rightarrow> s)"

record Revocation =
  rn_Kind :: string
  rn_Tenant :: string
  rn_Session :: string
  rn_Subject :: string
  rn_Epoch :: int
  rn_Observed :: int

definition zero_Revocation :: Revocation where
  "zero_Revocation = \<lparr>rn_Kind = [], rn_Tenant = [], rn_Session = [], rn_Subject = [], rn_Epoch = 0, rn_Observed = 0\<rparr>"

definition dec_Revocation :: "json \<Rightarrow> Revocation \<Rightarrow> Revocation option" where
  "dec_Revocation = decode_struct
     [(''kind'', \<lambda>v r. Some (r\<lparr>rn_Kind := kind_of v\<rparr>)),
      (''tenant'', set_string (\<lambda>v r. r\<lparr>rn_Tenant := v\<rparr>)),
      (''sid'', set_string (\<lambda>v r. r\<lparr>rn_Session := v\<rparr>)),
      (''sub'', set_string (\<lambda>v r. r\<lparr>rn_Subject := v\<rparr>)),
      (''epoch'', set_int (\<lambda>v r. r\<lparr>rn_Epoch := v\<rparr>)),
      (''observedAt'', set_pb (\<lambda>v r. r\<lparr>rn_Observed := v\<rparr>))]"

definition Revocation_ObservedAt :: "Revocation \<Rightarrow> gotime" where
  "Revocation_ObservedAt r = unix_time (rn_Observed r)"

section \<open>Framing\<close>

definition be32 :: "32 word \<Rightarrow> bytes" where
  "be32 n = map (\<lambda>i. char_of (unat n div 256 ^ i)) [3, 2, 1, 0]"

definition be_value :: "bytes \<Rightarrow> nat" where
  "be_value s = foldl (\<lambda>a c. a * 256 + of_char c) 0 s"

definition connectEnvelope :: "bytes \<Rightarrow> bytes" where
  "connectEnvelope payload = CHR 0x00 # be32 (of_nat (length payload)) @ payload"

definition envelope :: "nat \<Rightarrow> bytes \<Rightarrow> bytes" where
  "envelope flags payload = char_of flags # be32 (of_nat (length payload)) @ payload"

type_synonym stream = "bytes \<times> goerr option"

datatype read_end = EOF | ReadErr goerr

text \<open>\<open>io.ReadFull\<close>; a partial read at a clean end is \<open>ErrUnexpectedEOF\<close>, which both callers make \<open>EOF\<close>.\<close>

definition ReadFull :: "nat \<Rightarrow> stream \<Rightarrow> read_end + bytes \<times> stream" where
  "ReadFull n s =
     (case s of (data, ending) \<Rightarrow>
        if n \<le> length data then Inr (take n data, (drop n data, ending))
        else Inl (case ending of None \<Rightarrow> EOF | Some e \<Rightarrow> ReadErr e))"

definition readFrame :: "nat \<Rightarrow> string \<Rightarrow> stream \<Rightarrow> read_end + nat \<times> bytes \<times> stream" where
  "readFrame limit message s =
     (case ReadFull 5 s of
        Inl e \<Rightarrow> Inl e
      | Inr (head, s1) \<Rightarrow>
          let sz = be_value (take 4 (drop 1 head)) in
          if sz > limit then Inl (ReadErr (ErrText message))
          else (case ReadFull sz s1 of
                  Inl e \<Rightarrow> Inl e
                | Inr (payload, s2) \<Rightarrow> Inr (of_char (hd head), payload, s2)))"

definition readEnvelope :: "stream \<Rightarrow> read_end + nat \<times> bytes \<times> stream" where
  "readEnvelope s = readFrame maxResponseBytes ''anubis: revocation frame exceeds the limit'' s"

definition server_readEnvelope :: "stream \<Rightarrow> read_end + nat \<times> bytes \<times> stream" where
  "server_readEnvelope s = readFrame 1048576 ''anubistest: envelope is too large'' s"

lemma be_value_be32: "be_value (be32 n) = unat n"
proof -
  have lt: "unat n < 2 ^ LENGTH(32)" by (rule unsigned_less)
  have "unat n div 16777216 < 256" using lt by (simp add: less_mult_imp_div_less)
  then have "unat n div 16777216 mod 256 = unat n div 16777216" by simp
  moreover have "unat n div 16777216 = unat n div 65536 div 256" "unat n div 65536 = unat n div 256 div 256"
    by (simp_all add: div_mult2_eq [symmetric])
  ultimately show ?thesis by (simp add: be_value_def be32_def)
qed

lemma length_be32 [simp]: "length (be32 n) = 4"
  by (simp add: be32_def)

lemma ReadFull_append: "length h = n \<Longrightarrow> ReadFull n (h @ r, e) = Inr (h, (r, e))"
  by (simp add: ReadFull_def)

lemma readFrame_envelope:
  assumes "length payload \<le> limit" "limit < 2 ^ 32" "flags < 256"
  shows "readFrame limit msg (envelope flags payload @ rest, e) = Inr (flags, payload, (rest, e))"
proof -
  have "be_value (be32 (of_nat (length payload))) = length payload"
    using assms by (simp add: be_value_be32 unat_of_nat)
  moreover have "ReadFull 5 ((char_of flags # be32 (of_nat (length payload))) @ payload @ rest, e) =
    Inr (char_of flags # be32 (of_nat (length payload)), (payload @ rest, e))"
    by (rule ReadFull_append) simp
  moreover have "ReadFull (length payload) (payload @ rest, e) = Inr (payload, (rest, e))"
    by (rule ReadFull_append) simp
  ultimately show ?thesis using assms(1,3) by (simp add: readFrame_def envelope_def)
qed

text \<open>Refused on the length alone, whatever follows.\<close>

lemma readFrame_limit:
  assumes "length head = 5" "limit < be_value (drop 1 head)"
  shows "readFrame limit msg (head @ rest, e) = Inl (ReadErr (ErrText msg))"
  using assms by (simp add: readFrame_def ReadFull_def Let_def)

lemma readFrame_shorter: "readFrame limit msg s = Inr (f, p, s') \<Longrightarrow> length (fst s') < length (fst s)"
  by (auto simp: readFrame_def ReadFull_def Let_def split: prod.splits if_splits sum.splits)

section \<open>Reading the stream\<close>

definition endOfStream :: "'w platform \<Rightarrow> bytes \<Rightarrow> smap \<Rightarrow> goerr option" where
  "endOfStream pf payload header =
     (case unmarshal (decode_struct [(''error'', set_raw (\<lambda>v _. v))]) None payload of
        None \<Rightarrow> Some (ErrText ''anubis: decoding end of revocation stream'')
      | Some None \<Rightarrow> None
      | Some (Some v) \<Rightarrow>
          if v = JNull then None
          else Some (classify (pf_until_http_date pf) (parseWireError (json_text v) 0) (header_Get header ''Retry-After'')))"

text \<open>
  The loop. \<open>cancelled\<close> is \<open>ctx.Err()\<close>; the callback may change the world and stop the
  stream.
\<close>

function readRevocations ::
  "'w platform \<Rightarrow> ('w \<Rightarrow> goerr option) \<Rightarrow> ('w \<Rightarrow> Revocation \<Rightarrow> 'w \<times> goerr option) \<Rightarrow> smap \<Rightarrow> 'w \<Rightarrow> stream \<Rightarrow>
   'w \<times> goerr option" where
  "readRevocations pf cancelled fn header w s =
     (case readEnvelope s of
        Inl e \<Rightarrow>
          (w, case cancelled w of
                Some c \<Rightarrow> Some c
              | None \<Rightarrow> (case e of
                  EOF \<Rightarrow> Some (ErrUnavailable (ErrText ''anubis: revocation stream ended without a trailer''))
                | ReadErr e \<Rightarrow> Some (ErrUnavailable e)))
      | Inr (flags, payload, s') \<Rightarrow>
          if flags AND connectFlagCompressed \<noteq> 0 then (w, Some (ErrUnavailable (ErrText ''anubis: revocation stream sent a compressed frame'')))
          else if flags AND connectFlagEndStream \<noteq> 0 then (w, endOfStream pf payload header)
          else (case unmarshal dec_Revocation zero_Revocation payload of
                  None \<Rightarrow> (w, Some (ErrText ''anubis: decoding revocation''))
                | Some ev \<Rightarrow>
                    (case fn w ev of
                       (w', Some e) \<Rightarrow> (w', Some e)
                     | (w', None) \<Rightarrow> readRevocations pf cancelled fn header w' s')))"
  by pat_completeness auto
termination
  by (relation "measure (\<lambda>(_, _, _, _, _, s). length (fst s))") (auto simp: readEnvelope_def dest: readFrame_shorter)

declare readRevocations.simps [simp del]

definition streamClient :: "'w http_client \<Rightarrow> 'w http_client" where
  "streamClient hc = (if hc_Timeout hc = 0 then hc else hc\<lparr>hc_Timeout := 0\<rparr>)"

definition stream_request :: "'w platform \<Rightarrow> 'w Client \<Rightarrow> string \<Rightarrow> http_request res" where
  "stream_request pf c tenant =
     (case NewRequest pf ''POST'' (c_baseURL c @ procStreamRevocations)
        (connectEnvelope (marshal (GMap [(''tenant'', GStr tenant)]))) ''application/connect+json'' of
        Inl e \<Rightarrow> Inl e
      | Inr rq \<Rightarrow> Inr (rq\<lparr>rq_header := header_Set (header_Set (rq_header rq) ''Connect-Protocol-Version'' ''1'')
                         ''Connect-Accept-Encoding'' ''identity''\<rparr>))"

definition StreamRevocations ::
  "'w platform \<Rightarrow> 'w Client \<Rightarrow> ('w \<Rightarrow> goerr option) \<Rightarrow> 'w \<Rightarrow> Ctx \<Rightarrow> string \<Rightarrow>
   ('w \<Rightarrow> Revocation \<Rightarrow> 'w \<times> goerr option) \<Rightarrow> 'w \<times> goerr option" where
  "StreamRevocations pf c cancelled w ctx tenant fn =
     (case stream_request pf c tenant of
        Inl e \<Rightarrow> (w, Some e)
      | Inr rq \<Rightarrow> (case attachCredential c ctx rq of
          Inl e \<Rightarrow> (w, Some e)
        | Inr rq \<Rightarrow>
            (case (case o_httpClient (c_opts c) of
                     None \<Rightarrow> (w, Inl (ErrOther ''nil http client''))
                   | Some hc \<Rightarrow> http_Do (streamClient hc) w (set_headers (o_headers (c_opts c)) (o_tenant (c_opts c)) rq)) of
               (w', Inl e) \<Rightarrow> (w', case cancelled w' of Some e' \<Rightarrow> Some e' | None \<Rightarrow> Some (ErrUnavailable e))
             | (w', Inr rs) \<Rightarrow>
                 if rs_status rs \<noteq> 200
                 then (w', Some (classify (pf_until_http_date pf)
                        (parseWireError (take maxResponseBytes (rs_body rs)) (rs_status rs))
                        (header_Get (rs_header rs) ''Retry-After'')))
                 else readRevocations pf cancelled fn (rs_header rs) w' (rs_body rs, rs_read_err rs))))"

section \<open>The fake server's end\<close>

record RevocationRow =
  rw_Kind :: string
  rw_Tenant :: string
  rw_Session :: string
  rw_Subject :: string
  rw_Epoch :: int
  rw_ObservedAt :: gotime

definition revocation_body :: "gotime \<Rightarrow> string \<Rightarrow> RevocationRow \<Rightarrow> goval" where
  "revocation_body now tenant r =
     GMap [(''kind'', GStr (rw_Kind r)), (''tenant'', GStr (if rw_Tenant r \<noteq> [] then rw_Tenant r else tenant)),
       (''sid'', GStr (rw_Session r)), (''sub'', GStr (rw_Subject r)), (''epoch'', GInt (rw_Epoch r)),
       (''observedAt'', GStr (FormatInt (Time_Unix (if Time_IsZero (rw_ObservedAt r) then now else rw_ObservedAt r))))]"

definition writeRevocation :: "gotime \<Rightarrow> string \<Rightarrow> RevocationRow \<Rightarrow> bytes" where
  "writeRevocation now tenant r = envelope 0 (marshal (revocation_body now tenant r))"

definition writeEndStream :: "string \<Rightarrow> string \<Rightarrow> string \<Rightarrow> bytes" where
  "writeEndStream cls code message =
     envelope endStreamFlag (marshal (GMap [(''error'', connect_error cls (code @ '': '' @ message) (encodeErrorInfo code []))]))"

section \<open>Both ends together\<close>

lemma json_text_marshal [simp]: "json_text (to_json v) = marshal v"
proof (induction v rule: marshal.induct)
  case (6 ms)
  have m: "map snd (sort_key fst (map (\<lambda>(k, v). (k, h k v)) ms)) = map (\<lambda>(k, v). h k v) (sort_key fst ms)"
    for h :: "string \<Rightarrow> goval \<Rightarrow> 'x"
    by (subst sort_key_map) auto
  have "map (\<lambda>(k, v). [CHR 0x22] @ k @ [CHR 0x22] @ '':'' @ json_text v) (map (\<lambda>(k, v). (escape k, to_json v)) (sort_key fst ms)) =
        map (\<lambda>(k, v). quote k @ '':'' @ marshal v) (sort_key fst ms)"
    unfolding map_map by (rule map_cong) (use 6 in \<open>auto simp: quote_def\<close>)
  then show ?case by (simp only: to_json.simps json_text.simps marshal.simps m)
next
  case (7 ms)
  have "map (\<lambda>(k, v). [CHR 0x22] @ k @ [CHR 0x22] @ '':'' @ json_text v) (map (\<lambda>(k, v). (escape k, to_json v)) ms) =
        map (\<lambda>(k, v). quote k @ '':'' @ marshal v) ms"
    unfolding map_map by (rule map_cong) (use 7 in \<open>auto simp: quote_def\<close>)
  then show ?case by (simp only: to_json.simps json_text.simps marshal.simps)
qed (auto simp: quote_def comp_def cong: map_cong)

text \<open>What the client makes of a row.\<close>

definition revocation_of :: "gotime \<Rightarrow> string \<Rightarrow> RevocationRow \<Rightarrow> Revocation" where
  "revocation_of now tenant r =
     \<lparr>rn_Kind = rw_Kind r, rn_Tenant = (if rw_Tenant r \<noteq> [] then rw_Tenant r else tenant), rn_Session = rw_Session r,
      rn_Subject = rw_Subject r, rn_Epoch = rw_Epoch r,
      rn_Observed = Time_Unix (if Time_IsZero (rw_ObservedAt r) then now else rw_ObservedAt r)\<rparr>"

definition row_ok :: "gotime \<Rightarrow> string \<Rightarrow> RevocationRow \<Rightarrow> bool" where
  "row_ok now tenant r \<longleftrightarrow> ascii (rw_Kind r) \<and> kind_of (JStr (escape (rw_Kind r))) = rw_Kind r \<and> ascii (rw_Tenant r) \<and>
     ascii tenant \<and> ascii (rw_Session r) \<and> ascii (rw_Subject r) \<and> in64 (rw_Epoch r) \<and>
     length (marshal (revocation_body now tenant r)) \<le> maxResponseBytes"

lemma number_char_safe: "isDigit c \<or> c = CHR ''-'' \<Longrightarrow> safe_char c"
proof (cases "c = CHR ''-''")
  case False
  assume "isDigit c \<or> c = CHR ''-''"
  with False have "48 \<le> (of_char c :: nat)" "of_char c \<le> (57 :: nat)"
    by (auto simp: isDigit_def less_eq_char_def)
  then show ?thesis
    unfolding safe_char_def plain_char_def less_eq_char_def less_char_def by (intro conjI notI) auto
qed (simp add: safe_char_def plain_char_def)

lemma FormatInt_safe: "list_all safe_char (FormatInt n)"
  unfolding list_all_iff
proof (rule ballI)
  fix c assume "c \<in> set (FormatInt n)"
  from number_char_safe [OF FormatInt_chars [OF this]] show "safe_char c" .
qed

lemma ascii_FormatInt [simp]: "ascii (FormatInt n)"
  using FormatInt_safe [of n] by (auto simp: list_all_iff ascii_def safe_char_def plain_char_def)

lemma escape_FormatInt [simp]: "escape (FormatInt n) = FormatInt n"
  by (rule escape_safe [OF FormatInt_safe])

lemma decode_revocation_body:
  assumes "row_ok now tenant r"
  shows "unmarshal dec_Revocation zero_Revocation (marshal (revocation_body now tenant r)) = Some (revocation_of now tenant r)"
proof -
  have a: "ascii_val (revocation_body now tenant r)" using assms by (simp add: row_ok_def revocation_body_def)
  have u: "unmarshal dec_Revocation zero_Revocation (marshal (revocation_body now tenant r)) =
    dec_Revocation (to_json (revocation_body now tenant r)) zero_Revocation"
    by (simp only: unmarshal_def parse_marshal [OF a] Option.bind.simps)
  show ?thesis unfolding u using assms pb_int_roundtrip [OF in64_Time_Unix]
    by (simp add: row_ok_def revocation_body_def dec_Revocation_def field_for_def zero_Revocation_def
        revocation_of_def set_pb_def del: pb_int.simps)
qed

text \<open>The callback over a list of events, stopping at its first error.\<close>

fun deliver :: "('w \<Rightarrow> Revocation \<Rightarrow> 'w \<times> goerr option) \<Rightarrow> 'w \<Rightarrow> Revocation list \<Rightarrow> 'w \<times> goerr option" where
  "deliver fn w [] = (w, None)"
| "deliver fn w (r # rs) = (case fn w r of (w', Some e) \<Rightarrow> (w', Some e) | (w', None) \<Rightarrow> deliver fn w' rs)"

lemma readRevocations_frames:
  assumes "\<forall>r \<in> set rows. row_ok now tenant r"
  shows "readRevocations pf cancelled fn header w (concat (map (writeRevocation now tenant) rows) @ tail, e) =
    (case deliver fn w (map (revocation_of now tenant) rows) of
       (w', Some err) \<Rightarrow> (w', Some err)
     | (w', None) \<Rightarrow> readRevocations pf cancelled fn header w' (tail, e))"
  using assms
proof (induction rows arbitrary: w)
  case (Cons r rows)
  have r: "row_ok now tenant r" using Cons.prems by simp
  then have f: "readEnvelope (writeRevocation now tenant r @ q, e) = Inr (0, marshal (revocation_body now tenant r), (q, e))" for q
    by (simp add: readEnvelope_def writeRevocation_def readFrame_envelope row_ok_def)
  show ?case
    using Cons by (subst readRevocations.simps)
      (simp add: f decode_revocation_body [OF r] split: prod.split option.split)
qed simp

lemma deliver_all: "snd (deliver fn w rs) = None \<Longrightarrow> (\<And>w r. snd (fn w r) = None) \<Longrightarrow>
    fst (deliver fn w rs) = fold (\<lambda>r w. fst (fn w r)) rs w"
  by (induction fn w rs rule: deliver.induct) (auto split: prod.splits option.splits)

end
