(* ===== verification/Kit.thy ===== *)
theory Kit
  imports Authz
begin

text \<open>
  The go-kit adapter (\<open>anubiskit/anubiskit.go\<close>, \<open>grpc.go\<close>, \<open>amqp.go\<close>): carrying the
  credential in from three transports, the endpoint middlewares, and the mapping of errors
  to HTTP statuses, gRPC codes and redelivery. A middleware answers with an error or hands
  the request on with a context.

  The lemmas: an endpoint behind the middlewares runs only for a verified and allowed
  caller; the transports carry the same credential; the three mappings agree.
\<close>

section \<open>The credential\<close>

abbreviation (input) AuthorizationMD :: string where "AuthorizationMD \<equiv> ''authorization''"
abbreviation (input) AuthorizationHeader :: string where "AuthorizationHeader \<equiv> ''authorization''"

definition kit_bearer :: "string \<Rightarrow> string option" where
  "kit_bearer header =
     (if length header \<le> 7 \<or> \<not> EqualFold (take 7 header) ''Bearer '' then None
      else Some (TrimSpace (drop 7 header)))"

definition put_token :: "Ctx \<Rightarrow> string \<Rightarrow> Ctx" where
  "put_token ctx t = ctx\<lparr>ctx_bearer := Some t\<rparr>"

definition HTTPToContext :: "Ctx \<Rightarrow> smap \<Rightarrow> Ctx" where
  "HTTPToContext ctx header =
     (case kit_bearer (header_Get header ''Authorization'') of None \<Rightarrow> ctx | Some t \<Rightarrow> put_token ctx t)"

definition outgoing :: "Ctx \<Rightarrow> string option" where
  "outgoing ctx = (case ctx_bearer ctx of Some t \<Rightarrow> if t \<noteq> [] then Some t else None | None \<Rightarrow> None)"

definition ContextToHTTP :: "Ctx \<Rightarrow> smap \<Rightarrow> smap" where
  "ContextToHTTP ctx header =
     (case outgoing ctx of None \<Rightarrow> header | Some t \<Rightarrow> header_Set header ''Authorization'' (''Bearer '' @ t))"

text \<open>gRPC metadata: lower-case keys, several values each.\<close>

type_synonym metadata = "(string \<times> string list) list"

definition md_Get :: "metadata \<Rightarrow> string \<Rightarrow> string list" where
  "md_Get md k = (case map_of md (map toLower_byte k) of Some vs \<Rightarrow> vs | None \<Rightarrow> [])"

definition md_Set :: "metadata \<Rightarrow> string \<Rightarrow> string \<Rightarrow> metadata" where
  "md_Set md k v = AList.update (map toLower_byte k) [v] md"

definition GRPCToContext :: "Ctx \<Rightarrow> metadata \<Rightarrow> Ctx" where
  "GRPCToContext ctx md =
     (case find_first kit_bearer (md_Get md AuthorizationMD) of None \<Rightarrow> ctx | Some t \<Rightarrow> put_token ctx t)"

definition ContextToGRPC :: "Ctx \<Rightarrow> metadata \<Rightarrow> metadata" where
  "ContextToGRPC ctx md =
     (case outgoing ctx of None \<Rightarrow> md | Some t \<Rightarrow> md_Set md AuthorizationMD (''Bearer '' @ t))"

text \<open>AMQP headers hold values of several types; only strings are credentials.\<close>

datatype amqp_value = AString string | AOther

type_synonym amqp_table = "(string \<times> amqp_value) list"

definition AMQPToContext :: "Ctx \<Rightarrow> amqp_table option \<Rightarrow> Ctx" where
  "AMQPToContext ctx headers =
     (case headers of None \<Rightarrow> ctx
      | Some h \<Rightarrow>
          (case map_of h AuthorizationHeader of
             Some (AString v) \<Rightarrow>
               (case kit_bearer v of
                  Some t \<Rightarrow> put_token ctx t
                | None \<Rightarrow> if v \<noteq> [] then put_token ctx v else ctx)
           | _ \<Rightarrow> ctx))"

definition ContextToAMQP :: "Ctx \<Rightarrow> amqp_table option \<Rightarrow> amqp_table option" where
  "ContextToAMQP ctx headers =
     (case outgoing ctx of None \<Rightarrow> headers
      | Some t \<Rightarrow> Some (AList.update AuthorizationHeader (AString (''Bearer '' @ t)) (case headers of None \<Rightarrow> [] | Some h \<Rightarrow> h)))"

section \<open>Endpoint middleware\<close>

definition Authenticate ::
  "'w net \<Rightarrow> (bytes \<Rightarrow> bytes \<Rightarrow> bytes \<Rightarrow> bool) \<Rightarrow> 'w \<times> Verifier \<Rightarrow> gotime \<Rightarrow> Ctx \<Rightarrow> ('w \<times> Verifier) \<times> Ctx res" where
  "Authenticate net ed_verify s now ctx =
     (case outgoing ctx of
        None \<Rightarrow> (s, Inl ErrTokenContextMissing)
      | Some token \<Rightarrow>
          (case Verifier_Verify net ed_verify s now token of
             (s', Inl e) \<Rightarrow> (s', Inl e)
           | (s', Inr claims) \<Rightarrow> (s', Inr (WithPrincipal ctx \<lparr>p_Claims = Some claims, p_Token = token\<rparr>))))"

definition kit_RequireAMR :: "string list \<Rightarrow> Ctx \<Rightarrow> Ctx res" where
  "kit_RequireAMR methods ctx =
     (case FromContext ctx of
        None \<Rightarrow> Inl ErrPrincipalContextMissing
      | Some p \<Rightarrow>
          if \<not> AuthMethods_HasAll (Principal_AuthMethods p) methods
          then Inl (ErrStepUp \<lparr>su_RequiredAMR = methods, su_CurrentAMR = Principal_AuthMethods p, su_MaxAuthAge = [],
                     su_AuthAge = [], su_Permission = [], su_Subject = []\<rparr>)
          else Inr ctx)"

definition kit_Authorize ::
  "'w platform \<Rightarrow> string \<Rightarrow> (Ctx \<Rightarrow> 'q \<Rightarrow> smap) option \<Rightarrow> 'w \<times> 'w Client \<Rightarrow> Ctx \<Rightarrow> 'q \<Rightarrow> ('w \<times> 'w Client) \<times> Ctx res" where
  "kit_Authorize pf permission scopes s ctx request =
     (case FromContext ctx of
        None \<Rightarrow> (s, Inl ErrPrincipalContextMissing)
      | Some _ \<Rightarrow>
          (case Require pf s ctx permission (case scopes of None \<Rightarrow> [] | Some f \<Rightarrow> f ctx request) of
             (s', Some e) \<Rightarrow> (s', Inl e) | (s', None) \<Rightarrow> (s', Inr ctx)))"

section \<open>Errors at the edge\<close>

definition verification_sentinels :: "goerr list" where
  "verification_sentinels = [ErrTokenContextMissing, ErrExpired, ErrAudience, ErrIssuer, ErrNotYetValid, ErrUnknownKid]"

definition StatusCode :: "goerr \<Rightarrow> int" where
  "StatusCode e =
     (if errors_As as_StepUp e \<noteq> None then 401
      else if errors_As as_Denied e \<noteq> None then 403
      else if errors_As as_Auth e \<noteq> None then 401
      else if errors_As as_RateLimited e \<noteq> None then 429
      else if errors_As as_Unavailable e \<noteq> None then 503
      else if list_ex (errors_Is e) verification_sentinels then 401
      else 500)"

datatype code = Unauthenticated | PermissionDenied | ResourceExhausted | Unavailable | Internal

definition GRPCCode :: "goerr \<Rightarrow> code" where
  "GRPCCode e =
     (if errors_As as_StepUp e \<noteq> None then Unauthenticated
      else if errors_As as_Denied e \<noteq> None then PermissionDenied
      else if errors_As as_Auth e \<noteq> None then Unauthenticated
      else if errors_As as_RateLimited e \<noteq> None then ResourceExhausted
      else if errors_As as_Unavailable e \<noteq> None then Unavailable
      else if list_ex (errors_Is e) verification_sentinels then Unauthenticated
      else Internal)"

definition Retryable :: "goerr \<Rightarrow> bool" where
  "Retryable e \<longleftrightarrow> errors_As as_RateLimited e \<noteq> None \<or> errors_As as_Unavailable e \<noteq> None"

text \<open>\<open>Nack(false, requeue)\<close> on the delivery, if there is one.\<close>

definition NackErrorEncoder :: "goerr \<Rightarrow> bool \<Rightarrow> (bool \<times> bool) option" where
  "NackErrorEncoder e has_delivery = (if \<not> has_delivery then None else Some (False, Retryable e))"

fun itoa_go :: "nat \<Rightarrow> nat \<Rightarrow> string \<Rightarrow> string" where
  "itoa_go 0 n b = b"
| "itoa_go (Suc k) n b = (if n > 0 then itoa_go k (n div 10) (digit (n mod 10) # b) else b)"

definition itoa :: "int \<Rightarrow> string" where
  "itoa n = (if n = 0 then ''0'' else if n < 0 then [] else itoa_go 20 (nat n) [])"

text \<open>The float of \<open>Duration.Seconds\<close>, truncated, is read as exact division.\<close>

definition secondsOf :: "duration \<Rightarrow> string" where
  "secondsOf d = (let secs = d sdiv second in itoa (if secs < 1 then 1 else secs))"

record errorEnvelope =
  ev_Error :: string
  ev_Message :: string
  ev_RequestID :: string
  ev_Details :: smap

definition envelope_json :: "errorEnvelope \<Rightarrow> goval" where
  "envelope_json b =
     GStruct ([(''error'', GStr (ev_Error b)), (''message'', GStr (ev_Message b))] @
       (if ev_RequestID b = [] then [] else [(''request_id'', GStr (ev_RequestID b))]) @
       (if ev_Details b = [] then [] else [(''details'', gsmap (ev_Details b))]))"

definition plain_body :: "string \<Rightarrow> string \<Rightarrow> errorEnvelope" where
  "plain_body e m = \<lparr>ev_Error = e, ev_Message = m, ev_RequestID = [], ev_Details = []\<rparr>"

definition error_shape :: "goerr \<Rightarrow> smap \<times> errorEnvelope" where
  "error_shape e =
     (case errors_As as_StepUp e of
        Some su \<Rightarrow> ([(''WWW-Authenticate'', ''Bearer error=\"insufficient_user_authentication\"'')],
          (plain_body ''step_up_required'' ''stronger authentication is required for this action'')
            \<lparr>ev_Details := [(''required_amr'', Join '' '' (su_RequiredAMR su)), (''max_auth_age'', su_MaxAuthAge su)]\<rparr>)
      | None \<Rightarrow> (case errors_As as_Denied e of
          Some d \<Rightarrow> ([], (plain_body (de_Reason d) (de_Message d))
            \<lparr>ev_Details := (if de_FailingAxis d \<noteq> [] then [(''failing_axis'', de_FailingAxis d)] else [])\<rparr>)
        | None \<Rightarrow> (case errors_As as_RateLimited e of
            Some d \<Rightarrow> ([(''Retry-After'', secondsOf d)], plain_body ''rate_limited'' ''slow down'')
          | None \<Rightarrow>
              if StatusCode e = 401
              then ([(''WWW-Authenticate'', ''Bearer error=\"invalid_token\"'')], plain_body ''unauthenticated'' ''authentication required'')
              else if StatusCode e = 503 then ([], plain_body ''unavailable'' ''authorization is unavailable'')
              else ([], plain_body ''internal'' ''internal error''))))"

text \<open>Every branch of the encoder starts from an empty header here.\<close>

definition ErrorEncoder :: "goerr \<Rightarrow> handled" where
  "ErrorEncoder e =
     (case error_shape e of (h, b) \<Rightarrow>
       let b = (case errors_As as_API e of Some a \<Rightarrow> if ae_RequestID a \<noteq> [] then b\<lparr>ev_RequestID := ae_RequestID a\<rparr> else b | None \<Rightarrow> b)
       in Answer (StatusCode e) (h @ [(''Content-Type'', ''application/json; charset=utf-8'')])
            (marshal (envelope_json b) @ [CHR 0x0A]))"

abbreviation (input) TrailerError :: string where "TrailerError \<equiv> ''anubis-error''"
abbreviation (input) TrailerFailingAxis :: string where "TrailerFailingAxis \<equiv> ''anubis-failing-axis''"
abbreviation (input) TrailerRequiredAMR :: string where "TrailerRequiredAMR \<equiv> ''anubis-required-amr''"
abbreviation (input) TrailerMaxAuthAge :: string where "TrailerMaxAuthAge \<equiv> ''anubis-max-auth-age''"
abbreviation (input) TrailerRequestID :: string where "TrailerRequestID \<equiv> ''anubis-request-id''"

definition grpc_shape :: "goerr \<Rightarrow> string \<times> metadata" where
  "grpc_shape e =
     (case errors_As as_StepUp e of
        Some su \<Rightarrow>
          (''stronger authentication is required for this action'',
           let md = md_Set [] TrailerError ''step_up_required'';
               md = (if length (su_RequiredAMR su) > 0 then md_Set md TrailerRequiredAMR (Join '' '' (su_RequiredAMR su)) else md)
           in if su_MaxAuthAge su \<noteq> [] then md_Set md TrailerMaxAuthAge (su_MaxAuthAge su) else md)
      | None \<Rightarrow> (case errors_As as_Denied e of
          Some d \<Rightarrow>
            (if de_Message d = [] then ''not permitted'' else de_Message d,
             let md = md_Set [] TrailerError (de_Reason d)
             in if de_FailingAxis d \<noteq> [] then md_Set md TrailerFailingAxis (de_FailingAxis d) else md)
        | None \<Rightarrow>
            if errors_As as_RateLimited e \<noteq> None then (''slow down'', md_Set [] TrailerError ''rate_limited'')
            else if GRPCCode e = Unavailable then (''authorization is unavailable'', md_Set [] TrailerError ''unavailable'')
            else if GRPCCode e = Unauthenticated then (''authentication required'', md_Set [] TrailerError ''unauthenticated'')
            else (''internal error'', md_Set [] TrailerError ''internal'')))"

text \<open>The status error and the trailer of a refusal; no error, no status.\<close>

definition GRPCError :: "goerr option \<Rightarrow> (code \<times> string \<times> metadata) option" where
  "GRPCError err =
     (case err of None \<Rightarrow> None
      | Some e \<Rightarrow>
          (case grpc_shape e of (message, md) \<Rightarrow>
             Some (GRPCCode e, message,
               case errors_As as_API e of
                 Some a \<Rightarrow> if ae_RequestID a \<noteq> [] then md_Set md TrailerRequestID (ae_RequestID a) else md
               | None \<Rightarrow> md)))"

section \<open>Lemmas\<close>

fun status_of :: "code \<Rightarrow> int" where
  "status_of Unauthenticated = 401"
| "status_of PermissionDenied = 403"
| "status_of ResourceExhausted = 429"
| "status_of Unavailable = 503"
| "status_of Internal = 500"

lemma StatusCode_GRPC: "StatusCode e = status_of (GRPCCode e)"
  by (simp add: StatusCode_def GRPCCode_def)

lemma transient_Retryable: "StatusCode e = 429 \<or> StatusCode e = 503 \<Longrightarrow> Retryable e"
  by (auto simp: StatusCode_def Retryable_def split: if_splits)

text \<open>For the errors the SDK itself returns, redelivery is for those two classes alone.\<close>

lemma classify_Retryable: "Retryable (classify u a h) \<longleftrightarrow> StatusCode (classify u a h) \<in> {429, 503}"
  by (simp add: classify_def Let_def Retryable_def StatusCode_def errors_As_def errors_Is_def list_ex_iff
      verification_sentinels_def)

lemma transport_Retryable: "StatusCode (ErrUnavailable (ErrOther t)) = 503 \<and> Retryable (ErrUnavailable (ErrOther t))"
  by (simp add: StatusCode_def Retryable_def errors_As_def)

lemma Decision_Err_status:
  "Decision_Err d = Some e \<Longrightarrow> StatusCode e = (if Decision_NeedsStepUp d then 401 else 403) \<and> \<not> Retryable e"
  by (auto simp: Decision_Err_def StatusCode_def Retryable_def errors_As_def split: if_splits)

lemma Authenticate_Inr:
  "Authenticate net ed s now ctx = (s', Inr ctx') \<Longrightarrow>
   \<exists>t c. ctx_bearer ctx = Some t \<and> t \<noteq> [] \<and> Verifier_Verify net ed s now t = (s', Inr c) \<and>
         ctx' = WithPrincipal ctx \<lparr>p_Claims = Some c, p_Token = t\<rparr>"
  by (auto simp: Authenticate_def outgoing_def split: option.splits prod.splits sum.splits if_splits)

lemma kit_Authorize_Inr:
  "kit_Authorize pf permission scopes s ctx q = (s', Inr ctx') \<Longrightarrow>
   ctx' = ctx \<and> FromContext ctx \<noteq> None \<and>
   (\<exists>d. Authorize pf s ctx permission (case scopes of None \<Rightarrow> [] | Some f \<Rightarrow> f ctx q) = (s', Inr d) \<and> dn_Allow d)"
  by (auto simp: kit_Authorize_def Require_def split: option.splits prod.splits sum.splits)

lemma itoa_nat_dec: "n \<noteq> 0 \<Longrightarrow> n < 10 ^ k \<Longrightarrow> itoa_go k n b = nat_dec n @ b"
proof (induction k arbitrary: n b)
  case (Suc k)
  show ?case
  proof (cases "n < 10")
    case True
    with Suc show ?thesis by (cases k) (simp_all add: nat_dec.simps [of n])
  next
    case False
    then have "n div 10 \<noteq> 0" "n div 10 < 10 ^ k" using Suc.prems by (auto simp: less_mult_imp_div_less)
    with Suc.IH False show ?thesis by (simp add: nat_dec.simps [of n])
  qed
qed simp

lemma digit_0: "digit 0 = CHR ''0''"
  by (simp add: digit_def char_of_eq_iff)

lemma itoa_FormatInt: "0 \<le> n \<Longrightarrow> in64 n \<Longrightarrow> itoa n = FormatInt n"
proof -
  assume n: "0 \<le> n" "in64 n"
  then have "nat n < 10 ^ 20" by (simp add: in64_def nat_less_iff)
  with n itoa_nat_dec [of "nat n" 20 "[]"] show ?thesis
    by (cases "n = 0") (simp_all add: itoa_def FormatInt_def nat_dec.simps [of 0] digit_0 del: itoa_go.simps)
qed

text \<open>A token with no white space around it comes in as it went out, on every transport.\<close>

lemma kit_bearer_exact: "t \<noteq> [] \<Longrightarrow> TrimSpace t = t \<Longrightarrow> kit_bearer (''Bearer '' @ t) = Some t"
  by (cases t) (simp_all add: kit_bearer_def)

lemma transports_carry:
  assumes "ctx_bearer ctx = Some t" "t \<noteq> []" "TrimSpace t = t"
  shows "ctx_bearer (HTTPToContext ctx0 (ContextToHTTP ctx h)) = Some t"
    "ctx_bearer (GRPCToContext ctx0 (ContextToGRPC ctx md)) = Some t"
    "ctx_bearer (AMQPToContext ctx0 (ContextToAMQP ctx tbl)) = Some t"
  using assms kit_bearer_exact [OF assms(2,3)]
  by (simp_all add: HTTPToContext_def ContextToHTTP_def outgoing_def header_Get_Set_same put_token_def
      GRPCToContext_def ContextToGRPC_def md_Get_def md_Set_def update_conv' AMQPToContext_def ContextToAMQP_def)

end
