(* ===== verification/Session_Properties.thy ===== *)
theory Session_Properties
  imports Demo_Client Logout Token_Flight Revocations Kit
begin

text \<open>
  What an application may rely on for its sessions: signing in, keeping a pair of tokens
  fresh, signing out, hearing of revocations, and the adapter's guards and error codes.
\<close>

section \<open>Signing in\<close>

text \<open>C14: No callback is exchanged unchecked. Tokens come back only when the store gave up a sign-in
  of this browser, at most ten minutes old, whose state is the callback's, and they are the
  answer to exchanging the callback's code with that sign-in's verifier; a callback with
  another state, or none in progress, sends nothing and is refused.\<close>

theorem login_checks_state:
  "(\<forall>w' j' t. CompleteLogin pf c (w, j) r = ((w', j'), Inr t) \<longrightarrow>
      (\<exists>w1 p code. store_Take c w j r = ((w1, j'), Inr p) \<and>
         values_Get (ParseQuery (sr_RawQuery r)) ''state'' = pe_State p \<and>
         values_Get (ParseQuery (sr_RawQuery r)) ''code'' = code \<and> code \<noteq> [] \<and>
         Time_Sub (client_now c w1) (pe_Created p) \<le> loginTTL \<and> exchange pf c w1 p code = (w', Inr t))) \<and>
   (\<forall>w1 j1 p. store_Take c w j r = ((w1, j1), Inr p) \<and> values_Get (ParseQuery (sr_RawQuery r)) ''state'' \<noteq> pe_State p \<and>
      values_Get (ParseQuery (sr_RawQuery r)) ''error'' = [] \<longrightarrow>
      (\<exists>reason. CompleteLogin pf c (w, j) r = ((w1, j1), Inl (ErrStateMismatch reason)))) \<and>
   (\<forall>w1 j1 e. store_Take c w j r = ((w1, j1), Inl e) \<and> values_Get (ParseQuery (sr_RawQuery r)) ''error'' = [] \<longrightarrow>
      CompleteLogin pf c (w, j) r = ((w1, j1), Inl e))"
proof (intro conjI allI impI)
  fix w' j' t assume "CompleteLogin pf c (w, j) r = ((w', j'), Inr t)"
  from CompleteLogin_Inr [OF this]
  show "\<exists>w1 p code. store_Take c w j r = ((w1, j'), Inr p) \<and>
         values_Get (ParseQuery (sr_RawQuery r)) ''state'' = pe_State p \<and>
         values_Get (ParseQuery (sr_RawQuery r)) ''code'' = code \<and> code \<noteq> [] \<and>
         Time_Sub (client_now c w1) (pe_Created p) \<le> loginTTL \<and> exchange pf c w1 p code = (w', Inr t)"
    by simp
next
  fix w1 j1 e assume "store_Take c w j r = ((w1, j1), Inl e) \<and> values_Get (ParseQuery (sr_RawQuery r)) ''error'' = []"
  then show "CompleteLogin pf c (w, j) r = ((w1, j1), Inl e)" by (simp add: CompleteLogin_def Let_def)
qed (metis CompleteLogin_mismatch)

definition demo_login_client :: "http_request list Client" where
  "demo_login_client = (demo_client [])\<lparr>c_opts := (c_opts (demo_client []))\<lparr>o_clientID := ''billing''\<rparr>\<rparr>"

lemma demo_login_fields [simp]:
  "o_clientID (c_opts demo_login_client) = ''billing''" "client_now demo_login_client w = demo_now"
  "o_loginStore (c_opts demo_login_client) = Some (cookieStore (demo_pf []))"
  by (simp_all add: demo_login_client_def client_now_def) (simp_all add: demo_client_def demo_pf_def cookieStore_def)

theorem login_checks_state_witness:
  "CompleteLogin (demo_pf []) demo_login_client ([], []) (request_with []) =
     (([], []), Inl (ErrStateMismatch ''no login in progress for this browser''))"
proof -
  have "store_Take demo_login_client [] [] (request_with []) = (([], []), Inl (ErrStateMismatch ''no login in progress for this browser''))"
    by (simp add: store_Take_def cookieStore_def cookieStore_Take_def request_with_def)
  moreover have "values_Get (ParseQuery (sr_RawQuery (request_with []))) ''error'' = []"
    by (simp add: request_with_def) code_simp
  ultimately show ?thesis
    using login_checks_state [where pf = "demo_pf []" and c = demo_login_client and w = "[]" and j = "[]" and r = "request_with []"]
    by simp
qed

text \<open>What a refused \<open>Take\<close> of the cookie store does to a callback.\<close>

lemma cookie_refused:
  assumes "cookieStore_Take pf w [] r = ((w', j'), Inl e)" "o_loginStore (c_opts c) = Some (cookieStore pf)"
    "values_Get (ParseQuery (sr_RawQuery r)) ''error'' = []"
  shows "CompleteLogin pf c (w, []) r = ((w, j'), Inl e)"
  using assms cookieStore_Take_world [OF assms(1)]
  by (simp add: CompleteLogin_def store_Take_def cookieStore_def Let_def)

text \<open>C7: A whole sign-in over the default store. The authorize URL carries the challenge of a
  verifier the server's PKCE check accepts; the same browser coming back with the state it
  was sent with has its code exchanged, with that verifier and redirect; and the cookies of
  that answer make any second callback fail. Assumed: of the platform, 32 random bytes,
  32-byte hashes, and that the time of the sign-in survives its JSON form.\<close>

theorem login_roundtrip:
  assumes begins: "BeginLogin pf c (w, []) p = ((w1, j1), Inr rd)"
    and store: "o_loginStore (c_opts c) = Some (cookieStore pf)" and uri: "ascii (lp_RedirectURI p)"
    and platform: "\<forall>w w' b. pf_rand32 pf w = (w', Some b) \<longrightarrow> length b = 32" "\<forall>m. length (pf_sha256 pf m) = 32"
      "\<forall>tm. pf_time_format pf (client_now c w1) = Some tm \<longrightarrow> list_all safe_char tm \<and> pf_time_parse pf tm = Some (client_now c w1)"
    and callback: "sr_Cookies r = browser j1 br" "values_Get (ParseQuery (sr_RawQuery r)) ''state'' = rd_State rd"
      "values_Get (ParseQuery (sr_RawQuery r)) ''error'' = []" "values_Get (ParseQuery (sr_RawQuery r)) ''code'' = code" "code \<noteq> []"
    and in_time: "Time_Sub (client_now c w2) (client_now c w1) \<le> loginTTL"
  shows "\<exists>q pending j2. rd_URL rd = c_baseURL c @ ''/v1/authorize?'' @ values_Encode q \<and>
      values_Get (ParseQuery (values_Encode q)) ''state'' = rd_State rd \<and>
      pkceMatches (pf_sha256 pf) (pe_Verifier pending) (values_Get (ParseQuery (values_Encode q)) ''code_challenge'') \<and>
      pe_RedirectURI pending = lp_RedirectURI p \<and>
      CompleteLogin pf c (w2, []) r = (case exchange pf c w2 pending code of (w3, res) \<Rightarrow> ((w3, j2), res)) \<and>
      (\<forall>w4 r'. sr_Cookies r' = browser j2 (sr_Cookies r) \<and> values_Get (ParseQuery (sr_RawQuery r')) ''error'' = [] \<longrightarrow>
         (\<exists>j3 e. CompleteLogin pf c (w4, []) r' = ((w4, j3), Inl e)))"
proof -
  from BeginLogin_Inr [OF begins] obtain wa wb vf where b:
    "rd_URL rd = c_baseURL c @ ''/v1/authorize?'' @ values_Encode (login_query pf c p (rd_State rd) vf)"
    "store_Put c wb [] \<lparr>pe_State = rd_State rd, pe_Verifier = vf, pe_RedirectURI = lp_RedirectURI p, pe_Created = client_now c wb\<rparr> = ((w1, j1), None)"
    "randomToken pf w = (wa, Inr (rd_State rd))" "randomToken pf wa = (wb, Inr vf)" by blast
  let ?q = "login_query pf c p (rd_State rd) vf"
  have parses: "values_Get (ParseQuery (values_Encode ?q)) k = values_Get ?q k" for k
    by (rule Get_same_map [OF values_roundtrip [OF login_query_single]])
  from b(2) store cookieStore_Put_world have wb: "wb = w1" by (fastforce simp: store_Put_def cookieStore_def)
  let ?p = "\<lparr>pe_State = rd_State rd, pe_Verifier = vf, pe_RedirectURI = lp_RedirectURI p, pe_Created = client_now c w1\<rparr>"
  have ok: "cookie_storable pf ?p" using randomToken_ascii b(3,4) uri platform(3) by (auto simp: cookie_storable_def)
  obtain j2 where t: "cookieStore_Take pf w2 [] r = ((w2, j2), Inr ?p)"
    using kept_login_taken [OF b(2) [unfolded wb] store ok callback(1), of w2] by blast
  have used: "\<exists>e. snd (cookie_take pf w4 (browser j2 (sr_Cookies r))) = Inl e" for w4
    using cookie_take_consumes [of pf w2 "sr_Cookies r"] t by (simp add: cookie_take_def cookieStore_Take_cookies)
  have "\<exists>j3 e. CompleteLogin pf c (w4, []) r' = ((w4, j3), Inl e)"
    if "sr_Cookies r' = browser j2 (sr_Cookies r)" "values_Get (ParseQuery (sr_RawQuery r')) ''error'' = []" for w4 r'
  proof -
    have "cookieStore_Take pf w4 [] (request_with (browser j2 (sr_Cookies r))) = cookieStore_Take pf w4 [] r'"
      using cookieStore_Take_cookies [of pf w4 "[]" r'] by (simp only: that(1))
    with used [of w4] obtain w' j' e where "cookieStore_Take pf w4 [] r' = ((w', j'), Inl e)"
      by (auto simp: cookie_take_def split: prod.splits)
    from cookie_refused [OF this store that(2)] show ?thesis by blast
  qed
  moreover have "CompleteLogin pf c (w2, []) r = (case exchange pf c w2 ?p code of (w3, res) \<Rightarrow> ((w3, j2), res))"
    using callback_exchanges [OF t store callback(3) _ callback(4,5)] callback(2) in_time by simp
  moreover have "pkceMatches (pf_sha256 pf) vf (values_Get (ParseQuery (values_Encode ?q)) ''code_challenge'')"
  proof -
    have "vf \<noteq> []" by (rule randomToken_not_Nil [OF platform(1) b(4)])
    moreover from platform(2) [rule_format, of vf] have "raw_url_encode (pf_sha256 pf vf) \<noteq> []"
      by (intro raw_url_encode_not_Nil) auto
    ultimately show ?thesis by (simp add: pkceMatches_def parses login_query_Get)
  qed
  moreover have "values_Get (ParseQuery (values_Encode ?q)) ''state'' = rd_State rd"
    by (simp add: parses login_query_Get)
  ultimately show ?thesis using b(1) by (intro exI [of _ ?q] exI [of _ ?p] exI [of _ j2]) simp
qed

text \<open>A browser that has just begun, and the callback it comes back with.\<close>

definition demo_hash_pf :: "http_request list platform" where
  "demo_hash_pf = (demo_pf [])\<lparr>pf_sha256 := \<lambda>m. take 32 (m @ replicate 32 (CHR ''.''))\<rparr>"

lemma demo_hash_fields [simp]:
  "pf_rand32 demo_hash_pf = pf_rand32 (demo_pf [])" "pf_time_format demo_hash_pf = pf_time_format (demo_pf [])"
  "pf_time_parse demo_hash_pf = pf_time_parse (demo_pf [])" "length (pf_sha256 demo_hash_pf m) = 32"
  "dec_Pending demo_hash_pf = dec_Pending (demo_pf [])"
  by (simp_all add: demo_hash_pf_def dec_Pending_def)

lemma demo_hash_store [simp]: "cookieStore (demo_pf []) = cookieStore demo_hash_pf"
  unfolding cookieStore_def cookieStore_Put_def [abs_def] cookieStore_Take_def [abs_def] demo_hash_fields ..

definition demo_params :: LoginParams where
  "demo_params = \<lparr>lp_RedirectURI = ''https://app/cb'', lp_Scope = [], lp_Realm = [], lp_Page = [], lp_Tenant = [], lp_Nonce = [],
     lp_Prompt = [], lp_ACRValues = [], lp_MaxAge = 0\<rparr>"

abbreviation demo_random :: string where "demo_random \<equiv> raw_url_encode (replicate 32 (CHR ''r''))"

lemma demo_begins: "\<exists>j url. BeginLogin demo_hash_pf demo_login_client ([], []) demo_params =
    (([], j), Inr \<lparr>rd_URL = url, rd_State = demo_random\<rparr>)"
  by (simp add: BeginLogin_def randomToken_def store_Put_def cookieStore_def cookieStore_Put_def demo_params_def
      del: marshal.simps)

definition demo_callback :: "smap \<Rightarrow> server_request" where
  "demo_callback cookies = \<lparr>sr_Method = ''GET'', sr_Header = [], sr_Cookies = cookies,
     sr_RawQuery = values_Encode [(''state'', [demo_random]), (''code'', [''cde_1''])], sr_PostForm = None\<rparr>"

lemma demo_callback_query [simp]:
  "values_Get (ParseQuery (sr_RawQuery (demo_callback b))) ''state'' = demo_random"
  "values_Get (ParseQuery (sr_RawQuery (demo_callback b))) ''code'' = ''cde_1''"
  "values_Get (ParseQuery (sr_RawQuery (demo_callback b))) ''error'' = []"
proof -
  let ?q = "[(''state'', [demo_random]), (''code'', [''cde_1''])]"
  have q: "values_Get (ParseQuery (sr_RawQuery (demo_callback b))) k = values_Get ?q k" for k
    using Get_same_map [OF values_roundtrip, of ?q k] by (simp add: demo_callback_def single_def wf_map_def)
  show "values_Get (ParseQuery (sr_RawQuery (demo_callback b))) ''state'' = demo_random"
    "values_Get (ParseQuery (sr_RawQuery (demo_callback b))) ''code'' = ''cde_1''"
    "values_Get (ParseQuery (sr_RawQuery (demo_callback b))) ''error'' = []"
    unfolding q by (simp_all add: values_Get_def)
qed

lemma demo_callback_cookies [simp]: "sr_Cookies (demo_callback b) = b"
  by (simp add: demo_callback_def)

theorem login_roundtrip_witness:
  "\<exists>j1 pending j2 j3 e.
     fst (BeginLogin demo_hash_pf demo_login_client ([], []) demo_params) = ([], j1) \<and>
     CompleteLogin demo_hash_pf demo_login_client ([], []) (demo_callback (browser j1 [])) =
       (case exchange demo_hash_pf demo_login_client [] pending ''cde_1'' of (w3, res) \<Rightarrow> ((w3, j2), res)) \<and>
     CompleteLogin demo_hash_pf demo_login_client ([], []) (demo_callback (browser j2 (browser j1 []))) = (([], j3), Inl e)"
proof -
  from demo_begins obtain j1 url where b: "BeginLogin demo_hash_pf demo_login_client ([], []) demo_params =
    (([], j1), Inr \<lparr>rd_URL = url, rd_State = demo_random\<rparr>)" by blast
  let ?r = "demo_callback (browser j1 [])"
  obtain pending j2 where c: "CompleteLogin demo_hash_pf demo_login_client ([], []) ?r =
      (case exchange demo_hash_pf demo_login_client [] pending ''cde_1'' of (w3, res) \<Rightarrow> ((w3, j2), res))"
    "\<And>r'. sr_Cookies r' = browser j2 (sr_Cookies ?r) \<Longrightarrow> values_Get (ParseQuery (sr_RawQuery r')) ''error'' = [] \<Longrightarrow>
      \<exists>j3 e. CompleteLogin demo_hash_pf demo_login_client ([], []) r' = (([], j3), Inl e)"
    using login_roundtrip [OF b, where br = "[]" and r = ?r and code = "''cde_1''" and ?w2.0 = "[]"]
    by (auto simp: demo_params_def ascii_def safe_char_def plain_char_def
        Time_Sub_def)
  from c(2) [of "demo_callback (browser j2 (browser j1 []))"]
  obtain j3 e where "CompleteLogin demo_hash_pf demo_login_client ([], []) (demo_callback (browser j2 (browser j1 []))) = (([], j3), Inl e)"
    by auto
  with b c(1) show ?thesis by auto
qed

section \<open>Keeping a pair fresh\<close>

text \<open>C8: However many goroutines share a token source, and however they interleave: one refresh is
  in flight at a time; as long as no answer of the endpoint is lost on the way back, no
  refresh token is presented twice, so the family is never revoked as reused; and with a
  callback registered, a waiter is only given a pair the callback has been given first.\<close>

theorem token_source_single_flight:
  assumes "token_reach s v y" "so_inflight s = None" "so_needsRefreshToken s"
    and "session_open v sid (tk_RefreshToken (so_tokens s))"
  shows "(\<forall>i j. flying (ty_pc y i) \<noteq> None \<and> flying (ty_pc y j) \<noteq> None \<longrightarrow> i = j) \<and>
    (\<not> ty_lost y \<longrightarrow> \<not> ty_reuse y) \<and>
    (so_onRotate s \<noteq> None \<longrightarrow> (\<forall>n t. ty_results y n = Some (Inr t) \<longrightarrow> t \<in> set (ty_saved y)))"
  using reach_solo [OF assms(1,2)] reach_unspent [OF assms] reach_saved_first [OF assms(1)]
  by (auto simp: solo_def saved_first_def)

text \<open>A session at the endpoint and a source that holds its pair, expired.\<close>

definition demo_pair_tokens :: Tokens where
  "demo_pair_tokens = zero_Tokens\<lparr>tk_RefreshToken := ''r1''\<rparr>"

definition demo_source :: "unit source" where
  "demo_source = \<lparr>so_refresh = (\<lambda>w t. (w, Inl ErrNoCredential)), so_now = (\<lambda>w. 0), so_needsRefreshToken = True,
     so_tokens = demo_pair_tokens, so_onRotate = Some (\<lambda>w t. (w, None)), so_inflight = None\<rparr>"

definition demo_session :: refresh_server where
  "demo_session = \<lparr>rv_live = [(''sid'', ''r1'')], rv_issued = [(''r1'', ''sid'')], rv_consumed = []\<rparr>"

lemma demo_source_departs:
  "Token_enter demo_source n now = (demo_source\<lparr>so_inflight := Some n\<rparr>, Depart demo_pair_tokens)"
  by (simp add: Token_enter_def demo_source_def source_valid_def demo_pair_tokens_def zero_Tokens_def)

text \<open>One goroutine has departed, a second waits for it.\<close>

definition demo_waiting :: "unit tsys" where
  "demo_waiting = tgo ((tgo (tsys_init demo_source demo_session) 0 (TFlying 0 demo_pair_tokens))
     \<lparr>ty_source := demo_source\<lparr>so_inflight := Some 0\<rparr>, ty_flights := 1\<rparr>) 1 (TWaiting 0)"

lemma demo_waiting_reached: "token_reach demo_source demo_session demo_waiting"
proof -
  let ?y0 = "tsys_init demo_source demo_session"
  let ?y1 = "(tgo ?y0 0 (TFlying 0 demo_pair_tokens))\<lparr>ty_source := demo_source\<lparr>so_inflight := Some 0\<rparr>, ty_flights := 1\<rparr>"
  have "token_step ?y0 ?y1"
    using depart [of ?y0 0 0 "demo_source\<lparr>so_inflight := Some 0\<rparr>" demo_pair_tokens] demo_source_departs [of 0 0]
    by (simp add: tsys_init_def idle_def tgo_def)
  moreover have "Token_enter (demo_source\<lparr>so_inflight := Some 0\<rparr>) 1 0 = (demo_source\<lparr>so_inflight := Some 0\<rparr>, Await 0)"
    by (simp add: Token_enter_def demo_source_def source_valid_def demo_pair_tokens_def zero_Tokens_def)
  then have "token_step ?y1 demo_waiting"
    using await [of ?y1 1 1 0 _ 0] by (simp add: demo_waiting_def idle_def tgo_def tsys_init_def)
  ultimately show ?thesis by (blast intro: token_reach.intros)
qed

lemma demo_source_fields [simp]: "so_inflight demo_source = None" "so_needsRefreshToken demo_source"
  "so_onRotate demo_source \<noteq> None" "session_open demo_session ''sid'' (tk_RefreshToken (so_tokens demo_source))"
  by (simp_all add: demo_source_def session_open_def demo_session_def demo_pair_tokens_def)

theorem token_source_single_flight_witness:
  "{j. flying (ty_pc demo_waiting j) \<noteq> None} = {0}"
proof -
  have "flying (ty_pc demo_waiting 0) \<noteq> None" by (simp add: demo_waiting_def tgo_def)
  with token_source_single_flight [OF demo_waiting_reached, of "''sid''"] show ?thesis by auto
qed

text \<open>C24: Nobody waits for a flight that is not there: in every reachable state a goroutine that waits
  for a flight has its result to pick up already, or another goroutine carries that flight
  and can land it within three steps of its own.\<close>

theorem waiters_are_served:
  assumes "token_reach s v y" "so_inflight s = None" "ty_pc y i = TWaiting n"
  shows "\<exists>k \<le> 3. \<exists>y'. (token_step ^^ k) y y' \<and> ty_results y' n \<noteq> None \<and> ty_pc y' i = TWaiting n"
proof -
  from reach_attended [OF assms(1,2)] assms(3) consider "ty_results y n \<noteq> None" | j where "carrying (ty_pc y j) = Some n"
    unfolding attended_def by blast
  then show ?thesis
  proof cases
    case 1
    with assms(3) show ?thesis by (intro exI [of _ 0]) auto
  next
    case 2
    moreover from this assms(3) have "i \<noteq> j" by auto
    ultimately show ?thesis using carrying_lands [OF 2] assms(3) by fastforce
  qed
qed

theorem waiters_are_served_witness:
  "\<exists>k y'. (token_step ^^ k) demo_waiting y' \<and> ty_results y' 0 \<noteq> None \<and> ty_pc y' 1 = TWaiting 0"
  using waiters_are_served [OF demo_waiting_reached, of 1 0] by (auto simp: demo_waiting_def tgo_def)

text \<open>What one caller gets from \<open>Token\<close>: a held pair that is good for more than thirty seconds
  comes back with no call made; otherwise the endpoint is asked once, the new pair is kept
  whatever the callback says (an omitted refresh token carried over), a failing callback
  is reported, and a failed refresh leaves the held pair as it was.\<close>

lemma token_or_rotation:
  "(source_valid (so_tokens s) (so_now s w) \<longrightarrow> Token (w, s) = ((w, s), Inr (so_tokens s))) \<and>
   (Token_enter s 0 (so_now s w) = (s1, Depart cur) \<longrightarrow> cur = so_tokens s \<and>
     (case so_refresh s w cur of
        (w1, Inl e) \<Rightarrow> Token (w, s) = ((w1, s), Inl e)
      | (w1, Inr None) \<Rightarrow> so_tokens (snd (fst (Token (w, s)))) = cur
      | (w1, Inr (Some next)) \<Rightarrow>
          so_tokens (snd (fst (Token (w, s)))) = adopt (so_now s w1) cur next \<and> so_inflight (snd (fst (Token (w, s)))) = None \<and>
          tk_RefreshToken (adopt (so_now s w1) cur next) = (if tk_RefreshToken next = [] then tk_RefreshToken cur else tk_RefreshToken next) \<and>
          snd (Token (w, s)) = (case so_onRotate s of
            None \<Rightarrow> Inr (adopt (so_now s w1) cur next)
          | Some f \<Rightarrow> flight_result (adopt (so_now s w1) cur next) (snd (f w1 (adopt (so_now s w1) cur next))))))"
proof (intro conjI impI)
  show "Token (w, s) = ((w, s), Inr (so_tokens s))" if "source_valid (so_tokens s) (so_now s w)"
    by (rule Token_valid_pure [OF that])
next
  assume d: "Token_enter s 0 (so_now s w) = (s1, Depart cur)"
  then show "cur = so_tokens s" by (simp add: Token_depart)
  from d have s1: "s1 = s\<lparr>so_inflight := Some 0\<rparr>" "so_inflight s = None" "cur = so_tokens s" by (simp_all add: Token_depart)
  have t: "Token (w, s) = rotate s1 w cur" by (simp add: Token_def d)
  show "case so_refresh s w cur of
        (w1, Inl e) \<Rightarrow> Token (w, s) = ((w1, s), Inl e)
      | (w1, Inr None) \<Rightarrow> so_tokens (snd (fst (Token (w, s)))) = cur
      | (w1, Inr (Some next)) \<Rightarrow>
          so_tokens (snd (fst (Token (w, s)))) = adopt (so_now s w1) cur next \<and> so_inflight (snd (fst (Token (w, s)))) = None \<and>
          tk_RefreshToken (adopt (so_now s w1) cur next) = (if tk_RefreshToken next = [] then tk_RefreshToken cur else tk_RefreshToken next) \<and>
          snd (Token (w, s)) = (case so_onRotate s of
            None \<Rightarrow> Inr (adopt (so_now s w1) cur next)
          | Some f \<Rightarrow> flight_result (adopt (so_now s w1) cur next) (snd (f w1 (adopt (so_now s w1) cur next))))"
    using s1 unfolding t
    by (auto simp: rotate_def refresh_err_def rotate_commit_def Let_def flight_result_def adopt_refresh
        split: prod.splits sum.splits option.splits)
qed

lemma token_or_rotation_witness:
  "snd (Token ((), demo_source)) = Inl ErrNoCredential \<and> snd (fst (Token ((), demo_source))) = demo_source"
  using token_or_rotation [of demo_source "()" "demo_source\<lparr>so_inflight := Some 0\<rparr>" demo_pair_tokens] demo_source_departs
  by (simp add: demo_source_def)

section \<open>Signing out\<close>

text \<open>C25: The back-channel handler answers 204 only to a POST whose logout token the verifier
  accepted and whose body, the one that was signed, carries the logout event; the
  application's callback then ran once, on that token's event, and succeeded. When the
  token is refused the answer is 400 and the callback does not matter.\<close>

theorem backchannel_logout_guarded:
  "(\<forall>s' h b. BackchannelLogout net ed_verify fn (w, v) now r = (s', Answer 204 h b) \<longrightarrow>
      (\<exists>q v0 w1 v1 c m sig f body. sr_Method r = ''POST'' \<and> sr_PostForm r = Some q \<and> v = Some v0 \<and>
         Verifier_Verify net ed_verify (w, v0) now (values_Get q ''logout_token'') = ((w1, v1), Inr c) \<and>
         Parse (values_Get q ''logout_token'') = Inr (m, sig, f) \<and>
         unmarshal dec_logout_body zero_logout_body m = Some body \<and> map_of (lb_Events body) backchannelEvent \<noteq> None \<and>
         (lb_SID body \<noteq> [] \<or> cl_Subject c \<noteq> []) \<and>
         fn w1 \<lparr>le_SessionID = (if lb_SID body = [] then cl_Session c else lb_SID body), le_Subject = cl_Subject c,
           le_Tenant = cl_Tenant c, le_Issuer = cl_Issuer c, le_TokenID = cl_TokenID c\<rparr> = (fst s', None))) \<and>
   (\<forall>q s1 e. sr_Method r = ''POST'' \<and> sr_PostForm r = Some q \<and>
      VerifyLogoutToken net ed_verify (w, v) now (values_Get q ''logout_token'') = (s1, Inl e) \<longrightarrow>
      BackchannelLogout net ed_verify fn (w, v) now r = (s1, Answer 400 [] ''invalid logout token''))"
proof (intro conjI allI impI)
  fix s' h b assume "BackchannelLogout net ed_verify fn (w, v) now r = (s', Answer 204 h b)"
  from Backchannel_204 [OF this] obtain q w' v' ev w'' where q: "sr_Method r = ''POST''" "sr_PostForm r = Some q"
    "VerifyLogoutToken net ed_verify (w, v) now (values_Get q ''logout_token'') = ((w', v'), Inr ev)"
    "fn w' ev = (w'', None)" "s' = (w'', v')" by blast
  from VerifyLogoutToken_Inr [OF q(3)] q(1,2,4,5)
  show "\<exists>q v0 w1 v1 c m sig f body. sr_Method r = ''POST'' \<and> sr_PostForm r = Some q \<and> v = Some v0 \<and>
         Verifier_Verify net ed_verify (w, v0) now (values_Get q ''logout_token'') = ((w1, v1), Inr c) \<and>
         Parse (values_Get q ''logout_token'') = Inr (m, sig, f) \<and>
         unmarshal dec_logout_body zero_logout_body m = Some body \<and> map_of (lb_Events body) backchannelEvent \<noteq> None \<and>
         (lb_SID body \<noteq> [] \<or> cl_Subject c \<noteq> []) \<and>
         fn w1 \<lparr>le_SessionID = (if lb_SID body = [] then cl_Session c else lb_SID body), le_Subject = cl_Subject c,
           le_Tenant = cl_Tenant c, le_Issuer = cl_Issuer c, le_TokenID = cl_TokenID c\<rparr> = (fst s', None)"
    by (elim exE conjE) (rule exI [of _ q], fastforce)
qed (auto simp: BackchannelLogout_def)

theorem backchannel_logout_guarded_witness:
  "BackchannelLogout (\<lambda>w rq. (w, Inl ErrNoCredential)) demo_verify (\<lambda>w ev. (w, None)) ((), None) demo_now
     \<lparr>sr_Method = ''POST'', sr_Header = [], sr_Cookies = [], sr_RawQuery = [], sr_PostForm = Some [(''logout_token'', [''x''])]\<rparr> =
   (((), None), Answer 400 [] ''invalid logout token'')"
  using backchannel_logout_guarded [of "\<lambda>w rq. (w, Inl ErrNoCredential)" demo_verify "\<lambda>w ev. (w, None)" "()" None demo_now
      "\<lparr>sr_Method = ''POST'', sr_Header = [], sr_Cookies = [], sr_RawQuery = [], sr_PostForm = Some [(''logout_token'', [''x''])]\<rparr>"]
  by (simp add: VerifyLogoutToken_def)

section \<open>Hearing of revocations\<close>

definition trailer_body :: "string \<Rightarrow> string \<Rightarrow> string \<Rightarrow> goval" where
  "trailer_body cls code message = GMap [(''error'', connect_error cls (code @ '': '' @ message) (encodeErrorInfo code []))]"

lemma endOfStream_trailer:
  assumes "ascii cls" "ascii code" "ascii message" "length code < 2 ^ 64"
  shows "endOfStream pf (marshal (trailer_body cls code message)) header =
    Some (classify (pf_until_http_date pf)
      \<lparr>ae_Code = firstNonEmpty [code, cls], ae_Message = code @ '': '' @ message, ae_RequestID = [], ae_Status = 0,
       ae_Details = [], ae_class = cls\<rparr> (header_Get header ''Retry-After''))"
proof -
  let ?e = "connect_error cls (code @ '': '' @ message) (encodeErrorInfo code [])"
  have m: "ascii (code @ '': '' @ message)" using assms by (auto simp: ascii_def)
  have a: "ascii_val (trailer_body cls code message)" using assms m by (simp add: trailer_body_def connect_error_def)
  have u: "unmarshal d z (marshal (trailer_body cls code message)) = d (to_json (trailer_body cls code message)) z"
    for d :: "json \<Rightarrow> json option \<Rightarrow> json option option" and z
    by (simp only: unmarshal_def parse_marshal [OF a] Option.bind.simps)
  have "parseWireError (marshal ?e) 0 = \<lparr>ae_Code = firstNonEmpty [code, cls], ae_Message = code @ '': '' @ message,
      ae_RequestID = [], ae_Status = 0, ae_Details = [], ae_class = cls\<rparr>"
    using parseWireError_connect [OF assms(1) m assms(4), of "[]" "[]" 0] by (simp add: encode_details_def details_ok_def wf_map_def)
  moreover have "to_json ?e \<noteq> JNull" by (simp add: connect_error_def)
  moreover have "to_json (trailer_body cls code message) = JObj [(''error'', to_json ?e)]"
    by (simp add: trailer_body_def)
  ultimately show ?thesis
    by (simp add: endOfStream_def u field_for_def set_raw_def del: to_json.simps)
qed

text \<open>C27: The two ends of the revocation stream agree: the client hands its callback exactly the
  rows the server framed, in order, stopping at the callback's first error; after the last
  it reports the server's closing error with its stable code, and a stream cut off without
  one is an unavailable installation, never a clean end.\<close>

theorem revocations_delivered:
  assumes "\<forall>r \<in> set rows. row_ok now tenant r" "ascii cls" "ascii code" "ascii message" "length code < 2 ^ 64"
    and "length (marshal (trailer_body cls code message)) \<le> maxResponseBytes" "length partial < 5"
  shows "readRevocations pf cancelled fn header w (concat (map (writeRevocation now tenant) rows) @ writeEndStream cls code message, e) =
      (case deliver fn w (map (revocation_of now tenant) rows) of
         (w', Some err) \<Rightarrow> (w', Some err)
       | (w', None) \<Rightarrow> (w', Some (classify (pf_until_http_date pf)
           \<lparr>ae_Code = firstNonEmpty [code, cls], ae_Message = code @ '': '' @ message, ae_RequestID = [], ae_Status = 0,
            ae_Details = [], ae_class = cls\<rparr> (header_Get header ''Retry-After'')))) \<and>
    readRevocations pf cancelled fn header w (concat (map (writeRevocation now tenant) rows) @ partial, None) =
      (case deliver fn w (map (revocation_of now tenant) rows) of
         (w', Some err) \<Rightarrow> (w', Some err)
       | (w', None) \<Rightarrow> (w', Some (case cancelled w' of Some c \<Rightarrow> c
           | None \<Rightarrow> ErrUnavailable (ErrText ''anubis: revocation stream ended without a trailer''))))"
proof -
  have "readEnvelope (writeEndStream cls code message, e) = Inr (2, marshal (trailer_body cls code message), ([], e))"
    using readFrame_envelope [of "marshal (trailer_body cls code message)" maxResponseBytes 2 _ "[]" e] assms(6)
    by (simp add: readEnvelope_def writeEndStream_def trailer_body_def)
  then have "readRevocations pf cancelled fn header w' (writeEndStream cls code message, e) =
      (w', endOfStream pf (marshal (trailer_body cls code message)) header)" for w'
    by (subst readRevocations.simps) simp
  moreover have "readRevocations pf cancelled fn header w' (partial, None) = (w', Some (case cancelled w' of Some c \<Rightarrow> c
           | None \<Rightarrow> ErrUnavailable (ErrText ''anubis: revocation stream ended without a trailer'')))" for w'
    using assms(7) by (subst readRevocations.simps)
      (simp add: readEnvelope_def readFrame_def ReadFull_def split: option.split)
  ultimately show ?thesis
    unfolding readRevocations_frames [OF assms(1)] endOfStream_trailer [OF assms(2-5)] by (simp split: prod.split option.split)
qed

definition demo_listen_pf :: "Revocation list platform" where
  "demo_listen_pf =
     \<lparr>pf_now = (\<lambda>w. 0), pf_rand32 = (\<lambda>w. (w, None)), pf_transport = (\<lambda>t w rq. (w, Inl ErrNoCredential)),
      pf_url_parse = (\<lambda>u. None), pf_until_http_date = (\<lambda>d. None), pf_parse_duration = (\<lambda>d. None), pf_sha256 = (\<lambda>x. x),
      pf_time_format = (\<lambda>t. None), pf_time_parse = (\<lambda>t. None)\<rparr>"

definition demo_row :: RevocationRow where
  "demo_row = \<lparr>rw_Kind = RevocationSession, rw_Tenant = [], rw_Session = ''ses_1'', rw_Subject = ''usr_1'', rw_Epoch = 0,
     rw_ObservedAt = 0\<rparr>"

lemma wrap64_zero: "wrap64 0 = 0"
  by code_simp

lemma demo_row_body: "length (marshal (revocation_body (unixToInternal * second) ''acme'' demo_row)) \<le> 4194304"
proof -
  have "revocation_body (unixToInternal * second) ''acme'' demo_row =
    GMap [(''kind'', GStr RevocationSession), (''tenant'', GStr ''acme''), (''sid'', GStr ''ses_1''), (''sub'', GStr ''usr_1''),
      (''epoch'', GInt 0), (''observedAt'', GStr (FormatInt 0))]"
    by (simp add: revocation_body_def demo_row_def Time_IsZero_def Time_Unix_def unixToInternal_def wrap64_zero)
  moreover have "length (marshal (GMap [(''kind'', GStr RevocationSession), (''tenant'', GStr ''acme''), (''sid'', GStr ''ses_1''),
      (''sub'', GStr ''usr_1''), (''epoch'', GInt 0), (''observedAt'', GStr (FormatInt 0))])) < 200"
    by code_simp
  ultimately show ?thesis by simp
qed

lemma demo_row_kind: "kind_of (JStr (escape RevocationSession)) = RevocationSession"
  by code_simp

lemma demo_trailer: "length (marshal (trailer_body [] [] [])) < 200"
  by code_simp

theorem revocations_delivered_witness:
  "readRevocations demo_listen_pf (\<lambda>w. None) (\<lambda>w r. (r # w, None)) [] []
     (concat (map (writeRevocation (unixToInternal * second) ''acme'') [demo_row]) @ [], None) =
   ([revocation_of (unixToInternal * second) ''acme'' demo_row], Some (ErrUnavailable (ErrText ''anubis: revocation stream ended without a trailer'')))"
proof -
  have r: "\<forall>r \<in> set [demo_row]. row_ok (unixToInternal * second) ''acme'' r"
    using demo_row_body demo_row_kind by (simp add: row_ok_def demo_row_def in64_def ascii_def)
  show ?thesis
    using revocations_delivered [OF r, of "[]" "[]" "[]" "[]" demo_listen_pf "\<lambda>w. None" "\<lambda>w r. (r # w, None)" "[]" "[]" None] demo_trailer
    by (simp add: ascii_def del: marshal.simps)
qed

text \<open>A frame of the stream whose five-byte head announces more than the limit is refused on that
  head alone, before anything is read for it; one that is read is within the limit, and
  takes exactly its length off the stream.\<close>

lemma frame_bounded:
  assumes "length head = 5"
  shows "(limit < be_value (drop 1 head) \<longrightarrow> readFrame limit msg (head @ rest, e) = Inl (ReadErr (ErrText msg))) \<and>
    (\<forall>f p s'. readFrame limit msg (head @ rest, e) = Inr (f, p, s') \<longrightarrow> length p \<le> limit \<and> length (fst s') + length p = length rest)"
proof (intro conjI allI impI)
  fix f p s' assume "readFrame limit msg (head @ rest, e) = Inr (f, p, s')"
  with assms show "length p \<le> limit" "length (fst s') + length p = length rest"
    by (auto simp: readFrame_def ReadFull_def Let_def split: if_splits)
qed (use readFrame_limit [OF assms] in auto)

lemma frame_bounded_witness:
  "readFrame 1048576 ''too large'' ([CHR 0x00, CHR 0x7F, CHR 0x00, CHR 0x00, CHR 0x00] @ ''x'', None) = Inl (ReadErr (ErrText ''too large''))"
  using frame_bounded [of "[CHR 0x00, CHR 0x7F, CHR 0x00, CHR 0x00, CHR 0x00]" 1048576 "''too large''" "''x''" None]
  by (simp add: be_value_def)

section \<open>The adapter\<close>

text \<open>The adapter's three mappings of an error agree: the HTTP status is the one of the gRPC code
  for every error; of the errors the SDK makes of an answer, exactly the 429 and 503 are
  redelivered; and a refused decision is 401 when stronger sign-in would help and 403
  otherwise, and is never redelivered.\<close>

lemma error_mappings_agree:
  "StatusCode e = status_of (GRPCCode e) \<and>
   (Retryable (classify u a h) \<longleftrightarrow> StatusCode (classify u a h) \<in> {429, 503}) \<and>
   errors_As as_API (classify u a h) = Some a \<and>
   (case Decision_Err d of None \<Rightarrow> dn_Allow d
    | Some de \<Rightarrow> StatusCode de = (if Decision_NeedsStepUp d then 401 else 403) \<and> \<not> Retryable de)"
proof -
  have "case Decision_Err d of None \<Rightarrow> dn_Allow d
    | Some de \<Rightarrow> StatusCode de = (if Decision_NeedsStepUp d then 401 else 403) \<and> \<not> Retryable de"
  proof (cases "Decision_Err d")
    case None
    then show ?thesis by (simp add: Decision_Err_def split: if_splits)
  qed (use Decision_Err_status in simp)
  then show ?thesis by (intro conjI StatusCode_GRPC classify_Retryable classify_keeps_api)
qed

text \<open>An endpoint behind \<open>Authenticate\<close> and \<open>Authorize\<close> runs only for the bearer of a token the
  verifier accepted, with the principal of its claims in the context, after the
  installation allowed that principal that permission.\<close>

lemma endpoint_guarded:
  assumes "Authenticate net ed_verify s now ctx = (s1, Inr ctx1)"
    and "kit_Authorize pf permission scopes t ctx1 q = (t1, Inr ctx2)"
  shows "\<exists>tok c d. ctx_bearer ctx = Some tok \<and> tok \<noteq> [] \<and> Verifier_Verify net ed_verify s now tok = (s1, Inr c) \<and>
    ctx2 = WithPrincipal ctx \<lparr>p_Claims = Some c, p_Token = tok\<rparr> \<and>
    Authorize pf t ctx2 permission (case scopes of None \<Rightarrow> [] | Some f \<Rightarrow> f ctx2 q) = (t1, Inr d) \<and>
    dn_Allow d \<and> dn_permission d = permission \<and> dn_subject d = cl_Subject c"
proof -
  from Authenticate_Inr [OF assms(1)] obtain tok c where a: "ctx_bearer ctx = Some tok" "tok \<noteq> []"
    "Verifier_Verify net ed_verify s now tok = (s1, Inr c)" "ctx1 = WithPrincipal ctx \<lparr>p_Claims = Some c, p_Token = tok\<rparr>" by blast
  from kit_Authorize_Inr [OF assms(2)] obtain d where d: "ctx2 = ctx1" "dn_Allow d"
    "Authorize pf t ctx1 permission (case scopes of None \<Rightarrow> [] | Some f \<Rightarrow> f ctx1 q) = (t1, Inr d)" by blast
  from Authorize_principal [OF d(3)] a(4) have "dn_permission d = permission" "dn_subject d = cl_Subject c"
    by (auto simp: FromContext_def WithPrincipal_def Principal_Identity_def Claims_Identity_def)
  with a d show ?thesis by blast
qed

lemma endpoint_guarded_witness:
  "\<exists>s1 ctx1 t1 ctx2 c. Authenticate (\<lambda>w rq. (w, Inl ErrNoCredential)) demo_verify ((), demo_verifier) demo_now
       \<lparr>ctx_principal = None, ctx_bearer = Some demo_token\<rparr> = (s1, Inr ctx1) \<and>
     kit_Authorize (demo_pf demo_allow_body) ''b:i:read'' (None :: (Ctx \<Rightarrow> unit \<Rightarrow> smap) option) ([], demo_with demo_dc) ctx1 () = (t1, Inr ctx2) \<and>
     FromContext ctx2 = Some \<lparr>p_Claims = Some c, p_Token = demo_token\<rparr>"
proof -
  let ?ctx = "\<lparr>ctx_principal = None, ctx_bearer = Some demo_token\<rparr>"
  let ?net = "\<lambda>w rq. (w, Inl ErrNoCredential)"
  let ?c = "(minted ''anubis'' demo_now demo_claims)\<lparr>cl_Scopes := []\<rparr>"
  let ?ctx1 = "WithPrincipal ?ctx \<lparr>p_Claims = Some ?c, p_Token = demo_token\<rparr>"
  have t: "demo_token \<noteq> []" using Sign_not_Nil [OF demo_minted(1) [unfolded MintToken_def]] .
  then have a: "Authenticate ?net demo_verify ((), demo_verifier) demo_now ?ctx = (((), demo_verifier), Inr ?ctx1)"
    by (simp add: Authenticate_def outgoing_def demo_verifies)
  have e: "cache_get demo_dc k demo_now = None" for k by (simp add: demo_dc_def newDecisionCache_def cache_get_def)
  have "\<exists>t1. Authorize (demo_pf demo_allow_body) ([], demo_with demo_dc) ?ctx1 ''b:i:read'' [] = (t1, Inr (demo_yes ''b:i:read''))"
    by (simp add: Authorize_def IdentityFromContext_def FromContext_def WithPrincipal_def Principal_Identity_def
        Claims_Identity_def minted_def demo_authorize [OF demo_askable(1) e])
  then obtain t1 where "kit_Authorize (demo_pf demo_allow_body) ''b:i:read'' (None :: (Ctx \<Rightarrow> unit \<Rightarrow> smap) option)
      ([], demo_with demo_dc) ?ctx1 () = (t1, Inr ?ctx1)"
    by (auto simp: kit_Authorize_def Require_def FromContext_def WithPrincipal_def Decision_Err_def demo_yes_def)
  from endpoint_guarded [OF a this] a this show ?thesis by (auto simp: FromContext_def WithPrincipal_def)
qed

text \<open>A credential that went out on a context comes in the same on all three transports, HTTP
  headers, gRPC metadata and AMQP tables, whatever else these carried.\<close>

lemma credential_carried:
  assumes "ctx_bearer ctx = Some t" "t \<noteq> []" "TrimSpace t = t"
  shows "ctx_bearer (HTTPToContext ctx0 (ContextToHTTP ctx h)) = Some t \<and>
    ctx_bearer (GRPCToContext ctx0 (ContextToGRPC ctx md)) = Some t \<and>
    ctx_bearer (AMQPToContext ctx0 (ContextToAMQP ctx tbl)) = Some t"
  using transports_carry [OF assms] by blast

lemma credential_trimmed: "TrimSpace ''v4.public.x'' = ''v4.public.x''"
  by code_simp

lemma credential_carried_witness:
  "ctx_bearer (HTTPToContext \<lparr>ctx_principal = None, ctx_bearer = None\<rparr>
     (ContextToHTTP \<lparr>ctx_principal = None, ctx_bearer = Some ''v4.public.x''\<rparr> [])) = Some ''v4.public.x''"
  using credential_carried [of "\<lparr>ctx_principal = None, ctx_bearer = Some ''v4.public.x''\<rparr>" "''v4.public.x''"
      "\<lparr>ctx_principal = None, ctx_bearer = None\<rparr>" "[]"]
  by (simp add: credential_trimmed)

end
