(* ===== verification/Admin.thy ===== *)
theory Admin
  imports Authz Revocations
begin

text \<open>
  The administration client (\<open>admin/admin.go\<close>): grants and what a person is entitled to,
  roles, memberships, identities, scope nodes, catalog and sync sources, sign-in pages.

  A call is one \<open>Call\<close> of the client underneath; \<open>Admin_call\<close> turns the server's refusal of
  a tenant's credential into \<open>ErrNotPlatformOperator\<close>. The walk over a paged listing has
  no bound of its own, so it is a partial function; a page source is the locale \<open>paging\<close>, and
  under its laws the walk is shown to return every row. That it ends whatever is answered is
  shown in \<open>Admin_Properties\<close>.
\<close>

section \<open>The call\<close>

text \<open>The procedures of the administration plane.\<close>

abbreviation (input) procListGrants :: string where "procListGrants \<equiv> ''/anubis.v1.AuthzAdminService/ListGrants''"
abbreviation (input) procSearchGrants :: string where "procSearchGrants \<equiv> ''/anubis.v1.AuthzAdminService/SearchGrants''"
abbreviation (input) procListMemberships :: string where "procListMemberships \<equiv> ''/anubis.v1.AuthzAdminService/ListMemberships''"
abbreviation (input) procListRoles :: string where "procListRoles \<equiv> ''/anubis.v1.AuthzAdminService/ListRoles''"
abbreviation (input) procRoleEffective :: string where "procRoleEffective \<equiv> ''/anubis.v1.AuthzAdminService/GetRoleEffective''"
abbreviation (input) procListIdentities :: string where "procListIdentities \<equiv> ''/anubis.v1.IdentityAdminService/ListIdentities''"
abbreviation (input) procGetIdentity :: string where "procGetIdentity \<equiv> ''/anubis.v1.IdentityAdminService/GetIdentity''"
abbreviation (input) procListScopeNodes :: string where "procListScopeNodes \<equiv> ''/anubis.v1.ScopeAdminService/ListScopeNodes''"
abbreviation (input) procSetSyncSchedule :: string where "procSetSyncSchedule \<equiv> ''/anubis.v1.ScopeAdminService/SetSyncSchedule''"
abbreviation (input) procListCatalogSources :: string where "procListCatalogSources \<equiv> ''/anubis.v1.AuthzAdminService/ListCatalogSources''"
abbreviation (input) procCreateCatalogSource :: string where "procCreateCatalogSource \<equiv> ''/anubis.v1.AuthzAdminService/CreateCatalogSource''"
abbreviation (input) procUpdateCatalogSource :: string where "procUpdateCatalogSource \<equiv> ''/anubis.v1.AuthzAdminService/UpdateCatalogSource''"
abbreviation (input) procDeleteCatalogSource :: string where "procDeleteCatalogSource \<equiv> ''/anubis.v1.AuthzAdminService/DeleteCatalogSource''"
abbreviation (input) procRunCatalogSource :: string where "procRunCatalogSource \<equiv> ''/anubis.v1.AuthzAdminService/RunCatalogSource''"
abbreviation (input) procListCatalogRuns :: string where "procListCatalogRuns \<equiv> ''/anubis.v1.AuthzAdminService/ListCatalogRuns''"
abbreviation (input) procApplyManifest :: string where "procApplyManifest \<equiv> ''/anubis.v1.AuthzAdminService/ApplyManifest''"
abbreviation (input) procListAuthPages :: string where "procListAuthPages \<equiv> ''/anubis.v1.TenantAdminService/ListAuthPages''"
abbreviation (input) procGetAuthPage :: string where "procGetAuthPage \<equiv> ''/anubis.v1.TenantAdminService/GetAuthPage''"
abbreviation (input) procCreateAuthPage :: string where "procCreateAuthPage \<equiv> ''/anubis.v1.TenantAdminService/CreateAuthPage''"
abbreviation (input) procUpdateAuthPage :: string where "procUpdateAuthPage \<equiv> ''/anubis.v1.TenantAdminService/UpdateAuthPage''"
abbreviation (input) procDeleteAuthPage :: string where "procDeleteAuthPage \<equiv> ''/anubis.v1.TenantAdminService/DeleteAuthPage''"
abbreviation (input) procSetDefaultAuthPage :: string where "procSetDefaultAuthPage \<equiv> ''/anubis.v1.TenantAdminService/SetDefaultAuthPage''"
abbreviation (input) procListTenants :: string where "procListTenants \<equiv> ''/anubis.v1.TenantAdminService/ListTenants''"
abbreviation (input) procCreateTenant :: string where "procCreateTenant \<equiv> ''/anubis.v1.TenantAdminService/CreateTenant''"
abbreviation (input) procUpdateTenant :: string where "procUpdateTenant \<equiv> ''/anubis.v1.TenantAdminService/UpdateTenant''"
abbreviation (input) procSetTenantStatus :: string where "procSetTenantStatus \<equiv> ''/anubis.v1.TenantAdminService/SetTenantStatus''"
abbreviation (input) procListRealms :: string where "procListRealms \<equiv> ''/anubis.v1.TenantAdminService/ListRealms''"
abbreviation (input) procCreateRealm :: string where "procCreateRealm \<equiv> ''/anubis.v1.TenantAdminService/CreateRealm''"
abbreviation (input) procUpdateRealm :: string where "procUpdateRealm \<equiv> ''/anubis.v1.TenantAdminService/UpdateRealm''"
abbreviation (input) procListApplications :: string where "procListApplications \<equiv> ''/anubis.v1.TenantAdminService/ListApplications''"
abbreviation (input) procCreateApplication :: string where "procCreateApplication \<equiv> ''/anubis.v1.TenantAdminService/CreateApplication''"
abbreviation (input) procUpdateApplication :: string where "procUpdateApplication \<equiv> ''/anubis.v1.TenantAdminService/UpdateApplication''"
abbreviation (input) procRotateClientSecret :: string where "procRotateClientSecret \<equiv> ''/anubis.v1.TenantAdminService/RotateClientSecret''"
abbreviation (input) procListAPIKeys :: string where "procListAPIKeys \<equiv> ''/anubis.v1.TenantAdminService/ListApiKeys''"
abbreviation (input) procCreateAPIKey :: string where "procCreateAPIKey \<equiv> ''/anubis.v1.TenantAdminService/CreateApiKey''"
abbreviation (input) procRevokeAPIKey :: string where "procRevokeAPIKey \<equiv> ''/anubis.v1.TenantAdminService/RevokeApiKey''"

text \<open>The admin client wraps a client and keeps nothing else; \<open>New\<close> refuses a nil one.\<close>

definition admin_New :: "'w Client option \<Rightarrow> 'w Client res" where
  "admin_New c = (case c of None \<Rightarrow> Inl (ErrText ''anubis/admin: needs a client'') | Some c \<Rightarrow> Inr c)"

text \<open>
  \<open>Error()\<close> of the errors a call returns with an \<open>AuthError\<close> in their chain. The other
  types never carry one.
\<close>

fun error_says :: "goerr \<Rightarrow> string" where
  "error_says (ErrAPI a) = APIError_Error a"
| "error_says (ErrAuth a) = AuthError_Error a"
| "error_says (ErrUnavailable e) = ''anubis: unavailable: '' @ error_says e"
| "error_says (ErrWrap s e) = s @ error_says e"
| "error_says (ErrText s) = s"
| "error_says (ErrOther s) = s"
| "error_says _ = []"

text \<open>\<open>fmt.Errorf("%w: ...", ErrNotPlatformOperator, ...)\<close>; the text of the wrap follows here.\<close>

definition operator_error :: "string \<Rightarrow> goerr" where
  "operator_error message = ErrWrap message ErrNotPlatformOperator"

abbreviation (input) operator_hint :: string where
  "operator_hint \<equiv> ''administration is performed by platform users''"

definition admin_error :: "goerr \<Rightarrow> goerr" where
  "admin_error err =
     (let second_test = (if errors_As as_Auth err \<noteq> None \<and> Contains (error_says err) ''platform users''
                         then operator_error (error_says err) else err)
      in case errors_As as_API err of
           Some api \<Rightarrow> if map_of (ae_Details api) ''hint'' = Some operator_hint
                        then operator_error (ae_Message api) else second_test
         | None \<Rightarrow> second_test)"

definition Admin_call ::
  "'w platform \<Rightarrow> 'w Client \<Rightarrow> 'w \<Rightarrow> Ctx \<Rightarrow> string \<Rightarrow> goval \<Rightarrow> (json \<Rightarrow> 'r \<Rightarrow> 'r option) \<Rightarrow> 'r \<Rightarrow> 'w \<times> 'r res" where
  "Admin_call pf c w ctx procedure body dec zero =
     (case Call pf c w ctx procedure body (Some dec) zero of
        (w', Inl err) \<Rightarrow> (w', Inl (admin_error err))
      | (w', Inr out) \<Rightarrow> (w', Inr out))"

text \<open>What most methods do with the answer: pick the one member they asked for.\<close>

definition and_then :: "'w \<times> 'r res \<Rightarrow> ('r \<Rightarrow> 'a res) \<Rightarrow> 'w \<times> 'a res" where
  "and_then p f = (case p of (w, Inl e) \<Rightarrow> (w, Inl e) | (w, Inr x) \<Rightarrow> (w, f x))"

definition some_or :: "string \<Rightarrow> 'a option \<Rightarrow> 'a res" where
  "some_or message x = (case x of None \<Rightarrow> Inl (ErrText message) | Some a \<Rightarrow> Inr a)"

definition dec_nothing :: "json \<Rightarrow> unit \<Rightarrow> unit option" where
  "dec_nothing = decode_struct []"

section \<open>Times\<close>

text \<open>
  \<open>Sscanf("%d")\<close> skips leading space, reads a sign and digits, and leaves the rest: what
  follows the digits is ignored.
\<close>

definition scan_int :: "string \<Rightarrow> int option" where
  "scan_int s =
     (let t = TrimSpace s;
          sg = (case t of c # _ \<Rightarrow> if c = CHR ''-'' \<or> c = CHR ''+'' then [c] else [] | [] \<Rightarrow> [])
      in ParseInt (sg @ takeWhile isDigit (drop (length sg) t)))"

definition epoch_of :: "json \<Rightarrow> int option" where
  "epoch_of v =
     (let s = Trim1 (CHR 0x22) (TrimSpace (json_text v)) in
      if s = [] \<or> s = ''null'' then Some 0 else scan_int s)"

definition set_epoch :: "(int \<Rightarrow> 'r \<Rightarrow> 'r) \<Rightarrow> 'r setter" where
  "set_epoch upd v r = map_option (\<lambda>n. upd n r) (epoch_of v)"

definition epoch_json :: "int \<Rightarrow> goval" where
  "epoch_json e = GStr (FormatInt e)"

abbreviation epoch_time :: "int \<Rightarrow> gotime" where
  "epoch_time e \<equiv> unix_time e"

section \<open>Grants\<close>

record GrantScope =
  gs_Axis :: string
  gs_NodeID :: string
  gs_NodeName :: string
  gs_Inherit :: bool
  gs_Exclude :: bool

definition dec_GrantScope :: "json \<Rightarrow> GrantScope \<Rightarrow> GrantScope option" where
  "dec_GrantScope = decode_struct
     [(''axis'', set_string (\<lambda>v r. r\<lparr>gs_Axis := v\<rparr>)),
      (''nodeId'', set_string (\<lambda>v r. r\<lparr>gs_NodeID := v\<rparr>)),
      (''nodeName'', set_string (\<lambda>v r. r\<lparr>gs_NodeName := v\<rparr>)),
      (''inherit'', set_bool (\<lambda>v r. r\<lparr>gs_Inherit := v\<rparr>)),
      (''exclude'', set_bool (\<lambda>v r. r\<lparr>gs_Exclude := v\<rparr>))]"

definition zero_GrantScope :: GrantScope where
  "zero_GrantScope = \<lparr>gs_Axis = [], gs_NodeID = [], gs_NodeName = [], gs_Inherit = False, gs_Exclude = False\<rparr>"

record Grant =
  gt_ID :: string
  gt_Subject :: string
  gt_RoleID :: string
  gt_Role :: string
  gt_SelfScoped :: bool
  gt_ValidFrom :: int
  gt_ValidUntil :: int
  gt_RevokedAt :: int
  gt_GrantedBy :: string
  gt_ViaMembership :: string
  gt_ViaAssignment :: string
  gt_Reason :: string
  gt_RevokeReason :: string
  gt_Scopes :: "GrantScope list"

definition zero_Grant :: Grant where
  "zero_Grant = \<lparr>gt_ID = [], gt_Subject = [], gt_RoleID = [], gt_Role = [], gt_SelfScoped = False, gt_ValidFrom = 0,
     gt_ValidUntil = 0, gt_RevokedAt = 0, gt_GrantedBy = [], gt_ViaMembership = [], gt_ViaAssignment = [],
     gt_Reason = [], gt_RevokeReason = [], gt_Scopes = []\<rparr>"

definition dec_Grant :: "json \<Rightarrow> Grant \<Rightarrow> Grant option" where
  "dec_Grant = decode_struct
     [(''id'', set_string (\<lambda>v r. r\<lparr>gt_ID := v\<rparr>)),
      (''identityId'', set_string (\<lambda>v r. r\<lparr>gt_Subject := v\<rparr>)),
      (''roleId'', set_string (\<lambda>v r. r\<lparr>gt_RoleID := v\<rparr>)),
      (''roleName'', set_string (\<lambda>v r. r\<lparr>gt_Role := v\<rparr>)),
      (''selfScoped'', set_bool (\<lambda>v r. r\<lparr>gt_SelfScoped := v\<rparr>)),
      (''validFrom'', set_epoch (\<lambda>v r. r\<lparr>gt_ValidFrom := v\<rparr>)),
      (''validUntil'', set_epoch (\<lambda>v r. r\<lparr>gt_ValidUntil := v\<rparr>)),
      (''revokedAt'', set_epoch (\<lambda>v r. r\<lparr>gt_RevokedAt := v\<rparr>)),
      (''grantedBy'', set_string (\<lambda>v r. r\<lparr>gt_GrantedBy := v\<rparr>)),
      (''viaMembershipId'', set_string (\<lambda>v r. r\<lparr>gt_ViaMembership := v\<rparr>)),
      (''viaAssignmentId'', set_string (\<lambda>v r. r\<lparr>gt_ViaAssignment := v\<rparr>)),
      (''reason'', set_string (\<lambda>v r. r\<lparr>gt_Reason := v\<rparr>)),
      (''revokeReason'', set_string (\<lambda>v r. r\<lparr>gt_RevokeReason := v\<rparr>)),
      (''scopes'', set_list (\<lambda>v r. r\<lparr>gt_Scopes := v\<rparr>) zero_GrantScope dec_GrantScope)]"

definition Grant_IsLive :: "Grant \<Rightarrow> gotime \<Rightarrow> bool" where
  "Grant_IsLive g at =
     (if epoch_time (gt_RevokedAt g) \<noteq> 0 \<and> \<not> at < epoch_time (gt_RevokedAt g) then False
      else if \<not> Time_IsZero (epoch_time (gt_ValidFrom g)) \<and> at < epoch_time (gt_ValidFrom g) then False
      else if \<not> Time_IsZero (epoch_time (gt_ValidUntil g)) \<and> \<not> at < epoch_time (gt_ValidUntil g) then False
      else True)"

definition Grant_Excludes :: "Grant \<Rightarrow> string \<Rightarrow> string list" where
  "Grant_Excludes g axis = map gs_NodeID (filter (\<lambda>s. gs_Axis s = axis \<and> gs_Exclude s) (gt_Scopes g))"

text \<open>The set \<open>excluded\<close> the code builds first holds exactly the nodes \<open>Excludes\<close> lists.\<close>

definition Grant_Nodes :: "Grant \<Rightarrow> string \<Rightarrow> string list" where
  "Grant_Nodes g axis =
     (let excluded = fold (\<lambda>s ex. if gs_Axis s = axis \<and> gs_Exclude s then insert (gs_NodeID s) ex else ex) (gt_Scopes g) {}
      in map gs_NodeID (filter (\<lambda>s. gs_Axis s = axis \<and> \<not> gs_Exclude s \<and> gs_NodeID s \<notin> excluded) (gt_Scopes g)))"

definition Admin_Grants :: "'w platform \<Rightarrow> 'w Client \<Rightarrow> 'w \<Rightarrow> Ctx \<Rightarrow> string \<Rightarrow> 'w \<times> Grant list res" where
  "Admin_Grants pf c w ctx subject =
     Admin_call pf c w ctx procListGrants
       (GMap [(''identity_id'', GStr subject), (''include_revoked'', GBool True)])
       (decode_struct [(''grants'', set_list (\<lambda>v _. v) zero_Grant dec_Grant)]) []"

record Entitlements =
  en_Subject :: string
  en_Grants :: "Grant list"
  en_at :: gotime

text \<open>The clock is read once, after the answer.\<close>

definition Admin_Entitlements :: "'w platform \<Rightarrow> 'w Client \<Rightarrow> 'w \<Rightarrow> Ctx \<Rightarrow> string \<Rightarrow> 'w \<times> Entitlements res" where
  "Admin_Entitlements pf c w ctx subject =
     (case Admin_Grants pf c w ctx subject of
        (w', Inl e) \<Rightarrow> (w', Inl e)
      | (w', Inr grants) \<Rightarrow>
          (w', Inr \<lparr>en_Subject = subject, en_Grants = filter (\<lambda>g. Grant_IsLive g (pf_now pf w')) grants,
                    en_at = pf_now pf w'\<rparr>))"

text \<open>Collecting without duplicates, in order of first appearance.\<close>

fun collect :: "'a list \<Rightarrow> 'a list \<Rightarrow> 'a list" where
  "collect out [] = out"
| "collect out (x # xs) = collect (if x \<in> set out then out else out @ [x]) xs"

definition Entitlements_Roles :: "Entitlements \<Rightarrow> string list" where
  "Entitlements_Roles e = collect [] (filter (\<lambda>r. r \<noteq> []) (map gt_Role (en_Grants e)))"

definition Entitlements_Nodes :: "Entitlements \<Rightarrow> string \<Rightarrow> string list" where
  "Entitlements_Nodes e axis = collect [] (concat (map (\<lambda>g. Grant_Nodes g axis) (en_Grants e)))"

text \<open>\<open>sortAxes\<close> is an insertion sort: each element sinks below the greater ones before it.\<close>

fun sink :: "string \<Rightarrow> string list \<Rightarrow> string list" where
  "sink x [] = [x]"
| "sink x (y # ys) = (if x < y then y # sink x ys else x # y # ys)"

definition sortAxes :: "string list \<Rightarrow> string list" where
  "sortAxes a = rev (foldl (\<lambda>done x. sink x done) [] a)"

definition Entitlements_Axes :: "Entitlements \<Rightarrow> string list" where
  "Entitlements_Axes e = sortAxes (collect [] (concat (map (\<lambda>g. map gs_Axis (gt_Scopes g)) (en_Grants e))))"

definition Entitlements_IsUnscoped :: "Entitlements \<Rightarrow> bool" where
  "Entitlements_IsUnscoped e = list_ex (\<lambda>g. length (gt_Scopes g) = 0 \<and> \<not> gt_SelfScoped g) (en_Grants e)"

record GrantQuery =
  gq_Query :: string
  gq_Subject :: string
  gq_RoleID :: string
  gq_Source :: string
  gq_Revoked :: bool
  gq_PageSize :: int
  gq_Page :: string

record GrantPage =
  gp_Grants :: "Grant list"
  gp_Usernames :: "string list"
  gp_NextPage :: string

definition dec_GrantPage :: "json \<Rightarrow> GrantPage \<Rightarrow> GrantPage option" where
  "dec_GrantPage = decode_struct
     [(''grants'', set_list (\<lambda>v r. r\<lparr>gp_Grants := v\<rparr>) zero_Grant dec_Grant),
      (''usernames'', set_strings (\<lambda>v r. r\<lparr>gp_Usernames := v\<rparr>)),
      (''nextPageToken'', set_string (\<lambda>v r. r\<lparr>gp_NextPage := v\<rparr>))]"

definition Admin_SearchGrants :: "'w platform \<Rightarrow> 'w Client \<Rightarrow> 'w \<Rightarrow> Ctx \<Rightarrow> GrantQuery \<Rightarrow> 'w \<times> GrantPage res" where
  "Admin_SearchGrants pf c w ctx q =
     Admin_call pf c w ctx procSearchGrants
       (GMap [(''query'', GStr (gq_Query q)), (''identity_id'', GStr (gq_Subject q)), (''role_id'', GStr (gq_RoleID q)),
              (''source'', GStr (gq_Source q)), (''include_revoked'', GBool (gq_Revoked q)),
              (''page_size'', GInt (gq_PageSize q)), (''page_token'', GStr (gq_Page q))])
       dec_GrantPage \<lparr>gp_Grants = [], gp_Usernames = [], gp_NextPage = []\<rparr>"

section \<open>Roles and memberships\<close>

record admin_Role =
  ar_ID :: string
  ar_Name :: string
  ar_Description :: string
  ar_ApplicationSlug :: string
  ar_IsSystem :: bool
  ar_RealmKinds :: "string list"
  ar_AssignableAt :: "string list"
  ar_ParentIDs :: "string list"
  ar_Patterns :: "string list"
  ar_Deprecated :: bool
  ar_PermissionCount :: int

definition zero_admin_Role :: admin_Role where
  "zero_admin_Role = \<lparr>ar_ID = [], ar_Name = [], ar_Description = [], ar_ApplicationSlug = [], ar_IsSystem = False,
     ar_RealmKinds = [], ar_AssignableAt = [], ar_ParentIDs = [], ar_Patterns = [], ar_Deprecated = False,
     ar_PermissionCount = 0\<rparr>"

definition dec_admin_Role :: "json \<Rightarrow> admin_Role \<Rightarrow> admin_Role option" where
  "dec_admin_Role = decode_struct
     [(''id'', set_string (\<lambda>v r. r\<lparr>ar_ID := v\<rparr>)),
      (''name'', set_string (\<lambda>v r. r\<lparr>ar_Name := v\<rparr>)),
      (''description'', set_string (\<lambda>v r. r\<lparr>ar_Description := v\<rparr>)),
      (''applicationSlug'', set_string (\<lambda>v r. r\<lparr>ar_ApplicationSlug := v\<rparr>)),
      (''isSystem'', set_bool (\<lambda>v r. r\<lparr>ar_IsSystem := v\<rparr>)),
      (''allowedRealmKinds'', set_strings (\<lambda>v r. r\<lparr>ar_RealmKinds := v\<rparr>)),
      (''assignableAt'', set_strings (\<lambda>v r. r\<lparr>ar_AssignableAt := v\<rparr>)),
      (''parentIds'', set_strings (\<lambda>v r. r\<lparr>ar_ParentIDs := v\<rparr>)),
      (''patterns'', set_strings (\<lambda>v r. r\<lparr>ar_Patterns := v\<rparr>)),
      (''deprecated'', set_bool (\<lambda>v r. r\<lparr>ar_Deprecated := v\<rparr>)),
      (''permissionCount'', set_int (\<lambda>v r. r\<lparr>ar_PermissionCount := v\<rparr>))]"

definition admin_Role_Qualified :: "admin_Role \<Rightarrow> string" where
  "admin_Role_Qualified r =
     (if ar_ApplicationSlug r = [] then ar_Name r else NewRole (ar_ApplicationSlug r) (ar_Name r))"

definition Admin_Roles :: "'w platform \<Rightarrow> 'w Client \<Rightarrow> 'w \<Rightarrow> Ctx \<Rightarrow> string \<Rightarrow> 'w \<times> admin_Role list res" where
  "Admin_Roles pf c w ctx query =
     Admin_call pf c w ctx procListRoles (GMap [(''query'', GStr query)])
       (decode_struct [(''roles'', set_list (\<lambda>v _. v) zero_admin_Role dec_admin_Role)]) []"

definition Admin_RolePermissions :: "'w platform \<Rightarrow> 'w Client \<Rightarrow> 'w \<Rightarrow> Ctx \<Rightarrow> string \<Rightarrow> 'w \<times> string list res" where
  "Admin_RolePermissions pf c w ctx roleID =
     Admin_call pf c w ctx procRoleEffective (GMap [(''role_id'', GStr roleID)])
       (decode_struct [(''permissions'', set_list (\<lambda>v _. v) [] (decode_struct [(''key'', set_string (\<lambda>v _. v))]))]) []"

record Membership =
  mb_ID :: string
  mb_Name :: string
  mb_Description :: string
  mb_MemberCount :: int
  mb_AnchorAxis :: string

definition dec_Membership :: "json \<Rightarrow> Membership \<Rightarrow> Membership option" where
  "dec_Membership = decode_struct
     [(''id'', set_string (\<lambda>v r. r\<lparr>mb_ID := v\<rparr>)),
      (''name'', set_string (\<lambda>v r. r\<lparr>mb_Name := v\<rparr>)),
      (''description'', set_string (\<lambda>v r. r\<lparr>mb_Description := v\<rparr>)),
      (''memberCount'', set_int (\<lambda>v r. r\<lparr>mb_MemberCount := v\<rparr>)),
      (''anchorAxis'', set_string (\<lambda>v r. r\<lparr>mb_AnchorAxis := v\<rparr>))]"

definition Membership_AppliesWhereAssigned :: "Membership \<Rightarrow> bool" where
  "Membership_AppliesWhereAssigned m \<longleftrightarrow> mb_AnchorAxis m \<noteq> []"

definition Admin_Memberships :: "'w platform \<Rightarrow> 'w Client \<Rightarrow> 'w \<Rightarrow> Ctx \<Rightarrow> 'w \<times> Membership list res" where
  "Admin_Memberships pf c w ctx =
     Admin_call pf c w ctx procListMemberships (GStruct [])
       (decode_struct [(''memberships'', set_list (\<lambda>v _. v)
          \<lparr>mb_ID = [], mb_Name = [], mb_Description = [], mb_MemberCount = 0, mb_AnchorAxis = []\<rparr> dec_Membership)]) []"

section \<open>Identities\<close>

record admin_Identity =
  ai_ID :: string
  ai_Username :: string
  ai_Email :: string
  ai_Realm :: string
  ai_RealmKind :: string
  ai_Status :: string
  ai_Category :: string
  ai_ExternalRef :: string
  ai_Assurance :: int
  ai_TokenEpoch :: int
  ai_CreatedAt :: int
  ai_LastLoginAt :: int
  ai_DisabledAt :: int
  ai_AnonymizedAt :: int
  ai_RetentionUntil :: int

definition zero_admin_Identity :: admin_Identity where
  "zero_admin_Identity = \<lparr>ai_ID = [], ai_Username = [], ai_Email = [], ai_Realm = [], ai_RealmKind = [], ai_Status = [],
     ai_Category = [], ai_ExternalRef = [], ai_Assurance = 0, ai_TokenEpoch = 0, ai_CreatedAt = 0, ai_LastLoginAt = 0,
     ai_DisabledAt = 0, ai_AnonymizedAt = 0, ai_RetentionUntil = 0\<rparr>"

definition dec_admin_Identity :: "json \<Rightarrow> admin_Identity \<Rightarrow> admin_Identity option" where
  "dec_admin_Identity = decode_struct
     [(''id'', set_string (\<lambda>v r. r\<lparr>ai_ID := v\<rparr>)),
      (''username'', set_string (\<lambda>v r. r\<lparr>ai_Username := v\<rparr>)),
      (''email'', set_string (\<lambda>v r. r\<lparr>ai_Email := v\<rparr>)),
      (''realm'', set_string (\<lambda>v r. r\<lparr>ai_Realm := v\<rparr>)),
      (''realmKind'', set_string (\<lambda>v r. r\<lparr>ai_RealmKind := v\<rparr>)),
      (''status'', set_string (\<lambda>v r. r\<lparr>ai_Status := v\<rparr>)),
      (''category'', set_string (\<lambda>v r. r\<lparr>ai_Category := v\<rparr>)),
      (''externalRef'', set_string (\<lambda>v r. r\<lparr>ai_ExternalRef := v\<rparr>)),
      (''assuranceLevel'', set_int (\<lambda>v r. r\<lparr>ai_Assurance := v\<rparr>)),
      (''tokenEpoch'', set_int (\<lambda>v r. r\<lparr>ai_TokenEpoch := v\<rparr>)),
      (''createdAt'', set_epoch (\<lambda>v r. r\<lparr>ai_CreatedAt := v\<rparr>)),
      (''lastLoginAt'', set_epoch (\<lambda>v r. r\<lparr>ai_LastLoginAt := v\<rparr>)),
      (''disabledAt'', set_epoch (\<lambda>v r. r\<lparr>ai_DisabledAt := v\<rparr>)),
      (''anonymizedAt'', set_epoch (\<lambda>v r. r\<lparr>ai_AnonymizedAt := v\<rparr>)),
      (''retentionUntil'', set_epoch (\<lambda>v r. r\<lparr>ai_RetentionUntil := v\<rparr>))]"

definition admin_Identity_IsActive :: "admin_Identity \<Rightarrow> bool" where
  "admin_Identity_IsActive i \<longleftrightarrow> ai_Status i = ''active'' \<and> Time_IsZero (epoch_time (ai_DisabledAt i))"
definition admin_Identity_Created :: "admin_Identity \<Rightarrow> gotime" where
  "admin_Identity_Created i = epoch_time (ai_CreatedAt i)"
definition admin_Identity_LastLogin :: "admin_Identity \<Rightarrow> gotime" where
  "admin_Identity_LastLogin i = epoch_time (ai_LastLoginAt i)"
definition admin_Identity_RetentionDeadline :: "admin_Identity \<Rightarrow> gotime" where
  "admin_Identity_RetentionDeadline i = epoch_time (ai_RetentionUntil i)"

record IdentityQuery =
  iq_Realm :: string
  iq_Query :: string
  iq_Status :: string
  iq_PageSize :: int
  iq_Page :: string

record IdentityPage =
  ip_Identities :: "admin_Identity list"
  ip_NextPage :: string

definition dec_IdentityPage :: "json \<Rightarrow> IdentityPage \<Rightarrow> IdentityPage option" where
  "dec_IdentityPage = decode_struct
     [(''identities'', set_list (\<lambda>v r. r\<lparr>ip_Identities := v\<rparr>) zero_admin_Identity dec_admin_Identity),
      (''nextPageToken'', set_string (\<lambda>v r. r\<lparr>ip_NextPage := v\<rparr>))]"

definition Admin_Identities :: "'w platform \<Rightarrow> 'w Client \<Rightarrow> 'w \<Rightarrow> Ctx \<Rightarrow> IdentityQuery \<Rightarrow> 'w \<times> IdentityPage res" where
  "Admin_Identities pf c w ctx q =
     Admin_call pf c w ctx procListIdentities
       (GMap [(''realm'', GStr (iq_Realm q)), (''query'', GStr (iq_Query q)), (''status'', GStr (iq_Status q)),
              (''page_size'', GInt (iq_PageSize q)), (''page_token'', GStr (iq_Page q))])
       dec_IdentityPage \<lparr>ip_Identities = [], ip_NextPage = []\<rparr>"

definition Admin_Identity :: "'w platform \<Rightarrow> 'w Client \<Rightarrow> 'w \<Rightarrow> Ctx \<Rightarrow> string \<Rightarrow> 'w \<times> admin_Identity res" where
  "Admin_Identity pf c w ctx ident =
     and_then (Admin_call pf c w ctx procGetIdentity (GMap [(''id'', GStr ident)])
         (decode_struct [(''identity'', set_ptr (\<lambda>v. v) (\<lambda>v _. v) zero_admin_Identity dec_admin_Identity)]) None)
       (some_or ''anubis/admin: no identity'')"

section \<open>Scope nodes\<close>

record ScopeNode =
  sn_ID :: string
  sn_Axis :: string
  sn_NodeType :: string
  sn_ParentID :: string
  sn_Slug :: string
  sn_Name :: string
  sn_ExternalRef :: string
  sn_Status :: string
  sn_IsAxisRoot :: bool
  sn_ChildCount :: int
  sn_Path :: "string list"

definition zero_ScopeNode :: ScopeNode where
  "zero_ScopeNode = \<lparr>sn_ID = [], sn_Axis = [], sn_NodeType = [], sn_ParentID = [], sn_Slug = [], sn_Name = [],
     sn_ExternalRef = [], sn_Status = [], sn_IsAxisRoot = False, sn_ChildCount = 0, sn_Path = []\<rparr>"

definition dec_ScopeNode :: "json \<Rightarrow> ScopeNode \<Rightarrow> ScopeNode option" where
  "dec_ScopeNode = decode_struct
     [(''id'', set_string (\<lambda>v r. r\<lparr>sn_ID := v\<rparr>)),
      (''axis'', set_string (\<lambda>v r. r\<lparr>sn_Axis := v\<rparr>)),
      (''nodeType'', set_string (\<lambda>v r. r\<lparr>sn_NodeType := v\<rparr>)),
      (''parentId'', set_string (\<lambda>v r. r\<lparr>sn_ParentID := v\<rparr>)),
      (''slug'', set_string (\<lambda>v r. r\<lparr>sn_Slug := v\<rparr>)),
      (''name'', set_string (\<lambda>v r. r\<lparr>sn_Name := v\<rparr>)),
      (''externalRef'', set_string (\<lambda>v r. r\<lparr>sn_ExternalRef := v\<rparr>)),
      (''status'', set_string (\<lambda>v r. r\<lparr>sn_Status := v\<rparr>)),
      (''isAxisRoot'', set_bool (\<lambda>v r. r\<lparr>sn_IsAxisRoot := v\<rparr>)),
      (''childCount'', set_int (\<lambda>v r. r\<lparr>sn_ChildCount := v\<rparr>)),
      (''path'', set_strings (\<lambda>v r. r\<lparr>sn_Path := v\<rparr>))]"

definition ScopeNode_HasChildren :: "ScopeNode \<Rightarrow> bool" where "ScopeNode_HasChildren n \<longleftrightarrow> sn_ChildCount n > 0"
definition ScopeNode_IsArchived :: "ScopeNode \<Rightarrow> bool" where "ScopeNode_IsArchived n \<longleftrightarrow> sn_Status n = ''archived''"

record ScopeNodeQuery =
  sq_Axis :: string
  sq_ParentID :: string
  sq_Query :: string
  sq_Archived :: bool
  sq_PageSize :: int
  sq_Page :: string

record ScopeNodePage =
  sp_Nodes :: "ScopeNode list"
  sp_NextPage :: string

definition dec_ScopeNodePage :: "json \<Rightarrow> ScopeNodePage \<Rightarrow> ScopeNodePage option" where
  "dec_ScopeNodePage = decode_struct
     [(''nodes'', set_list (\<lambda>v r. r\<lparr>sp_Nodes := v\<rparr>) zero_ScopeNode dec_ScopeNode),
      (''nextPageToken'', set_string (\<lambda>v r. r\<lparr>sp_NextPage := v\<rparr>))]"

definition node_request :: "ScopeNodeQuery \<Rightarrow> goval" where
  "node_request q =
     GMap [(''axis'', GStr (sq_Axis q)), (''parent_id'', GStr (sq_ParentID q)), (''query'', GStr (sq_Query q)),
           (''include_archived'', GBool (sq_Archived q)), (''page_size'', GInt (sq_PageSize q)),
           (''page_token'', GStr (sq_Page q))]"

definition Admin_ScopeNodes :: "'w platform \<Rightarrow> 'w Client \<Rightarrow> 'w \<Rightarrow> Ctx \<Rightarrow> ScopeNodeQuery \<Rightarrow> 'w \<times> ScopeNodePage res" where
  "Admin_ScopeNodes pf c w ctx q =
     Admin_call pf c w ctx procListScopeNodes (node_request q)
       dec_ScopeNodePage \<lparr>sp_Nodes = [], sp_NextPage = []\<rparr>"

text \<open>
  The loop of \<open>AllScopeNodes\<close> and \<open>AllApplications\<close>: \<open>get_page\<close> reads the page of a token. A
  server that keeps naming new pages with nothing on them keeps it going for as long as it
  finds tokens it has not named.
\<close>

partial_function (option) walk ::
  "('w \<Rightarrow> string \<Rightarrow> 'w \<times> ('a list \<times> string) res) \<Rightarrow> nat \<Rightarrow> goerr \<Rightarrow> (string \<Rightarrow> goerr) \<Rightarrow>
   'w \<Rightarrow> string \<Rightarrow> 'a list \<Rightarrow> string list \<Rightarrow> ('w \<times> 'a list res) option" where
  "walk get_page limit too_many repeated w page all seen =
     (case get_page w page of
        (w', Inl e) \<Rightarrow> Some (w', Inl e)
      | (w', Inr (rows, nextPage)) \<Rightarrow>
          if nextPage = [] then Some (w', Inr (all @ rows))
          else if length (all @ rows) > limit then Some (w', Inl too_many)
          else if nextPage \<in> set seen then Some (w', Inl (repeated nextPage))
          else walk get_page limit too_many repeated w' nextPage (all @ rows) (nextPage # seen))"

abbreviation (input) maxScopeNodes :: nat where "maxScopeNodes \<equiv> 50000"

definition node_page :: "'w platform \<Rightarrow> 'w Client \<Rightarrow> Ctx \<Rightarrow> ScopeNodeQuery \<Rightarrow> 'w \<Rightarrow> string \<Rightarrow> 'w \<times> (ScopeNode list \<times> string) res" where
  "node_page pf c ctx q w page =
     and_then (Admin_ScopeNodes pf c w ctx (q\<lparr>sq_Page := page\<rparr>)) (\<lambda>p. Inr (sp_Nodes p, sp_NextPage p))"

definition Admin_AllScopeNodes ::
  "'w platform \<Rightarrow> 'w Client \<Rightarrow> 'w \<Rightarrow> Ctx \<Rightarrow> ScopeNodeQuery \<Rightarrow> ('w \<times> ScopeNode list res) option" where
  "Admin_AllScopeNodes pf c w ctx q =
     walk (node_page pf c ctx q) maxScopeNodes
       (ErrText ''anubis/admin: axis holds more than 50000 nodes; narrow it with Query, or page it with ScopeNodes'')
       (\<lambda>t. ErrText (''anubis/admin: axis repeated page token '' @ t)) w (sq_Page q) [] []"

section \<open>Catalog sources\<close>

abbreviation (input) MinScheduleInterval :: duration where "MinScheduleInterval \<equiv> 5 * 60 * second"

definition scheduleSeconds :: "duration \<Rightarrow> int res" where
  "scheduleSeconds every =
     (if every = 0 then Inr 0
      else if every < 0 then Inl (ErrText ''anubis/admin: a schedule cannot be negative; use 0 for manual'')
      else if every < MinScheduleInterval then Inl (ErrText ''anubis/admin: schedule is below the floor; use 0 for manual'')
      else Inr (every sdiv second))"

record CatalogSource =
  cs_ID :: string
  cs_ApplicationSlug :: string
  cs_Name :: string
  cs_Kind :: string
  cs_Format :: string
  cs_Status :: string
  cs_ConfigJSON :: string
  cs_IntervalSeconds :: int
  cs_LastRunAt :: int
  cs_NextRunAt :: int
  cs_LastStatus :: string

definition zero_CatalogSource :: CatalogSource where
  "zero_CatalogSource = \<lparr>cs_ID = [], cs_ApplicationSlug = [], cs_Name = [], cs_Kind = [], cs_Format = [], cs_Status = [],
     cs_ConfigJSON = [], cs_IntervalSeconds = 0, cs_LastRunAt = 0, cs_NextRunAt = 0, cs_LastStatus = []\<rparr>"

definition dec_CatalogSource :: "json \<Rightarrow> CatalogSource \<Rightarrow> CatalogSource option" where
  "dec_CatalogSource = decode_struct
     [(''id'', set_string (\<lambda>v r. r\<lparr>cs_ID := v\<rparr>)),
      (''applicationSlug'', set_string (\<lambda>v r. r\<lparr>cs_ApplicationSlug := v\<rparr>)),
      (''name'', set_string (\<lambda>v r. r\<lparr>cs_Name := v\<rparr>)),
      (''kind'', set_string (\<lambda>v r. r\<lparr>cs_Kind := v\<rparr>)),
      (''format'', set_string (\<lambda>v r. r\<lparr>cs_Format := v\<rparr>)),
      (''status'', set_string (\<lambda>v r. r\<lparr>cs_Status := v\<rparr>)),
      (''configJson'', set_string (\<lambda>v r. r\<lparr>cs_ConfigJSON := v\<rparr>)),
      (''intervalSeconds'', set_int (\<lambda>v r. r\<lparr>cs_IntervalSeconds := v\<rparr>)),
      (''lastRunAt'', set_epoch (\<lambda>v r. r\<lparr>cs_LastRunAt := v\<rparr>)),
      (''nextRunAt'', set_epoch (\<lambda>v r. r\<lparr>cs_NextRunAt := v\<rparr>)),
      (''lastStatus'', set_string (\<lambda>v r. r\<lparr>cs_LastStatus := v\<rparr>))]"

definition CatalogSource_Every :: "CatalogSource \<Rightarrow> duration" where "CatalogSource_Every s = Seconds (cs_IntervalSeconds s)"
definition CatalogSource_IsManual :: "CatalogSource \<Rightarrow> bool" where "CatalogSource_IsManual s \<longleftrightarrow> cs_IntervalSeconds s = 0"
definition CatalogSource_LastRun :: "CatalogSource \<Rightarrow> gotime" where "CatalogSource_LastRun s = epoch_time (cs_LastRunAt s)"
definition CatalogSource_NextRun :: "CatalogSource \<Rightarrow> gotime" where "CatalogSource_NextRun s = epoch_time (cs_NextRunAt s)"
definition CatalogSource_IsBroken :: "CatalogSource \<Rightarrow> bool" where "CatalogSource_IsBroken s \<longleftrightarrow> cs_LastStatus s = ''failed''"

record CatalogRun =
  cr_ID :: string
  cr_SourceID :: string
  cr_StartedAt :: int
  cr_FinishedAt :: int
  cr_Dry :: bool
  cr_Status :: string
  cr_Actor :: string
  cr_DocumentSHA :: string
  cr_ReportJSON :: string
  cr_Error :: string

definition zero_CatalogRun :: CatalogRun where
  "zero_CatalogRun = \<lparr>cr_ID = [], cr_SourceID = [], cr_StartedAt = 0, cr_FinishedAt = 0, cr_Dry = False, cr_Status = [],
     cr_Actor = [], cr_DocumentSHA = [], cr_ReportJSON = [], cr_Error = []\<rparr>"

definition dec_CatalogRun :: "json \<Rightarrow> CatalogRun \<Rightarrow> CatalogRun option" where
  "dec_CatalogRun = decode_struct
     [(''id'', set_string (\<lambda>v r. r\<lparr>cr_ID := v\<rparr>)),
      (''sourceId'', set_string (\<lambda>v r. r\<lparr>cr_SourceID := v\<rparr>)),
      (''startedAt'', set_epoch (\<lambda>v r. r\<lparr>cr_StartedAt := v\<rparr>)),
      (''finishedAt'', set_epoch (\<lambda>v r. r\<lparr>cr_FinishedAt := v\<rparr>)),
      (''dry'', set_bool (\<lambda>v r. r\<lparr>cr_Dry := v\<rparr>)),
      (''status'', set_string (\<lambda>v r. r\<lparr>cr_Status := v\<rparr>)),
      (''actor'', set_string (\<lambda>v r. r\<lparr>cr_Actor := v\<rparr>)),
      (''documentSha'', set_string (\<lambda>v r. r\<lparr>cr_DocumentSHA := v\<rparr>)),
      (''reportJson'', set_string (\<lambda>v r. r\<lparr>cr_ReportJSON := v\<rparr>)),
      (''error'', set_string (\<lambda>v r. r\<lparr>cr_Error := v\<rparr>))]"

definition CatalogRun_Started :: "CatalogRun \<Rightarrow> gotime" where "CatalogRun_Started r = epoch_time (cr_StartedAt r)"
definition CatalogRun_Finished :: "CatalogRun \<Rightarrow> gotime" where "CatalogRun_Finished r = epoch_time (cr_FinishedAt r)"
definition CatalogRun_InFlight :: "CatalogRun \<Rightarrow> bool" where
  "CatalogRun_InFlight r \<longleftrightarrow> Time_IsZero (epoch_time (cr_FinishedAt r))"
definition CatalogRun_Applied :: "CatalogRun \<Rightarrow> bool" where "CatalogRun_Applied r \<longleftrightarrow> cr_Status r = ''ok''"

definition Admin_CatalogSources :: "'w platform \<Rightarrow> 'w Client \<Rightarrow> 'w \<Rightarrow> Ctx \<Rightarrow> 'w \<times> CatalogSource list res" where
  "Admin_CatalogSources pf c w ctx =
     Admin_call pf c w ctx procListCatalogSources (GMap [])
       (decode_struct [(''sources'', set_list (\<lambda>v _. v) zero_CatalogSource dec_CatalogSource)]) []"

record NewCatalogSource =
  nc_ApplicationSlug :: string
  nc_Name :: string
  nc_Kind :: string
  nc_Format :: string
  nc_ConfigJSON :: string
  nc_Every :: duration

abbreviation (input) source_answer :: "json \<Rightarrow> CatalogSource option \<Rightarrow> CatalogSource option option" where
  "source_answer \<equiv> decode_struct [(''source'', set_ptr (\<lambda>v. v) (\<lambda>v _. v) zero_CatalogSource dec_CatalogSource)]"

definition Admin_CreateCatalogSource ::
  "'w platform \<Rightarrow> 'w Client \<Rightarrow> 'w \<Rightarrow> Ctx \<Rightarrow> NewCatalogSource \<Rightarrow> 'w \<times> CatalogSource res" where
  "Admin_CreateCatalogSource pf c w ctx s =
     (case scheduleSeconds (nc_Every s) of
        Inl e \<Rightarrow> (w, Inl e)
      | Inr secs \<Rightarrow>
          if nc_ApplicationSlug s = [] then (w, Inl (ErrText ''anubis/admin: a catalog source needs an application; it is pinned at creation and cannot be moved later''))
          else and_then (Admin_call pf c w ctx procCreateCatalogSource
              (GMap [(''application_slug'', GStr (nc_ApplicationSlug s)), (''name'', GStr (nc_Name s)),
                     (''kind'', GStr (nc_Kind s)), (''format'', GStr (nc_Format s)), (''config_json'', GStr (nc_ConfigJSON s)),
                     (''interval_seconds'', GInt secs)])
              source_answer None)
            (some_or ''anubis/admin: the server created no catalog source''))"

record CatalogSourceUpdate =
  cu_ID :: string
  cu_Name :: string
  cu_Status :: string
  cu_Format :: string
  cu_ConfigJSON :: string
  cu_Every :: duration

definition Admin_UpdateCatalogSource ::
  "'w platform \<Rightarrow> 'w Client \<Rightarrow> 'w \<Rightarrow> Ctx \<Rightarrow> CatalogSourceUpdate \<Rightarrow> 'w \<times> CatalogSource res" where
  "Admin_UpdateCatalogSource pf c w ctx u =
     (case scheduleSeconds (cu_Every u) of
        Inl e \<Rightarrow> (w, Inl e)
      | Inr secs \<Rightarrow>
          and_then (Admin_call pf c w ctx procUpdateCatalogSource
              (GMap [(''id'', GStr (cu_ID u)), (''name'', GStr (cu_Name u)), (''status'', GStr (cu_Status u)),
                     (''format'', GStr (cu_Format u)), (''config_json'', GStr (cu_ConfigJSON u)), (''interval_seconds'', GInt secs)])
              source_answer None)
            (some_or ''anubis/admin: no catalog source''))"

definition Admin_DeleteCatalogSource :: "'w platform \<Rightarrow> 'w Client \<Rightarrow> 'w \<Rightarrow> Ctx \<Rightarrow> string \<Rightarrow> 'w \<times> unit res" where
  "Admin_DeleteCatalogSource pf c w ctx ident =
     Admin_call pf c w ctx procDeleteCatalogSource (GMap [(''id'', GStr ident)]) dec_nothing ()"

definition Admin_RunCatalogSource :: "'w platform \<Rightarrow> 'w Client \<Rightarrow> 'w \<Rightarrow> Ctx \<Rightarrow> string \<Rightarrow> bool \<Rightarrow> 'w \<times> CatalogRun res" where
  "Admin_RunCatalogSource pf c w ctx sourceID dry =
     and_then (Admin_call pf c w ctx procRunCatalogSource
         (GMap [(''source_id'', GStr sourceID), (''dry'', GBool dry)])
         (decode_struct [(''run'', set_ptr (\<lambda>v. v) (\<lambda>v _. v) zero_CatalogRun dec_CatalogRun)]) None)
       (some_or ''anubis/admin: no run started for catalog source'')"

definition Admin_CatalogRuns :: "'w platform \<Rightarrow> 'w Client \<Rightarrow> 'w \<Rightarrow> Ctx \<Rightarrow> string \<Rightarrow> int \<Rightarrow> 'w \<times> CatalogRun list res" where
  "Admin_CatalogRuns pf c w ctx sourceID limit =
     Admin_call pf c w ctx procListCatalogRuns
       (GMap [(''source_id'', GStr sourceID), (''limit'', GInt limit)])
       (decode_struct [(''runs'', set_list (\<lambda>v _. v) zero_CatalogRun dec_CatalogRun)]) []"

section \<open>Scope sync schedules\<close>

record SyncSource =
  ss_ID :: string
  ss_Axis :: string
  ss_Kind :: string
  ss_Status :: string
  ss_ConfigJSON :: string
  ss_LastRunAt :: int
  ss_IntervalSeconds :: int
  ss_NextRunAt :: int

definition zero_SyncSource :: SyncSource where
  "zero_SyncSource = \<lparr>ss_ID = [], ss_Axis = [], ss_Kind = [], ss_Status = [], ss_ConfigJSON = [], ss_LastRunAt = 0,
     ss_IntervalSeconds = 0, ss_NextRunAt = 0\<rparr>"

definition dec_SyncSource :: "json \<Rightarrow> SyncSource \<Rightarrow> SyncSource option" where
  "dec_SyncSource = decode_struct
     [(''id'', set_string (\<lambda>v r. r\<lparr>ss_ID := v\<rparr>)),
      (''axis'', set_string (\<lambda>v r. r\<lparr>ss_Axis := v\<rparr>)),
      (''kind'', set_string (\<lambda>v r. r\<lparr>ss_Kind := v\<rparr>)),
      (''status'', set_string (\<lambda>v r. r\<lparr>ss_Status := v\<rparr>)),
      (''configJson'', set_string (\<lambda>v r. r\<lparr>ss_ConfigJSON := v\<rparr>)),
      (''lastRunAt'', set_epoch (\<lambda>v r. r\<lparr>ss_LastRunAt := v\<rparr>)),
      (''intervalSeconds'', set_int (\<lambda>v r. r\<lparr>ss_IntervalSeconds := v\<rparr>)),
      (''nextRunAt'', set_epoch (\<lambda>v r. r\<lparr>ss_NextRunAt := v\<rparr>))]"

definition SyncSource_Every :: "SyncSource \<Rightarrow> duration" where "SyncSource_Every s = Seconds (ss_IntervalSeconds s)"
definition SyncSource_IsManual :: "SyncSource \<Rightarrow> bool" where "SyncSource_IsManual s \<longleftrightarrow> ss_IntervalSeconds s = 0"
definition SyncSource_LastRun :: "SyncSource \<Rightarrow> gotime" where "SyncSource_LastRun s = epoch_time (ss_LastRunAt s)"
definition SyncSource_NextRun :: "SyncSource \<Rightarrow> gotime" where "SyncSource_NextRun s = epoch_time (ss_NextRunAt s)"

definition Admin_SetSyncSchedule ::
  "'w platform \<Rightarrow> 'w Client \<Rightarrow> 'w \<Rightarrow> Ctx \<Rightarrow> string \<Rightarrow> duration \<Rightarrow> 'w \<times> SyncSource res" where
  "Admin_SetSyncSchedule pf c w ctx sourceID every =
     (case scheduleSeconds every of
        Inl e \<Rightarrow> (w, Inl e)
      | Inr secs \<Rightarrow>
          and_then (Admin_call pf c w ctx procSetSyncSchedule
              (GMap [(''source_id'', GStr sourceID), (''interval_seconds'', GInt secs)])
              (decode_struct [(''source'', set_ptr (\<lambda>v. v) (\<lambda>v _. v) zero_SyncSource dec_SyncSource)]) None)
            (some_or ''anubis/admin: no sync source''))"

section \<open>Sign-in pages\<close>

record AuthPage =
  ap_ID :: string
  ap_Kind :: string
  ap_Slug :: string
  ap_Name :: string
  ap_Status :: string
  ap_IsDefault :: bool
  ap_ApplicationID :: string
  ap_ApplicationSlug :: string
  ap_RealmID :: string
  ap_RealmCode :: string
  ap_ConfigJSON :: string
  ap_CreatedAt :: int
  ap_UpdatedAt :: int
  ap_URL :: string

definition zero_AuthPage :: AuthPage where
  "zero_AuthPage = \<lparr>ap_ID = [], ap_Kind = [], ap_Slug = [], ap_Name = [], ap_Status = [], ap_IsDefault = False,
     ap_ApplicationID = [], ap_ApplicationSlug = [], ap_RealmID = [], ap_RealmCode = [], ap_ConfigJSON = [],
     ap_CreatedAt = 0, ap_UpdatedAt = 0, ap_URL = []\<rparr>"

definition dec_AuthPage :: "json \<Rightarrow> AuthPage \<Rightarrow> AuthPage option" where
  "dec_AuthPage = decode_struct
     [(''id'', set_string (\<lambda>v r. r\<lparr>ap_ID := v\<rparr>)),
      (''kind'', set_string (\<lambda>v r. r\<lparr>ap_Kind := v\<rparr>)),
      (''slug'', set_string (\<lambda>v r. r\<lparr>ap_Slug := v\<rparr>)),
      (''name'', set_string (\<lambda>v r. r\<lparr>ap_Name := v\<rparr>)),
      (''status'', set_string (\<lambda>v r. r\<lparr>ap_Status := v\<rparr>)),
      (''isDefault'', set_bool (\<lambda>v r. r\<lparr>ap_IsDefault := v\<rparr>)),
      (''applicationId'', set_string (\<lambda>v r. r\<lparr>ap_ApplicationID := v\<rparr>)),
      (''applicationSlug'', set_string (\<lambda>v r. r\<lparr>ap_ApplicationSlug := v\<rparr>)),
      (''realmId'', set_string (\<lambda>v r. r\<lparr>ap_RealmID := v\<rparr>)),
      (''realmCode'', set_string (\<lambda>v r. r\<lparr>ap_RealmCode := v\<rparr>)),
      (''configJson'', set_string (\<lambda>v r. r\<lparr>ap_ConfigJSON := v\<rparr>)),
      (''createdAt'', set_epoch (\<lambda>v r. r\<lparr>ap_CreatedAt := v\<rparr>)),
      (''updatedAt'', set_epoch (\<lambda>v r. r\<lparr>ap_UpdatedAt := v\<rparr>)),
      (''url'', set_string (\<lambda>v r. r\<lparr>ap_URL := v\<rparr>))]"

definition AuthPage_json :: "AuthPage \<Rightarrow> goval" where
  "AuthPage_json p =
     GStruct [(''id'', GStr (ap_ID p)), (''kind'', GStr (ap_Kind p)), (''slug'', GStr (ap_Slug p)), (''name'', GStr (ap_Name p)),
       (''status'', GStr (ap_Status p)), (''isDefault'', GBool (ap_IsDefault p)), (''applicationId'', GStr (ap_ApplicationID p)),
       (''applicationSlug'', GStr (ap_ApplicationSlug p)), (''realmId'', GStr (ap_RealmID p)), (''realmCode'', GStr (ap_RealmCode p)),
       (''configJson'', GStr (ap_ConfigJSON p)), (''createdAt'', epoch_json (ap_CreatedAt p)),
       (''updatedAt'', epoch_json (ap_UpdatedAt p)), (''url'', GStr (ap_URL p))]"

definition AuthPage_Created :: "AuthPage \<Rightarrow> gotime" where "AuthPage_Created p = epoch_time (ap_CreatedAt p)"
definition AuthPage_Updated :: "AuthPage \<Rightarrow> gotime" where "AuthPage_Updated p = epoch_time (ap_UpdatedAt p)"
definition AuthPage_BoundToRealm :: "AuthPage \<Rightarrow> bool" where
  "AuthPage_BoundToRealm p \<longleftrightarrow> ap_RealmID p \<noteq> [] \<or> ap_RealmCode p \<noteq> []"
definition AuthPage_BoundToApplication :: "AuthPage \<Rightarrow> bool" where
  "AuthPage_BoundToApplication p \<longleftrightarrow> ap_ApplicationID p \<noteq> [] \<or> ap_ApplicationSlug p \<noteq> []"

abbreviation (input) page_answer :: "json \<Rightarrow> AuthPage option \<Rightarrow> AuthPage option option" where
  "page_answer \<equiv> decode_struct [(''page'', set_ptr (\<lambda>v. v) (\<lambda>v _. v) zero_AuthPage dec_AuthPage)]"

definition Admin_AuthPages :: "'w platform \<Rightarrow> 'w Client \<Rightarrow> 'w \<Rightarrow> Ctx \<Rightarrow> string \<Rightarrow> 'w \<times> AuthPage list res" where
  "Admin_AuthPages pf c w ctx kind =
     Admin_call pf c w ctx procListAuthPages (GMap [(''kind'', GStr kind)])
       (decode_struct [(''pages'', set_list (\<lambda>v _. v) zero_AuthPage dec_AuthPage)]) []"

definition Admin_AuthPage :: "'w platform \<Rightarrow> 'w Client \<Rightarrow> 'w \<Rightarrow> Ctx \<Rightarrow> string \<Rightarrow> 'w \<times> AuthPage res" where
  "Admin_AuthPage pf c w ctx ident =
     and_then (Admin_call pf c w ctx procGetAuthPage (GMap [(''id'', GStr ident)]) page_answer None)
       (some_or ''anubis/admin: no auth page'')"

definition Admin_UpdateAuthPage :: "'w platform \<Rightarrow> 'w Client \<Rightarrow> 'w \<Rightarrow> Ctx \<Rightarrow> AuthPage \<Rightarrow> 'w \<times> AuthPage res" where
  "Admin_UpdateAuthPage pf c w ctx p =
     (if AuthPage_BoundToApplication p \<and> AuthPage_BoundToRealm p then (w, Inl ErrAuthPageBinding)
      else and_then (Admin_call pf c w ctx procUpdateAuthPage
            (GMap [(''page'', AuthPage_json p)]) page_answer None)
          (some_or ''anubis/admin: no auth page''))"

section \<open>Walking the pages\<close>

text \<open>
  What a listing promises its reader: the page of a token starts at the row the token stands
  for, is not empty while rows are left, and names the token of the row it stopped at.
\<close>

locale paging =
  fixes get_page :: "'w \<Rightarrow> string \<Rightarrow> 'w \<times> ('a list \<times> string) res"
    and rows :: "'a list"
    and token :: "nat \<Rightarrow> string"
    and fit :: "'w \<Rightarrow> bool"
  assumes page_at: "fit w \<Longrightarrow> n \<le> length rows \<Longrightarrow>
      \<exists>w' k. get_page w (token n) = (w', Inr (take k (drop n rows), if n + k < length rows then token (n + k) else [])) \<and>
        (n < length rows \<longrightarrow> 0 < k) \<and> fit w'"
    and token_nonempty: "fit w \<Longrightarrow> 0 < n \<Longrightarrow> n < length rows \<Longrightarrow> token n \<noteq> []"
    and token_inj: "fit w \<Longrightarrow> inj_on token {0<..<length rows}"
begin

lemma walk_from:
  assumes "fit w" "n \<le> length rows" "length rows \<le> limit" "set seen \<subseteq> token ` {0<..n}"
  shows "\<exists>w'. walk get_page limit too_many repeated w (token n) (take n rows) seen = Some (w', Inr rows) \<and> fit w'"
  using assms
proof (induction "length rows - n" arbitrary: n w seen rule: less_induct)
  case less
  from page_at [OF less.prems(1,2)] obtain w' k where p:
    "get_page w (token n) = (w', Inr (take k (drop n rows), if n + k < length rows then token (n + k) else []))"
    "n < length rows \<Longrightarrow> 0 < k" "fit w'" by blast
  have t: "take n rows @ take k (drop n rows) = take (n + k) rows" by (simp add: take_add)
  show ?case
  proof (cases "n + k < length rows")
    case False
    then show ?thesis using p t by (subst walk.simps) simp
  next
    case True
    with p(2) have k: "0 < k" by simp
    with True token_nonempty less.prems(1) have ne: "token (n + k) \<noteq> []" by simp
    have "token (n + k) \<notin> set seen"
    proof
      assume "token (n + k) \<in> set seen"
      with less.prems(4) have "token (n + k) \<in> token ` {0<..n}" by (rule subsetD)
      then obtain m where "0 < m" "m \<le> n" "token (n + k) = token m" by (metis greaterThanAtMost_iff imageE)
      with token_inj [OF less.prems(1)] True k show False by (auto dest: inj_onD)
    qed
    moreover have "length (take (n + k) rows) \<le> limit" using less.prems(3) True by simp
    moreover have "set (token (n + k) # seen) \<subseteq> token ` {0<..n + k}" using less.prems(4) k by auto
    ultimately show ?thesis
      using p(1) t ne True k less.hyps [of "n + k" w' "token (n + k) # seen"] p(3) less.prems(3)
      by (subst walk.simps) simp
  qed
qed

lemma walk_all: "fit w \<Longrightarrow> length rows \<le> limit \<Longrightarrow>
    \<exists>w'. walk get_page limit too_many repeated w (token 0) [] [] = Some (w', Inr rows) \<and> fit w'"
  using walk_from [of w 0 limit "[]"] by simp

end

text \<open>Whoever answers, a page that is not empty brings the walk nearer to its limit.\<close>

lemma walk_returns:
  assumes "\<And>w t w' xs nx. get_page w t = (w', Inr (xs, nx)) \<Longrightarrow> nx \<noteq> [] \<Longrightarrow> xs \<noteq> []" "length all \<le> limit"
  shows "\<exists>r. walk get_page limit too_many repeated w page all seen = Some r"
  using assms(2)
proof (induction "Suc limit - length all" arbitrary: w page all seen rule: less_induct)
  case less
  obtain w' r where r: "get_page w page = (w', r)" by fastforce
  show ?case
  proof (cases r)
    case (Inr p)
    obtain xs nx where p: "p = (xs, nx)" by fastforce
    show ?thesis
    proof (cases "nx = [] \<or> length (all @ xs) > limit \<or> nx \<in> set seen")
      case True
      then show ?thesis using r Inr p by (subst walk.simps) auto
    next
      case False
      then have ne: "xs \<noteq> []" using assms(1) r Inr p by blast
      have "Suc limit - length (all @ xs) < Suc limit - length all" using ne less.prems by (cases xs) auto
      with less.hyps [of "all @ xs"] False show ?thesis using r Inr p by (subst walk.simps) auto
    qed
  qed (use r in \<open>subst walk.simps, simp\<close>)
qed

section \<open>What a person is entitled to\<close>

lemma collect_set: "set (collect out xs) = set out \<union> set xs \<and> (distinct out \<longrightarrow> distinct (collect out xs))"
  by (induction out xs rule: collect.induct) auto

lemma Grant_Nodes_set: "set (Grant_Nodes g axis) =
    {n. \<exists>s \<in> set (gt_Scopes g). gs_Axis s = axis \<and> \<not> gs_Exclude s \<and> gs_NodeID s = n} - set (Grant_Excludes g axis)"
proof -
  have "fold (\<lambda>s ex. if gs_Axis s = axis \<and> gs_Exclude s then insert (gs_NodeID s) ex else ex) ss X =
    X \<union> gs_NodeID ` {s \<in> set ss. gs_Axis s = axis \<and> gs_Exclude s}" for ss X
    by (induction ss arbitrary: X) auto
  then show ?thesis by (auto simp: Grant_Nodes_def Grant_Excludes_def)
qed

lemma sink_set [simp]: "set (sink x ys) = insert x (set ys)"
  by (induction ys) auto

lemma sink_sorted: "sorted_wrt (\<lambda>x y. y \<le> x) ys \<Longrightarrow> sorted_wrt (\<lambda>x y. y \<le> x) (sink x ys)"
  by (induction ys) auto

lemma sink_distinct: "distinct (sink x ys) \<longleftrightarrow> x \<notin> set ys \<and> distinct ys"
  by (induction ys) auto

lemma sortAxes_facts:
  "sorted (sortAxes a) \<and> set (sortAxes a) = set a \<and> (distinct a \<longrightarrow> distinct (sortAxes a))"
proof -
  have "sorted_wrt (\<lambda>x y. y \<le> x) (foldl (\<lambda>d x. sink x d) ys a) \<and> set (foldl (\<lambda>d x. sink x d) ys a) = set ys \<union> set a \<and>
      (distinct (ys @ a) \<longrightarrow> distinct (foldl (\<lambda>d x. sink x d) ys a))" if "sorted_wrt (\<lambda>x y. y \<le> x) ys" for ys
    using that
  proof (induction a arbitrary: ys)
    case (Cons x a)
    from Cons.IH [OF sink_sorted [OF Cons.prems, of x]] show ?case by (auto simp: sink_distinct)
  qed auto
  from this [of "[]"] show ?thesis by (simp add: sortAxes_def sorted_wrt_rev)
qed

text \<open>A grant is live on one stretch of time: from its start, up to the sooner of its end and its revocation.\<close>

lemma IsLive_window: "Grant_IsLive g at \<longleftrightarrow>
    (epoch_time (gt_RevokedAt g) = 0 \<or> at < epoch_time (gt_RevokedAt g)) \<and>
    (epoch_time (gt_ValidFrom g) = 0 \<or> epoch_time (gt_ValidFrom g) \<le> at) \<and>
    (epoch_time (gt_ValidUntil g) = 0 \<or> at < epoch_time (gt_ValidUntil g))"
  by (auto simp: Grant_IsLive_def Time_IsZero_def)

end
