(* ===== verification/Admin_Manifest.thy ===== *)
theory Admin_Manifest
  imports Admin
begin

text \<open>
  Manifests (\<open>admin/manifest.go\<close>): an application's permissions, roles and routes as one
  document, its local validation, what is sent, and the report. A section is declared or
  not, whatever it holds; that is the \<open>option\<close> around each list.

  The lemmas: \<open>Validate\<close> accepts exactly the manifests \<open>wf_manifest\<close> describes, and nothing
  else is sent.
\<close>

section \<open>The document\<close>

record ManifestPermission =
  mp_Resource :: string
  mp_Action :: string
  mp_Description :: string
  mp_Risk :: string
  mp_MinAssurance :: int
  mp_RequiresAMR :: "string list"
  mp_MaxAuthAge :: string

definition ManifestPermission_Key :: "ManifestPermission \<Rightarrow> string" where
  "ManifestPermission_Key p = mp_Resource p @ '':'' @ mp_Action p"

record ManifestRole =
  mr_Name :: string
  mr_Description :: string
  mr_Permissions :: "string list"
  mr_Patterns :: "string list"
  mr_AllowedRealmKinds :: "string list"

record ManifestRoute =
  mt_Priority :: int
  mt_PathPattern :: string
  mt_HostPattern :: string
  mt_Methods :: "string list"
  mt_Effect :: string
  mt_Permission :: string
  mt_ScopeBindings :: smap

abbreviation (input) RoutePublic :: string where "RoutePublic \<equiv> ''public''"
abbreviation (input) RouteRequireAuth :: string where "RouteRequireAuth \<equiv> ''require_auth''"
abbreviation (input) RouteRequirePermission :: string where "RouteRequirePermission \<equiv> ''require_permission''"
abbreviation (input) RouteDeny :: string where "RouteDeny \<equiv> ''deny''"
abbreviation (input) RiskNormal :: string where "RiskNormal \<equiv> ''normal''"
abbreviation (input) RiskSensitive :: string where "RiskSensitive \<equiv> ''sensitive''"
abbreviation (input) RiskCritical :: string where "RiskCritical \<equiv> ''critical''"

record Manifest =
  ma_permissions :: "ManifestPermission list option"
  ma_roles :: "ManifestRole list option"
  ma_routes :: "ManifestRoute list option"
  ma_clearRoutes :: bool

definition empty_Manifest :: Manifest where
  "empty_Manifest = \<lparr>ma_permissions = None, ma_roles = None, ma_routes = None, ma_clearRoutes = False\<rparr>"

definition WithPermissions :: "Manifest \<Rightarrow> ManifestPermission list \<Rightarrow> Manifest" where
  "WithPermissions m p = m\<lparr>ma_permissions := Some p\<rparr>"

definition WithRoles :: "Manifest \<Rightarrow> ManifestRole list \<Rightarrow> Manifest" where
  "WithRoles m r = m\<lparr>ma_roles := Some r\<rparr>"

definition WithRoutes :: "Manifest \<Rightarrow> ManifestRoute list \<Rightarrow> Manifest" where
  "WithRoutes m r = m\<lparr>ma_routes := Some r, ma_clearRoutes := False\<rparr>"

definition ClearRoutes :: "Manifest \<Rightarrow> Manifest" where
  "ClearRoutes m = m\<lparr>ma_routes := Some [], ma_clearRoutes := True\<rparr>"

definition Manifest_Sections :: "Manifest \<Rightarrow> string list" where
  "Manifest_Sections m =
     (if ma_permissions m \<noteq> None then [''permissions''] else []) @
     (if ma_roles m \<noteq> None then [''roles''] else []) @
     (if ma_routes m \<noteq> None then [''routes''] else [])"

text \<open>Members with \<open>omitempty\<close>.\<close>

definition opt_str :: "string \<Rightarrow> string \<Rightarrow> (string \<times> goval) list" where
  "opt_str k v = (if v = [] then [] else [(k, GStr v)])"

definition opt_strs :: "string \<Rightarrow> string list \<Rightarrow> (string \<times> goval) list" where
  "opt_strs k v = (if v = [] then [] else [(k, gstrs v)])"

definition ManifestPermission_json :: "ManifestPermission \<Rightarrow> goval" where
  "ManifestPermission_json p =
     GStruct ([(''resource'', GStr (mp_Resource p)), (''action'', GStr (mp_Action p))] @
       opt_str ''description'' (mp_Description p) @ opt_str ''risk'' (mp_Risk p) @
       (if mp_MinAssurance p = 0 then [] else [(''min_assurance'', GInt (mp_MinAssurance p))]) @
       opt_strs ''requires_amr'' (mp_RequiresAMR p) @ opt_str ''max_auth_age'' (mp_MaxAuthAge p))"

definition ManifestRole_json :: "ManifestRole \<Rightarrow> goval" where
  "ManifestRole_json r =
     GStruct ([(''name'', GStr (mr_Name r))] @ opt_str ''description'' (mr_Description r) @
       opt_strs ''permissions'' (mr_Permissions r) @ opt_strs ''patterns'' (mr_Patterns r) @
       opt_strs ''allowed_realm_kinds'' (mr_AllowedRealmKinds r))"

definition ManifestRoute_json :: "ManifestRoute \<Rightarrow> goval" where
  "ManifestRoute_json r =
     GStruct ([(''priority'', GInt (mt_Priority r)), (''path_pattern'', GStr (mt_PathPattern r))] @
       opt_str ''host_pattern'' (mt_HostPattern r) @ opt_strs ''methods'' (mt_Methods r) @
       [(''effect'', GStr (mt_Effect r))] @ opt_str ''permission'' (mt_Permission r) @
       (if mt_ScopeBindings r = [] then [] else [(''scope_bindings'', gsmap (mt_ScopeBindings r))]))"

text \<open>
  The \<open>With\<close> methods copy onto a nil slice, so an empty section is \<open>null\<close>; only
  \<open>ClearRoutes\<close> makes an empty list.
\<close>

definition section_json :: "('a \<Rightarrow> goval) \<Rightarrow> 'a list \<Rightarrow> goval" where
  "section_json f xs = (if xs = [] then GNull else GList (map f xs))"

definition Manifest_MarshalJSON :: "Manifest \<Rightarrow> goval" where
  "Manifest_MarshalJSON m =
     GMap ((case ma_permissions m of None \<Rightarrow> [] | Some ps \<Rightarrow> [(''permissions'', section_json ManifestPermission_json ps)]) @
       (case ma_roles m of None \<Rightarrow> [] | Some rs \<Rightarrow> [(''roles'', section_json ManifestRole_json rs)]) @
       (case ma_routes m of None \<Rightarrow> []
        | Some rs \<Rightarrow> [(''routes'', if rs = [] \<and> ma_clearRoutes m then GList [] else section_json ManifestRoute_json rs)]))"

section \<open>Validation\<close>

text \<open>
  \<open>strings.ToLower\<close> as far as ASCII words can tell: two letters outside ASCII have a lower
  case inside it, the dotted capital I and the Kelvin sign.
\<close>

fun to_lower :: "string \<Rightarrow> string" where
  "to_lower [] = []"
| "to_lower (c # s) =
     (if c = CHR 0xC4 \<and> HasPrefix s [CHR 0xB0] then CHR ''i'' # to_lower (drop 1 s)
      else if c = CHR 0xE2 \<and> HasPrefix s [CHR 0x84, CHR 0xAA] then CHR ''k'' # to_lower (drop 2 s)
      else toLower_byte c # to_lower s)"

definition checkPermissionRef :: "string \<Rightarrow> string \<Rightarrow> goerr option" where
  "checkPermissionRef ref here =
     (let n = length (filter (\<lambda>c. c = CHR '':'') ref) in
      if n = 1 then
        (if HasPrefix ref '':'' \<or> HasSuffix ref '':''
         then Some (ErrText (''anubis/admin: '' @ here @ '' names permission '' @ ref @ ''; expected resource:action'')) else None)
      else if n = 2 then
        Some (ErrText (''anubis/admin: '' @ here @ '' names permission '' @ ref @ '', which is the full key''))
      else Some (ErrText (''anubis/admin: '' @ here @ '' names permission '' @ ref @
             ''; expected resource:action, without the application slug'')))"

definition at_index :: "string \<Rightarrow> nat \<Rightarrow> string" where
  "at_index kind i = ''anubis/admin: '' @ kind @ '' '' @ FormatInt (int i + 1)"

fun check_permissions :: "nat \<Rightarrow> string list \<Rightarrow> ManifestPermission list \<Rightarrow> goerr option" where
  "check_permissions i seen [] = None"
| "check_permissions i seen (p # ps) =
     (if mp_Resource p = [] \<or> mp_Action p = [] then Some (ErrText (at_index ''permission'' i @ '' needs a resource and an action''))
      else if ManifestPermission_Key p \<in> set seen
      then Some (ErrText (at_index ''permission'' i @ '' declares '' @ ManifestPermission_Key p @ '' twice in one document''))
      else if to_lower (mp_Risk p) \<notin> {[], RiskNormal, RiskSensitive, RiskCritical}
      then Some (ErrText (at_index ''permission'' i @ '' has risk '' @ mp_Risk p))
      else if mp_MinAssurance p < 0 \<or> mp_MinAssurance p > 3
      then Some (ErrText (at_index ''permission'' i @ '' has min_assurance '' @ FormatInt (mp_MinAssurance p)))
      else check_permissions (Suc i) (ManifestPermission_Key p # seen) ps)"

fun check_refs :: "string \<Rightarrow> string list \<Rightarrow> goerr option" where
  "check_refs here [] = None"
| "check_refs here (ref # refs) =
     (case checkPermissionRef ref here of Some e \<Rightarrow> Some e | None \<Rightarrow> check_refs here refs)"

fun check_roles :: "nat \<Rightarrow> string list \<Rightarrow> ManifestRole list \<Rightarrow> goerr option" where
  "check_roles i seen [] = None"
| "check_roles i seen (r # rs) =
     (if TrimSpace (mr_Name r) = [] then Some (ErrText (at_index ''role'' i @ '' needs a name''))
      else if mr_Name r \<in> set seen
      then Some (ErrText (at_index ''role'' i @ '' declares '' @ mr_Name r @ '' twice in one document''))
      else (case check_refs (''role '' @ mr_Name r) (mr_Permissions r) of
              Some e \<Rightarrow> Some e | None \<Rightarrow> check_roles (Suc i) (mr_Name r # seen) rs))"

fun check_routes :: "nat \<Rightarrow> (int \<times> string) list \<Rightarrow> ManifestRoute list \<Rightarrow> goerr option" where
  "check_routes i priorities [] = None"
| "check_routes i priorities (r # rs) =
     (if mt_PathPattern r = [] then Some (ErrText (at_index ''route'' i @ '' needs a path pattern''))
      else if mt_Effect r \<notin> {RoutePublic, RouteRequireAuth, RouteRequirePermission, RouteDeny}
      then Some (ErrText (at_index ''route'' i @ '' has effect '' @ mt_Effect r))
      else let needs = (mt_Effect r = RouteRequirePermission) in
        if needs \<and> mt_Permission r = [] then Some (ErrText (at_index ''route'' i @ '' names no permission''))
        else (case (if needs then checkPermissionRef (mt_Permission r) (''route '' @ mt_PathPattern r) else None) of
                Some e \<Rightarrow> Some e
              | None \<Rightarrow>
                  (case map_of priorities (mt_Priority r) of
                     Some prev \<Rightarrow> Some (ErrText (at_index ''route'' i @ '' shares its priority with '' @ prev))
                   | None \<Rightarrow> check_routes (Suc i) ((mt_Priority r, mt_PathPattern r) # priorities) rs)))"

definition Manifest_Validate :: "Manifest \<Rightarrow> goerr option" where
  "Manifest_Validate m =
     (if length (Manifest_Sections m) = 0 then Some ErrEmptyManifest
      else if ma_routes m = Some [] \<and> \<not> ma_clearRoutes m then Some ErrRouteTableWipe
      else if ma_permissions m = Some [] \<or> ma_roles m = Some [] then Some ErrCatalogWipe
      else case (case ma_permissions m of None \<Rightarrow> None | Some ps \<Rightarrow> check_permissions 0 [] ps) of
        Some e \<Rightarrow> Some e
      | None \<Rightarrow> (case (case ma_roles m of None \<Rightarrow> None | Some rs \<Rightarrow> check_roles 0 [] rs) of
          Some e \<Rightarrow> Some e
        | None \<Rightarrow> (case ma_routes m of None \<Rightarrow> None | Some rs \<Rightarrow> check_routes 0 [] rs)))"

section \<open>The report\<close>

record ManifestPermissionsReport =
  pr_Applied :: int
  pr_AddedOrUpdated :: int
  pr_Deprecated :: "string list"

record ManifestRolesReport =
  rr_Applied :: int
  rr_Deprecated :: "string list"

record ManifestReport =
  re_Dry :: bool
  re_Sections :: "string list"
  re_Permissions :: "ManifestPermissionsReport option"
  re_Roles :: "ManifestRolesReport option"
  re_Routes :: "int option"
  re_Version :: int

definition dec_ManifestReport :: "json \<Rightarrow> ManifestReport \<Rightarrow> ManifestReport option" where
  "dec_ManifestReport = decode_struct
     [(''dry'', set_bool (\<lambda>v r. r\<lparr>re_Dry := v\<rparr>)),
      (''sections'', set_strings (\<lambda>v r. r\<lparr>re_Sections := v\<rparr>)),
      (''permissions'', set_ptr re_Permissions (\<lambda>v r. r\<lparr>re_Permissions := v\<rparr>)
         \<lparr>pr_Applied = 0, pr_AddedOrUpdated = 0, pr_Deprecated = []\<rparr>
         (decode_struct [(''applied'', set_int (\<lambda>v r. r\<lparr>pr_Applied := v\<rparr>)),
            (''added_or_updated'', set_int (\<lambda>v r. r\<lparr>pr_AddedOrUpdated := v\<rparr>)),
            (''deprecated'', set_strings (\<lambda>v r. r\<lparr>pr_Deprecated := v\<rparr>))])),
      (''roles'', set_ptr re_Roles (\<lambda>v r. r\<lparr>re_Roles := v\<rparr>) \<lparr>rr_Applied = 0, rr_Deprecated = []\<rparr>
         (decode_struct [(''applied'', set_int (\<lambda>v r. r\<lparr>rr_Applied := v\<rparr>)),
            (''deprecated'', set_strings (\<lambda>v r. r\<lparr>rr_Deprecated := v\<rparr>))])),
      (''routes'', set_ptr re_Routes (\<lambda>v r. r\<lparr>re_Routes := v\<rparr>) 0 (decode_struct [(''replaced'', set_int (\<lambda>v _. v))]))]"

definition ManifestReport_Retired :: "ManifestReport \<Rightarrow> bool" where
  "ManifestReport_Retired r =
     (if (case re_Permissions r of Some p \<Rightarrow> length (pr_Deprecated p) > 0 | None \<Rightarrow> False) then True
      else if (case re_Roles r of Some p \<Rightarrow> length (rr_Deprecated p) > 0 | None \<Rightarrow> False) then True
      else re_Routes r = Some 0)"

abbreviation (input) dash :: string where "dash \<equiv> [CHR 0xE2, CHR 0x80, CHR 0x94]"

text \<open>\<open>%-12s\<close> pads on the right; the section names are shorter.\<close>

definition report_line :: "string \<Rightarrow> string \<Rightarrow> string" where
  "report_line name detail = ''  '' @ name @ replicate (12 - length name) (CHR '' '') @ '' '' @ detail @ [CHR 0x0A]"

definition ManifestReport_String :: "ManifestReport \<Rightarrow> string" where
  "ManifestReport_String r =
     (if re_Dry r then ''dry run '' @ dash @ '' nothing was written'' @ [CHR 0x0A]
      else ''applied '' @ dash @ '' manifest version '' @ FormatInt (re_Version r) @ [CHR 0x0A]) @
     (case re_Permissions r of
        Some p \<Rightarrow> report_line ''permissions'' (FormatInt (pr_Applied p) @ '' applied'' @
          (if length (pr_Deprecated p) > 0 then '', '' @ FormatInt (int (length (pr_Deprecated p))) @ '' deprecated (kept, not deleted)'' else []))
      | None \<Rightarrow> report_line ''permissions'' (''not declared '' @ dash @ '' left alone'')) @
     (case re_Roles r of
        Some p \<Rightarrow> report_line ''roles'' (FormatInt (rr_Applied p) @ '' applied'' @
          (if length (rr_Deprecated p) > 0 then '', '' @ FormatInt (int (length (rr_Deprecated p))) @ '' retired (existing grants keep working)'' else []))
      | None \<Rightarrow> report_line ''roles'' (''not declared '' @ dash @ '' left alone'')) @
     (case re_Routes r of
        Some n \<Rightarrow> report_line ''routes'' (''table replaced, now '' @ FormatInt n @ '' rules'')
      | None \<Rightarrow> report_line ''routes'' (''not declared '' @ dash @ '' left alone''))"

section \<open>Applying\<close>

definition manifest_report :: "string \<Rightarrow> int \<Rightarrow> ManifestReport res" where
  "manifest_report report_json version =
     (let zero = \<lparr>re_Dry = False, re_Sections = [], re_Permissions = None, re_Roles = None, re_Routes = None, re_Version = version\<rparr>
      in case (if report_json \<noteq> [] then unmarshal dec_ManifestReport zero report_json else Some zero) of
           None \<Rightarrow> Inl (ErrText ''anubis/admin: the server's manifest report did not decode'')
         | Some r \<Rightarrow> Inr (r\<lparr>re_Version := version, re_Sections := sort (re_Sections r)\<rparr>))"

definition Admin_ApplyManifestDocument ::
  "'w platform \<Rightarrow> 'w Client \<Rightarrow> 'w \<Rightarrow> Ctx \<Rightarrow> string \<Rightarrow> bytes \<Rightarrow> string \<Rightarrow> bool \<Rightarrow> 'w \<times> ManifestReport res" where
  "Admin_ApplyManifestDocument pf c w ctx applicationSlug document format dry =
     (if applicationSlug = [] then (w, Inl (ErrText ''anubis/admin: a manifest applies to one application; name it''))
      else and_then (Admin_call pf c w ctx procApplyManifest
          (GMap [(''application_slug'', GStr applicationSlug), (''manifest_json'', GStr document), (''dry'', GBool dry),
                 (''format'', GStr format)])
          (decode_struct [(''reportJson'', set_string (\<lambda>v (_, n). (v, n))), (''manifestVersion'', set_int (\<lambda>v (j, _). (j, v)))])
          ([], 0))
        (\<lambda>(report_json, version). manifest_report report_json version))"

definition applyManifest_client ::
  "'w platform \<Rightarrow> 'w Client \<Rightarrow> 'w \<Rightarrow> Ctx \<Rightarrow> string \<Rightarrow> Manifest \<Rightarrow> bool \<Rightarrow> 'w \<times> ManifestReport res" where
  "applyManifest_client pf c w ctx applicationSlug m dry =
     (case Manifest_Validate m of
        Some e \<Rightarrow> (w, Inl e)
      | None \<Rightarrow> Admin_ApplyManifestDocument pf c w ctx applicationSlug (marshal (Manifest_MarshalJSON m)) ''json'' dry)"

definition Admin_ApplyManifest ::
  "'w platform \<Rightarrow> 'w Client \<Rightarrow> 'w \<Rightarrow> Ctx \<Rightarrow> string \<Rightarrow> Manifest \<Rightarrow> 'w \<times> ManifestReport res" where
  "Admin_ApplyManifest pf c w ctx applicationSlug m = applyManifest_client pf c w ctx applicationSlug m False"

definition Admin_DryRunManifest ::
  "'w platform \<Rightarrow> 'w Client \<Rightarrow> 'w \<Rightarrow> Ctx \<Rightarrow> string \<Rightarrow> Manifest \<Rightarrow> 'w \<times> ManifestReport res" where
  "Admin_DryRunManifest pf c w ctx applicationSlug m = applyManifest_client pf c w ctx applicationSlug m True"

section \<open>What validation decides\<close>

text \<open>A name for a permission inside a manifest: two parts, neither empty.\<close>

definition bare_ref :: "string \<Rightarrow> bool" where
  "bare_ref ref \<longleftrightarrow> (\<exists>a b. ref = a @ '':'' @ b \<and> a \<noteq> [] \<and> b \<noteq> [] \<and> CHR '':'' \<notin> set a \<union> set b)"

definition wf_permission :: "ManifestPermission \<Rightarrow> bool" where
  "wf_permission p \<longleftrightarrow> mp_Resource p \<noteq> [] \<and> mp_Action p \<noteq> [] \<and>
     to_lower (mp_Risk p) \<in> {[], RiskNormal, RiskSensitive, RiskCritical} \<and> 0 \<le> mp_MinAssurance p \<and> mp_MinAssurance p \<le> 3"

definition wf_role :: "ManifestRole \<Rightarrow> bool" where
  "wf_role r \<longleftrightarrow> TrimSpace (mr_Name r) \<noteq> [] \<and> (\<forall>ref \<in> set (mr_Permissions r). bare_ref ref)"

definition wf_route :: "ManifestRoute \<Rightarrow> bool" where
  "wf_route r \<longleftrightarrow> mt_PathPattern r \<noteq> [] \<and>
     mt_Effect r \<in> {RoutePublic, RouteRequireAuth, RouteRequirePermission, RouteDeny} \<and>
     (mt_Effect r = RouteRequirePermission \<longrightarrow> bare_ref (mt_Permission r))"

definition wf_manifest :: "Manifest \<Rightarrow> bool" where
  "wf_manifest m \<longleftrightarrow>
     (ma_permissions m \<noteq> None \<or> ma_roles m \<noteq> None \<or> ma_routes m \<noteq> None) \<and>
     (\<forall>ps. ma_permissions m = Some ps \<longrightarrow> ps \<noteq> [] \<and> list_all wf_permission ps \<and> distinct (map ManifestPermission_Key ps)) \<and>
     (\<forall>rs. ma_roles m = Some rs \<longrightarrow> rs \<noteq> [] \<and> list_all wf_role rs \<and> distinct (map mr_Name rs)) \<and>
     (\<forall>rs. ma_routes m = Some rs \<longrightarrow> (rs \<noteq> [] \<or> ma_clearRoutes m) \<and> list_all wf_route rs \<and> distinct (map mt_Priority rs))"

lemma one_colon: "length (filter (\<lambda>c. c = x) s) = 1 \<longleftrightarrow> (\<exists>a b. s = a @ x # b \<and> x \<notin> set a \<union> set b)"
proof
  assume "length (filter (\<lambda>c. c = x) s) = 1"
  then show "\<exists>a b. s = a @ x # b \<and> x \<notin> set a \<union> set b"
  proof (induction s)
    case (Cons c s)
    show ?case
    proof (cases "c = x")
      case True
      with Cons.prems have "x \<notin> set s" by (auto simp: filter_empty_conv)
      with True show ?thesis by (intro exI [of _ "[]"] exI [of _ s]) auto
    next
      case False
      with Cons obtain a b where "s = a @ x # b" "x \<notin> set a \<union> set b" by auto
      with False show ?thesis by (intro exI [of _ "c # a"] exI [of _ b]) auto
    qed
  qed simp
qed (auto simp: filter_empty_conv)

lemma checkPermissionRef_None: "checkPermissionRef ref here = None \<longleftrightarrow> bare_ref ref"
proof
  assume h: "checkPermissionRef ref here = None"
  then have "length (filter (\<lambda>c. c = CHR '':'') ref) = 1" "\<not> HasPrefix ref '':''" "\<not> HasSuffix ref '':''"
    by (auto simp: checkPermissionRef_def Let_def split: if_splits)
  moreover from this(1) obtain a b where "ref = a @ CHR '':'' # b" "CHR '':'' \<notin> set a \<union> set b" by (metis one_colon)
  ultimately show "bare_ref ref"
    unfolding bare_ref_def by (intro exI [of _ a] exI [of _ b]) (auto simp: HasPrefix_iff HasSuffix_def)
next
  assume "bare_ref ref"
  then obtain a b where r: "ref = a @ CHR '':'' # b" "a \<noteq> []" "b \<noteq> []" "CHR '':'' \<notin> set a \<union> set b"
    by (auto simp: bare_ref_def)
  then have "length (filter (\<lambda>c. c = CHR '':'') ref) = 1" by (metis one_colon)
  moreover from r have "\<not> HasPrefix ref '':''" by (cases a) (auto simp: HasPrefix_iff)
  moreover from r have "\<not> HasSuffix ref '':''"
    by (cases b rule: rev_cases) (auto simp: HasSuffix_def HasPrefix_def)
  ultimately show "checkPermissionRef ref here = None" by (simp add: checkPermissionRef_def)
qed

lemma check_permissions_None: "check_permissions i seen ps = None \<longleftrightarrow>
    list_all wf_permission ps \<and> distinct (map ManifestPermission_Key ps) \<and> set (map ManifestPermission_Key ps) \<inter> set seen = {}"
  by (induction i seen ps rule: check_permissions.induct) (auto simp: wf_permission_def)

lemma check_refs_None: "check_refs here refs = None \<longleftrightarrow> (\<forall>ref \<in> set refs. bare_ref ref)"
  by (induction refs) (auto simp: checkPermissionRef_None [symmetric, of _ here] split: option.split)

lemma check_Some:
  "checkPermissionRef ref here = Some e \<Longrightarrow> \<not> bare_ref ref"
  "check_refs here refs = Some e \<Longrightarrow> \<not> (\<forall>ref \<in> set refs. bare_ref ref)"
  by (metis checkPermissionRef_None option.distinct(1), metis check_refs_None option.distinct(1))

lemma check_roles_None: "check_roles i seen rs = None \<longleftrightarrow>
    list_all wf_role rs \<and> distinct (map mr_Name rs) \<and> set (map mr_Name rs) \<inter> set seen = {}"
  by (induction i seen rs rule: check_roles.induct) (auto simp: wf_role_def check_refs_None dest: check_Some(2) split: option.splits)

lemma bare_ref_Nil: "\<not> bare_ref []"
  by (simp add: bare_ref_def)

lemma check_routes_None: "check_routes i pr rs = None \<longleftrightarrow>
    list_all wf_route rs \<and> distinct (map mt_Priority rs) \<and> set (map mt_Priority rs) \<inter> fst ` set pr = {}"
proof (induction i pr rs rule: check_routes.induct)
  case (2 i pr r rs)
  have n: "map_of pr (mt_Priority r) = None \<longleftrightarrow> mt_Priority r \<notin> fst ` set pr" by (simp add: map_of_eq_None_iff)
  show ?case
  proof (cases "wf_route r \<and> mt_Priority r \<notin> fst ` set pr")
    case True
    then have "check_routes i pr (r # rs) = check_routes (Suc i) ((mt_Priority r, mt_PathPattern r) # pr) rs"
      using n bare_ref_Nil by (auto simp: wf_route_def checkPermissionRef_None [symmetric, of _ "''route '' @ mt_PathPattern r"])
    moreover have "check_routes (Suc i) ((mt_Priority r, mt_PathPattern r) # pr) rs = None \<longleftrightarrow>
        list_all wf_route rs \<and> distinct (map mt_Priority rs) \<and> set (map mt_Priority rs) \<inter> fst ` set ((mt_Priority r, mt_PathPattern r) # pr) = {}"
      by (rule 2) (use True n bare_ref_Nil in \<open>auto simp: wf_route_def checkPermissionRef_None [symmetric, of _ "''route '' @ mt_PathPattern r"]\<close>)
    ultimately show ?thesis using True by auto
  next
    case False
    then have "check_routes i pr (r # rs) \<noteq> None"
      using n bare_ref_Nil by (auto simp: wf_route_def Let_def checkPermissionRef_None [symmetric, of _ "''route '' @ mt_PathPattern r"] split: option.splits)
    with False show ?thesis by auto
  qed
qed simp

lemma check_section_Some:
  "check_permissions 0 [] ps = Some e \<Longrightarrow> \<not> (list_all wf_permission ps \<and> distinct (map ManifestPermission_Key ps))"
  "check_roles 0 [] rs = Some e \<Longrightarrow> \<not> (list_all wf_role rs \<and> distinct (map mr_Name rs))"
  "check_routes 0 [] ts = Some e \<Longrightarrow> \<not> (list_all wf_route ts \<and> distinct (map mt_Priority ts))"
  using check_permissions_None [of 0 "[]" ps] check_roles_None [of 0 "[]" rs] check_routes_None [of 0 "[]" ts] by auto

lemma Validate_None: "Manifest_Validate m = None \<longleftrightarrow> wf_manifest m"
  by (auto simp: Manifest_Validate_def Manifest_Sections_def wf_manifest_def check_permissions_None check_roles_None
      check_routes_None dest: check_section_Some split: option.splits if_splits)

end
