(* ===== verification/Admin_Provision.thy ===== *)
theory Admin_Provision
  imports Admin
begin

text \<open>
  Provisioning (\<open>admin/provision.go\<close>): tenants, realms, applications and API keys, and the
  rest of the sign-in pages. What the server would refuse for its shape is refused here
  before anything is sent. A client secret and a key are in the answers of the calls that
  make them and in no record that is read back: \<open>Application\<close> and \<open>APIKey\<close> have no field for
  one.
\<close>

section \<open>Names\<close>

definition lower_digit :: "char \<Rightarrow> bool" where
  "lower_digit c \<longleftrightarrow> CHR ''a'' \<le> c \<and> c \<le> CHR ''z'' \<or> isDigit c"

text \<open>\<open>^[a-z0-9][a-z0-9_-]{1,62}$\<close> and \<open>^[a-z][a-z0-9_]{1,30}$\<close>.\<close>

definition slugRe :: "string \<Rightarrow> bool" where
  "slugRe s = (case s of [] \<Rightarrow> False
     | c # r \<Rightarrow> lower_digit c \<and> 1 \<le> length r \<and> length r \<le> 62 \<and>
         list_all (\<lambda>x. lower_digit x \<or> x = CHR ''_'' \<or> x = CHR ''-'') r)"

definition codeRe :: "string \<Rightarrow> bool" where
  "codeRe s = (case s of [] \<Rightarrow> False
     | c # r \<Rightarrow> CHR ''a'' \<le> c \<and> c \<le> CHR ''z'' \<and> 1 \<le> length r \<and> length r \<le> 30 \<and>
         list_all (\<lambda>x. lower_digit x \<or> x = CHR ''_'') r)"

definition checkSlug :: "string \<Rightarrow> string \<Rightarrow> goerr option" where
  "checkSlug kind s = (if slugRe s then None else Some (ErrText (''anubis/admin: '' @ kind @ '' slug is not valid: '' @ s)))"

definition checkCode :: "string \<Rightarrow> goerr option" where
  "checkCode s = (if codeRe s then None else Some (ErrText (''anubis/admin: realm code is not valid: '' @ s)))"

abbreviation (input) StatusActive :: string where "StatusActive \<equiv> ''active''"
abbreviation (input) StatusSuspended :: string where "StatusSuspended \<equiv> ''suspended''"
abbreviation (input) StatusArchived :: string where "StatusArchived \<equiv> ''archived''"
abbreviation (input) AppSPA :: string where "AppSPA \<equiv> ''spa''"
abbreviation (input) AppNative :: string where "AppNative \<equiv> ''native''"
abbreviation (input) AppServer :: string where "AppServer \<equiv> ''server''"
abbreviation (input) AppService :: string where "AppService \<equiv> ''service''"
abbreviation (input) SignInRoleHolders :: string where "SignInRoleHolders \<equiv> ''role_holders''"
abbreviation (input) RealmInternal :: string where "RealmInternal \<equiv> ''internal''"
abbreviation (input) RealmPartner :: string where "RealmPartner \<equiv> ''partner''"
abbreviation (input) RealmPublic :: string where "RealmPublic \<equiv> ''public''"
abbreviation (input) RealmService :: string where "RealmService \<equiv> ''service''"

section \<open>Tenants\<close>

record Tenant =
  te_ID :: string
  te_Slug :: string
  te_Name :: string
  te_Status :: string
  te_CreatedAt :: int
  te_ParentID :: string

definition zero_Tenant :: Tenant where
  "zero_Tenant = \<lparr>te_ID = [], te_Slug = [], te_Name = [], te_Status = [], te_CreatedAt = 0, te_ParentID = []\<rparr>"

definition dec_Tenant :: "json \<Rightarrow> Tenant \<Rightarrow> Tenant option" where
  "dec_Tenant = decode_struct
     [(''id'', set_string (\<lambda>v r. r\<lparr>te_ID := v\<rparr>)),
      (''slug'', set_string (\<lambda>v r. r\<lparr>te_Slug := v\<rparr>)),
      (''name'', set_string (\<lambda>v r. r\<lparr>te_Name := v\<rparr>)),
      (''status'', set_string (\<lambda>v r. r\<lparr>te_Status := v\<rparr>)),
      (''createdAt'', set_epoch (\<lambda>v r. r\<lparr>te_CreatedAt := v\<rparr>)),
      (''parentId'', set_string (\<lambda>v r. r\<lparr>te_ParentID := v\<rparr>))]"

definition Tenant_Created :: "Tenant \<Rightarrow> gotime" where "Tenant_Created t = epoch_time (te_CreatedAt t)"
definition Tenant_IsActive :: "Tenant \<Rightarrow> bool" where "Tenant_IsActive t \<longleftrightarrow> te_Status t = StatusActive"

definition Admin_Tenants :: "'w platform \<Rightarrow> 'w Client \<Rightarrow> 'w \<Rightarrow> Ctx \<Rightarrow> 'w \<times> Tenant list res" where
  "Admin_Tenants pf c w ctx =
     Admin_call pf c w ctx procListTenants (GMap [])
       (decode_struct [(''tenants'', set_list (\<lambda>v _. v) zero_Tenant dec_Tenant)]) []"

definition Admin_CreateTenant :: "'w platform \<Rightarrow> 'w Client \<Rightarrow> 'w \<Rightarrow> Ctx \<Rightarrow> string \<Rightarrow> string \<Rightarrow> 'w \<times> Tenant res" where
  "Admin_CreateTenant pf c w ctx slug name =
     (case checkSlug ''tenant'' slug of
        Some e \<Rightarrow> (w, Inl e)
      | None \<Rightarrow> and_then (Admin_call pf c w ctx procCreateTenant
            (GMap [(''slug'', GStr slug), (''name'', GStr name)])
            (decode_struct [(''tenant'', set_ptr (\<lambda>v. v) (\<lambda>v _. v) zero_Tenant dec_Tenant)]) None)
          (some_or ''anubis/admin: the server created no tenant''))"

definition Admin_RenameTenant :: "'w platform \<Rightarrow> 'w Client \<Rightarrow> 'w \<Rightarrow> Ctx \<Rightarrow> string \<Rightarrow> string \<Rightarrow> 'w \<times> unit res" where
  "Admin_RenameTenant pf c w ctx ident name =
     (if name = [] then (w, Inl (ErrText ''anubis/admin: a tenant needs a name''))
      else Admin_call pf c w ctx procUpdateTenant
             (GMap [(''id'', GStr ident), (''name'', GStr name)]) dec_nothing ())"

definition Admin_SetTenantStatus :: "'w platform \<Rightarrow> 'w Client \<Rightarrow> 'w \<Rightarrow> Ctx \<Rightarrow> string \<Rightarrow> string \<Rightarrow> 'w \<times> unit res" where
  "Admin_SetTenantStatus pf c w ctx ident status =
     (if status \<notin> {StatusActive, StatusSuspended, StatusArchived}
      then (w, Inl (ErrText (''anubis/admin: tenant status '' @ status)))
      else Admin_call pf c w ctx procSetTenantStatus
             (GMap [(''id'', GStr ident), (''status'', GStr status)]) dec_nothing ())"

section \<open>Realms\<close>

record Realm =
  ra_ID :: string
  ra_Code :: string
  ra_Kind :: string
  ra_DisplayName :: string
  ra_MinAssurance :: int
  ra_SelfRegistration :: bool
  ra_EmailVerificationRequired :: bool
  ra_PIIEncryption :: bool
  ra_AllowedFactors :: "string list option"
  ra_RequiredFactors :: "string list option"
  ra_SessionTTL :: string
  ra_AccessTokenTTL :: string
  ra_RefreshTokenTTL :: string
  ra_DefaultRetention :: string
  ra_PasswordPolicyJSON :: string
  ra_FactorEnrolmentDeadline :: int

definition zero_Realm :: Realm where
  "zero_Realm = \<lparr>ra_ID = [], ra_Code = [], ra_Kind = [], ra_DisplayName = [], ra_MinAssurance = 0, ra_SelfRegistration = False,
     ra_EmailVerificationRequired = False, ra_PIIEncryption = False, ra_AllowedFactors = None, ra_RequiredFactors = None,
     ra_SessionTTL = [], ra_AccessTokenTTL = [], ra_RefreshTokenTTL = [], ra_DefaultRetention = [],
     ra_PasswordPolicyJSON = [], ra_FactorEnrolmentDeadline = 0\<rparr>"

text \<open>These slices are written back, so nil and empty are kept apart: nil is \<open>null\<close>.\<close>

fun set_slice :: "(string list option \<Rightarrow> 'r \<Rightarrow> 'r) \<Rightarrow> 'r setter" where
  "set_slice upd (JArr vs) r = map_option (\<lambda>xs. upd (Some xs) r) (those (map to_string vs))"
| "set_slice upd JNull r = Some (upd None r)"
| "set_slice upd _ r = None"

definition slice_json :: "string list option \<Rightarrow> goval" where
  "slice_json x = (case x of None \<Rightarrow> GNull | Some xs \<Rightarrow> gstrs xs)"

definition dec_Realm :: "json \<Rightarrow> Realm \<Rightarrow> Realm option" where
  "dec_Realm = decode_struct
     [(''id'', set_string (\<lambda>v r. r\<lparr>ra_ID := v\<rparr>)),
      (''code'', set_string (\<lambda>v r. r\<lparr>ra_Code := v\<rparr>)),
      (''kind'', set_string (\<lambda>v r. r\<lparr>ra_Kind := v\<rparr>)),
      (''displayName'', set_string (\<lambda>v r. r\<lparr>ra_DisplayName := v\<rparr>)),
      (''minAssurance'', set_int (\<lambda>v r. r\<lparr>ra_MinAssurance := v\<rparr>)),
      (''selfRegistration'', set_bool (\<lambda>v r. r\<lparr>ra_SelfRegistration := v\<rparr>)),
      (''emailVerificationRequired'', set_bool (\<lambda>v r. r\<lparr>ra_EmailVerificationRequired := v\<rparr>)),
      (''piiEncryption'', set_bool (\<lambda>v r. r\<lparr>ra_PIIEncryption := v\<rparr>)),
      (''allowedFactors'', set_slice (\<lambda>v r. r\<lparr>ra_AllowedFactors := v\<rparr>)),
      (''requiredFactors'', set_slice (\<lambda>v r. r\<lparr>ra_RequiredFactors := v\<rparr>)),
      (''sessionTtl'', set_string (\<lambda>v r. r\<lparr>ra_SessionTTL := v\<rparr>)),
      (''accessTokenTtl'', set_string (\<lambda>v r. r\<lparr>ra_AccessTokenTTL := v\<rparr>)),
      (''refreshTokenTtl'', set_string (\<lambda>v r. r\<lparr>ra_RefreshTokenTTL := v\<rparr>)),
      (''defaultRetention'', set_string (\<lambda>v r. r\<lparr>ra_DefaultRetention := v\<rparr>)),
      (''passwordPolicyJson'', set_string (\<lambda>v r. r\<lparr>ra_PasswordPolicyJSON := v\<rparr>)),
      (''factorEnrolmentDeadline'', set_epoch (\<lambda>v r. r\<lparr>ra_FactorEnrolmentDeadline := v\<rparr>))]"

definition Realm_json :: "Realm \<Rightarrow> goval" where
  "Realm_json r =
     GStruct [(''id'', GStr (ra_ID r)), (''code'', GStr (ra_Code r)), (''kind'', GStr (ra_Kind r)),
       (''displayName'', GStr (ra_DisplayName r)), (''minAssurance'', GInt (ra_MinAssurance r)),
       (''selfRegistration'', GBool (ra_SelfRegistration r)),
       (''emailVerificationRequired'', GBool (ra_EmailVerificationRequired r)), (''piiEncryption'', GBool (ra_PIIEncryption r)),
       (''allowedFactors'', slice_json (ra_AllowedFactors r)), (''requiredFactors'', slice_json (ra_RequiredFactors r)),
       (''sessionTtl'', GStr (ra_SessionTTL r)), (''accessTokenTtl'', GStr (ra_AccessTokenTTL r)),
       (''refreshTokenTtl'', GStr (ra_RefreshTokenTTL r)), (''defaultRetention'', GStr (ra_DefaultRetention r)),
       (''passwordPolicyJson'', GStr (ra_PasswordPolicyJSON r)),
       (''factorEnrolmentDeadline'', epoch_json (ra_FactorEnrolmentDeadline r))]"

definition Realm_EnrolmentDeadline :: "Realm \<Rightarrow> gotime" where
  "Realm_EnrolmentDeadline r = epoch_time (ra_FactorEnrolmentDeadline r)"

definition Admin_Realms :: "'w platform \<Rightarrow> 'w Client \<Rightarrow> 'w \<Rightarrow> Ctx \<Rightarrow> 'w \<times> Realm list res" where
  "Admin_Realms pf c w ctx =
     Admin_call pf c w ctx procListRealms (GMap [])
       (decode_struct [(''realms'', set_list (\<lambda>v _. v) zero_Realm dec_Realm)]) []"

definition realmCall :: "'w platform \<Rightarrow> 'w Client \<Rightarrow> 'w \<Rightarrow> Ctx \<Rightarrow> string \<Rightarrow> Realm \<Rightarrow> 'w \<times> Realm res" where
  "realmCall pf c w ctx procedure r =
     and_then (Admin_call pf c w ctx procedure (GMap [(''realm'', Realm_json r)])
         (decode_struct [(''realm'', set_ptr (\<lambda>v. v) (\<lambda>v _. v) zero_Realm dec_Realm)]) None)
       (some_or ''anubis/admin: the server returned no realm'')"

definition Admin_CreateRealm :: "'w platform \<Rightarrow> 'w Client \<Rightarrow> 'w \<Rightarrow> Ctx \<Rightarrow> Realm \<Rightarrow> 'w \<times> Realm res" where
  "Admin_CreateRealm pf c w ctx r =
     (case checkCode (ra_Code r) of
        Some e \<Rightarrow> (w, Inl e)
      | None \<Rightarrow>
          if ra_Kind r \<notin> {RealmInternal, RealmPartner, RealmPublic, RealmService}
          then (w, Inl (ErrText (''anubis/admin: realm kind '' @ ra_Kind r)))
          else realmCall pf c w ctx procCreateRealm r)"

definition Admin_UpdateRealm :: "'w platform \<Rightarrow> 'w Client \<Rightarrow> 'w \<Rightarrow> Ctx \<Rightarrow> Realm \<Rightarrow> 'w \<times> Realm res" where
  "Admin_UpdateRealm pf c w ctx r =
     (if ra_ID r = [] then (w, Inl (ErrText ''anubis/admin: updating a realm needs its id''))
      else realmCall pf c w ctx procUpdateRealm r)"

section \<open>Applications\<close>

record Application =
  ac_ID :: string
  ac_Slug :: string
  ac_Name :: string
  ac_Kind :: string
  ac_Status :: string
  ac_RedirectURIs :: "string list option"
  ac_BackchannelLogoutURI :: string
  ac_PostLogoutRedirectURIs :: "string list option"
  ac_TokenFormat :: string
  ac_AccessTokenTTL :: string
  ac_RefreshTokenTTL :: string
  ac_ManifestVersion :: int
  ac_AllowedAudiences :: "string list option"
  ac_SignIn :: string

definition zero_Application :: Application where
  "zero_Application = \<lparr>ac_ID = [], ac_Slug = [], ac_Name = [], ac_Kind = [], ac_Status = [], ac_RedirectURIs = None,
     ac_BackchannelLogoutURI = [], ac_PostLogoutRedirectURIs = None, ac_TokenFormat = [], ac_AccessTokenTTL = [],
     ac_RefreshTokenTTL = [], ac_ManifestVersion = 0, ac_AllowedAudiences = None, ac_SignIn = []\<rparr>"

definition dec_Application :: "json \<Rightarrow> Application \<Rightarrow> Application option" where
  "dec_Application = decode_struct
     [(''id'', set_string (\<lambda>v r. r\<lparr>ac_ID := v\<rparr>)),
      (''slug'', set_string (\<lambda>v r. r\<lparr>ac_Slug := v\<rparr>)),
      (''name'', set_string (\<lambda>v r. r\<lparr>ac_Name := v\<rparr>)),
      (''kind'', set_string (\<lambda>v r. r\<lparr>ac_Kind := v\<rparr>)),
      (''status'', set_string (\<lambda>v r. r\<lparr>ac_Status := v\<rparr>)),
      (''redirectUris'', set_slice (\<lambda>v r. r\<lparr>ac_RedirectURIs := v\<rparr>)),
      (''backchannelLogoutUri'', set_string (\<lambda>v r. r\<lparr>ac_BackchannelLogoutURI := v\<rparr>)),
      (''postLogoutRedirectUris'', set_slice (\<lambda>v r. r\<lparr>ac_PostLogoutRedirectURIs := v\<rparr>)),
      (''tokenFormat'', set_string (\<lambda>v r. r\<lparr>ac_TokenFormat := v\<rparr>)),
      (''accessTokenTtl'', set_string (\<lambda>v r. r\<lparr>ac_AccessTokenTTL := v\<rparr>)),
      (''refreshTokenTtl'', set_string (\<lambda>v r. r\<lparr>ac_RefreshTokenTTL := v\<rparr>)),
      (''manifestVersion'', set_int (\<lambda>v r. r\<lparr>ac_ManifestVersion := v\<rparr>)),
      (''allowedAudiences'', set_slice (\<lambda>v r. r\<lparr>ac_AllowedAudiences := v\<rparr>)),
      (''signIn'', set_string (\<lambda>v r. r\<lparr>ac_SignIn := v\<rparr>))]"

definition Application_json :: "Application \<Rightarrow> goval" where
  "Application_json a =
     GStruct ([(''id'', GStr (ac_ID a)), (''slug'', GStr (ac_Slug a)), (''name'', GStr (ac_Name a)), (''kind'', GStr (ac_Kind a)),
       (''status'', GStr (ac_Status a)), (''redirectUris'', slice_json (ac_RedirectURIs a)),
       (''backchannelLogoutUri'', GStr (ac_BackchannelLogoutURI a)),
       (''postLogoutRedirectUris'', slice_json (ac_PostLogoutRedirectURIs a)), (''tokenFormat'', GStr (ac_TokenFormat a)),
       (''accessTokenTtl'', GStr (ac_AccessTokenTTL a)), (''refreshTokenTtl'', GStr (ac_RefreshTokenTTL a)),
       (''manifestVersion'', GInt (ac_ManifestVersion a)), (''allowedAudiences'', slice_json (ac_AllowedAudiences a))] @
       (if ac_SignIn a = [] then [] else [(''signIn'', GStr (ac_SignIn a))]))"

definition Application_OnlyRoleHolders :: "Application \<Rightarrow> bool" where
  "Application_OnlyRoleHolders a \<longleftrightarrow> ac_SignIn a = SignInRoleHolders"

definition Application_NeedsClientSecret :: "Application \<Rightarrow> bool" where
  "Application_NeedsClientSecret a \<longleftrightarrow> ac_Kind a = AppServer \<or> ac_Kind a = AppService"

record NewApplication =
  na_Application :: Application
  na_ClientSecret :: string

record ApplicationQuery =
  aq_Query :: string
  aq_PageSize :: int
  aq_Page :: string

record ApplicationPage =
  pg_Applications :: "Application list"
  pg_NextPage :: string
  pg_Total :: int

definition dec_ApplicationPage :: "json \<Rightarrow> ApplicationPage \<Rightarrow> ApplicationPage option" where
  "dec_ApplicationPage = decode_struct
     [(''applications'', set_list (\<lambda>v r. r\<lparr>pg_Applications := v\<rparr>) zero_Application dec_Application),
      (''nextPageToken'', set_string (\<lambda>v r. r\<lparr>pg_NextPage := v\<rparr>)),
      (''total'', set_int (\<lambda>v r. r\<lparr>pg_Total := v\<rparr>))]"

definition Admin_Applications :: "'w platform \<Rightarrow> 'w Client \<Rightarrow> 'w \<Rightarrow> Ctx \<Rightarrow> ApplicationQuery \<Rightarrow> 'w \<times> ApplicationPage res" where
  "Admin_Applications pf c w ctx q =
     Admin_call pf c w ctx procListApplications
       (GMap [(''query'', GStr (aq_Query q)), (''page_size'', GInt (aq_PageSize q)), (''page_token'', GStr (aq_Page q))])
       dec_ApplicationPage \<lparr>pg_Applications = [], pg_NextPage = [], pg_Total = 0\<rparr>"

abbreviation (input) maxApplications :: nat where "maxApplications \<equiv> 10000"

definition application_page :: "'w platform \<Rightarrow> 'w Client \<Rightarrow> Ctx \<Rightarrow> ApplicationQuery \<Rightarrow> 'w \<Rightarrow> string \<Rightarrow> 'w \<times> (Application list \<times> string) res" where
  "application_page pf c ctx q w page =
     and_then (Admin_Applications pf c w ctx (q\<lparr>aq_Page := page\<rparr>)) (\<lambda>p. Inr (pg_Applications p, pg_NextPage p))"

definition Admin_AllApplications ::
  "'w platform \<Rightarrow> 'w Client \<Rightarrow> 'w \<Rightarrow> Ctx \<Rightarrow> ApplicationQuery \<Rightarrow> ('w \<times> Application list res) option" where
  "Admin_AllApplications pf c w ctx q =
     walk (application_page pf c ctx q) maxApplications
       (ErrText ''anubis/admin: more than 10000 applications; narrow it with Query, or page it with Applications'')
       (\<lambda>t. ErrText (''anubis/admin: repeated application page token '' @ t)) w (aq_Page q) [] []"

definition Admin_CreateApplication :: "'w platform \<Rightarrow> 'w Client \<Rightarrow> 'w \<Rightarrow> Ctx \<Rightarrow> Application \<Rightarrow> 'w \<times> NewApplication res" where
  "Admin_CreateApplication pf c w ctx a =
     (case checkSlug ''application'' (ac_Slug a) of
        Some e \<Rightarrow> (w, Inl e)
      | None \<Rightarrow>
          if ac_Kind a \<notin> {AppSPA, AppNative, AppServer, AppService}
          then (w, Inl (ErrText (''anubis/admin: application kind '' @ ac_Kind a)))
          else and_then (Admin_call pf c w ctx procCreateApplication
              (GMap [(''application'', Application_json a)])
              (decode_struct [(''application'', set_ptr fst (\<lambda>v (_, sec). (v, sec)) zero_Application dec_Application),
                              (''clientSecret'', set_string (\<lambda>v (app, _). (app, v)))]) (None, []))
            (\<lambda>(app, sec). case app of
               None \<Rightarrow> Inl (ErrText ''anubis/admin: the server created no application'')
             | Some a' \<Rightarrow> Inr \<lparr>na_Application = a', na_ClientSecret = sec\<rparr>))"

definition Admin_UpdateApplication :: "'w platform \<Rightarrow> 'w Client \<Rightarrow> 'w \<Rightarrow> Ctx \<Rightarrow> Application \<Rightarrow> 'w \<times> Application res" where
  "Admin_UpdateApplication pf c w ctx a =
     (if ac_ID a = [] then (w, Inl (ErrText ''anubis/admin: updating an application needs its id''))
      else and_then (Admin_call pf c w ctx procUpdateApplication
            (GMap [(''application'', Application_json a)])
            (decode_struct [(''application'', set_ptr (\<lambda>v. v) (\<lambda>v _. v) zero_Application dec_Application)]) None)
          (some_or ''anubis/admin: no application''))"

definition Admin_RotateClientSecret :: "'w platform \<Rightarrow> 'w Client \<Rightarrow> 'w \<Rightarrow> Ctx \<Rightarrow> string \<Rightarrow> 'w \<times> string res" where
  "Admin_RotateClientSecret pf c w ctx applicationID =
     and_then (Admin_call pf c w ctx procRotateClientSecret
         (GMap [(''application_id'', GStr applicationID)])
         (decode_struct [(''clientSecret'', set_string (\<lambda>v _. v))]) [])
       (\<lambda>sec. if sec = [] then Inl (ErrText ''anubis/admin: the server returned no client secret'') else Inr sec)"

section \<open>API keys\<close>

record APIKey =
  ak_ID :: string
  ak_Label :: string
  ak_Prefix :: string
  ak_CreatedBy :: string
  ak_CreatedAt :: int
  ak_LastUsedAt :: int
  ak_ExpiresAt :: int
  ak_RevokedAt :: int

definition zero_APIKey :: APIKey where
  "zero_APIKey = \<lparr>ak_ID = [], ak_Label = [], ak_Prefix = [], ak_CreatedBy = [], ak_CreatedAt = 0, ak_LastUsedAt = 0,
     ak_ExpiresAt = 0, ak_RevokedAt = 0\<rparr>"

definition dec_APIKey :: "json \<Rightarrow> APIKey \<Rightarrow> APIKey option" where
  "dec_APIKey = decode_struct
     [(''id'', set_string (\<lambda>v r. r\<lparr>ak_ID := v\<rparr>)),
      (''label'', set_string (\<lambda>v r. r\<lparr>ak_Label := v\<rparr>)),
      (''prefix'', set_string (\<lambda>v r. r\<lparr>ak_Prefix := v\<rparr>)),
      (''createdBy'', set_string (\<lambda>v r. r\<lparr>ak_CreatedBy := v\<rparr>)),
      (''createdAt'', set_epoch (\<lambda>v r. r\<lparr>ak_CreatedAt := v\<rparr>)),
      (''lastUsedAt'', set_epoch (\<lambda>v r. r\<lparr>ak_LastUsedAt := v\<rparr>)),
      (''expiresAt'', set_epoch (\<lambda>v r. r\<lparr>ak_ExpiresAt := v\<rparr>)),
      (''revokedAt'', set_epoch (\<lambda>v r. r\<lparr>ak_RevokedAt := v\<rparr>))]"

definition APIKey_Created :: "APIKey \<Rightarrow> gotime" where "APIKey_Created k = epoch_time (ak_CreatedAt k)"
definition APIKey_LastUsed :: "APIKey \<Rightarrow> gotime" where "APIKey_LastUsed k = epoch_time (ak_LastUsedAt k)"
definition APIKey_Expires :: "APIKey \<Rightarrow> gotime" where "APIKey_Expires k = epoch_time (ak_ExpiresAt k)"

definition APIKey_IsLive :: "APIKey \<Rightarrow> gotime \<Rightarrow> bool" where
  "APIKey_IsLive k at =
     (if \<not> Time_IsZero (epoch_time (ak_RevokedAt k)) \<and> \<not> at < epoch_time (ak_RevokedAt k) then False
      else Time_IsZero (epoch_time (ak_ExpiresAt k)) \<or> at < epoch_time (ak_ExpiresAt k))"

record NewAPIKey =
  nk_ID :: string
  nk_Prefix :: string
  nk_Key :: string

definition Admin_APIKeys :: "'w platform \<Rightarrow> 'w Client \<Rightarrow> 'w \<Rightarrow> Ctx \<Rightarrow> 'w \<times> APIKey list res" where
  "Admin_APIKeys pf c w ctx =
     Admin_call pf c w ctx procListAPIKeys (GMap [])
       (decode_struct [(''keys'', set_list (\<lambda>v _. v) zero_APIKey dec_APIKey)]) []"

text \<open>The key, its prefix and its id, as the answer carries them.\<close>

definition dec_new_key :: "json \<Rightarrow> NewAPIKey \<Rightarrow> NewAPIKey option" where
  "dec_new_key = decode_struct
     [(''apiKey'', set_string (\<lambda>v r. r\<lparr>nk_Key := v\<rparr>)), (''prefix'', set_string (\<lambda>v r. r\<lparr>nk_Prefix := v\<rparr>)),
      (''id'', set_string (\<lambda>v r. r\<lparr>nk_ID := v\<rparr>))]"

definition Admin_CreateAPIKey :: "'w platform \<Rightarrow> 'w Client \<Rightarrow> 'w \<Rightarrow> Ctx \<Rightarrow> string \<Rightarrow> gotime \<Rightarrow> 'w \<times> NewAPIKey res" where
  "Admin_CreateAPIKey pf c w ctx label expires =
     (if label = [] then (w, Inl (ErrText ''anubis/admin: an api key needs a label; it is all an access review has to go on''))
      else if \<not> Time_IsZero expires \<and> expires < pf_now pf w
      then (w, Inl (ErrText ''anubis/admin: api key expiry is in the past''))
      else and_then (Admin_call pf c w ctx procCreateAPIKey
          (GMap [(''label'', GStr label), (''expires_at'', GInt (if Time_IsZero expires then 0 else Time_Unix expires))])
          dec_new_key \<lparr>nk_ID = [], nk_Prefix = [], nk_Key = []\<rparr>)
        (\<lambda>k. if nk_Key k = [] then Inl (ErrText ''anubis/admin: the server returned no api key'') else Inr k))"

definition Admin_RevokeAPIKey :: "'w platform \<Rightarrow> 'w Client \<Rightarrow> 'w \<Rightarrow> Ctx \<Rightarrow> string \<Rightarrow> 'w \<times> unit res" where
  "Admin_RevokeAPIKey pf c w ctx ident =
     Admin_call pf c w ctx procRevokeAPIKey (GMap [(''id'', GStr ident)]) dec_nothing ()"

section \<open>Sign-in pages, the rest of them\<close>

definition Admin_CreateAuthPage :: "'w platform \<Rightarrow> 'w Client \<Rightarrow> 'w \<Rightarrow> Ctx \<Rightarrow> AuthPage \<Rightarrow> 'w \<times> AuthPage res" where
  "Admin_CreateAuthPage pf c w ctx p =
     (if AuthPage_BoundToApplication p \<and> AuthPage_BoundToRealm p then (w, Inl ErrAuthPageBinding)
      else if ap_Kind p \<noteq> ''signin'' \<and> ap_Kind p \<noteq> ''signout''
      then (w, Inl (ErrText (''anubis/admin: auth page kind '' @ ap_Kind p)))
      else and_then (Admin_call pf c w ctx procCreateAuthPage
            (GMap [(''page'', AuthPage_json p)]) page_answer None)
          (some_or ''anubis/admin: the server created no auth page''))"

definition Admin_DeleteAuthPage :: "'w platform \<Rightarrow> 'w Client \<Rightarrow> 'w \<Rightarrow> Ctx \<Rightarrow> string \<Rightarrow> 'w \<times> unit res" where
  "Admin_DeleteAuthPage pf c w ctx ident =
     Admin_call pf c w ctx procDeleteAuthPage (GMap [(''id'', GStr ident)]) dec_nothing ()"

definition Admin_SetDefaultAuthPage :: "'w platform \<Rightarrow> 'w Client \<Rightarrow> 'w \<Rightarrow> Ctx \<Rightarrow> string \<Rightarrow> 'w \<times> unit res" where
  "Admin_SetDefaultAuthPage pf c w ctx ident =
     (if ident = [] then (w, Inl (ErrText ''anubis/admin: setting a default auth page needs its id''))
      else Admin_call pf c w ctx procSetDefaultAuthPage (GMap [(''id'', GStr ident)]) dec_nothing ())"

text \<open>A code is a slug; a slug with a hyphen or a leading digit is no code.\<close>

lemma code_is_slug: "codeRe s \<Longrightarrow> slugRe s"
  by (auto simp: codeRe_def slugRe_def lower_digit_def list_all_iff split: list.splits)

end
