(* ===== verification/Fake_Server.thy ===== *)
theory Fake_Server
  imports Mint Admin_Manifest Admin_Provision
begin

text \<open>
  The server the SDK ships for tests (\<open>anubistest/\<close>): its state, how it reads a request and
  writes an answer, the guard of its admin half and the supply of fresh ids.

  The fields are those of \<open>Server\<close>. A Go map is an association list, a set of strings
  the list of its elements. A handler is a function of the state, that is one step, though some
  take the mutex more than once (\<open>refuseLink\<close> in front of others, \<open>openAccessLink\<close>,
  \<open>refresh\<close>, \<open>tokenExchange\<close>); \<open>Token_Flight\<close> interleaves the sections of \<open>refresh\<close>. What a handler takes from elsewhere is its \<open>fake_env\<close>: the clock, its
  random ids in the order it asks for them, the signer, \<open>strings.ToLower\<close> (its Unicode
  tables), SHA-256, the two things it does with a URL, reading its query and replacing it,
  and the server's own address and public key.

  The lemmas: \<open>freshID\<close> returns, with an id nothing holds, and a request body the client
  marshalled is the struct it was marshalled from.
\<close>

section \<open>Rows\<close>

record GrantRow =
  gw_ID :: string
  gw_Role :: string
  gw_SelfScoped :: bool
  gw_ValidFrom :: int
  gw_ValidUntil :: int
  gw_RevokedAt :: int
  gw_ViaMembership :: string
  gw_ViaAssignment :: string
  gw_Reason :: string
  gw_RevokeReason :: string
  gw_Scopes :: "(string \<times> string list) list"
  gw_Excludes :: "(string \<times> string list) list"

record ScopeNodeRow =
  nw_ID :: string
  nw_Name :: string
  nw_ParentID :: string
  nw_Status :: string
  nw_Axis :: string

record MembershipRow =
  mw_ID :: string
  mw_Name :: string
  mw_Description :: string
  mw_MemberCount :: int
  mw_AnchorAxis :: string

record CatalogSourceRow =
  kw_ID :: string
  kw_ApplicationSlug :: string
  kw_Name :: string
  kw_Kind :: string
  kw_Format :: string
  kw_Status :: string
  kw_ConfigJSON :: string
  kw_IntervalSeconds :: int
  kw_LastRunAt :: int
  kw_LastStatus :: string

record SyncSourceRow =
  yw_ID :: string
  yw_Axis :: string
  yw_Kind :: string
  yw_Status :: string
  yw_ConfigJSON :: string
  yw_LastRunAt :: int
  yw_IntervalSeconds :: int

record AuthPageRow =
  pw_ID :: string
  pw_Kind :: string
  pw_Slug :: string
  pw_Name :: string
  pw_Status :: string
  pw_ApplicationSlug :: string
  pw_RealmCode :: string
  pw_IsDefault :: bool
  pw_ConfigJSON :: string

record manifestApp =
  mf_permissions :: "string list"
  mf_roles :: "string list"
  mf_deprecatedPerm :: "string list"
  mf_deprecatedRole :: "string list"
  mf_routes :: int
  mf_version :: int

record TenantRow =
  tw_ID :: string
  tw_Slug :: string
  tw_Name :: string
  tw_Status :: string
  tw_CreatedAt :: int
  tw_ParentID :: string

record ApplicationRow =
  aw_ID :: string
  aw_Slug :: string
  aw_Name :: string
  aw_Kind :: string
  aw_Status :: string
  aw_RedirectURIs :: "string list"
  aw_ManifestVersion :: int
  aw_AllowedAudiences :: "string list"
  aw_SignIn :: string

record apiKeyRow =
  xw_id :: string
  xw_label :: string
  xw_prefix :: string
  xw_createdAt :: int
  xw_expiresAt :: int
  xw_revokedAt :: int

record authCode =
  co_challenge :: string
  co_redirectURI :: string
  co_clientID :: string
  co_subject :: string

record Ask =
  as_Subject :: string
  as_Permission :: string
  as_Scopes :: smap
  as_AMR :: "string list"
  as_AuthTime :: int

section \<open>The state\<close>

text \<open>A realm is kept as the object it came as (\<open>map[string]any\<close>).\<close>

record Server =
  sv_decisions :: "(string \<times> Decision) list"
  sv_granted :: "(string \<times> GrantedNodes) list"
  sv_shares :: "(string \<times> RecordShare) list"
  sv_links :: smap
  sv_linkBearers :: "string list"
  sv_liveRefresh :: smap
  sv_issued :: smap
  sv_consumed :: "string list"
  sv_codes :: "(string \<times> authCode) list"
  sv_grants :: "(string \<times> GrantRow list) list"
  sv_scopeNodes :: "ScopeNodeRow list"
  sv_memberships :: "MembershipRow list"
  sv_scopeNodePage :: int
  sv_platformKey :: string
  sv_catalogSources :: "(string \<times> CatalogSourceRow) list"
  sv_catalogRuns :: "(string \<times> goval list) list"
  sv_syncSources :: "(string \<times> SyncSourceRow) list"
  sv_authPages :: "(string \<times> AuthPageRow) list"
  sv_manifests :: "(string \<times> manifestApp) list"
  sv_tenants :: "(string \<times> TenantRow) list"
  sv_realms :: "(string \<times> (string \<times> goval) list) list"
  sv_applications :: "(string \<times> ApplicationRow) list"
  sv_apiKeys :: "(string \<times> apiKeyRow) list"
  sv_applicationPage :: int
  sv_seq :: nat
  sv_Calls :: "(string \<times> nat) list"
  sv_lastAsk :: Ask

definition zero_Ask :: Ask where
  "zero_Ask = \<lparr>as_Subject = [], as_Permission = [], as_Scopes = [], as_AMR = [], as_AuthTime = 0\<rparr>"

definition NewServer :: Server where
  "NewServer = \<lparr>sv_decisions = [], sv_granted = [], sv_shares = [], sv_links = [], sv_linkBearers = [],
     sv_liveRefresh = [], sv_issued = [], sv_consumed = [], sv_codes = [], sv_grants = [], sv_scopeNodes = [],
     sv_memberships = [], sv_scopeNodePage = 50, sv_platformKey = [], sv_catalogSources = [], sv_catalogRuns = [],
     sv_syncSources = [], sv_authPages = [], sv_manifests = [], sv_tenants = [], sv_realms = [], sv_applications = [],
     sv_apiKeys = [], sv_applicationPage = 0, sv_seq = 0, sv_Calls = [], sv_lastAsk = zero_Ask\<rparr>"

record fake_env =
  ev_now :: gotime
  ev_random :: "nat \<Rightarrow> string"
  ev_mint :: "Claims \<Rightarrow> string"
  ev_lower :: "string \<Rightarrow> string"
  ev_url_query :: "string \<Rightarrow> url_values"
  ev_url_with :: "string \<Rightarrow> string \<Rightarrow> string"
  ev_sha256 :: "bytes \<Rightarrow> bytes"
  ev_issuer :: string
  ev_public :: bytes

type_synonym handler = "fake_env \<Rightarrow> Server \<Rightarrow> http_request \<Rightarrow> Server \<times> http_response"

definition unix_now :: "fake_env \<Rightarrow> int" where "unix_now ev = Time_Unix (ev_now ev)"

definition count :: "string \<Rightarrow> Server \<Rightarrow> Server" where
  "count name s = s\<lparr>sv_Calls :=
     AList.update name (Suc (case map_of (sv_Calls s) name of None \<Rightarrow> 0 | Some n \<Rightarrow> n)) (sv_Calls s)\<rparr>"

section \<open>Answers\<close>

text \<open>\<open>json.Encoder.Encode\<close> ends the value with a newline.\<close>

definition writeJSON :: "int \<Rightarrow> goval \<Rightarrow> http_response" where
  "writeJSON status v =
     \<lparr>rs_status = status, rs_header = [(''Content-Type'', ''application/json'')], rs_body = marshal v @ [CHR 0x0A],
      rs_read_err = None\<rparr>"

definition httpError :: "int \<Rightarrow> string \<Rightarrow> string \<Rightarrow> http_response" where
  "httpError status code message =
     writeJSON status (GMap [(''error'', GStr code), (''message'', GStr message), (''request_id'', GStr ''req_test'')])"

definition httpErrorWithDetails :: "int \<Rightarrow> string \<Rightarrow> string \<Rightarrow> smap \<Rightarrow> http_response" where
  "httpErrorWithDetails status code message details =
     writeJSON status (GMap [(''error'', GStr code), (''message'', GStr message), (''request_id'', GStr ''req_test''),
       (''details'', gsmap details)])"

abbreviation (input) answer_ok :: "goval \<Rightarrow> http_response" where "answer_ok \<equiv> writeJSON 200"
abbreviation (input) bad_argument :: "string \<Rightarrow> http_response" where "bad_argument \<equiv> httpError 400 ''invalid_argument''"
abbreviation (input) not_found :: "string \<Rightarrow> http_response" where "not_found \<equiv> httpError 404 ''not_found''"
abbreviation (input) taken_already :: "string \<Rightarrow> http_response" where "taken_already \<equiv> httpError 409 ''already_exists''"

section \<open>Requests\<close>

text \<open>
  Most handlers drop the error of \<open>Decode\<close>. A body that is no JSON leaves the struct zero; a
  member of the wrong type is passed over and the others are stored.
\<close>

fun lenient :: "(string \<times> 'r setter) list \<Rightarrow> json \<Rightarrow> 'r \<Rightarrow> 'r" where
  "lenient fs (JObj ms) r =
     foldl (\<lambda>r (raw, v). case field_for fs (unquote raw) of
       None \<Rightarrow> r | Some f \<Rightarrow> (case f v r of None \<Rightarrow> r | Some r' \<Rightarrow> r')) r ms"
| "lenient fs _ r = r"

definition read_body :: "(string \<times> 'r setter) list \<Rightarrow> 'r \<Rightarrow> http_request \<Rightarrow> 'r" where
  "read_body fs zero rq = (case parse_value (rq_body rq) of None \<Rightarrow> zero | Some (v, _) \<Rightarrow> lenient fs v zero)"

definition set_nested :: "(string \<times> 'r setter) list \<Rightarrow> 'r setter" where
  "set_nested fs v r = Some (lenient fs v r)"

text \<open>A request of one string member.\<close>

definition read_string :: "string \<Rightarrow> http_request \<Rightarrow> string" where
  "read_string name = read_body [(name, set_string (\<lambda>v _. v))] []"

section \<open>The guard\<close>

definition guarded :: "handler \<Rightarrow> handler" where
  "guarded h ev s rq =
     (if sv_platformKey s \<noteq> [] \<and> header_Get (rq_header rq) ''Authorization'' \<noteq> ''Bearer '' @ sv_platformKey s
      then (s, httpErrorWithDetails 403 ''permission_denied'' operator_hint [(''hint'', operator_hint)])
      else h ev s rq)"

section \<open>Fresh ids\<close>

definition seq_id :: "string \<Rightarrow> nat \<Rightarrow> string" where
  "seq_id prefix n = prefix @ ''_'' @ FormatInt (int n)"

lemma nat_dec_inj: "nat_dec m = nat_dec n \<longleftrightarrow> m = n"
  by (metis nat_dec_facts)

lemma seq_id_inj: "seq_id p m = seq_id p n \<longleftrightarrow> m = n"
  by (simp add: seq_id_def FormatInt_def nat_dec_inj)

function freshID :: "string \<Rightarrow> string list \<Rightarrow> nat \<Rightarrow> nat \<times> string" where
  "freshID prefix taken n =
     (let i = seq_id prefix (Suc n) in if i \<in> set taken then freshID prefix taken (Suc n) else (Suc n, i))"
  by auto
termination
proof (relation "measure (\<lambda>(p, taken, n). card {i \<in> set taken. \<exists>m > n. i = seq_id p m})")
  fix p :: string and taken and n i
  assume i: "i = seq_id p (Suc n)" "i \<in> set taken"
  have "{i \<in> set taken. \<exists>m > Suc n. i = seq_id p m} \<subset> {i \<in> set taken. \<exists>m > n. i = seq_id p m}"
  proof
    have "\<not> (\<exists>m > Suc n. i = seq_id p m)" using i(1) by (auto simp: seq_id_inj)
    moreover have "\<exists>m > n. i = seq_id p m" using i(1) by auto
    ultimately show "{i \<in> set taken. \<exists>m > Suc n. i = seq_id p m} \<noteq> {i \<in> set taken. \<exists>m > n. i = seq_id p m}"
      using i(2) by blast
  qed (use Suc_lessD in blast)
  then show "((p, taken, Suc n), p, taken, n) \<in> measure (\<lambda>(p, taken, n). card {i \<in> set taken. \<exists>m > n. i = seq_id p m})"
    by (simp add: psubset_card_mono)
qed simp

declare freshID.simps [simp del]

lemma freshID_fresh: "freshID p taken n = (m, i) \<Longrightarrow> n < m \<and> i = seq_id p m \<and> i \<notin> set taken"
proof (induction p taken n rule: freshID.induct)
  case (1 p taken n)
  from "1.prems" have "(if seq_id p (Suc n) \<in> set taken then freshID p taken (Suc n) else (Suc n, seq_id p (Suc n))) = (m, i)"
    by (subst (asm) freshID.simps) (simp add: Let_def)
  with "1.IH" [OF refl] show ?case by (auto split: if_splits)
qed

section \<open>Times and numbers\<close>

text \<open>
  \<open>itoa64\<close>. Negating the least int64 leaves it negative, so nothing but the sign is written.
\<close>

definition itoa64 :: "int \<Rightarrow> string" where
  "itoa64 n =
     (if n = 0 then ''0''
      else let m = (if n < 0 then wrap64 (- n) else n); ds = (if 0 < m then nat_dec (nat m) else [])
        in if n < 0 then CHR ''-'' # ds else ds)"

lemma itoa64_FormatInt: "in64 n \<Longrightarrow> n \<noteq> - (2 ^ 63) \<Longrightarrow> itoa64 n = FormatInt n"
  by (auto simp: itoa64_def FormatInt_def Let_def in64_def nat_dec.simps [of 0] digit_def char_of_def bit_0)

section \<open>Bodies that round trip\<close>

lemma lenient_decode: "decode_struct fs v r = Some r' \<Longrightarrow> lenient fs v r = r'"
proof (cases v)
  case (JObj ms)
  assume "decode_struct fs v r = Some r'"
  with JObj have "decode_members fs ms r = Some r'" by simp
  then have "foldl (\<lambda>r (raw, v). case field_for fs (unquote raw) of
       None \<Rightarrow> r | Some f \<Rightarrow> (case f v r of None \<Rightarrow> r | Some r' \<Rightarrow> r')) r ms = r'"
    by (induction fs ms r rule: decode_members.induct) (auto split: option.splits)
  with JObj show ?thesis by simp
qed auto

lemma read_body_marshal:
  assumes "rq_body rq = marshal v" "ascii_val v" "decode_struct fs (to_json v) zero = Some r"
  shows "read_body fs zero rq = r"
  using parses_value [OF parses_marshal [of v "[]"]] assms lenient_decode [OF assms(3)]
  by (simp add: read_body_def)

lemma unmarshal_newline: "ascii_val v \<Longrightarrow> unmarshal dec zero (marshal v @ [CHR 0x0A]) = dec (to_json v) zero"
  using parses_value [OF parses_marshal [of v "[CHR 0x0A]"]]
  by (simp add: unmarshal_def parse_json_def is_ws_def)

end
