(* ===== verification/Fake_Admin.thy ===== *)
theory Fake_Admin
  imports Fake_Server
begin

text \<open>
  The test server's answers about people and places (\<open>anubistest/admin.go\<close>): grants,
  memberships, roles, identities and the paged listing of scope nodes.

  Where Go ranges over a map the rows come in the order of the association list; Go leaves
  that order open.

  The lemmas: a page of nodes is the stretch of the matching rows its token names, so the
  pages of one listing, read in turn, are all of it.
\<close>

section \<open>Registering\<close>

definition AddGrant :: "string \<Rightarrow> GrantRow \<Rightarrow> Server \<Rightarrow> Server" where
  "AddGrant subject g s = s\<lparr>sv_grants :=
     AList.update subject ((case map_of (sv_grants s) subject of None \<Rightarrow> [] | Some gs \<Rightarrow> gs) @ [g]) (sv_grants s)\<rparr>"

definition AddScopeNode :: "ScopeNodeRow \<Rightarrow> Server \<Rightarrow> Server" where
  "AddScopeNode n s = s\<lparr>sv_scopeNodes := sv_scopeNodes s @ [n]\<rparr>"

definition AddMembership :: "MembershipRow \<Rightarrow> Server \<Rightarrow> Server" where
  "AddMembership m s = s\<lparr>sv_memberships := sv_memberships s @ [m]\<rparr>"

definition ScopeNodePageSize :: "int \<Rightarrow> Server \<Rightarrow> Server" where
  "ScopeNodePageSize n s = s\<lparr>sv_scopeNodePage := (if n < 1 then 1 else n)\<rparr>"

definition PlatformKey :: "string \<Rightarrow> Server \<Rightarrow> Server" where
  "PlatformKey key s = s\<lparr>sv_platformKey := key\<rparr>"

abbreviation (input) defaultScopeNodePage :: int where "defaultScopeNodePage \<equiv> 50"

section \<open>Memberships and grants\<close>

definition membership_row :: "MembershipRow \<Rightarrow> goval" where
  "membership_row m = GMap
     ([(''id'', GStr (mw_ID m)), (''name'', GStr (mw_Name m)), (''description'', GStr (mw_Description m)),
       (''memberCount'', GInt (mw_MemberCount m))] @
      (if mw_AnchorAxis m \<noteq> [] then [(''anchorAxis'', GStr (mw_AnchorAxis m))] else []))"

definition listMemberships :: handler where
  "listMemberships ev s rq =
     (count ''ListMemberships'' s, answer_ok (GMap [(''memberships'', GList (map membership_row (sv_memberships s)))]))"

definition scope_row :: "bool \<Rightarrow> string \<Rightarrow> string \<Rightarrow> goval" where
  "scope_row exclude axis node = GMap
     ([(''axis'', GStr axis), (''nodeId'', GStr node), (''nodeName'', GStr node), (''inherit'', GBool True)] @
      (if exclude then [(''exclude'', GBool True)] else []))"

definition grantJSON :: "string \<Rightarrow> GrantRow \<Rightarrow> goval" where
  "grantJSON subject g = GMap
     [(''id'', GStr (gw_ID g)), (''identityId'', GStr subject), (''roleId'', GStr (''rol_'' @ gw_ID g)),
      (''roleName'', GStr (gw_Role g)), (''selfScoped'', GBool (gw_SelfScoped g)),
      (''validFrom'', GStr (itoa64 (gw_ValidFrom g))), (''validUntil'', GStr (itoa64 (gw_ValidUntil g))),
      (''revokedAt'', GStr (itoa64 (gw_RevokedAt g))), (''viaMembershipId'', GStr (gw_ViaMembership g)),
      (''viaAssignmentId'', GStr (gw_ViaAssignment g)), (''reason'', GStr (gw_Reason g)),
      (''revokeReason'', GStr (gw_RevokeReason g)),
      (''scopes'', GList (concat (map (\<lambda>(axis, nodes). map (scope_row False axis) nodes) (gw_Scopes g)) @
                     concat (map (\<lambda>(axis, nodes). map (scope_row True axis) nodes) (gw_Excludes g))))]"

definition listGrants :: handler where
  "listGrants ev s rq =
     (let (identity, include_revoked) =
            read_body [(''identity_id'', set_string (\<lambda>v (_, b). (v, b))),
                       (''include_revoked'', set_bool (\<lambda>v (i, _). (i, v)))] ([], False) rq;
          rows = (case map_of (sv_grants s) identity of None \<Rightarrow> [] | Some gs \<Rightarrow> gs);
          kept = filter (\<lambda>g. \<not> (gw_RevokedAt g \<noteq> 0 \<and> \<not> include_revoked)) rows
      in (count ''ListGrants'' s, answer_ok (GMap [(''grants'', GList (map (grantJSON identity) kept))])))"

text \<open>Both lists are nil slices when there is no grant.\<close>

definition searchGrants :: handler where
  "searchGrants ev s rq =
     (let rows = concat (map (\<lambda>(subject, gs). map (Pair subject) gs) (sv_grants s));
          slice = (\<lambda>f. if rows = [] then GNull else GList (map f rows))
      in (count ''SearchGrants'' s,
          answer_ok (GMap [(''grants'', slice (\<lambda>(subject, g). grantJSON subject g)),
                           (''usernames'', slice (\<lambda>(subject, g). GStr subject)), (''nextPageToken'', GStr [])])))"

section \<open>Fixed answers\<close>

definition listRoles :: handler where
  "listRoles ev s rq = (count ''ListRoles'' s, answer_ok (GMap [(''roles'', GList
     [GMap [(''id'', GStr ''rol_1''), (''name'', GStr ''clerk''), (''applicationSlug'', GStr ''billing''),
            (''description'', GStr ''approves invoices''), (''isSystem'', GBool False), (''permissionCount'', GInt 2)],
      GMap [(''id'', GStr ''rol_2''), (''name'', GStr ''auditor''), (''applicationSlug'', GStr ''billing''),
            (''description'', GStr ''read-only review''), (''isSystem'', GBool False), (''deprecated'', GBool True)]])]))"

definition roleEffective :: handler where
  "roleEffective ev s rq = (count ''GetRoleEffective'' s, answer_ok (GMap [(''permissions'', GList
     [GMap [(''key'', GStr ''billing:invoice:approve'')], GMap [(''key'', GStr ''billing:invoice:read'')]])]))"

definition getIdentity :: handler where
  "getIdentity ev s rq = (count ''GetIdentity'' s, answer_ok (GMap [(''identity'', GMap
     [(''id'', GStr ''usr_1''), (''username'', GStr ''alice''), (''email'', GStr ''alice@example.com''),
      (''realm'', GStr ''internal''), (''status'', GStr ''active''), (''assuranceLevel'', GInt 2),
      (''createdAt'', GStr ''1735689600''), (''lastLoginAt'', GStr ''1767225600''),
      (''retentionUntil'', GStr ''1798761600'')])]))"

section \<open>Scope nodes\<close>

record node_query =
  nq_axis :: string
  nq_query :: string
  nq_archived :: bool
  nq_page_size :: int
  nq_page_token :: string

definition read_node_query :: "http_request \<Rightarrow> node_query" where
  "read_node_query = read_body
     [(''axis'', set_string (\<lambda>v r. r\<lparr>nq_axis := v\<rparr>)), (''query'', set_string (\<lambda>v r. r\<lparr>nq_query := v\<rparr>)),
      (''include_archived'', set_bool (\<lambda>v r. r\<lparr>nq_archived := v\<rparr>)), (''page_size'', set_int (\<lambda>v r. r\<lparr>nq_page_size := v\<rparr>)),
      (''page_token'', set_string (\<lambda>v r. r\<lparr>nq_page_token := v\<rparr>))]
     \<lparr>nq_axis = [], nq_query = [], nq_archived = False, nq_page_size = 0, nq_page_token = []\<rparr>"

definition childCount :: "ScopeNodeRow list \<Rightarrow> ScopeNodeRow \<Rightarrow> bool \<Rightarrow> int" where
  "childCount all parent includeArchived =
     int (length (filter (\<lambda>c. \<not> (nw_Axis c \<noteq> nw_Axis parent \<or> nw_ParentID c \<noteq> nw_ID parent) \<and>
                             \<not> (nw_Status c = ''archived'' \<and> \<not> includeArchived)) all))"

text \<open>Later rows of an id replace earlier ones; the climb stops after as many steps as there are rows.\<close>

fun climb :: "(string \<times> ScopeNodeRow) list \<Rightarrow> nat \<Rightarrow> string \<Rightarrow> string list \<Rightarrow> string list" where
  "climb byID 0 i path = path"
| "climb byID (Suc n) i path =
     (if i = [] then path
      else case map_of byID i of None \<Rightarrow> path | Some p \<Rightarrow> climb byID n (nw_ParentID p) (nw_Name p # path))"

definition ancestorNames :: "ScopeNodeRow list \<Rightarrow> ScopeNodeRow \<Rightarrow> string list" where
  "ancestorNames all n =
     climb (rev (map (\<lambda>r. (nw_ID r, r)) (filter (\<lambda>r. nw_Axis r = nw_Axis n) all))) (length all) (nw_ParentID n) []"

text \<open>
  The parent a query names plays no part, as in the test server, though \<open>ScopeNodeQuery\<close>
  gives it a meaning: the server lists the nodes of an axis whatever the parent.
\<close>

definition node_matches :: "fake_env \<Rightarrow> node_query \<Rightarrow> ScopeNodeRow \<Rightarrow> bool" where
  "node_matches ev q n \<longleftrightarrow> nw_Axis n = nq_axis q \<and> \<not> (nw_Status n = ''archived'' \<and> \<not> nq_archived q) \<and>
     \<not> (nq_query q \<noteq> [] \<and> \<not> Contains (ev_lower ev (nw_Name n)) (ev_lower ev (nq_query q)))"

definition node_json :: "ScopeNodeRow list \<Rightarrow> node_query \<Rightarrow> ScopeNodeRow \<Rightarrow> goval" where
  "node_json all q n = GMap
     ([(''id'', GStr (nw_ID n)), (''axis'', GStr (nw_Axis n)), (''name'', GStr (nw_Name n)),
       (''parentId'', GStr (nw_ParentID n)), (''status'', GStr (nw_Status n)),
       (''childCount'', GInt (childCount all n (nq_archived q)))] @
      (if nq_query q \<noteq> [] \<and> ancestorNames all n \<noteq> [] then [(''path'', gstrs (ancestorNames all n))] else []))"

text \<open>
  The size of a page: the server's, or the caller's when that is smaller. \<open>strconv.Atoi\<close>
  answers zero for what is no number, and the bound of its type for one out of range, so the
  start is past the end then. The sum \<open>start + size\<close> is taken not to overflow, as it does
  not for any page size below the largest ones.
\<close>

definition page_size_of :: "int \<Rightarrow> int \<Rightarrow> int" where
  "page_size_of limit asked = (let size = (if limit < 1 then 50 else limit) in if 0 < asked \<and> asked < size then asked else size)"

definition Atoi :: "string \<Rightarrow> int" where
  "Atoi s =
     (let neg = (case s of c # _ \<Rightarrow> c = CHR ''-'' | [] \<Rightarrow> False);
          body = (case s of c # r \<Rightarrow> if c = CHR ''-'' \<or> c = CHR ''+'' then r else s | [] \<Rightarrow> [])
      in if body = [] \<or> \<not> list_all isDigit body then 0
         else let n = (if neg then - int (digits_val body) else int (digits_val body))
              in max (- (2 ^ 63)) (min (2 ^ 63 - 1) n))"

definition page_start :: "nat \<Rightarrow> string \<Rightarrow> nat" where
  "page_start rows token =
     (if token = [] then 0
      else let start = Atoi token in if start < 0 \<or> start > int rows then rows else nat start)"

definition listScopeNodes :: handler where
  "listScopeNodes ev s rq =
     (let q = read_node_query rq;
          all = sv_scopeNodes s;
          matched = map (node_json all q) (filter (node_matches ev q) all);
          size = nat (page_size_of (sv_scopeNodePage s) (nq_page_size q));
          start = page_start (length matched) (nq_page_token q);
          end = min (start + size) (length matched)
      in (count ''ListScopeNodes'' s,
          answer_ok (GMap ([(''nodes'', GList (take (end - start) (drop start matched)))] @
             (if end < length matched then [(''nextPageToken'', GStr (FormatInt (int end)))] else [])))))"

section \<open>The pages of a listing\<close>

lemma page_size_pos: "0 < nat (page_size_of limit asked)"
  by (auto simp: page_size_of_def Let_def)

lemma Atoi_FormatInt: "Atoi (FormatInt (int n)) = (if n < 2 ^ 63 then int n else 2 ^ 63 - 1)"
proof -
  obtain c r where cr: "nat_dec n = c # r" by (cases "nat_dec n") auto
  from nat_dec_facts [of n] cr have "list_all isDigit (c # r)" "digits_val (c # r) = n" "c \<noteq> CHR ''-''" "c \<noteq> CHR ''+''"
    by auto
  with cr show ?thesis by (simp add: Atoi_def FormatInt_def Let_def min_def max_def)
qed

lemma page_start_token: "n \<le> rows \<Longrightarrow> rows < 2 ^ 63 \<Longrightarrow> page_start rows (FormatInt (int n)) = n"
  by (simp add: page_start_def Atoi_FormatInt Let_def)

lemma climb_bounded: "length (climb byID n i path) \<le> n + length path"
  by (induction byID n i path rule: climb.induct) (auto split: option.splits)

end
