(* ===== verification/Fake_Config.thy ===== *)
theory Fake_Config
  imports Fake_Server
begin

text \<open>
  The configuration half of the test server's admin plane (\<open>anubistest/adminconfig.go\<close>):
  catalog sources and their runs, sync schedules, sign-in pages.

  Two of the behaviours its comment names, an update leaves a source's application alone and
  a page has one binding, are part of what theory \<open>Fake_Invariant\<close> shows of every request;
  the third, that \<open>next_run_at\<close> is derived from the schedule, is the definition \<open>nextRun\<close>.
\<close>

section \<open>Registering\<close>

definition AddCatalogSource :: "CatalogSourceRow \<Rightarrow> Server \<Rightarrow> Server" where
  "AddCatalogSource row s = s\<lparr>sv_catalogSources := AList.update (kw_ID row) row (sv_catalogSources s)\<rparr>"

definition AddSyncSource :: "SyncSourceRow \<Rightarrow> Server \<Rightarrow> Server" where
  "AddSyncSource row s = s\<lparr>sv_syncSources := AList.update (yw_ID row) row (sv_syncSources s)\<rparr>"

definition AddAuthPage :: "AuthPageRow \<Rightarrow> Server \<Rightarrow> Server" where
  "AddAuthPage row s = s\<lparr>sv_authPages := AList.update (pw_ID row) row (sv_authPages s)\<rparr>"

section \<open>Answers\<close>

definition nextRun :: "int \<Rightarrow> gotime \<Rightarrow> int" where
  "nextRun intervalSeconds now = (if intervalSeconds \<le> 0 then 0 else Time_Unix (now + Seconds intervalSeconds))"

definition catalogSourceJSON :: "fake_env \<Rightarrow> CatalogSourceRow \<Rightarrow> goval" where
  "catalogSourceJSON ev r = GMap
     [(''id'', GStr (kw_ID r)), (''applicationSlug'', GStr (kw_ApplicationSlug r)), (''name'', GStr (kw_Name r)),
      (''kind'', GStr (kw_Kind r)), (''format'', GStr (kw_Format r)), (''status'', GStr (kw_Status r)),
      (''configJson'', GStr (kw_ConfigJSON r)), (''intervalSeconds'', GInt (kw_IntervalSeconds r)),
      (''lastRunAt'', GStr (itoa64 (kw_LastRunAt r))),
      (''nextRunAt'', GStr (itoa64 (nextRun (kw_IntervalSeconds r) (ev_now ev)))), (''lastStatus'', GStr (kw_LastStatus r))]"

definition syncSourceJSON :: "fake_env \<Rightarrow> SyncSourceRow \<Rightarrow> goval" where
  "syncSourceJSON ev r = GMap
     [(''id'', GStr (yw_ID r)), (''axis'', GStr (yw_Axis r)), (''kind'', GStr (yw_Kind r)), (''status'', GStr (yw_Status r)),
      (''configJson'', GStr (yw_ConfigJSON r)), (''lastRunAt'', GStr (itoa64 (yw_LastRunAt r))),
      (''intervalSeconds'', GInt (yw_IntervalSeconds r)),
      (''nextRunAt'', GStr (itoa64 (nextRun (yw_IntervalSeconds r) (ev_now ev))))]"

definition authPageJSON :: "AuthPageRow \<Rightarrow> goval" where
  "authPageJSON r = GMap
     [(''id'', GStr (pw_ID r)), (''kind'', GStr (pw_Kind r)), (''slug'', GStr (pw_Slug r)), (''name'', GStr (pw_Name r)),
      (''status'', GStr (pw_Status r)), (''isDefault'', GBool (pw_IsDefault r)),
      (''applicationSlug'', GStr (pw_ApplicationSlug r)), (''realmCode'', GStr (pw_RealmCode r)),
      (''configJson'', GStr (pw_ConfigJSON r)), (''createdAt'', GStr ''1735689600''), (''updatedAt'', GStr ''1767225600''),
      (''url'', GStr (''https://anubis.test/p/impack/'' @ pw_Kind r @ ''/'' @ pw_Slug r))]"

abbreviation (input) bad_interval :: http_response where
  "bad_interval \<equiv> bad_argument ''interval_seconds must be 0 or at least 300''"

section \<open>Sync schedules\<close>

definition setSyncSchedule :: handler where
  "setSyncSchedule ev s0 rq =
     (let s = count ''SetSyncSchedule'' s0;
          (source, secs) = read_body [(''source_id'', set_string (\<lambda>v (_, n). (v, n))),
                                      (''interval_seconds'', set_int (\<lambda>v (i, _). (i, v)))] ([], 0) rq
      in if secs \<noteq> 0 \<and> secs < 300 then (s, bad_interval)
         else case map_of (sv_syncSources s) source of
           None \<Rightarrow> (s, not_found ''no such sync source'')
         | Some row \<Rightarrow>
             let row' = row\<lparr>yw_IntervalSeconds := secs\<rparr>
             in (s\<lparr>sv_syncSources := AList.update source row' (sv_syncSources s)\<rparr>,
                 answer_ok (GMap [(''source'', syncSourceJSON ev row')])))"

section \<open>Catalog sources\<close>

definition listCatalogSources :: handler where
  "listCatalogSources ev s rq =
     (count ''ListCatalogSources'' s, answer_ok (GMap [(''sources'', GList
        (map (\<lambda>i. catalogSourceJSON ev (the (map_of (sv_catalogSources s) i))) (sort (map fst (sv_catalogSources s)))))]))"

record source_request =
  cq_id :: string
  cq_application_slug :: string
  cq_name :: string
  cq_kind :: string
  cq_status :: string
  cq_format :: string
  cq_config_json :: string
  cq_interval_seconds :: int

definition zero_source_request :: source_request where
  "zero_source_request = \<lparr>cq_id = [], cq_application_slug = [], cq_name = [], cq_kind = [], cq_status = [], cq_format = [],
     cq_config_json = [], cq_interval_seconds = 0\<rparr>"

definition createCatalogSource :: handler where
  "createCatalogSource ev s0 rq =
     (let s = count ''CreateCatalogSource'' s0;
          req = read_body
            [(''application_slug'', set_string (\<lambda>v r. r\<lparr>cq_application_slug := v\<rparr>)), (''name'', set_string (\<lambda>v r. r\<lparr>cq_name := v\<rparr>)),
             (''kind'', set_string (\<lambda>v r. r\<lparr>cq_kind := v\<rparr>)), (''format'', set_string (\<lambda>v r. r\<lparr>cq_format := v\<rparr>)),
             (''config_json'', set_string (\<lambda>v r. r\<lparr>cq_config_json := v\<rparr>)),
             (''interval_seconds'', set_int (\<lambda>v r. r\<lparr>cq_interval_seconds := v\<rparr>))] zero_source_request rq
      in if cq_application_slug req = [] then (s, bad_argument ''a catalog source belongs to an application'')
         else if cq_interval_seconds req \<noteq> 0 \<and> cq_interval_seconds req < 300 then (s, bad_interval)
         else
           let fmt = (if cq_format req = [] then ''json'' else cq_format req);
               (n, i) = freshID ''cat'' (map fst (sv_catalogSources s)) (sv_seq s);
               row = \<lparr>kw_ID = i, kw_ApplicationSlug = cq_application_slug req, kw_Name = cq_name req, kw_Kind = cq_kind req,
                      kw_Format = fmt, kw_Status = ''active'', kw_ConfigJSON = cq_config_json req,
                      kw_IntervalSeconds = cq_interval_seconds req, kw_LastRunAt = 0, kw_LastStatus = []\<rparr>
           in (s\<lparr>sv_seq := n, sv_catalogSources := AList.update i row (sv_catalogSources s)\<rparr>,
               answer_ok (GMap [(''source'', catalogSourceJSON ev row)])))"

definition updateCatalogSource :: handler where
  "updateCatalogSource ev s0 rq =
     (let s = count ''UpdateCatalogSource'' s0;
          req = read_body
            [(''id'', set_string (\<lambda>v r. r\<lparr>cq_id := v\<rparr>)), (''name'', set_string (\<lambda>v r. r\<lparr>cq_name := v\<rparr>)),
             (''status'', set_string (\<lambda>v r. r\<lparr>cq_status := v\<rparr>)), (''format'', set_string (\<lambda>v r. r\<lparr>cq_format := v\<rparr>)),
             (''config_json'', set_string (\<lambda>v r. r\<lparr>cq_config_json := v\<rparr>)),
             (''interval_seconds'', set_int (\<lambda>v r. r\<lparr>cq_interval_seconds := v\<rparr>)),
             (''application_slug'', set_string (\<lambda>v r. r\<lparr>cq_application_slug := v\<rparr>))] zero_source_request rq
      in if cq_interval_seconds req \<noteq> 0 \<and> cq_interval_seconds req < 300 then (s, bad_interval)
         else case map_of (sv_catalogSources s) (cq_id req) of
           None \<Rightarrow> (s, not_found ''no such catalog source'')
         | Some row \<Rightarrow>
             let row' = row\<lparr>kw_Name := cq_name req, kw_Status := cq_status req, kw_ConfigJSON := cq_config_json req,
                   kw_IntervalSeconds := cq_interval_seconds req,
                   kw_Format := (if cq_format req \<noteq> [] then cq_format req else kw_Format row)\<rparr>
             in (s\<lparr>sv_catalogSources := AList.update (cq_id req) row' (sv_catalogSources s)\<rparr>,
                 answer_ok (GMap [(''source'', catalogSourceJSON ev row')])))"

definition deleteCatalogSource :: handler where
  "deleteCatalogSource ev s0 rq =
     (let s = count ''DeleteCatalogSource'' s0; i = read_string ''id'' rq
      in (s\<lparr>sv_catalogSources := AList.delete i (sv_catalogSources s), sv_catalogRuns := AList.delete i (sv_catalogRuns s)\<rparr>,
          if map_of (sv_catalogSources s) i = None then not_found ''no such catalog source'' else answer_ok (GMap [])))"

abbreviation (input) catalog_report :: string where
  "catalog_report \<equiv> CHR ''{'' # quote ''permissions'' @ '':3,'' @ quote ''roles'' @ '':1}''"

definition run_json :: "nat \<Rightarrow> string \<Rightarrow> int \<Rightarrow> bool \<Rightarrow> goval" where
  "run_json n source now dry = GMap
     [(''id'', GStr (seq_id ''run'' n)), (''sourceId'', GStr source), (''startedAt'', GStr (itoa64 now)),
      (''finishedAt'', GStr (itoa64 now)), (''dry'', GBool dry), (''status'', GStr (if dry then ''dry_run'' else ''ok'')),
      (''actor'', GStr ''op_1''), (''documentSha'', GStr ''sha256:deadbeef''), (''reportJson'', GStr catalog_report),
      (''error'', GStr [])]"

definition runCatalogSource :: handler where
  "runCatalogSource ev s0 rq =
     (let s = count ''RunCatalogSource'' s0;
          (source, dry) = read_body [(''source_id'', set_string (\<lambda>v (_, b). (v, b))),
                                     (''dry'', set_bool (\<lambda>v (i, _). (i, v)))] ([], False) rq
      in case map_of (sv_catalogSources s) source of
           None \<Rightarrow> (s, not_found ''no such catalog source'')
         | Some src \<Rightarrow>
             let n = Suc (sv_seq s);
                 run = run_json n source (unix_now ev) dry;
                 runs = (case map_of (sv_catalogRuns s) source of None \<Rightarrow> [] | Some rs \<Rightarrow> rs);
                 s' = s\<lparr>sv_seq := n, sv_catalogRuns := AList.update source (run # runs) (sv_catalogRuns s)\<rparr>
             in (if dry then s'
                 else s'\<lparr>sv_catalogSources := AList.update source (src\<lparr>kw_LastStatus := ''ok'', kw_LastRunAt := unix_now ev\<rparr>)
                       (sv_catalogSources s)\<rparr>,
                 answer_ok (GMap [(''run'', run)])))"

definition listCatalogRuns :: handler where
  "listCatalogRuns ev s rq =
     (let (source, limit) = read_body [(''source_id'', set_string (\<lambda>v (_, n). (v, n))),
                                       (''limit'', set_int (\<lambda>v (i, _). (i, v)))] ([], 0) rq;
          runs = (case map_of (sv_catalogRuns s) source of None \<Rightarrow> [] | Some rs \<Rightarrow> rs)
      in (count ''ListCatalogRuns'' s,
          answer_ok (GMap [(''runs'', GList (if 0 < limit \<and> limit < int (length runs) then take (nat limit) runs else runs))])))"

section \<open>Sign-in pages\<close>

definition listAuthPages :: handler where
  "listAuthPages ev s rq =
     (let kind = read_string ''kind'' rq;
          rows = map (\<lambda>i. the (map_of (sv_authPages s) i)) (sort (map fst (sv_authPages s)))
      in (count ''ListAuthPages'' s,
          answer_ok (GMap [(''pages'', GList (map authPageJSON (filter (\<lambda>r. \<not> (kind \<noteq> [] \<and> pw_Kind r \<noteq> kind)) rows)))])))"

definition getAuthPage :: handler where
  "getAuthPage ev s rq =
     (count ''GetAuthPage'' s,
      case map_of (sv_authPages s) (read_string ''id'' rq) of
        None \<Rightarrow> not_found ''no such auth page''
      | Some row \<Rightarrow> answer_ok (GMap [(''page'', authPageJSON row)]))"

text \<open>The members of \<open>page\<close>, in the type the client sends them from.\<close>

definition page_fields :: "(string \<times> AuthPage setter) list" where
  "page_fields =
     [(''id'', set_string (\<lambda>v r. r\<lparr>ap_ID := v\<rparr>)), (''kind'', set_string (\<lambda>v r. r\<lparr>ap_Kind := v\<rparr>)),
      (''slug'', set_string (\<lambda>v r. r\<lparr>ap_Slug := v\<rparr>)), (''name'', set_string (\<lambda>v r. r\<lparr>ap_Name := v\<rparr>)),
      (''status'', set_string (\<lambda>v r. r\<lparr>ap_Status := v\<rparr>)), (''isDefault'', set_bool (\<lambda>v r. r\<lparr>ap_IsDefault := v\<rparr>)),
      (''applicationSlug'', set_string (\<lambda>v r. r\<lparr>ap_ApplicationSlug := v\<rparr>)),
      (''applicationId'', set_string (\<lambda>v r. r\<lparr>ap_ApplicationID := v\<rparr>)),
      (''realmCode'', set_string (\<lambda>v r. r\<lparr>ap_RealmCode := v\<rparr>)), (''realmId'', set_string (\<lambda>v r. r\<lparr>ap_RealmID := v\<rparr>)),
      (''configJson'', set_string (\<lambda>v r. r\<lparr>ap_ConfigJSON := v\<rparr>))]"

definition one_binding_error :: http_response where
  "one_binding_error = bad_argument ''auth_pages_one_binding: a page binds to an application or a realm''"

definition updateAuthPage :: handler where
  "updateAuthPage ev s0 rq =
     (let s = count ''UpdateAuthPage'' s0;
          p = read_body [(''page'', set_nested page_fields)] zero_AuthPage rq;
          app = (ap_ApplicationSlug p \<noteq> [] \<or> ap_ApplicationID p \<noteq> []);
          realm = (ap_RealmCode p \<noteq> [] \<or> ap_RealmID p \<noteq> [])
      in if app \<and> realm then (s, one_binding_error)
         else case map_of (sv_authPages s) (ap_ID p) of
           None \<Rightarrow> (s, not_found ''no such auth page'')
         | Some row \<Rightarrow>
             let row' = row\<lparr>pw_Kind := ap_Kind p, pw_Slug := ap_Slug p, pw_Name := ap_Name p, pw_Status := ap_Status p,
                   pw_IsDefault := ap_IsDefault p, pw_ApplicationSlug := ap_ApplicationSlug p,
                   pw_RealmCode := ap_RealmCode p, pw_ConfigJSON := ap_ConfigJSON p\<rparr>
             in (s\<lparr>sv_authPages := AList.update (ap_ID p) row' (sv_authPages s)\<rparr>,
                 answer_ok (GMap [(''page'', authPageJSON row')])))"

end
