(* ===== verification/Fake_Manifest.thy ===== *)
theory Fake_Manifest
  imports Fake_Server
begin

text \<open>
  Applying a manifest on the test server (\<open>anubistest/manifest.go\<close>): the installed catalog
  of an application, what a document does to it, and the report.

  \<open>plan\<close> is the part between the copies and the write: it works out the catalog after the
  apply from the catalog before, or the refusal. The lemmas: a plan touches the declared
  sections only and leaves exactly what the document names; what it retires is what was
  there and is not named.
\<close>

section \<open>The installed catalog\<close>

definition empty_app :: manifestApp where
  "empty_app = \<lparr>mf_permissions = [], mf_roles = [], mf_deprecatedPerm = [], mf_deprecatedRole = [], mf_routes = 0,
     mf_version = 0\<rparr>"

definition SeedCatalog :: "string \<Rightarrow> string list \<Rightarrow> string list \<Rightarrow> int \<Rightarrow> Server \<Rightarrow> Server" where
  "SeedCatalog slug permissions roles routes s = s\<lparr>sv_manifests := AList.update slug
     (empty_app\<lparr>mf_permissions := collect [] permissions, mf_roles := collect [] roles, mf_routes := routes\<rparr>) (sv_manifests s)\<rparr>"

record ManifestCatalog =
  ct_Permissions :: "string list"
  ct_Roles :: "string list"
  ct_DeprecatedPermission :: "string list"
  ct_DeprecatedRole :: "string list"
  ct_Routes :: int
  ct_Version :: int

definition Catalog :: "string \<Rightarrow> Server \<Rightarrow> ManifestCatalog" where
  "Catalog slug s =
     (case map_of (sv_manifests s) slug of
        None \<Rightarrow> \<lparr>ct_Permissions = [], ct_Roles = [], ct_DeprecatedPermission = [], ct_DeprecatedRole = [], ct_Routes = 0,
                 ct_Version = 0\<rparr>
      | Some a \<Rightarrow> \<lparr>ct_Permissions = sort (mf_permissions a), ct_Roles = sort (mf_roles a),
                   ct_DeprecatedPermission = sort (mf_deprecatedPerm a), ct_DeprecatedRole = sort (mf_deprecatedRole a),
                   ct_Routes = mf_routes a, ct_Version = mf_version a\<rparr>)"

section \<open>The document, as the server reads it\<close>

record manifest_doc =
  md_permissions :: "(string \<times> string) list option"
  md_roles :: "(string \<times> string list) list option"
  md_routes :: "(string \<times> string) list option"

text \<open>Pointer slices: a section that is absent or \<open>null\<close> is none.\<close>

definition dec_doc_permission :: "json \<Rightarrow> string \<times> string \<Rightarrow> (string \<times> string) option" where
  "dec_doc_permission = decode_struct [(''resource'', set_string (\<lambda>v (_, a). (v, a))), (''action'', set_string (\<lambda>v (r, _). (r, v)))]"

definition dec_doc_role :: "json \<Rightarrow> string \<times> string list \<Rightarrow> (string \<times> string list) option" where
  "dec_doc_role = decode_struct [(''name'', set_string (\<lambda>v (_, ps). (v, ps))), (''permissions'', set_strings (\<lambda>v (n, _). (n, v)))]"

definition dec_doc_route :: "json \<Rightarrow> string \<times> string \<Rightarrow> (string \<times> string) option" where
  "dec_doc_route = decode_struct [(''priority'', set_int (\<lambda>_ r. r)), (''effect'', set_string (\<lambda>v (_, p). (v, p))),
     (''permission'', set_string (\<lambda>v (e, _). (e, v)))]"

definition dec_doc :: "json \<Rightarrow> manifest_doc \<Rightarrow> manifest_doc option" where
  "dec_doc = decode_struct
     [(''permissions'', set_ptr md_permissions (\<lambda>v r. r\<lparr>md_permissions := v\<rparr>) [] (set_list (\<lambda>v _. v) ([], []) dec_doc_permission)),
      (''roles'', set_ptr md_roles (\<lambda>v r. r\<lparr>md_roles := v\<rparr>) [] (set_list (\<lambda>v _. v) ([], []) dec_doc_role)),
      (''routes'', set_ptr md_routes (\<lambda>v r. r\<lparr>md_routes := v\<rparr>) [] (set_list (\<lambda>v _. v) ([], []) dec_doc_route))]"

definition doc_sections :: "manifest_doc \<Rightarrow> string list" where
  "doc_sections d =
     (if md_permissions d \<noteq> None then [''permissions''] else []) @ (if md_roles d \<noteq> None then [''roles''] else []) @
     (if md_routes d \<noteq> None then [''routes''] else [])"

section \<open>The plan\<close>

record plan =
  pl_perms :: "string list"
  pl_roles :: "string list"
  pl_routes :: int
  pl_deprecatedPerm :: "string list"
  pl_deprecatedRole :: "string list"
  pl_named :: "nat \<times> nat"

text \<open>What is left of a set when the document names these keys, and what is retired.\<close>

definition replace_keys :: "string list \<Rightarrow> string list \<Rightarrow> string list" where
  "replace_keys named keys = collect (filter (\<lambda>k. k \<in> set named) keys) named"

definition retired_keys :: "string list \<Rightarrow> string list \<Rightarrow> string list" where
  "retired_keys named keys = sort (filter (\<lambda>k. k \<notin> set named) keys)"

definition plan_permissions :: "manifest_doc \<Rightarrow> plan \<Rightarrow> string + plan" where
  "plan_permissions d p =
     (case md_permissions d of
        None \<Rightarrow> Inr p
      | Some ps \<Rightarrow>
          if ps = [] \<and> pl_perms p \<noteq> [] then Inl ''refusing to deprecate an entire catalog in one apply''
          else let named = collect [] (map (\<lambda>(resource, action). resource @ '':'' @ action) ps)
            in Inr (p\<lparr>pl_perms := replace_keys named (pl_perms p), pl_deprecatedPerm := retired_keys named (pl_perms p),
                      pl_named := (length named, snd (pl_named p))\<rparr>))"

definition plan_roles :: "manifest_doc \<Rightarrow> plan \<Rightarrow> string + plan" where
  "plan_roles d p =
     (case md_roles d of
        None \<Rightarrow> Inr p
      | Some rs \<Rightarrow>
          if rs = [] \<and> pl_roles p \<noteq> [] then Inl ''refusing to retire an entire role catalog in one apply''
          else (case find_first (\<lambda>(name, refs). map_option (Pair name) (find (\<lambda>ref. ref \<notin> set (pl_perms p)) refs)) rs of
             Some (name, ref) \<Rightarrow> Inl (''role '' @ name @ '' names unknown permission '' @ ref)
           | None \<Rightarrow>
               let named = collect [] (map fst rs)
               in Inr (p\<lparr>pl_roles := replace_keys named (pl_roles p), pl_deprecatedRole := retired_keys named (pl_roles p),
                         pl_named := (fst (pl_named p), length named)\<rparr>)))"

definition plan_routes :: "manifest_doc \<Rightarrow> plan \<Rightarrow> string + plan" where
  "plan_routes d p =
     (case md_routes d of
        None \<Rightarrow> Inr p
      | Some rts \<Rightarrow>
          (case find (\<lambda>(effect, permission). effect = ''require_permission'' \<and> permission \<notin> set (pl_perms p)) rts of
             Some (_, permission) \<Rightarrow> Inl (''route names unknown permission '' @ permission)
           | None \<Rightarrow> Inr (p\<lparr>pl_routes := int (length rts)\<rparr>)))"

definition plan_of :: "manifestApp \<Rightarrow> manifest_doc \<Rightarrow> string + plan" where
  "plan_of a d =
     (case plan_permissions d \<lparr>pl_perms = mf_permissions a, pl_roles = mf_roles a, pl_routes = mf_routes a,
             pl_deprecatedPerm = [], pl_deprecatedRole = [], pl_named = (0, 0)\<rparr> of
        Inl e \<Rightarrow> Inl e
      | Inr p \<Rightarrow> (case plan_roles d p of Inl e \<Rightarrow> Inl e | Inr p \<Rightarrow> plan_routes d p))"

definition report_of :: "bool \<Rightarrow> manifest_doc \<Rightarrow> plan \<Rightarrow> goval" where
  "report_of dry d p = GMap
     ([(''dry'', GBool dry), (''sections'', gstrs (doc_sections d))] @
      (if md_permissions d \<noteq> None
       then [(''permissions'', GMap [(''applied'', GInt (int (fst (pl_named p)))), (''added_or_updated'', GInt (int (fst (pl_named p)))),
                (''deprecated'', gstrs (pl_deprecatedPerm p))])] else []) @
      (if md_roles d \<noteq> None
       then [(''roles'', GMap [(''applied'', GInt (int (snd (pl_named p)))), (''deprecated'', gstrs (pl_deprecatedRole p))])] else []) @
      (if md_routes d \<noteq> None then [(''routes'', GMap [(''replaced'', GInt (pl_routes p))])] else []))"

section \<open>The handler\<close>

definition committed :: "manifestApp \<Rightarrow> plan \<Rightarrow> manifestApp" where
  "committed a p = a\<lparr>mf_permissions := pl_perms p, mf_roles := pl_roles p, mf_routes := pl_routes p,
     mf_version := mf_version a + 1, mf_deprecatedPerm := collect (mf_deprecatedPerm a) (pl_deprecatedPerm p),
     mf_deprecatedRole := collect (mf_deprecatedRole a) (pl_deprecatedRole p)\<rparr>"

record apply_request =
  ay_slug :: string
  ay_manifest :: string
  ay_dry :: bool
  ay_format :: string

abbreviation (input) boolStr :: "bool \<Rightarrow> string" where "boolStr b \<equiv> (if b then ''true'' else ''false'')"

definition csv_report :: "bool \<Rightarrow> string" where
  "csv_report dry = ''{'' @ quote ''dry'' @ '':'' @ boolStr dry @ '','' @ quote ''sections'' @ '':['' @
     quote ''permissions'' @ ''],'' @ quote ''permissions'' @ '':{'' @ quote ''applied'' @ '':1,'' @
     quote ''added_or_updated'' @ '':1,'' @ quote ''deprecated'' @ '':[]}}''"

text \<open>An application the server has not seen gets its entry before the document is looked into.\<close>

definition applyManifest :: handler where
  "applyManifest ev s0 rq =
     (let s = count ''ApplyManifest'' s0;
          req = read_body
            [(''application_slug'', set_string (\<lambda>v r. r\<lparr>ay_slug := v\<rparr>)), (''manifest_json'', set_string (\<lambda>v r. r\<lparr>ay_manifest := v\<rparr>)),
             (''dry'', set_bool (\<lambda>v r. r\<lparr>ay_dry := v\<rparr>)), (''format'', set_string (\<lambda>v r. r\<lparr>ay_format := v\<rparr>))]
            \<lparr>ay_slug = [], ay_manifest = [], ay_dry = False, ay_format = []\<rparr> rq
      in if ay_format req \<notin> {[], ''json'', ''csv''} then (s, bad_argument ''format must be json or csv'')
         else if ay_format req = ''csv''
         then (s, answer_ok (GMap [(''reportJson'', GStr (csv_report (ay_dry req))), (''manifestVersion'', GInt 1)]))
         else case unmarshal dec_doc \<lparr>md_permissions = None, md_roles = None, md_routes = None\<rparr> (ay_manifest req) of
           None \<Rightarrow> (s, bad_argument ''manifest is not valid JSON'')
         | Some d \<Rightarrow>
             if doc_sections d = [] then (s, bad_argument ''document declares no permissions, roles or routes'')
             else
               let a = (case map_of (sv_manifests s) (ay_slug req) of None \<Rightarrow> empty_app | Some a \<Rightarrow> a);
                   s1 = s\<lparr>sv_manifests := AList.update (ay_slug req) a (sv_manifests s)\<rparr>
               in case plan_of a d of
                 Inl message \<Rightarrow> (s1, bad_argument message)
               | Inr p \<Rightarrow>
                   (if ay_dry req then s1
                    else s1\<lparr>sv_manifests := AList.update (ay_slug req) (committed a p) (sv_manifests s1)\<rparr>,
                    answer_ok (GMap [(''reportJson'', GStr (marshal (report_of (ay_dry req) d p))),
                                     (''manifestVersion'', GInt (mf_version a + 1))])))"

section \<open>What a plan does\<close>

lemma set_replace_keys [simp]: "set (replace_keys named keys) = set named"
  using collect_set [of "filter (\<lambda>k. k \<in> set named) keys" named] by (auto simp: replace_keys_def)

lemma set_retired_keys [simp]: "set (retired_keys named keys) = set keys - set named"
  by (auto simp: retired_keys_def)

lemma distinct_replace_keys: "distinct keys \<Longrightarrow> distinct (replace_keys named keys)"
  using collect_set [of "filter (\<lambda>k. k \<in> set named) keys" named] by (simp add: replace_keys_def)

lemma plan_sections:
  assumes "plan_of a d = Inr p"
  shows "md_permissions d = None \<longrightarrow> pl_perms p = mf_permissions a \<and> pl_deprecatedPerm p = []"
    "md_roles d = None \<longrightarrow> pl_roles p = mf_roles a \<and> pl_deprecatedRole p = []"
    "md_routes d = None \<longrightarrow> pl_routes p = mf_routes a"
  using assms
  by (auto simp: plan_of_def plan_permissions_def plan_roles_def plan_routes_def Let_def
      split: option.splits if_splits sum.splits)

lemma plan_permissions_named:
  assumes "plan_of a d = Inr p" "md_permissions d = Some ps"
  shows "set (pl_perms p) = (\<lambda>(r, c). r @ '':'' @ c) ` set ps" "set (pl_deprecatedPerm p) = set (mf_permissions a) - set (pl_perms p)"
    "ps = [] \<longrightarrow> mf_permissions a = []"
  using assms collect_set [of "[]" "map (\<lambda>(r, c). r @ '':'' @ c) ps"]
  by (auto simp: plan_of_def plan_permissions_def plan_roles_def plan_routes_def Let_def
      split: option.splits if_splits sum.splits)

text \<open>The roles are planned against the permissions the plan ends with.\<close>

lemma plan_of_roles:
  assumes "plan_of a d = Inr p" "md_roles d = Some rs"
  shows "(rs = [] \<longrightarrow> mf_roles a = []) \<and>
    find_first (\<lambda>(name, refs). map_option (Pair name) (find (\<lambda>ref. ref \<notin> set (pl_perms p)) refs)) rs = None \<and>
    pl_roles p = replace_keys (collect [] (map fst rs)) (mf_roles a) \<and>
    pl_deprecatedRole p = retired_keys (collect [] (map fst rs)) (mf_roles a)"
proof -
  from assms(1) obtain q r where q: "plan_permissions d \<lparr>pl_perms = mf_permissions a, pl_roles = mf_roles a, pl_routes = mf_routes a,
        pl_deprecatedPerm = [], pl_deprecatedRole = [], pl_named = (0, 0)\<rparr> = Inr q"
      "plan_roles d q = Inr r" "plan_routes d r = Inr p"
    by (auto simp: plan_of_def split: sum.splits)
  have "pl_roles q = mf_roles a" using q(1) by (auto simp: plan_permissions_def Let_def split: option.splits if_splits)
  moreover have "pl_perms p = pl_perms r" "pl_roles p = pl_roles r" "pl_deprecatedRole p = pl_deprecatedRole r"
    using q(3) by (auto simp: plan_routes_def split: option.splits)
  ultimately show ?thesis using q(2) assms(2)
    by (simp add: plan_roles_def Let_def del: find_first_None split: option.splits prod.splits if_splits) auto
qed

lemma plan_roles_named:
  assumes "plan_of a d = Inr p" "md_roles d = Some rs"
  shows "set (pl_roles p) = fst ` set rs" "set (pl_deprecatedRole p) = set (mf_roles a) - set (pl_roles p)"
    "\<forall>(name, refs) \<in> set rs. set refs \<subseteq> set (pl_perms p)" "rs = [] \<longrightarrow> mf_roles a = []"
  using plan_of_roles [OF assms] collect_set [of "[]" "map fst rs"] by (auto simp: find_None_iff)

lemma plan_routes_named:
  assumes "plan_of a d = Inr p" "md_routes d = Some rts"
  shows "pl_routes p = int (length rts)"
    "\<forall>(effect, permission) \<in> set rts. effect = ''require_permission'' \<longrightarrow> permission \<in> set (pl_perms p)"
proof -
  from assms(1) obtain r where "plan_routes d r = Inr p" by (auto simp: plan_of_def split: sum.splits)
  with assms(2) show "pl_routes p = int (length rts)"
    "\<forall>(effect, permission) \<in> set rts. effect = ''require_permission'' \<longrightarrow> permission \<in> set (pl_perms p)"
    by (auto simp: plan_routes_def find_None_iff split: option.splits)
qed

end
