(* ===== verification/Fake_Provision.thy ===== *)
theory Fake_Provision
  imports Fake_Admin Fake_Config
begin

text \<open>
  Provisioning on the test server (\<open>anubistest/provision.go\<close>): tenants, realms,
  applications with their paged listing, API keys, and the rest of the sign-in pages.

  That the pages of the listing are all of it is shown in theory \<open>Fake_Pages\<close>; that ids are
  new and what stays of a row, in \<open>Fake_Invariant\<close>.
\<close>

section \<open>Tenants\<close>

definition AddTenant :: "fake_env \<Rightarrow> TenantRow \<Rightarrow> Server \<Rightarrow> Server" where
  "AddTenant ev row s =
     (let r = row\<lparr>tw_Status := (if tw_Status row = [] then ''active'' else tw_Status row),
                  tw_CreatedAt := (if tw_CreatedAt row = 0 then unix_now ev else tw_CreatedAt row)\<rparr>
      in s\<lparr>sv_tenants := AList.update (tw_ID r) r (sv_tenants s)\<rparr>)"

definition tenantJSON :: "TenantRow \<Rightarrow> goval" where
  "tenantJSON r = GMap
     [(''id'', GStr (tw_ID r)), (''slug'', GStr (tw_Slug r)), (''name'', GStr (tw_Name r)), (''status'', GStr (tw_Status r)),
      (''createdAt'', GStr (itoa64 (tw_CreatedAt r))), (''parentId'', GStr (tw_ParentID r))]"

definition listTenants :: handler where
  "listTenants ev s rq =
     (count ''ListTenants'' s, answer_ok (GMap [(''tenants'',
        GList (map (\<lambda>i. tenantJSON (the (map_of (sv_tenants s) i))) (sort (map fst (sv_tenants s)))))]))"

definition read_two :: "string \<Rightarrow> string \<Rightarrow> http_request \<Rightarrow> string \<times> string" where
  "read_two m n = read_body [(m, set_string (\<lambda>v (_, b). (v, b))), (n, set_string (\<lambda>v (a, _). (a, v)))] ([], [])"

definition createTenant :: handler where
  "createTenant ev s0 rq =
     (let s = count ''CreateTenant'' s0; (slug, name) = read_two ''slug'' ''name'' rq
      in if list_ex (\<lambda>(_, t). tw_Slug t = slug) (sv_tenants s) then (s, taken_already ''tenant slug is taken'')
         else let (n, i) = freshID ''ten'' (map fst (sv_tenants s)) (sv_seq s);
                  row = \<lparr>tw_ID = i, tw_Slug = slug, tw_Name = name, tw_Status = ''active'', tw_CreatedAt = unix_now ev,
                         tw_ParentID = []\<rparr>
           in (s\<lparr>sv_seq := n, sv_tenants := AList.update i row (sv_tenants s)\<rparr>,
               answer_ok (GMap [(''tenant'', tenantJSON row)])))"

definition updateTenant :: handler where
  "updateTenant ev s0 rq =
     (let s = count ''UpdateTenant'' s0; (i, name) = read_two ''id'' ''name'' rq
      in case map_of (sv_tenants s) i of
           None \<Rightarrow> (s, not_found ''no such tenant'')
         | Some row \<Rightarrow> (s\<lparr>sv_tenants := AList.update i (row\<lparr>tw_Name := name\<rparr>) (sv_tenants s)\<rparr>, answer_ok (GMap [])))"

definition setTenantStatus :: handler where
  "setTenantStatus ev s0 rq =
     (let s = count ''SetTenantStatus'' s0; (i, status) = read_two ''id'' ''status'' rq
      in if status \<notin> {''active'', ''suspended'', ''archived''} then (s, bad_argument ''bad status'')
         else case map_of (sv_tenants s) i of
           None \<Rightarrow> (s, not_found ''no such tenant'')
         | Some row \<Rightarrow> (s\<lparr>sv_tenants := AList.update i (row\<lparr>tw_Status := status\<rparr>) (sv_tenants s)\<rparr>, answer_ok (GMap [])))"

section \<open>Realms\<close>

text \<open>
  A member of a realm as \<open>any\<close>. Its numbers are integers; a fraction, which no member of a
  realm is, would count as 0 here.
\<close>

fun any_of :: "json \<Rightarrow> goval" where
  "any_of JNull = GNull"
| "any_of (JBool b) = GBool b"
| "any_of (JNum l) = GInt (case ParseInt l of None \<Rightarrow> 0 | Some n \<Rightarrow> n)"
| "any_of (JStr raw) = GStr (unquote raw)"
| "any_of (JArr vs) = GList (map any_of vs)"
| "any_of (JObj ms) = GMap (foldl (\<lambda>m (k, v). AList.update k v m) [] (map (\<lambda>(raw, v). (unquote raw, any_of v)) ms))"

fun set_any_map :: "((string \<times> goval) list option) setter" where
  "set_any_map (JObj ms) m =
     Some (Some (foldl (\<lambda>m (k, v). AList.update k v m) (case m of None \<Rightarrow> [] | Some ms \<Rightarrow> ms)
       (map (\<lambda>(raw, v). (unquote raw, any_of v)) ms)))"
| "set_any_map JNull m = Some None"
| "set_any_map _ m = None"

definition realm_code :: "(string \<times> goval) list \<Rightarrow> string" where
  "realm_code realm = (case map_of realm ''code'' of Some (GStr code) \<Rightarrow> code | _ \<Rightarrow> [])"

definition listRealms :: handler where
  "listRealms ev s rq =
     (count ''ListRealms'' s, answer_ok (GMap [(''realms'',
        GList (map (\<lambda>code. GMap (the (map_of (sv_realms s) code))) (sort (map fst (sv_realms s)))))]))"

definition upsertRealm :: "bool \<Rightarrow> handler" where
  "upsertRealm create ev s rq =
     (case read_body [(''realm'', set_any_map)] None rq of
        None \<Rightarrow> (s, bad_argument ''no realm'')
      | Some realm \<Rightarrow>
          let code = realm_code realm in
          if code = [] then (s, bad_argument ''realm needs a code'')
          else if create \<and> map_of (sv_realms s) code \<noteq> None then (s, taken_already ''realm code is taken'')
          else
            let n = (if create then Suc (sv_seq s) else sv_seq s);
                realm' = (if create then AList.update ''id'' (GStr (seq_id ''rlm'' n)) realm else realm)
            in (s\<lparr>sv_seq := n, sv_realms := AList.update code realm' (sv_realms s)\<rparr>, answer_ok (GMap [(''realm'', GMap realm')])))"

definition createRealm :: handler where "createRealm ev s = upsertRealm True ev (count ''CreateRealm'' s)"
definition updateRealm :: handler where "updateRealm ev s = upsertRealm False ev (count ''UpdateRealm'' s)"

section \<open>Applications\<close>

definition AddApplication :: "ApplicationRow \<Rightarrow> Server \<Rightarrow> Server" where
  "AddApplication row s =
     (let r = row\<lparr>aw_Status := (if aw_Status row = [] then ''active'' else aw_Status row)\<rparr>
      in s\<lparr>sv_applications := AList.update (aw_Slug r) r (sv_applications s)\<rparr>)"

definition ApplicationPageSize :: "int \<Rightarrow> Server \<Rightarrow> Server" where
  "ApplicationPageSize n s = s\<lparr>sv_applicationPage := (if n < 1 then 1 else n)\<rparr>"

definition applicationJSON :: "ApplicationRow \<Rightarrow> goval" where
  "applicationJSON r = GMap
     [(''id'', GStr (aw_ID r)), (''slug'', GStr (aw_Slug r)), (''name'', GStr (aw_Name r)), (''kind'', GStr (aw_Kind r)),
      (''status'', GStr (aw_Status r)), (''redirectUris'', gstrs (aw_RedirectURIs r)),
      (''manifestVersion'', GInt (aw_ManifestVersion r)), (''allowedAudiences'', gstrs (aw_AllowedAudiences r)),
      (''signIn'', GStr (if aw_SignIn r = [] then ''anyone'' else aw_SignIn r))]"

definition read_application_query :: "http_request \<Rightarrow> ApplicationQuery" where
  "read_application_query = read_body
     [(''query'', set_string (\<lambda>v r. r\<lparr>aq_Query := v\<rparr>)), (''page_size'', set_int (\<lambda>v r. r\<lparr>aq_PageSize := v\<rparr>)),
      (''page_token'', set_string (\<lambda>v r. r\<lparr>aq_Page := v\<rparr>))] \<lparr>aq_Query = [], aq_PageSize = 0, aq_Page = []\<rparr>"

text \<open>\<open>sort.SearchStrings\<close> on a sorted slice: how many elements are below.\<close>

definition SearchStrings :: "string list \<Rightarrow> string \<Rightarrow> nat" where
  "SearchStrings xs x = length (takeWhile (\<lambda>y. y < x) xs)"

definition matching_slugs :: "string \<Rightarrow> (string \<times> ApplicationRow) list \<Rightarrow> string list" where
  "matching_slugs query apps = sort (map fst (filter
     (\<lambda>(slug, r). \<not> (query \<noteq> [] \<and> \<not> Contains slug query \<and> \<not> Contains (aw_Name r) query)) apps))"

definition resume_after :: "string list \<Rightarrow> string \<Rightarrow> nat" where
  "resume_after slugs token =
     (if token = [] then 0
      else let start = SearchStrings slugs token
        in if start < length slugs \<and> slugs ! start = token then Suc start else start)"

definition listApplications :: handler where
  "listApplications ev s rq =
     (let q = read_application_query rq;
          slugs = matching_slugs (aq_Query q) (sv_applications s);
          size = nat (page_size_of (sv_applicationPage s) (aq_PageSize q));
          start = resume_after slugs (aq_Page q);
          end = min (start + size) (length slugs)
      in (count ''ListApplications'' s,
          answer_ok (GMap ([(''applications'', GList (map (\<lambda>slug. applicationJSON (the (map_of (sv_applications s) slug)))
                 (take (end - start) (drop start slugs)))), (''total'', GInt (int (length slugs)))] @
             (if end < length slugs then [(''nextPageToken'', GStr (slugs ! (end - 1)))] else [])))))"

definition application_fields :: "(string \<times> ApplicationRow setter) list" where
  "application_fields =
     [(''slug'', set_string (\<lambda>v r. r\<lparr>aw_Slug := v\<rparr>)), (''name'', set_string (\<lambda>v r. r\<lparr>aw_Name := v\<rparr>)),
      (''kind'', set_string (\<lambda>v r. r\<lparr>aw_Kind := v\<rparr>)), (''redirectUris'', set_strings (\<lambda>v r. r\<lparr>aw_RedirectURIs := v\<rparr>)),
      (''allowedAudiences'', set_strings (\<lambda>v r. r\<lparr>aw_AllowedAudiences := v\<rparr>)),
      (''signIn'', set_string (\<lambda>v r. r\<lparr>aw_SignIn := v\<rparr>))]"

definition update_fields :: "(string \<times> ApplicationRow setter) list" where
  "update_fields =
     [(''id'', set_string (\<lambda>v r. r\<lparr>aw_ID := v\<rparr>)), (''name'', set_string (\<lambda>v r. r\<lparr>aw_Name := v\<rparr>)),
      (''status'', set_string (\<lambda>v r. r\<lparr>aw_Status := v\<rparr>)), (''redirectUris'', set_strings (\<lambda>v r. r\<lparr>aw_RedirectURIs := v\<rparr>)),
      (''allowedAudiences'', set_strings (\<lambda>v r. r\<lparr>aw_AllowedAudiences := v\<rparr>)),
      (''signIn'', set_string (\<lambda>v r. r\<lparr>aw_SignIn := v\<rparr>))]"

definition zero_ApplicationRow :: ApplicationRow where
  "zero_ApplicationRow = \<lparr>aw_ID = [], aw_Slug = [], aw_Name = [], aw_Kind = [], aw_Status = [], aw_RedirectURIs = [],
     aw_ManifestVersion = 0, aw_AllowedAudiences = [], aw_SignIn = []\<rparr>"

abbreviation (input) has_secret :: "string \<Rightarrow> bool" where
  "has_secret kind \<equiv> kind = ''server'' \<or> kind = ''service''"

definition createApplication :: handler where
  "createApplication ev s0 rq =
     (let s = count ''CreateApplication'' s0;
          a = read_body [(''application'', set_nested application_fields)] zero_ApplicationRow rq
      in if map_of (sv_applications s) (aw_Slug a) \<noteq> None then (s, taken_already ''application slug is taken'')
         else
           let (n, i) = freshID ''app'' (map (aw_ID \<circ> snd) (sv_applications s)) (sv_seq s);
               row = a\<lparr>aw_ID := i, aw_Status := ''active''\<rparr>;
               s1 = s\<lparr>sv_seq := n, sv_applications := AList.update (aw_Slug a) row (sv_applications s)\<rparr>
           in if has_secret (aw_Kind a)
              then (s1\<lparr>sv_seq := Suc n\<rparr>, answer_ok (GMap [(''application'', applicationJSON row),
                      (''clientSecret'', GStr (seq_id ''anb_secret'' (Suc n)))]))
              else (s1, answer_ok (GMap [(''application'', applicationJSON row)])))"

definition updateApplication :: handler where
  "updateApplication ev s0 rq =
     (let s = count ''UpdateApplication'' s0;
          a = read_body [(''application'', set_nested update_fields)] zero_ApplicationRow rq
      in case find (\<lambda>(_, row). aw_ID row = aw_ID a) (sv_applications s) of
           None \<Rightarrow> (s, not_found ''no such application'')
         | Some (slug, row) \<Rightarrow>
             let row' = row\<lparr>aw_Name := aw_Name a, aw_Status := (if aw_Status a \<noteq> [] then aw_Status a else aw_Status row),
                   aw_RedirectURIs := aw_RedirectURIs a, aw_AllowedAudiences := aw_AllowedAudiences a,
                   aw_SignIn := (if aw_SignIn a \<noteq> [] then aw_SignIn a else aw_SignIn row)\<rparr>
             in (s\<lparr>sv_applications := AList.update slug row' (sv_applications s)\<rparr>,
                 answer_ok (GMap [(''application'', applicationJSON row')])))"

definition rotateClientSecret :: handler where
  "rotateClientSecret ev s0 rq =
     (let s = count ''RotateClientSecret'' s0; i = read_string ''application_id'' rq
      in case find (\<lambda>(_, row). aw_ID row = i) (sv_applications s) of
           None \<Rightarrow> (s, not_found ''no such application'')
         | Some (_, row) \<Rightarrow>
             if \<not> has_secret (aw_Kind row) then (s, bad_argument ''this kind of application has no client secret'')
             else (s\<lparr>sv_seq := Suc (sv_seq s)\<rparr>,
                   answer_ok (GMap [(''clientSecret'', GStr (seq_id ''anb_secret'' (Suc (sv_seq s))))])))"

section \<open>API keys\<close>

definition api_key_row :: "apiKeyRow \<Rightarrow> goval" where
  "api_key_row k = GMap
     [(''id'', GStr (xw_id k)), (''label'', GStr (xw_label k)), (''prefix'', GStr (xw_prefix k)), (''createdBy'', GStr ''op_1''),
      (''createdAt'', GStr (itoa64 (xw_createdAt k))), (''lastUsedAt'', GStr (itoa64 0)),
      (''expiresAt'', GStr (itoa64 (xw_expiresAt k))), (''revokedAt'', GStr (itoa64 (xw_revokedAt k)))]"

definition listAPIKeys :: handler where
  "listAPIKeys ev s rq =
     (count ''ListApiKeys'' s, answer_ok (GMap [(''keys'',
        GList (map (\<lambda>i. api_key_row (the (map_of (sv_apiKeys s) i))) (sort (map fst (sv_apiKeys s)))))]))"

definition TrimPrefix :: "string \<Rightarrow> string \<Rightarrow> string" where
  "TrimPrefix s p = (if HasPrefix s p then drop (length p) s else s)"

definition createAPIKey :: handler where
  "createAPIKey ev s0 rq =
     (let s = count ''CreateApiKey'' s0;
          (label, expires) = read_body [(''label'', set_string (\<lambda>v (_, n). (v, n))),
                                        (''expires_at'', set_int (\<lambda>v (l, _). (l, v)))] ([], 0) rq
      in if label = [] then (s, bad_argument ''a key needs a label'')
         else
           let (n, i) = freshID ''key'' (map fst (sv_apiKeys s)) (sv_seq s);
               prefix = ''anb_live_'' @ TrimPrefix i ''key_'';
               row = \<lparr>xw_id = i, xw_label = label, xw_prefix = prefix, xw_createdAt = unix_now ev, xw_expiresAt = expires,
                      xw_revokedAt = 0\<rparr>
           in (s\<lparr>sv_seq := n, sv_apiKeys := AList.update i row (sv_apiKeys s)\<rparr>,
               answer_ok (GMap [(''apiKey'', GStr (prefix @ ''_s3cr3t'')), (''prefix'', GStr prefix), (''id'', GStr i)])))"

definition revokeAPIKey :: handler where
  "revokeAPIKey ev s0 rq =
     (let s = count ''RevokeApiKey'' s0; i = read_string ''id'' rq
      in case map_of (sv_apiKeys s) i of
           None \<Rightarrow> (s, not_found ''no such api key'')
         | Some row \<Rightarrow> (s\<lparr>sv_apiKeys := AList.update i (row\<lparr>xw_revokedAt := unix_now ev\<rparr>) (sv_apiKeys s)\<rparr>, answer_ok (GMap [])))"

section \<open>Sign-in pages, the rest of them\<close>

text \<open>The struct of this request lacks four of the members \<open>page_fields\<close> reads; nothing looks at them.\<close>

definition createAuthPage :: handler where
  "createAuthPage ev s0 rq =
     (let s = count ''CreateAuthPage'' s0; p = read_body [(''page'', set_nested page_fields)] zero_AuthPage rq
      in if ap_ApplicationSlug p \<noteq> [] \<and> ap_RealmCode p \<noteq> [] then (s, one_binding_error)
         else
           let (n, i) = freshID ''pag'' (map fst (sv_authPages s)) (sv_seq s);
               row = \<lparr>pw_ID = i, pw_Kind = ap_Kind p, pw_Slug = ap_Slug p, pw_Name = ap_Name p, pw_Status = ap_Status p,
                      pw_ApplicationSlug = ap_ApplicationSlug p, pw_RealmCode = ap_RealmCode p, pw_IsDefault = False,
                      pw_ConfigJSON = ap_ConfigJSON p\<rparr>
           in (s\<lparr>sv_seq := n, sv_authPages := AList.update i row (sv_authPages s)\<rparr>,
               answer_ok (GMap [(''page'', authPageJSON row)])))"

definition deleteAuthPage :: handler where
  "deleteAuthPage ev s0 rq =
     (let s = count ''DeleteAuthPage'' s0; i = read_string ''id'' rq
      in (s\<lparr>sv_authPages := AList.delete i (sv_authPages s)\<rparr>,
          if map_of (sv_authPages s) i = None then not_found ''no such auth page'' else answer_ok (GMap [])))"

definition default_page :: "string \<Rightarrow> AuthPageRow \<Rightarrow> (string \<times> AuthPageRow) list \<Rightarrow> (string \<times> AuthPageRow) list" where
  "default_page i target pages = AList.update i (target\<lparr>pw_IsDefault := True\<rparr>)
     (map (\<lambda>(j, p). (j, if pw_Kind p = pw_Kind target then p\<lparr>pw_IsDefault := False\<rparr> else p)) pages)"

definition setDefaultAuthPage :: handler where
  "setDefaultAuthPage ev s0 rq =
     (let s = count ''SetDefaultAuthPage'' s0; i = read_string ''id'' rq
      in case map_of (sv_authPages s) i of
           None \<Rightarrow> (s, not_found ''no such auth page'')
         | Some target \<Rightarrow> (s\<lparr>sv_authPages := default_page i target (sv_authPages s)\<rparr>, answer_ok (GMap [])))"

end
