(* ===== verification/Fake_Authz.thy ===== *)
theory Fake_Authz
  imports Fake_Server Token_Flight
begin

text \<open>
  The test server's gate and sign-in (\<open>anubistest/server.go\<close>): decisions, granted nodes,
  record shares and access links, sessions with their refresh tokens, PKCE codes.

  What a client gets from the links and the codes is theory \<open>Fake_Access\<close>.
\<close>

abbreviation (input) domainCodeFor :: "string \<Rightarrow> string" where
  "domainCodeFor message \<equiv>
     (if Contains message ''family revoked'' then ''refresh_token_reuse_detected''
      else if Contains message ''username or password'' then ''invalid_credentials''
      else if Contains message ''unknown subject or permission'' then ''not_found''
      else ''unauthenticated'')"

definition connectError :: "int \<Rightarrow> string \<Rightarrow> string \<Rightarrow> string \<Rightarrow> http_response" where
  "connectError status cls message requestID =
     (let code = domainCodeFor message
      in writeJSON status (connect_error cls message (encodeErrorInfo code requestID)))"

abbreviation (input) unauthenticated :: "string \<Rightarrow> http_response" where
  "unauthenticated message \<equiv> connectError 401 ''unauthenticated'' message ''req_test''"

abbreviation (input) authorization :: "http_request \<Rightarrow> string" where
  "authorization rq \<equiv> header_Get (rq_header rq) ''Authorization''"

definition bar :: "string \<Rightarrow> string \<Rightarrow> string" where "bar a b = a @ ''|'' @ b"

section \<open>Decisions\<close>

definition set_decision :: "string \<Rightarrow> string \<Rightarrow> Decision \<Rightarrow> Server \<Rightarrow> Server" where
  "set_decision subject permission d s = s\<lparr>sv_decisions := AList.update (bar subject permission) d (sv_decisions s)\<rparr>"

definition Allow :: "string \<Rightarrow> string \<Rightarrow> Server \<Rightarrow> Server" where
  "Allow subject permission = set_decision subject permission (zero_Decision\<lparr>dn_Allow := True\<rparr>)"

definition Deny :: "string \<Rightarrow> string \<Rightarrow> string \<Rightarrow> string \<Rightarrow> Server \<Rightarrow> Server" where
  "Deny subject permission reason failingAxis = set_decision subject permission
     (zero_Decision\<lparr>dn_Reason := reason, dn_FailingAxis := failingAxis, dn_Message := ''no grant at or above '' @ failingAxis\<rparr>)"

definition RequireStepUp :: "string \<Rightarrow> string \<Rightarrow> string list \<Rightarrow> string \<Rightarrow> Server \<Rightarrow> Server" where
  "RequireStepUp subject permission requiredAMR maxAuthAge = set_decision subject permission
     (zero_Decision\<lparr>dn_Reason := ''step_up_required'', dn_RequiredAMR := requiredAMR, dn_MaxAuthAge := maxAuthAge,
        dn_CurrentAMR := [''pwd''], dn_AuthAge := ''41m''\<rparr>)"

definition read_ask :: "json \<Rightarrow> Ask \<Rightarrow> Ask option" where
  "read_ask = decode_struct
     [(''subject'', set_string (\<lambda>v r. r\<lparr>as_Subject := v\<rparr>)), (''permission'', set_string (\<lambda>v r. r\<lparr>as_Permission := v\<rparr>)),
      (''scopes'', set_smap as_Scopes (\<lambda>v r. r\<lparr>as_Scopes := v\<rparr>)), (''amr'', set_strings (\<lambda>v r. r\<lparr>as_AMR := v\<rparr>)),
      (''auth_time'', set_int (\<lambda>v r. r\<lparr>as_AuthTime := v\<rparr>))]"

definition decision_json :: "Decision \<Rightarrow> goval" where
  "decision_json d = GMap
     [(''allow'', GBool (dn_Allow d)), (''reason'', GStr (dn_Reason d)), (''failingAxis'', GStr (dn_FailingAxis d)),
      (''message'', GStr (dn_Message d)), (''requiredAmr'', gstrs (dn_RequiredAMR d)), (''maxAuthAge'', GStr (dn_MaxAuthAge d)),
      (''currentAmr'', gstrs (dn_CurrentAMR d)), (''authAge'', GStr (dn_AuthAge d))]"

definition fake_decision :: "Server \<Rightarrow> string \<Rightarrow> string \<Rightarrow> Decision" where
  "fake_decision s subject permission =
     (case map_of (sv_decisions s) (bar subject permission) of
        Some d \<Rightarrow> d
      | None \<Rightarrow> zero_Decision\<lparr>dn_Reason := ''permission_not_held'', dn_Message := ''no grant confers '' @ permission\<rparr>)"

definition fake_authorize :: handler where
  "fake_authorize ev s0 rq =
     (let s = count ''Authorize'' s0 in
      case decode_first read_ask zero_Ask (rq_body rq) of
        None \<Rightarrow> (s, connectError 400 ''invalid_argument'' ''bad body'' [])
      | Some req \<Rightarrow>
          if authorization rq = [] then (s, unauthenticated ''no credential'')
          else (s\<lparr>sv_lastAsk := req\<rparr>, answer_ok (decision_json (fake_decision s (as_Subject req) (as_Permission req)))))"

section \<open>Granted nodes\<close>

definition GrantNodes :: "string \<Rightarrow> string \<Rightarrow> string \<Rightarrow> GrantedNodes \<Rightarrow> Server \<Rightarrow> Server" where
  "GrantNodes subject permission axis g s =
     s\<lparr>sv_granted := AList.update (bar subject (bar permission axis)) g (sv_granted s)\<rparr>"

fun granted_node_json :: "GrantedNode \<Rightarrow> goval" where
  "granted_node_json (GrantedNode i inh ex) = GStruct
     ([(''nodeId'', GStr i), (''inherit'', GBool inh)] @ (if ex = [] then [] else [(''except'', GList (map granted_node_json ex))]))"

text \<open>A link's token is no sign-in: every procedure but \<open>Authorize\<close> refuses it.\<close>

definition refused_link :: "Server \<Rightarrow> http_request \<Rightarrow> bool" where
  "refused_link s rq \<longleftrightarrow>
     (let h = authorization rq in (if HasPrefix h ''Bearer '' then drop 7 h else h) \<in> set (sv_linkBearers s))"

definition refuseLink :: "handler \<Rightarrow> handler" where
  "refuseLink h ev s rq =
     (if refused_link s rq then (s, unauthenticated ''an access-link token opens one record and signs nobody in'') else h ev s rq)"

definition listGrantedNodes :: handler where
  "listGrantedNodes ev s0 = refuseLink (\<lambda>ev s rq.
     case decode_first (decode_struct
         [(''subject'', set_string (\<lambda>v (r, a). (r\<lparr>as_Subject := v\<rparr>, a))), (''permission'', set_string (\<lambda>v (r, a). (r\<lparr>as_Permission := v\<rparr>, a))),
          (''axis'', set_string (\<lambda>v (r, _). (r, v))),
          (''scopes'', set_smap (\<lambda>(r, _). as_Scopes r) (\<lambda>v (r, a). (r\<lparr>as_Scopes := v\<rparr>, a)))]) (zero_Ask, []) (rq_body rq) of
       None \<Rightarrow> (s, connectError 400 ''invalid_argument'' ''bad body'' [])
     | Some (req, axis) \<Rightarrow>
         if authorization rq = [] then (s, unauthenticated ''no credential'')
         else (s\<lparr>sv_lastAsk := req\<rparr>,
           case map_of (sv_granted s) (bar (as_Subject req) (bar (as_Permission req) axis)) of
             None \<Rightarrow> connectError 404 ''not_found'' ''unknown subject or permission'' ''req_test''
           | Some g \<Rightarrow> answer_ok (GMap
               [(''everywhere'', GBool (gr_Everywhere g)), (''ownRecords'', GBool (gr_OwnRecords g)),
                (''nodes'', if gr_Nodes g = [] then GNull else GList (map granted_node_json (gr_Nodes g))),
                (''asOf'', GStr (FormatInt (gr_AsOfUnix g)))]))) ev (count ''ListGrantedNodes'' s0)"

section \<open>Shares\<close>

definition shareJSON :: "RecordShare \<Rightarrow> goval" where
  "shareJSON sh = GMap
     [(''id'', GStr (rh_ID sh)), (''recordKind'', GStr (rh_RecordKind sh)), (''recordRef'', GStr (rh_RecordRef sh)),
      (''fromIdentityId'', GStr (rh_FromIdentityID sh)), (''toIdentityId'', GStr (rh_ToIdentityID sh)),
      (''permissions'', gstrs (rh_Permissions sh)), (''note'', GStr (rh_Note sh)),
      (''recordScopes'', if rh_RecordScopes sh = [] then GNull else gsmap (rh_RecordScopes sh)),
      (''createdAt'', GStr (FormatInt (rh_CreatedAtUnix sh))), (''validUntil'', GStr (FormatInt (rh_ValidUntilUnix sh)))]"

definition fake_share :: handler where
  "fake_share ev s0 = refuseLink (\<lambda>ev s rq.
     case decode_first (decode_struct
         [(''record_kind'', set_string (\<lambda>v r. r\<lparr>rh_RecordKind := v\<rparr>)), (''record_ref'', set_string (\<lambda>v r. r\<lparr>rh_RecordRef := v\<rparr>)),
          (''record_scopes'', set_smap rh_RecordScopes (\<lambda>v r. r\<lparr>rh_RecordScopes := v\<rparr>)),
          (''to_identity_id'', set_string (\<lambda>v r. r\<lparr>rh_ToIdentityID := v\<rparr>)),
          (''permissions'', set_strings (\<lambda>v r. r\<lparr>rh_Permissions := v\<rparr>)),
          (''valid_until'', set_int (\<lambda>v r. r\<lparr>rh_ValidUntilUnix := v\<rparr>)), (''note'', set_string (\<lambda>v r. r\<lparr>rh_Note := v\<rparr>))])
         zero_RecordShare (rq_body rq) of
       None \<Rightarrow> (s, connectError 400 ''invalid_argument'' ''bad body'' [])
     | Some req \<Rightarrow>
         if authorization rq = [] then (s, unauthenticated ''no credential'')
         else let n = Suc (sv_seq s); i = seq_id ''share'' n;
                  sh = req\<lparr>rh_ID := i, rh_FromIdentityID := ''usr_1'', rh_CreatedAtUnix := unix_now ev\<rparr>
           in (s\<lparr>sv_seq := n, sv_shares := AList.update i sh (sv_shares s)\<rparr>, answer_ok (GMap [(''share'', shareJSON sh)])))
     ev (count ''Share'' s0)"

definition drop_links :: "string \<Rightarrow> smap \<Rightarrow> smap" where
  "drop_links share links = filter (\<lambda>(_, i). i \<noteq> share) links"

definition unshare :: handler where
  "unshare ev s0 = refuseLink (\<lambda>ev s rq.
     let i = read_string ''share_id'' rq
     in (s\<lparr>sv_shares := AList.delete i (sv_shares s), sv_links := drop_links i (sv_links s)\<rparr>, answer_ok (GMap [])))
     ev (count ''Unshare'' s0)"

definition listSharesOnRecord :: handler where
  "listSharesOnRecord ev s0 = refuseLink (\<lambda>ev s rq.
     let (kind, ref) = read_body [(''record_kind'', set_string (\<lambda>v (_, b). (v, b))),
                                  (''record_ref'', set_string (\<lambda>v (a, _). (a, v)))] ([], []) rq
     in (s, answer_ok (GMap [(''shares'', GList (map (shareJSON \<circ> snd)
           (filter (\<lambda>(_, sh). rh_RecordKind sh = kind \<and> rh_RecordRef sh = ref) (sv_shares s))))])))
     ev (count ''ListSharesOnRecord'' s0)"

definition listSharedWithMe :: handler where
  "listSharedWithMe ev s0 = refuseLink (\<lambda>ev s rq.
     (s, answer_ok (GMap [(''shares'', GList (map (shareJSON \<circ> snd) (sv_shares s)))]))) ev (count ''ListSharedWithMe'' s0)"

section \<open>Access links\<close>

definition createAccessLink :: handler where
  "createAccessLink ev s0 = refuseLink (\<lambda>ev s rq.
     let i = read_string ''share_id'' rq in
     if map_of (sv_shares s) i = None then (s, connectError 404 ''not_found'' ''no such share'' ''req_test'')
     else let n = Suc (sv_seq s); tok = seq_id ''anb_lk'' n
       in (s\<lparr>sv_seq := n, sv_links := AList.update tok i (drop_links i (sv_links s))\<rparr>, answer_ok (GMap [(''linkToken'', GStr tok)])))
     ev (count ''CreateAccessLink'' s0)"

definition bearer_tokens :: "string \<Rightarrow> (string \<times> goval) list" where
  "bearer_tokens access = [(''accessToken'', GStr access), (''tokenType'', GStr ''Bearer''), (''expiresIn'', GInt 600)]"

definition link_claims :: "RecordShare \<Rightarrow> string \<Rightarrow> string \<Rightarrow> Claims" where
  "link_claims sh client tenant = zero_Claims\<lparr>cl_Subject := rh_ToIdentityID sh, cl_Audience := [client], cl_Tenant := tenant,
     cl_AMR := [''link''], cl_Scopes := [(''_record'', rh_RecordKind sh @ ''/'' @ rh_RecordRef sh)]\<rparr>"

definition openAccessLink :: handler where
  "openAccessLink ev s0 rq =
     (let s = count ''OpenAccessLink'' s0;
          (tenant, client, tok) = read_body
            [(''tenant'', set_string (\<lambda>v (_, c, t). (v, c, t))), (''client_id'', set_string (\<lambda>v (n, _, t). (n, v, t))),
             (''link_token'', set_string (\<lambda>v (n, c, _). (n, c, v)))] ([], [], []) rq
      in case Option.bind (map_of (sv_links s) tok) (map_of (sv_shares s)) of
           None \<Rightarrow> (s, unauthenticated ''invalid or expired link'')
         | Some sh \<Rightarrow>
             if client = ''anubis'' \<or> client = ''console'' then (s, unauthenticated ''invalid or expired link'')
             else let access = ev_mint ev (link_claims sh client tenant)
               in (s\<lparr>sv_linkBearers := access # sv_linkBearers s\<rparr>, answer_ok (GMap [(''tokens'', GMap (bearer_tokens access))])))"

definition fake_explain :: handler where
  "fake_explain ev s rq = (count ''Explain'' s, answer_ok (GMap
     [(''allow'', GBool False), (''reason'', GStr ''scope_mismatch''), (''failingAxis'', GStr ''customer''),
      (''detailJson'', GStr (CHR ''{'' # quote ''gates'' @ '':[]}''))]))"

section \<open>Sessions\<close>

text \<open>\<open>IssueSession\<close>: two random ids, a live refresh token, an access token.\<close>

definition session_claims :: "string \<Rightarrow> string \<Rightarrow> string \<Rightarrow> Claims" where
  "session_claims subject audience sid = zero_Claims\<lparr>cl_Subject := subject, cl_Audience := [audience], cl_Session := sid,
     cl_Tenant := ''tnt_test'', cl_AMR := [''pwd'']\<rparr>"

definition IssueSession :: "fake_env \<Rightarrow> string \<Rightarrow> string \<Rightarrow> Server \<Rightarrow> Server \<times> Tokens" where
  "IssueSession ev subject audience s =
     (let sid = ''ses_'' @ ev_random ev 0; refresh = ''anb_rt_'' @ ev_random ev 1
      in (s\<lparr>sv_liveRefresh := AList.update sid refresh (sv_liveRefresh s), sv_issued := AList.update refresh sid (sv_issued s)\<rparr>,
          zero_Tokens\<lparr>tk_AccessToken := ev_mint ev (session_claims subject audience sid), tk_RefreshToken := refresh,
            tk_TokenType := ''Bearer'', tk_ExpiresIn := 600, tk_SessionID := sid, tk_IssuedAt := ev_now ev\<rparr>))"

definition session_json :: "string \<Rightarrow> string \<Rightarrow> string \<Rightarrow> goval" where
  "session_json access refresh sid = GMap
     (bearer_tokens access @ [(''refreshToken'', GStr refresh), (''sessionId'', GStr sid)])"

definition refresh_view :: "Server \<Rightarrow> refresh_server" where
  "refresh_view s = \<lparr>rv_live = sv_liveRefresh s, rv_issued = sv_issued s, rv_consumed = sv_consumed s\<rparr>"

definition with_refresh :: "refresh_server \<Rightarrow> Server \<Rightarrow> Server" where
  "with_refresh v s = s\<lparr>sv_liveRefresh := rv_live v, sv_issued := rv_issued v, sv_consumed := rv_consumed v\<rparr>"

text \<open>One call alone; theory \<open>Token_Flight\<close> interleaves its two sections with other callers.\<close>

definition fake_refresh :: handler where
  "fake_refresh ev s0 rq =
     (let s = count ''Refresh'' s0 in
      case refresh_present (refresh_view s) (read_string ''refresh_token'' rq) of
        (v, None) \<Rightarrow> (with_refresh v s,
           connectError 401 ''unauthenticated'' ''Token family revoked. Re-authentication required.'' ''req_reuse'')
      | (v, Some sid) \<Rightarrow>
          let next_token = ''anb_rt_'' @ ev_random ev 0;
              access = ev_mint ev (zero_Claims\<lparr>cl_Subject := ''usr_test'', cl_Audience := [''billing-api''], cl_Session := sid,
                         cl_AMR := [''pwd'']\<rparr>)
          in (with_refresh (refresh_mint v sid next_token) s,
              answer_ok (GMap [(''tokens'', session_json access next_token sid)])))"

definition fake_login :: handler where
  "fake_login ev s0 rq =
     (let s = count ''Login'' s0; username = read_string ''username'' rq in
      if username = ''mfa-user''
      then (s, answer_ok (GMap [(''mfa'', GMap [(''mfaToken'', GStr ''anb.local.v1.test''), (''methods'', gstrs [''totp'']),
             (''expiresIn'', GInt 60)])]))
      else if username = ''enrol-user''
      then (s, answer_ok (GMap [(''enrolmentRequired'', GMap [(''factors'', gstrs [''totp'']),
             (''deadline'', GStr (FormatInt (Time_Unix (ev_now ev - 3600 * second)))), (''grantToken'', GStr ''anb.local.v1.grant'')])]))
      else if username = ''bad-user''
      then (s, connectError 401 ''unauthenticated'' ''Invalid username or password'' ''req_login'')
      else (case IssueSession ev ''usr_test'' ''billing-api'' s of
         (s', t) \<Rightarrow> (s', answer_ok (GMap [(''tokens'', session_json (tk_AccessToken t) (tk_RefreshToken t) (tk_SessionID t))]))))"

definition clientCredentials :: handler where
  "clientCredentials ev s0 rq =
     (let s = count ''ClientCredentials'' s0;
          (client, audience) = read_body [(''client_id'', set_string (\<lambda>v (_, b). (v, b))),
                                          (''audience'', set_string (\<lambda>v (a, _). (a, v)))] ([], []) rq
      in if (case map_of (sv_applications s) client of
               None \<Rightarrow> False
             | Some app \<Rightarrow> audience \<noteq> [] \<and> audience \<noteq> aw_Slug app \<and> audience \<notin> set (aw_AllowedAudiences app))
         then (s, httpErrorWithDetails 403 ''permission_denied'' ''audience not allowed''
                [(''audience'', audience),
                 (''hint'', ''add it to the application'' @ [CHR 0x27] @ ''s allowed_audiences to request it'')])
         else (s, answer_ok (GMap [(''accessToken'', GStr (ev_mint ev
                 (zero_Claims\<lparr>cl_Subject := ''app_billing-batch'', cl_Audience := [''reporting-api'']\<rparr>))),
                (''tokenType'', GStr ''Bearer''), (''expiresIn'', GInt 300)])))"

definition fake_introspect :: handler where
  "fake_introspect ev s rq = (count ''Introspect'' s, answer_ok (GMap
     [(''active'', GBool True), (''sub'', GStr ''usr_test''), (''sid'', GStr ''ses_test''), (''tid'', GStr ''tnt_test''),
      (''roles'', gstrs [''billing.clerk'']), (''amr'', gstrs [''pwd'']),
      (''exp'', GStr (FormatInt (Time_Unix (ev_now ev + 60 * second)))), (''ial'', GInt 2)]))"

section \<open>The browser's leg\<close>

definition raw_query :: "http_request \<Rightarrow> string" where
  "raw_query rq = (case break_at (CHR ''?'') (rq_url rq) of None \<Rightarrow> [] | Some (_, q) \<Rightarrow> q)"

definition browserAuthorize :: handler where
  "browserAuthorize ev s0 rq =
     (let s = count ''BrowserAuthorize'' s0; q = ParseQuery (raw_query rq); code = ''code_'' @ ev_random ev 0;
          redirect = values_Get q ''redirect_uri'';
          rq' = values_Set (values_Set (ev_url_query ev redirect) ''code'' code) ''state'' (values_Get q ''state'')
      in (s\<lparr>sv_codes := AList.update code
             \<lparr>co_challenge = values_Get q ''code_challenge'', co_redirectURI = redirect,
              co_clientID = values_Get q ''client_id'', co_subject = ''usr_test''\<rparr> (sv_codes s)\<rparr>,
          \<lparr>rs_status = 302, rs_header = [(''Location'', ev_url_with ev redirect (values_Encode rq'))], rs_body = [],
           rs_read_err = None\<rparr>))"

text \<open>\<open>ParseForm\<close> reports a pair that does not decode; empty pairs are none.\<close>

definition form_error :: "string \<Rightarrow> bool" where
  "form_error body \<longleftrightarrow> list_ex (\<lambda>p. p \<noteq> [] \<and> query_pair p = None) (Split (CHR ''&'') body)"

definition tokenExchange :: handler where
  "tokenExchange ev s0 rq =
     (let s = count ''TokenExchange'' s0; bad_pkce = httpError 400 ''invalid_pkce'' in
      if form_error (rq_body rq) then (s, httpError 400 ''invalid_argument'' ''bad form'')
      else let q = ParseQuery (rq_body rq); code = values_Get q ''code'';
               s1 = s\<lparr>sv_codes := AList.delete code (sv_codes s)\<rparr>
        in case map_of (sv_codes s) code of
             None \<Rightarrow> (s1, bad_pkce ''unknown code'')
           | Some ac \<Rightarrow>
               if \<not> pkceMatches (ev_sha256 ev) (values_Get q ''code_verifier'') (co_challenge ac)
               then (s1, bad_pkce ''verifier does not match challenge'')
               else if values_Get q ''redirect_uri'' \<noteq> co_redirectURI ac \<or> values_Get q ''client_id'' \<noteq> co_clientID ac
               then (s1, bad_pkce ''redirect_uri or client_id changed'')
               else (case IssueSession ev (co_subject ac) (co_clientID ac) s1 of
                  (s2, t) \<Rightarrow> (s2, answer_ok (GMap
                     [(''access_token'', GStr (tk_AccessToken t)), (''refresh_token'', GStr (tk_RefreshToken t)),
                      (''token_type'', GStr ''Bearer''), (''expires_in'', GInt 600), (''session_id'', GStr (tk_SessionID t))]))))"

end
