(* ===== verification/Fake_Mux.thy ===== *)
theory Fake_Mux
  imports Fake_Admin Fake_Config Fake_Manifest Fake_Provision Fake_Authz
begin

text \<open>
  The routes of the test server (\<open>NewServer\<close>, \<open>adminRoutes\<close>, \<open>adminConfigRoutes\<close>,
  \<open>manifestRoutes\<close>, \<open>provisionRoutes\<close> in \<open>anubistest/\<close>) and the server as the far end of
  a client: a transport whose world is the server's state. The revocation stream is theory
  \<open>Fake_Stream\<close>.

  The lemmas: a client whose transport is the server decodes what the handler wrote, and
  every administration procedure is behind the guard.
\<close>

definition served_keys :: handler where
  "served_keys ev s rq = (s, answer_ok (keys_json (ev_issuer ev) (ev_public ev)))"

abbreviation (input) authz_path :: "string \<Rightarrow> string" where "authz_path m \<equiv> ''/anubis.v1.AuthzAdminService/'' @ m"
abbreviation (input) scope_path :: "string \<Rightarrow> string" where "scope_path m \<equiv> ''/anubis.v1.ScopeAdminService/'' @ m"
abbreviation (input) tenant_path :: "string \<Rightarrow> string" where "tenant_path m \<equiv> ''/anubis.v1.TenantAdminService/'' @ m"

definition adminRoutes :: "(string \<times> handler) list" where
  "adminRoutes =
     [(authz_path ''ListGrants'', guarded listGrants), (authz_path ''SearchGrants'', guarded searchGrants),
      (authz_path ''ListRoles'', guarded listRoles), (authz_path ''GetRoleEffective'', guarded roleEffective),
      (''/anubis.v1.IdentityAdminService/GetIdentity'', guarded getIdentity),
      (scope_path ''ListScopeNodes'', guarded listScopeNodes), (authz_path ''ListMemberships'', guarded listMemberships)]"

definition adminConfigRoutes :: "(string \<times> handler) list" where
  "adminConfigRoutes =
     [(scope_path ''SetSyncSchedule'', guarded setSyncSchedule), (authz_path ''ListCatalogSources'', guarded listCatalogSources),
      (authz_path ''CreateCatalogSource'', guarded createCatalogSource), (authz_path ''UpdateCatalogSource'', guarded updateCatalogSource),
      (authz_path ''DeleteCatalogSource'', guarded deleteCatalogSource), (authz_path ''RunCatalogSource'', guarded runCatalogSource),
      (authz_path ''ListCatalogRuns'', guarded listCatalogRuns), (tenant_path ''ListAuthPages'', guarded listAuthPages),
      (tenant_path ''GetAuthPage'', guarded getAuthPage), (tenant_path ''UpdateAuthPage'', guarded updateAuthPage)]"

definition manifestRoutes :: "(string \<times> handler) list" where
  "manifestRoutes = [(authz_path ''ApplyManifest'', guarded applyManifest)]"

definition provisionRoutes :: "(string \<times> handler) list" where
  "provisionRoutes = map (\<lambda>(m, h). (tenant_path m, guarded h))
     [(''ListTenants'', listTenants), (''CreateTenant'', createTenant), (''UpdateTenant'', updateTenant),
      (''SetTenantStatus'', setTenantStatus), (''ListRealms'', listRealms), (''CreateRealm'', createRealm),
      (''UpdateRealm'', updateRealm), (''ListApplications'', listApplications), (''CreateApplication'', createApplication),
      (''UpdateApplication'', updateApplication), (''RotateClientSecret'', rotateClientSecret), (''ListApiKeys'', listAPIKeys),
      (''CreateApiKey'', createAPIKey), (''RevokeApiKey'', revokeAPIKey), (''CreateAuthPage'', createAuthPage),
      (''DeleteAuthPage'', deleteAuthPage), (''SetDefaultAuthPage'', setDefaultAuthPage)]"

definition callerRoutes :: "(string \<times> handler) list" where
  "callerRoutes =
     [(''/.well-known/anubis-keys.json'', served_keys), (''/anubis.v1.AuthzService/Authorize'', fake_authorize),
      (''/anubis.v1.AuthzService/Explain'', fake_explain), (''/anubis.v1.AuthzService/ListGrantedNodes'', listGrantedNodes),
      (''/anubis.v1.ShareService/Share'', fake_share), (''/anubis.v1.ShareService/Unshare'', unshare),
      (''/anubis.v1.ShareService/ListSharesOnRecord'', listSharesOnRecord),
      (''/anubis.v1.ShareService/ListSharedWithMe'', listSharedWithMe),
      (''/anubis.v1.ShareService/CreateAccessLink'', createAccessLink),
      (''/anubis.v1.AuthService/OpenAccessLink'', openAccessLink), (''/anubis.v1.AuthService/Refresh'', fake_refresh),
      (''/anubis.v1.AuthService/Login'', fake_login), (''/anubis.v1.AuthService/ClientCredentials'', clientCredentials),
      (''/anubis.v1.TokenService/Introspect'', fake_introspect),
      (''/v1/authorize'', browserAuthorize), (''/v1/token'', tokenExchange)]"

definition mux :: "(string \<times> handler) list" where
  "mux = callerRoutes @ adminRoutes @ adminConfigRoutes @ manifestRoutes @ provisionRoutes"

definition request_path :: "string \<Rightarrow> http_request \<Rightarrow> string" where
  "request_path base rq =
     (let url = drop (length base) (rq_url rq) in case break_at (CHR ''?'') url of None \<Rightarrow> url | Some (path, _) \<Rightarrow> path)"

definition serve :: "string \<Rightarrow> handler" where
  "serve base ev s rq =
     (case map_of mux (request_path base rq) of
        Some h \<Rightarrow> h ev s rq
      | None \<Rightarrow> (s, \<lparr>rs_status = 404, rs_header = [], rs_body = ''404 page not found'' @ [CHR 0x0A], rs_read_err = None\<rparr>))"

text \<open>The server as a client's transport; \<open>env\<close> is what the surroundings give it, call by call.\<close>

definition fake_net :: "string \<Rightarrow> (Server \<Rightarrow> fake_env) \<Rightarrow> Server net" where
  "fake_net base env s rq = (case serve base (env s) s rq of (s', rs) \<Rightarrow> (s', Inr rs))"

section \<open>A client of the server\<close>

lemma those_map_SomeI: "(\<And>x. x \<in> set xs \<Longrightarrow> f x = Some (g x)) \<Longrightarrow> those (map f xs) = Some (map g xs)"
  by (induction xs) auto

definition talks_to :: "Server Client \<Rightarrow> (Server \<Rightarrow> fake_env) \<Rightarrow> bool" where
  "talks_to c env \<longleftrightarrow> wf_options (c_opts c) \<and>
     (\<exists>hc. o_httpClient (c_opts c) = Some hc \<and> hc_transport hc = (\<lambda>timeout. fake_net (c_baseURL c) env))"

text \<open>The request a handler is given: the procedure's body, and the credential of the call.\<close>

definition request_of :: "Server platform \<Rightarrow> Server Client \<Rightarrow> Ctx \<Rightarrow> string \<Rightarrow> goval \<Rightarrow> http_request \<Rightarrow> bool" where
  "request_of pf c ctx procedure body rq \<longleftrightarrow>
     rq_url rq = c_baseURL c @ procedure \<and> rq_body rq = marshal body \<and>
     (\<exists>t. the_credential c ctx = Some t \<and> authorization rq = ''Bearer '' @ t)"

lemma set_headers_fields [simp]:
  "rq_url (set_headers h t rq) = rq_url rq" "rq_body (set_headers h t rq) = rq_body rq"
  by (simp_all add: set_headers_def Let_def)

text \<open>What a call makes of an answer of the server.\<close>

definition read_answer :: "Server platform \<Rightarrow> int \<Rightarrow> goval \<Rightarrow> (json \<Rightarrow> 'r \<Rightarrow> 'r option) \<Rightarrow> 'r \<Rightarrow> 'r res" where
  "read_answer pf status v dec zero =
     (if status \<noteq> 200 then Inl (classify (pf_until_http_date pf) (parseWireError (marshal v @ [CHR 0x0A]) status) [])
      else case dec (to_json v) zero of None \<Rightarrow> Inl (ErrText ''anubis: decoding response'') | Some x \<Rightarrow> Inr x)"

lemma client_do_served:
  assumes "client_http c w (set_headers (o_headers (c_opts c)) (o_tenant (c_opts c)) rq) = (w', Inr (writeJSON status v))"
    "ascii_val v" "length (marshal v) < maxResponseBytes"
  shows "client_do pf c w rq (Some dec) zero = (w', read_answer pf status v dec zero)"
  using assms unmarshal_newline [OF assms(2), of dec zero]
  by (simp add: client_do_def client_send_def read_limited_def writeJSON_def decode_out_def read_answer_def header_Get_def
      EqualFold_def toLower_byte_def)

lemma serve_rpc:
  assumes "talks_to c env" "the_credential c ctx = Some t" "pf_url_parse pf (c_baseURL c @ procedure) \<noteq> None"
    "map_of mux procedure = Some h" "CHR ''?'' \<notin> set procedure" "status \<notin> {301, 302, 303, 307, 308}"
    and served: "\<And>rq. request_of pf c ctx procedure body rq \<Longrightarrow> h (env w) w rq = (w', writeJSON status v)"
    and "ascii_val v" "length (marshal v) < maxResponseBytes"
  shows "rpc pf c w ctx procedure body (Some dec) zero = (w', read_answer pf status v dec zero)"
proof -
  let ?rq = "\<lparr>rq_method = ''POST'', rq_url = c_baseURL c @ procedure, rq_header = [(''Content-Type'', ''application/json'')],
      rq_body = marshal body\<rparr>"
  obtain rq where rq: "attachCredential c ctx ?rq = Inr rq"
  proof (cases "attachCredential c ctx ?rq")
    case (Inl e)
    then have "e = ErrNoCredential" by (auto simp: attachCredential_def split: if_splits option.splits)
    with Inl attachCredential_None [of c ctx ?rq] assms(2) show ?thesis by simp
  qed
  let ?sent = "set_headers (o_headers (c_opts c)) (o_tenant (c_opts c)) rq"
  from attachCredential_auth [OF rq] assms(1,2) have ok: "request_of pf c ctx procedure body ?sent"
    by (auto simp: request_of_def talks_to_def set_headers_auth)
  then have "request_path (c_baseURL c) ?sent = procedure" using assms(5)
    by (simp add: request_path_def request_of_def break_at_none)
  with assms(1,4) served [OF ok] have "client_http c w ?sent = (w', Inr (writeJSON status v))"
    using assms(6) by (auto simp: talks_to_def fake_net_def serve_def client_http_def http_Do_def writeJSON_def)
  from client_do_served [OF this assms(8,9), of pf dec zero] rq assms(3) show ?thesis
    by (auto simp: rpc_def NewRequest_def)
qed

section \<open>The guard\<close>

abbreviation (input) operator_routes :: "(string \<times> handler) list" where
  "operator_routes \<equiv> adminRoutes @ adminConfigRoutes @ manifestRoutes @ provisionRoutes"

lemma admin_guarded: "(path, h) \<in> set operator_routes \<Longrightarrow> \<exists>g. h = guarded g"
  by (auto simp: adminRoutes_def adminConfigRoutes_def manifestRoutes_def provisionRoutes_def)

lemma distinct_mux: "distinct (map fst mux)"
  by (simp add: mux_def callerRoutes_def adminRoutes_def adminConfigRoutes_def manifestRoutes_def provisionRoutes_def)

lemma map_of_operator: "(path, h) \<in> set operator_routes \<Longrightarrow> map_of mux path = Some h"
  using distinct_mux by (intro map_of_is_SomeI) (auto simp: mux_def)

lemma operator_paths: "(path, h) \<in> set operator_routes \<Longrightarrow> CHR ''?'' \<notin> set path \<and> HasPrefix path ''/''"
  by (auto simp: adminRoutes_def adminConfigRoutes_def manifestRoutes_def provisionRoutes_def HasPrefix_def)

lemma admin_call_served:
  assumes "talks_to c env" "the_credential c ctx = Some t" "pf_url_parse pf (c_baseURL c @ procedure) \<noteq> None"
    "(procedure, h) \<in> set operator_routes" "status \<notin> {301, 302, 303, 307, 308}"
    "\<And>rq. request_of pf c ctx procedure body rq \<Longrightarrow> h (env w) w rq = (w', writeJSON status v)"
    "ascii_val v" "length (marshal v) < maxResponseBytes"
  shows "Admin_call pf c w ctx procedure body dec zero =
    (w', case read_answer pf status v dec zero of Inl e \<Rightarrow> Inl (admin_error e) | Inr x \<Rightarrow> Inr x)"
proof -
  have "rpc pf c w ctx procedure body (Some dec) zero = (w', read_answer pf status v dec zero)"
    by (rule serve_rpc [OF assms(1-3) map_of_operator [OF assms(4)] _ assms(5-8)]) (use operator_paths [OF assms(4)] in blast)
  with operator_paths [OF assms(4)] show ?thesis by (simp add: Admin_call_def Call_def split: sum.split)
qed

lemma read_httpError:
  assumes "ascii code" "ascii message" "status \<noteq> 200" "code \<noteq> []"
  shows "read_answer pf status (GMap [(''error'', GStr code), (''message'', GStr message), (''request_id'', GStr ''req_test'')]) dec zero =
    Inl (classify (pf_until_http_date pf) \<lparr>ae_Code = code, ae_Message = message, ae_RequestID = ''req_test'', ae_Status = status,
      ae_Details = [], ae_class = []\<rparr> [])"
proof -
  let ?v = "GMap [(''error'', GStr code), (''message'', GStr message), (''request_id'', GStr ''req_test'')]"
  have "unmarshal dec_wireError zero_wireError (marshal ?v @ [CHR 0x0A]) = dec_wireError (to_json ?v) zero_wireError"
    by (rule unmarshal_newline) (use assms in simp)
  with assms show ?thesis
    by (simp add: read_answer_def parseWireError_def dec_wireError_def zero_wireError_def field_for_def Let_def firstNonEmpty_def
        del: marshal.simps)
qed

definition refusal :: goval where
  "refusal = GMap [(''error'', GStr ''permission_denied''), (''message'', GStr operator_hint), (''request_id'', GStr ''req_test''),
     (''details'', gsmap [(''hint'', operator_hint)])]"

lemma refusal_facts: "ascii_val refusal" "length (marshal refusal) < maxResponseBytes"
  by (simp_all add: refusal_def gsmap_def quote_def)

lemma read_refusal: "\<exists>a. read_answer pf 403 refusal dec zero = Inl (ErrAuth a) \<and> ae_Message a = operator_hint \<and>
    ae_Details a = [(''hint'', operator_hint)]"
proof -
  have "unmarshal dec_wireError zero_wireError (marshal refusal @ [CHR 0x0A]) = dec_wireError (to_json refusal) zero_wireError"
    by (rule unmarshal_newline) (rule refusal_facts)
  then show ?thesis
    by (simp add: read_answer_def parseWireError_def refusal_def gsmap_def dec_wireError_def zero_wireError_def field_for_def
        set_raw_def Let_def firstNonEmpty_def classify_def)
qed

end
