(* ===== verification/Fake_Pages.thy ===== *)
theory Fake_Pages
  imports Fake_Mux
begin

text \<open>
  The two paged listings of the test server as page sources: its nodes and its applications
  meet the contract \<open>paging\<close> of the walk, so a client of the server that walks them gets
  every row, in order, whatever the page size.

  A listing is good for the walk when the client reaches the server and passes its guard,
  the texts are ASCII and every page fits into what the client reads of a response. What a
  listing changes of the server is its call counter.
\<close>

lemma unquote_FormatInt [simp]: "unquote (FormatInt n) = FormatInt n"
  by (metis escape_FormatInt unquote_escape ascii_FormatInt)

lemma map_of_mux:
  "map_of mux ''/anubis.v1.ScopeAdminService/ListScopeNodes'' = Some (guarded listScopeNodes)"
  "map_of mux ''/anubis.v1.TenantAdminService/ListApplications'' = Some (guarded listApplications)"
  by (simp_all add: mux_def callerRoutes_def adminRoutes_def adminConfigRoutes_def manifestRoutes_def provisionRoutes_def)

text \<open>The client is the operator the server wants, or the server wants none.\<close>

definition admitted :: "Server platform \<Rightarrow> Server Client \<Rightarrow> Ctx \<Rightarrow> Server \<Rightarrow> string \<Rightarrow> bool" where
  "admitted pf c ctx s procedure \<longleftrightarrow> pf_url_parse pf (c_baseURL c @ procedure) \<noteq> None \<and>
     (\<exists>t. the_credential c ctx = Some t \<and> (sv_platformKey s = [] \<or> sv_platformKey s = t))"

definition but_calls :: "Server \<Rightarrow> Server \<Rightarrow> bool" where
  "but_calls s w \<longleftrightarrow> (\<exists>calls. w = s\<lparr>sv_Calls := calls\<rparr>)"

lemma but_calls_count: "but_calls s w \<Longrightarrow> but_calls s (count m w)"
  by (auto simp: but_calls_def count_def)

lemma guarded_admitted:
  "admitted pf c ctx s procedure \<Longrightarrow> but_calls s w \<Longrightarrow> request_of pf c ctx procedure body rq \<Longrightarrow> guarded h ev w rq = h ev w rq"
  by (auto simp: admitted_def but_calls_def request_of_def guarded_def)

section \<open>Nodes\<close>

definition query_of :: "ScopeNodeQuery \<Rightarrow> string \<Rightarrow> node_query" where
  "query_of q page = \<lparr>nq_axis = sq_Axis q, nq_query = sq_Query q, nq_archived = sq_Archived q, nq_page_size = sq_PageSize q,
     nq_page_token = page\<rparr>"

lemma query_of_fields [simp]:
  "nq_axis (query_of q p) = sq_Axis q" "nq_query (query_of q p) = sq_Query q" "nq_archived (query_of q p) = sq_Archived q"
  "nq_page_size (query_of q p) = sq_PageSize q" "nq_page_token (query_of q p) = p"
  by (simp_all add: query_of_def)

definition node_rows :: "fake_env \<Rightarrow> Server \<Rightarrow> ScopeNodeQuery \<Rightarrow> ScopeNodeRow list" where
  "node_rows ev s q = filter (node_matches ev (query_of q [])) (sv_scopeNodes s)"

definition node_of :: "ScopeNodeRow list \<Rightarrow> ScopeNodeQuery \<Rightarrow> ScopeNodeRow \<Rightarrow> ScopeNode" where
  "node_of all q r = zero_ScopeNode\<lparr>sn_ID := nw_ID r, sn_Axis := nw_Axis r, sn_ParentID := nw_ParentID r, sn_Name := nw_Name r,
     sn_Status := nw_Status r, sn_ChildCount := childCount all r (sq_Archived q),
     sn_Path := (if sq_Query q \<noteq> [] then ancestorNames all r else [])\<rparr>"

definition nodes_page :: "fake_env \<Rightarrow> Server \<Rightarrow> ScopeNodeQuery \<Rightarrow> nat \<Rightarrow> goval" where
  "nodes_page ev s q n =
     (let rows = map (node_json (sv_scopeNodes s) (query_of q [])) (node_rows ev s q);
          end = min (n + nat (page_size_of (sv_scopeNodePage s) (sq_PageSize q))) (length rows)
      in GMap ([(''nodes'', GList (take (end - n) (drop n rows)))] @
               (if end < length rows then [(''nextPageToken'', GStr (FormatInt (int end)))] else [])))"

definition ascii_node :: "ScopeNodeRow \<Rightarrow> bool" where
  "ascii_node r \<longleftrightarrow> list_all ascii [nw_ID r, nw_Name r, nw_ParentID r, nw_Status r, nw_Axis r]"

definition nodes_served ::
  "Server platform \<Rightarrow> (Server \<Rightarrow> fake_env) \<Rightarrow> Server Client \<Rightarrow> Ctx \<Rightarrow> Server \<Rightarrow> ScopeNodeQuery \<Rightarrow> bool" where
  "nodes_served pf env c ctx s q \<longleftrightarrow>
     talks_to c env \<and> admitted pf c ctx s ''/anubis.v1.ScopeAdminService/ListScopeNodes'' \<and>
     (\<forall>w. ev_lower (env w) = ev_lower (env s)) \<and> list_all ascii_node (sv_scopeNodes s) \<and>
     ascii (sq_Axis q) \<and> ascii (sq_ParentID q) \<and> ascii (sq_Query q) \<and> in64 (sq_PageSize q) \<and>
     length (sv_scopeNodes s) < 2 ^ 63 \<and>
     (\<forall>n \<le> length (node_rows (env s) s q). length (marshal (nodes_page (env s) s q n)) < maxResponseBytes)"

definition node_token :: "nat \<Rightarrow> string" where
  "node_token n = (if n = 0 then [] else FormatInt (int n))"

lemma ascii_climb: "list_all (ascii \<circ> nw_Name \<circ> snd) byID \<Longrightarrow> list_all ascii path \<Longrightarrow> list_all ascii (climb byID n i path)"
proof (induction byID n i path rule: climb.induct)
  case (2 byID n i path)
  have "ascii (nw_Name p)" if "map_of byID i = Some p" for p
    using map_of_SomeD [OF that] 2(2) by (auto simp: list_all_iff)
  with 2 show ?case by (auto split: option.split)
qed simp

lemma ascii_ancestors: "list_all ascii_node all \<Longrightarrow> list_all ascii (ancestorNames all n)"
  unfolding ancestorNames_def by (rule ascii_climb) (auto simp: list_all_iff ascii_node_def)

lemma childCount_bound: "0 \<le> childCount all r b \<and> childCount all r b \<le> int (length all)"
  by (simp add: childCount_def)

lemma dec_node:
  assumes "ascii_node r" "list_all ascii_node all" "length all < 2 ^ 63"
  shows "ascii_val (node_json all (query_of q page) r) \<and>
    dec_ScopeNode (to_json (node_json all (query_of q page) r)) zero_ScopeNode = Some (node_of all q r)"
proof -
  have "in64 (childCount all r (sq_Archived q))"
    using childCount_bound [of all r "sq_Archived q"] assms(3) by (simp add: in64_def)
  with assms ascii_ancestors [OF assms(2), of r] show ?thesis
    by (cases "sq_Query q \<noteq> [] \<and> ancestorNames all r \<noteq> []")
      (auto simp: node_json_def query_of_def ascii_node_def dec_ScopeNode_def node_of_def zero_ScopeNode_def field_for_def
        gstrs_def those_strings list_all_iff)
qed

lemma node_matches_page: "node_matches ev (query_of q page) = node_matches ev (query_of q [])"
  "node_json all (query_of q page) = node_json all (query_of q [])"
  by (simp_all add: fun_eq_iff node_matches_def node_json_def query_of_def)

lemma read_node_request:
  assumes "rq_body rq = marshal (node_request (q\<lparr>sq_Page := page\<rparr>))" "nodes_served pf env c ctx s q" "ascii page"
  shows "read_node_query rq = query_of q page"
  unfolding read_node_query_def
  by (rule read_body_marshal [OF assms(1)])
    (use assms(2,3) in \<open>simp_all add: node_request_def nodes_served_def field_for_def query_of_def toLower_byte_def\<close>)

lemma node_listing:
  assumes "nodes_served pf env c ctx s q" "but_calls s w" "n \<le> length (node_rows (env s) s q)"
    "request_of pf c ctx ''/anubis.v1.ScopeAdminService/ListScopeNodes'' (node_request (q\<lparr>sq_Page := node_token n\<rparr>)) rq"
  shows "guarded listScopeNodes (env w) w rq = (count ''ListScopeNodes'' w, writeJSON 200 (nodes_page (env s) s q n))"
proof -
  have "ascii (node_token n)" by (simp add: node_token_def)
  with assms(1,4) have q: "read_node_query rq = query_of q (node_token n)"
    by (intro read_node_request) (auto simp: request_of_def)
  have len: "length (node_rows (env s) s q) < 2 ^ 63"
    using assms(1) length_filter_le le_less_trans unfolding node_rows_def nodes_served_def by blast
  have "ev_lower (env w) = ev_lower (env s)" using assms(1) unfolding nodes_served_def by blast
  then have "node_matches (env w) (query_of q (node_token n)) = node_matches (env s) (query_of q [])"
    by (intro ext) (simp add: node_matches_def query_of_def)
  then have m: "filter (node_matches (env w) (query_of q (node_token n))) (sv_scopeNodes s) = node_rows (env s) s q"
    by (simp add: node_rows_def)
  have st: "page_start (length (node_rows (env s) s q)) (node_token n) = n"
    using page_start_token [OF assms(3) len] by (simp add: node_token_def page_start_def)
  have g: "guarded listScopeNodes (env w) w rq = listScopeNodes (env w) w rq"
    using assms(1,2,4) by (intro guarded_admitted) (auto simp: nodes_served_def)
  have rows: "sv_scopeNodes w = sv_scopeNodes s" "sv_scopeNodePage w = sv_scopeNodePage s"
    using assms(2) by (auto simp: but_calls_def)
  show ?thesis unfolding g listScopeNodes_def q Let_def rows m
    by (simp add: nodes_page_def st node_matches_page(2) [of _ q "node_token n"] Let_def)
qed

lemma ascii_nodes_page:
  assumes "nodes_served pf env c ctx s q"
  shows "ascii_val (nodes_page (env s) s q n)"
proof -
  have "ascii_val v" if "v \<in> set (map (node_json (sv_scopeNodes s) (query_of q [])) (node_rows (env s) s q))" for v
    using that assms dec_node by (auto simp: nodes_served_def node_rows_def list_all_iff)
  then show ?thesis by (auto simp: nodes_page_def Let_def list_all_iff dest!: in_set_takeD in_set_dropD)
qed

lemma dec_nodes_page:
  assumes "nodes_served pf env c ctx s q"
  defines "rows \<equiv> map (node_of (sv_scopeNodes s) q) (node_rows (env s) s q)"
    and "k \<equiv> nat (page_size_of (sv_scopeNodePage s) (sq_PageSize q))"
  shows "dec_ScopeNodePage (to_json (nodes_page (env s) s q n)) \<lparr>sp_Nodes = [], sp_NextPage = []\<rparr> =
    Some \<lparr>sp_Nodes = take k (drop n rows), sp_NextPage = (if n + k < length rows then node_token (n + k) else [])\<rparr>"
proof -
  let ?js = "map (node_json (sv_scopeNodes s) (query_of q [])) (node_rows (env s) s q)"
  let ?page = "take (min (n + k) (length ?js) - n) (drop n (node_rows (env s) s q))"
  have ok: "dec_ScopeNode (to_json (node_json (sv_scopeNodes s) (query_of q []) r)) zero_ScopeNode = Some (node_of (sv_scopeNodes s) q r)"
    if "r \<in> set ?page" for r
    using that assms(1) dec_node [of r "sv_scopeNodes s" q "[]"]
    by (auto simp: nodes_served_def node_rows_def list_all_iff dest!: in_set_takeD in_set_dropD)
  have t: "take (min (n + k) (length ?js) - n) (drop n xs) = take k (drop n xs)" if "length xs = length ?js" for xs :: "'x list"
    using that by (auto simp: min_def)
  have nodes: "those (map (\<lambda>v. dec_ScopeNode v zero_ScopeNode) (map to_json (take k (drop n ?js)))) = Some (take k (drop n rows))"
    using those_map_SomeI [of ?page _ "node_of (sv_scopeNodes s) q", OF ok] t [of "node_rows (env s) s q"]
    by (simp add: rows_def take_map drop_map comp_def)
  have "0 < k" unfolding k_def by (rule page_size_pos)
  with nodes t [of ?js] show ?thesis
    by (cases "n + k < length rows")
      (simp_all add: nodes_page_def Let_def k_def [symmetric] rows_def dec_ScopeNodePage_def field_for_def node_token_def min_def)
qed

definition nodes_fit :: "Server platform \<Rightarrow> (Server \<Rightarrow> fake_env) \<Rightarrow> Server Client \<Rightarrow> Ctx \<Rightarrow> Server \<Rightarrow> ScopeNodeQuery \<Rightarrow> Server \<Rightarrow> bool" where
  "nodes_fit pf env c ctx s q w \<longleftrightarrow> nodes_served pf env c ctx s q \<and> but_calls s w"

lemma node_page_served:
  assumes "nodes_fit pf env c ctx s q w" "n \<le> length (node_rows (env s) s q)"
  shows "Admin_ScopeNodes pf c w ctx (q\<lparr>sq_Page := node_token n\<rparr>) =
    (count ''ListScopeNodes'' w, Inr (the (dec_ScopeNodePage (to_json (nodes_page (env s) s q n)) \<lparr>sp_Nodes = [], sp_NextPage = []\<rparr>)))"
proof -
  from assms have s: "nodes_served pf env c ctx s q" "but_calls s w" by (simp_all add: nodes_fit_def)
  then obtain t where t: "talks_to c env" "the_credential c ctx = Some t"
      "pf_url_parse pf (c_baseURL c @ ''/anubis.v1.ScopeAdminService/ListScopeNodes'') \<noteq> None"
      "length (marshal (nodes_page (env s) s q n)) < maxResponseBytes"
    using assms(2) by (auto simp: nodes_served_def admitted_def)
  have "rpc pf c w ctx ''/anubis.v1.ScopeAdminService/ListScopeNodes'' (node_request (q\<lparr>sq_Page := node_token n\<rparr>))
      (Some dec_ScopeNodePage) \<lparr>sp_Nodes = [], sp_NextPage = []\<rparr> =
    (count ''ListScopeNodes'' w, read_answer pf 200 (nodes_page (env s) s q n) dec_ScopeNodePage \<lparr>sp_Nodes = [], sp_NextPage = []\<rparr>)"
    by (rule serve_rpc [OF t(1-3) map_of_mux(1) _ _ node_listing [OF s assms(2)] ascii_nodes_page [OF s(1)] t(4)]) simp_all
  then show ?thesis using dec_nodes_page [OF s(1), of n]
    by (simp add: Admin_ScopeNodes_def Admin_call_def Call_def HasPrefix_def read_answer_def)
qed

interpretation nodes: paging "node_page pf c ctx q" "map (node_of (sv_scopeNodes s) q) (node_rows (env s) s q)" node_token
    "nodes_fit pf env c ctx s q" for pf env c ctx s q
proof
  fix w n
  let ?rows = "map (node_of (sv_scopeNodes s) q) (node_rows (env s) s q)"
  assume f: "nodes_fit pf env c ctx s q w" and n: "n \<le> length ?rows"
  let ?k = "nat (page_size_of (sv_scopeNodePage s) (sq_PageSize q))"
  from f have s: "nodes_served pf env c ctx s q" by (simp add: nodes_fit_def)
  from n node_page_served [OF f] dec_nodes_page [OF s, of n]
  have "node_page pf c ctx q w (node_token n) =
      (count ''ListScopeNodes'' w, Inr (take ?k (drop n ?rows), if n + ?k < length ?rows then node_token (n + ?k) else []))"
    by (simp add: node_page_def and_then_def)
  moreover have "nodes_fit pf env c ctx s q (count ''ListScopeNodes'' w)"
    using f by (simp add: nodes_fit_def but_calls_count)
  ultimately show "\<exists>w' k. node_page pf c ctx q w (node_token n) =
      (w', Inr (take k (drop n ?rows), if n + k < length ?rows then node_token (n + k) else [])) \<and>
      (n < length ?rows \<longrightarrow> 0 < k) \<and> nodes_fit pf env c ctx s q w'"
    using page_size_pos by blast
next
  have "FormatInt (int m) = FormatInt (int n) \<Longrightarrow> m = n" for m n by (simp add: FormatInt_def nat_dec_inj)
  then show "inj_on node_token {0<..<length (map (node_of (sv_scopeNodes s) q) (node_rows (env s) s q))}"
    by (auto simp: inj_on_def node_token_def)
qed (simp_all add: node_token_def)

section \<open>Applications\<close>

definition application_slugs :: "Server \<Rightarrow> ApplicationQuery \<Rightarrow> string list" where
  "application_slugs s q = matching_slugs (aq_Query q) (sv_applications s)"

definition application_of :: "ApplicationRow \<Rightarrow> Application" where
  "application_of r = zero_Application\<lparr>ac_ID := aw_ID r, ac_Slug := aw_Slug r, ac_Name := aw_Name r, ac_Kind := aw_Kind r,
     ac_Status := aw_Status r, ac_RedirectURIs := Some (aw_RedirectURIs r), ac_ManifestVersion := aw_ManifestVersion r,
     ac_AllowedAudiences := Some (aw_AllowedAudiences r), ac_SignIn := (if aw_SignIn r = [] then ''anyone'' else aw_SignIn r)\<rparr>"

definition listed_application :: "Server \<Rightarrow> string \<Rightarrow> ApplicationRow" where
  "listed_application s slug = the (map_of (sv_applications s) slug)"

definition applications_page :: "Server \<Rightarrow> ApplicationQuery \<Rightarrow> nat \<Rightarrow> goval" where
  "applications_page s q n =
     (let slugs = application_slugs s q;
          end = min (n + nat (page_size_of (sv_applicationPage s) (aq_PageSize q))) (length slugs)
      in GMap ([(''applications'', GList (map (\<lambda>slug. applicationJSON (listed_application s slug)) (take (end - n) (drop n slugs)))),
                (''total'', GInt (int (length slugs)))] @
               (if end < length slugs then [(''nextPageToken'', GStr (slugs ! (end - 1)))] else [])))"

definition ascii_application :: "ApplicationRow \<Rightarrow> bool" where
  "ascii_application r \<longleftrightarrow> list_all ascii [aw_ID r, aw_Slug r, aw_Name r, aw_Kind r, aw_Status r, aw_SignIn r] \<and>
     list_all ascii (aw_RedirectURIs r) \<and> list_all ascii (aw_AllowedAudiences r) \<and> in64 (aw_ManifestVersion r)"

text \<open>The map of the server: keyed by slug, and no slug is empty.\<close>

definition applications_served ::
  "Server platform \<Rightarrow> (Server \<Rightarrow> fake_env) \<Rightarrow> Server Client \<Rightarrow> Ctx \<Rightarrow> Server \<Rightarrow> ApplicationQuery \<Rightarrow> bool" where
  "applications_served pf env c ctx s q \<longleftrightarrow>
     talks_to c env \<and> admitted pf c ctx s ''/anubis.v1.TenantAdminService/ListApplications'' \<and>
     wf_map (sv_applications s) \<and> list_all (\<lambda>(slug, r). slug \<noteq> [] \<and> ascii slug \<and> ascii_application r) (sv_applications s) \<and>
     ascii (aq_Query q) \<and> in64 (aq_PageSize q) \<and> length (sv_applications s) < 2 ^ 63 \<and>
     (\<forall>n \<le> length (application_slugs s q). length (marshal (applications_page s q n)) < maxResponseBytes)"

definition slug_token :: "string list \<Rightarrow> nat \<Rightarrow> string" where
  "slug_token slugs n = (if n = 0 then [] else slugs ! (n - 1))"

lemma application_slugs_facts:
  assumes "wf_map (sv_applications s)"
  shows "sorted (application_slugs s q) \<and> distinct (application_slugs s q) \<and>
    set (application_slugs s q) \<subseteq> fst ` set (sv_applications s)"
  using assms by (auto simp: application_slugs_def matching_slugs_def wf_map_def distinct_map_filter)

lemma resume_after_token:
  assumes "sorted xs" "distinct xs" "0 < n" "n \<le> length xs" "xs ! (n - 1) \<noteq> []"
  shows "resume_after xs (xs ! (n - 1)) = n"
proof -
  let ?m = "n - 1"
  have "takeWhile (\<lambda>y. y < xs ! ?m) xs = take ?m xs"
  proof (rule takeWhile_eq_take_P_nth)
    fix i assume "i < ?m" "i < length xs"
    with assms(1,2,4) show "xs ! i < xs ! ?m"
      by (metis One_nat_def diff_le_self less_imp_le_nat nth_eq_iff_index_eq order_le_imp_less_or_eq
          sorted_iff_nth_mono less_irrefl_nat Suc_pred' assms(3) Suc_le_lessD)
  qed simp
  then have "SearchStrings xs (xs ! ?m) = ?m" using assms(4) by (simp add: SearchStrings_def)
  with assms(3-5) show ?thesis by (simp add: resume_after_def Let_def)
qed

lemma slug_ok:
  assumes "applications_served pf env c ctx s q" "x \<in> set (application_slugs s q)"
  shows "x \<noteq> [] \<and> ascii x"
proof -
  from assms application_slugs_facts [of s q] obtain r where "(x, r) \<in> set (sv_applications s)"
    by (force simp: applications_served_def)
  with assms(1) show ?thesis by (auto simp: applications_served_def list_all_iff)
qed

lemma slug_token_facts:
  assumes "applications_served pf env c ctx s q"
  shows "0 < n \<Longrightarrow> n \<le> length (application_slugs s q) \<Longrightarrow>
      slug_token (application_slugs s q) n \<noteq> [] \<and> ascii (slug_token (application_slugs s q) n)"
    "n \<le> length (application_slugs s q) \<Longrightarrow> resume_after (application_slugs s q) (slug_token (application_slugs s q) n) = n"
    "inj_on (slug_token (application_slugs s q)) {0<..<length (application_slugs s q)}"
proof -
  let ?xs = "application_slugs s q"
  from assms have w: "wf_map (sv_applications s)" "list_all (\<lambda>(slug, r). slug \<noteq> [] \<and> ascii slug \<and> ascii_application r) (sv_applications s)"
    by (simp_all add: applications_served_def)
  note f = application_slugs_facts [OF w(1), of q]
  note el = slug_ok [OF assms]
  show t: "0 < n \<Longrightarrow> n \<le> length ?xs \<Longrightarrow> slug_token ?xs n \<noteq> [] \<and> ascii (slug_token ?xs n)" for n
    using el [of "?xs ! (n - 1)"] by (simp add: slug_token_def)
  show "n \<le> length ?xs \<Longrightarrow> resume_after ?xs (slug_token ?xs n) = n"
    using resume_after_token [of ?xs n] f t [of n] by (cases "n = 0") (auto simp: slug_token_def resume_after_def)
  show "inj_on (slug_token ?xs) {0<..<length ?xs}"
  proof (rule inj_onI)
    fix m n assume m: "m \<in> {0<..<length ?xs}" and n: "n \<in> {0<..<length ?xs}" and e: "slug_token ?xs m = slug_token ?xs n"
    then have "?xs ! (m - 1) = ?xs ! (n - 1)" by (simp add: slug_token_def)
    then have "m - 1 = n - 1" using f m n by (subst (asm) nth_eq_iff_index_eq) auto
    with m n show "m = n" by auto
  qed
qed

lemma listed_ok:
  assumes "applications_served pf env c ctx s q" "slug \<in> set (application_slugs s q)"
  shows "ascii_application (listed_application s slug)"
proof -
  from assms have "slug \<in> fst ` set (sv_applications s)"
    using application_slugs_facts [of s q] by (auto simp: applications_served_def)
  then obtain r where "map_of (sv_applications s) slug = Some r" by (metis domD dom_map_of_conv_image_fst)
  with assms(1) map_of_SomeD [OF this] show ?thesis
    by (auto simp: applications_served_def listed_application_def list_all_iff)
qed

lemma dec_application:
  assumes "ascii_application r"
  shows "ascii_val (applicationJSON r) \<and> dec_Application (to_json (applicationJSON r)) zero_Application = Some (application_of r)"
  using assms
  by (auto simp: applicationJSON_def ascii_application_def dec_Application_def application_of_def zero_Application_def
      field_for_def gstrs_def those_strings list_all_iff)

lemma read_application_request:
  assumes "rq_body rq = marshal (GMap [(''query'', GStr (aq_Query q)), (''page_size'', GInt (aq_PageSize q)), (''page_token'', GStr page)])"
    "applications_served pf env c ctx s q" "ascii page"
  shows "read_application_query rq = q\<lparr>aq_Page := page\<rparr>"
  unfolding read_application_query_def
  by (rule read_body_marshal [OF assms(1)]) (use assms(2,3) in \<open>simp_all add: applications_served_def field_for_def\<close>)

lemma application_listing:
  assumes "applications_served pf env c ctx s q" "but_calls s w" "n \<le> length (application_slugs s q)"
    "request_of pf c ctx ''/anubis.v1.TenantAdminService/ListApplications'' (GMap [(''query'', GStr (aq_Query q)),
       (''page_size'', GInt (aq_PageSize q)), (''page_token'', GStr (slug_token (application_slugs s q) n))]) rq"
  shows "guarded listApplications (env w) w rq = (count ''ListApplications'' w, writeJSON 200 (applications_page s q n))"
proof -
  note f = slug_token_facts [OF assms(1)]
  have "ascii (slug_token (application_slugs s q) n)"
    using f(1) [of n] assms(3) by (cases "n = 0") (simp_all add: slug_token_def)
  with assms(1,4) have q: "read_application_query rq = q\<lparr>aq_Page := slug_token (application_slugs s q) n\<rparr>"
    by (intro read_application_request) (auto simp: request_of_def)
  have g: "guarded listApplications (env w) w rq = listApplications (env w) w rq"
    using assms(1,2,4) by (intro guarded_admitted) (auto simp: applications_served_def)
  have rows: "sv_applications w = sv_applications s" "sv_applicationPage w = sv_applicationPage s"
    using assms(2) by (auto simp: but_calls_def)
  show ?thesis unfolding g listApplications_def q Let_def rows
    by (simp add: applications_page_def f(2) [OF assms(3)] application_slugs_def [symmetric] Let_def listed_application_def)
qed

lemma ascii_applications_page:
  assumes "applications_served pf env c ctx s q"
  shows "ascii_val (applications_page s q n)"
proof -
  let ?xs = "application_slugs s q"
  let ?stop = "min (n + nat (page_size_of (sv_applicationPage s) (aq_PageSize q))) (length ?xs)"
  have "ascii_val (applicationJSON (listed_application s x))" if "x \<in> set ?xs" for x
    using dec_application [OF listed_ok [OF assms that]] by blast
  moreover have "ascii (?xs ! (?stop - 1))" if "?stop < length ?xs"
    using slug_ok [OF assms, of "?xs ! (?stop - 1)"] that by simp
  ultimately show ?thesis by (auto simp: applications_page_def Let_def list_all_iff dest!: in_set_takeD in_set_dropD)
qed

lemma dec_applications_page:
  assumes "applications_served pf env c ctx s q"
  defines "xs \<equiv> application_slugs s q" and "rows \<equiv> map (application_of \<circ> listed_application s) (application_slugs s q)"
    and "k \<equiv> nat (page_size_of (sv_applicationPage s) (aq_PageSize q))"
  shows "dec_ApplicationPage (to_json (applications_page s q n)) \<lparr>pg_Applications = [], pg_NextPage = [], pg_Total = 0\<rparr> =
    Some \<lparr>pg_Applications = take k (drop n rows), pg_NextPage = (if n + k < length rows then slug_token xs (n + k) else []),
          pg_Total = int (length rows)\<rparr>"
proof -
  let ?page = "take (min (n + k) (length xs) - n) (drop n xs)"
  have ok: "dec_Application (to_json (applicationJSON (listed_application s x))) zero_Application = Some ((application_of \<circ> listed_application s) x)"
    if "x \<in> set ?page" for x
    using that dec_application [OF listed_ok [OF assms(1)]] by (auto simp: xs_def dest!: in_set_takeD in_set_dropD)
  have t: "?page = take k (drop n xs)" by (auto simp: min_def)
  have apps: "those (map (\<lambda>v. dec_Application v zero_Application) (map to_json (map (\<lambda>x. applicationJSON (listed_application s x)) ?page))) =
      Some (take k (drop n rows))"
    using those_map_SomeI [of ?page _ "application_of \<circ> listed_application s", OF ok] t
    by (simp add: rows_def xs_def take_map drop_map comp_def)
  have "0 < k" unfolding k_def by (rule page_size_pos)
  moreover have "in64 (int (length xs))"
  proof -
    have "length xs \<le> length (sv_applications s)" by (simp add: xs_def application_slugs_def matching_slugs_def)
    with assms(1) show ?thesis by (simp add: applications_served_def in64_def)
  qed
  moreover have "ascii (xs ! (n + k - 1))" if "n + k < length xs"
    using slug_token_facts(1) [OF assms(1), of "n + k"] that \<open>0 < k\<close> by (simp add: xs_def slug_token_def)
  ultimately show ?thesis using apps
    by (cases "n + k < length rows")
      (simp_all add: applications_page_def Let_def k_def [symmetric] rows_def xs_def [symmetric] dec_ApplicationPage_def field_for_def
        slug_token_def min_def)
qed

definition applications_fit ::
  "Server platform \<Rightarrow> (Server \<Rightarrow> fake_env) \<Rightarrow> Server Client \<Rightarrow> Ctx \<Rightarrow> Server \<Rightarrow> ApplicationQuery \<Rightarrow> Server \<Rightarrow> bool" where
  "applications_fit pf env c ctx s q w \<longleftrightarrow> applications_served pf env c ctx s q \<and> but_calls s w"

lemma application_page_served:
  assumes "applications_fit pf env c ctx s q w" "n \<le> length (application_slugs s q)"
  shows "Admin_Applications pf c w ctx (q\<lparr>aq_Page := slug_token (application_slugs s q) n\<rparr>) =
    (count ''ListApplications'' w, Inr (the (dec_ApplicationPage (to_json (applications_page s q n))
       \<lparr>pg_Applications = [], pg_NextPage = [], pg_Total = 0\<rparr>)))"
proof -
  let ?zero = "\<lparr>pg_Applications = [], pg_NextPage = [], pg_Total = 0\<rparr>" and ?path = "''/anubis.v1.TenantAdminService/ListApplications''"
  from assms have s: "applications_served pf env c ctx s q" "but_calls s w" by (simp_all add: applications_fit_def)
  then obtain t where t: "talks_to c env" "the_credential c ctx = Some t" "pf_url_parse pf (c_baseURL c @ ?path) \<noteq> None"
      "length (marshal (applications_page s q n)) < maxResponseBytes"
    using assms(2) by (auto simp: applications_served_def admitted_def)
  have "rpc pf c w ctx ?path (GMap [(''query'', GStr (aq_Query q)), (''page_size'', GInt (aq_PageSize q)),
        (''page_token'', GStr (slug_token (application_slugs s q) n))]) (Some dec_ApplicationPage) ?zero =
    (count ''ListApplications'' w, read_answer pf 200 (applications_page s q n) dec_ApplicationPage ?zero)"
    by (rule serve_rpc [OF t(1-3) map_of_mux(2) _ _ application_listing [OF s assms(2)] ascii_applications_page [OF s(1)] t(4)]) simp_all
  then show ?thesis using dec_applications_page [OF s(1), of n]
    by (simp add: Admin_Applications_def Admin_call_def Call_def HasPrefix_def read_answer_def)
qed

interpretation applications: paging "application_page pf c ctx q" "map (application_of \<circ> listed_application s) (application_slugs s q)"
    "slug_token (application_slugs s q)" "applications_fit pf env c ctx s q" for pf env c ctx s q
proof
  fix w n
  let ?rows = "map (application_of \<circ> listed_application s) (application_slugs s q)" and ?token = "slug_token (application_slugs s q)"
  assume f: "applications_fit pf env c ctx s q w" and n: "n \<le> length ?rows"
  let ?k = "nat (page_size_of (sv_applicationPage s) (aq_PageSize q))"
  from f have s: "applications_served pf env c ctx s q" by (simp add: applications_fit_def)
  from n application_page_served [OF f] dec_applications_page [OF s, of n]
  have "application_page pf c ctx q w (?token n) =
      (count ''ListApplications'' w, Inr (take ?k (drop n ?rows), if n + ?k < length ?rows then ?token (n + ?k) else []))"
    by (simp add: application_page_def and_then_def)
  moreover have "applications_fit pf env c ctx s q (count ''ListApplications'' w)"
    using f by (simp add: applications_fit_def but_calls_count)
  ultimately show "\<exists>w' k. application_page pf c ctx q w (?token n) =
      (w', Inr (take k (drop n ?rows), if n + k < length ?rows then ?token (n + k) else [])) \<and>
      (n < length ?rows \<longrightarrow> 0 < k) \<and> applications_fit pf env c ctx s q w'"
    using page_size_pos by blast
next
  fix w n assume "applications_fit pf env c ctx s q w"
  then have s: "applications_served pf env c ctx s q" by (simp add: applications_fit_def)
  let ?rows = "map (application_of \<circ> listed_application s) (application_slugs s q)"
  show "0 < n \<Longrightarrow> n < length ?rows \<Longrightarrow> slug_token (application_slugs s q) n \<noteq> []"
    using slug_token_facts(1) [OF s, of n] by simp
  show "inj_on (slug_token (application_slugs s q)) {0<..<length ?rows}" using slug_token_facts(3) [OF s] by simp
qed

end
