(* ===== verification/Fake_Apply.thy ===== *)
theory Fake_Apply
  imports Fake_Pages
begin

text \<open>
  A manifest on its way: what \<open>ApplyManifest\<close> of the client writes (\<open>admin/manifest.go\<close>)
  is what the test server reads, plans and answers (\<open>anubistest/manifest.go\<close>), and the
  report the client hands out is the server's.
\<close>

section \<open>Writing and reading a manifest\<close>

lemma ascii_escape: "ascii s \<Longrightarrow> ascii (escape s)"
proof (induction s)
  case (Cons c s)
  have "hex_char n < CHR 0x80" if "n < 16" for n
    using that by (auto simp: hex_char_def less_char_def)
  moreover have "of_char c < (4096 :: nat)"
    by (rule less_trans [of _ 256], metis of_char_mod_256 mod_less_divisor zero_less_numeral) simp
  then have "of_char c div 4096 = (0 :: nat)" by (rule div_less)
  ultimately have u: "ascii (u_escape (of_char c))" by (simp add: u_escape_def)
  from Cons show ?case using u by (simp add: escape_Cons_ascii del: escape.simps) (simp add: escape_char_def)
qed simp

lemma ascii_Join: "ascii sep \<Longrightarrow> list_all ascii xs \<Longrightarrow> ascii (Join sep xs)"
  by (induction sep xs rule: Join.induct) simp_all

lemma ascii_quote: "ascii s \<Longrightarrow> ascii (quote s)"
  by (simp add: quote_def ascii_escape)

lemma ascii_marshal: "ascii_val v \<Longrightarrow> ascii (marshal v)"
proof (induction v rule: marshal.induct)
  case (6 ms)
  then have "list_all ascii (map snd (sort_key fst (map (\<lambda>(k, v). (k, quote k @ '':'' @ marshal v)) ms)))"
    by (auto simp: list_all_iff ascii_quote)
  then show ?case by (simp add: ascii_Join)
next
  case (7 ms)
  then have "list_all ascii (map (\<lambda>(k, v). quote k @ '':'' @ marshal v) ms)" by (auto simp: list_all_iff ascii_quote)
  then show ?case by (simp add: ascii_Join)
qed (auto simp: ascii_quote list_all_iff intro!: ascii_Join)

text \<open>Members a struct does not have are passed over.\<close>

lemma decode_opt:
  "ascii k \<Longrightarrow> field_for fs k = None \<Longrightarrow> decode_members fs (map (\<lambda>(k, v). (escape k, to_json v)) (opt_str k s)) r = Some r"
  "ascii k \<Longrightarrow> field_for fs k = None \<Longrightarrow> decode_members fs (map (\<lambda>(k, v). (escape k, to_json v)) (opt_strs k ss)) r = Some r"
  by (simp_all add: opt_str_def opt_strs_def)

lemma decode_if:
  "decode_members fs (if b then xs else ys) r = (if b then decode_members fs xs r else decode_members fs ys r)"
  by simp

definition ascii_permission :: "ManifestPermission \<Rightarrow> bool" where
  "ascii_permission p \<longleftrightarrow> list_all ascii [mp_Resource p, mp_Action p, mp_Description p, mp_Risk p, mp_MaxAuthAge p] \<and>
     list_all ascii (mp_RequiresAMR p)"

definition ascii_role :: "ManifestRole \<Rightarrow> bool" where
  "ascii_role r \<longleftrightarrow> list_all ascii [mr_Name r, mr_Description r] \<and>
     list_all (list_all ascii) [mr_Permissions r, mr_Patterns r, mr_AllowedRealmKinds r]"

definition ascii_route :: "ManifestRoute \<Rightarrow> bool" where
  "ascii_route r \<longleftrightarrow> list_all ascii [mt_PathPattern r, mt_HostPattern r, mt_Effect r, mt_Permission r] \<and>
     list_all ascii (mt_Methods r) \<and> list_all (\<lambda>(k, v). ascii k \<and> ascii v) (mt_ScopeBindings r) \<and> in64 (mt_Priority r)"

definition ascii_manifest :: "Manifest \<Rightarrow> bool" where
  "ascii_manifest m \<longleftrightarrow> pred_option (list_all ascii_permission) (ma_permissions m) \<and>
     pred_option (list_all ascii_role) (ma_roles m) \<and> pred_option (list_all ascii_route) (ma_routes m)"

definition doc_of :: "Manifest \<Rightarrow> manifest_doc" where
  "doc_of m = \<lparr>md_permissions = map_option (map (\<lambda>p. (mp_Resource p, mp_Action p))) (ma_permissions m),
     md_roles = map_option (map (\<lambda>r. (mr_Name r, mr_Permissions r))) (ma_roles m),
     md_routes = map_option (map (\<lambda>r. (mt_Effect r, mt_Permission r))) (ma_routes m)\<rparr>"

lemma ascii_opt: "ascii k \<Longrightarrow> ascii s \<Longrightarrow> list_all (\<lambda>(k, v). ascii k \<and> ascii_val v) (opt_str k s)"
  "ascii k \<Longrightarrow> list_all ascii ss \<Longrightarrow> list_all (\<lambda>(k, v). ascii k \<and> ascii_val v) (opt_strs k ss)"
  by (simp_all add: opt_str_def opt_strs_def gstrs_def list_all_iff)

lemma ascii_gsmap: "list_all (\<lambda>(k, v). ascii k \<and> ascii v) m \<Longrightarrow> ascii_val (gsmap m)"
  by (auto simp: gsmap_def list_all_iff)

lemma read_permission:
  assumes "ascii_permission p"
  shows "ascii_val (ManifestPermission_json p) \<and>
    dec_doc_permission (to_json (ManifestPermission_json p)) ([], []) = Some (mp_Resource p, mp_Action p)"
  using assms by (simp add: ManifestPermission_json_def ascii_permission_def ascii_opt decode_append decode_opt field_for_def
      toLower_byte_def dec_doc_permission_def)

lemma read_role:
  assumes "ascii_role r"
  shows "ascii_val (ManifestRole_json r) \<and> dec_doc_role (to_json (ManifestRole_json r)) ([], []) = Some (mr_Name r, mr_Permissions r)"
proof -
  have "list_all ascii ps \<Longrightarrow> decode_members [(''name'', set_string (\<lambda>v (_, ps). (v, ps))), (''permissions'', set_strings (\<lambda>v (n, _). (n, v)))]
      (map (\<lambda>(k, v). (escape k, to_json v)) (opt_strs ''permissions'' ps)) (n, []) = Some (n, ps)" for ps n
    by (simp add: opt_strs_def gstrs_def field_for_def those_strings)
  with assms show ?thesis
    by (simp add: ManifestRole_json_def ascii_role_def ascii_opt decode_append decode_opt field_for_def toLower_byte_def dec_doc_role_def)
qed

lemma read_route:
  assumes "ascii_route r"
  shows "ascii_val (ManifestRoute_json r) \<and> dec_doc_route (to_json (ManifestRoute_json r)) ([], []) = Some (mt_Effect r, mt_Permission r)"
proof -
  have "ascii p \<Longrightarrow> decode_members [(''priority'', set_int (\<lambda>_ r. r)), (''effect'', set_string (\<lambda>v (_, p). (v, p))),
             (''permission'', set_string (\<lambda>v (e, _). (e, v)))]
      (map (\<lambda>(k, v). (escape k, to_json v)) (opt_str ''permission'' p)) (e, []) = Some (e, p)" for p e
    by (simp add: opt_str_def field_for_def)
  with assms show ?thesis
    by (simp add: ManifestRoute_json_def ascii_route_def ascii_opt ascii_gsmap decode_append decode_opt field_for_def toLower_byte_def
        dec_doc_route_def)
qed

lemma read_section:
  assumes "\<And>x. x \<in> set xs \<Longrightarrow> dec (to_json (f x)) z = Some (g x)"
  shows "set_ptr get upd [] (set_list (\<lambda>v _. v) z dec) (to_json (GList (map f xs))) r = Some (upd (Some (map g xs)) r)"
  using those_map_SomeI [of xs "\<lambda>x. dec (to_json (f x)) z" g] assms by (simp add: set_ptr_def comp_def)

abbreviation "no_doc \<equiv> \<lparr>md_permissions = None, md_roles = None, md_routes = None\<rparr>"

lemma read_manifest:
  assumes "wf_manifest m" "ascii_manifest m"
  shows "ascii_val (Manifest_MarshalJSON m) \<and> dec_doc (to_json (Manifest_MarshalJSON m)) no_doc = Some (doc_of m)"
proof -
  have p: "ma_permissions m = Some ps \<Longrightarrow> ps \<noteq> [] \<and> (\<forall>p \<in> set ps. ascii_permission p)" for ps
    using assms by (auto simp: wf_manifest_def ascii_manifest_def list_all_iff)
  have r: "ma_roles m = Some rs \<Longrightarrow> rs \<noteq> [] \<and> (\<forall>r \<in> set rs. ascii_role r)" for rs
    using assms by (auto simp: wf_manifest_def ascii_manifest_def list_all_iff)
  have t: "ma_routes m = Some ts \<Longrightarrow> (ts \<noteq> [] \<or> ma_clearRoutes m) \<and> (\<forall>r \<in> set ts. ascii_route r)" for ts
    using assms by (auto simp: wf_manifest_def ascii_manifest_def list_all_iff)
  have sp: "\<forall>p \<in> set ps. ascii_permission p \<Longrightarrow> set_ptr get upd [] (set_list (\<lambda>v _. v) ([], []) dec_doc_permission)
      (to_json (GList (map ManifestPermission_json ps))) d = Some (upd (Some (map (\<lambda>p. (mp_Resource p, mp_Action p)) ps)) d)"
    for get upd ps and d :: manifest_doc
    by (rule read_section) (use read_permission in blast)
  have sr: "\<forall>r \<in> set rs. ascii_role r \<Longrightarrow> set_ptr get upd [] (set_list (\<lambda>v _. v) ([], []) dec_doc_role)
      (to_json (GList (map ManifestRole_json rs))) d = Some (upd (Some (map (\<lambda>r. (mr_Name r, mr_Permissions r)) rs)) d)"
    for get upd rs and d :: manifest_doc
    by (rule read_section) (use read_role in blast)
  have st: "\<forall>r \<in> set ts. ascii_route r \<Longrightarrow> set_ptr get upd [] (set_list (\<lambda>v _. v) ([], []) dec_doc_route)
      (to_json (GList (map ManifestRoute_json ts))) d = Some (upd (Some (map (\<lambda>r. (mt_Effect r, mt_Permission r)) ts)) d)"
    for get upd ts and d :: manifest_doc
    by (rule read_section) (use read_route in blast)
  have s0: "set_ptr get upd [] (set_list (\<lambda>v _. v) z dec) (to_json (GList [])) d = Some (upd (Some []) d)"
    for get upd z dec and d :: manifest_doc
    by (simp add: set_ptr_def)
  note one = read_permission read_role read_route
  show ?thesis
    by (cases "ma_permissions m"; cases "ma_roles m"; cases "ma_routes m")
      (use p r t one in \<open>auto simp: Manifest_MarshalJSON_def section_json_def dec_doc_def doc_of_def list_all_iff field_for_def
        sp sr st s0 simp del: to_json.simps(5)\<close>)
qed

section \<open>What the server does with it\<close>

abbreviation (input) apply_path :: string where "apply_path \<equiv> ''/anubis.v1.AuthzAdminService/ApplyManifest''"

definition apply_body :: "string \<Rightarrow> Manifest \<Rightarrow> bool \<Rightarrow> goval" where
  "apply_body slug m dry = GMap [(''application_slug'', GStr slug), (''manifest_json'', GStr (marshal (Manifest_MarshalJSON m))),
     (''dry'', GBool dry), (''format'', GStr ''json'')]"

definition installed :: "string \<Rightarrow> Server \<Rightarrow> manifestApp" where
  "installed slug s = (case map_of (sv_manifests s) slug of None \<Rightarrow> empty_app | Some a \<Rightarrow> a)"

text \<open>The server after an apply that was counted: the application has its entry, and a plan is committed.\<close>

definition after_apply :: "string \<Rightarrow> plan option \<Rightarrow> Server \<Rightarrow> Server" where
  "after_apply slug p s = (count ''ApplyManifest'' s)\<lparr>sv_manifests := AList.update slug
     (case p of None \<Rightarrow> installed slug s | Some p \<Rightarrow> committed (installed slug s) p) (sv_manifests s)\<rparr>"

definition apply_answer :: "bool \<Rightarrow> manifest_doc \<Rightarrow> int \<Rightarrow> string + plan \<Rightarrow> int \<times> goval" where
  "apply_answer dry d version outcome =
     (case outcome of
        Inl message \<Rightarrow> (400, GMap [(''error'', GStr ''invalid_argument''), (''message'', GStr message), (''request_id'', GStr ''req_test'')])
      | Inr p \<Rightarrow> (200, GMap [(''reportJson'', GStr (marshal (report_of dry d p))), (''manifestVersion'', GInt version)]))"

lemma update_update: "AList.update k v (AList.update k u m) = AList.update k v m"
  by (induction m) auto

lemma sections_none: "doc_sections (doc_of m) = [] \<longleftrightarrow> \<not> (ma_permissions m \<noteq> None \<or> ma_roles m \<noteq> None \<or> ma_routes m \<noteq> None)"
  by (auto simp: doc_sections_def doc_of_def)

lemma apply_served:
  fixes s :: Server
  assumes "wf_manifest m" "ascii_manifest m" "ascii slug" "rq_body rq = marshal (apply_body slug m dry)"
  defines "a \<equiv> installed slug s"
  shows "applyManifest ev s rq =
    (after_apply slug (case plan_of a (doc_of m) of Inl _ \<Rightarrow> None | Inr p \<Rightarrow> if dry then None else Some p) s,
     case apply_answer dry (doc_of m) (mf_version a + 1) (plan_of a (doc_of m)) of (st, v) \<Rightarrow> writeJSON st v)"
proof -
  note m = read_manifest [OF assms(1,2)]
  have asc: "ascii (marshal (Manifest_MarshalJSON m))" using m by (simp add: ascii_marshal)
  let ?fs = "[(''application_slug'', set_string (\<lambda>v r. r\<lparr>ay_slug := v\<rparr>)), (''manifest_json'', set_string (\<lambda>v r. r\<lparr>ay_manifest := v\<rparr>)),
      (''dry'', set_bool (\<lambda>v r. r\<lparr>ay_dry := v\<rparr>)), (''format'', set_string (\<lambda>v r. r\<lparr>ay_format := v\<rparr>))]"
  have req: "read_body ?fs \<lparr>ay_slug = [], ay_manifest = [], ay_dry = False, ay_format = []\<rparr> rq =
      \<lparr>ay_slug = slug, ay_manifest = marshal (Manifest_MarshalJSON m), ay_dry = dry, ay_format = ''json''\<rparr>"
    by (rule read_body_marshal [OF assms(4)]) (use asc assms(3) in \<open>simp_all add: apply_body_def field_for_def del: marshal.simps\<close>)
  have doc: "unmarshal dec_doc no_doc (marshal (Manifest_MarshalJSON m)) = Some (doc_of m)"
    using m unmarshal_marshal by metis
  have sec: "doc_sections (doc_of m) \<noteq> []" using assms(1) unfolding sections_none wf_manifest_def by blast
  have a: "(case map_of (sv_manifests s) slug of None \<Rightarrow> empty_app | Some x \<Rightarrow> x) = a"
    by (simp add: a_def installed_def)
  have ms: "sv_manifests (count n s) = sv_manifests s" for n by (simp add: count_def)
  show ?thesis
    by (cases "plan_of a (doc_of m)")
      (simp_all add: applyManifest_def Let_def req doc sec a after_apply_def apply_answer_def httpError_def a_def [symmetric]
        update_update ms)
qed

section \<open>The report\<close>

definition client_report :: "bool \<Rightarrow> manifest_doc \<Rightarrow> int \<Rightarrow> plan \<Rightarrow> ManifestReport" where
  "client_report dry d version p =
     \<lparr>re_Dry = dry, re_Sections = doc_sections d,
      re_Permissions = (if md_permissions d = None then None else Some \<lparr>pr_Applied = int (fst (pl_named p)),
         pr_AddedOrUpdated = int (fst (pl_named p)), pr_Deprecated = pl_deprecatedPerm p\<rparr>),
      re_Roles = (if md_roles d = None then None else Some \<lparr>rr_Applied = int (snd (pl_named p)), rr_Deprecated = pl_deprecatedRole p\<rparr>),
      re_Routes = (if md_routes d = None then None else Some (pl_routes p)), re_Version = version\<rparr>"

definition small_plan :: "plan \<Rightarrow> bool" where
  "small_plan p \<longleftrightarrow> list_all ascii (pl_deprecatedPerm p) \<and> list_all ascii (pl_deprecatedRole p) \<and>
     in64 (int (fst (pl_named p))) \<and> in64 (int (snd (pl_named p))) \<and> in64 (pl_routes p)"

lemma read_report:
  assumes "small_plan p"
  shows "ascii_val (report_of dry d p) \<and> manifest_report (marshal (report_of dry d p)) version = Inr (client_report dry d version p)"
proof -
  have asc: "ascii_val (report_of dry d p)"
    using assms by (auto simp: report_of_def small_plan_def gstrs_def doc_sections_def list_all_iff)
  have ne: "marshal (report_of dry d p) \<noteq> []" by (simp add: report_of_def)
  let ?zero = "\<lparr>re_Dry = False, re_Sections = [], re_Permissions = None, re_Roles = None, re_Routes = None, re_Version = version\<rparr>"
  have sorted: "sort (doc_sections d) = doc_sections d"
    by (simp add: doc_sections_def)
  have sec: "list_all ascii (doc_sections d)" by (simp add: doc_sections_def)
  have "dec_ManifestReport (to_json (report_of dry d p)) ?zero = Some (client_report dry d version p)"
    using assms sec
    by (cases "md_permissions d = None"; cases "md_roles d = None"; cases "md_routes d = None")
      (simp_all add: report_of_def client_report_def dec_ManifestReport_def field_for_def small_plan_def set_ptr_def gstrs_def those_strings)
  then have u: "unmarshal dec_ManifestReport ?zero (marshal (report_of dry d p)) = Some (client_report dry d version p)"
    unfolding unmarshal_marshal [OF asc] .
  have "(client_report dry d version p)\<lparr>re_Version := version, re_Sections := doc_sections d\<rparr> = client_report dry d version p"
    "re_Sections (client_report dry d version p) = doc_sections d"
    by (simp_all add: client_report_def)
  with u ne sorted show ?thesis by (simp add: manifest_report_def asc)
qed

section \<open>Client and server together\<close>

lemma plan_message_ascii:
  assumes "plan_of a (doc_of m) = Inl message" "ascii_manifest m"
  shows "ascii message"
proof -
  have refs: "ascii name \<and> ascii ref" if "ma_roles m = Some rs"
      "find_first (\<lambda>(name, refs). map_option (Pair name) (find P refs)) (map (\<lambda>r. (mr_Name r, mr_Permissions r)) rs) = Some (name, ref)"
    for P rs name ref
  proof -
    from find_first_Some [OF that(2)] obtain r where r: "r \<in> set rs" "name = mr_Name r" "find P (mr_Permissions r) = Some ref"
      by (auto split: option.splits)
    from r(3) have "ref \<in> set (mr_Permissions r)" by (auto simp: find_Some_iff)
    with r(1,2) that(1) assms(2) show ?thesis by (auto simp: ascii_manifest_def ascii_role_def list_all_iff)
  qed
  have route: "ascii permission" if "ma_routes m = Some ts" "find P (map (\<lambda>r. (mt_Effect r, mt_Permission r)) ts) = Some (effect, permission)"
    for P ts effect permission
  proof -
    from that(2) obtain i where "i < length ts" "permission = mt_Permission (ts ! i)" by (auto simp: find_Some_iff)
    with that(1) assms(2) show ?thesis by (auto simp: ascii_manifest_def ascii_route_def list_all_iff)
  qed
  from assms(1) show ?thesis
    by (auto simp: plan_of_def plan_permissions_def plan_roles_def plan_routes_def doc_of_def Let_def dest!: refs route
        split: option.splits if_splits sum.splits)
qed

definition manifest_reaches ::
  "Server platform \<Rightarrow> (Server \<Rightarrow> fake_env) \<Rightarrow> Server Client \<Rightarrow> Ctx \<Rightarrow> Server \<Rightarrow> string \<Rightarrow> Manifest \<Rightarrow> bool \<Rightarrow> bool" where
  "manifest_reaches pf env c ctx s slug m dry \<longleftrightarrow>
     talks_to c env \<and> admitted pf c ctx s apply_path \<and> slug \<noteq> [] \<and> ascii slug \<and> ascii_manifest m \<and>
     in64 (mf_version (installed slug s) + 1) \<and> (\<forall>p. plan_of (installed slug s) (doc_of m) = Inr p \<longrightarrow> small_plan p) \<and>
     length (marshal (snd (apply_answer dry (doc_of m) (mf_version (installed slug s) + 1)
       (plan_of (installed slug s) (doc_of m))))) < maxResponseBytes"

lemma manifest_end_to_end:
  assumes "wf_manifest m" "manifest_reaches pf env c ctx s slug m dry"
  shows "applyManifest_client pf c s ctx slug m dry =
    (case plan_of (installed slug s) (doc_of m) of
       Inl message \<Rightarrow> (after_apply slug None s, Inl (ErrAPI \<lparr>ae_Code = ''invalid_argument'', ae_Message = message,
         ae_RequestID = ''req_test'', ae_Status = 400, ae_Details = [], ae_class = []\<rparr>))
     | Inr p \<Rightarrow> (after_apply slug (if dry then None else Some p) s,
         Inr (client_report dry (doc_of m) (mf_version (installed slug s) + 1) p)))"
proof -
  from assms(2) obtain t where t: "talks_to c env" "the_credential c ctx = Some t" "pf_url_parse pf (c_baseURL c @ apply_path) \<noteq> None"
      "sv_platformKey s = [] \<or> sv_platformKey s = t"
    and h: "slug \<noteq> []" "ascii slug" "ascii_manifest m" "in64 (mf_version (installed slug s) + 1)"
      "\<And>p. plan_of (installed slug s) (doc_of m) = Inr p \<Longrightarrow> small_plan p"
    by (auto simp: manifest_reaches_def admitted_def)
  define d version outcome where "d = doc_of m" and "version = mf_version (installed slug s) + 1"
    and "outcome = plan_of (installed slug s) (doc_of m)"
  obtain st v where sv: "apply_answer dry d version outcome = (st, v)" by fastforce
  then have len: "length (marshal v) < maxResponseBytes"
    using assms(2) by (simp add: manifest_reaches_def d_def version_def outcome_def)
  let ?after = "after_apply slug (case outcome of Inl _ \<Rightarrow> None | Inr p \<Rightarrow> if dry then None else Some p) s"
  have op: "(apply_path, guarded applyManifest) \<in> set operator_routes" by (simp add: manifestRoutes_def)
  have served: "guarded applyManifest (env s) s rq = (?after, writeJSON st v)" if "request_of pf c ctx apply_path (apply_body slug m dry) rq" for rq
  proof -
    have "guarded applyManifest (env s) s rq = applyManifest (env s) s rq"
      using t(2,4) that by (auto simp: guarded_def request_of_def)
    with apply_served [OF assms(1) h(3,2), of rq dry] that sv show ?thesis
      by (simp add: request_of_def d_def version_def outcome_def)
  qed
  have st: "st \<notin> {301, 302, 303, 307, 308}" using sv by (auto simp: apply_answer_def split: sum.splits)
  have asc: "ascii_val v"
    using sv h(3,5) read_report plan_message_ascii by (auto simp: apply_answer_def outcome_def d_def ascii_marshal split: sum.splits)
  let ?dec = "decode_struct [(''reportJson'', set_string (\<lambda>v (_, n). (v, n))), (''manifestVersion'', set_int (\<lambda>v (j, _). (j, v)))]"
  have call: "Admin_call pf c s ctx apply_path (apply_body slug m dry) ?dec ([], 0) =
      (?after, case read_answer pf st v ?dec ([], 0) of Inl e \<Rightarrow> Inl (admin_error e) | Inr x \<Rightarrow> Inr x)"
    by (rule admin_call_served [OF t(1-3) op st served asc len])
  have client: "applyManifest_client pf c s ctx slug m dry =
      and_then (Admin_call pf c s ctx apply_path (apply_body slug m dry) ?dec ([], 0)) (\<lambda>(report_json, version). manifest_report report_json version)"
    using assms(1) h(1) by (simp add: applyManifest_client_def Validate_None [THEN iffD2] Admin_ApplyManifestDocument_def apply_body_def)
  show ?thesis
  proof (cases outcome)
    case (Inl message)
    then have "ascii message" using h(3) plan_message_ascii by (auto simp: outcome_def)
    moreover have "st = 400" "v = GMap [(''error'', GStr ''invalid_argument''), (''message'', GStr message), (''request_id'', GStr ''req_test'')]"
      using sv Inl by (simp_all add: apply_answer_def)
    ultimately show ?thesis using client call Inl
      by (simp add: read_httpError classify_def and_then_def admin_error_def errors_As_def outcome_def [symmetric])
  next
    case (Inr p)
    then have v: "st = 200" "v = GMap [(''reportJson'', GStr (marshal (report_of dry d p))), (''manifestVersion'', GInt version)]"
      using sv by (simp_all add: apply_answer_def)
    have p: "small_plan p" using h(5) Inr by (simp add: outcome_def)
    from read_report [OF p, of dry d] have "ascii (marshal (report_of dry d p))" by (simp add: ascii_marshal)
    with h(4) have "read_answer pf st v ?dec ([], 0) = Inr (marshal (report_of dry d p), version)"
      by (simp add: v read_answer_def field_for_def version_def)
    with client call Inr read_report [OF p, of dry d version] show ?thesis
      by (simp add: and_then_def outcome_def [symmetric] d_def version_def)
  qed
qed

end
