(* ===== verification/Fake_Invariant.thy ===== *)
theory Fake_Invariant
  imports Fake_Apply
begin

text \<open>
  What holds of the test server's state however it is used: \<open>server_ok\<close>, kept by every
  request any of its routes answers, and \<open>pinned\<close>, what no request changes of a row that is
  already there. \<open>lawful\<close> is both together, proved handler by handler and lifted over the
  guards to the mux.
\<close>

section \<open>Maps of rows\<close>

definition keyed :: "('k \<Rightarrow> 'v \<Rightarrow> bool) \<Rightarrow> ('k \<times> 'v) list \<Rightarrow> bool" where
  "keyed P m \<longleftrightarrow> wf_map m \<and> (\<forall>(k, v) \<in> set m. P k v)"

lemma keyed_Nil [simp]: "keyed P []"
  by (simp add: keyed_def)

lemma keyed_update [intro]: "keyed P m \<Longrightarrow> P k v \<Longrightarrow> keyed P (AList.update k v m)"
  using set_update_subset [of k v m] by (fastforce simp: keyed_def)

lemma keyed_delete [intro]: "keyed P m \<Longrightarrow> keyed P (AList.delete k m)"
  by (auto simp: keyed_def wf_map_def AList.delete_eq distinct_map_filter)

lemma keyed_lookup: "keyed P m \<Longrightarrow> map_of m k = Some v \<Longrightarrow> P k v"
  by (auto simp: keyed_def dest!: map_of_SomeD)

lemma keyed_find: "keyed P m \<Longrightarrow> find Q m = Some (k, v) \<Longrightarrow> map_of m k = Some v"
  by (auto simp: keyed_def wf_map_def find_Some_iff intro: map_of_is_SomeI)

lemma keyed_mono: "keyed P m \<Longrightarrow> (\<And>k v. P k v \<Longrightarrow> Q k v) \<Longrightarrow> keyed Q m"
  by (auto simp: keyed_def)

text \<open>A field that is the same in the row and its replacement stays distinct; so does a new one.\<close>

lemma update_field: "map_of m k = Some v \<Longrightarrow> f v' = f v \<Longrightarrow> map (f \<circ> snd) (AList.update k v' m) = map (f \<circ> snd) m"
  by (induction m) (auto split: if_splits)

lemma update_new: "map_of m k = None \<Longrightarrow> AList.update k v m = m @ [(k, v)]"
  by (induction m) (auto split: if_splits)

text \<open>What survives of the rows of a map: \<open>later\<close> where nothing is removed, \<open>agree\<close> where it may be.\<close>

definition later :: "('v \<Rightarrow> 'v \<Rightarrow> bool) \<Rightarrow> ('k \<times> 'v) list \<Rightarrow> ('k \<times> 'v) list \<Rightarrow> bool" where
  "later R m m' \<longleftrightarrow> (\<forall>k v. map_of m k = Some v \<longrightarrow> (\<exists>v'. map_of m' k = Some v' \<and> R v v'))"

definition agree :: "('v \<Rightarrow> 'v \<Rightarrow> bool) \<Rightarrow> ('k \<times> 'v) list \<Rightarrow> ('k \<times> 'v) list \<Rightarrow> bool" where
  "agree R m m' \<longleftrightarrow> (\<forall>k v v'. map_of m k = Some v \<longrightarrow> map_of m' k = Some v' \<longrightarrow> R v v')"

lemma later_update: "(\<And>v. R v v) \<Longrightarrow> (\<And>u. map_of m k = Some u \<Longrightarrow> R u v) \<Longrightarrow> later R m (AList.update k v m)"
  by (auto simp: later_def update_conv')

lemma later_refl: "(\<And>v. R v v) \<Longrightarrow> later R m m"
  by (simp add: later_def)

lemma agree_update: "(\<And>v. R v v) \<Longrightarrow> (\<And>u. map_of m k = Some u \<Longrightarrow> R u v) \<Longrightarrow> agree R m (AList.update k v m)"
  by (auto simp: agree_def update_conv')

lemma agree_delete: "(\<And>v. R v v) \<Longrightarrow> agree R m (AList.delete k m)"
  by (auto simp: agree_def delete_conv' restrict_map_def split: if_splits)

lemma agree_refl: "(\<And>v. R v v) \<Longrightarrow> agree R m m"
  by (simp add: agree_def)

section \<open>The invariant\<close>

definition schedule_ok :: "int \<Rightarrow> bool" where "schedule_ok n \<longleftrightarrow> n = 0 \<or> 300 \<le> n"

definition share_ok :: "nat \<Rightarrow> string \<Rightarrow> RecordShare \<Rightarrow> bool" where
  "share_ok n i sh \<longleftrightarrow> rh_ID sh = i \<and> (\<exists>k \<le> n. i = seq_id ''share'' k)"

text \<open>A link opens a share that is there, and a share has one link at most.\<close>

definition links_ok :: "(string \<times> RecordShare) list \<Rightarrow> smap \<Rightarrow> bool" where
  "links_ok shares links \<longleftrightarrow> wf_map links \<and> distinct (map snd links) \<and> snd ` set links \<subseteq> fst ` set shares"

definition tenant_ok :: "string \<Rightarrow> TenantRow \<Rightarrow> bool" where
  "tenant_ok i t \<longleftrightarrow> tw_ID t = i \<and> tw_Status t \<in> {''active'', ''suspended'', ''archived''}"

definition realm_ok :: "string \<Rightarrow> (string \<times> goval) list \<Rightarrow> bool" where
  "realm_ok code realm \<longleftrightarrow> code \<noteq> [] \<and> realm_code realm = code"

definition source_ok :: "string \<Rightarrow> CatalogSourceRow \<Rightarrow> bool" where
  "source_ok i r \<longleftrightarrow> kw_ID r = i \<and> kw_ApplicationSlug r \<noteq> [] \<and> schedule_ok (kw_IntervalSeconds r)"

definition page_ok :: "string \<Rightarrow> AuthPageRow \<Rightarrow> bool" where
  "page_ok i p \<longleftrightarrow> pw_ID p = i \<and> (pw_ApplicationSlug p = [] \<or> pw_RealmCode p = [])"

definition manifest_ok :: "manifestApp \<Rightarrow> bool" where
  "manifest_ok a \<longleftrightarrow> 0 \<le> mf_version a \<and> 0 \<le> mf_routes a \<and> distinct (mf_permissions a) \<and> distinct (mf_roles a)"

definition server_ok :: "Server \<Rightarrow> bool" where
  "server_ok s \<longleftrightarrow>
     keyed (share_ok (sv_seq s)) (sv_shares s) \<and> links_ok (sv_shares s) (sv_links s) \<and>
     keyed tenant_ok (sv_tenants s) \<and> distinct (map (tw_Slug \<circ> snd) (sv_tenants s)) \<and>
     keyed realm_ok (sv_realms s) \<and>
     keyed (\<lambda>slug r. aw_Slug r = slug) (sv_applications s) \<and> distinct (map (aw_ID \<circ> snd) (sv_applications s)) \<and>
     keyed (\<lambda>i k. xw_id k = i \<and> xw_label k \<noteq> []) (sv_apiKeys s) \<and>
     keyed source_ok (sv_catalogSources s) \<and> fst ` set (sv_catalogRuns s) \<subseteq> fst ` set (sv_catalogSources s) \<and>
     keyed (\<lambda>i r. yw_ID r = i \<and> schedule_ok (yw_IntervalSeconds r)) (sv_syncSources s) \<and>
     keyed page_ok (sv_authPages s) \<and> keyed (\<lambda>_. manifest_ok) (sv_manifests s)"

section \<open>What stays\<close>

definition tenant_kept :: "TenantRow \<Rightarrow> TenantRow \<Rightarrow> bool" where
  "tenant_kept t t' \<longleftrightarrow> tw_Slug t' = tw_Slug t \<and> tw_CreatedAt t' = tw_CreatedAt t \<and> tw_ParentID t' = tw_ParentID t"

definition application_kept :: "ApplicationRow \<Rightarrow> ApplicationRow \<Rightarrow> bool" where
  "application_kept a a' \<longleftrightarrow> aw_ID a' = aw_ID a \<and> aw_Kind a' = aw_Kind a \<and> aw_ManifestVersion a' = aw_ManifestVersion a"

definition key_kept :: "apiKeyRow \<Rightarrow> apiKeyRow \<Rightarrow> bool" where
  "key_kept k k' \<longleftrightarrow> xw_label k' = xw_label k \<and> xw_prefix k' = xw_prefix k \<and> xw_createdAt k' = xw_createdAt k \<and>
     xw_expiresAt k' = xw_expiresAt k"

definition source_kept :: "CatalogSourceRow \<Rightarrow> CatalogSourceRow \<Rightarrow> bool" where
  "source_kept r r' \<longleftrightarrow> kw_ApplicationSlug r' = kw_ApplicationSlug r \<and> kw_Kind r' = kw_Kind r"

definition sync_kept :: "SyncSourceRow \<Rightarrow> SyncSourceRow \<Rightarrow> bool" where
  "sync_kept r r' \<longleftrightarrow> r' = r\<lparr>yw_IntervalSeconds := yw_IntervalSeconds r'\<rparr>"

definition manifest_kept :: "manifestApp \<Rightarrow> manifestApp \<Rightarrow> bool" where
  "manifest_kept a a' \<longleftrightarrow> mf_version a \<le> mf_version a' \<and> set (mf_deprecatedPerm a) \<subseteq> set (mf_deprecatedPerm a') \<and>
     set (mf_deprecatedRole a) \<subseteq> set (mf_deprecatedRole a') \<and> (mf_version a' = mf_version a \<longrightarrow> a' = a)"

definition pinned :: "Server \<Rightarrow> Server \<Rightarrow> bool" where
  "pinned s s' \<longleftrightarrow>
     sv_seq s \<le> sv_seq s' \<and> sv_platformKey s' = sv_platformKey s \<and> sv_decisions s' = sv_decisions s \<and>
     sv_granted s' = sv_granted s \<and> sv_grants s' = sv_grants s \<and> sv_scopeNodes s' = sv_scopeNodes s \<and>
     sv_memberships s' = sv_memberships s \<and>
     set (sv_consumed s) \<subseteq> set (sv_consumed s') \<and> set (sv_linkBearers s) \<subseteq> set (sv_linkBearers s') \<and>
     agree (=) (sv_shares s) (sv_shares s') \<and>
     later tenant_kept (sv_tenants s) (sv_tenants s') \<and> later (\<lambda>_ _. True) (sv_realms s) (sv_realms s') \<and>
     later application_kept (sv_applications s) (sv_applications s') \<and> later key_kept (sv_apiKeys s) (sv_apiKeys s') \<and>
     agree source_kept (sv_catalogSources s) (sv_catalogSources s') \<and> later sync_kept (sv_syncSources s) (sv_syncSources s') \<and>
     later manifest_kept (sv_manifests s) (sv_manifests s')"

lemma kept_refl [simp]:
  "tenant_kept t t" "application_kept a a" "key_kept k k" "source_kept r r" "sync_kept y y" "manifest_kept m m"
  by (simp_all add: tenant_kept_def application_kept_def key_kept_def source_kept_def sync_kept_def manifest_kept_def)

definition lawful :: "Server \<Rightarrow> Server \<Rightarrow> bool" where
  "lawful s s' \<longleftrightarrow> (server_ok s \<longrightarrow> server_ok s' \<and> pinned s s')"

definition lawful_handler :: "handler \<Rightarrow> bool" where
  "lawful_handler h \<longleftrightarrow> (\<forall>ev s rq. lawful s (fst (h ev s rq)))"

named_theorems lawful_intros

lemmas pinned_simps = pinned_def later_refl agree_refl
lemmas server_maps = keyed_update keyed_delete later_update agree_update agree_delete

lemma lawful_refl [lawful_intros]: "lawful s s"
  by (simp add: lawful_def pinned_simps)

lemma lawful_trans: "lawful s t \<Longrightarrow> lawful t u \<Longrightarrow> pinned s u \<or> \<not> server_ok s \<Longrightarrow> lawful s u"
  by (auto simp: lawful_def)

lemma lawful_count [simp]: "lawful s (count m s') = lawful s s'" "lawful (count m s) s' = lawful s s'"
  by (simp_all add: lawful_def server_ok_def pinned_def count_def)

text \<open>A handler is lawful when all it does after counting is.\<close>

lemma lawful_handlerI: "(\<And>ev s rq. lawful s (fst (h ev s rq))) \<Longrightarrow> lawful_handler h"
  by (simp add: lawful_handler_def)

lemma lawful_guarded: "lawful_handler h \<Longrightarrow> lawful_handler (guarded h)"
  by (simp add: lawful_handler_def guarded_def lawful_refl)

lemma lawful_refuseLink: "(\<And>s. lawful s (fst (h ev s rq))) \<Longrightarrow> lawful s (fst (refuseLink h ev s rq))"
  by (simp add: refuseLink_def lawful_refl)

section \<open>The handlers that only look\<close>

lemma lawful_readers:
  "lawful_handler listGrants" "lawful_handler searchGrants" "lawful_handler listRoles" "lawful_handler roleEffective"
  "lawful_handler getIdentity" "lawful_handler listScopeNodes" "lawful_handler listMemberships"
  "lawful_handler listCatalogSources" "lawful_handler listCatalogRuns" "lawful_handler listAuthPages"
  "lawful_handler getAuthPage" "lawful_handler listTenants" "lawful_handler listRealms" "lawful_handler listApplications"
  "lawful_handler listAPIKeys" "lawful_handler fake_explain" "lawful_handler fake_introspect" "lawful_handler served_keys"
  by (simp_all add: lawful_handler_def lawful_refl listGrants_def searchGrants_def listRoles_def roleEffective_def
      getIdentity_def listScopeNodes_def listMemberships_def listCatalogSources_def listCatalogRuns_def listAuthPages_def
      getAuthPage_def listTenants_def listRealms_def listApplications_def listAPIKeys_def fake_explain_def
      fake_introspect_def served_keys_def case_prod_beta Let_def)

section \<open>Tenants, realms, keys\<close>

lemma count_fields [simp]:
  "sv_tenants (count m s) = sv_tenants s" "sv_realms (count m s) = sv_realms s" "sv_applications (count m s) = sv_applications s"
  "sv_apiKeys (count m s) = sv_apiKeys s" "sv_seq (count m s) = sv_seq s" "sv_shares (count m s) = sv_shares s"
  "sv_links (count m s) = sv_links s" "sv_catalogSources (count m s) = sv_catalogSources s"
  "sv_catalogRuns (count m s) = sv_catalogRuns s" "sv_syncSources (count m s) = sv_syncSources s"
  "sv_authPages (count m s) = sv_authPages s" "sv_manifests (count m s) = sv_manifests s"
  by (simp_all add: count_def)

lemma share_later: "keyed (share_ok n) m \<Longrightarrow> n \<le> n' \<Longrightarrow> keyed (share_ok n') m"
  by (erule keyed_mono) (auto simp: share_ok_def intro: le_trans)

lemma later_new: "(\<And>v. R v v) \<Longrightarrow> map_of m k = None \<Longrightarrow> later R m (AList.update k v m)"
  by (rule later_update) auto

lemma agree_new: "(\<And>v. R v v) \<Longrightarrow> map_of m k = None \<Longrightarrow> agree R m (AList.update k v m)"
  by (rule agree_update) auto

lemma freshID_new: "freshID p (map fst m) n = (n', i) \<Longrightarrow> n \<le> n' \<and> map_of m i = None"
  using freshID_fresh [of p "map fst m" n n' i] by (auto simp: map_of_eq_None_iff)

lemma lawful_tenants: "lawful_handler createTenant" "lawful_handler updateTenant" "lawful_handler setTenantStatus"
proof -
  have new: "lawful s ((count m s)\<lparr>sv_seq := n, sv_tenants := AList.update i row (sv_tenants s)\<rparr>)"
    if "freshID p (map fst (sv_tenants s)) (sv_seq s) = (n, i)" "\<not> list_ex (\<lambda>(_, t). tw_Slug t = tw_Slug row) (sv_tenants s)"
      "tenant_ok i row" for s m n i p row
  proof -
    note n = freshID_new [OF that(1)]
    have "tw_Slug row \<notin> tw_Slug ` snd ` set (sv_tenants s)" using that(2) by (auto simp: list_ex_iff)
    then have "distinct (map (tw_Slug \<circ> snd) (sv_tenants s)) \<Longrightarrow> distinct (map (tw_Slug \<circ> snd) (AList.update i row (sv_tenants s)))"
      using n by (simp add: update_new image_comp)
    with n that(3) show ?thesis
      by (auto simp: lawful_def server_ok_def pinned_simps count_def intro: share_later later_new)
  qed
  show "lawful_handler createTenant"
    by (rule lawful_handlerI) (auto simp: createTenant_def Let_def tenant_ok_def intro!: new lawful_refl split: prod.split)
  have old: "lawful s ((count m s)\<lparr>sv_tenants := AList.update i row' (sv_tenants s)\<rparr>)"
    if "map_of (sv_tenants s) i = Some row" "tenant_kept row row'" "tw_ID row' = tw_ID row"
      "tw_Status row' = tw_Status row \<or> tw_Status row' \<in> {''active'', ''suspended'', ''archived''}" for s m i row row'
    using that
    by (auto simp: lawful_def server_ok_def pinned_simps update_field tenant_kept_def tenant_ok_def count_def
        dest: keyed_lookup intro!: server_maps)
  show "lawful_handler updateTenant" "lawful_handler setTenantStatus"
    by (auto intro!: lawful_handlerI old lawful_refl simp: updateTenant_def setTenantStatus_def Let_def tenant_kept_def
        split: option.split prod.split)
qed

lemma lawful_realms: "lawful_handler createRealm" "lawful_handler updateRealm"
proof -
  have put: "lawful s ((count m s)\<lparr>sv_seq := n, sv_realms := AList.update code r (sv_realms s)\<rparr>)"
    if "realm_ok code r" "sv_seq s \<le> n" for s m n code r
    using that by (auto simp: lawful_def server_ok_def pinned_simps count_def intro: share_later later_update)
  have "realm_code (AList.update ''id'' v realm) = realm_code realm" for v realm
    by (simp add: realm_code_def update_conv')
  then have "lawful s (fst (upsertRealm create ev (count m s) rq))" for create ev m s rq
    by (auto simp: upsertRealm_def Let_def realm_ok_def intro!: put lawful_refl split: option.split)
  then show "lawful_handler createRealm" "lawful_handler updateRealm"
    by (simp_all add: lawful_handler_def createRealm_def updateRealm_def)
qed

lemma lawful_keys: "lawful_handler createAPIKey" "lawful_handler revokeAPIKey"
proof -
  have new: "lawful s ((count m s)\<lparr>sv_seq := n, sv_apiKeys := AList.update i row (sv_apiKeys s)\<rparr>)"
    if "freshID p (map fst (sv_apiKeys s)) (sv_seq s) = (n, i)" "xw_id row = i" "xw_label row \<noteq> []" for s m n i p row
    using that freshID_new [OF that(1)]
    by (auto simp: lawful_def server_ok_def pinned_simps count_def intro: share_later later_new)
  have old: "lawful s ((count m s)\<lparr>sv_apiKeys := AList.update i (row\<lparr>xw_revokedAt := t\<rparr>) (sv_apiKeys s)\<rparr>)"
    if "map_of (sv_apiKeys s) i = Some row" for s m i row t
    using that by (auto simp: lawful_def server_ok_def pinned_simps key_kept_def count_def dest: keyed_lookup intro!: server_maps)
  show "lawful_handler createAPIKey" "lawful_handler revokeAPIKey"
    by (auto intro!: lawful_handlerI new old lawful_refl simp: createAPIKey_def revokeAPIKey_def Let_def
        split: option.split prod.split)
qed

section \<open>Applications\<close>

lemma lawful_seq: "sv_seq s \<le> n \<Longrightarrow> lawful s ((count m s)\<lparr>sv_seq := n\<rparr>)"
  by (auto simp: lawful_def server_ok_def pinned_simps count_def intro: share_later)

lemma lawful_applications:
  "lawful_handler createApplication" "lawful_handler updateApplication" "lawful_handler rotateClientSecret"
proof -
  have new: "lawful s ((count m s)\<lparr>sv_seq := n', sv_applications := AList.update slug row (sv_applications s)\<rparr>)"
    if "freshID p (map (aw_ID \<circ> snd) (sv_applications s)) (sv_seq s) = (n, aw_ID row)" "n \<le> n'"
      "map_of (sv_applications s) slug = None" "aw_Slug row = slug" for s m n n' p row slug
  proof -
    from freshID_fresh [OF that(1)] have n: "sv_seq s < n" "\<forall>(_, r) \<in> set (sv_applications s). aw_ID r \<noteq> aw_ID row" by force+
    then have "distinct (map (aw_ID \<circ> snd) (sv_applications s)) \<Longrightarrow> distinct (map (aw_ID \<circ> snd) (AList.update slug row (sv_applications s)))"
      using that(3) by (fastforce simp: update_new)
    with n(1) that(2-4) show ?thesis
      by (auto simp: lawful_def server_ok_def pinned_simps count_def intro: share_later later_new)
  qed
  have old: "lawful s ((count m s)\<lparr>sv_applications := AList.update slug row' (sv_applications s)\<rparr>)"
    if "find P (sv_applications s) = Some (slug, row)" "application_kept row row'" "aw_Slug row' = aw_Slug row" for s m P slug row row'
  proof (cases "server_ok s")
    case True
    then have "map_of (sv_applications s) slug = Some row"
      using keyed_find [OF _ that(1)] by (auto simp: server_ok_def)
    with that(2,3) show ?thesis
      by (auto simp: lawful_def server_ok_def pinned_simps update_field application_kept_def count_def dest: keyed_lookup intro!: server_maps)
  qed (simp add: lawful_def)
  have swap: "t\<lparr>sv_applications := m, sv_seq := n\<rparr> = t\<lparr>sv_seq := n, sv_applications := m\<rparr>" for t m n by simp
  show "lawful_handler createApplication"
    by (rule lawful_handlerI)
      (auto simp: createApplication_def Let_def swap intro!: new lawful_refl split: prod.split)
  show "lawful_handler updateApplication"
    by (rule lawful_handlerI)
      (auto simp: updateApplication_def Let_def application_kept_def intro!: old lawful_refl split: option.split prod.split)
  show "lawful_handler rotateClientSecret"
    by (rule lawful_handlerI)
      (auto simp: rotateClientSecret_def Let_def intro!: lawful_seq lawful_refl split: option.split)
qed

section \<open>Sources, schedules, pages\<close>

lemma lawful_sync: "lawful_handler setSyncSchedule"
proof -
  have "lawful s ((count m s)\<lparr>sv_syncSources := AList.update i (row\<lparr>yw_IntervalSeconds := n\<rparr>) (sv_syncSources s)\<rparr>)"
    if "map_of (sv_syncSources s) i = Some row" "n = 0 \<or> \<not> n < 300" for s m i row n
    using that
    by (auto simp: lawful_def server_ok_def pinned_simps sync_kept_def schedule_ok_def count_def dest: keyed_lookup intro!: server_maps)
  then show ?thesis
    by (intro lawful_handlerI)
      (auto simp: setSyncSchedule_def Let_def intro!: lawful_refl split: option.split prod.split)
qed

lemma keys_update: "fst ` set (AList.update k v m) = insert k (fst ` set m)"
  by (induction m) auto

lemma keys_update_le: "fst ` set (AList.update k v m) \<subseteq> insert k (fst ` set m)"
  by (simp add: keys_update)

lemma keys_delete: "fst ` set (AList.delete k m) = fst ` set m - {k}"
  by (auto simp: AList.delete_eq)

lemma lawful_new_source:
  assumes "freshID p (map fst (sv_catalogSources s)) (sv_seq s) = (n, i)" "kw_ID row = i" "kw_ApplicationSlug row \<noteq> []"
    "kw_IntervalSeconds row = 0 \<or> \<not> kw_IntervalSeconds row < 300"
  shows "lawful s ((count m s)\<lparr>sv_seq := n, sv_catalogSources := AList.update i row (sv_catalogSources s)\<rparr>)"
  using assms freshID_new [OF assms(1)]
  by (auto simp: lawful_def server_ok_def pinned_simps count_def source_ok_def schedule_ok_def keys_update
      intro: share_later agree_new)

lemma lawful_put_source:
  assumes "map_of (sv_catalogSources s) i = Some row" "kw_ID row' = kw_ID row" "source_kept row row'" "sv_seq s \<le> n"
    "kw_IntervalSeconds row' = 0 \<or> \<not> kw_IntervalSeconds row' < 300 \<or> kw_IntervalSeconds row' = kw_IntervalSeconds row"
    "fst ` set runs \<subseteq> insert i (fst ` set (sv_catalogRuns s))"
  shows "lawful s ((count m s)\<lparr>sv_seq := n, sv_catalogRuns := runs, sv_catalogSources := AList.update i row' (sv_catalogSources s)\<rparr>)"
proof (cases "server_ok s")
  case True
  then have "source_ok i row" "keyed source_ok (sv_catalogSources s)" "fst ` set (sv_catalogRuns s) \<subseteq> fst ` set (sv_catalogSources s)"
    using keyed_lookup [OF _ assms(1)] by (auto simp: server_ok_def)
  then have "keyed source_ok (AList.update i row' (sv_catalogSources s))"
    "agree source_kept (sv_catalogSources s) (AList.update i row' (sv_catalogSources s))"
    "fst ` set runs \<subseteq> fst ` set (AList.update i row' (sv_catalogSources s))"
  proof -
    assume ok: "source_ok i row" "keyed source_ok (sv_catalogSources s)" "fst ` set (sv_catalogRuns s) \<subseteq> fst ` set (sv_catalogSources s)"
    from ok(1) assms(2,3,5) have "source_ok i row'" by (auto simp: source_ok_def schedule_ok_def source_kept_def)
    with ok(2) show "keyed source_ok (AList.update i row' (sv_catalogSources s))" by (rule keyed_update)
    show "agree source_kept (sv_catalogSources s) (AList.update i row' (sv_catalogSources s))"
      by (rule agree_update) (use assms(1,3) in auto)
    show "fst ` set runs \<subseteq> fst ` set (AList.update i row' (sv_catalogSources s))"
      unfolding keys_update using assms(6) ok(3) by blast
  qed
  with assms(4) show ?thesis by (auto simp: lawful_def server_ok_def pinned_simps count_def intro: share_later)
qed (simp add: lawful_def)

lemma lawful_update_source: "lawful_handler updateCatalogSource"
proof (rule lawful_handlerI)
  have old: "lawful s ((count m s)\<lparr>sv_catalogSources := AList.update i row' (sv_catalogSources s)\<rparr>)"
    if "map_of (sv_catalogSources s) i = Some row" "kw_ID row' = kw_ID row" "source_kept row row'"
      "kw_IntervalSeconds row' = 0 \<or> \<not> kw_IntervalSeconds row' < 300" for s m i row row'
  proof -
    have "lawful s ((count m s)\<lparr>sv_seq := sv_seq s, sv_catalogRuns := sv_catalogRuns s,
        sv_catalogSources := AList.update i row' (sv_catalogSources s)\<rparr>)"
      by (rule lawful_put_source) (use that in auto)
    moreover have "(count m s)\<lparr>sv_seq := sv_seq s, sv_catalogRuns := sv_catalogRuns s\<rparr> = count m s" by (simp add: count_def)
    ultimately show ?thesis by simp
  qed
  show "lawful s (fst (updateCatalogSource ev s rq))" for ev s rq
    by (auto simp: updateCatalogSource_def Let_def source_kept_def intro!: old lawful_refl split: option.split)
qed

lemma lawful_sources:
  "lawful_handler createCatalogSource" "lawful_handler deleteCatalogSource" "lawful_handler runCatalogSource"
proof -
  show "lawful_handler createCatalogSource"
    by (intro lawful_handlerI)
      (auto simp: createCatalogSource_def Let_def intro!: lawful_new_source lawful_refl split: prod.split)
  have gone: "lawful s ((count m s)\<lparr>sv_catalogSources := AList.delete i (sv_catalogSources s),
      sv_catalogRuns := AList.delete i (sv_catalogRuns s)\<rparr>)" for s m i
    unfolding lawful_def
  proof
    assume ok: "server_ok s"
    then have "fst ` set (AList.delete i (sv_catalogRuns s)) \<subseteq> fst ` set (AList.delete i (sv_catalogSources s))"
      unfolding keys_delete by (auto simp: server_ok_def)
    with ok show "server_ok ((count m s)\<lparr>sv_catalogSources := AList.delete i (sv_catalogSources s),
        sv_catalogRuns := AList.delete i (sv_catalogRuns s)\<rparr>) \<and>
      pinned s ((count m s)\<lparr>sv_catalogSources := AList.delete i (sv_catalogSources s), sv_catalogRuns := AList.delete i (sv_catalogRuns s)\<rparr>)"
      by (simp add: server_ok_def pinned_simps count_def keyed_delete agree_delete)
  qed
  show "lawful_handler deleteCatalogSource"
    by (rule lawful_handlerI) (simp add: deleteCatalogSource_def Let_def gone)
  have run: "lawful s ((count m s)\<lparr>sv_seq := n, sv_catalogRuns := AList.update i x (sv_catalogRuns s)\<rparr>)"
    if "map_of (sv_catalogSources s) i = Some row" "sv_seq s \<le> n" for s m i n x row
    unfolding lawful_def
  proof
    have "i \<in> fst ` set (sv_catalogSources s)" using map_of_SomeD [OF that(1)] by force
    moreover assume ok: "server_ok s"
    ultimately have "fst ` set (AList.update i x (sv_catalogRuns s)) \<subseteq> fst ` set (sv_catalogSources s)"
      unfolding keys_update by (simp add: server_ok_def)
    moreover have "keyed (share_ok n) (sv_shares s)" using ok that(2) share_later [of "sv_seq s"] by (simp add: server_ok_def)
    ultimately show "server_ok ((count m s)\<lparr>sv_seq := n, sv_catalogRuns := AList.update i x (sv_catalogRuns s)\<rparr>) \<and>
        pinned s ((count m s)\<lparr>sv_seq := n, sv_catalogRuns := AList.update i x (sv_catalogRuns s)\<rparr>)"
      using ok that(2) by (simp add: server_ok_def pinned_simps count_def)
  qed
  show "lawful_handler runCatalogSource"
    by (intro lawful_handlerI)
      (auto simp: runCatalogSource_def Let_def source_kept_def intro!: lawful_put_source run lawful_refl keys_update_le
        split: option.split prod.split)
qed

text \<open>Making a page the default of its kind leaves its siblings' bindings alone.\<close>

lemma keyed_map: "keyed P m \<Longrightarrow> (\<And>k v. P k v \<Longrightarrow> P k (f v)) \<Longrightarrow> keyed P (map (\<lambda>(k, v). (k, f v)) m)"
  by (auto simp: keyed_def wf_map_def comp_def case_prod_beta)

lemma lawful_put_page: "keyed page_ok (sv_authPages s) \<longrightarrow> keyed page_ok pages \<Longrightarrow> sv_seq s \<le> n \<Longrightarrow>
    lawful s ((count m s)\<lparr>sv_seq := n, sv_authPages := pages\<rparr>)"
  by (auto simp: lawful_def server_ok_def pinned_simps count_def intro: share_later)

lemma lawful_pages:
  "lawful_handler createAuthPage" "lawful_handler updateAuthPage" "lawful_handler deleteAuthPage" "lawful_handler setDefaultAuthPage"
proof -
  have put: "lawful s ((count m s)\<lparr>sv_authPages := pages\<rparr>)"
    if "keyed page_ok (sv_authPages s) \<longrightarrow> keyed page_ok pages" for s m pages
  proof -
    have "(count m s)\<lparr>sv_seq := sv_seq s, sv_authPages := pages\<rparr> = (count m s)\<lparr>sv_authPages := pages\<rparr>" by (simp add: count_def)
    with lawful_put_page [OF that order_refl] show ?thesis by metis
  qed
  show "lawful_handler createAuthPage"
    by (intro lawful_handlerI)
      (auto simp: createAuthPage_def Let_def page_ok_def intro!: lawful_put_page keyed_update lawful_refl
        dest: freshID_new split: prod.split)
  show "lawful_handler updateAuthPage"
    by (intro lawful_handlerI)
      (auto simp: updateAuthPage_def Let_def page_ok_def intro!: put keyed_update lawful_refl dest: keyed_lookup split: option.split)
  show "lawful_handler deleteAuthPage"
    by (intro lawful_handlerI) (auto simp: deleteAuthPage_def Let_def intro!: put)
  show "lawful_handler setDefaultAuthPage"
    by (intro lawful_handlerI)
      (auto simp: setDefaultAuthPage_def Let_def default_page_def page_ok_def intro!: put keyed_update keyed_map lawful_refl
        dest: keyed_lookup split: option.split)
qed

section \<open>Manifests\<close>

lemma plan_ok:
  assumes "manifest_ok a" "plan_of a d = Inr p"
  shows "manifest_ok (committed a p) \<and> manifest_kept a (committed a p)"
proof -
  have "distinct (pl_perms p) \<and> distinct (pl_roles p) \<and> 0 \<le> pl_routes p"
    using assms
    by (auto simp: manifest_ok_def plan_of_def plan_permissions_def plan_roles_def plan_routes_def Let_def distinct_replace_keys
        split: option.splits if_splits sum.splits)
  moreover have "set xs \<subseteq> set (collect xs ys)" for xs ys :: "string list" using collect_set [of xs ys] by simp
  ultimately show ?thesis using assms(1) by (simp add: manifest_ok_def manifest_kept_def committed_def)
qed

lemma lawful_manifest: "lawful_handler applyManifest"
proof -
  have put: "lawful s ((count m s)\<lparr>sv_manifests := AList.update slug a (sv_manifests s)\<rparr>)"
    if "keyed (\<lambda>_. manifest_ok) (sv_manifests s) \<longrightarrow> manifest_ok a \<and> manifest_kept (installed slug s) a" for s m slug a
    using that
    by (auto simp: lawful_def server_ok_def pinned_simps count_def installed_def intro!: later_update keyed_update)
  have "manifest_ok empty_app" by (simp add: manifest_ok_def empty_app_def)
  then have was: "keyed (\<lambda>_. manifest_ok) (sv_manifests s) \<Longrightarrow> manifest_ok (installed slug s)" for s slug
    by (auto simp: installed_def dest: keyed_lookup split: option.split)
  show ?thesis
    by (rule lawful_handlerI)
      (auto simp: applyManifest_def Let_def installed_def [symmetric] update_update intro!: put lawful_refl was dest: plan_ok [OF was]
        split: option.split sum.split)
qed

section \<open>The gate and the sessions\<close>

lemma lawful_unseen [simp]:
  "lawful s (s'\<lparr>sv_lastAsk := a\<rparr>) = lawful s s'" "lawful s (s'\<lparr>sv_codes := c\<rparr>) = lawful s s'"
  "lawful s (s'\<lparr>sv_liveRefresh := l\<rparr>) = lawful s s'" "lawful s (s'\<lparr>sv_issued := i\<rparr>) = lawful s s'"
  by (simp_all add: lawful_def server_ok_def pinned_def)

lemma lawful_bearer: "lawful s (s\<lparr>sv_linkBearers := x # sv_linkBearers s\<rparr>)"
  by (auto simp: lawful_def server_ok_def pinned_simps)

lemma lawful_issue [simp]: "lawful s (fst (IssueSession ev u a s')) = lawful s s'"
  by (simp add: IssueSession_def Let_def)

lemma lawful_counted: "(\<And>s. lawful s (fst (h ev s rq))) \<Longrightarrow> lawful s (fst (refuseLink h ev (count m s) rq))"
  using lawful_refuseLink [where s = "count m s", of h ev rq] by simp

lemma lawful_decisions: "lawful_handler fake_authorize" "lawful_handler listGrantedNodes"
proof -
  show "lawful_handler fake_authorize"
    by (rule lawful_handlerI) (auto simp: fake_authorize_def Let_def intro!: lawful_refl split: option.split)
  show "lawful_handler listGrantedNodes"
    unfolding lawful_handler_def listGrantedNodes_def
    by (intro allI lawful_counted) (auto intro!: lawful_refl split: option.split prod.split)
qed

lemma lawful_shares:
  "lawful_handler fake_share" "lawful_handler unshare" "lawful_handler listSharesOnRecord" "lawful_handler listSharedWithMe"
proof -
  have new: "lawful s (s\<lparr>sv_seq := Suc (sv_seq s), sv_shares := AList.update (seq_id ''share'' (Suc (sv_seq s))) sh (sv_shares s)\<rparr>)"
    if "rh_ID sh = seq_id ''share'' (Suc (sv_seq s))" for s sh
    unfolding lawful_def
  proof
    let ?i = "seq_id ''share'' (Suc (sv_seq s))"
    assume ok: "server_ok s"
    then have k: "keyed (share_ok (sv_seq s)) (sv_shares s)" by (simp add: server_ok_def)
    then have n: "map_of (sv_shares s) ?i = None"
      by (cases "map_of (sv_shares s) ?i") (auto simp: share_ok_def seq_id_inj dest!: keyed_lookup)
    have "share_ok (Suc (sv_seq s)) ?i sh" using that by (auto simp: share_ok_def)
    then have "keyed (share_ok (Suc (sv_seq s))) (AList.update ?i sh (sv_shares s))"
      using share_later [OF k] by (intro keyed_update) simp_all
    moreover have "links_ok (AList.update ?i sh (sv_shares s)) (sv_links s)"
      using ok by (auto simp: server_ok_def links_ok_def keys_update)
    ultimately show "server_ok (s\<lparr>sv_seq := Suc (sv_seq s), sv_shares := AList.update ?i sh (sv_shares s)\<rparr>) \<and>
        pinned s (s\<lparr>sv_seq := Suc (sv_seq s), sv_shares := AList.update ?i sh (sv_shares s)\<rparr>)"
      using ok n by (simp add: server_ok_def pinned_simps agree_new)
  qed
  have gone: "lawful s (s\<lparr>sv_shares := AList.delete i (sv_shares s), sv_links := drop_links i (sv_links s)\<rparr>)" for s i
    unfolding lawful_def
  proof
    assume ok: "server_ok s"
    then have "links_ok (AList.delete i (sv_shares s)) (drop_links i (sv_links s))"
      by (auto simp: server_ok_def links_ok_def keys_delete drop_links_def wf_map_def distinct_map_filter)
    with ok show "server_ok (s\<lparr>sv_shares := AList.delete i (sv_shares s), sv_links := drop_links i (sv_links s)\<rparr>) \<and>
        pinned s (s\<lparr>sv_shares := AList.delete i (sv_shares s), sv_links := drop_links i (sv_links s)\<rparr>)"
      by (simp add: server_ok_def pinned_simps agree_delete keyed_delete)
  qed
  show "lawful_handler fake_share"
    unfolding lawful_handler_def fake_share_def
    by (intro allI lawful_counted) (auto simp: Let_def intro!: lawful_refl new split: option.split)
  show "lawful_handler unshare" "lawful_handler listSharesOnRecord" "lawful_handler listSharedWithMe"
    unfolding lawful_handler_def unshare_def listSharesOnRecord_def listSharedWithMe_def
    by (intro allI lawful_counted; auto simp: Let_def intro!: lawful_refl gone split: prod.split)+
qed

lemma lawful_links: "lawful_handler createAccessLink" "lawful_handler openAccessLink"
proof -
  have new: "lawful s (s\<lparr>sv_seq := Suc (sv_seq s), sv_links := AList.update tok i (drop_links i (sv_links s))\<rparr>)"
    if "\<exists>sh. map_of (sv_shares s) i = Some sh" for s tok i
    unfolding lawful_def
  proof
    assume ok: "server_ok s"
    have i: "i \<in> fst ` set (sv_shares s)" using that by (force dest: map_of_SomeD)
    have "wf_map links \<Longrightarrow> distinct (map snd links) \<Longrightarrow> j \<notin> snd ` set links \<Longrightarrow> distinct (map snd (AList.update tok j links))" for links j
      by (induction links) (auto simp: wf_map_def dest: set_mp [OF set_update_subset])
    moreover have "links_ok (sv_shares s) (drop_links i (sv_links s))" "i \<notin> snd ` set (drop_links i (sv_links s))"
      using ok by (auto simp: server_ok_def links_ok_def drop_links_def wf_map_def distinct_map_filter)
    ultimately have "links_ok (sv_shares s) (AList.update tok i (drop_links i (sv_links s)))"
      using i image_mono [OF set_update_subset, of snd tok i "drop_links i (sv_links s)"]
      unfolding links_ok_def image_insert snd_conv by (meson insert_subset order_trans wf_map_update)
    moreover have "keyed (share_ok (Suc (sv_seq s))) (sv_shares s)" using ok share_later [of "sv_seq s"] by (simp add: server_ok_def)
    ultimately show "server_ok (s\<lparr>sv_seq := Suc (sv_seq s), sv_links := AList.update tok i (drop_links i (sv_links s))\<rparr>) \<and>
        pinned s (s\<lparr>sv_seq := Suc (sv_seq s), sv_links := AList.update tok i (drop_links i (sv_links s))\<rparr>)"
      using ok by (simp add: server_ok_def pinned_simps)
  qed
  show "lawful_handler createAccessLink"
    unfolding lawful_handler_def createAccessLink_def
    by (intro allI lawful_counted) (auto simp: Let_def intro!: lawful_refl new)
  have "lawful s ((count m s)\<lparr>sv_linkBearers := x # sv_linkBearers (count m s)\<rparr>)" for s m x
    using lawful_bearer [of "count m s" x] by simp
  then show "lawful_handler openAccessLink"
    by (intro lawful_handlerI)
      (auto simp: openAccessLink_def Let_def intro!: lawful_refl split: option.split prod.split)
qed

lemma lawful_with_refresh: "set (sv_consumed s) \<subseteq> set (rv_consumed v) \<Longrightarrow> lawful s (with_refresh v s)"
  by (auto simp: lawful_def server_ok_def pinned_simps with_refresh_def)

lemma lawful_sessions:
  "lawful_handler fake_refresh" "lawful_handler fake_login" "lawful_handler clientCredentials"
  "lawful_handler browserAuthorize" "lawful_handler tokenExchange"
proof -
  have "set (rv_consumed v) \<subseteq> set (rv_consumed v')" if "refresh_present v t = (v', r)" for v t v' r
    using that by (auto simp: refresh_present_def Let_def split: option.splits if_splits)
  then have "lawful s (with_refresh v' s) \<and> lawful s (with_refresh (refresh_mint v' sid n) s)"
    if "refresh_present (refresh_view s) t = (v', r)" for s t v' r sid n
    using that by (auto simp: refresh_view_def refresh_mint_def intro!: lawful_with_refresh) fastforce+
  then have "lawful s (with_refresh v' (count m s)) \<and> lawful s (with_refresh (refresh_mint v' sid n) (count m s))"
    if "refresh_present (refresh_view (count m s)) t = (v', r)" for s t v' r sid n m
    using that by (metis lawful_count(2))
  then show "lawful_handler fake_refresh"
    by (intro lawful_handlerI) (auto simp: fake_refresh_def Let_def split: option.split prod.split)
  have issue: "IssueSession ev u a s' = (s'', t) \<Longrightarrow> lawful s s'' = lawful s s'" for ev u a s s' s'' t
    by (metis fst_conv lawful_issue)
  show "lawful_handler fake_login" "lawful_handler clientCredentials" "lawful_handler browserAuthorize" "lawful_handler tokenExchange"
    by (intro lawful_handlerI;
      auto simp: fake_login_def clientCredentials_def browserAuthorize_def tokenExchange_def Let_def issue
        intro!: lawful_refl split: prod.split option.split)+
qed

section \<open>The server\<close>

lemma lawful_mux: "list_all (\<lambda>(path, h). lawful_handler h) mux"
  by (simp add: mux_def callerRoutes_def adminRoutes_def adminConfigRoutes_def manifestRoutes_def provisionRoutes_def
      lawful_guarded lawful_readers lawful_tenants lawful_realms lawful_keys lawful_applications lawful_sync
      lawful_sources lawful_update_source lawful_pages lawful_manifest lawful_decisions lawful_shares lawful_links
      lawful_sessions)

lemma lawful_serve: "lawful_handler (serve base)"
  using lawful_mux by (auto simp: lawful_handler_def serve_def lawful_refl list_all_iff dest!: map_of_SomeD split: option.split)

text \<open>Any number of requests, in any surroundings.\<close>

inductive served :: "string \<Rightarrow> Server \<Rightarrow> Server \<Rightarrow> bool" for base s where
  idle: "served base s s"
| request: "served base s t \<Longrightarrow> serve base ev t rq = (u, rs) \<Longrightarrow> served base s u"

lemma server_ok_New [simp]: "server_ok NewServer"
  by (simp add: server_ok_def NewServer_def links_ok_def)

lemma served_ok: "served base s t \<Longrightarrow> server_ok s \<Longrightarrow> server_ok t"
proof (induction rule: served.induct)
  case (request t ev rq u rs)
  then show ?case using lawful_serve [of base] by (auto simp: lawful_handler_def lawful_def) (metis fst_conv)
qed

end
