(* ===== verification/Fake_Access.thy ===== *)
theory Fake_Access
  imports Fake_Invariant
begin

text \<open>
  Access links and authorization codes of the test server (\<open>anubistest/server.go\<close>), as its
  clients see them: \<open>CreateAccessLink\<close> of a share gives a link that \<open>OpenAccessLink\<close> turns
  into the token of that share's record, until the share is withdrawn; a code is exchanged
  once, by who holds its verifier. The token of a link signs nobody in.
\<close>

section \<open>The other calls of a client\<close>

lemma serve_rpcNoAuth:
  assumes "talks_to c env" "pf_url_parse pf (c_baseURL c @ procedure) \<noteq> None"
    "map_of mux procedure = Some h" "CHR ''?'' \<notin> set procedure" "status \<notin> {301, 302, 303, 307, 308}"
    and served: "\<And>rq. rq_body rq = marshal body \<Longrightarrow> h (env w) w rq = (w', writeJSON status v)"
    and "ascii_val v" "length (marshal v) < maxResponseBytes"
  shows "rpcNoAuth pf c w procedure body (Some dec) zero = (w', read_answer pf status v dec zero)"
proof -
  let ?rq = "\<lparr>rq_method = ''POST'', rq_url = c_baseURL c @ procedure, rq_header = [(''Content-Type'', ''application/json'')],
      rq_body = marshal body\<rparr>"
  let ?sent = "set_headers (o_headers (c_opts c)) (o_tenant (c_opts c)) ?rq"
  have "request_path (c_baseURL c) ?sent = procedure" using assms(4) by (simp add: request_path_def break_at_none)
  with assms(1,3) served [of ?sent] have "client_http c w ?sent = (w', Inr (writeJSON status v))"
    using assms(5) by (auto simp: talks_to_def fake_net_def serve_def client_http_def http_Do_def writeJSON_def)
  from client_do_served [OF this assms(7,8), of pf dec zero] assms(2) show ?thesis
    by (auto simp: rpcNoAuth_def NewRequest_def)
qed

lemma connect_decodes: "dec_wireError (to_json (connect_error cls message d)) zero_wireError \<noteq> None"
  by (simp add: connect_error_def dec_wireError_def field_for_def set_raw_def)

definition bad_link :: goval where
  "bad_link = connect_error ''unauthenticated'' ''invalid or expired link'' (encodeErrorInfo ''unauthenticated'' ''req_test'')"

lemma bad_link_facts: "ascii_val bad_link" "length (marshal bad_link) < maxResponseBytes"
proof -
  show "ascii_val bad_link" by (simp add: bad_link_def connect_error_def)
  have "length (marshal bad_link) \<le> 300" by code_simp
  then show "length (marshal bad_link) < maxResponseBytes" by simp
qed

lemma bad_link_answer: "connectError 401 ''unauthenticated'' ''invalid or expired link'' ''req_test'' = writeJSON 401 bad_link"
  by (simp add: connectError_def bad_link_def HasPrefix_def)

definition link_refused :: APIError where
  "link_refused = \<lparr>ae_Code = ''unauthenticated'', ae_Message = ''invalid or expired link'', ae_RequestID = ''req_test'',
     ae_Status = 401, ae_Details = [], ae_class = ''unauthenticated''\<rparr>"

lemma read_bad_link: "read_answer pf 401 bad_link dec zero = Inl (ErrAuth link_refused)"
proof -
  obtain w where "dec_wireError (to_json bad_link) zero_wireError = Some w"
    using connect_decodes unfolding bad_link_def by blast
  then have "parseWireError (marshal bad_link @ [CHR 0x0A]) 401 = parseWireError (marshal bad_link) 401"
    unfolding parseWireError_def unmarshal_marshal [OF bad_link_facts(1)] unmarshal_newline [OF bad_link_facts(1)] by simp
  also have "\<dots> = link_refused"
    using parseWireError_connect [of "''unauthenticated''" "''invalid or expired link''" "''unauthenticated''" "''req_test''" "[]" 401]
    by (simp add: bad_link_def link_refused_def details_ok_def firstNonEmpty_def encode_details_def)
  finally show ?thesis by (simp add: read_answer_def classify_def link_refused_def Let_def)
qed

section \<open>Links\<close>

definition link_token :: "Server \<Rightarrow> string" where "link_token s = seq_id ''anb_lk'' (Suc (sv_seq s))"

definition with_link :: "string \<Rightarrow> Server \<Rightarrow> Server" where
  "with_link i s = (count ''CreateAccessLink'' s)\<lparr>sv_seq := Suc (sv_seq s),
     sv_links := AList.update (link_token s) i (drop_links i (sv_links s))\<rparr>"

definition without_share :: "string \<Rightarrow> Server \<Rightarrow> Server" where
  "without_share i s = (count ''Unshare'' s)\<lparr>sv_shares := AList.delete i (sv_shares s), sv_links := drop_links i (sv_links s)\<rparr>"

text \<open>A client that talks to the server with a credential no link gave it.\<close>

definition signed_in :: "Server platform \<Rightarrow> (Server \<Rightarrow> fake_env) \<Rightarrow> Server Client \<Rightarrow> Ctx \<Rightarrow> Server \<Rightarrow> bool" where
  "signed_in pf env c ctx s \<longleftrightarrow> talks_to c env \<and> (\<forall>u. pf_url_parse pf u \<noteq> None) \<and>
     (\<exists>t. the_credential c ctx = Some t \<and> t \<notin> set (sv_linkBearers s))"

definition link_answer :: "Server \<Rightarrow> goval" where
  "link_answer s = GMap [(''linkToken'', GStr (link_token s))]"

lemma link_token_facts: "link_token s \<noteq> []" "ascii (link_token s)"
  by (simp_all add: link_token_def seq_id_def)

lemma not_refused:
  assumes "request_of pf c ctx procedure body rq" "the_credential c ctx = Some t" "t \<notin> set (sv_linkBearers s)"
  shows "\<not> refused_link s rq"
  using assms by (auto simp: request_of_def refused_link_def HasPrefix_def)

lemma caller_routes:
  "map_of mux ''/anubis.v1.ShareService/CreateAccessLink'' = Some createAccessLink"
  "map_of mux ''/anubis.v1.ShareService/Unshare'' = Some unshare"
  "map_of mux ''/anubis.v1.AuthService/OpenAccessLink'' = Some openAccessLink"
  by (simp_all add: mux_def callerRoutes_def)

lemma link_bearers_count [simp]: "sv_linkBearers (count m s) = sv_linkBearers s"
  by (simp add: count_def)

lemma create_link_served:
  assumes "signed_in pf env c ctx s" "map_of (sv_shares s) i = Some sh" "ascii i" "length (marshal (link_answer s)) < maxResponseBytes"
  shows "CreateAccessLink pf c s ctx i = (with_link i s, Inr (link_token s))"
proof -
  let ?path = "''/anubis.v1.ShareService/CreateAccessLink''" and ?body = "GMap [(''share_id'', GStr i)]"
  from assms(1) obtain t where t: "talks_to c env" "the_credential c ctx = Some t" "pf_url_parse pf (c_baseURL c @ ?path) \<noteq> None"
      "t \<notin> set (sv_linkBearers s)"
    by (auto simp: signed_in_def)
  have served: "createAccessLink (env s) s rq = (with_link i s, writeJSON 200 (link_answer s))" if rq: "request_of pf c ctx ?path ?body rq" for rq
  proof -
    have "rq_body rq = marshal ?body" using rq by (simp add: request_of_def)
    then have "read_string ''share_id'' rq = i"
      unfolding read_string_def by (rule read_body_marshal) (use assms(3) in \<open>simp_all add: field_for_def\<close>)
    moreover have "\<not> refused_link (count m s) rq" for m using not_refused [OF rq t(2)] t(4) by simp
    ultimately show ?thesis using assms(2)
      by (simp add: createAccessLink_def refuseLink_def with_link_def link_answer_def link_token_def Let_def)
  qed
  have "rpc pf c s ctx ?path ?body (Some (decode_struct [(''linkToken'', set_string (\<lambda>v _. v))])) [] =
      (with_link i s, read_answer pf 200 (link_answer s) (decode_struct [(''linkToken'', set_string (\<lambda>v _. v))]) [])"
    by (rule serve_rpc [OF t(1-3) caller_routes(1) _ _ served _ assms(4)]) (simp_all add: link_answer_def link_token_facts)
  then show ?thesis
    by (simp add: CreateAccessLink_def read_answer_def link_answer_def field_for_def link_token_facts)
qed

lemma unshare_served:
  assumes "signed_in pf env c ctx s" "ascii i" "ascii reason"
  shows "Unshare pf c s ctx i reason = (without_share i s, Inr ())"
proof -
  let ?path = "''/anubis.v1.ShareService/Unshare''" and ?body = "GMap [(''share_id'', GStr i), (''reason'', GStr reason)]"
  from assms(1) obtain t where t: "talks_to c env" "the_credential c ctx = Some t" "pf_url_parse pf (c_baseURL c @ ?path) \<noteq> None"
      "t \<notin> set (sv_linkBearers s)"
    by (auto simp: signed_in_def)
  have served: "unshare (env s) s rq = (without_share i s, writeJSON 200 (GMap []))" if rq: "request_of pf c ctx ?path ?body rq" for rq
  proof -
    have "rq_body rq = marshal ?body" using rq by (simp add: request_of_def)
    then have "read_string ''share_id'' rq = i"
      unfolding read_string_def by (rule read_body_marshal) (use assms(2,3) in \<open>simp_all add: field_for_def\<close>)
    moreover have "\<not> refused_link (count m s) rq" for m using not_refused [OF rq t(2)] t(4) by simp
    ultimately show ?thesis by (simp add: unshare_def refuseLink_def without_share_def Let_def)
  qed
  have "rpc pf c s ctx ?path ?body (Some (decode_struct [])) () =
      (without_share i s, read_answer pf 200 (GMap []) (decode_struct []) ())"
    by (rule serve_rpc [OF t(1-3) caller_routes(2) _ _ served]) simp_all
  then show ?thesis by (simp add: Unshare_def read_answer_def)
qed

text \<open>What a link opens, and the client that opens it.\<close>

definition opens :: "Server \<Rightarrow> string \<Rightarrow> RecordShare option" where
  "opens s tok = Option.bind (map_of (sv_links s) tok) (map_of (sv_shares s))"

definition access_of :: "fake_env \<Rightarrow> Server Client \<Rightarrow> RecordShare \<Rightarrow> string" where
  "access_of ev c sh = ev_mint ev (link_claims sh (o_clientID (c_opts c)) (o_tenant (c_opts c)))"

definition tokens_answer :: "string \<Rightarrow> goval" where
  "tokens_answer access = GMap [(''tokens'', GMap (bearer_tokens access))]"

definition link_opener :: "Server platform \<Rightarrow> (Server \<Rightarrow> fake_env) \<Rightarrow> Server Client \<Rightarrow> bool" where
  "link_opener pf env c \<longleftrightarrow> talks_to c env \<and> (\<forall>u. pf_url_parse pf u \<noteq> None) \<and> ascii (o_tenant (c_opts c)) \<and>
     ascii (o_clientID (c_opts c)) \<and> o_clientID (c_opts c) \<notin> {''anubis'', ''console''} \<and>
     (\<forall>w sh. ascii (access_of (env w) c sh) \<and> access_of (env w) c sh \<noteq> [] \<and>
        length (marshal (tokens_answer (access_of (env w) c sh))) < maxResponseBytes)"

definition after_open :: "fake_env \<Rightarrow> Server Client \<Rightarrow> string \<Rightarrow> Server \<Rightarrow> Server" where
  "after_open ev c tok s = (count ''OpenAccessLink'' s)\<lparr>sv_linkBearers :=
     (case opens s tok of None \<Rightarrow> sv_linkBearers s | Some sh \<Rightarrow> access_of ev c sh # sv_linkBearers s)\<rparr>"

lemma open_link_served:
  assumes "link_opener pf env c" "ascii tok" "tok \<noteq> []"
  shows "OpenAccessLink pf c s tok = (after_open (env s) c tok s,
    case opens s tok of
      None \<Rightarrow> Inl (ErrAuth link_refused)
    | Some sh \<Rightarrow> Inr (stamp c (after_open (env s) c tok s)
        (zero_Tokens\<lparr>tk_AccessToken := access_of (env s) c sh, tk_TokenType := ''Bearer'', tk_ExpiresIn := 600\<rparr>)))"
proof -
  let ?path = "''/anubis.v1.AuthService/OpenAccessLink''"
  let ?body = "GMap [(''tenant'', GStr (o_tenant (c_opts c))), (''client_id'', GStr (o_clientID (c_opts c))), (''link_token'', GStr tok)]"
  from assms(1) have c: "talks_to c env" "pf_url_parse pf (c_baseURL c @ ?path) \<noteq> None" "ascii (o_tenant (c_opts c))"
      "ascii (o_clientID (c_opts c))" "o_clientID (c_opts c) \<noteq> ''anubis''" "o_clientID (c_opts c) \<noteq> ''console''"
    by (auto simp: link_opener_def)
  have body: "read_body [(''tenant'', set_string (\<lambda>v (_, c, t). (v, c, t))), (''client_id'', set_string (\<lambda>v (n, _, t). (n, v, t))),
        (''link_token'', set_string (\<lambda>v (n, c, _). (n, c, v)))] ([], [], []) rq = (o_tenant (c_opts c), o_clientID (c_opts c), tok)"
    if "rq_body rq = marshal ?body" for rq
    by (rule read_body_marshal [OF that]) (use c(3,4) assms(2) in \<open>simp_all add: field_for_def\<close>)
  have opens_count: "opens (count m s) tok = opens s tok" for m by (simp add: opens_def)
  show ?thesis
  proof (cases "opens s tok")
    case None
    have served: "openAccessLink (env s) s rq = (after_open (env s) c tok s, writeJSON 401 bad_link)" if "rq_body rq = marshal ?body" for rq
    proof -
      have "after_open (env s) c tok s = count ''OpenAccessLink'' s" using None by (simp add: after_open_def count_def)
      with None show ?thesis
        unfolding openAccessLink_def body [OF that] Let_def opens_def [symmetric] by (simp add: opens_count bad_link_answer)
    qed
    have "rpcNoAuth pf c s ?path ?body (Some dec_tokens_field) None =
        (after_open (env s) c tok s, read_answer pf 401 bad_link dec_tokens_field None)"
      by (rule serve_rpcNoAuth [OF c(1,2) caller_routes(3) _ _ served bad_link_facts]) simp_all
    with None assms(3) show ?thesis by (simp add: OpenAccessLink_def read_bad_link stamped_def)
  next
    case (Some sh)
    from assms(1) have t: "ascii (access_of (env s) c sh)" "length (marshal (tokens_answer (access_of (env s) c sh))) < maxResponseBytes"
      by (auto simp: link_opener_def)
    have served: "openAccessLink (env s) s rq = (after_open (env s) c tok s, writeJSON 200 (tokens_answer (access_of (env s) c sh)))"
      if "rq_body rq = marshal ?body" for rq
      using Some c(5,6) unfolding openAccessLink_def body [OF that] Let_def opens_def [symmetric]
      by (simp add: opens_count after_open_def access_of_def tokens_answer_def)
    have "rpcNoAuth pf c s ?path ?body (Some dec_tokens_field) None =
        (after_open (env s) c tok s, read_answer pf 200 (tokens_answer (access_of (env s) c sh)) dec_tokens_field None)"
      by (rule serve_rpcNoAuth [OF c(1,2) caller_routes(3) _ _ served _ t(2)])
        (use t(1) in \<open>simp_all add: tokens_answer_def bearer_tokens_def\<close>)
    moreover have "read_answer pf 200 (tokens_answer (access_of (env s) c sh)) dec_tokens_field None =
        Inr (Some (zero_Tokens\<lparr>tk_AccessToken := access_of (env s) c sh, tk_TokenType := ''Bearer'', tk_ExpiresIn := 600\<rparr>))"
      using t(1) ParseInt_FormatInt [of 600]
      by (simp add: in64_def read_answer_def tokens_answer_def bearer_tokens_def dec_tokens_field_def dec_Tokens_def field_for_def
          set_ptr_def zero_Tokens_def)
    ultimately show ?thesis using Some assms(3) by (simp add: OpenAccessLink_def stamped_def)
  qed
qed

section \<open>Life of a link\<close>

lemma opens_new: "map_of (sv_shares s) i = Some sh \<Longrightarrow> opens (with_link i s) (link_token s) = Some sh"
  by (simp add: opens_def with_link_def update_conv' count_def)

lemma opens_other: "map_of (sv_links s) tok = Some i \<Longrightarrow> tok \<noteq> link_token s \<Longrightarrow> wf_map (sv_links s) \<Longrightarrow> opens (with_link i s) tok = None"
  by (auto simp: opens_def with_link_def update_conv' count_def drop_links_def wf_map_def map_of_eq_None_iff
      dest!: map_of_SomeD split: bind_split)
    (metis Pair_inject eq_key_imp_eq_value)

lemma opens_unshared:
  assumes "wf_map (sv_links s)" "map_of (sv_links s) tok = Some i"
  shows "opens (without_share i s) tok = None"
proof -
  from assms(1) have "distinct (map fst (sv_links s))" by (simp add: wf_map_def)
  then have "map_of (drop_links i (sv_links s)) tok = None"
    using assms(2) by (auto simp: drop_links_def map_of_eq_None_iff dest!: map_of_SomeD dest: eq_key_imp_eq_value)
  then show ?thesis by (simp add: opens_def without_share_def count_def)
qed

text \<open>The token of a link is refused by every procedure that asks for a caller, but by \<open>Authorize\<close>.\<close>

definition signed_in_procedures :: "(string \<times> handler) list" where
  "signed_in_procedures =
     [(''ListGrantedNodes'', listGrantedNodes), (''Share'', fake_share), (''Unshare'', unshare),
      (''ListSharesOnRecord'', listSharesOnRecord), (''ListSharedWithMe'', listSharedWithMe),
      (''CreateAccessLink'', createAccessLink)]"

lemma link_bearer_refused:
  assumes "refused_link s rq" "(m, h) \<in> set signed_in_procedures"
  shows "h ev s rq = (count m s, connectError 401 ''unauthenticated'' ''an access-link token opens one record and signs nobody in'' ''req_test'')"
proof -
  have "refused_link (count m s) rq" for m using assms(1) by (simp add: refused_link_def)
  with assms(2) show ?thesis
    by (auto simp: signed_in_procedures_def listGrantedNodes_def fake_share_def unshare_def listSharesOnRecord_def
        listSharedWithMe_def createAccessLink_def refuseLink_def)
qed

section \<open>Codes\<close>

lemma values_of_exchange:
  assumes "tokenExchange ev s rq = (s', rs)" "\<not> form_error (rq_body rq)"
  defines "q \<equiv> ParseQuery (rq_body rq)"
  shows "map_of (sv_codes s') (values_Get q ''code'') = None"
    "rs_status rs = 200 \<Longrightarrow> \<exists>ac. map_of (sv_codes s) (values_Get q ''code'') = Some ac \<and>
       pkceMatches (ev_sha256 ev) (values_Get q ''code_verifier'') (co_challenge ac) \<and>
       values_Get q ''redirect_uri'' = co_redirectURI ac \<and> values_Get q ''client_id'' = co_clientID ac"
  using assms
  by (auto simp: tokenExchange_def Let_def IssueSession_def httpError_def writeJSON_def delete_conv' count_def
      split: option.splits if_splits prod.splits)

end
