(* ===== verification/Fake_Grants.thy ===== *)
theory Fake_Grants
  imports Fake_Apply
begin

text \<open>
  A person's grants, from the rows of the test server to the client's \<open>Grants\<close> and
  \<open>Entitlements\<close>: times cross the wire as proto int64 strings, scopes and carve-outs as
  one list.
\<close>

section \<open>Times on the wire\<close>

lemma trim_left_id:
  assumes "\<forall>p \<in> set ps. p \<noteq> [] \<and> \<not> P (hd p)" "P (hd s)" "s \<noteq> []"
  shows "trim_left ps n s = s"
proof (cases n)
  case (Suc m)
  have "\<not> HasPrefix s p" if "p \<in> set ps" for p
    using bspec [OF assms(1) that] assms(2,3) by (cases s; cases p) (auto simp: HasPrefix_def)
  then have "find (HasPrefix s) ps = None" by (simp add: find_None_iff)
  with Suc show ?thesis by simp
qed simp

definition no_space :: "char \<Rightarrow> bool" where
  "no_space c \<longleftrightarrow> CHR 0x21 \<le> c \<and> c < CHR 0x80"

lemma TrimSpace_id:
  assumes "s \<noteq> []" "no_space (hd s)" "no_space (last s)"
  shows "TrimSpace s = s"
proof -
  have "\<forall>p \<in> set unicode_spaces. p \<noteq> [] \<and> \<not> no_space (hd p)"
    by (auto simp: unicode_spaces_def no_space_def less_eq_char_def less_char_def)
  from trim_left_id [OF this assms(2,1)] have 1: "trim_left unicode_spaces n s = s" for n .
  have "\<forall>p \<in> set (map rev unicode_spaces). p \<noteq> [] \<and> \<not> no_space (hd p)"
    by (auto simp: unicode_spaces_def no_space_def less_eq_char_def less_char_def)
  from trim_left_id [OF this, of "rev s"] assms have 2: "trim_left (map rev unicode_spaces) n (rev s) = rev s" for n
    by (simp add: hd_rev)
  from 1 2 assms(1) show ?thesis by (simp add: TrimSpace_def)
qed

lemma no_space_number: "c \<in> set (FormatInt n) \<Longrightarrow> no_space c"
  using FormatInt_chars [of c n] by (auto simp: no_space_def isDigit_def less_eq_char_def less_char_def)

lemma scan_FormatInt:
  assumes "in64 n"
  shows "scan_int (FormatInt n) = Some n"
proof -
  have t: "TrimSpace (FormatInt n) = FormatInt n"
    by (rule TrimSpace_id) (simp_all add: no_space_number [OF hd_in_set, OF FormatInt_not_Nil] no_space_number [OF last_in_set, OF FormatInt_not_Nil])
  have "list_all isDigit (nat_dec k)" "hd (nat_dec k) \<noteq> CHR ''-''" "hd (nat_dec k) \<noteq> CHR ''+''" for k
    using nat_dec_facts by blast+
  then have d: "takeWhile isDigit (nat_dec k) = nat_dec k" "hd (nat_dec k) \<noteq> CHR ''-''" "hd (nat_dec k) \<noteq> CHR ''+''" for k
    by (simp_all add: list_all_iff takeWhile_eq_all_conv)
  obtain c r where c: "nat_dec (nat n) = c # r" by (cases "nat_dec (nat n)") auto
  have "(case FormatInt n of c # _ \<Rightarrow> if c = CHR ''-'' \<or> c = CHR ''+'' then [c] else [] | [] \<Rightarrow> []) =
      (if n < 0 then ''-'' else [])"
    using d(2,3) [of "nat n"] c by (auto simp: FormatInt_def)
  moreover have "takeWhile isDigit (drop (length (if n < 0 then ''-'' else [])) (FormatInt n)) = nat_dec (nat \<bar>n\<bar>)"
    using d(1) by (simp add: FormatInt_def)
  moreover have "(if n < 0 then ''-'' else []) @ nat_dec (nat \<bar>n\<bar>) = FormatInt n" by (simp add: FormatInt_def)
  ultimately show ?thesis
    using ParseInt_FormatInt [OF assms] unfolding scan_int_def t Let_def by (simp only:)
qed

lemma FormatInt_not_null: "FormatInt n \<noteq> ''null''"
proof
  assume "FormatInt n = ''null''"
  then have "CHR ''u'' \<in> set (FormatInt n)" by simp
  from FormatInt_chars [OF this] show False by (simp add: isDigit_def less_eq_char_def)
qed

lemma epoch_roundtrip:
  assumes "in64 n"
  shows "epoch_of (JStr (FormatInt n)) = Some n"
proof -
  have q: "CHR 0x22 \<notin> set (FormatInt n)" using FormatInt_chars [of "CHR 0x22" n] by (auto simp: isDigit_def less_eq_char_def)
  have "TrimSpace (json_text (JStr (FormatInt n))) = [CHR 0x22] @ FormatInt n @ [CHR 0x22]"
    by (simp add: TrimSpace_id no_space_def less_eq_char_def less_char_def)
  moreover have "Trim1 (CHR 0x22) ([CHR 0x22] @ FormatInt n @ [CHR 0x22]) = FormatInt n"
  proof -
    have "dropWhile (\<lambda>x. x = CHR 0x22) (FormatInt n @ [CHR 0x22]) = FormatInt n @ [CHR 0x22]"
      using q by (cases "FormatInt n") auto
    moreover have "dropWhile (\<lambda>x. x = CHR 0x22) (rev (FormatInt n)) = rev (FormatInt n)"
      using q by (cases "rev (FormatInt n)") (auto simp del: rev_rev_ident dest: arg_cong [where f = set])
    ultimately show ?thesis by (simp add: Trim1_def TrimRight1_def)
  qed
  ultimately show ?thesis using scan_FormatInt [OF assms] by (simp add: epoch_of_def FormatInt_not_null)
qed

section \<open>Grants\<close>

text \<open>What the client makes of a row.\<close>

definition scopes_of :: "GrantRow \<Rightarrow> GrantScope list" where
  "scopes_of g =
     concat (map (\<lambda>(axis, nodes). map (\<lambda>n. GrantScope.make axis n n True False) nodes) (gw_Scopes g)) @
     concat (map (\<lambda>(axis, nodes). map (\<lambda>n. GrantScope.make axis n n True True) nodes) (gw_Excludes g))"

definition grant_of :: "string \<Rightarrow> GrantRow \<Rightarrow> Grant" where
  "grant_of subject g =
     \<lparr>gt_ID = gw_ID g, gt_Subject = subject, gt_RoleID = ''rol_'' @ gw_ID g, gt_Role = gw_Role g, gt_SelfScoped = gw_SelfScoped g,
      gt_ValidFrom = gw_ValidFrom g, gt_ValidUntil = gw_ValidUntil g, gt_RevokedAt = gw_RevokedAt g, gt_GrantedBy = [],
      gt_ViaMembership = gw_ViaMembership g, gt_ViaAssignment = gw_ViaAssignment g, gt_Reason = gw_Reason g,
      gt_RevokeReason = gw_RevokeReason g, gt_Scopes = scopes_of g\<rparr>"

definition ascii_axes :: "(string \<times> string list) list \<Rightarrow> bool" where
  "ascii_axes m \<longleftrightarrow> list_all (\<lambda>(axis, nodes). ascii axis \<and> list_all ascii nodes) m"

definition wire_time :: "int \<Rightarrow> bool" where
  "wire_time n \<longleftrightarrow> in64 n \<and> n \<noteq> - (2 ^ 63)"

definition ascii_grant :: "GrantRow \<Rightarrow> bool" where
  "ascii_grant g \<longleftrightarrow> list_all ascii [gw_ID g, gw_Role g, gw_ViaMembership g, gw_ViaAssignment g, gw_Reason g, gw_RevokeReason g] \<and>
     ascii_axes (gw_Scopes g) \<and> ascii_axes (gw_Excludes g) \<and> list_all wire_time [gw_ValidFrom g, gw_ValidUntil g, gw_RevokedAt g]"

lemma set_epoch_itoa: "wire_time n \<Longrightarrow> set_epoch upd (JStr (escape (itoa64 n))) r = Some (upd n r)"
  by (simp add: wire_time_def itoa64_FormatInt set_epoch_def epoch_roundtrip)

lemma ascii_itoa: "wire_time n \<Longrightarrow> ascii (itoa64 n)"
  by (simp add: wire_time_def itoa64_FormatInt)

lemma dec_scope:
  assumes "ascii axis" "ascii n"
  shows "ascii_val (scope_row ex axis n) \<and>
    dec_GrantScope (to_json (scope_row ex axis n)) zero_GrantScope = Some (GrantScope.make axis n n True ex)"
  using assms by (cases ex) (simp_all add: scope_row_def dec_GrantScope_def zero_GrantScope_def field_for_def GrantScope.make_def)

lemma dec_scopes:
  fixes ex :: bool
  assumes "ascii_axes m"
  defines "rows \<equiv> concat (map (\<lambda>(axis, nodes). map (scope_row ex axis) nodes) m)"
  shows "list_all ascii_val rows \<and> those (map (\<lambda>v. dec_GrantScope (to_json v) zero_GrantScope) rows) =
    Some (concat (map (\<lambda>(axis, nodes). map (\<lambda>n. GrantScope.make axis n n True ex) nodes) m))"
proof -
  have app: "those xs = Some a \<Longrightarrow> those ys = Some b \<Longrightarrow> those (xs @ ys) = Some (a @ b)" for xs ys :: "GrantScope option list" and a b
    by (induction xs arbitrary: a) (auto split: option.splits)
  show ?thesis using assms(1) unfolding rows_def ascii_axes_def
  proof (induction m)
    case (Cons x m)
    obtain axis nodes where x: "x = (axis, nodes)" by fastforce
    with Cons.prems have ok: "ascii axis" "\<And>n. n \<in> set nodes \<Longrightarrow> ascii n" by (auto simp: list_all_iff)
    then have "those (map (\<lambda>v. dec_GrantScope (to_json v) zero_GrantScope) (map (scope_row ex axis) nodes)) =
        Some (map (\<lambda>n. GrantScope.make axis n n True ex) nodes)"
      unfolding map_map comp_def by (intro those_map_SomeI) (simp add: dec_scope)
    moreover have "list_all ascii_val (map (scope_row ex axis) nodes)" using ok dec_scope by (auto simp: list_all_iff)
    ultimately show ?case using Cons x app by simp
  qed simp
qed

lemma those_append: "those xs = Some a \<Longrightarrow> those ys = Some b \<Longrightarrow> those (xs @ ys) = Some (a @ b)"
  by (induction xs arbitrary: a) (auto split: option.splits)

lemma those_scopes:
  assumes "ascii_axes m" "ascii_axes m'"
  shows "those (map ((\<lambda>v. dec_GrantScope v zero_GrantScope) \<circ> to_json) (concat (map (\<lambda>(axis, nodes). map (scope_row False axis) nodes) m)) @
      map ((\<lambda>v. dec_GrantScope v zero_GrantScope) \<circ> to_json) (concat (map (\<lambda>(axis, nodes). map (scope_row True axis) nodes) m'))) =
    Some (concat (map (\<lambda>(axis, nodes). map (\<lambda>n. GrantScope.make axis n n True False) nodes) m) @
          concat (map (\<lambda>(axis, nodes). map (\<lambda>n. GrantScope.make axis n n True True) nodes) m'))"
  using those_append [OF conjunct2 [OF dec_scopes [OF assms(1), of False]] conjunct2 [OF dec_scopes [OF assms(2), of True]]]
  by (simp add: comp_def)

lemma grant_row_ascii: "ascii subject \<Longrightarrow> ascii_grant g \<Longrightarrow> ascii_val (grantJSON subject g)"
  using dec_scopes [of "gw_Scopes g" False] dec_scopes [of "gw_Excludes g" True]
  by (simp add: grantJSON_def ascii_grant_def ascii_itoa)

lemma grant_row_decoded:
  assumes "ascii subject" "ascii_grant g"
  shows "dec_Grant (to_json (grantJSON subject g)) zero_Grant = Some (grant_of subject g)"
  using assms unfolding ascii_grant_def
  by (simp add: grantJSON_def dec_Grant_def zero_Grant_def grant_of_def scopes_of_def field_for_def
      set_epoch_itoa those_scopes)

definition grants_answer :: "string \<Rightarrow> GrantRow list \<Rightarrow> goval" where
  "grants_answer subject rows = GMap [(''grants'', GList (map (grantJSON subject) rows))]"

definition grants_served :: "Server platform \<Rightarrow> (Server \<Rightarrow> fake_env) \<Rightarrow> Server Client \<Rightarrow> Ctx \<Rightarrow> Server \<Rightarrow> string \<Rightarrow> GrantRow list \<Rightarrow> bool" where
  "grants_served pf env c ctx s subject rows \<longleftrightarrow>
     talks_to c env \<and> admitted pf c ctx s ''/anubis.v1.AuthzAdminService/ListGrants'' \<and> ascii subject \<and>
     rows = (case map_of (sv_grants s) subject of None \<Rightarrow> [] | Some gs \<Rightarrow> gs) \<and> list_all ascii_grant rows \<and>
     length (marshal (grants_answer subject rows)) < maxResponseBytes"

lemma grants_read:
  assumes "ascii subject" "list_all ascii_grant rows"
  shows "ascii_val (grants_answer subject rows)"
    "read_answer pf 200 (grants_answer subject rows) (decode_struct [(''grants'', set_list (\<lambda>v _. v) zero_Grant dec_Grant)]) [] =
      Inr (map (grant_of subject) rows)"
proof -
  have "dec_Grant (to_json (grantJSON subject g)) zero_Grant = Some (grant_of subject g)" if "g \<in> set rows" for g
    using that assms by (intro grant_row_decoded) (auto simp: list_all_iff)
  from those_map_SomeI [of rows _ "grant_of subject", OF this]
  show "read_answer pf 200 (grants_answer subject rows) (decode_struct [(''grants'', set_list (\<lambda>v _. v) zero_Grant dec_Grant)]) [] =
      Inr (map (grant_of subject) rows)"
    by (simp add: read_answer_def grants_answer_def field_for_def comp_def)
  show "ascii_val (grants_answer subject rows)"
    using assms by (auto simp: grants_answer_def list_all_iff intro: grant_row_ascii)
qed

lemma grants_end_to_end:
  assumes "grants_served pf env c ctx s subject rows"
  shows "Admin_Grants pf c s ctx subject = (count ''ListGrants'' s, Inr (map (grant_of subject) rows))"
proof -
  let ?path = "''/anubis.v1.AuthzAdminService/ListGrants''"
  let ?body = "GMap [(''identity_id'', GStr subject), (''include_revoked'', GBool True)]"
  from assms obtain t where s: "talks_to c env" "the_credential c ctx = Some t" "pf_url_parse pf (c_baseURL c @ ?path) \<noteq> None"
      "admitted pf c ctx s ?path" "ascii subject" "rows = (case map_of (sv_grants s) subject of None \<Rightarrow> [] | Some gs \<Rightarrow> gs)"
      "list_all ascii_grant rows" "length (marshal (grants_answer subject rows)) < maxResponseBytes"
    by (auto simp: grants_served_def admitted_def)
  have route: "(?path, guarded listGrants) \<in> set operator_routes" by (simp add: adminRoutes_def)
  have "guarded listGrants (env s) s rq = (count ''ListGrants'' s, writeJSON 200 (grants_answer subject rows))"
    if rq: "request_of pf c ctx ?path ?body rq" for rq
  proof -
    have "guarded listGrants (env s) s rq = listGrants (env s) s rq"
      by (rule guarded_admitted [OF s(4) _ rq]) (auto simp: but_calls_def intro!: exI [of _ "sv_Calls s"])
    moreover have "rq_body rq = marshal ?body" using rq by (simp add: request_of_def)
    then have "read_body [(''identity_id'', set_string (\<lambda>v (_, b). (v, b))), (''include_revoked'', set_bool (\<lambda>v (i, _). (i, v)))]
        ([], False) rq = (subject, True)"
      by (rule read_body_marshal) (use s(5) in \<open>simp_all add: field_for_def\<close>)
    ultimately show ?thesis by (simp add: listGrants_def grants_answer_def s(6) split: option.split)
  qed
  note served = this
  have "Admin_call pf c s ctx ?path ?body dec zero = (count ''ListGrants'' s,
      case read_answer pf 200 (grants_answer subject rows) dec zero of Inl e \<Rightarrow> Inl (admin_error e) | Inr x \<Rightarrow> Inr x)"
    for dec and zero :: "Grant list"
    by (rule admin_call_served [OF s(1-3) route _ served grants_read(1) [OF s(5,7)] s(8)]) simp_all
  then show ?thesis by (simp add: Admin_Grants_def grants_read(2) [OF s(5,7)])
qed

end
