(* ===== verification/Fake_Stream.thy ===== *)
theory Fake_Stream
  imports Revocations "HOL-Library.Sublist"
begin

text \<open>
  The revocation stream's registry on the test server (\<open>anubistest/revocations.go\<close>):
  subscribers, each with a buffered channel, a push that never waits, and the handler that
  writes what it takes from its channel. A step is one push, one subscription, one write, or
  the end of a connection, in any order.

  \<open>sb_sent\<close> is what the handler has written to the connection. A run keeps, of every push,
  the row and the registry the push found; what a subscriber ought to have got is read off
  this history, not off the subscriber.

  The lemmas: a subscriber is never more than its buffer behind, and what it is sent or has
  waiting is, in order, exactly the rows whose push found fewer than sixteen waiting.
\<close>

section \<open>The registry\<close>

abbreviation (input) revSubBuffer :: nat where "revSubBuffer \<equiv> 16"

record subscriber =
  sb_tenant :: string
  sb_queue :: "RevocationRow list"
  sb_sent :: "RevocationRow list"

record registry =
  rg_subs :: "(nat \<times> subscriber) list"
  rg_seq :: nat
  rg_refuse :: bool

definition RefuseStreams :: "bool \<Rightarrow> registry \<Rightarrow> registry" where
  "RefuseStreams refuse g = g\<lparr>rg_refuse := refuse\<rparr>"

text \<open>The \<open>select\<close> of \<open>PushRevocation\<close>: a send on a full channel falls to its default.\<close>

definition offer :: "RevocationRow \<Rightarrow> subscriber \<Rightarrow> subscriber" where
  "offer r b = (if length (sb_queue b) < revSubBuffer then b\<lparr>sb_queue := sb_queue b @ [r]\<rparr> else b)"

definition PushRevocation :: "RevocationRow \<Rightarrow> registry \<Rightarrow> registry" where
  "PushRevocation r g = g\<lparr>rg_subs := map (\<lambda>(i, b). (i, offer r b)) (rg_subs g)\<rparr>"

definition new_subscriber :: "string \<Rightarrow> subscriber" where
  "new_subscriber tenant = \<lparr>sb_tenant = tenant, sb_queue = [], sb_sent = []\<rparr>"

definition subscribeRevocations :: "string \<Rightarrow> registry \<Rightarrow> registry \<times> nat" where
  "subscribeRevocations tenant g =
     (let i = Suc (rg_seq g)
      in (g\<lparr>rg_seq := i, rg_subs := AList.update i (new_subscriber tenant) (rg_subs g)\<rparr>, i))"

definition unsubscribe :: "nat \<Rightarrow> registry \<Rightarrow> registry" where
  "unsubscribe i g = g\<lparr>rg_subs := AList.delete i (rg_subs g)\<rparr>"

section \<open>The handler\<close>

definition synced_row :: RevocationRow where
  "synced_row = \<lparr>rw_Kind = RevocationSynced, rw_Tenant = [], rw_Session = [], rw_Subject = [], rw_Epoch = 0, rw_ObservedAt = 0\<rparr>"

definition stream_tenant :: "bytes \<Rightarrow> string" where
  "stream_tenant body =
     (case server_readEnvelope (body, None) of
        Inl _ \<Rightarrow> []
      | Inr (_, payload, _) \<Rightarrow>
          (case parse_json payload of Some (JObj ms) \<Rightarrow>
             foldl (\<lambda>t (raw, v). if fold_name (unquote raw) = ''tenant'' then (case v of JStr s \<Rightarrow> unquote s | _ \<Rightarrow> t) else t) [] ms
           | _ \<Rightarrow> []))"

text \<open>What the handler writes before it waits: a refusal in the closing frame, or the synced event.\<close>

definition streamRevocations :: "gotime \<Rightarrow> registry \<Rightarrow> http_request \<Rightarrow> registry \<times> bytes \<times> nat option" where
  "streamRevocations now g rq =
     (let tenant = stream_tenant (rq_body rq) in
      if header_Get (rq_header rq) ''Authorization'' = []
      then (g, writeEndStream ''unauthenticated'' ''unauthenticated'' ''no credential'', None)
      else if rg_refuse g
      then (g, writeEndStream ''unavailable'' ''stream_unavailable'' ''Revocation streaming is not enabled on this instance'', None)
      else if tenant = [] then (g, writeEndStream ''invalid_argument'' ''invalid_argument'' ''tenant: required'', None)
      else (case subscribeRevocations tenant g of (g', i) \<Rightarrow> (g', writeRevocation now tenant synced_row, Some i)))"

text \<open>One turn of its loop: the oldest event of the channel is written.\<close>

definition write_next :: "nat \<Rightarrow> registry \<Rightarrow> registry" where
  "write_next i g =
     (case map_of (rg_subs g) i of
        Some b \<Rightarrow> (case sb_queue b of
            [] \<Rightarrow> g
          | r # q \<Rightarrow> g\<lparr>rg_subs := AList.update i (b\<lparr>sb_queue := q, sb_sent := sb_sent b @ [r]\<rparr>) (rg_subs g)\<rparr>)
      | None \<Rightarrow> g)"

inductive stream_step :: "registry \<Rightarrow> RevocationRow option \<Rightarrow> registry \<Rightarrow> bool" where
  push: "stream_step g (Some r) (PushRevocation r g)"
| accept: "streamRevocations now g rq = (g', out, i) \<Longrightarrow> stream_step g None g'"
| deliver: "stream_step g None (write_next i g)"
| leave: "stream_step g None (unsubscribe i g)"
| refuse: "stream_step g None (RefuseStreams b g)"

text \<open>A run from the empty registry, with its pushes, oldest first, and the registry each found.\<close>

inductive stream_run :: "(RevocationRow \<times> registry) list \<Rightarrow> registry \<Rightarrow> bool" where
  init: "stream_run [] \<lparr>rg_subs = [], rg_seq = 0, rg_refuse = False\<rparr>"
| pushed: "stream_run h g \<Longrightarrow> stream_step g (Some r) g' \<Longrightarrow> stream_run (h @ [(r, g)]) g'"
| quiet: "stream_run h g \<Longrightarrow> stream_step g None g' \<Longrightarrow> stream_run h g'"

section \<open>What a subscriber gets\<close>

text \<open>Was \<open>i\<close> there, and with fewer than sixteen rows waiting?\<close>

definition is_there :: "nat \<Rightarrow> registry \<Rightarrow> bool" where
  "is_there i g \<longleftrightarrow> map_of (rg_subs g) i \<noteq> None"

definition has_room :: "nat \<Rightarrow> registry \<Rightarrow> bool" where
  "has_room i g = (case map_of (rg_subs g) i of None \<Rightarrow> False | Some b \<Rightarrow> length (sb_queue b) < 16)"

definition rows_when :: "(registry \<Rightarrow> bool) \<Rightarrow> (RevocationRow \<times> registry) list \<Rightarrow> RevocationRow list" where
  "rows_when P h = map fst (filter (\<lambda>(r, g). P g) h)"

lemma rows_when_snoc: "rows_when P (h @ [(r, g)]) = rows_when P h @ (if P g then [r] else [])"
  by (simp add: rows_when_def)

lemma rows_when_Nil [simp]: "rows_when P [] = []"
  by (simp add: rows_when_def)

lemma rows_when_subseq: "(\<And>g. P g \<Longrightarrow> Q g) \<Longrightarrow> subseq (rows_when P h) (rows_when Q h)"
  by (induction h rule: rev_induct) (auto simp: rows_when_snoc list_emb_append_mono intro: subseq_order.trans)

lemma rows_when_same: "\<forall>(r, g) \<in> set h. P g = Q g \<Longrightarrow> rows_when P h = rows_when Q h"
  unfolding rows_when_def by (rule arg_cong [where f = "map fst"]) (rule filter_cong, auto)

lemma room_there: "has_room i g \<Longrightarrow> is_there i g"
  by (auto simp: has_room_def is_there_def split: option.splits)

definition sub_ok :: "subscriber \<Rightarrow> bool" where
  "sub_ok b \<longleftrightarrow> length (sb_queue b) \<le> revSubBuffer \<and> sb_tenant b \<noteq> []"

definition registry_ok :: "registry \<Rightarrow> bool" where
  "registry_ok g \<longleftrightarrow> wf_map (rg_subs g) \<and> (\<forall>(i, b) \<in> set (rg_subs g). i \<le> rg_seq g \<and> sub_ok b)"

text \<open>Identifiers are not used twice, and each subscriber has what it ought to have.\<close>

definition run_ok :: "(RevocationRow \<times> registry) list \<Rightarrow> registry \<Rightarrow> bool" where
  "run_ok h g \<longleftrightarrow> registry_ok g \<and> (\<forall>(r, g1) \<in> set h. \<forall>i. is_there i g1 \<longrightarrow> i \<le> rg_seq g) \<and>
     (\<forall>i b. map_of (rg_subs g) i = Some b \<longrightarrow> sb_sent b @ sb_queue b = rows_when (has_room i) h)"

lemma registry_update_ok:
  "registry_ok g \<Longrightarrow> sub_ok b \<Longrightarrow> i \<le> n \<Longrightarrow> rg_seq g \<le> n \<Longrightarrow> registry_ok (g\<lparr>rg_seq := n, rg_subs := AList.update i b (rg_subs g)\<rparr>)"
  using set_update_subset [of i b "rg_subs g"] by (auto simp: registry_ok_def) fastforce+

lemma there_bound: "registry_ok g \<Longrightarrow> is_there i g \<Longrightarrow> i \<le> rg_seq g"
  by (auto simp: registry_ok_def is_there_def dest!: map_of_SomeD)

lemma map_of_push: "map_of (rg_subs (PushRevocation r g)) i = map_option (offer r) (map_of (rg_subs g) i)"
  by (simp add: PushRevocation_def map_of_map)

lemma push_run:
  assumes "run_ok h g"
  shows "run_ok (h @ [(r, g)]) (PushRevocation r g)"
proof -
  have "registry_ok (PushRevocation r g)"
    using assms by (auto simp: run_ok_def registry_ok_def PushRevocation_def wf_map_def comp_def case_prod_beta sub_ok_def offer_def)
  moreover have "\<forall>(r', g1) \<in> set (h @ [(r, g)]). \<forall>i. is_there i g1 \<longrightarrow> i \<le> rg_seq (PushRevocation r g)"
    using assms there_bound [of g] by (auto simp: run_ok_def PushRevocation_def)
  moreover have "sb_sent b @ sb_queue b = rows_when (has_room i) (h @ [(r, g)])" if "map_of (rg_subs (PushRevocation r g)) i = Some b" for i b
  proof -
    from that obtain b0 where b0: "map_of (rg_subs g) i = Some b0" "b = offer r b0" by (auto simp: map_of_push)
    with assms have "sb_sent b0 @ sb_queue b0 = rows_when (has_room i) h" by (simp add: run_ok_def)
    with b0 show ?thesis by (simp add: rows_when_snoc has_room_def offer_def flip: append_assoc)
  qed
  ultimately show ?thesis by (simp add: run_ok_def)
qed

lemma write_run:
  assumes "run_ok h g"
  shows "run_ok h (write_next i g)"
proof (cases "map_of (rg_subs g) i")
  case (Some b)
  from assms have g: "registry_ok g" by (simp add: run_ok_def)
  from Some g have ok: "sub_ok b" "i \<le> rg_seq g" by (auto simp: registry_ok_def dest!: map_of_SomeD)
  show ?thesis
  proof (cases "sb_queue b")
    case (Cons r q)
    let ?b = "b\<lparr>sb_queue := q, sb_sent := sb_sent b @ [r]\<rparr>"
    have "sub_ok ?b" using ok(1) Cons by (simp add: sub_ok_def)
    from registry_update_ok [OF g this ok(2) order_refl]
    have "registry_ok (g\<lparr>rg_subs := AList.update i ?b (rg_subs g)\<rparr>)" by simp
    moreover have "sb_sent b @ r # q = rows_when (has_room i) h"
      using assms Some unfolding run_ok_def Cons [symmetric] by blast
    ultimately show ?thesis using assms Some Cons by (simp add: run_ok_def write_next_def update_conv')
  qed (use Some assms in \<open>simp add: write_next_def\<close>)
qed (use assms in \<open>simp add: write_next_def\<close>)

lemma subscribed_run:
  assumes "run_ok h g" "t \<noteq> []"
  shows "run_ok h (fst (subscribeRevocations t g))"
proof -
  let ?i = "Suc (rg_seq g)"
  from assms have g: "registry_ok g" by (simp add: run_ok_def)
  have "sub_ok (new_subscriber t)" using assms(2) by (simp add: sub_ok_def new_subscriber_def)
  from registry_update_ok [OF g this, of ?i ?i]
  have "registry_ok (g\<lparr>rg_seq := ?i, rg_subs := AList.update ?i (new_subscriber t) (rg_subs g)\<rparr>)" by simp
  moreover have "\<forall>(r, g1) \<in> set h. has_room ?i g1 = False"
    using assms(1) room_there [of ?i] by (fastforce simp: run_ok_def)
  then have "rows_when (has_room ?i) h = rows_when (\<lambda>g. False) h" by (rule rows_when_same)
  then have "rows_when (has_room ?i) h = []" by (simp add: rows_when_def)
  moreover have "\<forall>(r, g1) \<in> set h. \<forall>i. is_there i g1 \<longrightarrow> i \<le> ?i"
    using assms(1) by (fastforce simp: run_ok_def)
  ultimately show ?thesis using assms(1)
    by (auto simp: run_ok_def subscribeRevocations_def Let_def new_subscriber_def update_conv')
qed

lemma accept_run:
  assumes "run_ok h g" "streamRevocations now g rq = (g', out, i)"
  shows "run_ok h g'"
  using assms subscribed_run [OF assms(1), of "stream_tenant (rq_body rq)"] by (auto simp: streamRevocations_def Let_def split: if_splits prod.splits)

lemma leave_run: "run_ok h g \<Longrightarrow> run_ok h (unsubscribe i g)"
  by (auto simp: run_ok_def registry_ok_def unsubscribe_def wf_map_def delete_conv' AList.delete_eq distinct_map_filter split: if_splits)

lemma refuse_run: "run_ok h g \<Longrightarrow> run_ok h (RefuseStreams b g)"
  by (simp add: run_ok_def registry_ok_def RefuseStreams_def)

inductive_cases stream_pushE: "stream_step g (Some r) g'"
inductive_cases stream_quietE: "stream_step g None g'"

lemma stream_run_ok: "stream_run h g \<Longrightarrow> run_ok h g"
proof (induction rule: stream_run.induct)
  case init
  then show ?case by (simp add: run_ok_def registry_ok_def)
next
  case (pushed h g r g')
  then show ?case by (auto elim!: stream_pushE intro: push_run)
next
  case (quiet h g g')
  then show ?case by (auto elim!: stream_quietE intro: write_run accept_run leave_run refuse_run)
qed

end
