(* ===== verification/Demo_Server.thy ===== *)
theory Demo_Server
  imports Fake_Access Fake_Grants Fake_Stream Demo_Client
begin

text \<open>
  Concrete values the witnesses of the administration half share: a test server with a few
  rows, its surroundings, and an operator's client of it. Nothing here models code.
\<close>

definition demo_fake :: fake_env where
  "demo_fake = \<lparr>ev_now = demo_now, ev_random = (\<lambda>n. ''r''), ev_mint = (\<lambda>c. ''tok''), ev_lower = (\<lambda>s. s),
     ev_url_query = (\<lambda>u. []), ev_url_with = (\<lambda>u q. u @ ''?'' @ q), ev_sha256 = (\<lambda>b. b), ev_issuer = ''anubis'',
     ev_public = demo_pk\<rparr>"

definition demo_env :: "Server \<Rightarrow> fake_env" where "demo_env s = demo_fake"

definition demo_server :: Server where
  "demo_server = NewServer\<lparr>sv_platformKey := ''anb_live_k'',
     sv_scopeNodes := [\<lparr>nw_ID = ''n1'', nw_Name = ''north'', nw_ParentID = [], nw_Status = ''active'', nw_Axis = ''region''\<rparr>,
                       \<lparr>nw_ID = ''n2'', nw_Name = ''oslo'', nw_ParentID = ''n1'', nw_Status = ''active'', nw_Axis = ''region''\<rparr>],
     sv_scopeNodePage := 1,
     sv_applications := [(''web'', zero_ApplicationRow\<lparr>aw_ID := ''app_1'', aw_Slug := ''web''\<rparr>)],
     sv_applicationPage := 1,
     sv_grants := [(''usr_1'', [\<lparr>gw_ID = ''g1'', gw_Role = ''clerk'', gw_SelfScoped = False, gw_ValidFrom = 0, gw_ValidUntil = 0,
        gw_RevokedAt = 0, gw_ViaMembership = [], gw_ViaAssignment = [], gw_Reason = [], gw_RevokeReason = [],
        gw_Scopes = [(''region'', [''n1'', ''n2''])], gw_Excludes = [(''region'', [''n2''])]\<rparr>])],
     sv_shares := [(''share_0'', zero_RecordShare\<lparr>rh_ID := ''share_0''\<rparr>)]\<rparr>"

definition demo_spf :: "Server platform" where
  "demo_spf =
     \<lparr>pf_now = (\<lambda>w. demo_now), pf_rand32 = (\<lambda>w. (w, Some (replicate 32 (CHR ''r'')))),
      pf_transport = (\<lambda>t. fake_net ''https://id.example'' demo_env),
      pf_url_parse = (\<lambda>u. Some \<lparr>u_Scheme = ''https'', u_Host = ''id.example'', u_Hostname = ''id.example''\<rparr>),
      pf_until_http_date = (\<lambda>d. None), pf_parse_duration = (\<lambda>d. None), pf_sha256 = (\<lambda>x. x),
      pf_time_format = (\<lambda>t. Some ''now''), pf_time_parse = (\<lambda>t. Some demo_now)\<rparr>"

definition demo_of :: "Server net \<Rightarrow> string \<Rightarrow> Server Client" where
  "demo_of net key = \<lparr>c_baseURL = ''https://id.example'', c_opts =
     \<lparr>o_httpClient = Some \<lparr>hc_Timeout = 10 * second, hc_transport = (\<lambda>t. net), hc_refuse = True\<rparr>,
      o_timeout = 10 * second, o_clientID = [], o_clientSecret = [], o_apiKey = key, o_tenant = [],
      o_loginStore = None, o_cache = None, o_headers = [], o_now = (\<lambda>w. demo_now)\<rparr>\<rparr>"

abbreviation demo_operator :: "string \<Rightarrow> Server Client" where
  "demo_operator \<equiv> demo_of (fake_net ''https://id.example'' demo_env)"

abbreviation demo_ctx :: Ctx where "demo_ctx \<equiv> \<lparr>ctx_principal = None, ctx_bearer = None\<rparr>"

lemma demo_operator_fields [simp]:
  "c_baseURL (demo_of net key) = ''https://id.example''" "o_apiKey (c_opts (demo_of net key)) = key"
  "o_clientID (c_opts (demo_of net key)) = []" "o_tenant (c_opts (demo_of net key)) = []"
  "o_headers (c_opts (demo_of net key)) = []" "key \<noteq> [] \<Longrightarrow> the_credential (demo_of net key) ctx = Some key"
  by (simp_all add: demo_of_def the_credential_def)

lemma demo_url [simp]: "pf_url_parse demo_spf u = Some \<lparr>u_Scheme = ''https'', u_Host = ''id.example'', u_Hostname = ''id.example''\<rparr>"
  by (simp add: demo_spf_def)

lemma demo_wf: "key = [] \<or> HasPrefix key ''anb_live_'' \<Longrightarrow> wf_options (c_opts (demo_of net key))"
  by (auto simp: wf_options_def demo_of_def)

lemma demo_talks: "key = [] \<or> HasPrefix key ''anb_live_'' \<Longrightarrow> talks_to (demo_operator key) demo_env"
  using demo_wf [of key] by (simp add: talks_to_def demo_of_def)

lemma demo_admitted: "admitted demo_spf (demo_operator ''anb_live_k'') ctx demo_server procedure"
  by (simp add: admitted_def demo_server_def)

lemma demo_server_ok: "server_ok demo_server"
proof -
  have "''share_0'' = seq_id ''share'' 0" by code_simp
  then have "share_ok 0 ''share_0'' (zero_RecordShare\<lparr>rh_ID := ''share_0''\<rparr>)" by (auto simp: share_ok_def)
  then show ?thesis
    by (simp add: server_ok_def demo_server_def NewServer_def keyed_def wf_map_def links_ok_def zero_ApplicationRow_def)
qed

end
