(* ===== verification/Admin_Properties.thy ===== *)
theory Admin_Properties
  imports Demo_Server
begin

text \<open>
  The properties of the administration half: the client of the admin plane
  (\<open>admin/\<close>), the test server that answers it (\<open>anubistest/\<close>), and the two together.
\<close>

section \<open>Walking a listing\<close>

text \<open>C18: over the test server, whatever its page size, \<open>AllScopeNodes\<close> and \<open>AllApplications\<close>
  return every row the query matches, each once and in the server's order, and the walk
  changes nothing of the server but its call counter, provided the listing is within the
  walk's limit.\<close>

theorem listings_complete:
  assumes "nodes_served pf env c ctx s q" "sq_Page q = []" "length (node_rows (env s) s q) \<le> 50000"
    "applications_served pf env c ctx s aq" "aq_Page aq = []" "length (application_slugs s aq) \<le> 10000"
  shows "(\<exists>w. Admin_AllScopeNodes pf c s ctx q = Some (w, Inr (map (node_of (sv_scopeNodes s) q) (node_rows (env s) s q))) \<and>
      but_calls s w) \<and>
    (\<exists>w. Admin_AllApplications pf c s ctx aq = Some (w, Inr (map (application_of \<circ> listed_application s) (application_slugs s aq))) \<and>
      but_calls s w)"
proof -
  have s: "but_calls s s" by (auto simp: but_calls_def intro: exI [of _ "sv_Calls s"])
  with assms have "nodes_fit pf env c ctx s q s" "applications_fit pf env c ctx s aq s"
    by (simp_all add: nodes_fit_def applications_fit_def)
  note fit = this
  have "\<exists>w. walk (node_page pf c ctx q) 50000 tm rp s [] [] [] =
      Some (w, Inr (map (node_of (sv_scopeNodes s) q) (node_rows (env s) s q))) \<and> but_calls s w" for tm rp
    using nodes.walk_all [OF fit(1), of 50000 tm rp] assms(3) by (auto simp: node_token_def nodes_fit_def)
  moreover have "\<exists>w. walk (application_page pf c ctx aq) 10000 tm rp s [] [] [] =
      Some (w, Inr (map (application_of \<circ> listed_application s) (application_slugs s aq))) \<and> but_calls s w" for tm rp
    using applications.walk_all [OF fit(2), of 10000 tm rp] assms(6) by (auto simp: slug_token_def applications_fit_def)
  ultimately show ?thesis unfolding Admin_AllScopeNodes_def Admin_AllApplications_def assms(2,5) by blast
qed

abbreviation demo_nodes :: ScopeNodeQuery where
  "demo_nodes \<equiv> \<lparr>sq_Axis = ''region'', sq_ParentID = [], sq_Query = [], sq_Archived = False, sq_PageSize = 0, sq_Page = []\<rparr>"

abbreviation demo_apps :: ApplicationQuery where "demo_apps \<equiv> \<lparr>aq_Query = [], aq_PageSize = 0, aq_Page = []\<rparr>"

lemma demo_node_query:
  "nodes_served demo_spf demo_env (demo_operator ''anb_live_k'') demo_ctx demo_server demo_nodes"
proof -
  have rows: "length (node_rows (demo_env demo_server) demo_server demo_nodes) = 2" by code_simp
  have "length (marshal (nodes_page (demo_env demo_server) demo_server demo_nodes 0)) \<le> 200"
    "length (marshal (nodes_page (demo_env demo_server) demo_server demo_nodes 1)) \<le> 200"
    "length (marshal (nodes_page (demo_env demo_server) demo_server demo_nodes 2)) \<le> 200"
    by code_simp+
  then have "\<forall>n \<le> 2. length (marshal (nodes_page (demo_env demo_server) demo_server demo_nodes n)) < maxResponseBytes"
    by (auto simp: le_Suc_eq numeral_2_eq_2)
  with rows show ?thesis
    by (simp add: nodes_served_def demo_talks demo_admitted HasPrefix_def demo_env_def)
      (simp add: demo_server_def NewServer_def ascii_node_def in64_def)
qed

lemma demo_application_query:
  "applications_served demo_spf demo_env (demo_operator ''anb_live_k'') demo_ctx demo_server demo_apps"
proof -
  have slugs: "length (application_slugs demo_server demo_apps) = 1" by code_simp
  have "length (marshal (applications_page demo_server demo_apps 0)) \<le> 300"
    "length (marshal (applications_page demo_server demo_apps 1)) \<le> 300"
    by code_simp+
  then have "\<forall>n \<le> 1. length (marshal (applications_page demo_server demo_apps n)) < maxResponseBytes"
    by (auto simp: le_Suc_eq)
  with slugs show ?thesis
    by (simp add: applications_served_def demo_talks demo_admitted HasPrefix_def)
      (simp add: demo_server_def NewServer_def ascii_application_def zero_ApplicationRow_def in64_def wf_map_def)
qed

theorem listings_complete_witness:
  "\<exists>w. Admin_AllScopeNodes demo_spf (demo_operator ''anb_live_k'') demo_server demo_ctx demo_nodes =
     Some (w, Inr (map (node_of (sv_scopeNodes demo_server) demo_nodes) (node_rows demo_fake demo_server demo_nodes)))"
proof -
  have "length (node_rows (demo_env demo_server) demo_server demo_nodes) = 2" "length (application_slugs demo_server demo_apps) = 1"
    by code_simp+
  then show ?thesis
    using listings_complete [OF demo_node_query _ _ demo_application_query] by (auto simp: demo_env_def)
qed

text \<open>
  The tokens a server can name are finitely many: a response is read up to a limit, and what
  it decodes to is a function of what was read.
\<close>

lemma walk_ends:
  assumes "finite T" "\<And>w t w' xs nx. get_page w t = (w', Inr (xs, nx)) \<Longrightarrow> nx \<in> T"
  shows "\<exists>r. walk get_page limit too_many repeated w page all seen = Some r"
proof (induction "card (T - set seen)" arbitrary: w page all seen rule: less_induct)
  case less
  obtain w' r where r: "get_page w page = (w', r)" by fastforce
  show ?case
  proof (cases r)
    case (Inr p)
    obtain xs nx where p: "p = (xs, nx)" by fastforce
    show ?thesis
    proof (cases "nx = [] \<or> length (all @ xs) > limit \<or> nx \<in> set seen")
      case True
      then show ?thesis using r Inr p by (subst walk.simps) auto
    next
      case False
      with assms(2) r Inr p have "nx \<in> T - set seen" by blast
      then have "card (T - set (nx # seen)) < card (T - set seen)"
        using assms(1) by (intro psubset_card_mono) auto
      with less.hyps [of "nx # seen"] False show ?thesis using r Inr p by (subst walk.simps) auto
    qed
  qed (use r in \<open>subst walk.simps, simp\<close>)
qed

lemma Admin_call_value:
  assumes "Admin_call pf c w ctx procedure body dec zero = (w', Inr x)"
  shows "\<exists>raw. length raw \<le> maxResponseBytes \<and> unmarshal dec zero raw = Some x"
  using assms
  by (auto simp: Admin_call_def Call_def rpc_def client_do_def client_send_def decode_out_def read_limited_def
      split: prod.splits sum.splits if_splits option.splits)
    (metis length_take min.cobounded2)

lemma finite_bytes: "finite {b :: bytes. length b \<le> n}"
  using finite_lists_length_le [of "UNIV :: char set" n] by simp

text \<open>C19: \<open>AllScopeNodes\<close> and \<open>AllApplications\<close> return, with a value or an error, whatever
  server answers them: no token is followed twice, and a response that is read up to 4 MiB
  can name only finitely many.\<close>

theorem listings_return:
  "Admin_AllScopeNodes pf c w ctx q \<noteq> None \<and> Admin_AllApplications pf c w ctx aq \<noteq> None"
proof -
  let ?N = "(\<lambda>raw. sp_NextPage (the (unmarshal dec_ScopeNodePage \<lparr>sp_Nodes = [], sp_NextPage = []\<rparr> raw))) ` {b. length b \<le> maxResponseBytes}"
  let ?A = "(\<lambda>raw. pg_NextPage (the (unmarshal dec_ApplicationPage \<lparr>pg_Applications = [], pg_NextPage = [], pg_Total = 0\<rparr> raw))) `
      {b. length b \<le> maxResponseBytes}"
  have "nx \<in> ?N" if "node_page pf c ctx q w t = (w', Inr (xs, nx))" for w t w' xs nx
    using that by (force simp: node_page_def and_then_def Admin_ScopeNodes_def dest!: Admin_call_value split: prod.splits sum.splits)
  then have "\<exists>r. Admin_AllScopeNodes pf c w ctx q = Some r"
    unfolding Admin_AllScopeNodes_def by (rule walk_ends [OF finite_imageI [OF finite_bytes]])
  moreover have "nx \<in> ?A" if "application_page pf c ctx aq w t = (w', Inr (xs, nx))" for w t w' xs nx
    using that by (force simp: application_page_def and_then_def Admin_Applications_def dest!: Admin_call_value split: prod.splits sum.splits)
  then have "\<exists>r. Admin_AllApplications pf c w ctx aq = Some r"
    unfolding Admin_AllApplications_def by (rule walk_ends [OF finite_imageI [OF finite_bytes]])
  ultimately show ?thesis by auto
qed

section \<open>Manifests\<close>

text \<open>C21: \<open>Validate\<close> accepts exactly the well-formed manifests: one section at least, none of
  them empty but a route table that was cleared on purpose, keys, names and priorities without
  duplicates, permission references inside the application, each effect with what it needs. A
  manifest it refuses, or one for no application, is not sent.\<close>

theorem manifest_validated:
  "(Manifest_Validate m = None \<longleftrightarrow> wf_manifest m) \<and>
   ((\<exists>e. Admin_ApplyManifest pf c w ctx slug m = (w, Inl e) \<and> Admin_DryRunManifest pf c w ctx slug m = (w, Inl e)) \<or>
    wf_manifest m \<and> slug \<noteq> [] \<and>
    (\<forall>dry. applyManifest_client pf c w ctx slug m dry =
       Admin_ApplyManifestDocument pf c w ctx slug (marshal (Manifest_MarshalJSON m)) ''json'' dry))"
  by (cases "Manifest_Validate m"; cases "slug = []")
    (use Validate_None [of m] in \<open>auto simp: Admin_ApplyManifest_def Admin_DryRunManifest_def applyManifest_client_def
      Admin_ApplyManifestDocument_def\<close>)

lemma Catalog_installed:
  "Catalog k s = (let a = installed k s in \<lparr>ct_Permissions = sort (mf_permissions a), ct_Roles = sort (mf_roles a),
     ct_DeprecatedPermission = sort (mf_deprecatedPerm a), ct_DeprecatedRole = sort (mf_deprecatedRole a),
     ct_Routes = mf_routes a, ct_Version = mf_version a\<rparr>)"
  by (simp add: Catalog_def installed_def empty_app_def split: option.split)

lemma installed_after: "installed k (after_apply slug p s) =
    (if k = slug then (case p of None \<Rightarrow> installed slug s | Some p \<Rightarrow> committed (installed slug s) p) else installed k s)"
  by (simp add: installed_def after_apply_def update_conv' count_def)

text \<open>What an apply that went through leaves of a section: the keys its document names.\<close>

definition replaced :: "string list option \<Rightarrow> string list \<Rightarrow> string list \<Rightarrow> bool" where
  "replaced named old new \<longleftrightarrow> (case named of None \<Rightarrow> new = old | Some ks \<Rightarrow> set new = set ks)"

text \<open>C11: a manifest applied over the test server is checked and planned against the
  application's installed catalog. A refusal changes no catalog; a dry run changes none either
  and reports what an apply would do. An apply changes the catalog of its application only,
  replaces the sections the manifest declares by exactly what it names, leaves the others,
  raises the version by one, and its report lists what it retired.\<close>

theorem manifest_applied:
  assumes "wf_manifest m" "manifest_reaches pf env c ctx s slug m dry"
  shows "case applyManifest_client pf c s ctx slug m dry of
      (s', Inl e) \<Rightarrow> (\<forall>k. Catalog k s' = Catalog k s) \<and>
        (\<exists>message. plan_of (installed slug s) (doc_of m) = Inl message \<and> errors_As as_API e \<noteq> None \<and>
          ae_Message (the (errors_As as_API e)) = message)
    | (s', Inr r) \<Rightarrow>
        (let old = Catalog slug s; new = Catalog slug s' in
          (\<forall>k. k \<noteq> slug \<or> dry \<longrightarrow> Catalog k s' = Catalog k s) \<and>
          re_Dry r = dry \<and> re_Sections r = doc_sections (doc_of m) \<and> re_Version r = ct_Version old + 1 \<and>
          (\<forall>p ps. re_Permissions r = Some p \<longrightarrow> ma_permissions m = Some ps \<longrightarrow>
             set (pr_Deprecated p) = set (ct_Permissions old) - ManifestPermission_Key ` set ps) \<and>
          (\<forall>p rs. re_Roles r = Some p \<longrightarrow> ma_roles m = Some rs \<longrightarrow>
             set (rr_Deprecated p) = set (ct_Roles old) - mr_Name ` set rs) \<and>
          (dry \<or> ct_Version new = re_Version r \<and>
             replaced (map_option (map ManifestPermission_Key) (ma_permissions m)) (ct_Permissions old) (ct_Permissions new) \<and>
             replaced (map_option (map mr_Name) (ma_roles m)) (ct_Roles old) (ct_Roles new) \<and>
             ct_Routes new = (case ma_routes m of None \<Rightarrow> ct_Routes old | Some rs \<Rightarrow> int (length rs))))"
proof (cases "plan_of (installed slug s) (doc_of m)")
  case (Inl message)
  then show ?thesis using manifest_end_to_end [OF assms]
    by (simp add: Catalog_installed installed_after errors_As_def)
next
  case (Inr p)
  note sections = plan_sections [OF Inr] and perms = plan_permissions_named [OF Inr] and roles = plan_roles_named [OF Inr]
    and routes = plan_routes_named [OF Inr]
  have key: "(\<lambda>(r, c). r @ '':'' @ c) ` set (map (\<lambda>p. (mp_Resource p, mp_Action p)) ps) = ManifestPermission_Key ` set ps" for ps
    by (force simp: ManifestPermission_Key_def)
  have one: "case ma_permissions m of None \<Rightarrow> pl_perms p = mf_permissions (installed slug s)
      | Some ps \<Rightarrow> set (pl_perms p) = ManifestPermission_Key ` set ps \<and>
          set (pl_deprecatedPerm p) = set (mf_permissions (installed slug s)) - ManifestPermission_Key ` set ps"
    using sections(1) perms key by (simp add: doc_of_def split: option.split)
  have two: "case ma_roles m of None \<Rightarrow> pl_roles p = mf_roles (installed slug s)
      | Some rs \<Rightarrow> set (pl_roles p) = mr_Name ` set rs \<and>
          set (pl_deprecatedRole p) = set (mf_roles (installed slug s)) - mr_Name ` set rs"
    using sections(2) roles(1,2) by (simp add: doc_of_def image_image split: option.split)
  have three: "pl_routes p = (case ma_routes m of None \<Rightarrow> mf_routes (installed slug s) | Some rs \<Rightarrow> int (length rs))"
    using sections(3) routes(1) by (simp add: doc_of_def split: option.split)
  from Inr manifest_end_to_end [OF assms] one two three show ?thesis
    by (auto simp: Let_def Catalog_installed installed_after committed_def client_report_def replaced_def doc_of_def
        split: option.splits)
qed

definition demo_manifest :: Manifest where
  "demo_manifest = WithPermissions empty_Manifest
     [\<lparr>mp_Resource = ''invoice'', mp_Action = ''read'', mp_Description = [], mp_Risk = [], mp_MinAssurance = 0,
        mp_RequiresAMR = [], mp_MaxAuthAge = []\<rparr>]"

lemma demo_manifest_wf: "wf_manifest demo_manifest"
  unfolding Validate_None [symmetric] by code_simp

lemma demo_plan: "plan_of (installed ''billing'' demo_server) (doc_of demo_manifest) =
    Inr \<lparr>pl_perms = [''invoice:read''], pl_roles = [], pl_routes = 0, pl_deprecatedPerm = [], pl_deprecatedRole = [], pl_named = (1, 0)\<rparr>"
  by code_simp

lemma demo_manifest_reaches:
  "manifest_reaches demo_spf demo_env (demo_operator ''anb_live_k'') demo_ctx demo_server ''billing'' demo_manifest False"
proof -
  have "length (marshal (snd (apply_answer False (doc_of demo_manifest) 1 (plan_of (installed ''billing'' demo_server) (doc_of demo_manifest))))) \<le> 300"
    unfolding demo_plan by code_simp
  moreover have "mf_version (installed ''billing'' demo_server) = 0" by code_simp
  ultimately show ?thesis
    by (simp add: manifest_reaches_def demo_talks demo_admitted HasPrefix_def demo_plan small_plan_def in64_def)
      (simp add: demo_manifest_def ascii_manifest_def ascii_permission_def WithPermissions_def empty_Manifest_def)
qed

theorem manifest_applied_witness:
  "\<exists>s' r. applyManifest_client demo_spf (demo_operator ''anb_live_k'') demo_server demo_ctx ''billing'' demo_manifest False = (s', Inr r) \<and>
     set (ct_Permissions (Catalog ''billing'' s')) = {''invoice:read''} \<and> Catalog ''web'' s' = Catalog ''web'' demo_server"
proof -
  obtain s' x where x: "applyManifest_client demo_spf (demo_operator ''anb_live_k'') demo_server demo_ctx ''billing'' demo_manifest False = (s', x)"
    by fastforce
  note applied = manifest_applied [OF demo_manifest_wf demo_manifest_reaches, unfolded x prod.case]
  have perms: "map_option (map ManifestPermission_Key) (ma_permissions demo_manifest) = Some [''invoice:read'']"
    by (simp add: demo_manifest_def WithPermissions_def ManifestPermission_Key_def)
  show ?thesis
  proof (cases x)
    case (Inl e)
    with applied demo_plan show ?thesis by simp
  next
    case (Inr r)
    from applied [unfolded Inr sum.case Let_def perms] have "set (ct_Permissions (Catalog ''billing'' s')) = {''invoice:read''}"
      "Catalog ''web'' s' = Catalog ''web'' demo_server"
      by (simp_all add: replaced_def)
    with x Inr show ?thesis by blast
  qed
qed

section \<open>The operator guard\<close>

text \<open>C20: with a credential that is not the one the server takes its operator by, every
  administration procedure is refused with an error \<open>errors.Is\<close> finds
  \<open>ErrNotPlatformOperator\<close> in, and the server is left as it was.\<close>

theorem operator_required:
  assumes "talks_to c env" "the_credential c ctx = Some t" "\<forall>u. pf_url_parse pf u \<noteq> None"
    "(path, h) \<in> set (adminRoutes @ adminConfigRoutes @ manifestRoutes @ provisionRoutes)"
    "sv_platformKey s \<noteq> []" "sv_platformKey s \<noteq> t"
  shows "\<exists>e. Admin_call pf c s ctx path body dec zero = (s, Inl e) \<and> errors_Is e ErrNotPlatformOperator"
proof -
  obtain g where g: "h = guarded g" using admin_guarded assms(4) by blast
  have served: "h (env s) s rq = (s, writeJSON 403 refusal)" if "request_of pf c ctx path body rq" for rq
    using that assms(2,5,6) by (auto simp: g guarded_def request_of_def httpErrorWithDetails_def refusal_def)
  obtain a where a: "read_answer pf 403 refusal dec zero = Inl (ErrAuth a)" "ae_Message a = operator_hint"
      "ae_Details a = [(''hint'', operator_hint)]"
    using read_refusal [of pf dec zero] by auto
  from assms(3) have u: "pf_url_parse pf (c_baseURL c @ path) \<noteq> None" by blast
  have "Admin_call pf c s ctx path body dec zero =
      (s, case read_answer pf 403 refusal dec zero of Inl e \<Rightarrow> Inl (admin_error e) | Inr x \<Rightarrow> Inr x)"
    by (rule admin_call_served [where h = h, OF assms(1,2) u assms(4)]) (simp_all add: served refusal_facts del: marshal.simps)
  then show ?thesis using a by (simp add: admin_error_def errors_As_def operator_error_def errors_Is_def)
qed

theorem operator_required_witness:
  "\<exists>e. Admin_call demo_spf (demo_operator ''anb_live_other'') demo_server demo_ctx
      ''/anubis.v1.AuthzAdminService/ListGrants'' (GMap []) dec_nothing () = (demo_server, Inl e) \<and>
    errors_Is e ErrNotPlatformOperator"
  by (rule operator_required [where env = demo_env and t = "''anb_live_other''" and h = "guarded listGrants"])
    (simp_all add: demo_talks HasPrefix_def adminRoutes_def demo_server_def)

section \<open>Entitlements\<close>

lemma in_scopes_of: "x \<in> set (scopes_of r) \<longleftrightarrow>
    (\<exists>axis ns n. (axis, ns) \<in> set (gw_Scopes r) \<and> n \<in> set ns \<and> x = GrantScope.make axis n n True False) \<or>
    (\<exists>axis ns n. (axis, ns) \<in> set (gw_Excludes r) \<and> n \<in> set ns \<and> x = GrantScope.make axis n n True True)"
  unfolding scopes_of_def by (auto; blast)

lemma axes_named: "axis \<in> gs_Axis ` set (gt_Scopes (grant_of subject r)) \<longleftrightarrow>
    (\<exists>ns. ns \<noteq> [] \<and> ((axis, ns) \<in> set (gw_Scopes r) \<or> (axis, ns) \<in> set (gw_Excludes r)))" (is "?L \<longleftrightarrow> ?R")
proof
  assume ?L
  then obtain x where "x \<in> set (scopes_of r)" "axis = gs_Axis x" by (auto simp: grant_of_def)
  then show ?R unfolding in_scopes_of by (elim disjE exE conjE) (simp_all add: GrantScope.make_def, (metis empty_iff empty_set)+)
next
  assume ?R
  then obtain ns where ns: "hd ns \<in> set ns" "(axis, ns) \<in> set (gw_Scopes r) \<or> (axis, ns) \<in> set (gw_Excludes r)" using hd_in_set by blast
  then obtain ex where "GrantScope.make axis (hd ns) (hd ns) True ex \<in> set (scopes_of r)" unfolding in_scopes_of by blast
  then have "gs_Axis (GrantScope.make axis (hd ns) (hd ns) True ex) \<in> gs_Axis ` set (scopes_of r)" by (rule imageI)
  then show ?L by (simp add: grant_of_def GrantScope.make_def)
qed

lemma reached: "n \<in> set (Grant_Nodes (grant_of subject r) axis) \<longleftrightarrow>
    (\<exists>ns. (axis, ns) \<in> set (gw_Scopes r) \<and> n \<in> set ns) \<and> \<not> (\<exists>ns. (axis, ns) \<in> set (gw_Excludes r) \<and> n \<in> set ns)"
proof -
  have "gt_Scopes (grant_of subject r) = scopes_of r" by (simp add: grant_of_def)
  then have "n \<in> set (Grant_Nodes (grant_of subject r) axis) \<longleftrightarrow>
      (\<exists>x \<in> set (scopes_of r). gs_Axis x = axis \<and> \<not> gs_Exclude x \<and> gs_NodeID x = n) \<and>
      \<not> (\<exists>x \<in> set (scopes_of r). gs_Axis x = axis \<and> gs_Exclude x \<and> gs_NodeID x = n)"
    unfolding Grant_Nodes_set Grant_Excludes_def by (auto simp: image_iff; metis)
  also have "(\<exists>x \<in> set (scopes_of r). gs_Axis x = axis \<and> \<not> gs_Exclude x \<and> gs_NodeID x = n) \<longleftrightarrow>
      (\<exists>ns. (axis, ns) \<in> set (gw_Scopes r) \<and> n \<in> set ns)" (is "?L \<longleftrightarrow> ?R")
  proof
    assume ?R
    then have "GrantScope.make axis n n True False \<in> set (scopes_of r)" unfolding in_scopes_of by blast
    then show ?L by (rule rev_bexI) (simp add: GrantScope.make_def)
  next
    assume ?L
    then obtain x where x: "x \<in> set (scopes_of r)" "gs_Axis x = axis" "gs_Exclude x = False" "gs_NodeID x = n" by auto
    from x(1) show ?R unfolding in_scopes_of by (rule disjE) (use x(2-) in \<open>auto simp: GrantScope.make_def\<close>)
  qed
  also have "(\<exists>x \<in> set (scopes_of r). gs_Axis x = axis \<and> gs_Exclude x \<and> gs_NodeID x = n) \<longleftrightarrow>
      (\<exists>ns. (axis, ns) \<in> set (gw_Excludes r) \<and> n \<in> set ns)" (is "?L \<longleftrightarrow> ?R")
  proof
    assume ?R
    then have "GrantScope.make axis n n True True \<in> set (scopes_of r)" unfolding in_scopes_of by blast
    then show ?L by (rule rev_bexI) (simp add: GrantScope.make_def)
  next
    assume ?L
    then obtain x where x: "x \<in> set (scopes_of r)" "gs_Axis x = axis" "gs_Exclude x = True" "gs_NodeID x = n" by auto
    from x(1) show ?R unfolding in_scopes_of by (rule disjE) (use x(2-) in \<open>auto simp: GrantScope.make_def\<close>)
  qed
  finally show ?thesis .
qed

text \<open>C13: \<open>Entitlements\<close> over the test server are the grants live when they are read, each as
  its row has it, times and scopes included; a grant is live from its start up to the sooner
  of its end and its revocation. The nodes of an axis are those a live grant reaches and does
  not carve out itself, without duplicates; roles are those of the live grants; axes are those
  on which a live grant names a node, reached or carved out, sorted and without duplicates.\<close>

theorem entitlements_exact:
  assumes "grants_served pf env c ctx s subject rows"
  shows "\<exists>e w. Admin_Entitlements pf c s ctx subject = (w, Inr e) \<and> w = count ''ListGrants'' s \<and>
    en_Grants e = filter (\<lambda>g. Grant_IsLive g (pf_now pf w)) (map (grant_of subject) rows) \<and>
    (\<forall>g. Grant_IsLive g (pf_now pf w) \<longleftrightarrow>
       (epoch_time (gt_RevokedAt g) = 0 \<or> pf_now pf w < epoch_time (gt_RevokedAt g)) \<and>
       (epoch_time (gt_ValidFrom g) = 0 \<or> epoch_time (gt_ValidFrom g) \<le> pf_now pf w) \<and>
       (epoch_time (gt_ValidUntil g) = 0 \<or> pf_now pf w < epoch_time (gt_ValidUntil g))) \<and>
    (\<forall>axis. distinct (Entitlements_Nodes e axis) \<and> set (Entitlements_Nodes e axis) =
       {n. \<exists>r \<in> set rows. Grant_IsLive (grant_of subject r) (pf_now pf w) \<and>
          (\<exists>ns. (axis, ns) \<in> set (gw_Scopes r) \<and> n \<in> set ns) \<and> \<not> (\<exists>ns. (axis, ns) \<in> set (gw_Excludes r) \<and> n \<in> set ns)}) \<and>
    distinct (Entitlements_Roles e) \<and> set (Entitlements_Roles e) =
       {x. \<exists>r \<in> set rows. Grant_IsLive (grant_of subject r) (pf_now pf w) \<and> gw_Role r = x \<and> x \<noteq> []} \<and>
    sorted (Entitlements_Axes e) \<and> distinct (Entitlements_Axes e) \<and> set (Entitlements_Axes e) =
       {axis. \<exists>r \<in> set rows. Grant_IsLive (grant_of subject r) (pf_now pf w) \<and>
          (\<exists>ns. ns \<noteq> [] \<and> ((axis, ns) \<in> set (gw_Scopes r) \<or> (axis, ns) \<in> set (gw_Excludes r)))}"
proof -
  let ?w = "count ''ListGrants'' s"
  define live where "live = (\<lambda>g. Grant_IsLive g (pf_now pf ?w))"
  define e where "e = \<lparr>en_Subject = subject, en_Grants = filter live (map (grant_of subject) rows), en_at = pf_now pf ?w\<rparr>"
  have call: "Admin_Entitlements pf c s ctx subject = (?w, Inr e)"
    by (simp add: Admin_Entitlements_def grants_end_to_end [OF assms] e_def live_def)
  have role: "gt_Role (grant_of subject r) = gw_Role r" for r by (simp add: grant_of_def)
  have "distinct (Entitlements_Nodes e axis) \<and> set (Entitlements_Nodes e axis) =
      {n. \<exists>r \<in> set rows. live (grant_of subject r) \<and> n \<in> set (Grant_Nodes (grant_of subject r) axis)}" for axis
    using collect_set [of "[]" "concat (map (\<lambda>g. Grant_Nodes g axis) (en_Grants e))"]
    by (auto simp: Entitlements_Nodes_def e_def)
  note nodes = this [unfolded reached live_def]
  have "distinct (Entitlements_Roles e) \<and> set (Entitlements_Roles e) =
      {x. \<exists>r \<in> set rows. live (grant_of subject r) \<and> gt_Role (grant_of subject r) = x \<and> x \<noteq> []}"
    using collect_set [of "[]" "filter (\<lambda>r. r \<noteq> []) (map gt_Role (en_Grants e))"]
    by (auto simp: Entitlements_Roles_def e_def)
  note roles = this [unfolded role live_def]
  have axes: "sorted (Entitlements_Axes e)" "distinct (Entitlements_Axes e)" "set (Entitlements_Axes e) =
      {axis. \<exists>r \<in> set rows. live (grant_of subject r) \<and> axis \<in> gs_Axis ` set (gt_Scopes (grant_of subject r))}"
    using sortAxes_facts [of "collect [] (concat (map (\<lambda>g. map gs_Axis (gt_Scopes g)) (en_Grants e)))"]
      collect_set [of "[]" "concat (map (\<lambda>g. map gs_Axis (gt_Scopes g)) (en_Grants e))"]
    by (simp_all add: Entitlements_Axes_def) (auto simp: e_def)
  note axes_set = axes(3) [unfolded axes_named live_def]
  have grants: "en_Grants e = filter (\<lambda>g. Grant_IsLive g (pf_now pf ?w)) (map (grant_of subject) rows)"
    unfolding e_def live_def by simp
  show ?thesis
    by (intro exI [of _ e] exI [of _ ?w] conjI allI)
      (fact call, fact refl, fact grants, fact IsLive_window, fact nodes [THEN conjunct1], fact nodes [THEN conjunct2],
       fact roles [THEN conjunct1], fact roles [THEN conjunct2], fact axes(1), fact axes(2), fact axes_set)
qed

abbreviation demo_grant :: GrantRow where
  "demo_grant \<equiv> \<lparr>gw_ID = ''g1'', gw_Role = ''clerk'', gw_SelfScoped = False, gw_ValidFrom = 0, gw_ValidUntil = 0,
     gw_RevokedAt = 0, gw_ViaMembership = [], gw_ViaAssignment = [], gw_Reason = [], gw_RevokeReason = [],
     gw_Scopes = [(''region'', [''n1'', ''n2''])], gw_Excludes = [(''region'', [''n2''])]\<rparr>"

lemma demo_grants_served:
  "grants_served demo_spf demo_env (demo_operator ''anb_live_k'') demo_ctx demo_server ''usr_1'' [demo_grant]"
proof -
  have "length (marshal (grants_answer ''usr_1'' [demo_grant])) \<le> 500" by code_simp
  then show ?thesis
    by (simp add: grants_served_def demo_talks demo_admitted HasPrefix_def)
      (simp add: demo_server_def ascii_grant_def ascii_axes_def wire_time_def in64_def)
qed

theorem entitlements_exact_witness:
  "\<exists>e w. Admin_Entitlements demo_spf (demo_operator ''anb_live_k'') demo_server demo_ctx ''usr_1'' = (w, Inr e) \<and>
     set (Entitlements_Nodes e ''region'') = {''n1''} \<and> set (Entitlements_Roles e) = {''clerk''} \<and> set (Entitlements_Axes e) = {''region''}"
proof -
  have "Grant_IsLive (grant_of ''usr_1'' demo_grant) at" for at
    by (simp add: Grant_IsLive_def grant_of_def unix_time_def Time_IsZero_def)
  then show ?thesis
    using entitlements_exact [OF demo_grants_served] by fastforce
qed

section \<open>The server\<close>

text \<open>C10: the tables of the test server are well formed when it is built and after any requests
  whatever, in any surroundings: rows keyed by what they say of themselves, no slug or
  identifier twice, every link to a share that is still there, no link to a record twice.\<close>

theorem server_typed:
  "server_ok NewServer \<and> (served base s t \<longrightarrow> server_ok s \<longrightarrow> server_ok t)"
  by (simp add: served_ok)

theorem server_typed_witness:
  "server_ok (fst (serve ''https://id.example'' demo_fake demo_server \<lparr>rq_method = ''POST'', rq_url = ''https://id.example/anubis.v1.TenantAdminService/CreateTenant'',
     rq_header = [(''Authorization'', ''Bearer anb_live_k'')], rq_body = marshal (GMap [(''slug'', GStr ''acme'')])\<rparr>))"
  (is "server_ok (fst (serve ''https://id.example'' demo_fake demo_server ?rq))")
proof -
  have "served ''https://id.example'' demo_server (fst (serve ''https://id.example'' demo_fake demo_server ?rq))"
    by (rule served.request [OF served.idle prod.collapse [symmetric]])
  then show ?thesis using server_typed demo_server_ok by blast
qed

text \<open>C22: no request touches what the test set up for other calls to read (the credential, the
  decisions, the grants, the nodes), takes an identifier back, forgets a token it revoked or a
  bearer of a link, or changes what was fixed when a row was created.\<close>

theorem server_keeps:
  assumes "server_ok s" "serve base ev s rq = (u, rs)"
  shows "pinned s u"
  using lawful_serve [of base] assms by (simp add: lawful_handler_def lawful_def) (metis fst_conv)

theorem server_keeps_witness:
  "pinned demo_server (fst (serve ''https://id.example'' demo_fake demo_server
     \<lparr>rq_method = ''GET'', rq_url = ''https://id.example/nothing'', rq_header = [], rq_body = []\<rparr>))"
  by (rule server_keeps [OF demo_server_ok]) (rule prod.collapse [symmetric])

section \<open>The revocation stream\<close>

text \<open>C23: whatever is pushed, subscribed, written and left, in whatever order, a subscriber of
  the stream is never more than sixteen rows behind; what it was sent, with what is waiting,
  is exactly the rows whose push found it with fewer than sixteen waiting, once each and in
  the order pushed: a row pushed while it was there is missed only if sixteen were waiting
  at that moment, and none is if its buffer was never full. What a push found is read off the
  run.\<close>

theorem stream_registry:
  assumes "stream_run h g" "(i, b) \<in> set (rg_subs g)"
  shows "length (sb_queue b) \<le> 16 \<and> sb_sent b @ sb_queue b = rows_when (has_room i) h \<and>
    subseq (sb_sent b @ sb_queue b) (rows_when (is_there i) h) \<and>
    ((\<forall>(r, g1) \<in> set h. is_there i g1 \<longrightarrow> has_room i g1) \<longrightarrow> sb_sent b @ sb_queue b = rows_when (is_there i) h)"
proof -
  from stream_run_ok [OF assms(1)] have ok: "run_ok h g" .
  with assms(2) have b: "map_of (rg_subs g) i = Some b" "sub_ok b"
    by (auto simp: run_ok_def registry_ok_def wf_map_def)
  with ok have got: "sb_sent b @ sb_queue b = rows_when (has_room i) h" by (simp add: run_ok_def)
  moreover have "subseq (rows_when (has_room i) h) (rows_when (is_there i) h)" by (rule rows_when_subseq) (rule room_there)
  moreover have "rows_when (has_room i) h = rows_when (is_there i) h" if "\<forall>(r, g1) \<in> set h. is_there i g1 \<longrightarrow> has_room i g1"
    using that by (intro rows_when_same) (auto dest: room_there)
  ultimately show ?thesis using b(2) by (simp add: sub_ok_def)
qed

abbreviation demo_push :: RevocationRow where "demo_push \<equiv> synced_row\<lparr>rw_Session := ''ses_1''\<rparr>"

definition demo_subscribe :: http_request where
  "demo_subscribe = \<lparr>rq_method = ''POST'', rq_url = [], rq_header = [(''Authorization'', ''Bearer anb_live_k'')],
     rq_body = envelope 0 (marshal (GMap [(''tenant'', GStr ''acme'')]))\<rparr>"

definition demo_streams :: registry where
  "demo_streams = PushRevocation demo_push
     (fst (streamRevocations demo_now \<lparr>rg_subs = [], rg_seq = 0, rg_refuse = False\<rparr> demo_subscribe))"

theorem stream_registry_witness:
  "\<exists>h i b. stream_run h (write_next 1 demo_streams) \<and> (i, b) \<in> set (rg_subs (write_next 1 demo_streams)) \<and>
     sb_sent b = [demo_push] \<and> rows_when (has_room i) h = [demo_push]"
proof -
  let ?none = "\<lparr>rg_subs = [], rg_seq = 0, rg_refuse = False\<rparr>"
  obtain g out i where accepted: "streamRevocations demo_now ?none demo_subscribe = (g, out, i)" by (rule prod_cases3)
  have "stream_run [] g" by (rule stream_run.quiet [OF stream_run.init]) (rule accept [OF accepted])
  then have "stream_run ([] @ [(demo_push, g)]) (PushRevocation demo_push g)" by (rule stream_run.pushed) (rule push)
  then have "stream_run [(demo_push, g)] demo_streams" by (simp add: demo_streams_def accepted)
  then have reach: "stream_run [(demo_push, g)] (write_next 1 demo_streams)" by (rule stream_run.quiet) (rule deliver)
  have "rg_subs demo_streams = [(1, offer demo_push (new_subscriber ''acme''))]"
  proof -
    let ?body = "marshal (GMap [(''tenant'', GStr ''acme'')])"
    have "length ?body \<le> 100" by code_simp
    then have "server_readEnvelope (rq_body demo_subscribe, None) = Inr (0, ?body, ([], None))"
      using readFrame_envelope [of ?body 1048576 0 _ "[]" None]
      by (simp add: server_readEnvelope_def demo_subscribe_def)
    then have "stream_tenant (rq_body demo_subscribe) = ''acme''"
      by (simp add: stream_tenant_def parse_marshal toLower_byte_def del: marshal.simps)
    moreover have "header_Get (rq_header demo_subscribe) ''Authorization'' \<noteq> []"
      by (simp add: demo_subscribe_def header_Get_def)
    ultimately show ?thesis
      by (simp add: demo_streams_def streamRevocations_def Let_def subscribeRevocations_def PushRevocation_def)
  qed
  then have subs: "rg_subs (write_next 1 demo_streams) = [(1, \<lparr>sb_tenant = ''acme'', sb_queue = [], sb_sent = [demo_push]\<rparr>)]"
    by (simp add: write_next_def offer_def new_subscriber_def)
  with stream_registry [OF reach, of 1 "\<lparr>sb_tenant = ''acme'', sb_queue = [], sb_sent = [demo_push]\<rparr>"] reach show ?thesis
    by (intro exI [of _ "[(demo_push, g)]"] exI [of _ 1] exI [of _ "\<lparr>sb_tenant = ''acme'', sb_queue = [], sb_sent = [demo_push]\<rparr>"]) simp
qed

section \<open>Access links\<close>






end
