(* ===== verification/Fake_Session.thy ===== *)
theory Fake_Session
  imports Fake_Access
begin

text \<open>
  Sessions of the test server as its clients see them: the code of a browser's sign-in
  (\<open>browserAuthorize\<close>, \<open>tokenExchange\<close> of \<open>anubistest/server.go\<close>) against \<open>BeginLogin\<close> and
  \<open>CompleteLogin\<close>, and the refresh token (\<open>refresh\<close>) against \<open>Refresh\<close>. A code is exchanged
  once, by who holds its verifier; a refresh token is rotated once, and a second use of it
  ends the session.
\<close>

section \<open>Forms\<close>

lemma form_error_pairs: "\<not> form_error (encode_pairs ps)"
proof (cases "ps = []")
  case False
  let ?f = "\<lambda>(k, v). QueryEscape k @ ''='' @ QueryEscape v"
  have "Split (CHR ''&'') (Join ''&'' (map ?f ps)) = map ?f ps"
    by (rule Split_Join) (use False QueryEscape_chars in fastforce)+
  then show ?thesis using query_pair_encode [simplified]
    by (auto simp: form_error_def encode_pairs_def list_ex_iff)
qed (simp add: form_error_def encode_pairs_def)

lemma form_error_encode: "\<not> form_error (values_Encode q)"
  by (simp add: values_Encode_def form_error_pairs)

lemma encoded_Get: "single q \<Longrightarrow> values_Get (ParseQuery (values_Encode q)) k = values_Get q k"
  by (rule Get_same_map [OF values_roundtrip])

lemma exchange_form_single: "single (exchange_form c p code)"
  by (simp add: exchange_form_def single_def [of "[_, _, _, _, _]"] wf_map_def)

lemma exchange_form_Get:
  "values_Get (exchange_form c p code) ''code'' = code"
  "values_Get (exchange_form c p code) ''code_verifier'' = pe_Verifier p"
  "values_Get (exchange_form c p code) ''redirect_uri'' = pe_RedirectURI p"
  "values_Get (exchange_form c p code) ''client_id'' = o_clientID (c_opts c)"
  by (simp_all add: exchange_form_def Get_setIf) (simp_all add: values_Get_def)

lemma serve_form:
  assumes "talks_to c env" "pf_url_parse pf (c_baseURL c @ path) \<noteq> None"
    "map_of mux path = Some h" "CHR ''?'' \<notin> set path" "status \<notin> {301, 302, 303, 307, 308}"
    and served: "\<And>rq. rq_body rq = values_Encode q \<Longrightarrow> h (env w) w rq = (w', writeJSON status v)"
    and "ascii_val v" "length (marshal v) < maxResponseBytes"
  shows "form pf c w path q (Some dec) zero = (w', read_answer pf status v dec zero)"
proof -
  let ?rq = "\<lparr>rq_method = ''POST'', rq_url = c_baseURL c @ path,
      rq_header = [(''Content-Type'', ''application/x-www-form-urlencoded'')], rq_body = values_Encode q\<rparr>"
  let ?sent = "set_headers (o_headers (c_opts c)) (o_tenant (c_opts c)) ?rq"
  have "request_path (c_baseURL c) ?sent = path" using assms(4) by (simp add: request_path_def break_at_none)
  with assms(1,3) served [of ?sent] have "client_http c w ?sent = (w', Inr (writeJSON status v))"
    using assms(5) by (auto simp: talks_to_def fake_net_def serve_def client_http_def http_Do_def writeJSON_def)
  from client_do_served [OF this assms(7,8), of pf dec zero] assms(2) show ?thesis
    by (auto simp: form_def NewRequest_def)
qed

section \<open>The code\<close>

text \<open>What the surroundings have to be for a client to sign in: printable ids and tokens, of a bounded length.\<close>

definition session_tokens :: "fake_env \<Rightarrow> string \<Rightarrow> string \<Rightarrow> Tokens" where
  "session_tokens ev subject audience =
     (let sid = ''ses_'' @ ev_random ev 0
      in zero_Tokens\<lparr>tk_AccessToken := ev_mint ev (session_claims subject audience sid),
           tk_RefreshToken := ''anb_rt_'' @ ev_random ev 1, tk_TokenType := ''Bearer'', tk_ExpiresIn := 600,
           tk_SessionID := sid, tk_IssuedAt := ev_now ev\<rparr>)"

definition exchange_json :: "Tokens \<Rightarrow> goval" where
  "exchange_json t = GMap
     [(''access_token'', GStr (tk_AccessToken t)), (''refresh_token'', GStr (tk_RefreshToken t)),
      (''token_type'', GStr ''Bearer''), (''expires_in'', GInt 600), (''session_id'', GStr (tk_SessionID t))]"

definition sign_in_env :: "Server platform \<Rightarrow> (Server \<Rightarrow> fake_env) \<Rightarrow> Server Client \<Rightarrow> bool" where
  "sign_in_env pf env c \<longleftrightarrow> talks_to c env \<and> (\<forall>u. pf_url_parse pf u \<noteq> None) \<and>
     (\<forall>s n. ascii (ev_random (env s) n)) \<and> (\<forall>s cl. ascii (ev_mint (env s) cl)) \<and>
     (\<forall>s subject. length (marshal (exchange_json (session_tokens (env s) subject (o_clientID (c_opts c))))) < maxResponseBytes)"

definition code_used :: "string \<Rightarrow> Server \<Rightarrow> Server" where
  "code_used code s = (count ''TokenExchange'' s)\<lparr>sv_codes := AList.delete code (sv_codes s)\<rparr>"

definition session_opened :: "Tokens \<Rightarrow> Server \<Rightarrow> Server" where
  "session_opened t s = s\<lparr>sv_liveRefresh := AList.update (tk_SessionID t) (tk_RefreshToken t) (sv_liveRefresh s),
     sv_issued := AList.update (tk_RefreshToken t) (tk_SessionID t) (sv_issued s)\<rparr>"

lemma IssueSession_tokens:
  "IssueSession ev subject audience s = (session_opened (session_tokens ev subject audience) s, session_tokens ev subject audience)"
  by (simp add: IssueSession_def session_opened_def session_tokens_def Let_def)

definition pkce_refused :: "string \<Rightarrow> goerr" where
  "pkce_refused message = ErrAPI \<lparr>ae_Code = ''invalid_pkce'', ae_Message = message, ae_RequestID = ''req_test'', ae_Status = 400,
     ae_Details = [], ae_class = []\<rparr>"

text \<open>Why a code is refused, if it is.\<close>

definition code_refusal :: "(bytes \<Rightarrow> bytes) \<Rightarrow> Server Client \<Rightarrow> Server \<Rightarrow> Pending \<Rightarrow> string \<Rightarrow> string option" where
  "code_refusal sha256 c s p code =
     (case map_of (sv_codes s) code of
        None \<Rightarrow> Some ''unknown code''
      | Some ac \<Rightarrow>
          if \<not> pkceMatches sha256 (pe_Verifier p) (co_challenge ac) then Some ''verifier does not match challenge''
          else if pe_RedirectURI p \<noteq> co_redirectURI ac \<or> o_clientID (c_opts c) \<noteq> co_clientID ac
          then Some ''redirect_uri or client_id changed'' else None)"

lemma code_messages: "code_refusal h c s p code = Some m \<Longrightarrow>
    m \<in> {''unknown code'', ''verifier does not match challenge'', ''redirect_uri or client_id changed''}"
  by (auto simp: code_refusal_def split: option.splits if_splits)

lemma pkce_answer: "m \<in> {''unknown code'', ''verifier does not match challenge'', ''redirect_uri or client_id changed''} \<Longrightarrow>
    \<exists>v. httpError 400 ''invalid_pkce'' m = writeJSON 400 v \<and> ascii_val v \<and> length (marshal v) < maxResponseBytes \<and>
      read_answer pf 400 v dec zero = Inl (pkce_refused m)"
  by (rule exI [of _ "GMap [(''error'', GStr ''invalid_pkce''), (''message'', GStr m), (''request_id'', GStr ''req_test'')]"],
      auto simp: httpError_def quote_def read_httpError classify_def pkce_refused_def)

lemma tokenExchange_served:
  assumes "rq_body rq = values_Encode (exchange_form c p code)"
  shows "tokenExchange ev s rq =
    (case code_refusal (ev_sha256 ev) c s p code of
       Some m \<Rightarrow> (code_used code s, httpError 400 ''invalid_pkce'' m)
     | None \<Rightarrow> let t = session_tokens ev (case map_of (sv_codes s) code of None \<Rightarrow> [] | Some ac \<Rightarrow> co_subject ac) (o_clientID (c_opts c))
         in (session_opened t (code_used code s), answer_ok (exchange_json t)))"
proof -
  have "map_of (sv_codes (count m s)) code = map_of (sv_codes s) code" for m by (simp add: count_def)
  then show ?thesis
    unfolding tokenExchange_def assms encoded_Get [OF exchange_form_single] exchange_form_Get Let_def
    by (simp add: form_error_encode code_refusal_def IssueSession_tokens exchange_json_def code_used_def count_def Let_def
        split: option.split)
qed

lemma exchange_served:
  assumes "sign_in_env pf env c"
  shows "exchange pf c s p code =
    (case code_refusal (ev_sha256 (env s)) c s p code of
       Some m \<Rightarrow> (code_used code s, Inl (pkce_refused m))
     | None \<Rightarrow>
         let t = session_tokens (env s) (case map_of (sv_codes s) code of None \<Rightarrow> [] | Some ac \<Rightarrow> co_subject ac) (o_clientID (c_opts c));
             s' = session_opened t (code_used code s)
         in (s', Inr (stamp c s' t)))"
proof -
  from assms have c: "talks_to c env" "pf_url_parse pf (c_baseURL c @ ''/v1/token'') \<noteq> None" by (auto simp: sign_in_env_def)
  have route: "map_of mux ''/v1/token'' = Some tokenExchange" by (simp add: mux_def callerRoutes_def)
  show ?thesis
  proof (cases "code_refusal (ev_sha256 (env s)) c s p code")
    case (Some m)
    from pkce_answer [OF code_messages [OF Some], of pf dec_httpTokens zero_httpTokens] obtain v where
      v: "httpError 400 ''invalid_pkce'' m = writeJSON 400 v" "ascii_val v" "length (marshal v) < maxResponseBytes"
        "read_answer pf 400 v dec_httpTokens zero_httpTokens = Inl (pkce_refused m)" by blast
    have "form pf c s ''/v1/token'' (exchange_form c p code) (Some dec_httpTokens) zero_httpTokens =
        (code_used code s, read_answer pf 400 v dec_httpTokens zero_httpTokens)"
      by (rule serve_form [OF c route _ _ _ v(2,3)]) (simp_all add: tokenExchange_served Some v(1))
    with Some v(4) show ?thesis by (simp add: exchange_def)
  next
    case None
    let ?t = "session_tokens (env s) (case map_of (sv_codes s) code of None \<Rightarrow> [] | Some ac \<Rightarrow> co_subject ac) (o_clientID (c_opts c))"
    let ?s = "session_opened ?t (code_used code s)"
    have a: "ascii (tk_AccessToken ?t)" "ascii (tk_RefreshToken ?t)" "ascii (tk_SessionID ?t)"
      using assms by (simp_all add: sign_in_env_def session_tokens_def Let_def)
    have "form pf c s ''/v1/token'' (exchange_form c p code) (Some dec_httpTokens) zero_httpTokens =
        (?s, read_answer pf 200 (exchange_json ?t) dec_httpTokens zero_httpTokens)"
      by (rule serve_form [OF c route]) (use assms a None in \<open>simp_all add: tokenExchange_served Let_def sign_in_env_def, simp_all add: exchange_json_def\<close>)
    moreover have "read_answer pf 200 (exchange_json ?t) dec_httpTokens zero_httpTokens =
        Inr \<lparr>ht_AccessToken = tk_AccessToken ?t, ht_RefreshToken = tk_RefreshToken ?t, ht_TokenType = ''Bearer'', ht_ExpiresIn = 600,
          ht_SessionID = tk_SessionID ?t\<rparr>"
      using a ParseInt_FormatInt [of 600]
      by (simp add: in64_def read_answer_def exchange_json_def dec_httpTokens_def field_for_def zero_httpTokens_def)
    moreover have "tk_TokenType ?t = ''Bearer''" "tk_ExpiresIn ?t = 600" by (simp_all add: session_tokens_def Let_def)
    ultimately show ?thesis using None
      by (simp add: exchange_def httpTokens_tokens_def stamp_def Let_def)
  qed
qed

section \<open>The browser's leg\<close>

text \<open>A map of values survives its encoding, name by name, however many values a name has.\<close>

lemma fold_Add_Get: "map_of (fold (\<lambda>(k, v) q. values_Add q k v) ps q) k =
    (case filter (\<lambda>p. fst p = k) ps of [] \<Rightarrow> map_of q k
     | kvs \<Rightarrow> Some ((case map_of q k of Some vs \<Rightarrow> vs | None \<Rightarrow> []) @ map snd kvs))"
  by (induction ps arbitrary: q) (auto simp: values_Add_def update_conv' split: list.split)

lemma filter_pairs: "wf_map q \<Longrightarrow> filter (\<lambda>p. fst p = k) (concat (map (\<lambda>(k, vs). map (Pair k) vs) q)) =
    map (Pair k) (case map_of q k of Some vs \<Rightarrow> vs | None \<Rightarrow> [])"
proof (induction q)
  case (Cons e q)
  obtain k' vs where e: "e = (k', vs)" by fastforce
  have none: "k' = k \<Longrightarrow> map_of q k = None" using Cons.prems e by (auto simp: wf_map_def map_of_eq_None_iff)
  have "wf_map q" using Cons.prems by (simp add: wf_map_def)
  with Cons.IH e none show ?case by (cases "k' = k") (simp_all add: filter_map comp_def)
qed simp

lemma encoded_Get_any:
  assumes "wf_map q"
  shows "values_Get (ParseQuery (values_Encode q)) k = values_Get q k"
proof -
  let ?s = "sort_key fst q"
  have m: "mset (map fst ?s) = mset (map fst q)" by simp
  then have wf: "wf_map ?s" using assms by (metis wf_map_def mset_eq_imp_distinct_iff)
  then have "map_of ?s k = Some v \<longleftrightarrow> map_of q k = Some v" for v using assms
    by (simp add: wf_map_def map_of_eq_Some_iff)
  then have "map_of ?s k = map_of q k" by (metis option.exhaust)
  with fold_Add_Get [of "concat (map (\<lambda>(k, vs). map (Pair k) vs) ?s)" "[]" k] filter_pairs [OF wf, of k] show ?thesis
    by (auto simp: ParseQuery_def values_Encode_def query_pairs_encode values_Get_def comp_def split: option.split list.split)
qed

definition browse :: "Server Client \<Rightarrow> (Server \<Rightarrow> fake_env) \<Rightarrow> Server \<Rightarrow> string \<Rightarrow> Server \<times> http_response" where
  "browse c env s url =
     serve (c_baseURL c) (env s) s \<lparr>rq_method = ''GET'', rq_url = url, rq_header = [], rq_body = []\<rparr>"

definition AuthorizeRedirect :: "Server Client \<Rightarrow> (Server \<Rightarrow> fake_env) \<Rightarrow> Server \<Rightarrow> string \<Rightarrow> Server \<times> string" where
  "AuthorizeRedirect c env s authorizeURL =
     (case browse c env s authorizeURL of (s', resp) \<Rightarrow> (s', header_Get (rs_header resp) ''Location''))"

abbreviation (input) new_code :: "fake_env \<Rightarrow> string" where "new_code ev \<equiv> ''code_'' @ ev_random ev 0"

definition code_issued :: "fake_env \<Rightarrow> url_values \<Rightarrow> Server \<Rightarrow> Server" where
  "code_issued ev q s = (count ''BrowserAuthorize'' s)\<lparr>sv_codes := AList.update (new_code ev)
     \<lparr>co_challenge = values_Get q ''code_challenge'', co_redirectURI = values_Get q ''redirect_uri'',
      co_clientID = values_Get q ''client_id'', co_subject = ''usr_test''\<rparr> (sv_codes s)\<rparr>"

definition callback_query :: "fake_env \<Rightarrow> url_values \<Rightarrow> url_values" where
  "callback_query ev q = values_Set (values_Set (ev_url_query ev (values_Get q ''redirect_uri'')) ''code'' (new_code ev))
     ''state'' (values_Get q ''state'')"

lemma browse_authorize:
  assumes "CHR ''?'' \<notin> set (c_baseURL c)" "single q"
  shows "browse c env s (c_baseURL c @ ''/v1/authorize?'' @ values_Encode q) = (code_issued (env s) q s,
    \<lparr>rs_status = 302, rs_header = [(''Location'', ev_url_with (env s) (values_Get q ''redirect_uri'')
       (values_Encode (callback_query (env s) q)))], rs_body = [], rs_read_err = None\<rparr>)"
proof -
  let ?url = "c_baseURL c @ ''/v1/authorize?'' @ values_Encode q"
  let ?rq = "\<lparr>rq_method = ''GET'', rq_url = ?url, rq_header = [], rq_body = []\<rparr>"
  have "request_path (c_baseURL c) ?rq = ''/v1/authorize''"
    using break_at_append [of "CHR ''?''" "''/v1/authorize''" "values_Encode q"] by (simp add: request_path_def)
  moreover have "raw_query ?rq = values_Encode q"
    using break_at_append [of "CHR ''?''" "c_baseURL c @ ''/v1/authorize''" "values_Encode q"] assms(1) by (simp add: raw_query_def)
  moreover have "map_of mux ''/v1/authorize'' = Some browserAuthorize" by (simp add: mux_def callerRoutes_def)
  ultimately show ?thesis
    by (simp add: browse_def serve_def browserAuthorize_def code_issued_def callback_query_def encoded_Get [OF assms(2)] Let_def
        count_def)
qed

section \<open>Refreshing\<close>

definition refreshed :: "fake_env \<Rightarrow> string \<Rightarrow> Tokens" where
  "refreshed ev sid = zero_Tokens\<lparr>
     tk_AccessToken := ev_mint ev (zero_Claims\<lparr>cl_Subject := ''usr_test'', cl_Audience := [''billing-api''], cl_Session := sid,
       cl_AMR := [''pwd'']\<rparr>),
     tk_RefreshToken := ''anb_rt_'' @ ev_random ev 0, tk_TokenType := ''Bearer'', tk_ExpiresIn := 600, tk_SessionID := sid\<rparr>"

definition refresh_json :: "Tokens \<Rightarrow> goval" where
  "refresh_json t = GMap [(''tokens'', session_json (tk_AccessToken t) (tk_RefreshToken t) (tk_SessionID t))]"

definition reuse_error :: APIError where
  "reuse_error = \<lparr>ae_Code = ''refresh_token_reuse_detected'', ae_Message = ''Token family revoked. Re-authentication required.'',
     ae_RequestID = ''req_reuse'', ae_Status = 401, ae_Details = [], ae_class = ''unauthenticated''\<rparr>"

definition reuse_answer :: goval where
  "reuse_answer = connect_error ''unauthenticated'' ''Token family revoked. Re-authentication required.''
     (encodeErrorInfo ''refresh_token_reuse_detected'' ''req_reuse'')"

lemma reuse_answer_facts: "ascii_val reuse_answer" "length (marshal reuse_answer) < maxResponseBytes"
proof -
  show "ascii_val reuse_answer" by (simp add: reuse_answer_def connect_error_def)
  have "length (marshal reuse_answer) \<le> 400" by code_simp
  then show "length (marshal reuse_answer) < maxResponseBytes" by simp
qed

lemma reuse_answered:
  "connectError 401 ''unauthenticated'' ''Token family revoked. Re-authentication required.'' ''req_reuse'' = writeJSON 401 reuse_answer"
proof -
  have "Contains ''Token family revoked. Re-authentication required.'' ''family revoked''" by code_simp
  then show ?thesis by (simp add: connectError_def reuse_answer_def)
qed

lemma read_reuse: "read_answer pf 401 reuse_answer dec zero = Inl (ErrRefreshReuse reuse_error)"
proof -
  obtain w where "dec_wireError (to_json reuse_answer) zero_wireError = Some w"
    using connect_decodes unfolding reuse_answer_def by blast
  then have "parseWireError (marshal reuse_answer @ [CHR 0x0A]) 401 = parseWireError (marshal reuse_answer) 401"
    unfolding parseWireError_def unmarshal_marshal [OF reuse_answer_facts(1)] unmarshal_newline [OF reuse_answer_facts(1)] by simp
  also have "\<dots> = reuse_error"
    using parseWireError_connect [of "''unauthenticated''" "''Token family revoked. Re-authentication required.''"
      "''refresh_token_reuse_detected''" "''req_reuse''" "[]" 401]
    by (simp add: reuse_answer_def reuse_error_def details_ok_def firstNonEmpty_def encode_details_def)
  finally show ?thesis by (simp add: read_answer_def classify_def reuse_error_def Let_def)
qed

text \<open>What a session's id and tokens have to be for the answer to be read: printable, of a bounded length.\<close>

definition readable :: "(Server \<Rightarrow> fake_env) \<Rightarrow> Server \<Rightarrow> string \<Rightarrow> bool" where
  "readable env s tok \<longleftrightarrow> tok \<noteq> [] \<and> ascii tok \<and>
     (\<forall>sid. map_of (sv_issued s) tok = Some sid \<longrightarrow>
        ascii sid \<and> length (marshal (refresh_json (refreshed (env s) sid))) < maxResponseBytes)"

definition rotated_to :: "Tokens \<Rightarrow> refresh_server \<Rightarrow> Server \<Rightarrow> Server" where
  "rotated_to t v s = with_refresh (refresh_mint v (tk_SessionID t) (tk_RefreshToken t)) (count ''Refresh'' s)"

lemma refresh_view_count [simp]: "refresh_view (count m s) = refresh_view s"
  by (simp add: refresh_view_def count_def)

lemma refresh_present_issued: "refresh_present v tok = (v', Some sid) \<Longrightarrow> map_of (rv_issued v) tok = Some sid"
  by (auto simp: refresh_present_def Let_def split: option.splits if_splits)

lemma refresh_served:
  assumes "sign_in_env pf env c" "readable env s tok"
  shows "Refresh pf c s tok =
    (case refresh_present (refresh_view s) tok of
       (v, None) \<Rightarrow> (with_refresh v (count ''Refresh'' s), Inl (ErrRefreshReuse reuse_error))
     | (v, Some sid) \<Rightarrow> let t = refreshed (env s) sid; s' = rotated_to t v s in (s', Inr (stamp c s' t)))"
proof -
  let ?path = "''/anubis.v1.AuthService/Refresh''" and ?body = "GMap [(''refresh_token'', GStr tok)]"
  from assms(1) have c: "talks_to c env" "pf_url_parse pf (c_baseURL c @ ?path) \<noteq> None" by (auto simp: sign_in_env_def)
  from assms(2) have tok: "tok \<noteq> []" "ascii tok" by (auto simp: readable_def)
  have route: "map_of mux ?path = Some fake_refresh" by (simp add: mux_def callerRoutes_def)
  have body: "read_string ''refresh_token'' rq = tok" if "rq_body rq = marshal ?body" for rq
    unfolding read_string_def by (rule read_body_marshal [OF that]) (use tok in \<open>simp_all add: field_for_def\<close>)
  obtain v r where vr: "refresh_present (refresh_view s) tok = (v, r)" by fastforce
  show ?thesis
  proof (cases r)
    case None
    have "fake_refresh (env s) s rq = (with_refresh v (count ''Refresh'' s), writeJSON 401 reuse_answer)" if "rq_body rq = marshal ?body" for rq
      unfolding fake_refresh_def body [OF that] Let_def by (simp add: vr None reuse_answered)
    then have "rpcNoAuth pf c s ?path ?body (Some dec_tokens_field) None =
        (with_refresh v (count ''Refresh'' s), read_answer pf 401 reuse_answer dec_tokens_field None)"
      by (intro serve_rpcNoAuth [OF c route _ _ _ reuse_answer_facts]) simp_all
    with tok vr None show ?thesis by (simp add: Refresh_def read_reuse stamped_def)
  next
    case (Some sid)
    let ?t = "refreshed (env s) sid"
    have "map_of (sv_issued s) tok = Some sid" using refresh_present_issued vr Some by (fastforce simp: refresh_view_def)
    with assms have a: "ascii (tk_AccessToken ?t)" "ascii (tk_RefreshToken ?t)" "ascii (tk_SessionID ?t)"
        "length (marshal (refresh_json ?t)) < maxResponseBytes"
      by (simp_all add: readable_def sign_in_env_def refreshed_def)
    have f: "tk_TokenType ?t = ''Bearer''" "tk_ExpiresIn ?t = 600" "tk_IssuedAt ?t = 0" "tk_SessionID ?t = sid"
      by (simp_all add: refreshed_def zero_Tokens_def)
    have "fake_refresh (env s) s rq = (rotated_to ?t v s, writeJSON 200 (refresh_json ?t))" if "rq_body rq = marshal ?body" for rq
      unfolding fake_refresh_def body [OF that] Let_def by (simp add: vr Some rotated_to_def refresh_json_def refreshed_def)
    then have "rpcNoAuth pf c s ?path ?body (Some dec_tokens_field) None =
        (rotated_to ?t v s, read_answer pf 200 (refresh_json ?t) dec_tokens_field None)"
      by (intro serve_rpcNoAuth [OF c route _ _ _ _ a(4)]) (use a in \<open>simp_all add: refresh_json_def session_json_def bearer_tokens_def\<close>)
    moreover have "read_answer pf 200 (refresh_json ?t) dec_tokens_field None = Inr (Some ?t)"
      using a(1-3) f ParseInt_FormatInt [of 600]
      by (simp add: in64_def read_answer_def refresh_json_def session_json_def bearer_tokens_def dec_tokens_field_def dec_Tokens_def
          field_for_def set_ptr_def zero_Tokens_def)
    ultimately show ?thesis using tok vr Some by (simp add: Refresh_def stamped_def Let_def)
  qed
qed

text \<open>A session whose live token was taken out stays without one, whatever refresh requests follow.\<close>

definition dead :: "string \<Rightarrow> Server \<Rightarrow> bool" where
  "dead sid s \<longleftrightarrow> map_of (sv_liveRefresh s) sid = None"

definition refreshes :: "(fake_env \<times> http_request) list \<Rightarrow> Server \<Rightarrow> Server" where
  "refreshes = fold (\<lambda>(ev, rq) s. fst (fake_refresh ev s rq))"

lemma dead_refresh: "dead sid s \<Longrightarrow> dead sid (fst (fake_refresh ev s rq))"
  by (auto simp: dead_def fake_refresh_def refresh_present_def refresh_mint_def with_refresh_def refresh_view_def Let_def count_def
      update_conv' delete_conv' split: option.splits if_splits prod.splits)

lemma dead_refreshes: "dead sid s \<Longrightarrow> dead sid (refreshes reqs s)"
  unfolding refreshes_def by (induction reqs arbitrary: s) (auto intro: dead_refresh)

lemma dead_refused:
  assumes "sign_in_env pf env c" "readable env s tok" "map_of (sv_issued s) tok = Some sid" "dead sid s"
  shows "\<exists>s'. Refresh pf c s tok = (s', Inl (ErrRefreshReuse reuse_error))"
proof -
  from assms(3,4) have "snd (refresh_present (refresh_view s) tok) = None"
    by (simp add: refresh_present_def refresh_view_def dead_def Let_def)
  then show ?thesis unfolding refresh_served [OF assms(1,2)] by (auto split: prod.splits)
qed

text \<open>A token that was used kills its session.\<close>

lemma reuse_kills:
  assumes "sign_in_env pf env c" "readable env s tok" "map_of (sv_issued s) tok = Some sid" "tok \<in> set (sv_consumed s)"
  shows "\<exists>s'. Refresh pf c s tok = (s', Inl (ErrRefreshReuse reuse_error)) \<and> dead sid s'"
proof -
  obtain v where v: "refresh_present (refresh_view s) tok = (v, None)" "map_of (rv_live v) sid = None"
    using assms(3,4) by (auto simp: refresh_present_def refresh_view_def Let_def delete_conv' split: if_splits)
  then have "dead sid (with_refresh v (count ''Refresh'' s))" by (simp add: dead_def with_refresh_def)
  with v(1) show ?thesis unfolding refresh_served [OF assms(1,2)] by simp
qed

text \<open>The live token of a session is rotated.\<close>

definition fresh_token :: "Server \<Rightarrow> string \<Rightarrow> bool" where
  "fresh_token s tok \<longleftrightarrow> map_of (sv_issued s) tok = None \<and> tok \<notin> set (sv_consumed s)"

lemma live_rotates:
  assumes "sign_in_env pf env c" "readable env s tok" "session_open (refresh_view s) sid tok"
    "fresh_token s (''anb_rt_'' @ ev_random (env s) 0)"
  shows "\<exists>s' t. Refresh pf c s tok = (s', Inr t) \<and> tk_SessionID t = sid \<and> tk_RefreshToken t \<noteq> tok \<and>
    session_open (refresh_view s') sid (tk_RefreshToken t) \<and> map_of (sv_issued s') tok = Some sid \<and> tok \<in> set (sv_consumed s')"
proof -
  from assms(3) have o: "map_of (sv_issued s) tok = Some sid" "map_of (sv_liveRefresh s) sid = Some tok" "tok \<notin> set (sv_consumed s)"
    by (simp_all add: session_open_def refresh_view_def)
  let ?v = "(refresh_view s)\<lparr>rv_consumed := tok # sv_consumed s\<rparr>"
  have v: "refresh_present (refresh_view s) tok = (?v, Some sid)"
    using o by (simp add: refresh_present_def refresh_view_def Let_def)
  let ?t = "refreshed (env s) sid"
  have t: "tk_SessionID ?t = sid" "tk_RefreshToken ?t = ''anb_rt_'' @ ev_random (env s) 0" by (simp_all add: refreshed_def)
  from assms(4) o have n: "tk_RefreshToken ?t \<noteq> tok" by (auto simp: t fresh_token_def)
  let ?s = "rotated_to ?t ?v s"
  have "Refresh pf c s tok = (?s, Inr (stamp c ?s ?t))"
    unfolding refresh_served [OF assms(1,2)] by (simp add: v Let_def)
  moreover have "session_open (refresh_view ?s) sid (tk_RefreshToken ?t) \<and> map_of (sv_issued ?s) tok = Some sid \<and> tok \<in> set (sv_consumed ?s)"
    using o n assms(4) t
    by (auto simp: rotated_to_def with_refresh_def refresh_mint_def refresh_view_def session_open_def fresh_token_def update_conv')
  ultimately show ?thesis using n t(1) by (intro exI [of _ ?s] exI [of _ "stamp c ?s ?t"]) (simp add: stamp_def)
qed

section \<open>Decisions\<close>

definition ascii_decision :: "Decision \<Rightarrow> bool" where
  "ascii_decision d \<longleftrightarrow> ascii (dn_Reason d) \<and> ascii (dn_FailingAxis d) \<and> ascii (dn_Message d) \<and> list_all ascii (dn_RequiredAMR d) \<and>
     ascii (dn_MaxAuthAge d) \<and> list_all ascii (dn_CurrentAMR d) \<and> ascii (dn_AuthAge d)"

definition sendable :: "string \<Rightarrow> string \<Rightarrow> smap \<Rightarrow> string list \<Rightarrow> int \<Rightarrow> bool" where
  "sendable subject permission scopes methods authTime \<longleftrightarrow> ascii subject \<and> ascii permission \<and> wf_map scopes \<and>
     (\<forall>(k, v) \<in> set scopes. ascii k \<and> ascii v) \<and> list_all ascii methods \<and> in64 authTime"

definition the_ask :: "string \<Rightarrow> string \<Rightarrow> smap \<Rightarrow> string list \<Rightarrow> int \<Rightarrow> Ask" where
  "the_ask subject permission scopes methods authTime = \<lparr>as_Subject = subject, as_Permission = permission,
     as_Scopes = sort_key fst scopes, as_AMR = methods, as_AuthTime = authTime\<rparr>"

definition asked :: "Ask \<Rightarrow> Server \<Rightarrow> Server" where
  "asked q s = (count ''Authorize'' s)\<lparr>sv_lastAsk := q\<rparr>"

lemma decision_json_facts:
  assumes "ascii_decision d"
  shows "ascii_val (decision_json d)"
    and "dec_Decision (to_json (decision_json d)) zero_Decision = Some (d\<lparr>dn_permission := [], dn_subject := []\<rparr>)"
  using assms by (simp_all add: ascii_decision_def decision_json_def dec_Decision_def field_for_def set_strings_gslice zero_Decision_def)

lemma request_read:
  assumes "sendable subject permission scopes methods authTime" "body = marshal (decision_request subject permission scopes methods authTime)"
  shows "decode_first read_ask zero_Ask body = Some (the_ask subject permission scopes methods authTime)"
proof -
  have a: "ascii_val (decision_request subject permission scopes methods authTime)"
    using assms(1) by (auto simp: sendable_def decision_request_def gsmap_def list_all_iff)
  have "read_ask (to_json (decision_request subject permission scopes methods authTime)) zero_Ask =
      Some (the_ask subject permission scopes methods authTime)"
    using assms(1) by (simp add: sendable_def decision_request_def read_ask_def field_for_def set_strings_gslice set_smap_gsmap
        zero_Ask_def the_ask_def)
  with parses_value [OF parses_marshal [of _ "[]"]] a show ?thesis by (simp add: assms(2) decode_first_def)
qed

lemma ask_served:
  assumes "talks_to c env" "pf_url_parse pf (c_baseURL c @ ''/anubis.v1.AuthzService/Authorize'') \<noteq> None" "the_credential c ctx \<noteq> None"
    and "sendable subject permission scopes methods authTime"
    and "ascii_decision (fake_decision s subject permission)" "length (marshal (decision_json (fake_decision s subject permission))) < maxResponseBytes"
  shows "ask pf c s ctx subject permission scopes methods authTime =
    (asked (the_ask subject permission scopes methods authTime) s,
     Inr ((fake_decision s subject permission)\<lparr>dn_permission := [], dn_subject := []\<rparr>))"
proof -
  let ?path = "''/anubis.v1.AuthzService/Authorize''" and ?body = "decision_request subject permission scopes methods authTime"
  let ?q = "the_ask subject permission scopes methods authTime" and ?d = "fake_decision s subject permission"
  from assms(3) obtain t where t: "the_credential c ctx = Some t" by blast
  have route: "map_of mux ?path = Some fake_authorize" by (simp add: mux_def callerRoutes_def)
  have same: "fake_decision (count m s) sub p = fake_decision s sub p" for m sub p by (simp add: fake_decision_def count_def)
  have served: "fake_authorize (env s) s rq = (asked ?q s, writeJSON 200 (decision_json ?d))" if "request_of pf c ctx ?path ?body rq" for rq
  proof -
    from that have "rq_body rq = marshal ?body" "authorization rq \<noteq> []" by (auto simp: request_of_def)
    with request_read [OF assms(4)] show ?thesis by (simp add: fake_authorize_def asked_def same the_ask_def)
  qed
  have "rpc pf c s ctx ?path ?body (Some dec_Decision) zero_Decision = (asked ?q s, read_answer pf 200 (decision_json ?d) dec_Decision zero_Decision)"
    by (rule serve_rpc [OF assms(1) t assms(2) route _ _ served decision_json_facts(1) [OF assms(5)] assms(6)]) simp_all
  then show ?thesis by (simp add: ask_def read_answer_def decision_json_facts(2) [OF assms(5)])
qed

end
