(* ===== verification/Fake_Verifier.thy ===== *)
theory Fake_Verifier
  imports Fake_Session
begin

text \<open>
  A verifier of the test server's tokens (\<open>Server.Verifier\<close> in \<open>anubistest/server.go\<close>): it knows
  the issuer and the address of the keys document, and fetches the document from the server
  itself. The server answers under its issuer, so the base address and the issuer are one.

  The lemmas: the document fetched is the one key the server signs with, the key is held for
  the five minutes of the cache, and no token makes the cache ask again for thirty seconds.
\<close>

definition Server_Verifier :: "(string \<Rightarrow> gourl option) \<Rightarrow> (string \<Rightarrow> bool) \<Rightarrow> string \<Rightarrow> string \<Rightarrow> Verifier res" where
  "Server_Verifier url_parse ip_loopback issuer audience =
     NewVerifier url_parse ip_loopback \<lparr>cfg_Issuer = issuer, cfg_Audience = audience,
       cfg_KeysURL = issuer @ ''/.well-known/anubis-keys.json'', cfg_StaticKeys = None, cfg_Leeway = 0\<rparr>"

text \<open>The surroundings of a server that publishes \<open>pk\<close> and signs its tokens with \<open>sk\<close>.\<close>

definition signs_with ::
  "(bytes \<Rightarrow> bytes \<Rightarrow> bytes) \<Rightarrow> (bytes \<Rightarrow> bytes \<Rightarrow> bytes \<Rightarrow> bool) \<Rightarrow> bytes \<Rightarrow> bytes \<Rightarrow> string \<Rightarrow> (Server \<Rightarrow> fake_env) \<Rightarrow> bool" where
  "signs_with ed_sign ed_verify sk pk issuer env \<longleftrightarrow>
     ed_pair ed_sign ed_verify sk pk \<and> ascii issuer \<and> length (marshal (keys_json issuer pk)) < 2 ^ 20 \<and>
     (\<forall>s. ev_issuer (env s) = issuer \<and> ev_public (env s) = pk \<and>
       (\<forall>c. MintToken ed_sign sk issuer (ev_now (env s)) c = Inr (ev_mint (env s) c)))"

definition key_held :: "bytes \<Rightarrow> gotime \<Rightarrow> Verifier \<Rightarrow> bool" where
  "key_held pk at v \<longleftrightarrow> cfg_StaticKeys (v_cfg v) = None \<and>
     (\<exists>kc. v_cache v = Some kc \<and> kc_set kc = Some [(Kid, test_key pk)] \<and> kc_lastFetch kc = at \<and>
       ttl kc = DefaultTTL \<and> kc_nextFetch kc = at + DefaultMinRefetch \<and> kc_lastErr kc = None)"

lemma keys_fetched:
  assumes "signs_with ed_sign ed_verify sk pk issuer env" "kc_URL kc = issuer @ ''/.well-known/anubis-keys.json''" "kc_Issuer kc = issuer"
  shows "fetch (fake_net issuer env) s kc = (s, Inr [(Kid, test_key pk)])"
proof -
  from assms(1) have a: "ascii issuer" "length pk = 32" "length (marshal (keys_json issuer pk)) < 2 ^ 20"
      "ev_issuer (env s) = issuer" "ev_public (env s) = pk"
    by (auto simp: signs_with_def ed_pair_def)
  let ?rq = "\<lparr>rq_method = ''GET'', rq_url = kc_URL kc, rq_header = [], rq_body = []\<rparr>"
  have "request_path issuer ?rq = ''/.well-known/anubis-keys.json''" by (simp add: request_path_def assms(2))
  moreover have "map_of mux ''/.well-known/anubis-keys.json'' = Some served_keys" by (simp add: mux_def callerRoutes_def)
  ultimately have net: "fake_net issuer env s ?rq = (s, Inr (answer_ok (keys_json issuer pk)))"
    by (simp add: fake_net_def serve_def served_keys_def a)
  have v: "ascii_val (keys_json issuer pk)" using a by (simp add: keys_json_def Kid_def)
  have "ParseDocument (marshal (keys_json issuer pk) @ [CHR 0x0A]) issuer = ParseDocument (marshal (keys_json issuer pk)) issuer"
    unfolding ParseDocument_def unmarshal_newline [OF v] unmarshal_marshal [OF v] ..
  then have "ParseDocument (marshal (keys_json issuer pk) @ [CHR 0x0A]) issuer = Inr [(Kid, test_key pk)]"
    using keys_document_parses [OF a(1,2)] by simp
  with a(3) show ?thesis by (simp add: fetch_def net assms(3) read_limited_def writeJSON_def)
qed

text \<open>The first lookup fetches; from then on the key is held.\<close>

lemma first_lookup:
  assumes "signs_with ed_sign ed_verify sk pk issuer env" "Server_Verifier url_parse ip_loopback issuer audience = Inr v" "0 \<le> now"
  shows "\<exists>v'. Verifier_key (fake_net issuer env) (s, v) Kid now = ((s, v'), Inr pk) \<and> key_held pk now v' \<and> v_cfg v' = v_cfg v"
    "cfg_Issuer (v_cfg v) = issuer" "cfg_Audience (v_cfg v) = audience" "audience \<noteq> []" "cfg_Leeway (v_cfg v) = 60 * second"
proof -
  let ?kc = "(NewCache (issuer @ ''/.well-known/anubis-keys.json''))\<lparr>kc_Issuer := issuer\<rparr>"
  from assms(2) have v: "v_cfg v = \<lparr>cfg_Issuer = issuer, cfg_Audience = audience,
      cfg_KeysURL = issuer @ ''/.well-known/anubis-keys.json'', cfg_StaticKeys = None, cfg_Leeway = 60 * second\<rparr>"
    "v_cache v = Some ?kc" "audience \<noteq> []"
    by (auto simp: Server_Verifier_def NewVerifier_def Let_def split: if_splits option.splits)
  then show "cfg_Issuer (v_cfg v) = issuer" "cfg_Audience (v_cfg v) = audience" "audience \<noteq> []" "cfg_Leeway (v_cfg v) = 60 * second"
    by simp_all
  have "fetch (fake_net issuer env) s (?kc\<lparr>kc_inflight := True\<rparr>) = (s, Inr [(Kid, test_key pk)])"
    by (rule keys_fetched [OF assms(1)]) (simp_all add: NewCache_def)
  then have "Cache_GetAt (fake_net issuer env) s ?kc Kid now = (s, ?kc\<lparr>kc_set := Some [(Kid, test_key pk)], kc_lastFetch := now,
      kc_nextFetch := now + DefaultMinRefetch\<rparr>, Inr pk)"
    using assms(3)
    by (simp add: Cache_GetAt_def hot_lookup_def snapshot_def refetch_def refetch_enter_def refetch_commit_def refetch_release_def
        GetAt_finish_def Set_GetAt_def test_key_def minRefetch_def NewCache_def)
  then show "\<exists>v'. Verifier_key (fake_net issuer env) (s, v) Kid now = ((s, v'), Inr pk) \<and> key_held pk now v' \<and> v_cfg v' = v_cfg v"
    using v by (simp add: Verifier_key_def key_held_def ttl_def NewCache_def)
qed

lemma held_lookup:
  assumes "key_held pk at v" "at \<le> t" "t < at + DefaultTTL"
  shows "Verifier_key net (w, v) Kid t = ((w, v), Inr pk)"
proof -
  from assms(1) obtain kc where kc: "cfg_StaticKeys (v_cfg v) = None" "v_cache v = Some kc" "kc_set kc = Some [(Kid, test_key pk)]"
    "kc_lastFetch kc = at" "ttl kc = DefaultTTL" by (auto simp: key_held_def)
  have "hot_lookup kc Kid t = Some pk"
    using assms(2,3) kc(3-5) by (simp add: hot_lookup_def snapshot_def Time_Sub_def Set_GetAt_def test_key_def)
  with kc(1,2) show ?thesis by (cases v) (simp add: Verifier_key_def Cache_GetAt_def)
qed

text \<open>Whatever kid is asked for, inside the thirty seconds nothing is fetched.\<close>

lemma held_quiet:
  assumes "key_held pk at v" "t < at + DefaultMinRefetch"
  shows "fst (Verifier_key net (w, v) kid t) = (w, v)"
proof -
  from assms(1) obtain kc where kc: "cfg_StaticKeys (v_cfg v) = None" "v_cache v = Some kc" "kc_nextFetch kc = at + DefaultMinRefetch"
    by (auto simp: key_held_def)
  obtain r where "Cache_GetAt net w kc kid t = (w, kc, r)"
    using Cache_GetAt_throttled [of kc t net w kid] kc(3) assms(2) by (metis prod.collapse)
  with kc(1,2) show ?thesis by (cases v) (simp add: Verifier_key_def)
qed

lemma quiet_verify:
  assumes "\<And>kid. fst (key_at s kid now) = s"
  shows "fst (verify_token key_at ed_verify issuer audience leeway s now token) = s"
proof -
  have "key_at s kid now = (s', r) \<Longrightarrow> s' = s" for kid s' r using assms [of kid] by simp
  then show ?thesis unfolding verify_token_def by (auto split: sum.split prod.split)
qed

section \<open>The tokens the server issues\<close>

text \<open>Claims left to the server to complete, for one audience at least.\<close>

definition issuable :: "string \<Rightarrow> Claims \<Rightarrow> bool" where
  "issuable audience c \<longleftrightarrow> plain_Claims c \<and> cl_Issuer c = [] \<and> cl_Expires c = 0 \<and> cl_NotBefore c = 0 \<and> cl_Version c \<in> {0, 1} \<and>
     audience \<in> set (cl_Audience c)"

definition clock_since_1970 :: "gotime \<Rightarrow> bool" where
  "clock_since_1970 now \<longleftrightarrow> clock_ok now \<and> unixToInternal * second \<le> now"

text \<open>Ten minutes of life and one of leeway.\<close>

definition issued_verdict :: "string \<Rightarrow> gotime \<Rightarrow> Claims \<Rightarrow> gotime \<Rightarrow> Claims res" where
  "issued_verdict issuer at c t =
     (if Time_Unix t \<le> Time_Unix at + 660 then Inr ((minted issuer at c)\<lparr>cl_Scopes := sort_key fst (cl_Scopes c)\<rparr>) else Inl ErrExpired)"

lemma session_claims_issuable: "list_all ascii [subject, audience, sid] \<Longrightarrow> issuable audience (session_claims subject audience sid)"
  by (simp add: issuable_def session_claims_def plain_Claims_def zero_Claims_def wf_map_def in64_def)

lemma issued_token_verdict:
  assumes env: "signs_with ed_sign ed_verify sk pk issuer env" and c: "issuable audience c" "audience \<noteq> []"
    and time: "clock_since_1970 (ev_now (env s0))" "clock_ok t"
    and key: "key_at s Kid t = (s', Inr pk)"
  shows "verify_token key_at ed_verify issuer audience (60 * second) s t (ev_mint (env s0) c) =
    (s', issued_verdict issuer (ev_now (env s0)) c t)"
proof -
  let ?now = "ev_now (env s0)"
  let ?c = "(minted issuer ?now c)\<lparr>cl_Scopes := sort_key fst (cl_Scopes c)\<rparr>"
  from env have e: "ed_pair ed_sign ed_verify sk pk" "ascii issuer" "MintToken ed_sign sk issuer ?now c = Inr (ev_mint (env s0) c)"
    by (auto simp: signs_with_def)
  from time have now: "clock_ok ?now" "0 \<le> Time_Unix ?now"
    using clock_Unix [of ?now] by (auto simp: clock_since_1970_def unixToInternal_def)
  have "Claims_Validate ?c t issuer audience (60 * second) =
      (if Time_Unix t \<le> Time_Unix ?now + 600 + 60 * second sdiv second then None else Some ErrExpired)"
    by (rule Validate_lifetime [OF _ _ _ _ _ _ now(1) time(2)])
      (use c now clock_later [OF now(1), of 600] in \<open>simp_all add: issuable_def minted_def leeway_ok_def in64_def\<close>)
  moreover have "cl_Version ?c \<in> {0, 1}" using c by (simp add: issuable_def minted_def)
  moreover have "plain_Claims c" using c by (simp add: issuable_def)
  ultimately show ?thesis
    using signed_token_verdict [where key_at = key_at, OF e(1) e(3) [unfolded MintToken_def] key minted_message [OF _ e(2)]]
    by (simp add: issued_verdict_def)
qed

end
