(* ===== verification/Server_Properties.thy ===== *)
theory Server_Properties
  imports Fake_Session Fake_Verifier Demo_Server
begin

text \<open>
  The client and the test server together: a whole sign-in from the authorize URL to the
  session, the life of a refresh token, a decision from the table to the caller, and the
  verification of what the server signs.
\<close>

section \<open>Signing in\<close>

lemma Get_callback:
  "values_Get (callback_query ev q) ''code'' = new_code ev"
  "values_Get (callback_query ev q) ''state'' = values_Get q ''state''"
  "values_Get (callback_query ev q) ''error'' = values_Get (ev_url_query ev (values_Get q ''redirect_uri'')) ''error''"
  "wf_map (ev_url_query ev (values_Get q ''redirect_uri'')) \<Longrightarrow> wf_map (callback_query ev q)"
  by (simp_all add: callback_query_def Get_Set) (simp add: values_Set_def)

lemma login_query_client: "values_Get (login_query pf c p st vf) ''client_id'' = o_clientID (c_opts c)"
  unfolding login_query_def Let_def by (simp add: Get_Set Get_setIf) (simp add: values_Get_def)

lemma refusal_issued:
  assumes "map_of (sv_codes s) code = Some \<lparr>co_challenge = raw_url_encode (h vf), co_redirectURI = uri,
      co_clientID = o_clientID (c_opts c), co_subject = subject\<rparr>" "h vf \<noteq> []"
  shows "code_refusal h c s p code = None \<longleftrightarrow> pe_Verifier p \<noteq> [] \<and> h (pe_Verifier p) = h vf \<and> pe_RedirectURI p = uri"
  using assms raw_url_encode_not_Nil [of "h vf"] by (auto simp: code_refusal_def pkceMatches_def dest: raw_url_encode_inj)

lemma used_code_gone: "map_of (sv_codes (code_used code s)) code = None" "map_of (sv_codes (session_opened t (code_used code s))) code = None"
  by (simp_all add: code_used_def session_opened_def delete_conv')

lemma unknown_code:
  assumes "sign_in_env pf env c" "map_of (sv_codes s) code = None"
  shows "exchange pf c s p code = (code_used code s, Inl (pkce_refused ''unknown code''))"
  using exchange_served [OF assms(1), of s p code] assms(2) by (simp add: code_refusal_def)

text \<open>C4: A whole sign-in of a client over the test server: \<open>BeginLogin\<close>, the browser's visit to the
  URL it was given, the callback it is redirected to, \<open>CompleteLogin\<close>. It gives the tokens of a
  session the server opened for the user, its refresh token live. The code the browser
  carried is good only for the verifier and the redirect of this very sign-in, whatever other
  requests came between, and good for nobody once it was exchanged. Assumed: 32 random bytes,
  32-byte hashes, the time of the sign-in surviving its JSON form, a redirect address with no
  \<open>error\<close> parameter of its own, and that a URL gives back the query it was built with.\<close>

theorem sign_in_end_to_end:
  assumes client: "sign_in_env pf env c" "o_loginStore (c_opts c) = Some (cookieStore pf)" "CHR ''?'' \<notin> set (c_baseURL c)"
    and hash: "\<forall>w w' b. pf_rand32 pf w = (w', Some b) \<longrightarrow> length b = 32" "\<forall>m. length (pf_sha256 pf m) = 32"
      "\<forall>s. ev_sha256 (env s) = pf_sha256 pf"
    and time: "\<forall>tm. pf_time_format pf (client_now c s1) = Some tm \<longrightarrow> list_all safe_char tm \<and> pf_time_parse pf tm = Some (client_now c s1)"
    and uri: "ascii (lp_RedirectURI p)" "wf_map (ev_url_query (env s1) (lp_RedirectURI p))"
      "values_Get (ev_url_query (env s1) (lp_RedirectURI p)) ''error'' = []" "\<forall>u q. query_part (ev_url_with (env s1) u q) = q"
    and begins: "BeginLogin pf c (s, []) p = ((s1, j1), Inr rd)"
    and visits: "AuthorizeRedirect c env s1 (rd_URL rd) = (s2, location)"
    and others: "map_of (sv_codes s3) (new_code (env s1)) = map_of (sv_codes s2) (new_code (env s1))"
    and callback: "sr_Cookies r = browser j1 br" "sr_RawQuery r = query_part location"
      "Time_Sub (client_now c s3) (client_now c s1) \<le> loginTTL"
  shows "\<exists>t s4 j2 verifier. CompleteLogin pf c (s3, []) r = ((s4, j2), Inr t) \<and>
      tk_AccessToken t = ev_mint (env s3) (session_claims ''usr_test'' (o_clientID (c_opts c)) (tk_SessionID t)) \<and>
      map_of (sv_issued s4) (tk_RefreshToken t) = Some (tk_SessionID t) \<and>
      map_of (sv_liveRefresh s4) (tk_SessionID t) = Some (tk_RefreshToken t) \<and>
      (\<forall>q s5 t'. exchange pf c s3 q (new_code (env s1)) = (s5, Inr t') \<longrightarrow>
         pf_sha256 pf (pe_Verifier q) = pf_sha256 pf verifier \<and> pe_RedirectURI q = lp_RedirectURI p) \<and>
      (\<forall>q. \<exists>s5. exchange pf c s4 q (new_code (env s1)) = (s5, Inl (pkce_refused ''unknown code'')))"
proof -
  from BeginLogin_Inr [OF begins] obtain wa wb vf where b:
    "rd_URL rd = c_baseURL c @ ''/v1/authorize?'' @ values_Encode (login_query pf c p (rd_State rd) vf)"
    "store_Put c wb [] \<lparr>pe_State = rd_State rd, pe_Verifier = vf, pe_RedirectURI = lp_RedirectURI p, pe_Created = client_now c wb\<rparr> = ((s1, j1), None)"
    "randomToken pf s = (wa, Inr (rd_State rd))" "randomToken pf wa = (wb, Inr vf)" by blast
  let ?q = "login_query pf c p (rd_State rd) vf" and ?code = "new_code (env s1)"
  from b(2) client(2) cookieStore_Put_world have wb: "wb = s1" by (fastforce simp: store_Put_def cookieStore_def)
  let ?p = "\<lparr>pe_State = rd_State rd, pe_Verifier = vf, pe_RedirectURI = lp_RedirectURI p, pe_Created = client_now c s1\<rparr>"
  have vf: "vf \<noteq> []" "pf_sha256 pf vf \<noteq> []"
    using randomToken_not_Nil [OF hash(1) b(4)] hash(2) [rule_format, of vf] by auto
  have ok: "cookie_storable pf ?p" using randomToken_ascii b(3,4) uri(1) time by (auto simp: cookie_storable_def)
  obtain j2 where taken: "cookieStore_Take pf s3 [] r = ((s3, j2), Inr ?p)"
    using kept_login_taken [OF b(2) [unfolded wb] client(2) ok callback(1), of s3] by blast
  from visits have v: "s2 = code_issued (env s1) ?q s1" "location = ev_url_with (env s1) (lp_RedirectURI p) (values_Encode (callback_query (env s1) ?q))"
    unfolding b(1) AuthorizeRedirect_def browse_authorize [OF client(3) login_query_single] login_query_Get by (auto simp: header_Get_def)
  have query: "values_Get (ParseQuery (sr_RawQuery r)) k = values_Get (callback_query (env s1) ?q) k" for k
    using encoded_Get_any [OF Get_callback(4)] uri(2,4) by (simp add: callback(2) v(2) login_query_Get)
  have completes: "CompleteLogin pf c (s3, []) r = (case exchange pf c s3 ?p ?code of (s4, res) \<Rightarrow> ((s4, j2), res))"
    by (rule callback_exchanges [OF taken client(2)])
      (use callback(3) uri(3) in \<open>simp_all add: query Get_callback login_query_Get\<close>)
  have issued: "map_of (sv_codes s3) ?code = Some \<lparr>co_challenge = raw_url_encode (pf_sha256 pf vf), co_redirectURI = lp_RedirectURI p,
      co_clientID = o_clientID (c_opts c), co_subject = ''usr_test''\<rparr>"
    unfolding others v(1) by (simp add: code_issued_def update_conv' login_query_Get login_query_client)
  note refusal = refusal_issued [where h = "pf_sha256 pf", OF issued vf(2)]
  let ?t = "session_tokens (env s3) ''usr_test'' (o_clientID (c_opts c))"
  let ?s = "session_opened ?t (code_used ?code s3)"
  have ex: "exchange pf c s3 ?p ?code = (?s, Inr (stamp c ?s ?t))"
    using exchange_served [OF client(1), of s3 ?p ?code] refusal [of ?p] hash(3) vf(1) issued by (simp add: Let_def)
  have "\<forall>q s5 t'. exchange pf c s3 q ?code = (s5, Inr t') \<longrightarrow>
      pf_sha256 pf (pe_Verifier q) = pf_sha256 pf vf \<and> pe_RedirectURI q = lp_RedirectURI p"
    using exchange_served [OF client(1), of s3 _ ?code] refusal hash(3) by (auto split: option.splits)
  moreover have "\<forall>q. \<exists>s5. exchange pf c ?s q ?code = (s5, Inl (pkce_refused ''unknown code''))"
    using unknown_code [OF client(1) used_code_gone(2)] by blast
  ultimately show ?thesis using completes ex
    by (intro exI [of _ "stamp c ?s ?t"] exI [of _ ?s] exI [of _ j2] exI [of _ vf])
      (simp add: stamp_def session_opened_def session_tokens_def Let_def update_conv')
qed

text \<open>A server whose surroundings hash to 32 bytes, and an application's client of it.\<close>

definition demo_hash :: "bytes \<Rightarrow> bytes" where "demo_hash m = take 32 (m @ replicate 32 (CHR ''.''))"

definition demo_site :: "Server \<Rightarrow> fake_env" where
  "demo_site s = demo_fake\<lparr>ev_sha256 := demo_hash,
     ev_url_with := \<lambda>u q. takeWhile (\<lambda>ch. ch \<noteq> CHR ''?'') u @ ''?'' @ q\<rparr>"

definition demo_query_part :: "string \<Rightarrow> string" where
  "demo_query_part u = (case break_at (CHR ''?'') u of None \<Rightarrow> [] | Some (_, q) \<Rightarrow> q)"

definition demo_site_pf :: "Server platform" where "demo_site_pf = demo_spf\<lparr>pf_sha256 := demo_hash\<rparr>"

definition demo_site_client :: "Server Client" where
  "demo_site_client = (let c = demo_of (fake_net ''https://id.example'' demo_site) []
     in c\<lparr>c_opts := (c_opts c)\<lparr>o_clientID := ''web'', o_loginStore := Some (cookieStore demo_site_pf)\<rparr>\<rparr>)"

lemma demo_site_client_fields [simp]:
  "c_baseURL demo_site_client = ''https://id.example''" "o_clientID (c_opts demo_site_client) = ''web''" "o_clientSecret (c_opts demo_site_client) = []"
  "o_loginStore (c_opts demo_site_client) = Some (cookieStore demo_site_pf)" "client_now demo_site_client s = demo_now" "o_tenant (c_opts demo_site_client) = []"
  "o_apiKey (c_opts demo_site_client) = []" "o_cache (c_opts demo_site_client) = None"
  by (simp_all add: demo_site_client_def demo_of_def Let_def client_now_def)

lemma demo_site_pf_fields [simp]:
  "pf_url_parse demo_site_pf u \<noteq> None" "pf_sha256 demo_site_pf = demo_hash" "pf_time_format demo_site_pf t = Some ''now''"
  "pf_time_parse demo_site_pf u = Some demo_now" "pf_rand32 demo_site_pf s = (s, Some (replicate 32 (CHR ''r'')))"
  by (simp_all add: demo_site_pf_def demo_spf_def)

lemma demo_site_fields [simp]:
  "ev_random (demo_site s) n = ''r''" "ev_mint (demo_site s) cl = ''tok''" "ev_url_query (demo_site s) u = []"
  "ev_sha256 (demo_site s) = demo_hash" "ev_now (demo_site s) = demo_now"
  by (simp_all add: demo_site_def demo_fake_def)

lemma demo_query_part: "demo_query_part (ev_url_with (demo_site s) u q) = q"
proof -
  have "break_at (CHR ''?'') (takeWhile (\<lambda>ch. ch \<noteq> CHR ''?'') u @ CHR ''?'' # q) = Some (takeWhile (\<lambda>ch. ch \<noteq> CHR ''?'') u, q)"
    by (rule break_at_append) (auto dest: set_takeWhileD)
  then show ?thesis by (simp add: demo_query_part_def demo_site_def)
qed

lemma demo_site_client_talks: "talks_to demo_site_client demo_site"
  by (simp add: talks_to_def demo_site_client_def demo_of_def Let_def wf_options_def)

lemma demo_site_client_signs_in: "sign_in_env demo_site_pf demo_site demo_site_client"
  using demo_site_client_talks
  by (simp add: sign_in_env_def session_tokens_def exchange_json_def Let_def quote_def FormatInt_def nat_dec.simps)

definition demo_site_client_params :: LoginParams where
  "demo_site_client_params = \<lparr>lp_RedirectURI = ''https://app.example/cb'', lp_Scope = [], lp_Realm = [], lp_Page = [], lp_Tenant = [],
     lp_Nonce = [], lp_Prompt = [], lp_ACRValues = [], lp_MaxAge = 0\<rparr>"

lemma demo_site_client_begins:
  "\<exists>j rd. BeginLogin demo_site_pf demo_site_client (demo_server, []) demo_site_client_params = ((demo_server, j), Inr rd)"
  by (simp add: BeginLogin_def randomToken_def store_Put_def cookieStore_def cookieStore_Put_def demo_site_client_params_def
      del: marshal.simps)

theorem sign_in_end_to_end_witness:
  "\<exists>j rd s2 location t s4 j2. BeginLogin demo_site_pf demo_site_client (demo_server, []) demo_site_client_params = ((demo_server, j), Inr rd) \<and>
     AuthorizeRedirect demo_site_client demo_site demo_server (rd_URL rd) = (s2, location) \<and>
     CompleteLogin demo_site_pf demo_site_client (s2, [])
       \<lparr>sr_Method = ''GET'', sr_Header = [], sr_Cookies = browser j [],
        sr_RawQuery = demo_query_part location, sr_PostForm = None\<rparr> = ((s4, j2), Inr t) \<and>
     tk_AccessToken t = ''tok'' \<and> map_of (sv_liveRefresh s4) (tk_SessionID t) = Some (tk_RefreshToken t)"
proof -
  from demo_site_client_begins obtain j rd where
    b: "BeginLogin demo_site_pf demo_site_client (demo_server, []) demo_site_client_params = ((demo_server, j), Inr rd)" by blast
  obtain s2 location where v: "AuthorizeRedirect demo_site_client demo_site demo_server (rd_URL rd) = (s2, location)" by fastforce
  let ?r = "\<lparr>sr_Method = ''GET'', sr_Header = [], sr_Cookies = browser j [],
        sr_RawQuery = demo_query_part location, sr_PostForm = None\<rparr>"
  have "\<exists>t s4 j2 verifier. CompleteLogin demo_site_pf demo_site_client (s2, []) ?r = ((s4, j2), Inr t) \<and>
      tk_AccessToken t = ev_mint (demo_site s2) (session_claims ''usr_test'' (o_clientID (c_opts demo_site_client)) (tk_SessionID t)) \<and>
      map_of (sv_issued s4) (tk_RefreshToken t) = Some (tk_SessionID t) \<and>
      map_of (sv_liveRefresh s4) (tk_SessionID t) = Some (tk_RefreshToken t) \<and>
      (\<forall>q s5 t'. exchange demo_site_pf demo_site_client s2 q (new_code (demo_site demo_server)) = (s5, Inr t') \<longrightarrow>
         pf_sha256 demo_site_pf (pe_Verifier q) = pf_sha256 demo_site_pf verifier \<and> pe_RedirectURI q = lp_RedirectURI demo_site_client_params) \<and>
      (\<forall>q. \<exists>s5. exchange demo_site_pf demo_site_client s4 q (new_code (demo_site demo_server)) = (s5, Inl (pkce_refused ''unknown code'')))"
    by (rule sign_in_end_to_end [OF demo_site_client_signs_in _ _ _ _ _ _ _ _ _ _ b v refl, where query_part = demo_query_part and br = "[]"])
      (auto simp: demo_hash_def demo_site_client_params_def ascii_def wf_map_def values_Get_def demo_query_part Time_Sub_def
        safe_char_def plain_char_def)
  then obtain t s4 j2 where "CompleteLogin demo_site_pf demo_site_client (s2, []) ?r = ((s4, j2), Inr t)"
    "tk_AccessToken t = ''tok''" "map_of (sv_liveRefresh s4) (tk_SessionID t) = Some (tk_RefreshToken t)" by auto
  with b v show ?thesis by blast
qed

section \<open>Refreshing\<close>

text \<open>C5: The life of a refresh token between \<open>Refresh\<close> and the test server. The live token of a
  session is rotated: another one, live and unused, of the same session. Presented again, it
  gives \<open>ErrRefreshReuse\<close>; and then every token of that session is refused in the same way,
  the new one included, after any further refresh requests of anybody.\<close>

theorem refresh_end_to_end:
  assumes "sign_in_env pf env c" "readable env s tok" "session_open (refresh_view s) sid tok"
    and "fresh_token s (''anb_rt_'' @ ev_random (env s) 0)"
  shows "\<exists>s1 t. Refresh pf c s tok = (s1, Inr t) \<and> tk_SessionID t = sid \<and> tk_RefreshToken t \<noteq> tok \<and>
    session_open (refresh_view s1) sid (tk_RefreshToken t) \<and>
    (\<forall>s2. refresh_view s2 = refresh_view s1 \<and> readable env s2 tok \<longrightarrow>
       (\<exists>s3. Refresh pf c s2 tok = (s3, Inl (ErrRefreshReuse reuse_error)) \<and>
          (\<forall>reqs old. map_of (sv_issued (refreshes reqs s3)) old = Some sid \<and> readable env (refreshes reqs s3) old \<longrightarrow>
             (\<exists>s4. Refresh pf c (refreshes reqs s3) old = (s4, Inl (ErrRefreshReuse reuse_error))))))"
proof -
  from live_rotates [OF assms] obtain s1 t where r: "Refresh pf c s tok = (s1, Inr t)" "tk_SessionID t = sid" "tk_RefreshToken t \<noteq> tok"
    "session_open (refresh_view s1) sid (tk_RefreshToken t)" "map_of (sv_issued s1) tok = Some sid" "tok \<in> set (sv_consumed s1)" by blast
  have "\<exists>s3. Refresh pf c s2 tok = (s3, Inl (ErrRefreshReuse reuse_error)) \<and>
      (\<forall>reqs old. map_of (sv_issued (refreshes reqs s3)) old = Some sid \<and> readable env (refreshes reqs s3) old \<longrightarrow>
         (\<exists>s4. Refresh pf c (refreshes reqs s3) old = (s4, Inl (ErrRefreshReuse reuse_error))))"
    if "refresh_view s2 = refresh_view s1" "readable env s2 tok" for s2
  proof -
    from that(1) r(5,6) have "map_of (sv_issued s2) tok = Some sid" "tok \<in> set (sv_consumed s2)" by (simp_all add: refresh_view_def)
    from reuse_kills [OF assms(1) that(2) this] dead_refused [OF assms(1)] dead_refreshes show ?thesis by metis
  qed
  with r show ?thesis by blast
qed

lemma demo_site_client_readable: "tok \<noteq> [] \<Longrightarrow> ascii tok \<Longrightarrow> \<forall>sid. map_of (sv_issued s) tok = Some sid \<longrightarrow> sid = ''ses_1'' \<Longrightarrow> readable demo_site s tok"
  by (auto simp: readable_def refreshed_def refresh_json_def session_json_def bearer_tokens_def quote_def FormatInt_def nat_dec.simps)

definition demo_signed_in :: Server where
  "demo_signed_in = demo_server\<lparr>sv_liveRefresh := [(''ses_1'', ''anb_rt_0'')], sv_issued := [(''anb_rt_0'', ''ses_1'')]\<rparr>"

theorem refresh_end_to_end_witness:
  "\<exists>s1 t s3. Refresh demo_site_pf demo_site_client demo_signed_in ''anb_rt_0'' = (s1, Inr t) \<and> tk_SessionID t = ''ses_1'' \<and>
     Refresh demo_site_pf demo_site_client s1 ''anb_rt_0'' = (s3, Inl (ErrRefreshReuse reuse_error))"
proof -
  have i: "readable demo_site demo_signed_in ''anb_rt_0''"
    by (rule demo_site_client_readable) (simp_all add: demo_signed_in_def)
  have o: "session_open (refresh_view demo_signed_in) ''ses_1'' ''anb_rt_0''"
    "fresh_token demo_signed_in (''anb_rt_'' @ ev_random (demo_site demo_signed_in) 0)"
    by (simp_all add: session_open_def refresh_view_def fresh_token_def demo_signed_in_def demo_server_def NewServer_def)
  from refresh_end_to_end [OF demo_site_client_signs_in i o] obtain s1 t where
    r: "Refresh demo_site_pf demo_site_client demo_signed_in ''anb_rt_0'' = (s1, Inr t)" "tk_SessionID t = ''ses_1''" and
    replay: "\<And>s2. refresh_view s2 = refresh_view s1 \<Longrightarrow> readable demo_site s2 ''anb_rt_0'' \<Longrightarrow>
      \<exists>s3. Refresh demo_site_pf demo_site_client s2 ''anb_rt_0'' = (s3, Inl (ErrRefreshReuse reuse_error))" by blast
  from live_rotates [OF demo_site_client_signs_in i o] r(1) have "map_of (sv_issued s1) ''anb_rt_0'' = Some ''ses_1''" by auto
  then have "readable demo_site s1 ''anb_rt_0''" by (intro demo_site_client_readable) simp_all
  with replay [OF refl] r show ?thesis by blast
qed

section \<open>Deciding\<close>

text \<open>The table's key is the subject, a bar, the permission.\<close>

lemma bar_inj:
  assumes "CHR ''|'' \<notin> set a" "CHR ''|'' \<notin> set b"
  shows "bar a p = bar b q \<longleftrightarrow> a = b \<and> p = q"
proof
  assume "bar a p = bar b q"
  then have "break_at (CHR ''|'') (a @ CHR ''|'' # p) = break_at (CHR ''|'') (b @ CHR ''|'' # q)" by (simp add: bar_def)
  then show "a = b \<and> p = q" by (simp add: assms)
qed simp

text \<open>C6: A decision on the test server reaches the caller unchanged: \<open>authorize\<close>, when no cache
  answers for it, returns exactly what the table has for subject and permission (a refusal
  where it has nothing), naming both; the server has recorded exactly the question asked, with
  its scopes, methods and time, and is otherwise as it was but for a counter. Setting one
  entry of the table changes that answer and no other, for subjects without a bar.\<close>

theorem decisions_end_to_end:
  assumes "talks_to c env" "\<forall>u. pf_url_parse pf u \<noteq> None" "the_credential c ctx \<noteq> None"
    and "askable subject permission" "sendable subject permission scopes methods authTime"
    and "ascii_decision (fake_decision s subject permission)"
      "length (marshal (decision_json (fake_decision s subject permission))) < maxResponseBytes"
    and "\<forall>dc. o_cache (c_opts c) = Some dc \<longrightarrow>
      cache_get dc (cacheKey (pf_sha256 pf) subject permission scopes methods authTime) (client_now c s) = None"
  shows "(\<exists>c'. authorize pf (s, c) ctx subject permission scopes methods authTime =
      ((asked (the_ask subject permission scopes methods authTime) s, c'),
       Inr ((fake_decision s subject permission)\<lparr>dn_permission := permission, dn_subject := subject\<rparr>))) \<and>
    (\<forall>d other key. CHR ''|'' \<notin> set subject \<and> CHR ''|'' \<notin> set other \<longrightarrow>
      fake_decision (set_decision other key d s) subject permission =
        (if other = subject \<and> key = permission then d else fake_decision s subject permission))"
proof
  have ask: "ask pf c s ctx subject permission scopes methods authTime =
      (asked (the_ask subject permission scopes methods authTime) s,
       Inr ((fake_decision s subject permission)\<lparr>dn_permission := [], dn_subject := []\<rparr>))"
    by (rule ask_served [OF assms(1) _ assms(3,5-7)]) (use assms(2) in blast)
  have "subject \<noteq> []" "permission \<noteq> []" "Permission_IsValid permission" using assms(4) empty_invalid by (auto simp: askable_def)
  with ask assms(8) show "\<exists>c'. authorize pf (s, c) ctx subject permission scopes methods authTime =
      ((asked (the_ask subject permission scopes methods authTime) s, c'),
       Inr ((fake_decision s subject permission)\<lparr>dn_permission := permission, dn_subject := subject\<rparr>))"
    by (auto simp: authorize_def Let_def split: option.split)
  show "\<forall>d other key. CHR ''|'' \<notin> set subject \<and> CHR ''|'' \<notin> set other \<longrightarrow>
      fake_decision (set_decision other key d s) subject permission =
        (if other = subject \<and> key = permission then d else fake_decision s subject permission)"
    by (auto simp: fake_decision_def set_decision_def update_conv' bar_inj)
qed

theorem decisions_end_to_end_witness:
  "\<exists>s' d. authorize demo_spf (Allow ''usr_1'' ''billing:invoice:approve'' demo_server, demo_operator ''anb_live_k'') demo_ctx
       ''usr_1'' ''billing:invoice:approve'' [(''region'', ''n1'')] [''pwd''] 0 = (s', Inr d) \<and> dn_Allow d \<and>
     as_Scopes (sv_lastAsk (fst s')) = [(''region'', ''n1'')]"
proof -
  let ?s = "Allow ''usr_1'' ''billing:invoice:approve'' demo_server"
  have d: "fake_decision ?s ''usr_1'' ''billing:invoice:approve'' = zero_Decision\<lparr>dn_Allow := True\<rparr>"
    by (simp add: fake_decision_def Allow_def set_decision_def update_conv')
  have v: "Permission_IsValid ''billing:invoice:approve''" by code_simp
  have "(\<exists>c'. authorize demo_spf (?s, demo_operator ''anb_live_k'') demo_ctx ''usr_1'' ''billing:invoice:approve'' [(''region'', ''n1'')] [''pwd''] 0 =
      ((asked (the_ask ''usr_1'' ''billing:invoice:approve'' [(''region'', ''n1'')] [''pwd''] 0) ?s, c'),
       Inr ((fake_decision ?s ''usr_1'' ''billing:invoice:approve'')\<lparr>dn_permission := ''billing:invoice:approve'', dn_subject := ''usr_1''\<rparr>))) \<and>
    (\<forall>d other key. CHR ''|'' \<notin> set ''usr_1'' \<and> CHR ''|'' \<notin> set other \<longrightarrow>
      fake_decision (set_decision other key d ?s) ''usr_1'' ''billing:invoice:approve'' =
        (if other = ''usr_1'' \<and> key = ''billing:invoice:approve'' then d else fake_decision ?s ''usr_1'' ''billing:invoice:approve''))"
    by (rule decisions_end_to_end [OF demo_talks])
      (simp_all add: v askable_def sendable_def d ascii_decision_def zero_Decision_def decision_json_def wf_map_def in64_def quote_def
        gstrs_def HasPrefix_def the_credential_def, simp add: demo_of_def)
  then show ?thesis by (auto simp: d asked_def the_ask_def)
qed

section \<open>Verifying what was issued\<close>

text \<open>C38: The offline half against the server that signs: a verifier made by \<open>Server.Verifier\<close> fetches
  the keys document on its first token, leaves the server as it was, and accepts every token
  the server issued for its audience (a sign-in's among them) for ten minutes and the leeway,
  then refuses it as expired. For the next five minutes it verifies without the network, even
  tokens issued later, and for thirty seconds no token at all, however many unknown keys it
  names, makes it ask again.\<close>

theorem issued_tokens_verify:
  assumes env: "signs_with ed_sign ed_verify sk pk issuer env"
    and v: "Server_Verifier url_parse ip_loopback issuer audience = Inr v"
    and first: "issuable audience c" "clock_since_1970 (ev_now (env s0))" "clock_ok now"
  shows "\<exists>v'. Verifier_Verify (fake_net issuer env) ed_verify (s, v) now (ev_mint (env s0) c) =
        ((s, v'), issued_verdict issuer (ev_now (env s0)) c now) \<and>
      (\<forall>(net :: 'w net) w c' s1 t. issuable audience c' \<and> clock_since_1970 (ev_now (env s1)) \<and> clock_ok t \<and> now \<le> t \<and> t < now + DefaultTTL \<longrightarrow>
         Verifier_Verify net ed_verify (w, v') t (ev_mint (env s1) c') = ((w, v'), issued_verdict issuer (ev_now (env s1)) c' t)) \<and>
      (\<forall>(net :: 'w net) w token t. t < now + DefaultMinRefetch \<longrightarrow> fst (Verifier_Verify net ed_verify (w, v') t token) = (w, v'))"
proof -
  from first(3) have "0 \<le> now" by (simp add: clock_ok_def)
  note look = first_lookup [OF env v this]
  from look(1) [of s] obtain v' where v': "Verifier_key (fake_net issuer env) (s, v) Kid now = ((s, v'), Inr pk)"
    "key_held pk now v'" "v_cfg v' = v_cfg v" by blast
  note cfg = look(2,3,5)
  show ?thesis
  proof (rule exI [of _ v'], intro conjI allI impI; (elim conjE)?)
    show "Verifier_Verify (fake_net issuer env) ed_verify (s, v) now (ev_mint (env s0) c) =
        ((s, v'), issued_verdict issuer (ev_now (env s0)) c now)"
      using issued_token_verdict [where key_at = "Verifier_key (fake_net issuer env)", OF env first(1) look(4) first(2,3) v'(1)]
      by (simp add: Verifier_Verify_def cfg)
  next
    fix net :: "'w net" and w c' s1 t
    assume that: "issuable audience c'" "clock_since_1970 (ev_now (env s1))" "clock_ok t" "now \<le> t" "t < now + DefaultTTL"
    show "Verifier_Verify net ed_verify (w, v') t (ev_mint (env s1) c') = ((w, v'), issued_verdict issuer (ev_now (env s1)) c' t)"
      using issued_token_verdict [where key_at = "Verifier_key net", OF env that(1) look(4) that(2,3) held_lookup [OF v'(2) that(4,5)]]
      by (simp add: Verifier_Verify_def cfg v'(3))
  next
    fix net :: "'w net" and w token t
    assume "t < now + DefaultMinRefetch"
    then show "fst (Verifier_Verify net ed_verify (w, v') t token) = (w, v')"
      unfolding Verifier_Verify_def Let_def by (intro quiet_verify held_quiet [OF v'(2)])
  qed
qed

text \<open>A server at \<open>anubis\<close> that signs with the demo key, and a verifier of it.\<close>

definition demo_signing :: "Server \<Rightarrow> fake_env" where
  "demo_signing s = demo_fake\<lparr>ev_mint := \<lambda>c. case MintToken demo_sign demo_sk ''anubis'' demo_now c of Inr t \<Rightarrow> t | Inl _ \<Rightarrow> []\<rparr>"

lemma demo_signs: "signs_with demo_sign demo_verify demo_sk demo_pk ''anubis'' demo_signing"
proof -
  have "length (marshal (keys_json ''anubis'' demo_pk)) \<le> 400" by code_simp
  then have "length (marshal (keys_json ''anubis'' demo_pk)) < 2 ^ 20" by simp
  moreover have "MintToken demo_sign demo_sk ''anubis'' demo_now c = Inr (ev_mint (demo_signing s) c)" for c s
    unfolding demo_signing_def demo_fake_def MintToken_def fake_env.simps
    by (simp_all only: Sign_def demo_sk_length simp_thms if_False Let_def sum.case)
  ultimately show ?thesis by (simp add: signs_with_def demo_signing_def demo_fake_def ascii_def)
qed

theorem issued_tokens_verify_witness:
  "\<exists>v v'. Server_Verifier (\<lambda>u. Some \<lparr>u_Scheme = ''https'', u_Host = ''anubis'', u_Hostname = ''anubis''\<rparr>) (\<lambda>h. False) ''anubis'' ''billing'' = Inr v \<and>
     Verifier_Verify (fake_net ''anubis'' demo_signing) demo_verify (demo_server, v) demo_now demo_token =
       ((demo_server, v'), Inr ((minted ''anubis'' demo_now demo_claims)\<lparr>cl_Scopes := []\<rparr>)) \<and>
     Verifier_Verify (\<lambda>s rq. (s, Inl ErrNoCredential)) demo_verify (demo_server, v') (demo_now + 299 * second) demo_token =
       ((demo_server, v'), Inr ((minted ''anubis'' demo_now demo_claims)\<lparr>cl_Scopes := []\<rparr>))"
proof -
  let ?up = "\<lambda>u. Some \<lparr>u_Scheme = ''https'', u_Host = ''anubis'', u_Hostname = ''anubis''\<rparr>"
  obtain v where v: "Server_Verifier ?up (\<lambda>h. False) ''anubis'' ''billing'' = Inr v"
    by (simp add: Server_Verifier_def NewVerifier_def checkKeysURL_def)
  have now: "ev_now (demo_signing s) = demo_now" "ev_mint (demo_signing s) demo_claims = demo_token" for s
    unfolding demo_signing_def demo_fake_def demo_token_def fake_env.simps by (rule refl)+
  have ok: "issuable ''billing'' demo_claims" "clock_since_1970 demo_now" by (simp_all add: issuable_def clock_since_1970_def demo_since)
  have later: "clock_ok (demo_now + 299 * second)"
    by (simp add: demo_now_def clock_ok_def time_Unix_def unixToInternal_def in64_def)
  have unix: "Time_Unix (demo_now + 299 * second) = 2000000299"
    using clock_later [OF demo_clock(1), of 299] by simp
  from issued_tokens_verify [OF demo_signs v ok(1), of demo_server demo_now demo_server] obtain v' where v':
    "Verifier_Verify (fake_net ''anubis'' demo_signing) demo_verify (demo_server, v) demo_now demo_token =
       ((demo_server, v'), issued_verdict ''anubis'' demo_now demo_claims demo_now)"
    "\<forall>(net :: Server net) w c' s1 t. issuable ''billing'' c' \<and> clock_since_1970 (ev_now (demo_signing s1)) \<and> clock_ok t \<and> demo_now \<le> t \<and> t < demo_now + DefaultTTL \<longrightarrow>
       Verifier_Verify net demo_verify (w, v') t (ev_mint (demo_signing s1) c') =
         ((w, v'), issued_verdict ''anubis'' (ev_now (demo_signing s1)) c' t)"
    using ok(2) by (auto simp: now)
  have "Verifier_Verify (\<lambda>s rq. (s, Inl ErrNoCredential)) demo_verify (demo_server, v') (demo_now + 299 * second) demo_token =
       ((demo_server, v'), issued_verdict ''anubis'' demo_now demo_claims (demo_now + 299 * second))"
    using v'(2) [rule_format, of demo_claims demo_server "demo_now + 299 * second" "\<lambda>s rq. (s, Inl ErrNoCredential)" demo_server]
      ok later by (simp add: now)
  with v v'(1) unix show ?thesis by (auto simp: issued_verdict_def)
qed

end
