(* ===== verification/Example_Web.thy ===== *)
theory Example_Web
  imports Logout Token_Source
begin

text \<open>
  The browser example (\<open>examples/billing-web/main.go\<close>): an application with its own sessions,
  built on the verifier, the client, the token source and the two sign-out handlers. Every
  handler is one step; the log lines and the HTML body of a redirect are left out.

  The state is the world, the verifier with its keys, the client with its cache and the
  session store. A session's token source does not hold its callback: \<open>attached\<close> puts it back,
  so that a rotation runs \<open>save\<close> on the store, as the closure \<open>callback\<close> registers does.

  The lemmas: the two maps of the store agree, whatever is created, rotated and dropped; a
  session starts only with a completed sign-in; what \<open>dropBySID\<close> ends, and what it misses.
\<close>

section \<open>The session store\<close>

record 'w session =
  ws_id :: string
  ws_sid :: string
  ws_source :: "'w source"

record 'w sessionStore =
  st_byID :: "(string \<times> 'w session) list"
  st_bySID :: smap
  st_serial :: nat

definition newSessionStore :: "'w sessionStore" where
  "newSessionStore = \<lparr>st_byID = [], st_bySID = [], st_serial = 0\<rparr>"

text \<open>The serial is a natural number here, the clock reading an \<open>int64\<close> of nanoseconds.\<close>

definition session_name :: "nat \<Rightarrow> int \<Rightarrow> string" where
  "session_name n t = ''sess-'' @ nat_dec n @ ''-'' @ FormatInt t"

definition create :: "gotime \<Rightarrow> 'w source \<Rightarrow> string \<Rightarrow> 'w sessionStore \<Rightarrow> 'w sessionStore \<times> string" where
  "create now source sid st =
     (let n = Suc (st_serial st); i = session_name n (wrap64 (now - unixToInternal * second))
      in (st\<lparr>st_serial := n, st_byID := AList.update i \<lparr>ws_id = i, ws_sid = sid, ws_source = source\<rparr> (st_byID st),
             st_bySID := AList.update sid i (st_bySID st)\<rparr>, i))"

abbreviation (input) sessionStore_get :: "string \<Rightarrow> 'w sessionStore \<Rightarrow> 'w session option" where
  "sessionStore_get i st \<equiv> map_of (st_byID st) i"

definition save :: "string \<Rightarrow> Tokens \<Rightarrow> 'w sessionStore \<Rightarrow> 'w sessionStore" where
  "save i t st =
     (case map_of (st_byID st) i of
        None \<Rightarrow> st
      | Some ses \<Rightarrow> st\<lparr>st_byID := AList.update i (ses\<lparr>ws_sid := tk_SessionID t\<rparr>) (st_byID st),
          st_bySID := AList.update (tk_SessionID t) i (AList.delete (ws_sid ses) (st_bySID st))\<rparr>)"

definition drop_session :: "string \<Rightarrow> 'w sessionStore \<Rightarrow> 'w sessionStore" where
  "drop_session i st =
     (case map_of (st_byID st) i of
        None \<Rightarrow> st
      | Some ses \<Rightarrow> st\<lparr>st_byID := AList.delete i (st_byID st), st_bySID := AList.delete (ws_sid ses) (st_bySID st)\<rparr>)"

definition dropBySID :: "string \<Rightarrow> 'w sessionStore \<Rightarrow> 'w sessionStore" where
  "dropBySID sid st = (case map_of (st_bySID st) sid of None \<Rightarrow> st | Some i \<Rightarrow> drop_session i st)"

section \<open>The application\<close>

record web_config =
  wc_AnubisURL :: string
  wc_AppURL :: string
  wc_Slug :: string
  wc_Secret :: string
  wc_APIKey :: string
  wc_Tenant :: string

record 'w app =
  ap_world :: 'w
  ap_cfg :: web_config
  ap_verifier :: Verifier
  ap_client :: "'w Client"
  ap_sessions :: "'w sessionStore"

definition client_options :: "web_config \<Rightarrow> 'w option_fn list" where
  "client_options cfg =
     (if wc_APIKey cfg \<noteq> []
      then [WithApplication (wc_Slug cfg) [], WithTenant (wc_Tenant cfg), WithAPIKey (wc_APIKey cfg)]
      else [WithApplication (wc_Slug cfg) (wc_Secret cfg), WithTenant (wc_Tenant cfg)])"

definition newApp :: "'w platform \<Rightarrow> (string \<Rightarrow> bool) \<Rightarrow> 'w LoginStore \<Rightarrow> web_config \<Rightarrow> 'w \<Rightarrow> 'w app res" where
  "newApp pf ip_loopback cookies cfg w =
     (case NewVerifier (pf_url_parse pf) ip_loopback \<lparr>cfg_Issuer = wc_AnubisURL cfg, cfg_Audience = wc_Slug cfg,
             cfg_KeysURL = wc_AnubisURL cfg @ ''/.well-known/anubis-keys.json'', cfg_StaticKeys = None, cfg_Leeway = 0\<rparr> of
        Inl e \<Rightarrow> Inl (ErrWrap ''verifier: '' e)
      | Inr v \<Rightarrow>
          (case New pf cookies (wc_AnubisURL cfg) (client_options cfg) of
             Inl e \<Rightarrow> Inl (ErrWrap ''client: '' e)
           | Inr c \<Rightarrow> Inr \<lparr>ap_world = w, ap_cfg = cfg, ap_verifier = v, ap_client = c, ap_sessions = newSessionStore\<rparr>))"

definition web_env :: "(string \<Rightarrow> string) \<Rightarrow> string \<Rightarrow> string \<Rightarrow> string" where
  "web_env getenv key fallback = (let v = getenv key in if v \<noteq> [] then v else fallback)"

text \<open>The configuration \<open>main\<close> reads from the environment.\<close>

definition web_main :: "(string \<Rightarrow> string) \<Rightarrow> web_config" where
  "web_main getenv =
     \<lparr>wc_AnubisURL = web_env getenv ''ANUBIS_URL'' ''https://anubis.internal'',
      wc_AppURL = web_env getenv ''APP_URL'' ''https://billing.example.com'',
      wc_Slug = web_env getenv ''ANUBIS_APP'' ''billing-web'',
      wc_Secret = getenv ''ANUBIS_SECRET'', wc_APIKey = getenv ''ANUBIS_API_KEY'',
      wc_Tenant = web_env getenv ''ANUBIS_TENANT'' ''impack''\<rparr>"

abbreviation (input) session_cookie :: string where "session_cookie \<equiv> ''billing_session''"

definition http_Redirect :: "string \<Rightarrow> handled" where
  "http_Redirect url = Answer 302 [(''Location'', url)] []"

definition login_params :: "'w app \<Rightarrow> string list \<Rightarrow> LoginParams" where
  "login_params s scope = \<lparr>lp_RedirectURI = wc_AppURL (ap_cfg s) @ ''/callback'', lp_Scope = scope, lp_Realm = [], lp_Page = [],
     lp_Tenant = [], lp_Nonce = [], lp_Prompt = [], lp_ACRValues = [], lp_MaxAge = 0\<rparr>"

definition web_login :: "'w platform \<Rightarrow> 'w app \<times> jar \<Rightarrow> ('w app \<times> jar) \<times> handled" where
  "web_login pf p =
     (case p of (s, j) \<Rightarrow>
       (case BeginLogin pf (ap_client s) (ap_world s, j) (login_params s [''openid'', ''profile'']) of
          ((w, j'), Inl e) \<Rightarrow> ((s\<lparr>ap_world := w\<rparr>, j'), Answer 500 [] ''cannot start sign-in'')
        | ((w, j'), Inr rd) \<Rightarrow> ((s\<lparr>ap_world := w\<rparr>, j'), http_Redirect (rd_URL rd))))"

fun as_StateMismatch :: "goerr \<Rightarrow> string option" where
  "as_StateMismatch (ErrStateMismatch m) = Some m" | "as_StateMismatch _ = None"

definition cookie_of :: "string \<Rightarrow> cookie" where
  "cookie_of i = \<lparr>ck_Name = session_cookie, ck_Value = i, ck_Path = ''/'', ck_MaxAge = 0, ck_HttpOnly = True, ck_Secure = True,
     ck_SameSite = ''Lax''\<rparr>"

definition web_callback :: "'w platform \<Rightarrow> 'w app \<times> jar \<Rightarrow> server_request \<Rightarrow> ('w app \<times> jar) \<times> handled" where
  "web_callback pf p r =
     (case p of (s, j) \<Rightarrow>
       (case CompleteLogin pf (ap_client s) (ap_world s, j) r of
          ((w, j'), Inl e) \<Rightarrow> ((s\<lparr>ap_world := w\<rparr>, j'),
            if errors_As as_StateMismatch e \<noteq> None then Answer 400 [] ''sign-in could not be verified''
            else Answer 502 [] ''sign-in failed'')
        | ((w, j'), Inr t) \<Rightarrow>
            (case create (pf_now pf w) (Client_TokenSource pf (ap_client s) w t) (tk_SessionID t) (ap_sessions s) of
               (st, i) \<Rightarrow> ((s\<lparr>ap_world := w, ap_sessions := st\<rparr>, j' @ [cookie_of i]), http_Redirect ''/dashboard''))))"

definition web_logout :: "'w app \<times> jar \<Rightarrow> server_request \<Rightarrow> ('w app \<times> jar) \<times> handled" where
  "web_logout p r =
     (case p of (s, j) \<Rightarrow>
       let st = (case map_of (sr_Cookies r) session_cookie of None \<Rightarrow> ap_sessions s | Some i \<Rightarrow> drop_session i (ap_sessions s));
           gone = \<lparr>ck_Name = session_cookie, ck_Value = [], ck_Path = ''/'', ck_MaxAge = - 1, ck_HttpOnly = False,
                   ck_Secure = False, ck_SameSite = []\<rparr>
       in ((s\<lparr>ap_sessions := st\<rparr>, j @ [gone]),
           http_Redirect (LogoutURL (ap_client s) \<lparr>lo_Tenant = [], lo_PostLogoutRedirectURI = wc_AppURL (ap_cfg s) @ ''/'', lo_Page = []\<rparr>)))"

text \<open>The callback of the back-channel handler, over the world and the store.\<close>

definition onRemoteLogout :: "'w \<times> 'w sessionStore \<Rightarrow> LogoutEvent \<Rightarrow> ('w \<times> 'w sessionStore) \<times> goerr option" where
  "onRemoteLogout p ev = ((fst p, dropBySID (le_SessionID ev) (snd p)), None)"

definition beside :: "'w net \<Rightarrow> ('w \<times> 'a) net" where
  "beside net p rq = (case net (fst p) rq of (w, r) \<Rightarrow> ((w, snd p), r))"

definition web_backchannel ::
  "'w net \<Rightarrow> (bytes \<Rightarrow> bytes \<Rightarrow> bytes \<Rightarrow> bool) \<Rightarrow> 'w platform \<Rightarrow> 'w app \<times> jar \<Rightarrow> server_request \<Rightarrow> ('w app \<times> jar) \<times> handled" where
  "web_backchannel net ed_verify pf p r =
     (case p of (s, j) \<Rightarrow>
       (case BackchannelLogout (beside net) ed_verify onRemoteLogout ((ap_world s, ap_sessions s), Some (ap_verifier s))
               (pf_now pf (ap_world s)) r of
          (((w, st), v), a) \<Rightarrow>
            ((s\<lparr>ap_world := w, ap_sessions := st, ap_verifier := (case v of None \<Rightarrow> ap_verifier s | Some v \<Rightarrow> v)\<rparr>, j), a)))"

section \<open>The pages\<close>

definition session_of :: "'w app \<Rightarrow> server_request \<Rightarrow> 'w session option" where
  "session_of s r = Option.bind (map_of (sr_Cookies r) session_cookie) (\<lambda>i. sessionStore_get i (ap_sessions s))"

text \<open>The source with its callback, over the world and the store; and what \<open>Token\<close> leaves of it.\<close>

definition attached :: "'w session \<Rightarrow> ('w \<times> 'w sessionStore) source" where
  "attached ses =
     (let so = ws_source ses in
      \<lparr>so_refresh = (\<lambda>(w, st) current. case so_refresh so w current of (w', r) \<Rightarrow> ((w', st), r)),
       so_now = (\<lambda>(w, st). so_now so w), so_needsRefreshToken = so_needsRefreshToken so, so_tokens = so_tokens so,
       so_onRotate = Some (\<lambda>(w, st) t. ((w, save (ws_id ses) t st), None)), so_inflight = so_inflight so\<rparr>)"

definition put_source :: "string \<Rightarrow> ('w \<times> 'w sessionStore) source \<Rightarrow> 'w sessionStore \<Rightarrow> 'w sessionStore" where
  "put_source i so st =
     (case map_of (st_byID st) i of
        None \<Rightarrow> st
      | Some ses \<Rightarrow> st\<lparr>st_byID := AList.update i
          (ses\<lparr>ws_source := (ws_source ses)\<lparr>so_tokens := so_tokens so, so_inflight := so_inflight so\<rparr>\<rparr>) (st_byID st)\<rparr>)"

definition session_Token :: "'w \<Rightarrow> 'w sessionStore \<Rightarrow> 'w session \<Rightarrow> ('w \<times> 'w sessionStore) \<times> Tokens res" where
  "session_Token w st ses =
     (case Token ((w, st), attached ses) of (((w', st'), so), r) \<Rightarrow> ((w', put_source (ws_id ses) so st'), r))"

definition web_dashboard ::
  "'w net \<Rightarrow> (bytes \<Rightarrow> bytes \<Rightarrow> bytes \<Rightarrow> bool) \<Rightarrow> 'w platform \<Rightarrow> 'w app \<Rightarrow> server_request \<Rightarrow> 'w app \<times> handled" where
  "web_dashboard net ed_verify pf s r =
     (case session_of s r of
        None \<Rightarrow> (s, http_Redirect ''/login'')
      | Some ses \<Rightarrow>
          (case session_Token (ap_world s) (ap_sessions s) ses of
             ((w, st), Inl e) \<Rightarrow>
               if errors_As as_RefreshReuse e \<noteq> None
               then (s\<lparr>ap_world := w, ap_sessions := drop_session (ws_id ses) st\<rparr>, http_Redirect ''/login'')
               else (s\<lparr>ap_world := w, ap_sessions := st\<rparr>, Answer 502 [] ''session could not be refreshed'')
           | ((w, st), Inr t) \<Rightarrow>
               (case Verifier_Verify net ed_verify (w, ap_verifier s) (pf_now pf w) (tk_AccessToken t) of
                  ((w', v), Inl e) \<Rightarrow> (s\<lparr>ap_world := w', ap_sessions := st, ap_verifier := v\<rparr>, http_Redirect ''/login'')
                | ((w', v), Inr c) \<Rightarrow> (s\<lparr>ap_world := w', ap_sessions := st, ap_verifier := v\<rparr>,
                    Answer 200 [] (''signed in as '' @ cl_Subject c @ '', roles ['' @ Join '' '' (cl_Roles c) @ '']'' @ [CHR 0x0A])))))"

definition web_home :: handled where
  "web_home = Answer 200 [] (''billing '' @ dash @ '' <a href=\"/login\">sign in</a>'' @ [CHR 0x0A])"

definition web_listInvoices :: "Ctx \<Rightarrow> handled" where
  "web_listInvoices ctx =
     Answer 200 [] (''invoices for '' @
       (case FromContext ctx of Some p \<Rightarrow> (case p_Claims p of Some c \<Rightarrow> cl_Subject c | None \<Rightarrow> []) | None \<Rightarrow> []) @ [CHR 0x0A])"

record web_invoice =
  wi_ID :: string
  wi_OrgID :: string
  wi_CustomerID :: string

definition lookupInvoice :: "string \<Rightarrow> web_invoice" where
  "lookupInvoice i = \<lparr>wi_ID = i, wi_OrgID = ''01a027ff-org'', wi_CustomerID = ''01a027fb-cust''\<rparr>"

abbreviation isStepUp :: "goerr \<Rightarrow> bool" where "isStepUp e \<equiv> errors_As as_StepUp e \<noteq> None"

definition web_approveInvoice ::
  "'w platform \<Rightarrow> 'w app \<times> jar \<Rightarrow> Ctx \<Rightarrow> string \<Rightarrow> ('w app \<times> jar) \<times> handled" where
  "web_approveInvoice pf p ctx i =
     (case p of (s, j) \<Rightarrow>
       let invoice = lookupInvoice i in
       (case Require pf (ap_world s, ap_client s) ctx ''billing:invoice:approve''
               [(''org'', wi_OrgID invoice), (''customer'', wi_CustomerID invoice)] of
          ((w, c), None) \<Rightarrow> ((s\<lparr>ap_world := w, ap_client := c\<rparr>, j), Answer 200 [] (''approved invoice '' @ wi_ID invoice @ [CHR 0x0A]))
        | ((w, c), Some e) \<Rightarrow>
            let s = s\<lparr>ap_world := w, ap_client := c\<rparr> in
            if isStepUp e
            then (case BeginStepUp pf c (w, j) e (login_params s []) of
                ((w', j'), Inl _) \<Rightarrow> ((s\<lparr>ap_world := w'\<rparr>, j'), Answer 500 [] ''step-up unavailable'')
              | ((w', j'), Inr rd) \<Rightarrow> ((s\<lparr>ap_world := w'\<rparr>, j'),
                  Answer 401 [(''WWW-Authenticate'', ''Bearer error=\"insufficient_user_authentication\"''), (''Location'', rd_URL rd)]
                    ''approving an invoice needs a second factor''))
            else (case errors_As as_Denied e of
                Some d \<Rightarrow> ((s, j), Answer 403 [] (de_Message d))
              | None \<Rightarrow> ((s, j), Answer 503 [] ''cannot check permissions right now''))))"

section \<open>The routes\<close>

datatype route = Home | LoginPage | Callback | LogoutPage | Dashboard | ListInvoices | ApproveInvoice string | Backchannel

text \<open>The two API routes stand behind the verifier's middleware.\<close>

definition behind ::
  "'w net \<Rightarrow> (bytes \<Rightarrow> bytes \<Rightarrow> bytes \<Rightarrow> bool) \<Rightarrow> 'w platform \<Rightarrow> ('w app \<times> jar \<Rightarrow> Ctx \<Rightarrow> ('w app \<times> jar) \<times> handled) \<Rightarrow>
   'w app \<times> jar \<Rightarrow> server_request \<Rightarrow> ('w app \<times> jar) \<times> handled" where
  "behind net ed_verify pf h p r =
     (case p of (s, j) \<Rightarrow>
       (case Middleware net ed_verify (ap_world s, ap_verifier s) (pf_now pf (ap_world s))
               \<lparr>ctx_principal = None, ctx_bearer = None\<rparr> (sr_Header r) of
          ((w, v), Answer code hs b) \<Rightarrow> ((s\<lparr>ap_world := w, ap_verifier := v\<rparr>, j), Answer code hs b)
        | ((w, v), Next ctx) \<Rightarrow> h (s\<lparr>ap_world := w, ap_verifier := v\<rparr>, j) ctx))"

definition routes ::
  "'w net \<Rightarrow> (bytes \<Rightarrow> bytes \<Rightarrow> bytes \<Rightarrow> bool) \<Rightarrow> 'w platform \<Rightarrow> route \<Rightarrow> 'w app \<times> jar \<Rightarrow> server_request \<Rightarrow>
   ('w app \<times> jar) \<times> handled" where
  "routes net ed_verify pf rt p r =
     (case rt of
        Home \<Rightarrow> (p, web_home)
      | LoginPage \<Rightarrow> web_login pf p
      | Callback \<Rightarrow> web_callback pf p r
      | LogoutPage \<Rightarrow> web_logout p r
      | Dashboard \<Rightarrow> (case p of (s, j) \<Rightarrow> case web_dashboard net ed_verify pf s r of (s', a) \<Rightarrow> ((s', j), a))
      | ListInvoices \<Rightarrow> behind net ed_verify pf (\<lambda>p ctx. (p, web_listInvoices ctx)) p r
      | ApproveInvoice i \<Rightarrow> behind net ed_verify pf (\<lambda>p ctx. web_approveInvoice pf p ctx i) p r
      | Backchannel \<Rightarrow> web_backchannel net ed_verify pf p r)"

section \<open>The store is consistent\<close>

text \<open>
  Keys are the names the store made, and an entry by session identifier leads to a session of
  that identifier. The converse, that every session can be found by its own, is \<open>indexed\<close>:
  it needs identifiers that no two sessions share.
\<close>

definition store_ok :: "'w sessionStore \<Rightarrow> bool" where
  "store_ok st \<longleftrightarrow>
     (\<forall>i ses. map_of (st_byID st) i = Some ses \<longrightarrow> ws_id ses = i \<and> (\<exists>n t. n \<le> st_serial st \<and> i = session_name n t)) \<and>
     (\<forall>sid i. map_of (st_bySID st) sid = Some i \<longrightarrow> (\<exists>ses. map_of (st_byID st) i = Some ses \<and> ws_sid ses = sid))"

definition indexed :: "'w sessionStore \<Rightarrow> bool" where
  "indexed st \<longleftrightarrow> (\<forall>i ses. map_of (st_byID st) i = Some ses \<longrightarrow> map_of (st_bySID st) (ws_sid ses) = Some i)"

lemma store_okI:
  assumes "\<And>i ses. map_of (st_byID st) i = Some ses \<Longrightarrow> ws_id ses = i \<and> (\<exists>n t. n \<le> st_serial st \<and> i = session_name n t)"
    and "\<And>sid i. map_of (st_bySID st) sid = Some i \<Longrightarrow> \<exists>ses. map_of (st_byID st) i = Some ses \<and> ws_sid ses = sid"
  shows "store_ok st"
  using assms by (auto simp: store_ok_def)

lemma store_okD:
  assumes "store_ok st"
  shows "map_of (st_byID st) i = Some ses \<Longrightarrow> ws_id ses = i \<and> (\<exists>n t. n \<le> st_serial st \<and> i = session_name n t)"
    "map_of (st_bySID st) sid = Some i \<Longrightarrow> \<exists>ses. map_of (st_byID st) i = Some ses \<and> ws_sid ses = sid"
  using assms unfolding store_ok_def by blast+

lemma session_name_inj:
  assumes "session_name n t = session_name m u"
  shows "n = m"
proof -
  have digits: "takeWhile isDigit (drop 5 (session_name n t)) = nat_dec n" for n t
  proof -
    have "\<forall>c \<in> set (nat_dec n). isDigit c" using nat_dec_facts [of n] by (simp add: list_all_iff)
    then show ?thesis by (simp add: session_name_def takeWhile_append2 isDigit_def)
  qed
  have "digits_val (nat_dec n) = n" for n using nat_dec_facts [of n] by blast
  with digits [of n t] digits [of m u] assms show ?thesis by metis
qed

lemma store_ok_new: "store_ok newSessionStore" "indexed newSessionStore"
  by (simp_all add: store_ok_def indexed_def newSessionStore_def)

lemma store_fresh:
  assumes "store_ok st"
  shows "map_of (st_byID st) (session_name (Suc (st_serial st)) t) = None" "map_of (st_bySID st) sid \<noteq> Some (session_name (Suc (st_serial st)) t)"
proof -
  show "map_of (st_byID st) (session_name (Suc (st_serial st)) t) = None"
  proof (rule ccontr)
    assume "map_of (st_byID st) (session_name (Suc (st_serial st)) t) \<noteq> None"
    then obtain n u where n: "n \<le> st_serial st" "session_name (Suc (st_serial st)) t = session_name n u"
      using assms unfolding store_ok_def by blast
    from session_name_inj [OF n(2)] n(1) show False by simp
  qed
  with store_okD(2) [OF assms, of sid] show "map_of (st_bySID st) sid \<noteq> Some (session_name (Suc (st_serial st)) t)"
    by fastforce
qed

lemma create_ok:
  assumes "store_ok st" "create now so sid st = (st', i)"
  shows "store_ok st'" "map_of (st_byID st) i = None"
    "map_of (st_byID st') = (map_of (st_byID st))(i \<mapsto> \<lparr>ws_id = i, ws_sid = sid, ws_source = so\<rparr>)"
proof -
  let ?i = "session_name (Suc (st_serial st)) (wrap64 (now - unixToInternal * second))"
  note fresh = store_fresh [OF assms(1)]
  from assms(2) have i: "i = ?i" "st_serial st' = Suc (st_serial st)" "st_bySID st' = AList.update sid i (st_bySID st)"
    and by_id: "map_of (st_byID st') = (map_of (st_byID st))(i \<mapsto> \<lparr>ws_id = i, ws_sid = sid, ws_source = so\<rparr>)"
    by (auto simp: create_def Let_def update_conv')
  show "map_of (st_byID st) i = None" using fresh(1) i(1) by simp
  show "map_of (st_byID st') = (map_of (st_byID st))(i \<mapsto> \<lparr>ws_id = i, ws_sid = sid, ws_source = so\<rparr>)" by (rule by_id)
  show "store_ok st'"
  proof (rule store_okI)
    fix i' ses assume "map_of (st_byID st') i' = Some ses"
    then show "ws_id ses = i' \<and> (\<exists>n t. n \<le> st_serial st' \<and> i' = session_name n t)"
      using store_okD(1) [OF assms(1), of i' ses] i(1,2) unfolding by_id by (auto split: if_splits intro: le_SucI)
  next
    fix sid' i' assume "map_of (st_bySID st') sid' = Some i'"
    then show "\<exists>ses. map_of (st_byID st') i' = Some ses \<and> ws_sid ses = sid'"
      using store_okD(2) [OF assms(1), of sid' i'] fresh(2) i(1,3) unfolding by_id by (auto simp: update_conv' split: if_splits)
  qed
qed

lemma save_ok:
  assumes "store_ok st"
  shows "store_ok (save i t st)"
proof (cases "map_of (st_byID st) i")
  case (Some ses)
  show ?thesis
  proof (rule store_okI)
    fix i' ses' assume "map_of (st_byID (save i t st)) i' = Some ses'"
    then show "ws_id ses' = i' \<and> (\<exists>n u. n \<le> st_serial (save i t st) \<and> i' = session_name n u)"
      using store_okD(1) [OF assms, of i'] Some by (auto simp: save_def update_conv' split: if_splits)
  next
    fix sid i' assume a: "map_of (st_bySID (save i t st)) sid = Some i'"
    show "\<exists>ses'. map_of (st_byID (save i t st)) i' = Some ses' \<and> ws_sid ses' = sid"
    proof (cases "sid = tk_SessionID t")
      case False
      with a Some have old: "sid \<noteq> ws_sid ses" "map_of (st_bySID st) sid = Some i'"
        by (auto simp: save_def update_conv' delete_conv' split: if_splits)
      with store_okD(2) [OF assms old(2)] Some have "i' \<noteq> i" by auto
      with store_okD(2) [OF assms old(2)] Some show ?thesis by (simp add: save_def update_conv')
    qed (use a Some in \<open>simp add: save_def update_conv'\<close>)
  qed
qed (use assms in \<open>simp add: save_def\<close>)

lemma drop_maps:
  assumes "map_of (st_byID st) i = Some ses"
  shows "map_of (st_byID (drop_session i st)) k = (if k = i then None else map_of (st_byID st) k)"
    "map_of (st_bySID (drop_session i st)) sid = (if sid = ws_sid ses then None else map_of (st_bySID st) sid)"
    "st_serial (drop_session i st) = st_serial st"
  using assms by (simp_all add: drop_session_def delete_conv')

lemma drop_ok:
  assumes "store_ok st"
  shows "store_ok (drop_session i st)"
proof (cases "map_of (st_byID st) i")
  case (Some ses)
  note maps = drop_maps [OF Some]
  show ?thesis
  proof (rule store_okI)
    fix sid i' assume a: "map_of (st_bySID (drop_session i st)) sid = Some i'"
    then have old: "sid \<noteq> ws_sid ses" "map_of (st_bySID st) sid = Some i'" unfolding maps by (auto split: if_splits)
    with store_okD(2) [OF assms old(2)] Some show "\<exists>ses'. map_of (st_byID (drop_session i st)) i' = Some ses' \<and> ws_sid ses' = sid"
      unfolding maps by auto
  qed (use store_okD(1) [OF assms] in \<open>auto simp: maps split: if_splits\<close>)
qed (use assms in \<open>simp add: drop_session_def\<close>)

lemma dropBySID_ok: "store_ok st \<Longrightarrow> store_ok (dropBySID sid st)"
  by (simp add: dropBySID_def drop_ok split: option.split)

lemma put_source_ok:
  assumes "store_ok st"
  shows "store_ok (put_source i so st)"
proof (cases "map_of (st_byID st) i")
  case (Some ses)
  show ?thesis
  proof (rule store_okI)
    fix sid i' assume "map_of (st_bySID (put_source i so st)) sid = Some i'"
    then have "map_of (st_bySID st) sid = Some i'" using Some by (simp add: put_source_def)
    with store_okD(2) [OF assms this] Some
    show "\<exists>ses'. map_of (st_byID (put_source i so st)) i' = Some ses' \<and> ws_sid ses' = sid"
      by (auto simp: put_source_def update_conv')
  qed (use store_okD(1) [OF assms] Some in \<open>auto simp: put_source_def update_conv' split: if_splits\<close>)
qed (use assms in \<open>simp add: put_source_def\<close>)

section \<open>What a session is worth\<close>

lemma indexed_drop:
  assumes "store_ok st" "indexed st"
  shows "indexed (drop_session i st)"
proof (cases "map_of (st_byID st) i")
  case (Some ses)
  show ?thesis unfolding indexed_def
  proof (intro allI impI)
    fix i' ses' assume "map_of (st_byID (drop_session i st)) i' = Some ses'"
    then have k: "i' \<noteq> i" "map_of (st_byID st) i' = Some ses'" by (simp_all add: drop_maps [OF Some] split: if_splits)
    with assms(2) Some have "map_of (st_bySID st) (ws_sid ses') = Some i'" "map_of (st_bySID st) (ws_sid ses) = Some i"
      by (auto simp: indexed_def)
    with k(1) show "map_of (st_bySID (drop_session i st)) (ws_sid ses') = Some i'" by (auto simp: drop_maps [OF Some])
  qed
qed (use assms(2) in \<open>simp add: drop_session_def\<close>)

lemma indexed_create:
  assumes "store_ok st" "indexed st" "create now so sid st = (st', i)"
    and "\<forall>i ses. map_of (st_byID st) i = Some ses \<longrightarrow> ws_sid ses \<noteq> sid"
  shows "indexed st'"
proof -
  from assms(3) have "st_bySID st' = AList.update sid i (st_bySID st)" by (auto simp: create_def Let_def)
  with assms(2,4) create_ok(2,3) [OF assms(1,3)] show ?thesis by (auto simp: indexed_def update_conv' split: if_splits)
qed

text \<open>Dropping by an identifier ends every session of it that the store can find, and no other.\<close>

lemma dropBySID_ends:
  assumes "store_ok st" "indexed st"
  shows "map_of (st_byID (dropBySID sid st)) i =
    (case map_of (st_byID st) i of Some ses \<Rightarrow> if ws_sid ses = sid then None else Some ses | None \<Rightarrow> None)"
proof (cases "map_of (st_bySID st) sid")
  case None
  with assms(2) show ?thesis by (auto simp: dropBySID_def indexed_def split: option.split)
next
  case (Some k)
  from store_okD(2) [OF assms(1) Some] obtain ses where ses: "map_of (st_byID st) k = Some ses" "ws_sid ses = sid" by blast
  have "ws_sid ses' = sid \<longleftrightarrow> i = k" if "map_of (st_byID st) i = Some ses'" for ses'
    using assms(2) that ses unfolding indexed_def by (metis option.inject)
  then show ?thesis using Some ses(1) by (auto simp: dropBySID_def drop_maps [OF ses(1)] split: option.split)
qed

text \<open>With two sessions of one identifier only the later is found.\<close>

lemma dropBySID_misses:
  assumes "store_ok st" "create t1 so sid st = (st1, i1)" "create t2 so' sid st1 = (st2, i2)"
  shows "i1 \<noteq> i2 \<and> map_of (st_byID (dropBySID sid st2)) i1 \<noteq> None"
proof -
  note c1 = create_ok [OF assms(1,2)]
  note c2 = create_ok [OF c1(1) assms(3)]
  have ne: "i1 \<noteq> i2" using c1(3) c2(2) by auto
  from assms(3) have "map_of (st_bySID st2) sid = Some i2" by (auto simp: create_def Let_def update_conv')
  moreover have two: "map_of (st_byID st2) i2 = Some \<lparr>ws_id = i2, ws_sid = sid, ws_source = so'\<rparr>" using c2(3) by simp
  ultimately have "map_of (st_byID (dropBySID sid st2)) i1 = map_of (st_byID st2) i1"
    using ne by (simp add: dropBySID_def drop_maps [OF two])
  with ne c1(3) c2(3) show ?thesis by simp
qed

section \<open>What the handlers do to the sessions\<close>

text \<open>\<open>Token\<close> of an attached source changes the store by \<open>save\<close> alone, and only after a refresh.\<close>

lemma attached_Token:
  assumes "Token ((w, st), attached ses) = (((w', st'), so), r)"
  shows "st' = st \<or> (\<exists>t. st' = save (ws_id ses) t st)"
  using assms
  by (auto simp: Token_def rotate_def Let_def attached_def Token_enter_def split: prod.splits option.splits if_splits sum.splits)

lemma session_Token_store:
  assumes "session_Token w st ses = ((w', st'), r)"
  shows "\<exists>so. st' = put_source (ws_id ses) so st \<or> (\<exists>t. st' = put_source (ws_id ses) so (save (ws_id ses) t st))"
proof -
  obtain w1 st1 so r1 where t: "Token ((w, st), attached ses) = (((w1, st1), so), r1)" by (metis prod.collapse)
  with assms have "st' = put_source (ws_id ses) so st1" by (simp add: session_Token_def)
  with attached_Token [OF t] show ?thesis by blast
qed

lemma keys_after:
  "map_of (st_byID (save k t st)) i = None \<longleftrightarrow> map_of (st_byID st) i = None"
  "map_of (st_byID (put_source k so st)) i = None \<longleftrightarrow> map_of (st_byID st) i = None"
  "map_of (st_byID st) i = None \<Longrightarrow> map_of (st_byID (drop_session k st)) i = None"
  "map_of (st_byID st) i = None \<Longrightarrow> map_of (st_byID (dropBySID sid st)) i = None"
  by (auto simp: save_def put_source_def drop_session_def dropBySID_def update_conv' delete_conv' split: option.splits if_splits)

lemma session_Token_ok: "session_Token w st ses = ((w', st'), r) \<Longrightarrow> store_ok st \<Longrightarrow> store_ok st'"
  by (drule session_Token_store) (auto intro: put_source_ok save_ok)

lemma session_Token_keys:
  "session_Token w st ses = ((w', st'), r) \<Longrightarrow> map_of (st_byID st') i = None \<longleftrightarrow> map_of (st_byID st) i = None"
  by (drule session_Token_store) (auto simp: keys_after)

section \<open>What verification does to the store\<close>

text \<open>Nothing: a transport beside other state leaves that state alone.\<close>

lemma beside_fetch: "fetch (beside net) (w, a) kc = (case fetch net w kc of (w', r) \<Rightarrow> ((w', a), r))"
  by (simp add: fetch_def beside_def Let_def split: prod.split)

lemma beside_Cache_GetAt:
  "Cache_GetAt (beside net) (w, a) kc kid now = (case Cache_GetAt net w kc kid now of (w', kc', r) \<Rightarrow> ((w', a), kc', r))"
  by (simp add: Cache_GetAt_def refetch_def beside_fetch split: prod.split option.split entry_outcome.split)

lemma beside_key:
  "Verifier_key (beside net) ((w, a), v) kid now = (case Verifier_key net (w, v) kid now of ((w', v'), r) \<Rightarrow> (((w', a), v'), r))"
  by (simp add: Verifier_key_def Let_def beside_Cache_GetAt split: prod.split option.split)

lemma beside_Verify:
  "Verifier_Verify (beside net) ed_verify ((w, a), v) now t =
    (case Verifier_Verify net ed_verify (w, v) now t of ((w', v'), r) \<Rightarrow> (((w', a), v'), r))"
proof (cases "Parse t")
  case (Inr p)
  obtain m sig footer where p: "p = (m, sig, footer)" by (rule prod_cases3)
  show ?thesis
  proof (cases "footer_kid footer")
    case (Inr kid)
    obtain w' v' res where "Verifier_key net (w, v) kid now = ((w', v'), res)" by (metis prod.collapse)
    with Inr \<open>Parse t = Inr p\<close> p show ?thesis
      by (cases res) (simp_all add: Verifier_Verify_def verify_token_def beside_key Let_def)
  qed (use Inr p in \<open>simp add: Verifier_Verify_def verify_token_def\<close>)
qed (simp add: Verifier_Verify_def verify_token_def)

lemma beside_VerifyLogoutToken:
  "VerifyLogoutToken (beside net) ed_verify ((w, a), Some v) now t =
    (case VerifyLogoutToken net ed_verify (w, Some v) now t of ((w', v'), r) \<Rightarrow> (((w', a), v'), r))"
  by (simp add: VerifyLogoutToken_def beside_Verify split: prod.split sum.split)

lemma VerifyLogoutToken_verifier:
  "VerifyLogoutToken net ed_verify (w, Some v) now t = ((w', v'), r) \<Longrightarrow> v' \<noteq> None"
  by (auto simp: VerifyLogoutToken_def split: prod.splits sum.splits if_splits)

lemma web_backchannel_cases:
  assumes "web_backchannel net ed_verify pf (s, j) r = ((s', j'), a)"
  shows "(ap_sessions s' = ap_sessions s \<and> (\<forall>hs b. a \<noteq> Answer 204 hs b)) \<or>
    (\<exists>q ev w v. sr_PostForm r = Some q \<and>
       VerifyLogoutToken net ed_verify (ap_world s, Some (ap_verifier s)) (pf_now pf (ap_world s)) (values_Get q ''logout_token'') =
         ((w, Some v), Inr ev) \<and>
       s' = s\<lparr>ap_world := w, ap_verifier := v, ap_sessions := dropBySID (le_SessionID ev) (ap_sessions s)\<rparr> \<and>
       a = Answer 204 [(''Cache-Control'', ''no-store'')] [])"
proof (cases "sr_Method r = ''POST''")
  case True
  show ?thesis
  proof (cases "sr_PostForm r")
    case (Some q)
    obtain w v res where t: "VerifyLogoutToken net ed_verify (ap_world s, Some (ap_verifier s)) (pf_now pf (ap_world s))
        (values_Get q ''logout_token'') = ((w, v), res)" by (metis prod.collapse)
    from VerifyLogoutToken_verifier [OF t] obtain v' where v: "v = Some v'" by blast
    show ?thesis
    proof (cases res)
      case (Inl e)
      with assms True Some t v show ?thesis
        by (auto simp: web_backchannel_def BackchannelLogout_def beside_VerifyLogoutToken)
    next
      case (Inr ev)
      with assms True Some t v show ?thesis
        by (auto simp: web_backchannel_def BackchannelLogout_def beside_VerifyLogoutToken onRemoteLogout_def)
    qed
  qed (use assms True in \<open>auto simp: web_backchannel_def BackchannelLogout_def\<close>)
qed (use assms in \<open>auto simp: web_backchannel_def BackchannelLogout_def\<close>)

section \<open>The routes and the store\<close>

lemma web_approve_sessions:
  "web_approveInvoice pf (s, j) ctx i = ((s', j'), a) \<Longrightarrow> ap_sessions s' = ap_sessions s"
  by (auto simp: web_approveInvoice_def Let_def split: prod.splits option.splits if_splits sum.splits)

lemma behind_sessions:
  assumes "behind net ed_verify pf h (s, j) r = ((s', j'), a)"
    and "\<And>t k ctx t' k' a. h (t, k) ctx = ((t', k'), a) \<Longrightarrow> ap_sessions t' = ap_sessions t"
  shows "ap_sessions s' = ap_sessions s"
  using assms(1) by (auto simp: behind_def split: prod.splits handled.splits dest!: assms(2))

lemma web_callback_cases:
  assumes "web_callback pf (s, j) r = ((s', j'), a)"
  shows "(ap_sessions s' = ap_sessions s \<and> (\<exists>w e. CompleteLogin pf (ap_client s) (ap_world s, j) r = ((w, j'), Inl e))) \<or>
    (\<exists>w k t i. CompleteLogin pf (ap_client s) (ap_world s, j) r = ((w, k), Inr t) \<and>
       create (pf_now pf w) (Client_TokenSource pf (ap_client s) w t) (tk_SessionID t) (ap_sessions s) = (ap_sessions s', i) \<and>
       j' = k @ [cookie_of i])"
  using assms by (auto simp: web_callback_def split: prod.splits sum.splits)

lemma web_dashboard_sessions:
  assumes "web_dashboard net ed_verify pf s r = (s', a)" "store_ok (ap_sessions s)"
  shows "store_ok (ap_sessions s') \<and> (map_of (st_byID (ap_sessions s)) i = None \<longrightarrow> map_of (st_byID (ap_sessions s')) i = None)"
  using assms
  by (auto simp: web_dashboard_def session_Token_keys keys_after(3) intro: session_Token_ok
      split: option.splits prod.splits sum.splits if_splits) (metis drop_ok session_Token_ok)

lemma web_logout_sessions:
  "web_logout (s, j) r = ((s', j'), a) \<Longrightarrow> ap_sessions s' =
     (case map_of (sr_Cookies r) session_cookie of None \<Rightarrow> ap_sessions s | Some i \<Rightarrow> drop_session i (ap_sessions s))"
  by (auto simp: web_logout_def Let_def)

lemma web_login_sessions: "web_login pf (s, j) = ((s', j'), a) \<Longrightarrow> ap_sessions s' = ap_sessions s"
  by (auto simp: web_login_def split: prod.splits sum.splits)

text \<open>Every route keeps the store consistent, and none but \<open>Callback\<close> adds a session.\<close>

lemma routes_sessions:
  assumes "routes net ed_verify pf rt (s, j) r = ((s', j'), a)" "store_ok (ap_sessions s)"
  shows "store_ok (ap_sessions s') \<and>
    (rt \<noteq> Callback \<longrightarrow> map_of (st_byID (ap_sessions s)) i = None \<longrightarrow> map_of (st_byID (ap_sessions s')) i = None)"
proof (cases rt)
  case LoginPage
  with assms web_login_sessions [of pf s j s' j' a] show ?thesis by (simp add: routes_def)
next
  case Callback
  with assms have "web_callback pf (s, j) r = ((s', j'), a)" by (simp add: routes_def)
  from web_callback_cases [OF this] Callback assms(2) show ?thesis by (auto dest: create_ok(1))
next
  case LogoutPage
  with assms web_logout_sessions [of s j r s' j' a] show ?thesis
    by (auto simp: routes_def keys_after(3) intro: drop_ok split: option.splits)
next
  case Dashboard
  with assms(1) have "web_dashboard net ed_verify pf s r = (s', a)" by (auto simp: routes_def split: prod.splits)
  from web_dashboard_sessions [OF this assms(2)] show ?thesis by blast
next
  case ListInvoices
  with assms(1) have "behind net ed_verify pf (\<lambda>p ctx. (p, web_listInvoices ctx)) (s, j) r = ((s', j'), a)" by (simp add: routes_def)
  from behind_sessions [OF this] have "ap_sessions s' = ap_sessions s" by simp
  with assms(2) show ?thesis by simp
next
  case (ApproveInvoice k)
  with assms(1) have "behind net ed_verify pf (\<lambda>p ctx. web_approveInvoice pf p ctx k) (s, j) r = ((s', j'), a)"
    by (simp add: routes_def)
  from behind_sessions [OF this] web_approve_sessions have "ap_sessions s' = ap_sessions s" by blast
  with assms(2) show ?thesis by simp
next
  case Backchannel
  with assms have "web_backchannel net ed_verify pf (s, j) r = ((s', j'), a)" by (simp add: routes_def)
  from web_backchannel_cases [OF this] assms(2) show ?thesis by (auto simp: keys_after(4) intro: dropBySID_ok)
qed (use assms in \<open>simp add: routes_def\<close>)

end
