(* ===== verification/Example_Billing.thy ===== *)
theory Example_Billing
  imports Kit
begin

text \<open>
  The go-kit example (\<open>anubiskit/examples/\<close>): a transport-free invoice service, its endpoints
  behind the adapter's middlewares, and what the three transports decode and encode around
  them. The requests are typed, so the assertions on \<open>any\<close> cannot fail. Theory
  \<open>Example_Transports\<close> mounts the endpoints on go-kit's servers.

  An endpoint is a function of the context, the request and the state: the world, the
  verifier with its keys, the client with its cache, the invoices. The error the package
  declares is one more error value.

  The lemmas: only an allowed decision on the invoice's own scopes changes an invoice, and a
  caller who is not verified is answered without a look at the invoices.
\<close>

section \<open>The service\<close>

record Invoice =
  iv_ID :: string
  iv_OrgID :: string
  iv_CustomerID :: string
  iv_Amount :: int
  iv_Approved :: bool
  iv_ApprovedBy :: string

type_synonym invoices = "(string \<times> Invoice) list"

abbreviation ErrNotFound :: goerr where "ErrNotFound \<equiv> ErrOther ''invoice not found''"

definition NewService :: invoices where
  "NewService =
     [(''inv-1'', \<lparr>iv_ID = ''inv-1'', iv_OrgID = ''org-north'', iv_CustomerID = ''cust-acme'', iv_Amount = 50000,
         iv_Approved = False, iv_ApprovedBy = []\<rparr>),
      (''inv-2'', \<lparr>iv_ID = ''inv-2'', iv_OrgID = ''org-south'', iv_CustomerID = ''cust-globex'', iv_Amount = 12500,
         iv_Approved = False, iv_ApprovedBy = []\<rparr>)]"

definition service_Load :: "invoices \<Rightarrow> string \<Rightarrow> Invoice res" where
  "service_Load invs i = (case map_of invs i of None \<Rightarrow> Inl ErrNotFound | Some invoice \<Rightarrow> Inr invoice)"

text \<open>The order of the list is that of a Go map: any.\<close>

definition service_List :: "invoices \<Rightarrow> string \<Rightarrow> Invoice list" where
  "service_List invs org = filter (\<lambda>invoice. org = [] \<or> iv_OrgID invoice = org) (map snd invs)"

definition service_Approve :: "invoices \<Rightarrow> Ctx \<Rightarrow> string \<Rightarrow> invoices \<times> Invoice res" where
  "service_Approve invs ctx i =
     (case map_of invs i of
        None \<Rightarrow> (invs, Inl ErrNotFound)
      | Some invoice \<Rightarrow>
          let invoice = invoice\<lparr>iv_Approved := True\<rparr>;
              invoice = (case IdentityFromContext ctx of Some p \<Rightarrow> invoice\<lparr>iv_ApprovedBy := id_Subject p\<rparr> | None \<Rightarrow> invoice)
          in (AList.update i invoice invs, Inr invoice))"

section \<open>The endpoints\<close>

record 'w billing =
  bl_world :: 'w
  bl_verifier :: Verifier
  bl_client :: "'w Client"
  bl_invoices :: invoices

text \<open>A context here carries the invoice too, once it is loaded.\<close>

type_synonym ('w, 'q, 'r) endpoint = "Ctx \<times> Invoice option \<Rightarrow> 'q \<Rightarrow> 'w billing \<Rightarrow> 'w billing \<times> 'r res"

definition authenticate ::
  "'w net \<Rightarrow> (bytes \<Rightarrow> bytes \<Rightarrow> bytes \<Rightarrow> bool) \<Rightarrow> 'w platform \<Rightarrow> ('w, 'q, 'r) endpoint \<Rightarrow> ('w, 'q, 'r) endpoint" where
  "authenticate net ed_verify pf nxt c q s =
     (case Authenticate net ed_verify (bl_world s, bl_verifier s) (pf_now pf (bl_world s)) (fst c) of
        ((w, v), Inl e) \<Rightarrow> (s\<lparr>bl_world := w, bl_verifier := v\<rparr>, Inl e)
      | ((w, v), Inr ctx) \<Rightarrow> nxt (ctx, snd c) q (s\<lparr>bl_world := w, bl_verifier := v\<rparr>))"

definition authorized ::
  "'w platform \<Rightarrow> string \<Rightarrow> (Ctx \<times> Invoice option \<Rightarrow> smap) \<Rightarrow> ('w, 'q, 'r) endpoint \<Rightarrow> ('w, 'q, 'r) endpoint" where
  "authorized pf permission scopes nxt c q s =
     (case kit_Authorize pf permission (Some (\<lambda>_ _. scopes c)) (bl_world s, bl_client s) (fst c) q of
        ((w, cl), Inl e) \<Rightarrow> (s\<lparr>bl_world := w, bl_client := cl\<rparr>, Inl e)
      | ((w, cl), Inr ctx) \<Rightarrow> nxt (ctx, snd c) q (s\<lparr>bl_world := w, bl_client := cl\<rparr>))"

definition loadInvoice :: "('w, string, 'r) endpoint \<Rightarrow> ('w, string, 'r) endpoint" where
  "loadInvoice nxt c i s =
     (case service_Load (bl_invoices s) i of Inl e \<Rightarrow> (s, Inl e) | Inr invoice \<Rightarrow> nxt (fst c, Some invoice) i s)"

definition ScopesOfInvoice :: "Ctx \<times> Invoice option \<Rightarrow> smap" where
  "ScopesOfInvoice c =
     (case snd c of None \<Rightarrow> [] | Some invoice \<Rightarrow> [(''org'', iv_OrgID invoice), (''customer'', iv_CustomerID invoice)])"

definition makeListEndpoint :: "('w, string, Invoice list) endpoint" where
  "makeListEndpoint c org s = (s, Inr (service_List (bl_invoices s) org))"

definition makeApproveEndpoint :: "('w, string, Invoice) endpoint" where
  "makeApproveEndpoint c i s =
     (case service_Approve (bl_invoices s) (fst c) i of (invs, r) \<Rightarrow> (s\<lparr>bl_invoices := invs\<rparr>, r))"

definition MakeEndpoints ::
  "'w net \<Rightarrow> (bytes \<Rightarrow> bytes \<Rightarrow> bytes \<Rightarrow> bool) \<Rightarrow> 'w platform \<Rightarrow>
   ('w, string, Invoice list) endpoint \<times> ('w, string, Invoice) endpoint" where
  "MakeEndpoints net ed_verify pf =
     (authenticate net ed_verify pf makeListEndpoint,
      authenticate net ed_verify pf
        (loadInvoice (authorized pf ''billing:invoice:approve'' ScopesOfInvoice makeApproveEndpoint)))"

text \<open>The same \<open>build\<close> in all three programs: a verifier for this service's audience, a client that asks with a tenant key.\<close>

definition build ::
  "'w platform \<Rightarrow> (string \<Rightarrow> bool) \<Rightarrow> 'w LoginStore \<Rightarrow> string \<Rightarrow> string \<Rightarrow> string \<Rightarrow> string \<Rightarrow> 'w \<Rightarrow> 'w billing res" where
  "build pf ip_loopback cookies anubisURL slug apiKey tenant w =
     (case NewVerifier (pf_url_parse pf) ip_loopback \<lparr>cfg_Issuer = anubisURL, cfg_Audience = slug,
             cfg_KeysURL = anubisURL @ ''/.well-known/anubis-keys.json'', cfg_StaticKeys = None, cfg_Leeway = 0\<rparr> of
        Inl e \<Rightarrow> Inl e
      | Inr v \<Rightarrow>
          (case New pf cookies anubisURL [WithApplication slug [], WithAPIKey apiKey, WithTenant tenant] of
             Inl e \<Rightarrow> Inl e
           | Inr cl \<Rightarrow> Inr \<lparr>bl_world = w, bl_verifier = v, bl_client = cl, bl_invoices = NewService\<rparr>))"

section \<open>HTTP\<close>

definition http_decodeListRequest :: "server_request \<Rightarrow> string" where
  "http_decodeListRequest r = values_Get (ParseQuery (sr_RawQuery r)) ''org''"

definition Invoice_json :: "Invoice \<Rightarrow> goval" where
  "Invoice_json invoice = GStruct ([(''id'', GStr (iv_ID invoice)), (''org_id'', GStr (iv_OrgID invoice)),
     (''customer_id'', GStr (iv_CustomerID invoice)), (''amount'', GInt (iv_Amount invoice)), (''approved'', GBool (iv_Approved invoice))] @
     (if iv_ApprovedBy invoice = [] then [] else [(''approved_by'', GStr (iv_ApprovedBy invoice))]))"

definition ListResponse_json :: "Invoice list \<Rightarrow> goval" where
  "ListResponse_json invs = GStruct [(''invoices'', GList (map Invoice_json invs))]"

definition ApproveResponse_json :: "Invoice \<Rightarrow> goval" where
  "ApproveResponse_json invoice = GStruct [(''invoice'', Invoice_json invoice)]"

definition http_encodeResponse :: "goval \<Rightarrow> handled" where
  "http_encodeResponse v = Answer 200 [(''Content-Type'', ''application/json; charset=utf-8'')] (marshal v @ [CHR 0x0A])"

definition http_errorEncoder :: "goerr \<Rightarrow> handled" where
  "http_errorEncoder e =
     (if errors_Is e ErrNotFound
      then Answer 404 [(''Content-Type'', ''application/json; charset=utf-8'')]
        (marshal (GMap [(''error'', GStr ''not_found''), (''message'', GStr ''invoice not found'')]) @ [CHR 0x0A])
      else ErrorEncoder e)"

section \<open>gRPC\<close>

datatype grpc_refusal = GRPCNotFound string | GRPCStatus "(code \<times> string \<times> metadata) option"

definition grpc_encodeError :: "goerr \<Rightarrow> grpc_refusal" where
  "grpc_encodeError e = (if errors_Is e ErrNotFound then GRPCNotFound ''invoice not found'' else GRPCStatus (GRPCError (Some e)))"

section \<open>AMQP\<close>

abbreviation json_syntax_error :: goerr where "json_syntax_error \<equiv> ErrOther ''json: syntax error''"
abbreviation json_type_error :: goerr where "json_type_error \<equiv> ErrOther ''json: cannot unmarshal''"

record delivery =
  dl_Headers :: "amqp_table option"
  dl_Body :: bytes
  dl_ReplyTo :: string
  dl_CorrelationId :: string

record publishing =
  pu_ContentType :: string
  pu_CorrelationId :: string
  pu_Body :: bytes

definition amqp_decodeApproveRequest :: "bytes \<Rightarrow> string res" where
  "amqp_decodeApproveRequest body =
     (case parse_json body of
        None \<Rightarrow> Inl json_syntax_error
      | Some v \<Rightarrow> (case decode_struct [(''InvoiceID'', set_string (\<lambda>v _. v))] v [] of
          None \<Rightarrow> Inl json_type_error | Some i \<Rightarrow> Inr i))"

definition amqp_encodeApproveResponse :: "publishing \<Rightarrow> Invoice \<Rightarrow> publishing" where
  "amqp_encodeApproveResponse p invoice = p\<lparr>pu_ContentType := ''application/json'', pu_Body := marshal (ApproveResponse_json invoice)\<rparr>"

text \<open>The channel's two operations are arguments.\<close>

definition publishAndAck ::
  "('ch \<Rightarrow> string \<Rightarrow> publishing \<Rightarrow> 'ch \<times> goerr option) \<Rightarrow> ('ch \<Rightarrow> 'ch \<times> goerr option) \<Rightarrow>
   'ch \<Rightarrow> delivery \<Rightarrow> publishing \<Rightarrow> 'ch \<times> goerr option" where
  "publishAndAck publish ack ch d p =
     (if dl_ReplyTo d \<noteq> []
      then (case publish ch (dl_ReplyTo d) (p\<lparr>pu_CorrelationId := dl_CorrelationId d\<rparr>) of
              (ch', Some e) \<Rightarrow> (ch', Some e)
            | (ch', None) \<Rightarrow> ack ch')
      else ack ch)"

definition amqp_errorEncoder :: "goerr \<Rightarrow> bool \<Rightarrow> (bool \<times> bool) option" where
  "amqp_errorEncoder e has_delivery =
     (if \<not> has_delivery then None
      else if e = json_syntax_error then Some (False, False)
      else NackErrorEncoder e has_delivery)"

section \<open>Lemmas\<close>

lemma authenticate_Inr:
  assumes "authenticate net ed_verify pf nxt c q s = (s', r)"
  shows "(\<exists>w v e. Authenticate net ed_verify (bl_world s, bl_verifier s) (pf_now pf (bl_world s)) (fst c) = ((w, v), Inl e) \<and>
        s' = s\<lparr>bl_world := w, bl_verifier := v\<rparr> \<and> r = Inl e) \<or>
    (\<exists>w v ctx. Authenticate net ed_verify (bl_world s, bl_verifier s) (pf_now pf (bl_world s)) (fst c) = ((w, v), Inr ctx) \<and>
        nxt (ctx, snd c) q (s\<lparr>bl_world := w, bl_verifier := v\<rparr>) = (s', r))"
  using assms by (auto simp: authenticate_def split: prod.splits sum.splits)

text \<open>What the approving endpoint does once the caller is verified.\<close>

definition approve_as :: "'w platform \<Rightarrow> Ctx \<Rightarrow> string \<Rightarrow> 'w billing \<Rightarrow> 'w billing \<times> Invoice res" where
  "approve_as pf ctx i s = loadInvoice (authorized pf ''billing:invoice:approve'' ScopesOfInvoice makeApproveEndpoint) (ctx, None) i s"

lemma approve_as_missing: "map_of (bl_invoices s) i = None \<Longrightarrow> approve_as pf ctx i s = (s, Inl ErrNotFound)"
  by (simp add: approve_as_def loadInvoice_def service_Load_def)

lemma approve_as_found:
  assumes "map_of (bl_invoices s) i = Some invoice" "FromContext ctx \<noteq> None"
  shows "approve_as pf ctx i s =
    (case Require pf (bl_world s, bl_client s) ctx ''billing:invoice:approve''
            [(''org'', iv_OrgID invoice), (''customer'', iv_CustomerID invoice)] of
       ((w, cl), Some e) \<Rightarrow> (s\<lparr>bl_world := w, bl_client := cl\<rparr>, Inl e)
     | ((w, cl), None) \<Rightarrow>
         case service_Approve (bl_invoices s) ctx i of
           (invs, r) \<Rightarrow> (s\<lparr>bl_world := w, bl_client := cl, bl_invoices := invs\<rparr>, r))"
  using assms
  by (auto simp: approve_as_def loadInvoice_def service_Load_def authorized_def kit_Authorize_def ScopesOfInvoice_def
      makeApproveEndpoint_def split: prod.split option.split)

lemma approve_endpoint:
  "snd (MakeEndpoints net ed_verify pf) (ctx, None) i s =
    (case Authenticate net ed_verify (bl_world s, bl_verifier s) (pf_now pf (bl_world s)) ctx of
       ((w, v), Inl e) \<Rightarrow> (s\<lparr>bl_world := w, bl_verifier := v\<rparr>, Inl e)
     | ((w, v), Inr ctx') \<Rightarrow> approve_as pf ctx' i (s\<lparr>bl_world := w, bl_verifier := v\<rparr>))"
  by (simp add: MakeEndpoints_def authenticate_def approve_as_def split: prod.split sum.split)

lemma list_endpoint:
  "fst (MakeEndpoints net ed_verify pf) (ctx, None) org s =
    (case Authenticate net ed_verify (bl_world s, bl_verifier s) (pf_now pf (bl_world s)) ctx of
       ((w, v), Inl e) \<Rightarrow> (s\<lparr>bl_world := w, bl_verifier := v\<rparr>, Inl e)
     | ((w, v), Inr ctx') \<Rightarrow> (s\<lparr>bl_world := w, bl_verifier := v\<rparr>, Inr (service_List (bl_invoices s) org)))"
  by (simp add: MakeEndpoints_def authenticate_def makeListEndpoint_def split: prod.split sum.split)

end
