(* ===== verification/Example_Transports.thy ===== *)
theory Example_Transports
  imports Example_Billing
begin

text \<open>
  The go-kit example on its three transports (\<open>anubiskit/examples/http\<close>, \<open>grpc\<close>, \<open>amqp\<close>):
  how each program mounts the same endpoints. The servers of go-kit are not code of this
  repository: each is an argument, and \<open>http_documented\<close>, \<open>grpc_documented\<close> and
  \<open>amqp_documented\<close> say what their documentation promises, that decoder, endpoint and
  encoder run in turn and that the first error goes to the error encoder.

  The lemmas: on every transport a request runs the same endpoint on the same credential, and
  what the caller or the queue sees is the transport's form of its one result.
\<close>

section \<open>The programs\<close>

definition env :: "(string \<Rightarrow> string) \<Rightarrow> string \<Rightarrow> string \<Rightarrow> string" where
  "env getenv key fallback = (let v = getenv key in if v \<noteq> [] then v else fallback)"

text \<open>What each \<open>main\<close> hands to its \<open>build\<close>; \<open>getenv\<close> is the environment of the process.\<close>

definition main_arguments :: "(string \<Rightarrow> string) \<Rightarrow> string \<Rightarrow> string \<times> string \<times> string \<times> string" where
  "main_arguments getenv app =
     (env getenv ''ANUBIS_URL'' ''https://anubis.internal'', env getenv ''ANUBIS_APP'' app, getenv ''ANUBIS_API_KEY'',
      env getenv ''ANUBIS_TENANT'' ''impack'')"

abbreviation (input) http_arguments :: "(string \<Rightarrow> string) \<Rightarrow> string \<times> string \<times> string \<times> string" where
  "http_arguments getenv \<equiv> main_arguments getenv ''billing-api''"
abbreviation (input) grpc_arguments :: "(string \<Rightarrow> string) \<Rightarrow> string \<times> string \<times> string \<times> string" where
  "grpc_arguments getenv \<equiv> main_arguments getenv ''billing-api''"
abbreviation (input) amqp_arguments :: "(string \<Rightarrow> string) \<Rightarrow> string \<times> string \<times> string \<times> string" where
  "amqp_arguments getenv \<equiv> main_arguments getenv ''billing-worker''"

section \<open>HTTP\<close>

text \<open>A route of the mux, with the path value it read; the mux sends other requests elsewhere.\<close>

datatype http_route = GET_invoices | POST_approve string

definition http_decodeApproveRequest :: "string \<Rightarrow> server_request \<Rightarrow> string" where
  "http_decodeApproveRequest path_id r = path_id"

type_synonym ('w, 'q, 'r) http_server =
  "('w, 'q, 'r) endpoint \<Rightarrow> (server_request \<Rightarrow> 'q) \<Rightarrow> ('r \<Rightarrow> handled) \<Rightarrow> (Ctx \<Rightarrow> smap \<Rightarrow> Ctx) \<Rightarrow> (goerr \<Rightarrow> handled) \<Rightarrow>
   Ctx \<Rightarrow> server_request \<Rightarrow> 'w billing \<Rightarrow> 'w billing \<times> handled"

definition MakeHTTPHandler ::
  "('w, string, Invoice list) http_server \<Rightarrow> ('w, string, Invoice) http_server \<Rightarrow>
   ('w, string, Invoice list) endpoint \<times> ('w, string, Invoice) endpoint \<Rightarrow> http_route \<Rightarrow>
   Ctx \<Rightarrow> server_request \<Rightarrow> 'w billing \<Rightarrow> 'w billing \<times> handled" where
  "MakeHTTPHandler list_server approve_server e rt =
     (case rt of
        GET_invoices \<Rightarrow>
          list_server (fst e) http_decodeListRequest (\<lambda>invs. http_encodeResponse (ListResponse_json invs)) HTTPToContext http_errorEncoder
      | POST_approve i \<Rightarrow>
          approve_server (snd e) (http_decodeApproveRequest i) (\<lambda>invoice. http_encodeResponse (ApproveResponse_json invoice)) HTTPToContext
            http_errorEncoder)"

definition http_documented :: "('w, 'q, 'r) http_server \<Rightarrow> bool" where
  "http_documented server \<longleftrightarrow> (\<forall>e dec enc before errs ctx r s. server e dec enc before errs ctx r s =
     (case e (before ctx (sr_Header r), None) (dec r) s of (s', Inl err) \<Rightarrow> (s', errs err) | (s', Inr x) \<Rightarrow> (s', enc x)))"

section \<open>gRPC\<close>

text \<open>The messages the generated package declares, and the two that hold one field.\<close>

record pb_Invoice =
  pb_Id :: string
  pb_OrgId :: string
  pb_CustomerId :: string
  pb_Amount :: int
  pb_Approved :: bool
  pb_ApprovedBy :: string

definition toProto :: "Invoice \<Rightarrow> pb_Invoice" where
  "toProto invoice = \<lparr>pb_Id = iv_ID invoice, pb_OrgId = iv_OrgID invoice, pb_CustomerId = iv_CustomerID invoice, pb_Amount = iv_Amount invoice,
     pb_Approved = iv_Approved invoice, pb_ApprovedBy = iv_ApprovedBy invoice\<rparr>"

record pb_ListRequest = pb_Org :: string
record pb_ApproveRequest = pb_InvoiceId :: string
record pb_ListResponse = pb_Invoices :: "pb_Invoice list"
record pb_ApproveResponse = pb_Invoice_field :: pb_Invoice

definition grpc_decodeListRequest :: "pb_ListRequest \<Rightarrow> string" where "grpc_decodeListRequest r = pb_Org r"

definition grpc_encodeListResponse :: "Invoice list \<Rightarrow> pb_ListResponse" where
  "grpc_encodeListResponse invs = \<lparr>pb_Invoices = map toProto invs\<rparr>"

definition grpc_decodeApproveRequest :: "pb_ApproveRequest \<Rightarrow> string" where "grpc_decodeApproveRequest r = pb_InvoiceId r"

definition grpc_encodeApproveResponse :: "Invoice \<Rightarrow> pb_ApproveResponse" where
  "grpc_encodeApproveResponse invoice = \<lparr>pb_Invoice_field = toProto invoice\<rparr>"

type_synonym ('w, 'm, 'n) grpc_handler = "Ctx \<Rightarrow> metadata \<Rightarrow> 'm \<Rightarrow> 'w billing \<Rightarrow> 'w billing \<times> 'n res"
type_synonym ('w, 'q, 'r, 'm, 'n) grpc_new =
  "('w, 'q, 'r) endpoint \<Rightarrow> ('m \<Rightarrow> 'q) \<Rightarrow> ('r \<Rightarrow> 'n) \<Rightarrow> (Ctx \<Rightarrow> metadata \<Rightarrow> Ctx) \<Rightarrow> ('w, 'm, 'n) grpc_handler"

record 'w grpcServer =
  gs_list :: "('w, pb_ListRequest, pb_ListResponse) grpc_handler"
  gs_approve :: "('w, pb_ApproveRequest, pb_ApproveResponse) grpc_handler"

definition NewGRPCServer ::
  "('w, string, Invoice list, pb_ListRequest, pb_ListResponse) grpc_new \<Rightarrow>
   ('w, string, Invoice, pb_ApproveRequest, pb_ApproveResponse) grpc_new \<Rightarrow>
   ('w, string, Invoice list) endpoint \<times> ('w, string, Invoice) endpoint \<Rightarrow> 'w grpcServer" where
  "NewGRPCServer list_server approve_server e =
     \<lparr>gs_list = list_server (fst e) grpc_decodeListRequest grpc_encodeListResponse GRPCToContext,
      gs_approve = approve_server (snd e) grpc_decodeApproveRequest grpc_encodeApproveResponse GRPCToContext\<rparr>"

definition grpc_answer :: "'w billing \<times> 'n res \<Rightarrow> 'w billing \<times> (grpc_refusal + 'n)" where
  "grpc_answer p = (case p of (s, Inl e) \<Rightarrow> (s, Inl (grpc_encodeError e)) | (s, Inr x) \<Rightarrow> (s, Inr x))"

definition grpcServer_List ::
  "'w grpcServer \<Rightarrow> Ctx \<Rightarrow> metadata \<Rightarrow> pb_ListRequest \<Rightarrow> 'w billing \<Rightarrow> 'w billing \<times> (grpc_refusal + pb_ListResponse)" where
  "grpcServer_List g ctx md req s = grpc_answer (gs_list g ctx md req s)"

definition grpcServer_Approve ::
  "'w grpcServer \<Rightarrow> Ctx \<Rightarrow> metadata \<Rightarrow> pb_ApproveRequest \<Rightarrow> 'w billing \<Rightarrow> 'w billing \<times> (grpc_refusal + pb_ApproveResponse)" where
  "grpcServer_Approve g ctx md req s = grpc_answer (gs_approve g ctx md req s)"

definition grpc_documented :: "('w, 'q, 'r, 'm, 'n) grpc_new \<Rightarrow> bool" where
  "grpc_documented server \<longleftrightarrow> (\<forall>e dec enc before ctx md m s. server e dec enc before ctx md m s =
     (case e (before ctx md, None) (dec m) s of (s', Inl err) \<Rightarrow> (s', Inl err) | (s', Inr x) \<Rightarrow> (s', Inr (enc x))))"

section \<open>AMQP\<close>

definition zero_publishing :: publishing where
  "zero_publishing = \<lparr>pu_ContentType = [], pu_CorrelationId = [], pu_Body = []\<rparr>"

text \<open>The operations of the channel and its deliveries are arguments; \<open>nack\<close> takes multiple and requeue.\<close>

record 'ch channel =
  ch_publish :: "'ch \<Rightarrow> string \<Rightarrow> publishing \<Rightarrow> 'ch \<times> goerr option"
  ch_ack :: "'ch \<Rightarrow> 'ch \<times> goerr option"
  ch_nack :: "'ch \<Rightarrow> bool \<times> bool \<Rightarrow> 'ch"

definition settle :: "'ch channel \<Rightarrow> goerr \<Rightarrow> 'ch \<Rightarrow> 'ch" where
  "settle c e ch = (case amqp_errorEncoder e True of None \<Rightarrow> ch | Some how \<Rightarrow> ch_nack c ch how)"

type_synonym ('w, 'ch, 'q, 'r) subscriber_new =
  "('w, 'q, 'r) endpoint \<Rightarrow> (bytes \<Rightarrow> 'q res) \<Rightarrow> (publishing \<Rightarrow> 'r \<Rightarrow> publishing) \<Rightarrow> (Ctx \<Rightarrow> amqp_table option \<Rightarrow> Ctx) \<Rightarrow>
   (goerr \<Rightarrow> 'ch \<Rightarrow> 'ch) \<Rightarrow> ('ch \<Rightarrow> delivery \<Rightarrow> publishing \<Rightarrow> 'ch \<times> goerr option) \<Rightarrow>
   Ctx \<Rightarrow> delivery \<Rightarrow> 'ch \<times> 'w billing \<Rightarrow> 'ch \<times> 'w billing"

definition NewSubscriber ::
  "('w, 'ch, string, Invoice) subscriber_new \<Rightarrow> 'ch channel \<Rightarrow>
   ('w, string, Invoice list) endpoint \<times> ('w, string, Invoice) endpoint \<Rightarrow>
   Ctx \<Rightarrow> delivery \<Rightarrow> 'ch \<times> 'w billing \<Rightarrow> 'ch \<times> 'w billing" where
  "NewSubscriber subscriber c e =
     subscriber (snd e) amqp_decodeApproveRequest amqp_encodeApproveResponse AMQPToContext (settle c)
       (publishAndAck (ch_publish c) (ch_ack c))"

definition amqp_documented :: "('w, 'ch, 'q, 'r) subscriber_new \<Rightarrow> bool" where
  "amqp_documented subscriber \<longleftrightarrow> (\<forall>e dec enc before errs publish ctx d ch s. subscriber e dec enc before errs publish ctx d (ch, s) =
     (case dec (dl_Body d) of
        Inl err \<Rightarrow> (errs err ch, s)
      | Inr q \<Rightarrow> (case e (before ctx (dl_Headers d), None) q s of
          (s', Inl err) \<Rightarrow> (errs err ch, s')
        | (s', Inr x) \<Rightarrow> (case publish ch d (enc zero_publishing x) of
            (ch', None) \<Rightarrow> (ch', s') | (ch', Some err) \<Rightarrow> (errs err ch', s')))))"

text \<open>The loop of \<open>main\<close>: one delivery after the other.\<close>

definition consume :: "(delivery \<Rightarrow> 'ch \<times> 'w billing \<Rightarrow> 'ch \<times> 'w billing) \<Rightarrow> delivery list \<Rightarrow> 'ch \<times> 'w billing \<Rightarrow> 'ch \<times> 'w billing" where
  "consume serve = fold serve"

section \<open>The three builds\<close>

text \<open>A verifier and a client, as \<open>build\<close> of theory \<open>Example_Billing\<close> makes them, and the endpoints mounted on a server.\<close>

definition http_build where
  "http_build list_server approve_server net ed_verify pf ip_loopback cookies anubisURL slug apiKey tenant w =
     (case build pf ip_loopback cookies anubisURL slug apiKey tenant w of
        Inl e \<Rightarrow> Inl e
      | Inr s \<Rightarrow> Inr (s, MakeHTTPHandler list_server approve_server (MakeEndpoints net ed_verify pf)))"

definition grpc_build where
  "grpc_build list_server approve_server net ed_verify pf ip_loopback cookies anubisURL slug apiKey tenant w =
     (case build pf ip_loopback cookies anubisURL slug apiKey tenant w of
        Inl e \<Rightarrow> Inl e
      | Inr s \<Rightarrow> Inr (s, NewGRPCServer list_server approve_server (MakeEndpoints net ed_verify pf)))"

definition amqp_build where
  "amqp_build net ed_verify pf ip_loopback cookies anubisURL slug apiKey tenant w =
     (case build pf ip_loopback cookies anubisURL slug apiKey tenant w of
        Inl e \<Rightarrow> Inl e
      | Inr s \<Rightarrow> Inr (s, MakeEndpoints net ed_verify pf))"

section \<open>Lemmas\<close>

abbreviation no_ctx :: Ctx where "no_ctx \<equiv> \<lparr>ctx_principal = None, ctx_bearer = None\<rparr>"

lemma credential_lifted:
  "kit_bearer (header_Get h ''Authorization'') = Some t \<Longrightarrow> HTTPToContext no_ctx h = put_token no_ctx t"
  "find_first kit_bearer (md_Get md ''authorization'') = Some t \<Longrightarrow> GRPCToContext no_ctx md = put_token no_ctx t"
  "map_of tbl ''authorization'' = Some (AString v) \<Longrightarrow> kit_bearer v = Some t \<Longrightarrow> AMQPToContext no_ctx (Some tbl) = put_token no_ctx t"
  by (simp_all add: HTTPToContext_def GRPCToContext_def AMQPToContext_def)

lemma http_served: "http_documented server \<Longrightarrow> server e dec enc before errs ctx r s =
    (case e (before ctx (sr_Header r), None) (dec r) s of (s', Inl err) \<Rightarrow> (s', errs err) | (s', Inr x) \<Rightarrow> (s', enc x))"
  by (simp add: http_documented_def)

lemma grpc_served: "grpc_documented server \<Longrightarrow> server e dec enc before ctx md m s =
    (case e (before ctx md, None) (dec m) s of (s', Inl err) \<Rightarrow> (s', Inl err) | (s', Inr x) \<Rightarrow> (s', Inr (enc x)))"
  by (simp add: grpc_documented_def)

lemma amqp_served: "amqp_documented subscriber \<Longrightarrow> dec (dl_Body d) = Inr q \<Longrightarrow> subscriber e dec enc before errs publish ctx d (ch, s) =
    (case e (before ctx (dl_Headers d), None) q s of
       (s', Inl err) \<Rightarrow> (errs err ch, s')
     | (s', Inr x) \<Rightarrow> (case publish ch d (enc zero_publishing x) of
         (ch', None) \<Rightarrow> (ch', s') | (ch', Some err) \<Rightarrow> (errs err ch', s')))"
  by (simp add: amqp_documented_def)

text \<open>The status, the code and the redelivery of an error that is not of this service.\<close>

lemma refusal_forms:
  assumes "\<not> errors_Is e ErrNotFound" "e \<noteq> json_syntax_error"
  shows "\<exists>h b. http_errorEncoder e = Answer (status_of (GRPCCode e)) h b"
    and "\<exists>m md. grpc_encodeError e = GRPCStatus (Some (GRPCCode e, m, md))"
    and "settle c e ch = ch_nack c ch (False, Retryable e)"
  using assms by (simp_all add: http_errorEncoder_def ErrorEncoder_def grpc_encodeError_def GRPCError_def settle_def amqp_errorEncoder_def
      NackErrorEncoder_def StatusCode_GRPC split: prod.split)

lemma refused_forms:
  "errors_Is e ErrNotFound \<or> e = json_syntax_error \<or>
     (\<exists>h b m t. http_errorEncoder e = Answer (status_of (GRPCCode e)) h b \<and>
        grpc_encodeError e = GRPCStatus (Some (GRPCCode e, m, t)) \<and> settle c e ch = ch_nack c ch (False, Retryable e))"
proof (cases "errors_Is e ErrNotFound \<or> e = json_syntax_error")
  case False
  then have "\<not> errors_Is e ErrNotFound" "e \<noteq> json_syntax_error" by blast+
  from refusal_forms(1) [OF this] refusal_forms(2) [OF this] obtain h b m t where
    "http_errorEncoder e = Answer (status_of (GRPCCode e)) h b" "grpc_encodeError e = GRPCStatus (Some (GRPCCode e, m, t))"
    by (elim exE)
  with refusal_forms(3) [OF \<open>\<not> errors_Is e ErrNotFound\<close> \<open>e \<noteq> json_syntax_error\<close>] show ?thesis by (intro disjI2 exI conjI)
qed (elim disjE, simp_all)

text \<open>A token that is malformed, of another version or badly signed is answered as a fault of the service.\<close>

lemma bad_token_is_internal: "e \<in> {ErrMalformed, ErrWrongHeader, ErrBadSig, ErrTokenVersion} \<Longrightarrow> StatusCode e = 500 \<and> GRPCCode e = Internal"
  by (auto simp: StatusCode_def GRPCCode_def errors_As_def errors_Is_def list_ex_iff verification_sentinels_def)

end
