(* ===== verification/Example_Properties.thy ===== *)
theory Example_Properties
  imports Example_Web Example_Transports Demo_Client Offline_Properties
begin

text \<open>
  The SDK put to use: the properties of the two example services, each the composition of the
  verifier, the client and the session machinery in an application that has state of its own.
\<close>

section \<open>The go-kit service\<close>

text \<open>C31: the approving endpoint changes an invoice only for a caller whose token was verified
  and whom the installation allowed to approve on the scopes of that very invoice; then that
  invoice alone is approved, in the caller's name. On an error no invoice changes.\<close>

theorem approval_guarded:
  assumes "snd (MakeEndpoints net ed_verify pf) (ctx, None) i s = (s', r)"
  shows "case r of
      Inl e \<Rightarrow> bl_invoices s' = bl_invoices s
    | Inr invoice' \<Rightarrow>
        \<exists>tok w v c d invoice. ctx_bearer ctx = Some tok \<and>
          Verifier_Verify net ed_verify (bl_world s, bl_verifier s) (pf_now pf (bl_world s)) tok = ((w, v), Inr c) \<and>
          map_of (bl_invoices s) i = Some invoice \<and>
          Authorize pf (w, bl_client s) (WithPrincipal ctx \<lparr>p_Claims = Some c, p_Token = tok\<rparr>) ''billing:invoice:approve''
            [(''org'', iv_OrgID invoice), (''customer'', iv_CustomerID invoice)] = ((bl_world s', bl_client s'), Inr d) \<and>
          dn_Allow d \<and> dn_subject d = cl_Subject c \<and> dn_permission d = ''billing:invoice:approve'' \<and>
          invoice' = invoice\<lparr>iv_Approved := True, iv_ApprovedBy := cl_Subject c\<rparr> \<and>
          bl_invoices s' = AList.update i invoice' (bl_invoices s)"
proof -
  obtain w v res where a: "Authenticate net ed_verify (bl_world s, bl_verifier s) (pf_now pf (bl_world s)) ctx = ((w, v), res)"
    by (metis prod.collapse)
  show ?thesis
  proof (cases res)
    case (Inl e)
    with assms a show ?thesis by (auto simp: approve_endpoint)
  next
    case (Inr ctx')
    with assms a have run: "approve_as pf ctx' i (s\<lparr>bl_world := w, bl_verifier := v\<rparr>) = (s', r)"
      by (simp add: approve_endpoint)
    from Authenticate_Inr [OF a [unfolded Inr]] obtain tok c where t: "ctx_bearer ctx = Some tok"
      "Verifier_Verify net ed_verify (bl_world s, bl_verifier s) (pf_now pf (bl_world s)) tok = ((w, v), Inr c)"
      "ctx' = WithPrincipal ctx \<lparr>p_Claims = Some c, p_Token = tok\<rparr>" by blast
    have p: "FromContext ctx' \<noteq> None" "IdentityFromContext ctx' \<noteq> None"
      "\<And>q. IdentityFromContext ctx' = Some q \<Longrightarrow> id_Subject q = cl_Subject c"
      by (auto simp: t(3) FromContext_def IdentityFromContext_def WithPrincipal_def Principal_Identity_def Claims_Identity_def)
    show ?thesis
    proof (cases "map_of (bl_invoices s) i")
      case None
      with run show ?thesis by (auto simp: approve_as_missing)
    next
      case (Some invoice)
      let ?scopes = "[(''org'', iv_OrgID invoice), (''customer'', iv_CustomerID invoice)]"
      obtain w1 c1 ans where q: "Authorize pf (w, bl_client s) ctx' ''billing:invoice:approve'' ?scopes = ((w1, c1), ans)"
        by (metis prod.collapse)
      show ?thesis
      proof (cases "\<exists>d. ans = Inr d \<and> dn_Allow d")
        case True
        then obtain d where d: "ans = Inr d" "dn_Allow d" by blast
        from Authorize_principal [OF q [unfolded d(1)]] p(3) have "dn_subject d = cl_Subject c" "dn_permission d = ''billing:invoice:approve''"
          by (auto simp: t(3) FromContext_def WithPrincipal_def Principal_Identity_def Claims_Identity_def)
        moreover have "Require pf (w, bl_client s) ctx' ''billing:invoice:approve'' ?scopes = ((w1, c1), None)"
          using q d by (simp add: Require_def Decision_Err_def)
        with run Some p(1) have "bl_world s' = w1 \<and> bl_client s' = c1 \<and>
            service_Approve (bl_invoices s) ctx' i = (bl_invoices s', r)"
          by (auto simp: approve_as_found split: prod.splits)
        ultimately show ?thesis
          using q d t Some p(2,3) by (auto simp: service_Approve_def Let_def split: option.splits)
      next
        case False
        then have "\<exists>e. Require pf (w, bl_client s) ctx' ''billing:invoice:approve'' ?scopes = ((w1, c1), Some e)"
          using q by (cases ans) (auto simp: Require_def Decision_Err_def)
        with run Some p(1) show ?thesis by (auto simp: approve_as_found)
      qed
    qed
  qed
qed

abbreviation demo_bearer :: Ctx where "demo_bearer \<equiv> \<lparr>ctx_principal = None, ctx_bearer = Some demo_token\<rparr>"
abbreviation demo_silent :: "http_request list net" where "demo_silent \<equiv> \<lambda>w rq. (w, Inl ErrNoCredential)"
abbreviation demo_holder :: "Ctx \<Rightarrow> Ctx" where
  "demo_holder ctx \<equiv> WithPrincipal ctx \<lparr>p_Claims = Some ((minted ''anubis'' demo_now demo_claims)\<lparr>cl_Scopes := []\<rparr>), p_Token = demo_token\<rparr>"

definition demo_billing :: "http_request list billing" where
  "demo_billing = \<lparr>bl_world = [], bl_verifier = demo_verifier, bl_client = demo_with demo_dc, bl_invoices = NewService\<rparr>"

lemma demo_billing_fields [simp]:
  "bl_world demo_billing = []" "bl_verifier demo_billing = demo_verifier" "bl_client demo_billing = demo_with demo_dc"
  "bl_invoices demo_billing = NewService"
  by (simp_all add: demo_billing_def)

lemma demo_token_given: "demo_token \<noteq> []"
  using Sign_not_Nil [OF demo_minted(1) [unfolded MintToken_def]] .

lemma demo_authenticated:
  "Authenticate demo_silent demo_verify (w, demo_verifier) demo_now demo_bearer = ((w, demo_verifier), Inr (demo_holder demo_bearer))"
  using demo_token_given by (simp add: Authenticate_def outgoing_def demo_verifies)

lemma demo_approver: "askable ''usr_1'' ''billing:invoice:approve''"
  by (simp add: askable_def Permission_IsValid_def Permission_parts_def)

lemma demo_allowed:
  "\<exists>w dc. Require (demo_pf demo_allow_body) ([], demo_with demo_dc) (demo_holder ctx) ''billing:invoice:approve'' scopes = ((w, demo_with dc), None)"
proof -
  have "cache_get demo_dc k demo_now = None" for k by (simp add: demo_dc_def newDecisionCache_def cache_get_def)
  then show ?thesis
    by (auto simp: Require_def Authorize_def IdentityFromContext_def FromContext_def WithPrincipal_def Principal_Identity_def
        Claims_Identity_def minted_def demo_authorize [OF demo_approver] Decision_Err_def demo_yes_def)
qed

theorem approval_guarded_witness:
  "\<exists>s' invoice. snd (MakeEndpoints demo_silent demo_verify (demo_pf demo_allow_body)) (demo_bearer, None) ''inv-1'' demo_billing = (s', Inr invoice) \<and>
     iv_Approved invoice \<and> iv_ApprovedBy invoice = ''usr_1''"
proof -
  let ?scopes = "[(''org'', ''org-north''), (''customer'', ''cust-acme'')]"
  obtain w dc where q: "Require (demo_pf demo_allow_body) ([], demo_with demo_dc) (demo_holder demo_bearer) ''billing:invoice:approve'' ?scopes =
      ((w, demo_with dc), None)" using demo_allowed by blast
  have h: "FromContext (demo_holder demo_bearer) \<noteq> None" by (simp add: FromContext_def WithPrincipal_def)
  have "map_of (bl_invoices demo_billing) ''inv-1'' = Some \<lparr>iv_ID = ''inv-1'', iv_OrgID = ''org-north'', iv_CustomerID = ''cust-acme'',
      iv_Amount = 50000, iv_Approved = False, iv_ApprovedBy = []\<rparr>" by (simp add: NewService_def)
  with q h have "\<exists>s' invoice. snd (MakeEndpoints demo_silent demo_verify (demo_pf demo_allow_body)) (demo_bearer, None) ''inv-1'' demo_billing =
      (s', Inr invoice)"
    by (simp add: approve_endpoint demo_authenticated approve_as_found service_Approve_def Let_def split: option.split)
  then obtain s' invoice where run: "snd (MakeEndpoints demo_silent demo_verify (demo_pf demo_allow_body)) (demo_bearer, None) ''inv-1'' demo_billing =
      (s', Inr invoice)" by blast
  from approval_guarded [OF run] have "\<exists>c. Verifier_Verify demo_silent demo_verify ([], demo_verifier) demo_now demo_token = (([], demo_verifier), Inr c) \<and>
      iv_Approved invoice \<and> iv_ApprovedBy invoice = cl_Subject c"
    by (auto simp: demo_verifies)
  with run show ?thesis by (auto simp: demo_verifies minted_def)
qed

text \<open>a caller who cannot be verified is answered the same whatever invoices there are, by
  both endpoints, and no question is put to the installation.\<close>

lemma outsider_learns_nothing:
  assumes "Authenticate net ed_verify (bl_world s, bl_verifier s) (pf_now pf (bl_world s)) ctx = ((w, v), Inl e)"
  shows "fst (MakeEndpoints net ed_verify pf) (ctx, None) org (s\<lparr>bl_invoices := invs\<rparr>) =
      (s\<lparr>bl_world := w, bl_verifier := v, bl_invoices := invs\<rparr>, Inl e) \<and>
    snd (MakeEndpoints net ed_verify pf) (ctx, None) i (s\<lparr>bl_invoices := invs\<rparr>) =
      (s\<lparr>bl_world := w, bl_verifier := v, bl_invoices := invs\<rparr>, Inl e)"
  using assms by (simp add: approve_endpoint list_endpoint)

lemma outsider_learns_nothing_witness:
  "snd (snd (MakeEndpoints demo_silent demo_verify (demo_pf demo_allow_body)) (\<lparr>ctx_principal = None, ctx_bearer = None\<rparr>, None) ''inv-1''
      (demo_billing\<lparr>bl_invoices := []\<rparr>)) = Inl ErrTokenContextMissing"
  using outsider_learns_nothing [of demo_silent demo_verify demo_billing "demo_pf demo_allow_body"
      "\<lparr>ctx_principal = None, ctx_bearer = None\<rparr>" "[]" demo_verifier ErrTokenContextMissing]
  by (simp add: Authenticate_def outgoing_def)

section \<open>The three transports\<close>

lemma refused_unchanged:
  assumes "snd (MakeEndpoints net ed_verify pf) (ctx, None) i s = (s', Inl e)"
  shows "bl_invoices s' = bl_invoices s"
  using assms
  by (auto simp: approve_endpoint approve_as_def loadInvoice_def authorized_def makeApproveEndpoint_def service_Load_def
      service_Approve_def Let_def split: prod.splits sum.splits option.splits)

text \<open>C32: the three programs are one service. A request to approve an invoice, sent with the same
  credential over HTTP, gRPC or AMQP, runs the one endpoint once and leaves the same state; its
  answer is the transport's form of the same result: the invoice encoded, replied and then
  acknowledged, or a refusal whose HTTP status is that of its gRPC code and which the queue gets
  back exactly when repeating could help. A refusal changes no invoice. Of go-kit's servers
  only what they document is assumed.\<close>

theorem transports_agree:
  assumes servers: "http_documented hs" "grpc_documented gs" "amqp_documented subscriber"
    and credential: "kit_bearer (header_Get (sr_Header r) ''Authorization'') = Some tok"
      "find_first kit_bearer (md_Get md ''authorization'') = Some tok"
      "dl_Headers d = Some tbl" "map_of tbl ''authorization'' = Some (AString v)" "kit_bearer v = Some tok"
    and body: "amqp_decodeApproveRequest (dl_Body d) = Inr i"
    and run: "snd (MakeEndpoints net ed_verify pf) (put_token no_ctx tok, None) i s = (s', res)"
  shows "MakeHTTPHandler hs' hs (MakeEndpoints net ed_verify pf) (POST_approve i) no_ctx r s =
      (s', case res of Inl e \<Rightarrow> http_errorEncoder e | Inr x \<Rightarrow> http_encodeResponse (ApproveResponse_json x)) \<and>
    grpcServer_Approve (NewGRPCServer gs' gs (MakeEndpoints net ed_verify pf)) no_ctx md \<lparr>pb_InvoiceId = i\<rparr> s =
      (s', case res of Inl e \<Rightarrow> Inl (grpc_encodeError e) | Inr x \<Rightarrow> Inr \<lparr>pb_Invoice_field = toProto x\<rparr>) \<and>
    NewSubscriber subscriber c (MakeEndpoints net ed_verify pf) no_ctx d (ch, s) =
      (case res of
         Inl e \<Rightarrow> settle c e ch
       | Inr x \<Rightarrow> (case publishAndAck (ch_publish c) (ch_ack c) ch d (amqp_encodeApproveResponse zero_publishing x) of
           (ch', None) \<Rightarrow> ch' | (ch', Some e) \<Rightarrow> settle c e ch'), s') \<and>
    (\<forall>e. res = Inl e \<longrightarrow> bl_invoices s' = bl_invoices s \<and>
      (errors_Is e ErrNotFound \<or> e = json_syntax_error \<or>
        (\<exists>h b m t. http_errorEncoder e = Answer (status_of (GRPCCode e)) h b \<and>
           grpc_encodeError e = GRPCStatus (Some (GRPCCode e, m, t)) \<and> settle c e ch = ch_nack c ch (False, Retryable e))))"
proof -
  note lifted = credential_lifted(1) [OF credential(1)] credential_lifted(2) [OF credential(2)] credential_lifted(3) [OF credential(4,5)]
  have "MakeHTTPHandler hs' hs (MakeEndpoints net ed_verify pf) (POST_approve i) no_ctx r s =
      (s', case res of Inl e \<Rightarrow> http_errorEncoder e | Inr x \<Rightarrow> http_encodeResponse (ApproveResponse_json x))"
    by (simp add: MakeHTTPHandler_def http_served [OF servers(1)] http_decodeApproveRequest_def lifted run split: sum.split)
  moreover have "grpcServer_Approve (NewGRPCServer gs' gs (MakeEndpoints net ed_verify pf)) no_ctx md \<lparr>pb_InvoiceId = i\<rparr> s =
      (s', case res of Inl e \<Rightarrow> Inl (grpc_encodeError e) | Inr x \<Rightarrow> Inr \<lparr>pb_Invoice_field = toProto x\<rparr>)"
    by (simp add: grpcServer_Approve_def NewGRPCServer_def grpc_served [OF servers(2)] grpc_decodeApproveRequest_def
        grpc_encodeApproveResponse_def grpc_answer_def lifted run split: sum.split)
  moreover have "NewSubscriber subscriber c (MakeEndpoints net ed_verify pf) no_ctx d (ch, s) =
      (case res of
         Inl e \<Rightarrow> settle c e ch
       | Inr x \<Rightarrow> (case publishAndAck (ch_publish c) (ch_ack c) ch d (amqp_encodeApproveResponse zero_publishing x) of
           (ch', None) \<Rightarrow> ch' | (ch', Some e) \<Rightarrow> settle c e ch'), s')"
    unfolding NewSubscriber_def amqp_served [where dec = amqp_decodeApproveRequest, OF servers(3) body]
    by (simp add: credential(3) lifted run split: sum.split prod.split option.split)
  moreover have "\<forall>e. res = Inl e \<longrightarrow> bl_invoices s' = bl_invoices s \<and>
      (errors_Is e ErrNotFound \<or> e = json_syntax_error \<or>
        (\<exists>h b m t. http_errorEncoder e = Answer (status_of (GRPCCode e)) h b \<and>
           grpc_encodeError e = GRPCStatus (Some (GRPCCode e, m, t)) \<and> settle c e ch = ch_nack c ch (False, Retryable e)))"
    by (intro allI impI conjI refused_forms) (use refused_unchanged run in simp)
  ultimately show ?thesis by (intro conjI)
qed

text \<open>Servers that do what go-kit documents, and a caller whose token is no token.\<close>

definition demo_http_server :: "('w, 'q, 'r) http_server" where
  "demo_http_server e dec enc before errs ctx r s =
     (case e (before ctx (sr_Header r), None) (dec r) s of (s', Inl err) \<Rightarrow> (s', errs err) | (s', Inr x) \<Rightarrow> (s', enc x))"

definition demo_grpc_server :: "('w, 'q, 'r, 'm, 'n) grpc_new" where
  "demo_grpc_server e dec enc before ctx md m s =
     (case e (before ctx md, None) (dec m) s of (s', Inl err) \<Rightarrow> (s', Inl err) | (s', Inr x) \<Rightarrow> (s', Inr (enc x)))"

definition demo_subscriber :: "('w, 'ch, 'q, 'r) subscriber_new" where
  "demo_subscriber e dec enc before errs publish ctx d p =
     (case p of (ch, s) \<Rightarrow> (case dec (dl_Body d) of
        Inl err \<Rightarrow> (errs err ch, s)
      | Inr q \<Rightarrow> (case e (before ctx (dl_Headers d), None) q s of
          (s', Inl err) \<Rightarrow> (errs err ch, s')
        | (s', Inr x) \<Rightarrow> (case publish ch d (enc zero_publishing x) of
            (ch', None) \<Rightarrow> (ch', s') | (ch', Some err) \<Rightarrow> (errs err ch', s')))))"

lemma demo_servers: "http_documented demo_http_server" "grpc_documented demo_grpc_server" "amqp_documented demo_subscriber"
  by (simp_all add: http_documented_def grpc_documented_def amqp_documented_def demo_http_server_def demo_grpc_server_def demo_subscriber_def)

definition demo_channel :: "string list channel" where
  "demo_channel = \<lparr>ch_publish = (\<lambda>ch to p. (to # ch, None)), ch_ack = (\<lambda>ch. (''ack'' # ch, None)),
     ch_nack = (\<lambda>ch how. (if snd how then ''requeued'' else ''dropped'') # ch)\<rparr>"

definition demo_delivery :: delivery where
  "demo_delivery = \<lparr>dl_Headers = Some [(''authorization'', AString ''Bearer x'')], dl_Body = marshal (GStruct [(''InvoiceID'', GStr ''inv-1'')]),
     dl_ReplyTo = [], dl_CorrelationId = []\<rparr>"

lemma demo_body: "amqp_decodeApproveRequest (dl_Body demo_delivery) = Inr ''inv-1''"
proof -
  have "parse_json (dl_Body demo_delivery) = Some (to_json (GStruct [(''InvoiceID'', GStr ''inv-1'')]))"
    unfolding demo_delivery_def by (simp del: marshal.simps add: parse_marshal)
  then show ?thesis by (simp add: amqp_decodeApproveRequest_def field_for_def)
qed

theorem transports_agree_witness:
  "\<exists>s' e. snd (MakeEndpoints demo_silent demo_verify (demo_pf demo_allow_body)) (put_token no_ctx ''x'', None) ''inv-1'' demo_billing = (s', Inl e) \<and>
     MakeHTTPHandler demo_http_server demo_http_server (MakeEndpoints demo_silent demo_verify (demo_pf demo_allow_body))
       (POST_approve ''inv-1'') no_ctx ((request_with [])\<lparr>sr_Header := [(''Authorization'', ''Bearer x'')]\<rparr>) demo_billing =
       (s', http_errorEncoder e) \<and>
     NewSubscriber demo_subscriber demo_channel (MakeEndpoints demo_silent demo_verify (demo_pf demo_allow_body)) no_ctx demo_delivery
       ([], demo_billing) = (settle demo_channel e [], s')"
proof -
  let ?me = "MakeEndpoints demo_silent demo_verify (demo_pf demo_allow_body)"
  have "Verifier_Verify demo_silent demo_verify ([], demo_verifier) demo_now ''x'' = (([], demo_verifier), Inl ErrWrongHeader)"
    by (simp add: Verifier_Verify_def verify_token_def Parse_def headerV4Public_def HasPrefix_def Let_def)
  then have run: "snd ?me (put_token no_ctx ''x'', None) ''inv-1'' demo_billing = (demo_billing, Inl ErrWrongHeader)"
    by (simp add: approve_endpoint Authenticate_def outgoing_def put_token_def demo_billing_def)
  have x: "kit_bearer ''Bearer x'' = Some ''x''" by code_simp
  have h: "kit_bearer (header_Get (sr_Header ((request_with [])\<lparr>sr_Header := [(''Authorization'', ''Bearer x'')]\<rparr>)) ''Authorization'') = Some ''x''"
    by (simp add: header_Get_def x)
  have m: "find_first kit_bearer (md_Get [(''authorization'', [''Bearer x''])] ''authorization'') = Some ''x''"
    by (simp add: md_Get_def toLower_byte_def x)
  have d: "dl_Headers demo_delivery = Some [(''authorization'', AString ''Bearer x'')]"
    "map_of [(''authorization'', AString ''Bearer x'')] ''authorization'' = Some (AString ''Bearer x'')"
    by (simp_all add: demo_delivery_def)
  from transports_agree [OF demo_servers(1-3) h m d x demo_body run, of demo_http_server demo_grpc_server demo_channel "[]"] run
  show ?thesis by auto
qed

section \<open>The browser application\<close>

text \<open>The application between requests: it starts as \<open>newApp\<close> made it, and the world may move by itself.\<close>

inductive web_reach :: "'w net \<Rightarrow> (bytes \<Rightarrow> bytes \<Rightarrow> bytes \<Rightarrow> bool) \<Rightarrow> 'w platform \<Rightarrow> 'w app \<Rightarrow> bool"
  for net ed_verify pf where
  start: "newApp pf ip_loopback cookies cfg w = Inr s \<Longrightarrow> web_reach net ed_verify pf s"
| request: "web_reach net ed_verify pf s \<Longrightarrow> routes net ed_verify pf rt (s\<lparr>ap_world := w\<rparr>, j) r = ((s', j'), a) \<Longrightarrow>
    web_reach net ed_verify pf s'"

lemma web_reach_ok: "web_reach net ed_verify pf s \<Longrightarrow> store_ok (ap_sessions s)"
proof (induction rule: web_reach.induct)
  case (start ip_loopback cookies cfg w s)
  then show ?case by (auto simp: newApp_def store_ok_new split: sum.splits)
next
  case (request s rt w j r s' j' a)
  from routes_sessions [OF request.hyps(2)] request.IH show ?case by simp
qed

text \<open>C28: whatever requests were served, the two maps of the session store agree and a session is
  kept under its own name. A new session comes from the callback alone, after a sign-in that
  \<open>CompleteLogin\<close> accepted, with the tokens of that sign-in, and its name goes to that
  browser as its cookie.\<close>

theorem web_sessions:
  assumes "web_reach net ed_verify pf s" "routes net ed_verify pf rt (s, j) r = ((s', j'), a)"
  shows "store_ok (ap_sessions s') \<and>
    (\<forall>i ses. map_of (st_byID (ap_sessions s)) i = None \<longrightarrow> map_of (st_byID (ap_sessions s')) i = Some ses \<longrightarrow>
       rt = Callback \<and> (\<exists>w k t. CompleteLogin pf (ap_client s) (ap_world s, j) r = ((w, k), Inr t) \<and>
         ses = \<lparr>ws_id = i, ws_sid = tk_SessionID t, ws_source = Client_TokenSource pf (ap_client s) w t\<rparr> \<and> j' = k @ [cookie_of i]))"
proof -
  note ok = web_reach_ok [OF assms(1)]
  note kept = routes_sessions [OF assms(2) ok]
  have "rt = Callback \<and> (\<exists>w k t. CompleteLogin pf (ap_client s) (ap_world s, j) r = ((w, k), Inr t) \<and>
      ses = \<lparr>ws_id = i, ws_sid = tk_SessionID t, ws_source = Client_TokenSource pf (ap_client s) w t\<rparr> \<and> j' = k @ [cookie_of i])"
    if new: "map_of (st_byID (ap_sessions s)) i = None" "map_of (st_byID (ap_sessions s')) i = Some ses" for i ses
  proof -
    from kept [of i] new have rt: "rt = Callback" by auto
    with assms(2) have "web_callback pf (s, j) r = ((s', j'), a)" by (simp add: routes_def)
    from web_callback_cases [OF this] new obtain w k t i' where c: "CompleteLogin pf (ap_client s) (ap_world s, j) r = ((w, k), Inr t)"
      "create (pf_now pf w) (Client_TokenSource pf (ap_client s) w t) (tk_SessionID t) (ap_sessions s) = (ap_sessions s', i')"
      "j' = k @ [cookie_of i']" by auto
    from create_ok(3) [OF ok c(2)] new have "i' = i"
      "ses = \<lparr>ws_id = i, ws_sid = tk_SessionID t, ws_source = Client_TokenSource pf (ap_client s) w t\<rparr>"
      by (auto split: if_splits)
    with rt c show ?thesis by blast
  qed
  with kept show ?thesis by blast
qed

text \<open>An application without an API key, a store that takes any callback for its own, and an
  installation that answers every exchange with a pair.\<close>

definition demo_exchange :: goval where
  "demo_exchange = GMap [(''access_token'', GStr ''at''), (''refresh_token'', GStr ''rt''), (''session_id'', GStr ''ses_1'')]"

definition demo_any_store :: "http_request list LoginStore" where
  "demo_any_store = \<lparr>ls_Put = (\<lambda>w j p. ((w, j), None)),
     ls_Take = (\<lambda>w j r. ((w, j), Inr \<lparr>pe_State = [], pe_Verifier = ''v'', pe_RedirectURI = ''u'', pe_Created = demo_now\<rparr>))\<rparr>"

definition demo_cfg_web :: web_config where
  "demo_cfg_web = \<lparr>wc_AnubisURL = ''https://id.example'', wc_AppURL = ''https://app.example'', wc_Slug = ''billing'',
     wc_Secret = [], wc_APIKey = [], wc_Tenant = []\<rparr>"

definition demo_return :: server_request where
  "demo_return = \<lparr>sr_Method = ''GET'', sr_Header = [], sr_Cookies = [], sr_RawQuery = ''code=c1'', sr_PostForm = None\<rparr>"

theorem web_sessions_witness:
  "\<exists>s s' j a i ses. newApp (demo_pf (marshal demo_exchange)) (\<lambda>h. False) demo_any_store demo_cfg_web [] = Inr s \<and>
     routes demo_silent demo_verify (demo_pf (marshal demo_exchange)) Callback (s, []) demo_return = ((s', j), a) \<and>
     map_of (st_byID (ap_sessions s')) i = Some ses \<and> ws_sid ses = ''ses_1'' \<and> j = [cookie_of i]"
proof -
  let ?pf = "demo_pf (marshal demo_exchange)"
  have small: "length (marshal demo_exchange) \<le> 200" by code_simp
  obtain s where app: "newApp ?pf (\<lambda>h. False) demo_any_store demo_cfg_web [] = Inr s" and
    c: "ap_sessions s = newSessionStore" "ap_world s = []" "c_baseURL (ap_client s) = ''https://id.example''"
      "o_loginStore (c_opts (ap_client s)) = Some demo_any_store" "client_now (ap_client s) = (\<lambda>w. demo_now)"
      "client_http (ap_client s) = answering (marshal demo_exchange)"
    by (simp add: newApp_def NewVerifier_def checkKeysURL_def New_def newOptions_def client_options_def default_options_def WithApplication_def
        WithTenant_def demo_cfg_web_def TrimRight1_def HasPrefix_def Let_def client_now_def client_http_def http_Do_def
        answering_def fun_eq_iff)
  have q: "values_Get (ParseQuery ''code=c1'') ''code'' = ''c1''" "values_Get (ParseQuery ''code=c1'') ''error'' = []"
    "values_Get (ParseQuery ''code=c1'') ''state'' = []" by code_simp+
  have dec: "ascii_val demo_exchange" "dec_httpTokens (to_json demo_exchange) zero_httpTokens =
      Some \<lparr>ht_AccessToken = ''at'', ht_RefreshToken = ''rt'', ht_TokenType = [], ht_ExpiresIn = 0, ht_SessionID = ''ses_1''\<rparr>"
    by (simp_all add: demo_exchange_def dec_httpTokens_def field_for_def zero_httpTokens_def)
  let ?p = "\<lparr>pe_State = [], pe_Verifier = ''v'', pe_RedirectURI = ''u'', pe_Created = demo_now\<rparr>"
  obtain w t where ex: "exchange ?pf (ap_client s) [] ?p ''c1'' = (w, Inr t)" and sid: "tk_SessionID t = ''ses_1''"
    using c(3,5) small by (simp add: exchange_def form_def NewRequest_def demo_do [OF c(6) dec(1)] dec(2) httpTokens_tokens_def)
  have login: "CompleteLogin ?pf (ap_client s) ([], []) demo_return = ((w, []), Inr t)"
    using q by (simp add: CompleteLogin_def demo_return_def store_Take_def c(4,5) demo_any_store_def Time_Sub_def ex)
  obtain st i where made: "create (pf_now ?pf w) (Client_TokenSource ?pf (ap_client s) w t) ''ses_1'' newSessionStore = (st, i)"
    by fastforce
  with login sid c(1,2) have run: "routes demo_silent demo_verify ?pf Callback (s, []) demo_return =
      ((s\<lparr>ap_world := w, ap_sessions := st\<rparr>, [cookie_of i]), http_Redirect ''/dashboard'')"
    by (simp add: routes_def web_callback_def)
  obtain ses where ses: "map_of (st_byID st) i = Some ses" using create_ok(3) [OF store_ok_new(1) made] by simp
  have "map_of (st_byID (ap_sessions s)) i = None" by (simp add: c(1) newSessionStore_def)
  with web_sessions [OF web_reach.start [OF app] run, THEN conjunct2, rule_format, of i ses] ses login sid c(2)
  have "ws_sid ses = ''ses_1''" by auto
  with app run ses show ?thesis by fastforce
qed

text \<open>C29: once the back-channel handler has acknowledged a logout token, no session of the session
  identifier it names is left and every other one is untouched, provided no two sessions
  shared an identifier; the browser of an ended session is sent to sign in.\<close>

theorem web_signed_out:
  assumes "store_ok (ap_sessions s)" "indexed (ap_sessions s)"
    and "routes net ed_verify pf Backchannel (s, j) r = ((s', j'), Answer 204 hs b)"
  shows "\<exists>q ev w v. sr_PostForm r = Some q \<and>
    VerifyLogoutToken net ed_verify (ap_world s, Some (ap_verifier s)) (pf_now pf (ap_world s)) (values_Get q ''logout_token'') =
      ((w, Some v), Inr ev) \<and>
    (\<forall>i. map_of (st_byID (ap_sessions s')) i = (case map_of (st_byID (ap_sessions s)) i of
        None \<Rightarrow> None | Some ses \<Rightarrow> if ws_sid ses = le_SessionID ev then None else Some ses)) \<and>
    (\<forall>rq ses. session_of s rq = Some ses \<and> ws_sid ses = le_SessionID ev \<longrightarrow>
       web_dashboard net ed_verify pf s' rq = (s', http_Redirect ''/login''))"
proof -
  from assms(3) have "web_backchannel net ed_verify pf (s, j) r = ((s', j'), Answer 204 hs b)" by (simp add: routes_def)
  from web_backchannel_cases [OF this] obtain q ev w v where e: "sr_PostForm r = Some q"
    "VerifyLogoutToken net ed_verify (ap_world s, Some (ap_verifier s)) (pf_now pf (ap_world s)) (values_Get q ''logout_token'') =
      ((w, Some v), Inr ev)"
    "ap_sessions s' = dropBySID (le_SessionID ev) (ap_sessions s)" by auto
  note ends = dropBySID_ends [OF assms(1,2), of "le_SessionID ev"]
  have "session_of s' rq = None" if "session_of s rq = Some ses" "ws_sid ses = le_SessionID ev" for rq ses
    using that by (auto simp: session_of_def e(3) ends split: bind_splits)
  then show ?thesis using e ends by (auto simp: web_dashboard_def)
qed

definition demo_app :: "http_request list sessionStore \<Rightarrow> http_request list app" where
  "demo_app st = \<lparr>ap_world = [], ap_cfg = \<lparr>wc_AnubisURL = ''https://id.example'', wc_AppURL = ''https://app.example'',
     wc_Slug = ''billing'', wc_Secret = [], wc_APIKey = ''anb_live_k'', wc_Tenant = []\<rparr>,
     ap_verifier = demo_verifier, ap_client = demo_with demo_dc, ap_sessions = st\<rparr>"

lemma demo_app_fields [simp]:
  "ap_world (demo_app st) = []" "ap_verifier (demo_app st) = demo_verifier" "ap_client (demo_app st) = demo_with demo_dc"
  "ap_sessions (demo_app st) = st"
  by (simp_all add: demo_app_def)

text \<open>A session of the token's identifier.\<close>

lemma demo_logout_verifies:
  "VerifyLogoutToken demo_silent demo_verify (w, Some demo_verifier) demo_now demo_logout_token =
    ((w, Some demo_verifier), Inr \<lparr>le_SessionID = ''ses_1'', le_Subject = ''usr_1'', le_Tenant = [],
       le_Issuer = ''anubis'', le_TokenID = ''jti_test''\<rparr>)"
  using logout_token_verdict [OF demo_pair _ demo_keys_parse _ _ _ demo_NewVerifier _ demo_clock(1) _ demo_clock(1),
      where net = demo_silent and w = w and subject = "''usr_1''" and sid = "''ses_1''" and tok = demo_logout_token]
  by (simp add: demo_since)

definition demo_sessions :: "http_request list sessionStore" where
  "demo_sessions = fst (create demo_now (Client_TokenSource (demo_pf []) (demo_with demo_dc) [] zero_Tokens) ''ses_1'' newSessionStore)"

theorem web_signed_out_witness:
  "\<exists>s' j a. routes demo_silent demo_verify (demo_pf []) Backchannel (demo_app demo_sessions, [])
      \<lparr>sr_Method = ''POST'', sr_Header = [], sr_Cookies = [], sr_RawQuery = [], sr_PostForm = Some [(''logout_token'', [demo_logout_token])]\<rparr> =
      ((s', j), a) \<and>
    (\<forall>i. map_of (st_byID (ap_sessions s')) i = None) \<and> st_byID demo_sessions \<noteq> []"
  (is "\<exists>s' j a. routes _ _ _ _ _ ?r = _ \<and> _")
proof -
  obtain i where made: "create demo_now (Client_TokenSource (demo_pf []) (demo_with demo_dc) [] zero_Tokens) ''ses_1'' newSessionStore =
      (demo_sessions, i)" by (metis demo_sessions_def prod.collapse)
  note ok = create_ok [OF store_ok_new(1) made]
  have idx: "indexed demo_sessions" by (rule indexed_create [OF store_ok_new made]) (simp add: newSessionStore_def)
  have "\<exists>s' j. routes demo_silent demo_verify (demo_pf []) Backchannel (demo_app demo_sessions, []) ?r =
      ((s', j), Answer 204 [(''Cache-Control'', ''no-store'')] [])"
    by (simp add: routes_def web_backchannel_def BackchannelLogout_def beside_VerifyLogoutToken values_Get_def
        demo_logout_verifies onRemoteLogout_def)
  then obtain s' j where run: "routes demo_silent demo_verify (demo_pf []) Backchannel (demo_app demo_sessions, []) ?r =
      ((s', j), Answer 204 [(''Cache-Control'', ''no-store'')] [])" by blast
  have "map_of (st_byID (ap_sessions s')) k = None" for k
    using web_signed_out [of "demo_app demo_sessions", OF _ _ run] ok(1,3) idx
    by (auto simp: values_Get_def demo_logout_verifies newSessionStore_def)
  moreover have "st_byID demo_sessions \<noteq> []" using fun_cong [OF ok(3), of i] by auto
  ultimately show ?thesis using run by blast
qed

text \<open>C30: the dashboard shows the subject of an access token that was verified now, from the pair
  of the session this browser has; an invoice is approved only for the bearer of a verified
  token whom the installation allows to, on the invoice's scopes.\<close>

theorem web_answers:
  "(web_dashboard net ed_verify pf s r = (s', Answer 200 hs b) \<longrightarrow>
     (\<exists>ses w st t w' v c. session_of s r = Some ses \<and> session_Token (ap_world s) (ap_sessions s) ses = ((w, st), Inr t) \<and>
        Verifier_Verify net ed_verify (w, ap_verifier s) (pf_now pf w) (tk_AccessToken t) = ((w', v), Inr c) \<and>
        b = ''signed in as '' @ cl_Subject c @ '', roles ['' @ Join '' '' (cl_Roles c) @ '']'' @ [CHR 0x0A])) \<and>
   (routes net ed_verify pf (ApproveInvoice i) (s, j) r = (p, Answer 200 hs b) \<longrightarrow>
     (\<exists>tok w v c d x. BearerToken (header_Get (sr_Header r) ''Authorization'') = Some tok \<and>
        Verifier_Verify net ed_verify (ap_world s, ap_verifier s) (pf_now pf (ap_world s)) tok = ((w, v), Inr c) \<and>
        Authorize pf (w, ap_client s) (WithPrincipal \<lparr>ctx_principal = None, ctx_bearer = None\<rparr> \<lparr>p_Claims = Some c, p_Token = tok\<rparr>)
          ''billing:invoice:approve'' [(''org'', wi_OrgID (lookupInvoice i)), (''customer'', wi_CustomerID (lookupInvoice i))] = (x, Inr d) \<and>
        dn_Allow d \<and> dn_subject d = cl_Subject c))"
proof (intro conjI impI)
  assume "web_dashboard net ed_verify pf s r = (s', Answer 200 hs b)"
  then show "\<exists>ses w st t w' v c. session_of s r = Some ses \<and> session_Token (ap_world s) (ap_sessions s) ses = ((w, st), Inr t) \<and>
      Verifier_Verify net ed_verify (w, ap_verifier s) (pf_now pf w) (tk_AccessToken t) = ((w', v), Inr c) \<and>
      b = ''signed in as '' @ cl_Subject c @ '', roles ['' @ Join '' '' (cl_Roles c) @ '']'' @ [CHR 0x0A]"
    by (auto simp: web_dashboard_def http_Redirect_def split: option.splits prod.splits sum.splits if_splits)
next
  let ?ctx = "\<lparr>ctx_principal = None, ctx_bearer = None\<rparr>" and ?now = "pf_now pf (ap_world s)"
  let ?scopes = "[(''org'', wi_OrgID (lookupInvoice i)), (''customer'', wi_CustomerID (lookupInvoice i))]"
  assume "routes net ed_verify pf (ApproveInvoice i) (s, j) r = (p, Answer 200 hs b)"
  then obtain w v ctx where m: "Middleware net ed_verify (ap_world s, ap_verifier s) ?now ?ctx (sr_Header r) = ((w, v), Next ctx)"
      "web_approveInvoice pf (s\<lparr>ap_world := w, ap_verifier := v\<rparr>, j) ctx i = (p, Answer 200 hs b)"
    by (auto simp: routes_def behind_def Middleware_def unauthorized_def split: option.splits prod.splits sum.splits handled.splits)
  from m(1) obtain tok c where t: "BearerToken (header_Get (sr_Header r) ''Authorization'') = Some tok"
      "Verifier_Verify net ed_verify (ap_world s, ap_verifier s) ?now tok = ((w, v), Inr c)"
      "ctx = WithPrincipal ?ctx \<lparr>p_Claims = Some c, p_Token = tok\<rparr>"
    by (auto simp: Middleware_def unauthorized_def split: option.splits prod.splits sum.splits)
  from m(2) obtain x where "Require pf (w, ap_client s) ctx ''billing:invoice:approve'' ?scopes = (x, None)"
    by (auto simp: web_approveInvoice_def Let_def split: prod.splits option.splits if_splits sum.splits)
  then obtain d where d: "Authorize pf (w, ap_client s) ctx ''billing:invoice:approve'' ?scopes = (x, Inr d)" "dn_Allow d"
    by (auto simp: Require_def Decision_Err_def split: prod.splits sum.splits if_splits)
  from Authorize_principal [OF d(1)] t(3) have "dn_subject d = cl_Subject c"
    by (auto simp: FromContext_def WithPrincipal_def Principal_Identity_def Claims_Identity_def)
  with t d show "\<exists>tok w v c d x. BearerToken (header_Get (sr_Header r) ''Authorization'') = Some tok \<and>
      Verifier_Verify net ed_verify (ap_world s, ap_verifier s) ?now tok = ((w, v), Inr c) \<and>
      Authorize pf (w, ap_client s) (WithPrincipal ?ctx \<lparr>p_Claims = Some c, p_Token = tok\<rparr>)
        ''billing:invoice:approve'' ?scopes = (x, Inr d) \<and> dn_Allow d \<and> dn_subject d = cl_Subject c" by blast
qed

theorem web_answers_witness:
  "\<exists>p hs b c (d :: Decision) x. routes demo_silent demo_verify (demo_pf demo_allow_body) (ApproveInvoice ''7'') (demo_app newSessionStore, [])
      \<lparr>sr_Method = ''POST'', sr_Header = [(''Authorization'', ''Bearer '' @ demo_token)], sr_Cookies = [], sr_RawQuery = [],
       sr_PostForm = None\<rparr> = (p, Answer 200 hs b) \<and>
     Verifier_Verify demo_silent demo_verify ([], demo_verifier) demo_now demo_token = (x, Inr c) \<and> dn_Allow d \<and> dn_subject d = cl_Subject c"
  (is "\<exists>p hs b c d x. routes _ _ _ _ _ ?r = _ \<and> _")
proof -
  let ?ctx = "\<lparr>ctx_principal = None, ctx_bearer = None\<rparr>"
  have h: "BearerToken (header_Get (sr_Header ?r) ''Authorization'') = Some demo_token"
    using BearerToken_exact [OF demo_token_given] by (simp add: header_Get_def)
  obtain w dc where "Require (demo_pf demo_allow_body) ([], demo_with demo_dc) (demo_holder ?ctx) ''billing:invoice:approve''
      [(''org'', ''01a027ff-org''), (''customer'', ''01a027fb-cust'')] = ((w, demo_with dc), None)"
    using demo_allowed by blast
  then obtain p b where run: "routes demo_silent demo_verify (demo_pf demo_allow_body) (ApproveInvoice ''7'') (demo_app newSessionStore, []) ?r =
      (p, Answer 200 [] b)"
    using h by (auto simp: routes_def behind_def Middleware_def demo_verifies web_approveInvoice_def lookupInvoice_def)
  let ?c = "(minted ''anubis'' demo_now demo_claims)\<lparr>cl_Scopes := []\<rparr>"
  from web_answers [THEN conjunct2, rule_format, OF run] h obtain d :: Decision where "dn_Allow d" "dn_subject d = cl_Subject ?c"
    by (auto simp: demo_verifies)
  then show ?thesis
    by (intro exI [of _ p] exI [of _ "[]"] exI [of _ b] exI [of _ ?c] exI [of _ d] exI [of _ "([], demo_verifier)"])
      (simp only: run demo_verifies simp_thms)
qed

end
