(* ===== verification/Spec2Isabelle.thy ===== *)
theory Spec2Isabelle
  imports Offline_Properties Authz_Properties Session_Properties Admin_Properties
    Server_Properties Example_Properties
begin

text \<open>
  A verification development for the Anubis SDK, a Go client library for an identity and
  authorization service. Paths below are relative to \<open>src/\<close>.

  \<^bold>\<open>The program.\<close> The offline half verifies access tokens: \<open>paseto/\<close> signs and parses
  PASETO v4.public, \<open>keys/\<close> holds the published keys, a \<open>Verifier\<close> combines the two with
  the checks of \<open>claims.go\<close>, and \<open>middleware.go\<close> puts the verified principal on a request. The
  online half is a client of the service: \<open>client.go\<close> sends a procedure call and decodes a value or
  a refusal, \<open>authz.go\<close> asks for decisions through an optional cache (\<open>cache.go\<close>),
  \<open>login.go\<close>, \<open>logout.go\<close> and \<open>tokensource.go\<close> keep a session, \<open>revocations.go\<close> follows the
  revocation stream. \<open>admin/\<close> is the client of the administration plane. \<open>anubiskit/\<close> carries
  all this to go-kit services over HTTP, gRPC and AMQP. \<open>anubistest/\<close> is a test server that
  speaks the other end of every call.

  \<^bold>\<open>Foundations.\<close> \<open>Prelude\<close>: Go's integers, times, strings and maps. \<open>Base64\<close>, \<open>Json\<close>,
  \<open>Json_Roundtrip\<close>, \<open>Url\<close>, \<open>Http\<close>: what the SDK uses of the standard library, with round
  trips of everything it writes and reads.

  \<^bold>\<open>The offline half.\<close>
  \<^item> \<open>Errors\<close> (\<open>errors.go\<close>): error values as one datatype, \<open>errors.Is\<close> and \<open>errors.As\<close>, the texts
    of \<open>Error\<close>, \<open>classify\<close>.
  \<^item> \<open>Paseto\<close> (\<open>paseto/paseto.go\<close>): \<open>pae\<close>, \<open>Sign\<close>, \<open>Parse\<close>, \<open>Verify\<close>.
  \<^item> \<open>Keys\<close> (\<open>keys/\<close>): documents, sets, and the cache as critical sections; \<open>Cache_Flight\<close> runs
    these sections for any number of goroutines, in any order.
  \<^item> \<open>Identity\<close> (\<open>identity.go\<close>), \<open>Verifier\<close> (\<open>claims.go\<close>, \<open>config.go\<close>, \<open>verifier.go\<close>,
    \<open>token_footer.go\<close>, \<open>principal.go\<close>, \<open>middleware.go\<close>), \<open>Mint\<close> (the signing side in
    \<open>anubistest/server.go\<close>).
  \<^item> \<open>Offline_Properties\<close>: what an accepted token guarantees, minting against verifying, the fetch
    budget, the middleware.

  \<^bold>\<open>The online half.\<close>
  \<^item> \<open>Types\<close> (\<open>types.go\<close> and the structs of \<open>authz.go\<close>, \<open>granted.go\<close>, \<open>share.go\<close>),
    \<open>Wire_Error\<close> (the error bodies of \<open>client.go\<close>, with the protobuf reader),
    \<open>Client\<close> (\<open>options.go\<close>, \<open>client.go\<close>).
  \<^item> \<open>Decision_Cache\<close> (\<open>cache.go\<close>), \<open>Authz\<close> (\<open>authz.go\<close>, \<open>granted.go\<close>, \<open>share.go\<close>) and
    \<open>Authz_Many\<close> (\<open>AuthorizeMany\<close>, as steps of goroutines, each labelled with what it saw); \<open>Authz_Properties\<close>.
  \<^item> \<open>Login\<close>, \<open>Logout\<close>, \<open>Token_Source\<close>, \<open>Token_Flight\<close> (the token source for any number of
    goroutines against a server that detects reuse), \<open>Revocations\<close>, \<open>Kit\<close> (\<open>anubiskit/\<close>);
    \<open>Session_Properties\<close>.

  \<^bold>\<open>Administration and the test server.\<close>
  \<^item> \<open>Admin\<close>, \<open>Admin_Manifest\<close>, \<open>Admin_Provision\<close> (\<open>admin/admin.go\<close>, \<open>manifest.go\<close>,
    \<open>provision.go\<close>): every method of the client, entitlements, the walks over paged
    listings, manifests.
  \<^item> \<open>Fake_Server\<close> (the record \<open>Server\<close>, requests and answers, fresh ids), \<open>Fake_Authz\<close>
    (\<open>anubistest/server.go\<close>), \<open>Fake_Admin\<close>, \<open>Fake_Config\<close>, \<open>Fake_Manifest\<close>, \<open>Fake_Provision\<close>
    (\<open>anubistest/admin.go\<close>, \<open>adminconfig.go\<close>, \<open>manifest.go\<close>, \<open>provision.go\<close>), \<open>Fake_Stream\<close>
    (the subscribers in \<open>anubistest/revocations.go\<close>, as steps whose history is kept), \<open>Fake_Mux\<close> (all routes). A handler is
    a function of the server's state and the request.
  \<^item> Client and server together: \<open>Fake_Mux\<close> makes the server a transport and shows what a
    client reads of an answer; on it stand \<open>Fake_Pages\<close>, \<open>Fake_Apply\<close>, \<open>Fake_Grants\<close> and
    \<open>Fake_Access\<close>, \<open>Fake_Session\<close> (sign-in, refresh, decisions), \<open>Fake_Verifier\<close> (the keys document
    and the tokens signed), each one kind of call end to end. \<open>Fake_Invariant\<close> proves the
    server's invariant, handler by handler. \<open>Admin_Properties\<close> and
    \<open>Server_Properties\<close> hold the properties.

  \<^bold>\<open>The SDK in use.\<close> \<open>Example_Web\<close> (\<open>examples/billing-web/main.go\<close>) is an application with a
  session store of its own, \<open>Example_Billing\<close> (\<open>anubiskit/examples/\<close>) a service behind the
  go-kit middlewares, \<open>Example_Transports\<close> the three programs that serve it; \<open>Example_Properties\<close> shows what the two guarantee by composition.

  \<open>Demo\<close>, \<open>Demo_Client\<close> and \<open>Demo_Server\<close> hold concrete values for the witnesses.

  \<^bold>\<open>Interfaces.\<close> \<open>key_source\<close> (what a verifier needs of its keys: pinned set, cache, both),
  \<open>decision_store\<close> (what \<open>authorize\<close> needs of a cache), \<open>login_store\<close> (what a sign-in needs
  of its store), \<open>paging\<close> (what a walk needs of a listing), \<open>membership\<close>. Each is interpreted on
  the code's own operations.

  \<^bold>\<open>State and effects.\<close> The world the client acts on is a type variable, threaded through
  every call; a transport is a function of world and request. Errors are values of a sum.
  Critical sections of a mutex are functions on the record it guards; goroutines are
  inductive step relations over these functions. Where one runs alone, the same functions are
  composed in program order.

  \<^bold>\<open>Loops, fuel and bounds.\<close> The JSON parser recurses on fuel, twice the length of its input and
  two; \<open>parse_value_fuel\<close> shows more fuel changes nothing. \<open>walk\<close>, the loop over pages, has no
  bound of its own and is a partial function; \<open>listings_return\<close> shows it defined whatever the server
  answers. All other loops are structural or have a termination proof. Integers are wrapped
  to 64 bits where the code can overflow (\<open>wrap64\<close>), varints are 64-bit words, frame
  lengths 32-bit words.

  \<^bold>\<open>Parameters.\<close> What is not under \<open>src/\<close> is an argument: the record \<open>platform\<close> (clock, randomness,
  transports, URL, date and duration parsing, SHA-256), the record \<open>fake_env\<close> (clock, random
  ids, signer, lower-casing, URL rewriting of the test server), the Ed25519 operations. A hypothesis about one
  states documented behaviour, such as a signature verifying under its own key, and each property with such a hypothesis
  has a witness. End-to-end properties suppose a client whose transport reaches the server
  (\<open>talks_to\<close>), ASCII field values, and answers below the 4 MiB the client reads.

  \<^bold>\<open>Not modelled.\<close>
  \<^item> \<open>doc.go\<close> (no code). The servers of go-kit, which call decoders, endpoints and encoders in turn, are
    arguments; what go-kit documents of them is a hypothesis of \<open>transports_agree\<close>.
  \<^item> Listeners, timers, sockets and contexts of the Go runtime: cancellation is a step or
    an outcome of the transport.
  \<^item> Requests to the test server that overlap: a handler is one step on the server's state, though
    \<open>refresh\<close>, \<open>openAccessLink\<close>, \<open>tokenExchange\<close> and the guard \<open>refuseLink\<close> take the mutex in separate
    sections. \<open>Token_Flight\<close> interleaves the sections of \<open>refresh\<close>, the stream's registry is a step
    relation; the sections of the others are only composed.
  \<^item> The error of \<open>http.NewRequest\<close> in the fetch of \<open>keys/key_cache.go\<close>: the URL of a cache is one that parses,
    as \<open>NewVerifier\<close> has made sure of its own.
  \<^item> The details a text formats with \<open>%q\<close> or \<open>%v\<close> where the error is built in passing, and the causes of
    decoding errors: such an \<open>ErrText\<close> holds the fixed part of its message; monotonic clock readings; JSON nested
    deeper than 10000; non-ASCII case folding, but for the two characters \<open>encoding/json\<close> folds.
  \<^item> Whether the real service keeps the promises its client relies on: what it answers is a parameter, and
    the test server is the only server here.
\<close>

end
